(* ===== verification/Prelude.thy ===== *)
theory Prelude
  imports Complex_Main "HOL-Library.AList" "HOL-Library.Char_ord" "HOL-Library.List_Lexorder"
    "HOL-Library.Multiset"
begin

text \<open>
  What every theory of the development shares: the collections of simplification rules the
  component proofs are driven by, results (\<open>Inl\<close> is the error a Go function returns,
  \<open>Inr\<close> its value), and Go maps. A Go map with string keys is an association list with
  distinct keys; its iteration order is not specified, so an operation that ranges over a
  map takes the order it meets as an argument \<open>it\<close> with \<open>is_order it\<close>.
\<close>

named_theorems step_simps
  \<open>definitions of the operations of a component, unfolded by its invariant proofs\<close>

named_theorems inv_intros
  \<open>preservation facts: every operation keeps the invariant of its component\<close>

type_synonym ('k, 'v) gomap = "('k \<times> 'v) list"

abbreviation lookup :: "('k, 'v) gomap \<Rightarrow> 'k \<Rightarrow> 'v option" where
  "lookup m k \<equiv> map_of m k"

abbreviation put :: "'k \<Rightarrow> 'v \<Rightarrow> ('k, 'v) gomap \<Rightarrow> ('k, 'v) gomap" where
  "put k v m \<equiv> AList.update k v m"

abbreviation del :: "'k \<Rightarrow> ('k, 'v) gomap \<Rightarrow> ('k, 'v) gomap" where
  "del k m \<equiv> AList.delete k m"

definition wf_map :: "('k, 'v) gomap \<Rightarrow> bool" where
  "wf_map m \<longleftrightarrow> distinct (map fst m)"

text \<open>Reading a missing key of a Go map gives the zero value of the element type.\<close>

definition get_or :: "'v \<Rightarrow> ('k, 'v) gomap \<Rightarrow> 'k \<Rightarrow> 'v" where
  "get_or z m k = (case lookup m k of None \<Rightarrow> z | Some v \<Rightarrow> v)"

lemma wf_map_Nil [simp, inv_intros]: "wf_map []"
  by (simp add: wf_map_def)

lemma wf_map_put [simp, inv_intros]: "wf_map m \<Longrightarrow> wf_map (put k v m)"
  by (simp add: wf_map_def distinct_update)

lemma wf_map_del [simp, inv_intros]: "wf_map m \<Longrightarrow> wf_map (del k m)"
  by (simp add: wf_map_def distinct_delete)

lemma lookup_put [simp]: "lookup (put k v m) j = (if j = k then Some v else lookup m j)"
  by (simp add: update_conv')

lemma lookup_del [simp]: "lookup (del k m) j = (if j = k then None else lookup m j)"
  by (simp add: delete_conv')

lemma get_or_put [simp]: "get_or z (put k v m) j = (if j = k then v else get_or z m j)"
  by (simp add: get_or_def)

lemma get_or_del [simp]: "get_or z (del k m) j = (if j = k then z else get_or z m j)"
  by (simp add: get_or_def)

definition is_order :: "(('k \<times> 'v) list \<Rightarrow> ('k \<times> 'v) list) \<Rightarrow> bool" where
  "is_order it \<longleftrightarrow> (\<forall>m. mset (it m) = mset m)"

lemma is_order_id [simp]: "is_order (\<lambda>m. m)"
  by (simp add: is_order_def)

lemma is_order_set: "is_order it \<Longrightarrow> set (it m) = set m"
  by (metis is_order_def set_mset_mset)

lemma wf_map_lookup_iff: "wf_map m \<Longrightarrow> lookup m k = Some v \<longleftrightarrow> (k, v) \<in> set m"
  by (simp add: wf_map_def)

lemma find_SomeD: "find P xs = Some x \<Longrightarrow> P x \<and> x \<in> set xs"
  by (induction xs) (auto split: if_splits)

lemma list_all_put: "list_all P m \<Longrightarrow> P (k, v) \<Longrightarrow> list_all P (put k v m)"
  by (induction m) auto

lemma list_all_del: "list_all P m \<Longrightarrow> list_all P (del k m)"
  by (induction m) auto

lemma list_all_lookup: "list_all P m \<Longrightarrow> lookup m k = Some v \<Longrightarrow> P (k, v)"
  by (induction m) (auto split: if_splits)

text \<open>
  Errors. \<open>fmt.Errorf\<close> is its format with the values of its verbs, printed; with \<open>%w\<close> it
  wraps another error. A sentinel (\<open>errors.New\<close>) is an \<open>Errorf\<close> with no values, and
  \<open>errors.Is\<close> looks through the wrapping.
\<close>

datatype goerror =
  Errorf string "string list"
| Wrapf string "string list" goerror

fun errors_is :: "goerror \<Rightarrow> goerror \<Rightarrow> bool" where
  "errors_is e target = (e = target \<or> (case e of Errorf f as \<Rightarrow> False | Wrapf f as e' \<Rightarrow> errors_is e' target))"

declare errors_is.simps [simp del]

lemma errors_is_refl [simp]: "errors_is e e"
  by (simp add: errors_is.simps)

lemma errors_is_wrap [simp]: "errors_is e t \<Longrightarrow> errors_is (Wrapf f as e) t"
  by (simp add: errors_is.simps [of "Wrapf f as e"])

lemma errors_is_errorf [simp]: "errors_is (Errorf f as) t \<longleftrightarrow> Errorf f as = t"
  by (simp add: errors_is.simps)

text \<open>Early returns in sequence: the error of the first guard that holds.\<close>

fun guards :: "(bool \<times> goerror) list \<Rightarrow> goerror option" where
  "guards [] = None"
| "guards ((b, e) # gs) = (if b then Some e else guards gs)"

declare guards.simps [simp del]

lemma guards_None: "guards gs = None \<longleftrightarrow> list_all (\<lambda>(b, e). \<not> b) gs"
  by (induction gs rule: guards.induct) (auto simp: guards.simps)

lemma guards_append: "guards (xs @ ys) = (case guards xs of Some e \<Rightarrow> Some e | None \<Rightarrow> guards ys)"
  by (induction xs rule: guards.induct) (auto simp: guards.simps)

text \<open>Results.\<close>

fun is_ok :: "'e + 'a \<Rightarrow> bool" where
  "is_ok (Inr x) = True"
| "is_ok (Inl e) = False"

lemma is_ok_iff: "is_ok r \<longleftrightarrow> (\<exists>x. r = Inr x)"
  by (cases r) simp_all

end
