(* ===== verification/GoFloat.thy ===== *)
theory GoFloat
  imports Prelude
begin

text \<open>
  Go's \<open>float64\<close> (IEEE 754 binary64, round to nearest, ties to even), which every
  price, size and ratio of the program is computed in. A value is \<open>NaN\<close>, an
  infinity (the flag says negative) or a finite number kept as the exact rational it
  denotes; \<open>fround\<close> is the rounding every arithmetic operation applies to its exact
  result, computed on integers so that closed terms evaluate. Comparisons with
  \<open>NaN\<close> are false, as in Go. The two zeros are one value here: no code of the program
  divides by a zero whose sign it could tell.

  The second half proves what the rest of the development needs of the rounding: it is
  monotone, it is exact on every representable number (integers up to \<open>2 ^ 53\<close>
  included), and the comparison operators behave as orders away from \<open>NaN\<close>.
\<close>

subsection \<open>Rounding\<close>

fun bits :: "int \<Rightarrow> int" where
  "bits n = (if n \<le> 0 then 0 else 1 + bits (n div 2))"

declare bits.simps [simp del]

definition pow2 :: "int \<Rightarrow> int" where
  "pow2 k = 2 ^ nat k"

definition rne_div :: "int \<Rightarrow> int \<Rightarrow> int" where
  "rne_div n d = (let f = n div d; r = n mod d
     in if 2 * r < d then f else if d < 2 * r then f + 1 else if even f then f else f + 1)"

definition flog2 :: "int \<Rightarrow> int \<Rightarrow> int" where
  "flog2 n d = (let k = bits n - bits d
     in if pow2 (- k) * n < pow2 k * d then k - 1 else k)"

definition fexp :: "int \<Rightarrow> int \<Rightarrow> int" where
  "fexp n d = max (- 1074) (flog2 \<bar>n\<bar> d - 52)"

datatype f64 = NaN | Infty bool | Fin rat

definition fround :: "rat \<Rightarrow> f64" where
  "fround q = (case quotient_of q of (n, d) \<Rightarrow>
     if n = 0 then Fin 0
     else let e = fexp n d; m = rne_div (n * pow2 (- e)) (d * pow2 e)
          in if 971 < e \<or> (e = 971 \<and> 9007199254740992 \<le> \<bar>m\<bar>) then Infty (n < 0)
             else Fin (Fract (m * pow2 e) (pow2 (- e))))"

subsection \<open>Specification of the rounding\<close>

lemma pow2_pos [simp]: "0 < pow2 k"
  by (simp add: pow2_def)

lemma pow2_quot: "(of_int (pow2 k) :: rat) / of_int (pow2 (- k)) = 2 powi k"
proof (cases "0 \<le> k")
  case True
  then show ?thesis by (simp add: pow2_def power_int_def)
next
  case False
  then show ?thesis by (simp add: pow2_def power_int_def power_one_over)
qed

lemma bits_bounds:
  "0 < n \<Longrightarrow> 0 < bits n \<and> 2 ^ nat (bits n - 1) \<le> n \<and> n < 2 ^ nat (bits n)"
proof (induction n rule: bits.induct)
  case (1 n)
  show ?case
  proof (cases "n = 1")
    case True
    then show ?thesis by (simp add: bits.simps [of 1] bits.simps [of 0])
  next
    case False
    with "1.prems" have pos: "0 < n div 2" by simp
    with "1.IH" "1.prems" have IH: "0 < bits (n div 2)" "2 ^ nat (bits (n div 2) - 1) \<le> n div 2"
      "n div 2 < 2 ^ nat (bits (n div 2))" by simp_all
    have b: "bits n = 1 + bits (n div 2)" using "1.prems" by (simp add: bits.simps [of n])
    have e1: "nat (bits n - 1) = Suc (nat (bits (n div 2) - 1))"
      and e2: "nat (bits n) = Suc (nat (bits (n div 2)))" using IH(1) by (simp_all add: b)
    have "2 * 2 ^ nat (bits (n div 2) - 1) \<le> n" and "n < 2 * 2 ^ nat (bits (n div 2))"
      using IH(2,3) by presburger+
    then show ?thesis using IH(1) by (simp only: e1 e2 power_Suc) (simp add: b)
  qed
qed

lemma bits_bounds_rat:
  assumes "0 < n"
  shows "(2::rat) powi (bits n - 1) \<le> of_int n" and "(of_int n :: rat) < 2 powi bits n"
proof -
  have "(of_int (2 ^ nat (bits n - 1)) :: rat) \<le> of_int n"
    using bits_bounds [OF assms] by (simp only: of_int_le_iff)
  then show "(2::rat) powi (bits n - 1) \<le> of_int n"
    using bits_bounds [OF assms] by (simp add: power_int_def)
  have "(of_int n :: rat) < of_int (2 ^ nat (bits n))"
    using bits_bounds [OF assms] by (simp only: of_int_less_iff)
  then show "(of_int n :: rat) < 2 powi bits n"
    using bits_bounds [OF assms] by (simp add: power_int_def)
qed

lemma pow2_compare:
  assumes "0 < d"
  shows "pow2 (- k) * n < pow2 k * d \<longleftrightarrow> of_int n / of_int d < (2::rat) powi k"
proof -
  have "pow2 (- k) * n < pow2 k * d \<longleftrightarrow> (of_int (pow2 (- k) * n) :: rat) < of_int (pow2 k * d)"
    by (simp only: of_int_less_iff)
  also have "\<dots> \<longleftrightarrow> of_int n / of_int d < (of_int (pow2 k) :: rat) / of_int (pow2 (- k))"
    using assms by (simp add: field_simps)
  finally show ?thesis by (simp only: pow2_quot)
qed

lemma flog2_bounds:
  assumes "0 < n" and "0 < d"
  shows "(2::rat) powi flog2 n d \<le> of_int n / of_int d"
    and "of_int n / of_int d < (2::rat) powi (flog2 n d + 1)"
proof -
  let ?k = "bits n - bits d" and ?q = "of_int n / of_int d :: rat"
  have "(2::rat) powi (?k - 1) = 2 powi (bits n - 1) / 2 powi bits d"
    by (simp add: power_int_diff)
  also have "\<dots> \<le> of_int n / of_int d"
    using bits_bounds_rat [OF assms(1)] bits_bounds_rat [OF assms(2)] assms
    by (intro frac_le) simp_all
  finally have lo: "(2::rat) powi (?k - 1) \<le> ?q" .
  have "?q < 2 powi bits n / 2 powi (bits d - 1)"
    using bits_bounds_rat [OF assms(1)] bits_bounds_rat [OF assms(2)] assms
    by (intro frac_less) simp_all
  also have "\<dots> = 2 powi (?k + 1)"
    by (simp add: power_int_diff power_int_add)
  finally have hi: "?q < 2 powi (?k + 1)" .
  have "flog2 n d = (if ?q < 2 powi ?k then ?k - 1 else ?k)"
    using pow2_compare [OF assms(2)] by (simp add: flog2_def Let_def)
  then show "(2::rat) powi flog2 n d \<le> ?q" and "?q < (2::rat) powi (flog2 n d + 1)"
    using lo hi by (auto split: if_splits)
qed


text \<open>Round half to even on rationals, the value the integer division computes.\<close>

definition rne :: "rat \<Rightarrow> int" where
  "rne x = (let f = \<lfloor>x\<rfloor>; d = x - of_int f
            in if d < 1/2 then f else if 1/2 < d then f + 1 else if even f then f else f + 1)"

lemma rne_div_rne:
  assumes "0 < d"
  shows "rne_div n d = rne (of_int n / of_int d)"
proof -
  have f: "\<lfloor>of_int n / of_int d :: rat\<rfloor> = n div d" by (rule floor_divide_of_int_eq)
  have "(of_int n / of_int d :: rat) - of_int (n div d) = of_int (n mod d) / of_int d"
    using assms by (simp add: field_simps minus_mult_div_eq_mod [symmetric])
  moreover have "(of_int (n mod d) / of_int d :: rat) < 1 / 2 \<longleftrightarrow> of_int (2 * (n mod d)) < (of_int d :: rat)"
    and "1 / 2 < (of_int (n mod d) / of_int d :: rat) \<longleftrightarrow> (of_int d :: rat) < of_int (2 * (n mod d))"
    using assms by (auto simp: pos_divide_less_eq pos_less_divide_eq)
  ultimately show ?thesis by (simp only: rne_div_def rne_def Let_def f of_int_less_iff)
qed

lemma rne_of_int [simp]: "rne (of_int n) = n"
  by (simp add: rne_def)

lemma rne_near: "\<bar>of_int (rne x) - x\<bar> \<le> 1 / 2"
proof -
  have "of_int \<lfloor>x\<rfloor> \<le> x" "x < of_int \<lfloor>x\<rfloor> + 1" using floor_correct [of x] by simp_all
  then show ?thesis unfolding rne_def Let_def abs_le_iff by (auto; linarith)
qed

lemma rne_mono:
  assumes "x \<le> y"
  shows "rne x \<le> rne y"
proof (cases "\<lfloor>x\<rfloor> = \<lfloor>y\<rfloor>")
  case True
  with assms show ?thesis by (auto simp: rne_def Let_def)
next
  case False
  with floor_mono [OF assms] have "\<lfloor>x\<rfloor> + 1 \<le> \<lfloor>y\<rfloor>" by simp
  moreover have "rne x \<le> \<lfloor>x\<rfloor> + 1" "\<lfloor>y\<rfloor> \<le> rne y" by (simp_all add: rne_def Let_def)
  ultimately show ?thesis by linarith
qed

lemma rne_nonneg: "0 \<le> x \<Longrightarrow> 0 \<le> rne x"
  using rne_mono [of 0 x] rne_of_int [of 0] by simp

definition fexponent :: "rat \<Rightarrow> int" where
  "fexponent q = (case quotient_of q of (n, d) \<Rightarrow> fexp n d)"

lemma fexponent_bounds:
  assumes "q \<noteq> 0"
  shows "\<bar>q\<bar> < 2 powi (fexponent q + 53)"
    and "- 1074 < fexponent q \<Longrightarrow> 2 powi (fexponent q + 52) \<le> \<bar>q\<bar>"
    and "- 1074 \<le> fexponent q"
proof -
  obtain n d where nd: "quotient_of q = (n, d)" by (cases "quotient_of q")
  have d: "0 < d" using quotient_of_denom_pos [OF nd] .
  have q: "q = of_int n / of_int d" using quotient_of_div [OF nd] .
  with assms have n: "0 < \<bar>n\<bar>" by auto
  have aq: "\<bar>q\<bar> = of_int \<bar>n\<bar> / of_int d" using d by (simp add: q)
  have e: "fexponent q = max (- 1074) (flog2 \<bar>n\<bar> d - 52)" by (simp add: fexponent_def nd fexp_def)
  have "\<bar>q\<bar> < 2 powi (flog2 \<bar>n\<bar> d + 1)" unfolding aq by (rule flog2_bounds [OF n d])
  also have "\<dots> \<le> 2 powi (fexponent q + 53)" by (rule power_int_increasing) (simp_all add: e)
  finally show "\<bar>q\<bar> < 2 powi (fexponent q + 53)" .
  show "- 1074 \<le> fexponent q" by (simp add: e)
  assume "- 1074 < fexponent q"
  then have "fexponent q + 52 = flog2 \<bar>n\<bar> d" by (simp add: e max_def split: if_splits)
  then show "2 powi (fexponent q + 52) \<le> \<bar>q\<bar>" unfolding aq using flog2_bounds [OF n d] by simp
qed

lemma powi2_mono: "a \<le> b \<Longrightarrow> (2::rat) powi a \<le> 2 powi b"
  by (rule power_int_increasing) simp_all

lemma rne_bounded:
  assumes "q \<noteq> 0"
  shows "\<bar>rne (q / 2 powi fexponent q)\<bar> \<le> 2 ^ 53"
    and "- 1074 < fexponent q \<Longrightarrow> 2 ^ 52 \<le> \<bar>rne (q / 2 powi fexponent q)\<bar>"
proof -
  let ?e = "fexponent q" and ?x = "q / 2 powi fexponent q"
  have "\<bar>?x\<bar> < 2 powi 53"
    using fexponent_bounds(1) [OF assms] by (simp add: power_int_add divide_less_eq mult.commute)
  then have "?x \<le> of_int (2 ^ 53)" "of_int (- (2 ^ 53)) \<le> ?x"
    unfolding abs_less_iff by (simp_all add: minus_less_iff)
  then have "rne ?x \<le> 2 ^ 53" "- (2 ^ 53) \<le> rne ?x"
    using rne_mono [of ?x "of_int (2 ^ 53)"] rne_mono [of "of_int (- (2 ^ 53))" ?x]
    by (simp_all only: rne_of_int)
  then show "\<bar>rne ?x\<bar> \<le> 2 ^ 53" by simp
  assume "- 1074 < ?e"
  from fexponent_bounds(2) [OF assms this] have "2 powi 52 \<le> \<bar>?x\<bar>"
    by (simp add: power_int_add le_divide_eq mult.commute)
  then consider "of_int (2 ^ 52) \<le> ?x" | "?x \<le> of_int (- (2 ^ 52))"
    by (cases "0 \<le> ?x") simp_all
  then show "2 ^ 52 \<le> \<bar>rne ?x\<bar>"
  proof cases
    case 1
    from rne_mono [OF 1] show ?thesis by (simp only: rne_of_int)
  next
    case 2
    from rne_mono [OF 2] show ?thesis by (simp only: rne_of_int)
  qed
qed


definition fvalue :: "rat \<Rightarrow> rat" where
  "fvalue q = (if q = 0 then 0 else of_int (rne (q / 2 powi fexponent q)) * 2 powi fexponent q)"

lemma fvalue_abs:
  "q \<noteq> 0 \<Longrightarrow> \<bar>fvalue q\<bar> = of_int \<bar>rne (q / 2 powi fexponent q)\<bar> * 2 powi fexponent q"
  by (simp add: fvalue_def abs_mult)

lemma overflow_large:
  assumes "q \<noteq> 0"
    and "971 < fexponent q \<or> (fexponent q = 971 \<and> 2 ^ 53 \<le> \<bar>rne (q / 2 powi fexponent q)\<bar>)"
  shows "2 powi 1024 \<le> \<bar>fvalue q\<bar>"
proof -
  let ?e = "fexponent q" and ?m = "rne (q / 2 powi fexponent q)"
  obtain k :: nat where k: "2 ^ k \<le> \<bar>?m\<bar>" "1024 \<le> int k + ?e"
  proof (cases "?e = 971")
    case True
    with assms that [of 53] show ?thesis by simp
  next
    case False
    with assms rne_bounded(2) [OF assms(1)] that [of 52] show ?thesis by simp
  qed
  have "(of_int (2 ^ k) :: rat) \<le> of_int \<bar>?m\<bar>" using k(1) by (simp only: of_int_le_iff)
  then have "2 ^ k * 2 powi ?e \<le> (of_int \<bar>?m\<bar> :: rat) * 2 powi ?e"
    by (intro mult_right_mono) simp_all
  moreover have "(2::rat) ^ k * 2 powi ?e = 2 powi (int k + ?e)" by (simp add: power_int_add)
  moreover have "(2::rat) powi 1024 \<le> 2 powi (int k + ?e)" using k(2) by (rule powi2_mono)
  ultimately show ?thesis by (simp only: fvalue_abs [OF assms(1)])
qed

lemma no_overflow_small:
  assumes "q \<noteq> 0"
    and "\<not> (971 < fexponent q \<or> (fexponent q = 971 \<and> 2 ^ 53 \<le> \<bar>rne (q / 2 powi fexponent q)\<bar>))"
  shows "\<bar>fvalue q\<bar> < 2 powi 1024"
proof -
  let ?e = "fexponent q" and ?m = "rne (q / 2 powi fexponent q)"
  have le: "(of_int \<bar>?m\<bar> :: rat) \<le> of_int (2 ^ 53)"
    using rne_bounded(1) [OF assms(1)] by (simp only: of_int_le_iff)
  show ?thesis
  proof (cases "?e = 971")
    case True
    with assms have "(of_int \<bar>?m\<bar> :: rat) < of_int (2 ^ 53)" by (simp only: of_int_less_iff) simp
    then have "of_int \<bar>?m\<bar> * 2 powi ?e < (of_int (2 ^ 53) :: rat) * 2 powi ?e"
      by (intro mult_strict_right_mono) simp_all
    also have "\<dots> = 2 powi 53 * 2 powi ?e" by simp
    also have "\<dots> = 2 powi 1024" by (simp add: True flip: power_int_add)
    finally show ?thesis by (simp only: fvalue_abs [OF assms(1)])
  next
    case False
    from le have "of_int \<bar>?m\<bar> * 2 powi ?e \<le> (of_int (2 ^ 53) :: rat) * 2 powi ?e"
      by (intro mult_right_mono) simp_all
    also have "\<dots> = 2 powi 53 * 2 powi ?e" by simp
    also have "\<dots> = 2 powi (53 + ?e)" by (simp add: power_int_add)
    also have "\<dots> < 2 powi 1024" using assms(2) False by (intro power_int_strict_increasing) auto
    finally show ?thesis by (simp only: fvalue_abs [OF assms(1)])
  qed
qed

lemma fround_fvalue:
  "fround q = (if 2 powi 1024 \<le> \<bar>fvalue q\<bar> then Infty (q < 0) else Fin (fvalue q))"
proof (cases "q = 0")
  case True
  then show ?thesis by (simp add: fround_def fvalue_def)
next
  case False
  obtain n d where nd: "quotient_of q = (n, d)" by (cases "quotient_of q")
  have d: "0 < d" using quotient_of_denom_pos [OF nd] .
  have q: "q = of_int n / of_int d" using quotient_of_div [OF nd] .
  let ?e = "fexponent q"
  let ?m = "rne (q / 2 powi ?e)"
  have n: "n \<noteq> 0" "n < 0 \<longleftrightarrow> q < 0" using False d by (auto simp: q divide_less_0_iff)
  have e: "fexp n d = ?e" by (simp add: fexponent_def nd)
  have "rne_div (n * pow2 (- ?e)) (d * pow2 ?e)
      = rne (of_int (n * pow2 (- ?e)) / of_int (d * pow2 ?e))"
    using d by (intro rne_div_rne) simp
  also have "of_int (n * pow2 (- ?e)) / of_int (d * pow2 ?e)
      = q / (of_int (pow2 ?e) / of_int (pow2 (- ?e)))" by (simp add: q)
  finally have m: "rne_div (n * pow2 (- ?e)) (d * pow2 ?e) = ?m" by (simp only: pow2_quot)
  have "Fract (?m * pow2 ?e) (pow2 (- ?e)) = of_int ?m * (of_int (pow2 ?e) / of_int (pow2 (- ?e)))"
    by (simp add: Fract_of_int_quotient)
  then have v: "Fract (?m * pow2 ?e) (pow2 (- ?e)) = fvalue q"
    using False by (simp only: pow2_quot) (simp add: fvalue_def)
  have p53: "(9007199254740992 :: int) = 2 ^ 53" by simp
  have "971 < ?e \<or> (?e = 971 \<and> 2 ^ 53 \<le> \<bar>?m\<bar>) \<longleftrightarrow> 2 powi 1024 \<le> \<bar>fvalue q\<bar>"
    using overflow_large [OF False] no_overflow_small [OF False] by (meson not_le)
  then show ?thesis
    using n by (simp only: fround_def nd prod.case Let_def e m v p53) simp
qed

lemma rne_uminus: "rne (- x) = - rne x"
proof (cases "x = of_int \<lfloor>x\<rfloor>")
  case True
  then have "- x = of_int (- \<lfloor>x\<rfloor>)" by simp
  then show ?thesis by (metis True rne_of_int)
next
  case False
  then have f: "\<lfloor>- x\<rfloor> = - \<lfloor>x\<rfloor> - 1"
    using floor_correct [of x] by (intro floor_unique) (simp_all, linarith)
  show ?thesis unfolding rne_def Let_def f by (auto; linarith)
qed

lemma fexponent_uminus: "fexponent (- q) = fexponent q"
proof -
  obtain n d where nd: "quotient_of q = (n, d)" by (cases "quotient_of q")
  then have "quotient_of (- q) = (- n, d)" by (simp add: rat_uminus_code)
  with nd show ?thesis by (simp add: fexponent_def fexp_def)
qed

lemma fvalue_uminus: "fvalue (- q) = - fvalue q"
  using rne_uminus [of "q / 2 powi fexponent q"] by (simp add: fvalue_def fexponent_uminus)

lemma fvalue_nonneg: "0 \<le> q \<Longrightarrow> 0 \<le> fvalue q"
  by (simp add: fvalue_def rne_nonneg)

lemma fvalue_mono_pos:
  assumes "0 < p" and "p \<le> q"
  shows "fvalue p \<le> fvalue q"
proof (cases "fexponent p = fexponent q")
  case True
  have "rne (p / 2 powi fexponent q) \<le> rne (q / 2 powi fexponent q)"
    using assms by (intro rne_mono divide_right_mono) simp_all
  then have "(of_int (rne (p / 2 powi fexponent q)) :: rat) \<le> of_int (rne (q / 2 powi fexponent q))"
    by (simp only: of_int_le_iff)
  with assms True show ?thesis by (simp add: fvalue_def mult_right_mono)
next
  case False
  let ?e = "fexponent p" and ?f = "fexponent q"
  have nz: "p \<noteq> 0" "q \<noteq> 0" using assms by simp_all
  have "?e < ?f"
  proof (rule ccontr)
    assume "\<not> ?e < ?f"
    with False have "?f + 53 \<le> ?e + 52" and "- 1074 < ?e" using fexponent_bounds(3) [OF nz(2)] by linarith+
    then have "(2::rat) powi (?f + 53) \<le> \<bar>p\<bar>"
      using fexponent_bounds(2) [OF nz(1)] powi2_mono by (meson order_trans)
    with fexponent_bounds(1) [OF nz(2)] assms show False by simp
  qed
  then have f: "- 1074 < ?f" using fexponent_bounds(3) [OF nz(1)] by linarith
  have a: "(of_int (rne (p / 2 powi ?e)) :: rat) \<le> of_int (2 ^ 53)"
    using rne_bounded(1) [OF nz(1)] by (simp only: of_int_le_iff)
  have "0 \<le> rne (q / 2 powi ?f)" using assms by (intro rne_nonneg) simp
  then have b: "(of_int (2 ^ 52) :: rat) \<le> of_int (rne (q / 2 powi ?f))"
    using rne_bounded(2) [OF nz(2) f] by (simp only: of_int_le_iff abs_of_nonneg)
  have "fvalue p \<le> of_int (2 ^ 53) * 2 powi ?e" using a nz by (simp add: fvalue_def mult_right_mono)
  also have "\<dots> = 2 powi (?e + 53)" by (simp add: power_int_add)
  also have "\<dots> \<le> 2 powi (?f + 52)" using \<open>?e < ?f\<close> by (intro powi2_mono) simp
  also have "\<dots> = of_int (2 ^ 52) * 2 powi ?f" by (simp add: power_int_add)
  also have "\<dots> \<le> fvalue q" using b nz by (simp add: fvalue_def mult_right_mono)
  finally show ?thesis .
qed

lemma fvalue_0 [simp]: "fvalue 0 = 0"
  by (simp add: fvalue_def)

lemma fvalue_mono:
  assumes "p \<le> q"
  shows "fvalue p \<le> fvalue q"
proof -
  consider "0 < p" | "p \<le> 0" "0 \<le> q" | "q < 0" by linarith
  then show ?thesis
  proof cases
    case 1
    then show ?thesis using assms by (rule fvalue_mono_pos)
  next
    case 2
    then show ?thesis using fvalue_nonneg [of q] fvalue_nonneg [of "- p"] by (simp add: fvalue_uminus)
  next
    case 3
    then show ?thesis using fvalue_mono_pos [of "- q" "- p"] assms by (simp add: fvalue_uminus)
  qed
qed

lemma fvalue_exact:
  assumes "\<bar>m\<bar> \<le> 2 ^ 53" and "- 1074 \<le> k" and r: "r = of_int m * 2 powi k"
  shows "fvalue r = r"
proof (cases "r = 0")
  case True
  then show ?thesis by simp
next
  case False
  let ?e = "fexponent r"
  have "\<exists>m'. r / 2 powi ?e = of_int m'"
  proof (cases "?e \<le> k")
    case True
    then have "r / 2 powi ?e = of_int (m * 2 ^ nat (k - ?e))"
      by (simp add: r power_int_diff flip: power_int_of_nat)
    then show ?thesis by blast
  next
    case gt: False
    have "(of_int \<bar>m\<bar> :: rat) \<le> of_int (2 ^ 53)" using assms(1) by (simp only: of_int_le_iff)
    then have up: "\<bar>r\<bar> \<le> of_int (2 ^ 53) * 2 powi k" by (simp add: r abs_mult mult_right_mono)
    have lo: "2 powi (?e + 52) \<le> \<bar>r\<bar>" using fexponent_bounds(2) [OF False] gt assms(2) by simp
    have "(2::rat) powi (?e + 52) \<le> 2 powi (k + 53)"
      using lo up by (simp add: power_int_add mult.commute)
    then have "?e + 52 \<le> k + 53"
      using power_int_strict_increasing [of "k + 53" "?e + 52" "2::rat"] by (meson not_le one_less_numeral_iff semiring_norm(76))
    then have ek: "?e = k + 1" using gt by simp
    have "of_int (2 ^ 53) * 2 powi k \<le> \<bar>r\<bar>" using lo by (simp add: ek power_int_add)
    then have "(of_int (2 ^ 53) :: rat) \<le> of_int \<bar>m\<bar>" by (simp add: r abs_mult)
    then have "\<bar>m\<bar> = 2 ^ 53" using assms(1) by (simp only: of_int_le_iff)
    then have "m = 2 ^ 53 \<or> m = - (2 ^ 53)" by linarith
    then have "m = 2 * (m div 2)" by auto
    then have "(of_int m :: rat) = 2 * of_int (m div 2)" by (metis of_int_mult of_int_numeral)
    then have "r / 2 powi (k + 1) = of_int (m div 2)" by (simp add: r power_int_add)
    then have "r / 2 powi ?e = of_int (m div 2)" by (simp only: ek)
    then show ?thesis by blast
  qed
  then obtain m' where m': "r / 2 powi ?e = of_int m'" by blast
  then have "r = of_int m' * 2 powi ?e" by (simp add: field_simps)
  then show ?thesis using False by (simp only: fvalue_def m' rne_of_int) simp
qed

lemma fround_of_int: 
  assumes "\<bar>n\<bar> \<le> 2 ^ 53"
  shows "fround (of_int n) = Fin (of_int n)"
proof -
  have v: "fvalue (of_int n) = of_int n" using assms by (intro fvalue_exact [of n 0]) simp_all
  have "(of_int \<bar>n\<bar> :: rat) \<le> of_int (2 ^ 53)" using assms by (simp only: of_int_le_iff)
  also have "\<dots> = 2 powi 53" by simp
  also have "\<dots> < 2 powi 1024" by (rule power_int_strict_increasing) simp_all
  finally show ?thesis by (simp add: fround_fvalue v)
qed


subsection \<open>Operators\<close>

fun is_nan :: "f64 \<Rightarrow> bool" where
  "is_nan NaN = True"
| "is_nan _ = False"

fun is_inf :: "f64 \<Rightarrow> bool" where
  "is_inf (Infty _) = True"
| "is_inf _ = False"

fun flt :: "f64 \<Rightarrow> f64 \<Rightarrow> bool" where
  "flt (Fin a) (Fin b) = (a < b)"
| "flt (Infty s) (Fin b) = s"
| "flt (Fin a) (Infty t) = (\<not> t)"
| "flt (Infty s) (Infty t) = (s \<and> \<not> t)"
| "flt _ _ = False"

fun feq :: "f64 \<Rightarrow> f64 \<Rightarrow> bool" where
  "feq (Fin a) (Fin b) = (a = b)"
| "feq (Infty s) (Infty t) = (s = t)"
| "feq _ _ = False"

fun fneg :: "f64 \<Rightarrow> f64" where
  "fneg (Fin a) = Fin (- a)"
| "fneg (Infty s) = Infty (\<not> s)"
| "fneg NaN = NaN"

fun fadd :: "f64 \<Rightarrow> f64 \<Rightarrow> f64" where
  "fadd (Fin a) (Fin b) = fround (a + b)"
| "fadd (Infty s) (Fin b) = Infty s"
| "fadd (Fin a) (Infty t) = Infty t"
| "fadd (Infty s) (Infty t) = (if s = t then Infty s else NaN)"
| "fadd _ _ = NaN"

fun fmul :: "f64 \<Rightarrow> f64 \<Rightarrow> f64" where
  "fmul (Fin a) (Fin b) = fround (a * b)"
| "fmul (Infty s) (Fin b) = (if b = 0 then NaN else Infty (s \<noteq> (b < 0)))"
| "fmul (Fin a) (Infty t) = (if a = 0 then NaN else Infty (t \<noteq> (a < 0)))"
| "fmul (Infty s) (Infty t) = Infty (s \<noteq> t)"
| "fmul _ _ = NaN"

fun fdiv :: "f64 \<Rightarrow> f64 \<Rightarrow> f64" where
  "fdiv (Fin a) (Fin b) =
     (if b = 0 then (if a = 0 then NaN else Infty (a < 0)) else fround (a / b))"
| "fdiv (Infty s) (Fin b) = Infty (s \<noteq> (b < 0))"
| "fdiv (Fin a) (Infty t) = Fin 0"
| "fdiv _ _ = NaN"

instantiation f64 :: "{ord, zero, one, plus, minus, uminus, times, inverse, abs}"
begin

definition less_f64 :: "f64 \<Rightarrow> f64 \<Rightarrow> bool" where
  "less_f64 a b = flt a b"

definition less_eq_f64 :: "f64 \<Rightarrow> f64 \<Rightarrow> bool" where
  "less_eq_f64 a b = (flt a b \<or> feq a b)"

definition zero_f64 :: f64 where
  "zero_f64 = Fin 0"

definition one_f64 :: f64 where
  "one_f64 = Fin 1"

definition uminus_f64 :: "f64 \<Rightarrow> f64" where
  "uminus_f64 a = fneg a"

definition plus_f64 :: "f64 \<Rightarrow> f64 \<Rightarrow> f64" where
  "plus_f64 a b = fadd a b"

definition minus_f64 :: "f64 \<Rightarrow> f64 \<Rightarrow> f64" where
  "minus_f64 a b = fadd a (fneg b)"

definition times_f64 :: "f64 \<Rightarrow> f64 \<Rightarrow> f64" where
  "times_f64 a b = fmul a b"

definition divide_f64 :: "f64 \<Rightarrow> f64 \<Rightarrow> f64" where
  "divide_f64 a b = fdiv a b"

definition inverse_f64 :: "f64 \<Rightarrow> f64" where
  "inverse_f64 a = fdiv (Fin 1) a"

definition abs_f64 :: "f64 \<Rightarrow> f64" where
  "abs_f64 a = (case a of NaN \<Rightarrow> NaN | Infty _ \<Rightarrow> Infty False | Fin q \<Rightarrow> Fin \<bar>q\<bar>)"

instance ..

end

text \<open>A decimal constant of the source denotes the nearest \<open>float64\<close>; an \<open>int\<close> is converted
  the same way, and a \<open>float64\<close> becomes an \<open>int\<close> by dropping its fraction (a value that is
  not finite or does not fit gives the smallest \<open>int64\<close>, as amd64 does).\<close>

definition lit :: "rat \<Rightarrow> f64" where
  "lit q = fround q"

definition f64_of_int :: "int \<Rightarrow> f64" where
  "f64_of_int n = fround (of_int n)"

definition trunc_rat :: "rat \<Rightarrow> int" where
  "trunc_rat q = (case quotient_of q of (n, d) \<Rightarrow> if n < 0 then - ((- n) div d) else n div d)"

fun int_of_f64 :: "f64 \<Rightarrow> int" where
  "int_of_f64 (Fin q) =
     (let n = trunc_rat q in if - 9223372036854775808 \<le> n \<and> n < 9223372036854775808 then n
      else - 9223372036854775808)"
| "int_of_f64 _ = - 9223372036854775808"

text \<open>Rounding half away from zero, as \<open>math.Round\<close> does.\<close>

definition half_away :: "rat \<Rightarrow> int" where
  "half_away q = (if 0 \<le> q then \<lfloor>q + 1 / 2\<rfloor> else - \<lfloor>1 / 2 - q\<rfloor>)"

text \<open>\<open>math.Min\<close> and \<open>math.Max\<close>, with their rules for infinities and \<open>NaN\<close>.\<close>

definition fmin :: "f64 \<Rightarrow> f64 \<Rightarrow> f64" where
  "fmin a b = (if a = Infty True \<or> b = Infty True then Infty True
     else if is_nan a \<or> is_nan b then NaN else if flt a b then a else b)"

definition fmax :: "f64 \<Rightarrow> f64 \<Rightarrow> f64" where
  "fmax a b = (if a = Infty False \<or> b = Infty False then Infty False
     else if is_nan a \<or> is_nan b then NaN else if flt b a then a else b)"

subsection \<open>Order laws\<close>

lemmas f64_ops = less_f64_def less_eq_f64_def zero_f64_def one_f64_def uminus_f64_def
  plus_f64_def minus_f64_def times_f64_def divide_f64_def inverse_f64_def abs_f64_def

lemma Fin_less [simp]: "Fin a < Fin b \<longleftrightarrow> a < b"
  by (simp add: f64_ops)

lemma Fin_le [simp]: "Fin a \<le> Fin b \<longleftrightarrow> a \<le> b"
  by (auto simp: f64_ops)

lemma Infty_compare [simp]:
  "Infty s < Infty t \<longleftrightarrow> s \<and> \<not> t" "Infty s < Fin b \<longleftrightarrow> s" "Fin a < Infty t \<longleftrightarrow> \<not> t"
  "Infty s \<le> Infty t \<longleftrightarrow> s \<or> \<not> t" "Infty s \<le> Fin b \<longleftrightarrow> s" "Fin a \<le> Infty t \<longleftrightarrow> \<not> t"
  by (auto simp: f64_ops)

lemma NaN_compare [simp]: "\<not> NaN < x" "\<not> x < NaN" "\<not> NaN \<le> x" "\<not> x \<le> NaN"
  by (simp_all add: f64_ops)

lemma f64_less_imp_le: "(a :: f64) < b \<Longrightarrow> a \<le> b"
  by (simp add: f64_ops)

lemma f64_le_trans: "(a :: f64) \<le> b \<Longrightarrow> b \<le> c \<Longrightarrow> a \<le> c"
  by (cases a; cases b; cases c) (auto simp: f64_ops)

lemma f64_less_le_trans: "(a :: f64) < b \<Longrightarrow> b \<le> c \<Longrightarrow> a < c"
  by (cases a; cases b; cases c) (auto simp: f64_ops)

lemma f64_le_less_trans: "(a :: f64) \<le> b \<Longrightarrow> b < c \<Longrightarrow> a < c"
  by (cases a; cases b; cases c) (auto simp: f64_ops)

lemma f64_less_asym: "(a :: f64) < b \<Longrightarrow> \<not> b < a"
  by (cases a; cases b) (auto simp: f64_ops)

lemma f64_le_not_less: "(a :: f64) \<le> b \<Longrightarrow> \<not> b < a"
  by (cases a; cases b) (auto simp: f64_ops)

lemma f64_not_less: "\<not> (a :: f64) < b \<longleftrightarrow> b \<le> a \<or> is_nan a \<or> is_nan b"
  by (cases a; cases b) (auto simp: f64_ops)

lemma f64_not_le: "\<not> (a :: f64) \<le> b \<longleftrightarrow> b < a \<or> is_nan a \<or> is_nan b"
  by (cases a; cases b) (auto simp: f64_ops)

lemma feq_0_0 [simp]: "feq 0 0"
  by (simp add: zero_f64_def)

lemma f64_le_refl: "\<not> is_nan (a :: f64) \<Longrightarrow> a \<le> a"
  by (cases a) (auto simp: f64_ops)

lemma f64_pos_not_nan: "(a :: f64) < b \<Longrightarrow> \<not> is_nan a \<and> \<not> is_nan b"
  by (cases a; cases b) (auto simp: f64_ops)

lemma fround_mono:
  assumes "p \<le> q"
  shows "fround p \<le> fround q"
proof -
  define B :: rat where "B = 2 powi 1024"
  have B: "0 < B" by (simp add: B_def)
  have le: "fvalue p \<le> fvalue q" by (rule fvalue_mono [OF assms])
  have sp: "if p < 0 then fvalue p \<le> 0 else 0 \<le> fvalue p"
    and sq: "if q < 0 then fvalue q \<le> 0 else 0 \<le> fvalue q"
    using fvalue_mono [of p 0] fvalue_mono [of q 0] by (simp_all add: fvalue_nonneg)
  show ?thesis
    unfolding fround_fvalue B_def [symmetric] less_eq_f64_def
    using assms B le sp sq by (cases "p < 0"; cases "q < 0") (auto simp: abs_if split: if_splits)
qed

lemma fround_not_nan [simp]: "\<not> is_nan (fround q)"
  by (simp add: fround_fvalue)

lemma fround_0 [simp]: "fround 0 = Fin 0"
  by (simp add: fround_fvalue)

lemma fround_nonneg: "0 \<le> q \<Longrightarrow> 0 \<le> fround q"
  using fround_mono [of 0 q] by (simp add: zero_f64_def)

lemma fround_nonpos: "q \<le> 0 \<Longrightarrow> fround q \<le> 0"
  using fround_mono [of q 0] by (simp add: zero_f64_def)

lemma Infty_bounds [simp]: "\<not> is_nan x \<Longrightarrow> Infty True \<le> x" "\<not> is_nan x \<Longrightarrow> x \<le> Infty False"
  by (cases x; auto simp: f64_ops)+

lemma f64_add_mono:
  assumes "(a :: f64) \<le> b" and "\<not> is_nan (a + c)" and "\<not> is_nan (b + c)"
  shows "a + c \<le> b + c"
proof (cases "\<exists>x y z. a = Fin x \<and> b = Fin y \<and> c = Fin z")
  case True
  then show ?thesis using assms by (auto simp: plus_f64_def intro!: fround_mono)
next
  case False
  then show ?thesis using assms
    by (cases a; cases b; cases c) (auto simp: plus_f64_def split: if_splits)
qed

subsection \<open>Representable values\<close>

text \<open>A finite value is a \<open>float64\<close> when rounding leaves it alone; every operation gives
  such a value.\<close>

definition float_val :: "f64 \<Rightarrow> bool" where
  "float_val x = (case x of Fin q \<Rightarrow> fround q = Fin q | _ \<Rightarrow> True)"

lemma fvalue_idem [simp]: "fvalue (fvalue q) = fvalue q"
proof (cases "q = 0")
  case False
  show ?thesis
    by (rule fvalue_exact [OF rne_bounded(1) [OF False] fexponent_bounds(3) [OF False]])
      (simp add: fvalue_def False)
qed simp

lemma float_val_fround [simp]: "float_val (fround q)"
  by (simp add: float_val_def fround_fvalue)

lemma float_val_simps [simp]: "float_val NaN" "float_val (Infty b)" "float_val (Fin 0)" "float_val 0"
  by (simp_all add: float_val_def zero_f64_def)

lemma float_val_ops [simp]:
  "float_val (a + b)" "float_val (a - b)" "float_val (a * b)" "float_val (a / b)" "float_val (lit q)"
  by (cases a; cases b; simp add: f64_ops lit_def)+

lemma fround_uminus: "fround (- q) = - fround q"
  by (cases "q = 0") (auto simp: fround_fvalue fvalue_uminus f64_ops)

lemma float_val_uminus [simp]: "float_val (- a) = float_val a"
proof (cases a)
  case (Fin q)
  then show ?thesis by (cases "fround q") (simp_all add: float_val_def fround_uminus f64_ops)
qed (simp_all add: f64_ops)

lemma float_val_abs [simp]: "float_val a \<Longrightarrow> float_val \<bar>a\<bar>"
  using float_val_uminus [of a] by (cases a) (auto simp: float_val_def f64_ops abs_if)

text \<open>Integers up to \<open>2 ^ 53\<close> are exact, which also makes evaluation on them fast.\<close>

lemma fround_numeral [simp]:
  "(numeral k :: int) \<le> 9007199254740992 \<Longrightarrow> fround (numeral k) = Fin (numeral k)"
  "(numeral k :: int) \<le> 9007199254740992 \<Longrightarrow> fround (- numeral k) = Fin (- numeral k)"
  "fround 1 = Fin 1" "fround (- 1) = Fin (- 1)"
  using fround_of_int [of "numeral k"] fround_of_int [of "- numeral k"]
    fround_of_int [of 1] fround_of_int [of "- 1"] by simp_all

lemma fround_code [code]:
  "fround q = (case quotient_of q of (n, d) \<Rightarrow>
     if d = 1 \<and> \<bar>n\<bar> \<le> 9007199254740992 then Fin q
     else if n = 0 then Fin 0
     else let e = fexp n d; m = rne_div (n * pow2 (- e)) (d * pow2 e)
          in if 971 < e \<or> (e = 971 \<and> 9007199254740992 \<le> \<bar>m\<bar>) then Infty (n < 0)
             else Fin (Fract (m * pow2 e) (pow2 (- e))))"
proof -
  obtain n d where nd: "quotient_of q = (n, d)" by (cases "quotient_of q")
  show ?thesis
  proof (cases "d = 1 \<and> \<bar>n\<bar> \<le> 9007199254740992")
    case True
    then have "q = of_int n" using quotient_of_div [OF nd] by simp
    then show ?thesis using True fround_of_int [of n] by (simp add: nd)
  next
    case False
    show ?thesis unfolding fround_def nd prod.case if_not_P [OF False] by (rule refl)
  qed
qed

end
