(* ===== verification/GoStrings.thy ===== *)
theory GoStrings
  imports GoFloat
begin

text \<open>
  The parts of Go's \<open>strings\<close>, \<open>strconv\<close> and \<open>fmt\<close> packages the program uses. A Go
  string is a list of bytes. \<open>TrimSpace\<close> recognises the ASCII blanks and the UTF-8
  encodings of every other Unicode blank; \<open>ToUpper\<close>, \<open>ToLower\<close> and \<open>EqualFold\<close> map the
  ASCII letters and leave other bytes alone (the identifiers of the program, symbols,
  actions and modes, are ASCII). \<open>ParseFloat\<close> reads decimal numbers, infinities and
  \<open>NaN\<close> and rounds once; Go's digit separators and hexadecimal floats are syntax
  errors here. \<open>format_fixed\<close> is the \<open>'f'\<close> format with a fixed number of decimals.
\<close>

subsection \<open>Blanks and letter case\<close>

definition code :: "char \<Rightarrow> int" where
  "code c = of_char c"

definition ascii_space :: "char \<Rightarrow> bool" where
  "ascii_space c \<longleftrightarrow> code c = 32 \<or> (9 \<le> code c \<and> code c \<le> 13)"

definition utf8_spaces :: "int list list" where
  "utf8_spaces =
     [[0xC2, 0x85], [0xC2, 0xA0], [0xE1, 0x9A, 0x80],
      [0xE2, 0x80, 0x80], [0xE2, 0x80, 0x81], [0xE2, 0x80, 0x82], [0xE2, 0x80, 0x83],
      [0xE2, 0x80, 0x84], [0xE2, 0x80, 0x85], [0xE2, 0x80, 0x86], [0xE2, 0x80, 0x87],
      [0xE2, 0x80, 0x88], [0xE2, 0x80, 0x89], [0xE2, 0x80, 0x8A], [0xE2, 0x80, 0xA8],
      [0xE2, 0x80, 0xA9], [0xE2, 0x80, 0xAF], [0xE2, 0x81, 0x9F], [0xE3, 0x80, 0x80]]"

definition starts_with :: "int list \<Rightarrow> string \<Rightarrow> bool" where
  "starts_with p s \<longleftrightarrow> map code (take (length p) s) = p"

fun blank_len :: "int list list \<Rightarrow> string \<Rightarrow> nat" where
  "blank_len ps [] = 0"
| "blank_len ps (c # s) =
     (if code c < 128 then (if ascii_space c then 1 else 0)
      else case find (\<lambda>p. starts_with p (c # s)) ps of None \<Rightarrow> 0 | Some p \<Rightarrow> length p)"

function strip_blanks :: "int list list \<Rightarrow> string \<Rightarrow> string" where
  "strip_blanks ps s =
     (if blank_len ps s = 0 then s else strip_blanks ps (drop (blank_len ps s) s))"
  by pat_completeness auto
termination
proof (relation "measure (\<lambda>(ps, s). length s)", goal_cases)
  case (2 ps s)
  then show ?case by (cases s) auto
qed simp

declare strip_blanks.simps [simp del]

definition trim_space :: "string \<Rightarrow> string" where
  "trim_space s =
     rev (strip_blanks (map rev utf8_spaces) (rev (strip_blanks utf8_spaces s)))"

definition ascii_upper :: "char \<Rightarrow> char" where
  "ascii_upper c = (if 97 \<le> code c \<and> code c \<le> 122 then char_of (code c - 32) else c)"

definition ascii_lower :: "char \<Rightarrow> char" where
  "ascii_lower c = (if 65 \<le> code c \<and> code c \<le> 90 then char_of (code c + 32) else c)"

definition to_upper :: "string \<Rightarrow> string" where
  "to_upper s = map ascii_upper s"

definition to_lower :: "string \<Rightarrow> string" where
  "to_lower s = map ascii_lower s"

definition equal_fold :: "string \<Rightarrow> string \<Rightarrow> bool" where
  "equal_fold s t \<longleftrightarrow> to_lower s = to_lower t"

fun has_prefix :: "string \<Rightarrow> string \<Rightarrow> bool" where
  "has_prefix [] s = True"
| "has_prefix (p # ps) [] = False"
| "has_prefix (p # ps) (c # s) = (p = c \<and> has_prefix ps s)"

fun contains_sub :: "string \<Rightarrow> string \<Rightarrow> bool" where
  "contains_sub [] sub = has_prefix sub []"
| "contains_sub (c # s) sub = (has_prefix sub (c # s) \<or> contains_sub s sub)"

subsection \<open>Laws of trimming and case mapping\<close>

lemma code_bounds: "0 \<le> code c" "code c < 256"
  by (simp_all add: code_def of_char_def)

lemma code_ascii_upper:
  "code (ascii_upper c) = (if 97 \<le> code c \<and> code c \<le> 122 then code c - 32 else code c)"
  by (simp add: ascii_upper_def code_def)

lemma code_ascii_lower:
  "code (ascii_lower c) = (if 65 \<le> code c \<and> code c \<le> 90 then code c + 32 else code c)"
  by (simp add: ascii_lower_def code_def)

lemma code_inject: "code c = code d \<longleftrightarrow> c = d"
  by (simp add: code_def)

lemma ascii_upper_idem [simp]: "ascii_upper (ascii_upper c) = ascii_upper c"
  by (simp add: code_ascii_upper flip: code_inject)

lemma ascii_lower_idem [simp]: "ascii_lower (ascii_lower c) = ascii_lower c"
  by (simp add: code_ascii_lower flip: code_inject)

lemma to_upper_idem [simp]: "to_upper (to_upper s) = to_upper s"
  by (simp add: to_upper_def)

lemma to_lower_idem [simp]: "to_lower (to_lower s) = to_lower s"
  by (simp add: to_lower_def)

lemma to_upper_Nil [simp]: "to_upper [] = []" "to_upper s = [] \<longleftrightarrow> s = []"
  by (simp_all add: to_upper_def)

lemma to_lower_Nil [simp]: "to_lower [] = []" "to_lower s = [] \<longleftrightarrow> s = []"
  by (simp_all add: to_lower_def)

text \<open>Case mapping moves no byte into or out of the blanks, so it commutes with trimming.\<close>

definition case_map :: "(char \<Rightarrow> char) \<Rightarrow> bool" where
  "case_map f \<longleftrightarrow> (\<forall>c. (code (f c) = code c \<or> (64 < code c \<and> code c < 128 \<and> 64 < code (f c) \<and> code (f c) < 128)))"

lemma case_map_upper: "case_map ascii_upper"
  by (auto simp: case_map_def code_ascii_upper)

lemma case_map_lower: "case_map ascii_lower"
  by (auto simp: case_map_def code_ascii_lower)

definition blank_patterns :: "int list list \<Rightarrow> bool" where
  "blank_patterns ps \<longleftrightarrow> (\<forall>p \<in> set ps. p \<noteq> [] \<and> (\<forall>x \<in> set p. 128 \<le> x))"

lemma blank_patterns_utf8: "blank_patterns utf8_spaces" "blank_patterns (map rev utf8_spaces)"
  by (auto simp: blank_patterns_def utf8_spaces_def)

lemma map_code_case:
  assumes "case_map f" and "\<forall>x \<in> set p. 128 \<le> x"
  shows "map code (map f s) = p \<longleftrightarrow> map code s = p"
  using assms(2)
proof (induction p arbitrary: s)
  case Nil
  then show ?case by simp
next
  case (Cons x p)
  have "code (f c) = x \<longleftrightarrow> code c = x" for c
    using assms(1) Cons.prems by (auto simp: case_map_def dest: spec [of _ c])
  with Cons show ?case by (cases s) auto
qed

lemma starts_with_case:
  assumes "case_map f" and "\<forall>x \<in> set p. 128 \<le> x"
  shows "starts_with p (map f s) \<longleftrightarrow> starts_with p s"
  using map_code_case [OF assms, of "take (length p) s"] by (simp add: starts_with_def take_map)

lemma blank_len_case:
  assumes "case_map f" and "blank_patterns ps"
  shows "blank_len ps (map f s) = blank_len ps s"
proof (cases s)
  case Nil
  then show ?thesis by simp
next
  case (Cons c t)
  have "find (\<lambda>p. starts_with p (map f s)) ps = find (\<lambda>p. starts_with p s) ps"
    using assms by (intro find_cong) (auto simp: blank_patterns_def starts_with_case)
  moreover have "ascii_space (f c) = ascii_space c" "code (f c) < 128 \<longleftrightarrow> code c < 128"
    using assms(1) by (auto simp: case_map_def ascii_space_def dest: spec [of _ c])
  ultimately show ?thesis by (simp add: Cons)
qed

lemma strip_blanks_case:
  assumes "case_map f" and "blank_patterns ps"
  shows "strip_blanks ps (map f s) = map f (strip_blanks ps s)"
  using assms(2)
proof (induction ps s rule: strip_blanks.induct)
  case (1 ps s)
  show ?case
    using "1.IH" "1.prems" blank_len_case [OF assms(1) "1.prems"]
    by (cases "blank_len ps s = 0")
      (simp_all add: strip_blanks.simps [of ps "map f s"] strip_blanks.simps [of ps s] drop_map)
qed

lemma trim_space_case:
  assumes "case_map f"
  shows "trim_space (map f s) = map f (trim_space s)"
  unfolding trim_space_def
  by (simp only: strip_blanks_case [OF assms] blank_patterns_utf8 rev_map)

lemma trim_to_upper: "trim_space (to_upper s) = to_upper (trim_space s)"
  unfolding to_upper_def by (rule trim_space_case [OF case_map_upper])

lemma trim_to_lower: "trim_space (to_lower s) = to_lower (trim_space s)"
  unfolding to_lower_def by (rule trim_space_case [OF case_map_lower])

text \<open>A trimmed string starts and ends with a non-blank, so trimming is idempotent.\<close>

lemma blank_len_strip: "blank_len ps (strip_blanks ps s) = 0"
proof (induction ps s rule: strip_blanks.induct)
  case (1 ps s)
  then show ?case by (cases "blank_len ps s = 0") (simp_all add: strip_blanks.simps [of ps s])
qed

lemma strip_blanks_done: "blank_len ps s = 0 \<Longrightarrow> strip_blanks ps s = s"
  by (simp add: strip_blanks.simps [of ps s])

lemma strip_blanks_suffix: "\<exists>u. s = u @ strip_blanks ps s"
proof (induction ps s rule: strip_blanks.induct)
  case (1 ps s)
  show ?case
  proof (cases "blank_len ps s = 0")
    case True
    then show ?thesis by (simp add: strip_blanks_done)
  next
    case False
    with "1.IH" obtain u where "drop (blank_len ps s) s = u @ strip_blanks ps (drop (blank_len ps s) s)"
      by blast
    with False have "s = (take (blank_len ps s) s @ u) @ strip_blanks ps s"
      by (metis append.assoc append_take_drop_id strip_blanks.simps)
    then show ?thesis by blast
  qed
qed

lemma starts_with_append: "starts_with p s \<Longrightarrow> starts_with p (s @ t)"
proof -
  assume p: "starts_with p s"
  then have "length p \<le> length s" unfolding starts_with_def by (metis length_map length_take min.bounded_iff order_refl)
  with p show ?thesis by (simp add: starts_with_def)
qed

lemma blank_len_prefix:
  assumes "blank_patterns ps" and "blank_len ps (s @ t) = 0"
  shows "blank_len ps s = 0"
proof (cases s)
  case Nil
  then show ?thesis by simp
next
  case (Cons c u)
  have "find (\<lambda>p. starts_with p s) ps = None" if "\<not> code c < 128"
  proof -
    have "p \<noteq> []" if "find (\<lambda>p. starts_with p (s @ t)) ps = Some p" for p
      using assms(1) that by (auto simp: blank_patterns_def find_Some_iff dest: nth_mem)
    then have "find (\<lambda>p. starts_with p (s @ t)) ps = None"
      using assms(2) that by (auto simp: Cons split: option.splits)
    then show ?thesis using starts_with_append by (fastforce simp: find_None_iff)
  qed
  with assms(2) show ?thesis by (auto simp: Cons split: if_splits)
qed

lemma trim_space_idem [simp]: "trim_space (trim_space s) = trim_space s"
proof -
  let ?b = "map rev utf8_spaces"
  define a where "a = strip_blanks utf8_spaces s"
  define r where "r = strip_blanks ?b (rev a)"
  obtain u where "rev a = u @ r" using strip_blanks_suffix [of "rev a" ?b] by (auto simp: r_def)
  then have a: "a = rev r @ rev u" by (metis rev_append rev_rev_ident)
  have "blank_len utf8_spaces (rev r) = 0"
    using blank_len_prefix [OF blank_patterns_utf8(1)] blank_len_strip [of utf8_spaces s] a
    by (simp add: a_def)
  moreover have "blank_len ?b r = 0" unfolding r_def by (rule blank_len_strip)
  ultimately have "trim_space (rev r) = rev r" by (simp add: trim_space_def strip_blanks_done)
  moreover have "trim_space s = rev r" by (simp add: trim_space_def r_def a_def)
  ultimately show ?thesis by simp
qed

lemma trim_space_Nil [simp]: "trim_space [] = []"
  by (simp add: trim_space_def strip_blanks.simps)

subsection \<open>Formatting\<close>

text \<open>
  \<open>fmt.Sprintf\<close> on values that are printed already: a verb with its flags and width is
  replaced by the next value, \<open>%q\<close> puts it in quotes, \<open>%%\<close> is a percent sign. With too few
  values the verb prints nothing.
\<close>

definition quote :: "string \<Rightarrow> string" where
  "quote s = CHR 0x22 # concat (map (\<lambda>c. if c = CHR 0x22 \<or> c = CHR 0x5C then [CHR 0x5C, c] else [c]) s) @ [CHR 0x22]"

definition is_letter :: "char \<Rightarrow> bool" where
  "is_letter c \<longleftrightarrow> 97 \<le> code (ascii_lower c) \<and> code (ascii_lower c) \<le> 122"

fun sprintf :: "bool \<Rightarrow> string \<Rightarrow> string list \<Rightarrow> string" where
  "sprintf verb [] args = []"
| "sprintf False (c # s) args = (if c = CHR ''%'' then sprintf True s args else c # sprintf False s args)"
| "sprintf True (c # s) args =
    (if c = CHR ''%'' then c # sprintf False s args
     else if is_letter c
     then (case args of [] \<Rightarrow> sprintf False s []
           | a # as \<Rightarrow> (if c = CHR ''q'' then quote a else a) @ sprintf False s as)
     else sprintf True s args)"

fun error_text :: "goerror \<Rightarrow> string" where
  "error_text (Errorf f as) = sprintf False f as"
| "error_text (Wrapf f as e) = sprintf False f (as @ [error_text e])"

end
