(* ===== verification/GoNumbers.thy ===== *)
theory GoNumbers
  imports GoStrings
begin

text \<open>
  Decimal text: \<open>strconv.Itoa\<close>, the fixed-point float format (\<open>FormatFloat(v, 'f', p, 64)\<close>
  and \<open>%.pf\<close>) and \<open>strconv.ParseFloat\<close>. The round trip at the end says what a number
  that is printed and read back becomes: the decimal rounding of the value, rounded once
  more to a \<open>float64\<close>.
\<close>

subsection \<open>Printing\<close>

definition digit_char :: "int \<Rightarrow> char" where
  "digit_char d = char_of (48 + d)"

function show_digits :: "int \<Rightarrow> string" where
  "show_digits n = (if n < 10 then [digit_char n] else show_digits (n div 10) @ [digit_char (n mod 10)])"
  by pat_completeness auto
termination by (relation "measure nat") auto

declare show_digits.simps [simp del]

definition itoa :: "int \<Rightarrow> string" where
  "itoa n = (if n < 0 then CHR ''-'' # show_digits (- n) else show_digits n)"

fun fixed_digits :: "nat \<Rightarrow> int \<Rightarrow> string" where
  "fixed_digits 0 n = []"
| "fixed_digits (Suc k) n = fixed_digits k (n div 10) @ [digit_char (n mod 10)]"

definition scaled :: "nat \<Rightarrow> rat \<Rightarrow> int" where
  "scaled p q = (case quotient_of q of (n, d) \<Rightarrow> rne_div (n * 10 ^ p) d)"

definition format_fixed :: "nat \<Rightarrow> f64 \<Rightarrow> string" where
  "format_fixed p x = (case x of
     NaN \<Rightarrow> ''NaN''
   | Infty s \<Rightarrow> (if s then ''-Inf'' else ''+Inf'')
   | Fin q \<Rightarrow> (let n = \<bar>scaled p q\<bar>
       in (if q < 0 then ''-'' else '''') @ show_digits (n div 10 ^ p) @
          (if p = 0 then '''' else CHR ''.'' # fixed_digits p (n mod 10 ^ p))))"

subsection \<open>Reading\<close>

definition is_digit :: "char \<Rightarrow> bool" where
  "is_digit c \<longleftrightarrow> 48 \<le> code c \<and> code c \<le> 57"

fun read_digits :: "int \<Rightarrow> nat \<Rightarrow> string \<Rightarrow> int \<times> nat \<times> string" where
  "read_digits acc k [] = (acc, k, [])"
| "read_digits acc k (c # s) =
     (if is_digit c then read_digits (acc * 10 + (code c - 48)) (Suc k) s else (acc, k, c # s))"

definition read_sign :: "string \<Rightarrow> bool \<times> string" where
  "read_sign s = (case s of c # t \<Rightarrow>
       if c = CHR ''-'' then (True, t) else if c = CHR ''+'' then (False, t) else (False, s)
     | [] \<Rightarrow> (False, s))"

definition read_exponent :: "string \<Rightarrow> int option" where
  "read_exponent s = (case s of
     [] \<Rightarrow> Some 0
   | c # t \<Rightarrow> if c = CHR ''e'' \<or> c = CHR ''E''
       then (case read_sign t of (neg, u) \<Rightarrow> case read_digits 0 0 u of (e, k, r) \<Rightarrow>
              if k = 0 \<or> r \<noteq> [] then None else Some (if neg then - e else e))
       else None)"

definition dec_value :: "int \<Rightarrow> int \<Rightarrow> rat" where
  "dec_value m k = (if 0 \<le> k then of_int (m * 10 ^ nat k) else Fract m (10 ^ nat (- k)))"

definition in_range :: "f64 \<Rightarrow> f64 \<times> bool" where
  "in_range x = (x, \<not> is_inf x)"

definition parse_decimal :: "string \<Rightarrow> f64 \<times> bool" where
  "parse_decimal s = (case read_sign s of (neg, t) \<Rightarrow>
     case read_digits 0 0 t of (m, k, u) \<Rightarrow>
     case (case u of c # v \<Rightarrow> if c = CHR ''.'' then read_digits m 0 v else (m, 0, u) | [] \<Rightarrow> (m, 0, u))
       of (n, j, w) \<Rightarrow>
     if k + j = 0 then (0, False)
     else case read_exponent w of
       None \<Rightarrow> (0, False)
     | Some e \<Rightarrow> in_range (fround (dec_value (if neg then - n else n) (e - int j))))"

text \<open>\<open>ParseFloat\<close> returns a value and whether there was no error. A number too large for a
  \<open>float64\<close> is an infinity together with the range error.\<close>

definition parse_float :: "string \<Rightarrow> f64 \<times> bool" where
  "parse_float s = (let l = to_lower s in
     if l = ''nan'' then (NaN, True)
     else if l \<in> {''inf'', ''infinity'', ''+inf'', ''+infinity''} then (Infty False, True)
     else if l \<in> {''-inf'', ''-infinity''} then (Infty True, True)
     else parse_decimal s)"

subsection \<open>Round trip\<close>

fun digits_value :: "string \<Rightarrow> int" where
  "digits_value s = foldl (\<lambda>a c. a * 10 + (code c - 48)) 0 s"

lemma foldl_digits: "foldl (\<lambda>a c. a * 10 + (code c - 48)) x s = x * 10 ^ length s + digits_value s"
proof (induction s rule: rev_induct)
  case (snoc c s)
  then show ?case by (simp add: algebra_simps)
qed simp

lemma digits_value_snoc [simp]: "digits_value (s @ [c]) = digits_value s * 10 + (code c - 48)"
  by simp

declare digits_value.simps [simp del]

lemma digits_value_Nil [simp]: "digits_value [] = 0"
  by (simp add: digits_value.simps)

lemma read_digits_append:
  assumes "list_all is_digit s" and "t = [] \<or> \<not> is_digit (hd t)"
  shows "read_digits a k (s @ t) = (a * 10 ^ length s + digits_value s, k + length s, t)"
  using assms(1)
proof (induction s arbitrary: a k)
  case Nil
  then show ?case using assms(2) by (cases t) auto
next
  case (Cons c s)
  then show ?case
    using foldl_digits [of "code c - 48" s] by (simp add: digits_value.simps algebra_simps)
qed

lemma code_digit_char: "0 \<le> d \<Longrightarrow> d < 10 \<Longrightarrow> code (digit_char d) = 48 + d"
  by (simp add: digit_char_def code_def)

lemma is_digit_digit_char: "0 \<le> d \<Longrightarrow> d < 10 \<Longrightarrow> is_digit (digit_char d)"
  by (simp add: is_digit_def code_digit_char)

lemma show_digits_ok:
  "0 \<le> n \<Longrightarrow> list_all is_digit (show_digits n) \<and> digits_value (show_digits n) = n \<and> show_digits n \<noteq> []"
proof (induction n rule: show_digits.induct)
  case (1 n)
  show ?case
  proof (cases "n < 10")
    case True
    then show ?thesis using 1 digits_value_snoc [of "[]" "digit_char n"]
      by (simp add: show_digits.simps [of n] is_digit_digit_char code_digit_char)
  next
    case False
    then show ?thesis using 1
      by (simp add: show_digits.simps [of n] is_digit_digit_char code_digit_char)
  qed
qed

lemma fixed_digits_ok:
  "list_all is_digit (fixed_digits k n) \<and> length (fixed_digits k n) = k
   \<and> digits_value (fixed_digits k n) = n mod 10 ^ k"
proof (induction k arbitrary: n)
  case (Suc k)
  have "n mod (10 * 10 ^ k) = 10 * (n div 10 mod 10 ^ k) + n mod 10"
    by (rule zmod_zmult2_eq) simp
  then show ?case using Suc by (simp add: is_digit_digit_char code_digit_char)
qed simp

definition decimal_text :: "bool \<Rightarrow> string \<Rightarrow> string \<Rightarrow> string" where
  "decimal_text neg ds fs =
     (if neg then ''-'' else '''') @ ds @ (if fs = [] then '''' else CHR ''.'' # fs)"

lemma digit_not_sign: "is_digit c \<Longrightarrow> c \<noteq> CHR ''-'' \<and> c \<noteq> CHR ''+''"
  by (auto simp: is_digit_def code_def)

lemma read_sign_digits:
  assumes "list_all is_digit ds" and "ds \<noteq> []"
  shows "read_sign ((if neg then ''-'' else '''') @ ds @ r) = (neg, ds @ r)"
  using assms digit_not_sign by (cases ds) (auto simp: read_sign_def)

lemma parse_decimal_text:
  assumes ds: "list_all is_digit ds" "ds \<noteq> []" and fs: "list_all is_digit fs"
  shows "parse_decimal (decimal_text neg ds fs) =
    in_range (fround (dec_value
      ((if neg then - 1 else 1) * (digits_value ds * 10 ^ length fs + digits_value fs)) (- int (length fs))))"
proof -
  have dot: "\<not> is_digit (CHR ''.'')" by (simp add: is_digit_def code_def)
  let ?r = "if fs = [] then '''' else CHR ''.'' # fs"
  have sign: "read_sign (decimal_text neg ds fs) = (neg, ds @ ?r)"
    unfolding decimal_text_def by (rule read_sign_digits [OF ds])
  have int_part: "read_digits 0 0 (ds @ ?r) = (digits_value ds, length ds, ?r)"
    using read_digits_append [OF ds(1), of ?r 0 0] dot by simp
  have frac: "read_digits m 0 fs = (m * 10 ^ length fs + digits_value fs, length fs, [])" for m
    using read_digits_append [OF fs, of "[]" m 0] by simp
  show ?thesis
    using ds(2) by (simp add: parse_decimal_def sign int_part frac read_exponent_def)
qed

lemma parse_float_text:
  assumes "list_all is_digit ds" "ds \<noteq> []"
  shows "parse_float (decimal_text neg ds fs) = parse_decimal (decimal_text neg ds fs)"
proof -
  obtain c s where c: "ds = c # s" "is_digit c" using assms by (cases ds) auto
  then have "ascii_lower c = c" "c \<notin> set ''naif+-''"
    by (auto simp: is_digit_def ascii_lower_def code_def)
  moreover have "ascii_lower CHR ''-'' = CHR ''-''" by code_simp
  ultimately show ?thesis
    by (auto simp: parse_float_def decimal_text_def to_lower_def c(1) Let_def)
qed

text \<open>What a text denotes depends on the value of its digits only.\<close>

lemma parse_float_decimal_text:
  assumes "list_all is_digit ds" "ds \<noteq> []" "list_all is_digit fs"
  shows "parse_float (decimal_text neg ds fs) =
    in_range (fround ((if neg then - 1 else 1) *
      (of_int (digits_value ds) + of_int (digits_value fs) / 10 ^ length fs)))"
proof -
  have "dec_value (m * (d * 10 ^ k + f)) (- int k) = of_int m * (of_int d + of_int f / 10 ^ k)" for m d f k
    by (cases "k = 0") (simp_all add: dec_value_def Fract_of_int_quotient field_simps)
  from this [of "if neg then - 1 else 1"] show ?thesis
    using parse_float_text [OF assms(1,2)] parse_decimal_text [OF assms] by (cases neg) simp_all
qed

lemma scaled_rne: "scaled p q = rne (q * 10 ^ p)"
proof -
  obtain n d where nd: "quotient_of q = (n, d)" by (cases "quotient_of q")
  have q: "q = of_int n / of_int d" and d: "0 < d"
    using quotient_of_div [OF nd] quotient_of_denom_pos [OF nd] .
  have "scaled p q = rne (of_int (n * 10 ^ p) / of_int d)"
    using rne_div_rne [OF d] by (simp add: scaled_def nd)
  also have "of_int (n * 10 ^ p) / of_int d = q * 10 ^ p" by (simp add: q)
  finally show ?thesis .
qed

lemma format_fixed_text:
  assumes "0 < p"
  shows "format_fixed p (Fin q) =
    decimal_text (q < 0) (show_digits (\<bar>rne (q * 10 ^ p)\<bar> div 10 ^ p))
      (fixed_digits p (\<bar>rne (q * 10 ^ p)\<bar> mod 10 ^ p))"
proof -
  have "fixed_digits p n \<noteq> []" for n using fixed_digits_ok [of p n] assms by auto
  then show ?thesis using assms by (simp add: format_fixed_def decimal_text_def scaled_rne Let_def)
qed

lemma rne_abs: "\<bar>rne x\<bar> = (if x < 0 then - rne x else rne x)"
  using rne_nonneg [of x] rne_nonneg [of "- x"] by (auto simp: rne_uminus)

lemma split_scaled:
  "of_int (n div 10 ^ p) + of_int (n mod 10 ^ p) / 10 ^ p = (of_int n / 10 ^ p :: rat)"
proof -
  have "(of_int n :: rat) = of_int (n div 10 ^ p * 10 ^ p + n mod 10 ^ p)"
    by (simp only: div_mult_mod_eq)
  also have "\<dots> = of_int (n div 10 ^ p) * 10 ^ p + of_int (n mod 10 ^ p)" by simp
  finally show ?thesis by (simp add: add_divide_distrib)
qed

lemma parse_format_fixed:
  assumes "0 < p"
  shows "parse_float (format_fixed p (Fin q)) = in_range (fround (of_int (rne (q * 10 ^ p)) / 10 ^ p))"
proof -
  define n where "n = \<bar>rne (q * 10 ^ p)\<bar>"
  have sgn: "(if q < 0 then - 1 else 1) * of_int n = (of_int (rne (q * 10 ^ p)) :: rat)"
    by (simp add: n_def rne_abs mult_less_0_iff)
  have ds: "list_all is_digit (show_digits (n div 10 ^ p))" "show_digits (n div 10 ^ p) \<noteq> []"
    "digits_value (show_digits (n div 10 ^ p)) = n div 10 ^ p"
    using show_digits_ok [of "n div 10 ^ p"] by (simp_all add: n_def pos_imp_zdiv_nonneg_iff)
  have fs: "list_all is_digit (fixed_digits p (n mod 10 ^ p))" "length (fixed_digits p (n mod 10 ^ p)) = p"
    "digits_value (fixed_digits p (n mod 10 ^ p)) = n mod 10 ^ p"
    using fixed_digits_ok [of p "n mod 10 ^ p"] by simp_all
  have "parse_float (format_fixed p (Fin q)) =
      in_range (fround ((if q < 0 then - 1 else 1) * (of_int n / 10 ^ p)))"
    unfolding format_fixed_text [OF assms] n_def [symmetric]
      parse_float_decimal_text [OF ds(1,2) fs(1)] ds(3) fs(2,3) split_scaled ..
  also have "(if q < 0 then - 1 else 1) * (of_int n / 10 ^ p) = of_int (rne (q * 10 ^ p)) / (10 ^ p :: rat)"
    by (simp only: times_divide_eq_right sgn)
  finally show ?thesis .
qed

end
