(* ===== verification/GoTime.thy ===== *)
theory GoTime
  imports GoNumbers
begin

text \<open>
  Go's \<open>time.Time\<close> and \<open>time.Duration\<close>. A time is the number of nanoseconds since the
  Unix epoch, read in UTC (the program converts to UTC before it formats or compares
  dates); a duration is a number of nanoseconds. The zero value of \<open>time.Time\<close> is
  midnight of January 1, year 1. \<open>time.Now()\<close> is always an argument of the operation
  that reads the clock.
\<close>

type_synonym time = int
type_synonym duration = int

definition nanosecond :: duration where "nanosecond = 1"
definition millisecond :: duration where "millisecond = 1000000"
definition second :: duration where "second = 1000000000"
definition minute :: duration where "minute = 60 * second"

definition truncate_to :: "duration \<Rightarrow> duration \<Rightarrow> duration" where
  "truncate_to m d = (if m \<le> 0 then d else if d < 0 then - (- d - - d mod m) else d - d mod m)"

definition zero_time :: time where
  "zero_time = - 62135596800000000000"

definition is_zero_time :: "time \<Rightarrow> bool" where
  "is_zero_time t \<longleftrightarrow> t = zero_time"

definition day_length :: duration where
  "day_length = 86400000000000"

definition utc_day :: "time \<Rightarrow> int" where
  "utc_day t = t div day_length"

text \<open>The civil date of a day number, by the proleptic Gregorian calendar, and its
  rendering with the layout \<open>2006-01-02\<close>.\<close>

definition civil_date :: "int \<Rightarrow> int \<times> int \<times> int" where
  "civil_date day = (let z = day + 719468; era = z div 146097; doe = z mod 146097;
     yoe = (doe - doe div 1460 + doe div 36524 - doe div 146096) div 365;
     doy = doe - (365 * yoe + yoe div 4 - yoe div 100);
     mp = (5 * doy + 2) div 153;
     d = doy - (153 * mp + 2) div 5 + 1;
     m = (if mp < 10 then mp + 3 else mp - 9)
     in (yoe + era * 400 + (if m \<le> 2 then 1 else 0), m, d))"

definition pad_int :: "nat \<Rightarrow> int \<Rightarrow> string" where
  "pad_int w n = (let s = show_digits \<bar>n\<bar>
     in (if n < 0 then ''-'' else '''') @ replicate (w - length s) (CHR ''0'') @ s)"

definition format_date :: "time \<Rightarrow> string" where
  "format_date t = (case civil_date (utc_day t) of (y, m, d) \<Rightarrow>
     pad_int 4 y @ ''-'' @ pad_int 2 m @ ''-'' @ pad_int 2 d)"

lemma format_date_nonempty [simp]: "format_date t \<noteq> []"
  by (simp add: format_date_def split: prod.splits)

lemma format_date_same_day: "utc_day s = utc_day t \<Longrightarrow> format_date s = format_date t"
  by (simp add: format_date_def)

subsection \<open>Reading durations\<close>

text \<open>\<open>time.ParseDuration\<close>: a sign and a sequence of decimals with units, \<open>1h30m\<close>. \<open>None\<close> is an
  error. A part is read by \<open>duration_part\<close>, which gives its nanoseconds and the rest.\<close>

definition unit_of :: "string \<Rightarrow> int option" where
  "unit_of u = map_of [(''ns'', 1), (''us'', 1000), (map char_of [194 :: nat, 181] @ ''s'', 1000),
     (map char_of [206 :: nat, 188] @ ''s'', 1000), (''ms'', 1000000), (''s'', 1000000000),
     (''m'', 60000000000), (''h'', 3600000000000)] u"

fun leading_fraction :: "bool \<Rightarrow> int \<Rightarrow> int \<Rightarrow> string \<Rightarrow> int \<times> int \<times> string" where
  "leading_fraction ovf x scale [] = (x, scale, [])"
| "leading_fraction ovf x scale (c # s) =
    (if \<not> is_digit c then (x, scale, c # s)
     else if ovf \<or> x > 922337203685477580 \<or> x * 10 + (code c - 48) > 9223372036854775808
     then leading_fraction True x scale s
     else leading_fraction False (x * 10 + (code c - 48)) (scale * 10) s)"

definition duration_part :: "string \<Rightarrow> (int \<times> string) option" where
  "duration_part s = (case read_digits 0 0 s of (v, k, t) \<Rightarrow>
     case (case t of c # t' \<Rightarrow> if c = CHR ''.'' then leading_fraction False 0 1 t' else (0, 1, t) | [] \<Rightarrow> (0, 1, t))
       of (f, scale, r) \<Rightarrow>
     let u = takeWhile (\<lambda>c. \<not> (c = CHR ''.'' \<or> is_digit c)) r;
         frac_len = (if t \<noteq> [] \<and> hd t = CHR ''.'' then length (tl t) - length r else 0)
     in if v > 9223372036854775808 \<or> (k = 0 \<and> frac_len = 0) then None
        else case unit_of u of
          None \<Rightarrow> None
        | Some un \<Rightarrow>
            if v > 9223372036854775808 div un then None
            else let w = v * un + (if 0 < f then int_of_f64 (f64_of_int f * (f64_of_int un / f64_of_int scale)) else 0)
              in if w > 9223372036854775808 then None else Some (w, drop (length u) r))"

function duration_sum :: "string \<Rightarrow> int \<Rightarrow> int option" where
  "duration_sum s d = (if s = [] then Some d else case duration_part s of
     None \<Rightarrow> None
   | Some (v, r) \<Rightarrow> if length r < length s \<and> d + v \<le> 9223372036854775808 then duration_sum r (d + v) else None)"
  by pat_completeness auto
termination by (relation "measure (length \<circ> fst)") auto

declare duration_sum.simps [simp del]

definition parse_duration :: "string \<Rightarrow> duration option" where
  "parse_duration s = (case read_sign s of (neg, t) \<Rightarrow>
     if t = ''0'' then Some 0
     else if t = '''' then None
     else case duration_sum t 0 of
       None \<Rightarrow> None
     | Some d \<Rightarrow> if neg then Some (- d) else if d > 9223372036854775807 then None else Some d)"

text \<open>Every part consumes something, so the sum is never cut short.\<close>

lemma read_digits_length: "read_digits a k s = (v, j, t) \<Longrightarrow> length t \<le> length s \<and> (k < j \<longrightarrow> length t < length s) \<and> k \<le> j"
proof (induction s arbitrary: a k)
  case (Cons c s)
  show ?case
  proof (cases "is_digit c")
    case True
    then have "read_digits (a * 10 + (code c - 48)) (Suc k) s = (v, j, t)" using Cons.prems by simp
    from Cons.IH [OF this] show ?thesis by simp
  qed (use Cons.prems in simp)
qed simp

lemma leading_fraction_length: "leading_fraction b x sc s = (f, e, r) \<Longrightarrow> length r \<le> length s"
proof (induction s arbitrary: b x sc)
  case (Cons c s)
  then show ?case by (fastforce split: if_splits)
qed simp

lemma unit_of_nonempty: "unit_of u = Some n \<Longrightarrow> u \<noteq> []"
  by (auto simp: unit_of_def split: if_splits)

lemma duration_part_shorter:
  assumes "duration_part s = Some (w, r)"
  shows "length r < length s"
proof -
  obtain v k t where rd: "read_digits 0 0 s = (v, k, t)" by (cases "read_digits 0 0 s")
  obtain f scale q where fr: "(case t of c # t' \<Rightarrow> if c = CHR ''.'' then leading_fraction False 0 1 t' else (0, 1, t)
      | [] \<Rightarrow> (0, 1, t)) = (f, scale, q)" by (metis prod_cases3)
  let ?u = "takeWhile (\<lambda>c. \<not> (c = CHR ''.'' \<or> is_digit c)) q"
  have "length q \<le> length t"
    using fr by (cases t) (auto split: if_splits dest: leading_fraction_length)
  moreover have "?u \<noteq> []" "r = drop (length ?u) q"
    using assms unit_of_nonempty [of ?u] by (auto simp: duration_part_def rd fr Let_def split: option.splits if_splits)
  moreover have "length ?u \<le> length q" by (rule length_takeWhile_le)
  moreover have "length t \<le> length s" using read_digits_length [OF rd] by simp
  ultimately show ?thesis by (cases ?u) auto
qed

end
