(* ===== verification/Json.thy ===== *)
theory Json
  imports GoNumbers
begin

text \<open>
  JSON values as \<open>encoding/json\<close> reads them into Go values: a number is the literal it is spelled with, an object the list of its members in their
  order. \<open>fill_struct\<close> is what \<open>json.Unmarshal\<close> does with a structure: a member goes to the field of its exact name or else of a name that
  differs in case only, null leaves a field as it is (a pointer becomes nil), and a value of another kind is an error.
\<close>

datatype json = JNull | JBool bool | JNum string | JStr string | JArr "json list" | JObj "(string \<times> json) list"

definition type_error :: "string \<Rightarrow> goerror" where
  "type_error name = Errorf ''json: cannot unmarshal value into Go struct field %s'' [name]"

definition int_literal :: "string \<Rightarrow> int option" where
  "int_literal s = (case read_sign s of (neg, ds) \<Rightarrow>
     if ds = [] \<or> \<not> list_all is_digit ds then None
     else let n = (if neg then - digits_value ds else digits_value ds) in
       if - (2 ^ 63) \<le> n \<and> n < 2 ^ 63 then Some n else None)"

definition as_string :: "json \<Rightarrow> string option" where
  "as_string v = (case v of JStr s \<Rightarrow> Some s | _ \<Rightarrow> None)"

definition as_int :: "json \<Rightarrow> int option" where
  "as_int v = (case v of JNum l \<Rightarrow> int_literal l | _ \<Rightarrow> None)"

definition as_float :: "json \<Rightarrow> f64 option" where
  "as_float v = (case v of JNum l \<Rightarrow> (case parse_float l of (x, ok) \<Rightarrow> if ok then Some x else None) | _ \<Rightarrow> None)"

text \<open>The field a member name selects: by its exact name, else ignoring case.\<close>

definition select_field :: "string list \<Rightarrow> string \<Rightarrow> string option" where
  "select_field names k = (if k \<in> set names then Some k else find (\<lambda>n. equal_fold n k) names)"

fun fill_members :: "string list \<Rightarrow> (string \<Rightarrow> json \<Rightarrow> 'a \<Rightarrow> 'a option) \<Rightarrow> (string \<times> json) list \<Rightarrow> 'a \<Rightarrow> goerror + 'a" where
  "fill_members names assign [] d = Inr d"
| "fill_members names assign ((k, v) # ms) d = (case select_field names k of
     None \<Rightarrow> fill_members names assign ms d
   | Some f \<Rightarrow> (case assign f v d of None \<Rightarrow> Inl (type_error f) | Some d' \<Rightarrow> fill_members names assign ms d'))"

definition fill_struct :: "string list \<Rightarrow> (string \<Rightarrow> json \<Rightarrow> 'a \<Rightarrow> 'a option) \<Rightarrow> 'a \<Rightarrow> json \<Rightarrow> goerror + 'a" where
  "fill_struct names assign zero v = (case v of
     JNull \<Rightarrow> Inr zero | JObj ms \<Rightarrow> fill_members names assign ms zero | _ \<Rightarrow> Inl (type_error ''''))"

text \<open>A pointer field: null sets it to nil, a value of the field's type to a pointer to it.\<close>

definition pointer :: "(json \<Rightarrow> 'a option) \<Rightarrow> json \<Rightarrow> 'a option option" where
  "pointer rd v = (if v = JNull then Some None else map_option Some (rd v))"

end
