(* ===== verification/GoFormat.thy ===== *)
theory GoFormat
  imports GoNumbers GoTime Json
begin

text \<open>
  The parts of Go's library the replay and the backtest need beside those of \<open>GoNumbers\<close>: \<open>math.Sqrt\<close>, the shortest decimal that reads back as a number
  (\<open>FormatFloat\<close> with precision -1, and the numbers \<open>fmt.Sprint\<close> prints), and \<open>fmt.Sprint\<close> on a JSON value.
\<close>

subsection \<open>Square roots\<close>

fun isqrt :: "int \<Rightarrow> int" where
  "isqrt n = (if n \<le> 0 then 0 else let r = 2 * isqrt (n div 4) in if (r + 1) * (r + 1) \<le> n then r + 1 else r)"

declare isqrt.simps [simp del]

lemma isqrt_spec: "0 \<le> n \<Longrightarrow> 0 \<le> isqrt n \<and> isqrt n * isqrt n \<le> n \<and> n < (isqrt n + 1) * (isqrt n + 1)"
proof (induction n rule: isqrt.induct)
  case (1 n)
  show ?case
  proof (cases "n = 0")
    case True
    then show ?thesis by (simp add: isqrt.simps)
  next
    case False
    define r where "r = isqrt (n div 4)"
    have r: "0 \<le> r" "r * r \<le> n div 4" "n div 4 < (r + 1) * (r + 1)" using 1 False unfolding r_def by auto
    have q: "n = 4 * (n div 4) + n mod 4" "0 \<le> n mod 4" "n mod 4 < 4" by simp_all
    have lo: "2 * r * (2 * r) \<le> n" using r(2) q(1,2) by simp
    have "n div 4 + 1 \<le> (r + 1) * (r + 1)" using r(3) by simp
    then have hi: "n < 4 * ((r + 1) * (r + 1))" using q by linarith
    have e: "(2 * r + 1 + 1) * (2 * r + 1 + 1) = 4 * ((r + 1) * (r + 1))" by (simp add: algebra_simps)
    have step: "isqrt n = (if (2 * r + 1) * (2 * r + 1) \<le> n then 2 * r + 1 else 2 * r)"
      using 1(2) False by (subst isqrt.simps) (simp add: Let_def r_def)
    show ?thesis unfolding step using r(1) lo hi e by auto
  qed
qed

text \<open>The radicand is scaled until its root has more than sixty bits: these and whether something was cut decide how the root is rounded.\<close>

definition fsqrt :: "f64 \<Rightarrow> f64" where
  "fsqrt x = (case x of
     NaN \<Rightarrow> NaN
   | Infty s \<Rightarrow> (if s then NaN else x)
   | Fin q \<Rightarrow> if q < 0 then NaN else if q = 0 then x
       else (case quotient_of q of (n, d) \<Rightarrow>
         let k = nat (66 + (bits d - bits n) div 2); m = n * 4 ^ k div d; r = isqrt m; exact = r * r * d = n * 4 ^ k in
         fround (Fract (2 * r + (if exact then 0 else 1)) (2 ^ (k + 1)))))"

subsection \<open>Shortest decimals\<close>

text \<open>The exponent \<open>e\<close> with \<open>10^e \<le> q < 10^(e+1)\<close>, for a positive \<open>float64\<close>.\<close>

fun down_exp :: "nat \<Rightarrow> rat \<Rightarrow> int" where
  "down_exp 0 q = 0"
| "down_exp (Suc k) q = (if 1 \<le> q then 0 else down_exp k (q * 10) - 1)"

definition dec_exp :: "rat \<Rightarrow> int" where
  "dec_exp q = (if 1 \<le> q then int (length (show_digits \<lfloor>q\<rfloor>)) - 1 else down_exp 330 q)"

text \<open>The number rounded to \<open>p\<close> digits: an integer of \<open>p\<close> digits and the exponent it is scaled with.\<close>

definition round_digits :: "nat \<Rightarrow> rat \<Rightarrow> int \<times> int" where
  "round_digits p q = (let e = dec_exp q - int p + 1; y = (if 0 \<le> e then q / of_int (10 ^ nat e) else q * of_int (10 ^ nat (- e)));
     m = (case quotient_of y of (n, d) \<Rightarrow> rne_div n d) in (m, e))"

fun shortest_from :: "nat \<Rightarrow> nat \<Rightarrow> rat \<Rightarrow> int \<times> int" where
  "shortest_from 0 p q = round_digits p q"
| "shortest_from (Suc k) p q = (case round_digits p q of (m, e) \<Rightarrow> if fround (dec_value m e) = Fin q then (m, e) else shortest_from k (Suc p) q)"

definition shortest :: "rat \<Rightarrow> string \<times> int" where
  "shortest q = (case shortest_from 16 1 q of (m, e) \<Rightarrow>
     let ds = show_digits m; n = length (rev (dropWhile (\<lambda>c. c = CHR ''0'') (rev ds))) in (take n ds, e + int (length ds) - 1))"

definition zeros :: "nat \<Rightarrow> string" where
  "zeros n = replicate n (CHR ''0'')"

text \<open>Digits \<open>d1 d2 \<dots>\<close> with the exponent of the first, as a plain decimal.\<close>

definition plain_decimal :: "string \<Rightarrow> int \<Rightarrow> string" where
  "plain_decimal ds e =
    (if e < 0 then ''0.'' @ zeros (nat (- e) - 1) @ ds
     else if int (length ds) \<le> e + 1 then ds @ zeros (nat (e + 1) - length ds)
     else take (nat (e + 1)) ds @ ''.'' @ drop (nat (e + 1)) ds)"

definition format_shortest :: "f64 \<Rightarrow> string" where
  "format_shortest x = (case x of
     NaN \<Rightarrow> ''NaN'' | Infty s \<Rightarrow> (if s then ''-Inf'' else ''+Inf'')
   | Fin q \<Rightarrow> if q = 0 then ''0'' else (if q < 0 then ''-'' else '''') @ (case shortest \<bar>q\<bar> of (ds, e) \<Rightarrow> plain_decimal ds e))"

text \<open>A number by \<open>fmt.Sprint\<close>: with an exponent below -4 or from 21 on.\<close>

definition sprint_float :: "f64 \<Rightarrow> string" where
  "sprint_float x = (case x of
     Fin q \<Rightarrow> if q = 0 then ''0'' else (if q < 0 then ''-'' else '''') @ (case shortest \<bar>q\<bar> of (ds, e) \<Rightarrow>
       if - 4 \<le> e \<and> e < 21 then plain_decimal ds e
       else take 1 ds @ (if length ds = 1 then '''' else ''.'' @ drop 1 ds) @ ''e'' @ (if e < 0 then ''-'' else ''+'') @
         (if \<bar>e\<bar> < 10 then ''0'' else '''') @ show_digits \<bar>e\<bar>)
   | _ \<Rightarrow> format_shortest x)"

text \<open>An object as the map it is decoded to: the last of two members with one name, the names in order.\<close>

definition member :: "(string \<times> 'a) list \<Rightarrow> string \<Rightarrow> 'a option" where
  "member ms k = map_of (rev ms) k"

fun joined :: "string list \<Rightarrow> string" where
  "joined [] = ''''" | "joined [x] = x" | "joined (x # y # ys) = x @ '' '' @ joined (y # ys)"

fun sprint_json :: "json \<Rightarrow> string" where
  "sprint_json JNull = ''<nil>''"
| "sprint_json (JBool b) = (if b then ''true'' else ''false'')"
| "sprint_json (JNum l) = sprint_float (fst (parse_float l))"
| "sprint_json (JStr s) = s"
| "sprint_json (JArr vs) = ''['' @ joined (map sprint_json vs) @ '']''"
| "sprint_json (JObj ms) = (let ps = map (\<lambda>(k, v). (k, sprint_json v)) ms in
     ''map['' @ joined (map (\<lambda>k. k @ '':'' @ (case member ps k of Some t \<Rightarrow> t | None \<Rightarrow> '''')) (sort (remdups (map fst ps)))) @ '']'')"

subsection \<open>Times\<close>

definition format_rfc3339 :: "time \<Rightarrow> string" where
  "format_rfc3339 t = (let s = (t div second) mod 86400 in
     format_date t @ ''T'' @ pad_int 2 (s div 3600) @ '':'' @ pad_int 2 (s div 60 mod 60) @ '':'' @ pad_int 2 (s mod 60) @ ''Z'')"

lemma format_examples:
  "format_shortest (lit (1 / 10)) = ''0.1''" "format_shortest (lit 10250) = ''10250''" "format_shortest (lit (- 5 / 4)) = ''-1.25''"
  "sprint_float (lit (1 / 1000000)) = ''1e-06''" "sprint_json (JArr [JNull, JNum ''1.50'', JStr ''x'']) = ''[<nil> 1.5 x]''"
  by code_simp+

lemma sqrt_examples: "fsqrt (lit 4) = Fin 2" "fsqrt (lit (1 / 4)) = lit (1 / 2)" "fsqrt (Fin (- 1)) = NaN"
  by code_simp+

end
