(* ===== verification/ConfigEnv.thy ===== *)
theory ConfigEnv
  imports GoTime
begin

text \<open>What the configuration loaders ask of their environment: \<open>os.ExpandEnv\<close>, \<open>filepath.IsAbs\<close> and \<open>filepath.Join\<close>,
  \<open>os.Stat\<close> (the error, if any) and \<open>confkit.ProjectPath\<close>.\<close>

record config_env =
  env_expand :: "string \<Rightarrow> string"
  env_is_abs :: "string \<Rightarrow> bool"
  env_join :: "string \<Rightarrow> string \<Rightarrow> string"
  env_stat :: "string \<Rightarrow> goerror option"
  env_project_path :: "string \<Rightarrow> goerror + string"

end
