(* ===== verification/ManagerConfig.thy ===== *)
theory ManagerConfig
  imports ConfigEnv
begin

text \<open>
  The manager's configuration (\<open>pkg/manager/config.go\<close>): the configuration types, defaults,
  durations, expansion and validation. Shown: what holds of a configuration that loads
  (distinct traders, a known order style and execution mode, every number of a trader in its
  range and an allocation within the budget left by the reserve, unless a number is the
  \<open>.nan\<close> of YAML, which no guard refuses), that live trading is never inferred, and that
  the list of allowed symbols comes out normalized. An integer is unbounded, where the source
  has \<open>int\<close>.
\<close>

subsection \<open>Types\<close>

type_synonym order_style = string
type_synonym execution_mode = string

abbreviation style_limit_ioc :: order_style where "style_limit_ioc \<equiv> ''limit_ioc''"
abbreviation style_market_ioc :: order_style where "style_market_ioc \<equiv> ''market_ioc''"
abbreviation mode_paper :: execution_mode where "mode_paper \<equiv> ''paper''"
abbreviation mode_testnet :: execution_mode where "mode_testnet \<equiv> ''testnet''"
abbreviation mode_live :: execution_mode where "mode_live \<equiv> ''live''"

definition default_market_ioc_slippage_bps :: f64 where "default_market_ioc_slippage_bps = lit 50"

record exec_guards =
  eg_max_new_per_cycle :: int
  eg_liquidity_threshold :: f64
  eg_max_margin_usage_pct :: f64
  eg_btceth_min_multiple :: f64
  eg_btceth_max_multiple :: f64
  eg_alt_min_multiple :: f64
  eg_alt_max_multiple :: f64
  eg_cooldown_after_close :: duration
  eg_cooldown_raw :: string
  eg_enable_liquidity :: "bool option"
  eg_enable_margin_usage :: "bool option"
  eg_enable_value_band :: "bool option"
  eg_enable_cooldown :: "bool option"
  eg_candidate_limit :: int
  eg_sharpe_pause_threshold :: f64
  eg_pause_duration :: duration
  eg_pause_duration_raw :: string

record risk_parameters =
  rp_max_positions :: int
  rp_max_position_size :: f64
  rp_max_margin_usage_pct :: f64
  rp_max_daily_loss_usd :: f64
  rp_max_daily_loss_pct :: f64
  rp_major_leverage :: int
  rp_alt_leverage :: int
  rp_min_risk_reward :: f64
  rp_min_confidence :: int
  rp_stop_loss_enabled :: bool
  rp_take_profit_enabled :: bool
  rp_allowed_symbols :: "string list"

record trader_config =
  tc_id :: string
  tc_name :: string
  tc_exchange_provider :: string
  tc_market_provider :: string
  tc_execution_mode :: execution_mode
  tc_order_style :: order_style
  tc_slippage_bps :: f64
  tc_prompt_template :: string
  tc_executor_template :: string
  tc_model :: string
  tc_decision_interval :: duration
  tc_risk_params :: risk_parameters
  tc_exec_guards :: exec_guards
  tc_allocation_pct :: f64
  tc_auto_start :: bool
  tc_journal_enabled :: bool
  tc_journal_dir :: string
  tc_version :: int
  tc_decision_interval_raw :: string

record manager_settings =
  ms_total_equity :: f64
  ms_reserve_pct :: f64
  ms_allocation_strategy :: string
  ms_rebalance_interval :: duration
  ms_storage_backend :: string
  ms_storage_path :: string
  ms_rebalance_raw :: string

record monitoring_config =
  mo_update_interval :: duration
  mo_alert_webhook :: string
  mo_metrics_exporter :: string
  mo_update_raw :: string

record config =
  cfg_manager :: manager_settings
  cfg_traders :: "trader_config list"
  cfg_monitoring :: monitoring_config
  cfg_base_dir :: string

subsection \<open>Defaults, durations and expansion\<close>

definition blank_or :: "string \<Rightarrow> string \<Rightarrow> string" where
  "blank_or d s = (if trim_space s = '''' then d else s)"

definition trader_defaults :: "trader_config \<Rightarrow> trader_config" where
  "trader_defaults t = t
    \<lparr>tc_decision_interval_raw := blank_or ''3m'' (tc_decision_interval_raw t),
     tc_executor_template := blank_or ''prompts/executor/default_prompt.tmpl'' (tc_executor_template t),
     tc_model := trim_space (tc_model t),
     tc_order_style := blank_or style_limit_ioc (tc_order_style t),
     tc_slippage_bps := (if tc_slippage_bps t \<le> 0 then default_market_ioc_slippage_bps else tc_slippage_bps t)\<rparr>"

definition config_apply_defaults :: "config \<Rightarrow> config" where
  "config_apply_defaults c = c
    \<lparr>cfg_manager := (cfg_manager c)\<lparr>ms_rebalance_raw := blank_or ''1h'' (ms_rebalance_raw (cfg_manager c))\<rparr>,
     cfg_traders := map trader_defaults (cfg_traders c),
     cfg_monitoring := (cfg_monitoring c)\<lparr>mo_update_raw := blank_or ''30s'' (mo_update_raw (cfg_monitoring c))\<rparr>\<rparr>"

definition parse_positive_duration :: "string \<Rightarrow> string \<Rightarrow> goerror + duration" where
  "parse_positive_duration field v0 = (let v = trim_space v0 in
     if v = '''' then Inl (Errorf ''manager config: %s is required'' [field])
     else case parse_duration v of
       None \<Rightarrow> Inl (Errorf ''manager config: invalid %s %q'' [field, v])
     | Some d \<Rightarrow> if d \<le> 0 then Inl (Errorf ''manager config: %s must be positive, got %s'' [field, itoa d]) else Inr d)"

text \<open>An optional duration of the execution guards: kept when blank, refused when negative.\<close>

definition optional_duration :: "string \<Rightarrow> int \<Rightarrow> string \<Rightarrow> duration \<Rightarrow> goerror + duration" where
  "optional_duration field i raw0 old = (let raw = trim_space raw0 in
     if raw = '''' then Inr old
     else case parse_duration raw of
       None \<Rightarrow> Inl (Errorf (''manager config: traders[%d].exec_guards.'' @ field @ '' invalid'') [itoa i])
     | Some d \<Rightarrow> if d < 0 then Inl (Errorf (''manager config: traders[%d].exec_guards.'' @ field @ '' invalid'') [itoa i])
                 else Inr d)"

definition trader_durations :: "int \<Rightarrow> trader_config \<Rightarrow> goerror + trader_config" where
  "trader_durations i t =
    (case parse_positive_duration (''traders['' @ itoa i @ ''].decision_interval'') (tc_decision_interval_raw t) of
       Inl e \<Rightarrow> Inl e
     | Inr d \<Rightarrow> (let g = tc_exec_guards t in
         case optional_duration ''cooldown_after_close'' i (eg_cooldown_raw g) (eg_cooldown_after_close g) of
           Inl e \<Rightarrow> Inl e
         | Inr cd \<Rightarrow> (case optional_duration ''pause_duration_on_breach'' i (eg_pause_duration_raw g) (eg_pause_duration g) of
             Inl e \<Rightarrow> Inl e
           | Inr pd \<Rightarrow> Inr (t\<lparr>tc_decision_interval := d,
               tc_exec_guards := g\<lparr>eg_cooldown_after_close := cd, eg_pause_duration := pd\<rparr>\<rparr>))))"

fun traders_durations :: "int \<Rightarrow> trader_config list \<Rightarrow> goerror + trader_config list" where
  "traders_durations i [] = Inr []"
| "traders_durations i (t # ts) = (case trader_durations i t of
     Inl e \<Rightarrow> Inl e
   | Inr t' \<Rightarrow> (case traders_durations (i + 1) ts of Inl e \<Rightarrow> Inl e | Inr ts' \<Rightarrow> Inr (t' # ts')))"

definition config_parse_durations :: "config \<Rightarrow> goerror + config" where
  "config_parse_durations c =
    (case parse_positive_duration ''manager.rebalance_interval'' (ms_rebalance_raw (cfg_manager c)) of
       Inl e \<Rightarrow> Inl e
     | Inr rb \<Rightarrow> (case traders_durations 0 (cfg_traders c) of
         Inl e \<Rightarrow> Inl e
       | Inr ts \<Rightarrow> (case parse_positive_duration ''monitoring.update_interval'' (mo_update_raw (cfg_monitoring c)) of
           Inl e \<Rightarrow> Inl e
         | Inr up \<Rightarrow> Inr (c\<lparr>cfg_manager := (cfg_manager c)\<lparr>ms_rebalance_interval := rb\<rparr>, cfg_traders := ts,
             cfg_monitoring := (cfg_monitoring c)\<lparr>mo_update_interval := up\<rparr>\<rparr>))))"

definition normalize_execution_mode :: "execution_mode \<Rightarrow> string \<Rightarrow> execution_mode" where
  "normalize_execution_mode mode exchange_provider =
    (let raw = to_lower (trim_space mode)
     in if raw \<in> {mode_paper, mode_testnet, mode_live} then raw
        else if raw = '''' then
          (let provider = to_lower (trim_space exchange_provider)
           in if contains_sub provider ''testnet'' then mode_testnet
              else if contains_sub provider ''paper'' \<or> contains_sub provider ''sim'' then mode_paper
              else mode_paper)
        else raw)"

fun normalize_symbols :: "string list \<Rightarrow> string list \<Rightarrow> string list" where
  "normalize_symbols seen [] = []"
| "normalize_symbols seen (s # ss) = (let u = to_upper (trim_space s) in
     if u = '''' \<or> u \<in> set seen then normalize_symbols seen ss
     else u # normalize_symbols (u # seen) ss)"

definition normalize_symbol_list :: "string list \<Rightarrow> string list" where
  "normalize_symbol_list ss = sort (normalize_symbols [] ss)"

definition config_resolve_path :: "config_env \<Rightarrow> string \<Rightarrow> string \<Rightarrow> string" where
  "config_resolve_path env base_dir path0 = (let path = trim_space (env_expand env path0) in
     if path = '''' \<or> env_is_abs env path then path else env_join env base_dir path)"

definition trader_expand :: "config_env \<Rightarrow> string \<Rightarrow> trader_config \<Rightarrow> trader_config" where
  "trader_expand env base t = (let provider = trim_space (tc_exchange_provider t) in t
    \<lparr>tc_id := trim_space (tc_id t), tc_name := trim_space (tc_name t),
     tc_exchange_provider := provider,
     tc_execution_mode := normalize_execution_mode (tc_execution_mode t) provider,
     tc_market_provider := trim_space (tc_market_provider t),
     tc_order_style := to_lower (trim_space (tc_order_style t)),
     tc_risk_params := (tc_risk_params t)\<lparr>rp_allowed_symbols := normalize_symbol_list (rp_allowed_symbols (tc_risk_params t))\<rparr>,
     tc_prompt_template := config_resolve_path env base (tc_prompt_template t),
     tc_executor_template := config_resolve_path env base (tc_executor_template t),
     tc_journal_dir := config_resolve_path env base (tc_journal_dir t)\<rparr>)"

definition config_expand_fields :: "config_env \<Rightarrow> config \<Rightarrow> config" where
  "config_expand_fields env c = c
    \<lparr>cfg_manager := (cfg_manager c)
       \<lparr>ms_storage_path := config_resolve_path env (cfg_base_dir c) (ms_storage_path (cfg_manager c)),
        ms_allocation_strategy := trim_space (ms_allocation_strategy (cfg_manager c)),
        ms_storage_backend := trim_space (ms_storage_backend (cfg_manager c))\<rparr>,
     cfg_traders := map (trader_expand env (cfg_base_dir c)) (cfg_traders c),
     cfg_monitoring := (cfg_monitoring c)
       \<lparr>mo_alert_webhook := trim_space (env_expand env (mo_alert_webhook (cfg_monitoring c))),
        mo_metrics_exporter := trim_space (mo_metrics_exporter (cfg_monitoring c))\<rparr>\<rparr>"

subsection \<open>Validation\<close>

definition trader_error :: "int \<Rightarrow> string \<Rightarrow> string list \<Rightarrow> goerror" where
  "trader_error i msg args = Errorf (''manager config: traders[%d].'' @ msg) (itoa i # args)"

definition risk_guards :: "int \<Rightarrow> risk_parameters \<Rightarrow> (bool \<times> goerror) list" where
  "risk_guards i r =
    [(rp_max_positions r \<le> 0, trader_error i ''risk_params.max_positions must be positive'' []),
     (rp_max_position_size r \<le> 0, trader_error i ''risk_params.max_position_size_usd must be positive'' []),
     (rp_max_margin_usage_pct r < 0 \<or> lit 100 < rp_max_margin_usage_pct r,
      trader_error i ''risk_params.max_margin_usage_pct must be between 0 and 100'' []),
     (rp_max_daily_loss_usd r < 0, trader_error i ''risk_params.max_daily_loss_usd cannot be negative'' []),
     (rp_max_daily_loss_pct r < 0 \<or> lit 100 < rp_max_daily_loss_pct r,
      trader_error i ''risk_params.max_daily_loss_pct must be between 0 and 100'' []),
     (rp_major_leverage r \<le> 0, trader_error i ''risk_params.major_coin_leverage must be positive'' []),
     (rp_alt_leverage r \<le> 0, trader_error i ''risk_params.altcoin_leverage must be positive'' []),
     (rp_min_risk_reward r \<le> 0, trader_error i ''risk_params.min_risk_reward_ratio must be positive'' []),
     (rp_min_confidence r < 0 \<or> rp_min_confidence r > 100,
      trader_error i ''risk_params.min_confidence must be between 0 and 100'' [])]"

definition order_style_guards :: "int \<Rightarrow> trader_config \<Rightarrow> (bool \<times> goerror) list" where
  "order_style_guards i t =
    [(tc_order_style t \<notin> {style_limit_ioc, style_market_ioc},
      trader_error i ''order_style %q unsupported'' [tc_order_style t]),
     (tc_order_style t = style_market_ioc \<and> tc_slippage_bps t \<le> 0,
      trader_error i ''market_ioc_slippage_bps must be positive'' [])]"

definition execution_mode_guards :: "int \<Rightarrow> trader_config \<Rightarrow> (bool \<times> goerror) list" where
  "execution_mode_guards i t =
    [(tc_execution_mode t \<notin> {mode_paper, mode_testnet, mode_live},
      trader_error i ''execution_mode %q unsupported'' [tc_execution_mode t])]"

definition exec_guard_guards :: "int \<Rightarrow> exec_guards \<Rightarrow> (bool \<times> goerror) list" where
  "exec_guard_guards i g =
    [(eg_max_new_per_cycle g < 0, trader_error i ''exec_guards.max_new_positions_per_cycle cannot be negative'' []),
     (eg_liquidity_threshold g < 0, trader_error i ''exec_guards.liquidity_threshold_usd cannot be negative'' []),
     (eg_max_margin_usage_pct g < 0 \<or> lit 100 < eg_max_margin_usage_pct g,
      trader_error i ''exec_guards.max_margin_usage_pct must be 0..100'' [])]"

definition stat_guard :: "config_env \<Rightarrow> int \<Rightarrow> string \<Rightarrow> string \<Rightarrow> bool \<times> goerror" where
  "stat_guard env i field path = (case env_stat env path of
     None \<Rightarrow> (False, trader_error i field [])
   | Some e \<Rightarrow> (True, Wrapf (''manager config: traders[%d].'' @ field @ '' %q not accessible: %w'') [itoa i, path] e))"

definition trader_guards :: "config_env \<Rightarrow> string list \<Rightarrow> int \<Rightarrow> trader_config \<Rightarrow> (bool \<times> goerror) list" where
  "trader_guards env seen i t =
    [(tc_id t = '''', trader_error i ''id is required'' []),
     (tc_id t \<in> set seen, Errorf ''manager config: duplicate trader id %q'' [tc_id t]),
     (tc_name t = '''', trader_error i ''name is required'' []),
     (trim_space (tc_exchange_provider t) = '''', trader_error i ''exchange_provider is required'' []),
     (trim_space (tc_market_provider t) = '''', trader_error i ''market_provider is required'' []),
     (tc_prompt_template t = '''', trader_error i ''prompt_template is required'' []),
     stat_guard env i ''prompt_template'' (tc_prompt_template t),
     (trim_space (tc_executor_template t) = '''', trader_error i ''executor_prompt_template is required'' []),
     stat_guard env i ''executor_prompt_template'' (tc_executor_template t),
     (tc_allocation_pct t < 0, trader_error i ''allocation_pct cannot be negative'' [])] @
    risk_guards i (tc_risk_params t) @ order_style_guards i t @ execution_mode_guards i t @
    exec_guard_guards i (tc_exec_guards t)"

text \<open>The loop over the traders: the error, or the sum of the allocations.\<close>

fun validate_traders :: "config_env \<Rightarrow> string list \<Rightarrow> f64 \<Rightarrow> int \<Rightarrow> trader_config list \<Rightarrow> goerror + f64" where
  "validate_traders env seen alloc i [] = Inr alloc"
| "validate_traders env seen alloc i (t # ts) = (case guards (trader_guards env seen i t) of
     Some e \<Rightarrow> Inl e
   | None \<Rightarrow> validate_traders env (tc_id t # seen) (alloc + tc_allocation_pct t) (i + 1) ts)"

definition micro :: f64 where "micro = lit (1 / 1000000)"

definition allocation_guards :: "f64 \<Rightarrow> f64 \<Rightarrow> (bool \<times> goerror) list" where
  "allocation_guards reserve alloc =
    [(lit 100 + micro < alloc, Errorf ''manager config: trader allocation sum %.2f exceeds 100'' [format_fixed 2 alloc]),
     ((lit 100 - reserve) + micro < alloc,
      Errorf ''manager config: trader allocation %.2f exceeds available equity after reserve %.2f''
        [format_fixed 2 alloc, format_fixed 2 (lit 100 - reserve)])]"

definition manager_guards :: "config \<Rightarrow> (bool \<times> goerror) list" where
  "manager_guards c = (let m = cfg_manager c in
    [(ms_total_equity m < 0, Errorf ''manager config: manager.total_equity_usd cannot be negative'' []),
     (ms_reserve_pct m < 0 \<or> lit 100 < ms_reserve_pct m,
      Errorf ''manager config: manager.reserve_equity_pct must be between 0 and 100'' []),
     (trim_space (ms_storage_backend m) = '''', Errorf ''manager config: manager.state_storage_backend is required'' []),
     (trim_space (ms_storage_path m) = '''', Errorf ''manager config: manager.state_storage_path is required'' []),
     (cfg_traders c = [], Errorf ''manager config: at least one trader must be defined'' [])])"

definition config_validate :: "config_env \<Rightarrow> config \<Rightarrow> goerror option" where
  "config_validate env c = (case guards (manager_guards c) of
     Some e \<Rightarrow> Some e
   | None \<Rightarrow> (case validate_traders env [] 0 0 (cfg_traders c) of
       Inl e \<Rightarrow> Some e
     | Inr alloc \<Rightarrow> guards (allocation_guards (ms_reserve_pct (cfg_manager c)) alloc @
         [(mo_metrics_exporter (cfg_monitoring c) = '''', Errorf ''manager config: monitoring.metrics_exporter is required'' [])])))"

text \<open>\<open>LoadConfigFromReader\<close> after the YAML decoder has filled the fields.\<close>

definition config_load :: "config_env \<Rightarrow> string \<Rightarrow> config \<Rightarrow> goerror + config" where
  "config_load env base_dir decoded =
    (case config_parse_durations (config_apply_defaults (decoded\<lparr>cfg_base_dir := base_dir\<rparr>)) of
       Inl e \<Rightarrow> Inl e
     | Inr c \<Rightarrow> (let c1 = config_expand_fields env c in case config_validate env c1 of
         Some e \<Rightarrow> Inl e
       | None \<Rightarrow> Inr c1))"

definition trader_ids :: "config \<Rightarrow> string list" where
  "trader_ids c = sort (map tc_id (cfg_traders c))"

subsection \<open>An example configuration\<close>

definition demo_risk :: risk_parameters where
  "demo_risk = \<lparr>rp_max_positions = 3, rp_max_position_size = lit 500, rp_max_margin_usage_pct = lit 60,
     rp_max_daily_loss_usd = lit 100, rp_max_daily_loss_pct = lit 5, rp_major_leverage = 10, rp_alt_leverage = 5,
     rp_min_risk_reward = lit 2, rp_min_confidence = 60, rp_stop_loss_enabled = True,
     rp_take_profit_enabled = True, rp_allowed_symbols = ['' btc'', ''ETH'', ''BTC'']\<rparr>"

definition demo_guards :: exec_guards where
  "demo_guards = \<lparr>eg_max_new_per_cycle = 1, eg_liquidity_threshold = 0, eg_max_margin_usage_pct = lit 50,
     eg_btceth_min_multiple = 0, eg_btceth_max_multiple = lit 2, eg_alt_min_multiple = 0, eg_alt_max_multiple = lit 1,
     eg_cooldown_after_close = 0, eg_cooldown_raw = ''15m'', eg_enable_liquidity = None,
     eg_enable_margin_usage = None, eg_enable_value_band = None, eg_enable_cooldown = None,
     eg_candidate_limit = 5, eg_sharpe_pause_threshold = 0, eg_pause_duration = 0, eg_pause_duration_raw = ''''\<rparr>"

definition demo_trader_config :: trader_config where
  "demo_trader_config = \<lparr>tc_id = '' alpha '', tc_name = ''Alpha'', tc_exchange_provider = ''paper'',
     tc_market_provider = ''hl'', tc_execution_mode = '''', tc_order_style = '''', tc_slippage_bps = 0,
     tc_prompt_template = ''p'', tc_executor_template = ''e'', tc_model = '''', tc_decision_interval = 0,
     tc_risk_params = demo_risk, tc_exec_guards = demo_guards, tc_allocation_pct = lit 40, tc_auto_start = True,
     tc_journal_enabled = False, tc_journal_dir = '''', tc_version = 0, tc_decision_interval_raw = ''''\<rparr>"

definition demo_config :: config where
  "demo_config = \<lparr>cfg_manager = \<lparr>ms_total_equity = lit 10000, ms_reserve_pct = lit 10, ms_allocation_strategy = '''',
       ms_rebalance_interval = 0, ms_storage_backend = ''file'', ms_storage_path = ''s'', ms_rebalance_raw = ''''\<rparr>,
     cfg_traders = [demo_trader_config],
     cfg_monitoring = \<lparr>mo_update_interval = 0, mo_alert_webhook = '''', mo_metrics_exporter = ''prom'', mo_update_raw = ''''\<rparr>,
     cfg_base_dir = ''''\<rparr>"

subsection \<open>Symbols and modes\<close>

definition norm_symbol :: "string \<Rightarrow> string" where
  "norm_symbol s = to_upper (trim_space s)"

lemma norm_symbol_idem [simp]: "norm_symbol (norm_symbol s) = norm_symbol s"
  by (simp add: norm_symbol_def trim_to_upper)

lemma norm_symbol_image: "norm_symbol ` (norm_symbol ` A - B) = norm_symbol ` A - B"
proof -
  have "norm_symbol ` (norm_symbol ` A - B) = (\<lambda>x. x) ` (norm_symbol ` A - B)"
    by (rule image_cong) auto
  then show ?thesis by simp
qed

lemma normalize_symbols_spec:
  "distinct (normalize_symbols seen ss) \<and>
   set (normalize_symbols seen ss) = norm_symbol ` set ss - {''''} - set seen"
proof (induction seen ss rule: normalize_symbols.induct)
  case (2 seen s ss)
  then show ?case by (cases "norm_symbol s = '''' \<or> norm_symbol s \<in> set seen") (auto simp: norm_symbol_def Let_def)
qed simp

text \<open>The normalized list of allowed symbols is sorted, has no repetition, and holds the
  trimmed upper-case form of every symbol of the input that is not blank, and nothing else.\<close>

theorem normalize_symbol_list_spec:
  "sorted (normalize_symbol_list ss) \<and> distinct (normalize_symbol_list ss) \<and>
   set (normalize_symbol_list ss) = norm_symbol ` set ss - {''''} \<and>
   normalize_symbol_list (normalize_symbol_list ss) = normalize_symbol_list ss"
proof -
  have spec: "sorted (normalize_symbol_list xs) \<and> distinct (normalize_symbol_list xs) \<and>
      set (normalize_symbol_list xs) = norm_symbol ` set xs - {''''}" for xs
    using normalize_symbols_spec [of "[]" xs] by (simp add: normalize_symbol_list_def)
  have "normalize_symbol_list (normalize_symbol_list ss) = normalize_symbol_list ss"
    using spec [of ss] spec [of "normalize_symbol_list ss"]
    by (intro sorted_distinct_set_unique) (auto simp: norm_symbol_image)
  then show ?thesis using spec [of ss] by blast
qed

text \<open>Live trading is never inferred: the mode comes out live only when the configuration
  says live, whatever the provider is called.\<close>

theorem live_mode_explicit:
  "normalize_execution_mode mode provider = mode_live \<longleftrightarrow> to_lower (trim_space mode) = mode_live"
  by (auto simp: normalize_execution_mode_def Let_def)

subsection \<open>A configuration that loads\<close>

definition risk_params_ok :: "risk_parameters \<Rightarrow> bool" where
  "risk_params_ok r \<longleftrightarrow> 0 < rp_max_positions r \<and> \<not> rp_max_position_size r \<le> 0 \<and>
     0 < rp_major_leverage r \<and> 0 < rp_alt_leverage r \<and> \<not> rp_min_risk_reward r \<le> 0 \<and>
     \<not> rp_max_daily_loss_usd r < 0 \<and> \<not> rp_max_daily_loss_pct r < 0 \<and> \<not> lit 100 < rp_max_daily_loss_pct r \<and>
     0 \<le> rp_min_confidence r \<and> rp_min_confidence r \<le> 100"

lemma trader_guards_None:
  "guards (trader_guards env seen i t) = None \<Longrightarrow>
   tc_id t \<noteq> '''' \<and> tc_id t \<notin> set seen \<and> risk_params_ok (tc_risk_params t) \<and>
   tc_execution_mode t \<in> {mode_paper, mode_testnet, mode_live} \<and>
   tc_order_style t \<in> {style_limit_ioc, style_market_ioc} \<and> \<not> tc_allocation_pct t < 0"
  by (auto simp: guards_None trader_guards_def risk_guards_def order_style_guards_def
      execution_mode_guards_def risk_params_ok_def)

lemma validate_traders_sound:
  "validate_traders env seen a i ts = Inr b \<Longrightarrow>
   b = foldl (+) a (map tc_allocation_pct ts) \<and> distinct (map tc_id ts) \<and> set (map tc_id ts) \<inter> set seen = {} \<and>
   (\<forall>t \<in> set ts. tc_id t \<noteq> '''' \<and> risk_params_ok (tc_risk_params t) \<and>
     tc_execution_mode t \<in> {mode_paper, mode_testnet, mode_live} \<and>
     tc_order_style t \<in> {style_limit_ioc, style_market_ioc} \<and> \<not> tc_allocation_pct t < 0)"
proof (induction env seen a i ts rule: validate_traders.induct)
  case (2 env seen a i t ts)
  then show ?case using trader_guards_None [of env seen i t] by (fastforce split: option.splits)
qed simp

lemma traders_durations_sound:
  "traders_durations i ts = Inr ts' \<Longrightarrow> \<forall>t \<in> set ts'. 0 < tc_decision_interval t"
proof (induction i ts arbitrary: ts' rule: traders_durations.induct)
  case (2 i t ts)
  then show ?case
    by (fastforce simp: trader_durations_def parse_positive_duration_def Let_def
        split: sum.splits option.splits if_splits)
qed simp

text \<open>The numbers of a configuration. YAML spells \<open>.nan\<close>, and no guard refuses it, for every comparison with it is false.\<close>

definition trader_numbers :: "trader_config \<Rightarrow> f64 list" where
  "trader_numbers t = (let r = tc_risk_params t; g = tc_exec_guards t in
     [tc_allocation_pct t, tc_slippage_bps t, rp_max_position_size r, rp_max_margin_usage_pct r, rp_max_daily_loss_usd r, rp_max_daily_loss_pct r,
      rp_min_risk_reward r, eg_liquidity_threshold g, eg_max_margin_usage_pct g])"

definition config_numbers :: "config \<Rightarrow> f64 list" where
  "config_numbers c = ms_total_equity (cfg_manager c) # ms_reserve_pct (cfg_manager c) # concat (map trader_numbers (cfg_traders c))"

definition between :: "f64 \<Rightarrow> f64 \<Rightarrow> f64 \<Rightarrow> bool" where
  "between lo hi x \<longleftrightarrow> lo \<le> x \<and> x \<le> hi"

text \<open>Every number of a trader in its range.\<close>

definition trader_in_range :: "trader_config \<Rightarrow> bool" where
  "trader_in_range t \<longleftrightarrow> (let r = tc_risk_params t; g = tc_exec_guards t in
     0 \<le> tc_allocation_pct t \<and> 0 < rp_max_position_size r \<and> between 0 (lit 100) (rp_max_margin_usage_pct r) \<and>
     0 \<le> rp_max_daily_loss_usd r \<and> between 0 (lit 100) (rp_max_daily_loss_pct r) \<and> 0 < rp_min_risk_reward r \<and>
     0 \<le> eg_liquidity_threshold g \<and> between 0 (lit 100) (eg_max_margin_usage_pct g) \<and>
     (tc_order_style t = style_market_ioc \<longrightarrow> 0 < tc_slippage_bps t))"

text \<open>What else a trader that loads has.\<close>

definition trader_shape_ok :: "config_env \<Rightarrow> trader_config \<Rightarrow> bool" where
  "trader_shape_ok env t \<longleftrightarrow> (let r = tc_risk_params t in
     tc_id t \<noteq> '''' \<and> tc_name t \<noteq> '''' \<and> trim_space (tc_exchange_provider t) \<noteq> '''' \<and> trim_space (tc_market_provider t) \<noteq> '''' \<and>
     env_stat env (tc_prompt_template t) = None \<and> env_stat env (tc_executor_template t) = None \<and>
     tc_execution_mode t \<in> {mode_paper, mode_testnet, mode_live} \<and> tc_order_style t \<in> {style_limit_ioc, style_market_ioc} \<and>
     0 < rp_max_positions r \<and> 0 < rp_major_leverage r \<and> 0 < rp_alt_leverage r \<and> 0 \<le> rp_min_confidence r \<and> rp_min_confidence r \<le> 100 \<and>
     0 \<le> eg_max_new_per_cycle (tc_exec_guards t))"

lemma lit_not_nan: "\<not> is_nan (lit 100)" "\<not> is_nan (0 :: f64)"
  by code_simp+

lemma trader_guards_shape: "guards (trader_guards env seen i t) = None \<Longrightarrow> trader_shape_ok env t"
  by (auto simp: guards_None trader_guards_def risk_guards_def order_style_guards_def execution_mode_guards_def exec_guard_guards_def stat_guard_def
      trader_shape_ok_def Let_def split: option.splits)

lemma trader_guards_range:
  assumes "guards (trader_guards env seen i t) = None" "list_all (\<lambda>x. \<not> is_nan x) (trader_numbers t)"
  shows "trader_in_range t"
  using assms lit_not_nan
  by (simp add: guards_None trader_guards_def risk_guards_def order_style_guards_def exec_guard_guards_def trader_in_range_def between_def
      trader_numbers_def Let_def f64_not_less f64_not_le)

lemma validate_traders_all:
  "validate_traders env seen a i ts = Inr b \<Longrightarrow> \<forall>t \<in> set ts. \<exists>seen i. guards (trader_guards env seen i t) = None"
proof (induction env seen a i ts rule: validate_traders.induct)
  case (2 env seen a i t ts)
  then show ?case by (auto split: option.splits)
qed simp

lemma sum_not_nan: "0 \<le> a \<Longrightarrow> list_all (\<lambda>x. 0 \<le> x) xs \<Longrightarrow> 0 \<le> foldl (+) a (xs :: f64 list)"
proof (induction xs arbitrary: a)
  case (Cons x xs)
  have "0 \<le> a + x"
  proof (cases a; cases x)
    fix p q assume "a = Fin p" "x = Fin q"
    then show ?thesis using Cons.prems fround_nonneg [of "p + q"] by (simp add: zero_f64_def plus_f64_def)
  qed (use Cons.prems in \<open>auto simp: zero_f64_def plus_f64_def\<close>)
  then show ?case using Cons by simp
qed simp


lemma sum_bounded:
  assumes "\<not> x + micro < s" "0 \<le> s" "between 0 (lit 100) x"
  shows "s \<le> x + micro"
proof -
  obtain q where "x = Fin q" "0 \<le> q" using assms(3) by (cases x) (auto simp: between_def lit_def zero_f64_def)
  moreover have "\<not> is_nan y \<Longrightarrow> \<not> is_nan (Fin q + y)" for y by (cases y) (auto simp: plus_f64_def)
  moreover have "\<not> is_nan micro" by code_simp
  ultimately have "\<not> is_nan (x + micro)" by simp
  then show ?thesis using assms(1,2) by (cases s) (auto simp: f64_not_less)
qed

text \<open>C3. In a configuration that loads there is at least one trader, no two share an id, and each has an id, a name, providers, templates that can be read, a known
  mode and style, positive counts and leverages, a confidence between 0 and 100, a positive interval and a normalized whitelist. If none of its numbers is the
  \<open>.nan\<close> of YAML, then every number of a trader is in its range (a positive position size and reward, every percentage between 0 and 100, losses and allocations
  that are not negative, a positive slippage for market orders), and together the traders are allocated no more than the reserve leaves, up to a millionth.\<close>

theorem config_load_sound:
  assumes "config_load env dir decoded = Inr c"
  shows "cfg_traders c \<noteq> [] \<and> distinct (map tc_id (cfg_traders c)) \<and> list_all (trader_shape_ok env) (cfg_traders c) \<and>
    list_all (\<lambda>t. 0 < tc_decision_interval t \<and>
      norm_symbol ` set (rp_allowed_symbols (tc_risk_params t)) = set (rp_allowed_symbols (tc_risk_params t))) (cfg_traders c) \<and>
    (list_all (\<lambda>x. \<not> is_nan x) (config_numbers c) \<longrightarrow>
      list_all trader_in_range (cfg_traders c) \<and> between 0 (lit 100) (ms_reserve_pct (cfg_manager c)) \<and> 0 \<le> ms_total_equity (cfg_manager c) \<and>
      (let total = foldl (+) 0 (map tc_allocation_pct (cfg_traders c)) in
        0 \<le> total \<and> total \<le> lit 100 + micro \<and> total \<le> (lit 100 - ms_reserve_pct (cfg_manager c)) + micro))"
proof -
  obtain c0 where d: "config_parse_durations (config_apply_defaults (decoded\<lparr>cfg_base_dir := dir\<rparr>)) = Inr c0"
    and c: "c = config_expand_fields env c0" and v: "config_validate env c = None"
    using assms by (auto simp: config_load_def Let_def split: sum.splits option.splits)
  have iv: "\<forall>t \<in> set (cfg_traders c0). 0 < tc_decision_interval t"
    using d by (auto simp: config_parse_durations_def split: sum.splits dest: traders_durations_sound)
  have g: "guards (manager_guards c) = None"
    using v by (cases "guards (manager_guards c)") (simp_all add: config_validate_def)
  then obtain b where b: "validate_traders env [] 0 0 (cfg_traders c) = Inr b"
    using v by (cases "validate_traders env [] 0 0 (cfg_traders c)") (simp_all add: config_validate_def)
  have al: "guards (allocation_guards (ms_reserve_pct (cfg_manager c)) b) = None"
    using v by (cases "guards (allocation_guards (ms_reserve_pct (cfg_manager c)) b)")
      (simp_all add: config_validate_def g b guards_append)
  note sum = validate_traders_sound [OF b]
  have wl: "norm_symbol ` set (normalize_symbol_list ss) = set (normalize_symbol_list ss)" for ss
    using normalize_symbols_spec [of "[]" ss] by (simp add: normalize_symbol_list_def norm_symbol_image)
  have shape: "list_all (trader_shape_ok env) (cfg_traders c)"
    using validate_traders_all [OF b] trader_guards_shape by (auto simp: list_all_iff)
  have other: "list_all (\<lambda>t. 0 < tc_decision_interval t \<and>
      norm_symbol ` set (rp_allowed_symbols (tc_risk_params t)) = set (rp_allowed_symbols (tc_risk_params t))) (cfg_traders c)"
    using iv wl by (auto simp: list_all_iff c config_expand_fields_def trader_expand_def Let_def)
  have ne: "cfg_traders c \<noteq> []" using g by (auto simp: guards_None manager_guards_def Let_def)
  have num: "list_all trader_in_range (cfg_traders c) \<and> between 0 (lit 100) (ms_reserve_pct (cfg_manager c)) \<and> 0 \<le> ms_total_equity (cfg_manager c) \<and>
      0 \<le> b \<and> b \<le> lit 100 + micro \<and> b \<le> (lit 100 - ms_reserve_pct (cfg_manager c)) + micro"
    if n: "list_all (\<lambda>x. \<not> is_nan x) (config_numbers c)"
  proof -
    have tr: "list_all trader_in_range (cfg_traders c)"
      using validate_traders_all [OF b] trader_guards_range n by (fastforce simp: list_all_iff config_numbers_def)
    have m: "between 0 (lit 100) (ms_reserve_pct (cfg_manager c))" "0 \<le> ms_total_equity (cfg_manager c)"
      using g n lit_not_nan by (auto simp: guards_None manager_guards_def between_def config_numbers_def Let_def f64_not_less)
    have a: "0 \<le> foldl (+) 0 (map tc_allocation_pct (cfg_traders c))"
      using tr by (intro sum_not_nan) (auto simp: list_all_iff trader_in_range_def Let_def zero_f64_def)
    then have b0: "0 \<le> b" using sum by simp
    obtain q where q: "ms_reserve_pct (cfg_manager c) = Fin q" "0 \<le> q" "q \<le> 100" using m(1)
      by (cases "ms_reserve_pct (cfg_manager c)") (auto simp: between_def zero_f64_def lit_def fround_of_int [of 100, simplified])
    have left: "between 0 (lit 100) (lit 100 - ms_reserve_pct (cfg_manager c))"
      using q fround_nonneg [of "100 - q"] fround_mono [of "100 - q" 100]
      by (simp add: between_def lit_def minus_f64_def fround_of_int [of 100, simplified])
    have top: "between 0 (lit 100) (lit 100)" by code_simp
    have g2: "\<not> lit 100 + micro < b" "\<not> (lit 100 - ms_reserve_pct (cfg_manager c)) + micro < b"
      using al by (simp_all add: guards_None allocation_guards_def)
    show ?thesis using tr m b0 sum_bounded [OF g2(1) b0 top] sum_bounded [OF g2(2) b0 left] by simp
  qed
  show ?thesis using ne sum shape other num by (simp add: Let_def)
qed


theorem config_load_sound_witness:
  "\<exists>c. config_load \<lparr>env_expand = (\<lambda>s. s), env_is_abs = (\<lambda>s. True), env_join = (\<lambda>a b. a @ b),
       env_stat = (\<lambda>s. None), env_project_path = Inr\<rparr> ''/etc'' demo_config = Inr c \<and> list_all trader_in_range (cfg_traders c)"
proof -
  let ?env = "\<lparr>env_expand = (\<lambda>s. s), env_is_abs = (\<lambda>s. True), env_join = (\<lambda>a b. a @ b),
       env_stat = (\<lambda>s. None), env_project_path = Inr\<rparr>"
  have e: "(case config_load ?env ''/etc'' demo_config of Inr c \<Rightarrow> list_all (\<lambda>x. \<not> is_nan x) (config_numbers c) | Inl e \<Rightarrow> False)" by code_simp
  then obtain c where c: "config_load ?env ''/etc'' demo_config = Inr c" by (auto split: sum.splits)
  show ?thesis using config_load_sound [OF c] c e by simp
qed

text \<open>A position limit that is not a number passes every guard.\<close>

lemma nan_limit_loads:
  "is_ok (config_load \<lparr>env_expand = (\<lambda>s. s), env_is_abs = (\<lambda>s. True), env_join = (\<lambda>a b. a @ b), env_stat = (\<lambda>s. None), env_project_path = Inr\<rparr> ''/etc''
     (demo_config\<lparr>cfg_traders := [demo_trader_config\<lparr>tc_risk_params := demo_risk\<lparr>rp_max_position_size := NaN\<rparr>\<rparr>]\<rparr>))"
  by code_simp

end
