(* ===== verification/Market.thy ===== *)
theory Market
  imports GoTime
begin

text \<open>
  Market data (\<open>pkg/market/provider.go\<close>): the normalized snapshot and the provider interface.
  A provider is code outside the decision logic, so a client takes it as a function from
  symbols to a snapshot (\<open>None\<close> is a nil pointer) or an error.
\<close>

record change_info =
  ch_one_hour :: f64
  ch_four_hour :: f64

record indicator_info =
  ind_ema :: "(string, f64) gomap"
  ind_macd :: f64
  ind_rsi :: "(string, f64) gomap"

record open_interest_info =
  oi_latest :: f64
  oi_average :: f64

record series_bundle =
  sb_prices :: "f64 list"
  sb_ema :: "(string, f64 list) gomap"
  sb_macd :: "f64 list"
  sb_rsi :: "(string, f64 list) gomap"
  sb_atr :: "(string, f64 list) gomap"
  sb_volume :: "f64 list"

record snapshot =
  sn_symbol :: string
  sn_price_last :: f64
  sn_change :: change_info
  sn_indicators :: indicator_info
  sn_open_interest :: "open_interest_info option"
  sn_funding_rate :: "f64 option"
  sn_intraday :: "series_bundle option"
  sn_long_term :: "series_bundle option"

record asset =
  asset_symbol_name :: string
  asset_base :: string
  asset_quote :: string
  asset_precision :: int
  asset_is_active :: bool

type_synonym snapshot_source = "string \<Rightarrow> goerror + snapshot option"

end
