(* ===== verification/Executor.thy ===== *)
theory Executor
  imports Market
begin

text \<open>
  The executor (\<open>pkg/executor\<close>): the context a decision is taken in, the contract of the
  language model and its mapping to a decision, the checks a decision passes before it
  leaves the executor (\<open>ValidateDecisions\<close>), the bookkeeping of repeated failures and the
  end-to-end flow \<open>GetFullDecision\<close>. Prompt rendering, the model call and the JSON schema
  are parameters.

  Shown: \<open>ValidateDecisions\<close> accepts exactly the decisions that meet a declarative
  specification; what an accepted open guarantees about prices, leverage and exposure; that
  mapping a contract gives a known action; and that the flow returns only validated
  decisions and counts consecutive failures.
\<close>

subsection \<open>Types\<close>

record position_info =
  pi_symbol :: string
  pi_side :: string
  pi_entry_price :: f64
  pi_mark_price :: f64
  pi_quantity :: f64
  pi_leverage :: int
  pi_unrealized :: f64
  pi_unrealized_pct :: f64
  pi_liquidation_price :: f64
  pi_margin_used :: f64
  pi_update_time :: int

record account_info =
  ai_total_equity :: f64
  ai_available :: f64
  ai_total_pnl :: f64
  ai_total_pnl_pct :: f64
  ai_margin_used :: f64
  ai_margin_used_pct :: f64
  ai_position_count :: int

record candidate_coin =
  cc_symbol :: string
  cc_sources :: "string list"

record performance_view =
  pf_sharpe :: f64
  pf_win_rate :: f64
  pf_total_trades :: int
  pf_recent_rate :: f64
  pf_updated_at :: time

record asset_meta =
  am_max_leverage :: f64
  am_precision :: int
  am_only_isolated :: bool

record exec_context =
  ctx_current_time :: string
  ctx_runtime_minutes :: int
  ctx_call_count :: int
  ctx_account :: account_info
  ctx_positions :: "position_info list"
  ctx_candidates :: "candidate_coin list"
  ctx_market_data :: "(string, snapshot option) gomap"
  ctx_open_interest :: "(string, open_interest_info option) gomap"
  ctx_performance :: "performance_view option"
  ctx_major_leverage :: int
  ctx_alt_leverage :: int
  ctx_asset_meta :: "(string, asset_meta) gomap"
  ctx_max_risk_pct :: f64
  ctx_max_position_size :: f64
  ctx_liquidity_threshold :: f64
  ctx_max_margin_usage_pct :: f64
  ctx_btceth_min_multiple :: f64
  ctx_btceth_max_multiple :: f64
  ctx_alt_min_multiple :: f64
  ctx_alt_max_multiple :: f64
  ctx_recently_closed :: "(string, time) gomap"
  ctx_cooldown_after_close :: duration

record decision =
  dec_symbol :: string
  dec_action :: string
  dec_leverage :: int
  dec_position_size :: f64
  dec_entry_price :: f64
  dec_stop_loss :: f64
  dec_take_profit :: f64
  dec_confidence :: int
  dec_risk_usd :: f64
  dec_reasoning :: string
  dec_invalidation :: string

record full_decision =
  fd_user_prompt :: string
  fd_cot_trace :: string
  fd_decisions :: "decision list"
  fd_timestamp :: time

record exec_override =
  ov_major_leverage :: "int option"
  ov_alt_leverage :: "int option"
  ov_min_confidence :: "int option"
  ov_min_risk_reward :: "f64 option"
  ov_max_positions :: "int option"

record exec_config =
  ec_major_leverage :: int
  ec_alt_leverage :: int
  ec_min_confidence :: int
  ec_min_risk_reward :: f64
  ec_max_positions :: int
  ec_decision_interval :: duration
  ec_decision_timeout :: duration
  ec_max_concurrent :: int
  ec_allowed_traders :: "string list"
  ec_signing_key :: string
  ec_overrides :: "(string, exec_override) gomap"
  ec_schema_version :: string
  ec_strict_mode :: bool
  ec_require_version :: bool
  ec_validate_output :: bool
  ec_schema_path :: string
  ec_fail_on_invalid :: bool
  ec_trader_id :: string
  ec_interval_raw :: string
  ec_timeout_raw :: string
  ec_min_rr_set :: bool
  ec_base_dir :: string

subsection \<open>Contract of the language model\<close>

record decision_contract =
  dc_signal :: string
  dc_symbol :: string
  dc_leverage :: int
  dc_position_size :: f64
  dc_entry_price :: f64
  dc_stop_loss :: f64
  dc_take_profit :: f64
  dc_risk_usd :: f64
  dc_confidence :: int
  dc_invalidation :: string
  dc_reasoning :: string

fun infer_side_upper :: "position_info list \<Rightarrow> string \<Rightarrow> string" where
  "infer_side_upper [] s = ''''"
| "infer_side_upper (p # ps) s =
    (if equal_fold (pi_symbol p) s
     then (if to_lower (pi_side p) = ''short'' then ''short'' else ''long'')
     else infer_side_upper ps s)"

definition infer_side :: "position_info list \<Rightarrow> string \<Rightarrow> string" where
  "infer_side ps symbol = infer_side_upper ps (to_upper (trim_space symbol))"

definition is_btc_eth :: "string \<Rightarrow> bool" where
  "is_btc_eth s = (let u = to_upper (trim_space s) in u = ''BTC'' \<or> u = ''ETH'')"

definition map_decision_contract :: "decision_contract \<Rightarrow> position_info list \<Rightarrow> decision" where
  "map_decision_contract d positions =
    (let action = to_lower (trim_space (dc_signal d));
         mapped = (if action = ''buy_to_enter'' then ''open_long''
           else if action = ''sell_to_enter'' then ''open_short''
           else if action = ''hold'' then ''hold''
           else if action = ''close''
           then (if infer_side positions (dc_symbol d) = ''short'' then ''close_short'' else ''close_long'')
           else ''hold'')
     in \<lparr>dec_symbol = dc_symbol d, dec_action = mapped, dec_leverage = dc_leverage d,
         dec_position_size = dc_position_size d, dec_entry_price = dc_entry_price d,
         dec_stop_loss = dc_stop_loss d, dec_take_profit = dc_take_profit d,
         dec_confidence = dc_confidence d, dec_risk_usd = dc_risk_usd d,
         dec_reasoning = dc_reasoning d, dec_invalidation = dc_invalidation d\<rparr>)"

definition sanitize_response :: "string \<Rightarrow> string" where
  "sanitize_response s = (let t = trim_space s; bom = map char_of [239 :: nat, 187, 191]
     in if has_prefix bom t then drop 3 t else t)"

subsection \<open>Validation\<close>

definition eps :: f64 where "eps = lit (1 / 1000000000)"

definition dec_error :: "int \<Rightarrow> string \<Rightarrow> string list \<Rightarrow> goerror" where
  "dec_error i msg args = Errorf (''decision[%d]: '' @ msg) (itoa i # args)"

definition reward_risk :: "decision \<Rightarrow> bool \<Rightarrow> f64" where
  "reward_risk d long =
    (if long then (dec_take_profit d - dec_entry_price d) / (dec_entry_price d - dec_stop_loss d)
     else (dec_entry_price d - dec_take_profit d) / (dec_stop_loss d - dec_entry_price d))"

text \<open>The fields of an open and the relation of its prices (lines 19 to 54).\<close>

definition open_field_guards :: "exec_config \<Rightarrow> int \<Rightarrow> bool \<Rightarrow> decision \<Rightarrow> (bool \<times> goerror) list" where
  "open_field_guards cfg i long d =
    [(trim_space (dec_symbol d) = '''', dec_error i ''symbol is required'' []),
     (dec_leverage d \<le> 0, dec_error i ''leverage must be positive'' []),
     (dec_position_size d \<le> 0, dec_error i ''position_size_usd must be positive'' []),
     (dec_stop_loss d \<le> 0 \<or> dec_take_profit d \<le> 0 \<or> dec_entry_price d \<le> 0,
      dec_error i ''entry/stop_loss/take_profit must be positive'' []),
     (dec_confidence d < 0 \<or> dec_confidence d > 100, dec_error i ''confidence must be 0-100'' []),
     (dec_confidence d < ec_min_confidence cfg, dec_error i ''confidence below threshold'' []),
     (long \<and> \<not> (dec_entry_price d < dec_take_profit d \<and> dec_stop_loss d < dec_entry_price d),
      dec_error i ''long requires TP>entry>SL'' []),
     (\<not> long \<and> \<not> (dec_entry_price d < dec_stop_loss d \<and> dec_take_profit d < dec_entry_price d),
      dec_error i ''short requires SL>entry>TP'' []),
     (reward_risk d long < ec_min_risk_reward cfg,
      dec_error i ''reward/risk %.2f below min %.2f''
        [format_fixed 2 (reward_risk d long), format_fixed 2 (ec_min_risk_reward cfg)])]"

text \<open>The cap on the leverage: by class of coin, and by the venue when it states one.\<close>

definition leverage_cap :: "exec_config \<Rightarrow> exec_context option \<Rightarrow> string \<Rightarrow> int" where
  "leverage_cap cfg ctx symbol =
    (let base = (if is_btc_eth symbol then ec_major_leverage cfg else ec_alt_leverage cfg)
     in case ctx of None \<Rightarrow> base
        | Some c \<Rightarrow> (case lookup (ctx_asset_meta c) symbol of
            None \<Rightarrow> base
          | Some m \<Rightarrow> if 0 < am_max_leverage m \<and> int_of_f64 (am_max_leverage m) < base
                      then int_of_f64 (am_max_leverage m) else base))"

definition leverage_guard :: "exec_config \<Rightarrow> exec_context option \<Rightarrow> int \<Rightarrow> decision \<Rightarrow> bool \<times> goerror" where
  "leverage_guard cfg ctx i d = (let cap = leverage_cap cfg ctx (dec_symbol d) in
     (dec_leverage d > cap,
      dec_error i ''leverage %dx exceeds cap %dx'' [itoa (dec_leverage d), itoa cap]))"

text \<open>The market value of the open interest, when the snapshot has what it takes.\<close>

definition oi_value :: "exec_context \<Rightarrow> string \<Rightarrow> f64 option" where
  "oi_value c symbol = (case lookup (ctx_market_data c) symbol of
     Some (Some snap) \<Rightarrow> (case sn_open_interest snap of
         Some oi \<Rightarrow> if 0 < sn_price_last snap then Some (oi_latest oi * sn_price_last snap) else None
       | None \<Rightarrow> None)
   | _ \<Rightarrow> None)"

definition min_multiple :: "exec_context \<Rightarrow> string \<Rightarrow> f64" where
  "min_multiple c s = (if is_btc_eth s then ctx_btceth_min_multiple c else ctx_alt_min_multiple c)"

definition max_multiple :: "exec_context \<Rightarrow> string \<Rightarrow> f64" where
  "max_multiple c s = (if is_btc_eth s then ctx_btceth_max_multiple c else ctx_alt_max_multiple c)"

definition margin_usage_pct :: "exec_context \<Rightarrow> decision \<Rightarrow> f64" where
  "margin_usage_pct c d =
    lit 100 * ((ai_margin_used (ctx_account c) + dec_position_size d / f64_of_int (dec_leverage d))
      / ai_total_equity (ctx_account c))"

definition in_cooldown :: "exec_context \<Rightarrow> time \<Rightarrow> string \<Rightarrow> bool" where
  "in_cooldown c now s = (0 < ctx_cooldown_after_close c \<and> (case lookup (ctx_recently_closed c) s of
     Some ts \<Rightarrow> \<not> is_zero_time ts \<and> now - ts < ctx_cooldown_after_close c
   | None \<Rightarrow> False))"

definition has_position :: "exec_context \<Rightarrow> string \<Rightarrow> bool" where
  "has_position c s = list_ex (\<lambda>p. equal_fold (pi_symbol p) s) (ctx_positions c)"

text \<open>The guards that need the context (lines 73 to 158).\<close>

definition open_context_guards ::
  "exec_config \<Rightarrow> exec_context \<Rightarrow> time \<Rightarrow> int \<Rightarrow> decision \<Rightarrow> (bool \<times> goerror) list" where
  "open_context_guards cfg c now i d =
    (let s = dec_symbol d; equity = ai_total_equity (ctx_account c); sz = dec_position_size d;
         cat = (if is_btc_eth s then ''BTC/ETH'' else ''alt'');
         usage = margin_usage_pct c d; max_risk = equity * (ctx_max_risk_pct c / lit 100)
     in
    [(0 < ctx_liquidity_threshold c \<and> (case oi_value c s of
        Some v \<Rightarrow> v + eps < ctx_liquidity_threshold c | None \<Rightarrow> False),
      dec_error i ''%s illiquid: oi*price %.2f < threshold %.2f''
        [s, (case oi_value c s of Some v \<Rightarrow> format_fixed 2 v | None \<Rightarrow> ''''), format_fixed 2 (ctx_liquidity_threshold c)]),
     (0 < equity \<and> 0 < min_multiple c s \<and> sz + eps < equity * min_multiple c s,
      dec_error i (''position_size_usd %.2f below '' @ cat @ '' min %.2f (%.2fx equity)'')
        [format_fixed 2 sz, format_fixed 2 (equity * min_multiple c s), format_fixed 2 (min_multiple c s)]),
     (0 < equity \<and> 0 < max_multiple c s \<and> equity * max_multiple c s < sz - eps,
      dec_error i (''position_size_usd %.2f exceeds '' @ cat @ '' max %.2f (%.2fx equity)'')
        [format_fixed 2 sz, format_fixed 2 (equity * max_multiple c s), format_fixed 2 (max_multiple c s)]),
     (0 < ctx_max_margin_usage_pct c \<and> 0 < equity \<and> 0 < dec_leverage d \<and>
        ctx_max_margin_usage_pct c + eps < usage,
      dec_error i ''margin usage %.2f%% exceeds cap %.2f%% after new position''
        [format_fixed 2 usage, format_fixed 2 (ctx_max_margin_usage_pct c)]),
     (in_cooldown c now s, dec_error i ''%s in cooldown window (%s remaining)''
        [s, itoa (truncate_to second (ctx_cooldown_after_close c - (now - get_or 0 (ctx_recently_closed c) s)))]),
     (int (length (ctx_positions c)) \<ge> ec_max_positions cfg,
      dec_error i ''max_positions reached (%d)'' [itoa (ec_max_positions cfg)]),
     (has_position c s, dec_error i ''position already exists on %s; no add/hedge allowed'' [s]),
     (0 < equity \<and> 0 < ctx_max_risk_pct c \<and> max_risk + eps < dec_risk_usd d,
      dec_error i ''risk_usd %.2f exceeds max %.2f (%.2f%% of equity)''
        [format_fixed 2 (dec_risk_usd d), format_fixed 2 max_risk, format_fixed 2 (ctx_max_risk_pct c)]),
     (0 < ctx_max_position_size c \<and> ctx_max_position_size c + eps < sz,
      dec_error i ''position_size_usd %.2f exceeds cap %.2f''
        [format_fixed 2 sz, format_fixed 2 (ctx_max_position_size c)])])"

definition validate_open :: "exec_config \<Rightarrow> exec_context option \<Rightarrow> time \<Rightarrow> int \<Rightarrow> bool \<Rightarrow> decision \<Rightarrow> goerror option" where
  "validate_open cfg ctx now i long d =
    guards (open_field_guards cfg i long d @ [leverage_guard cfg ctx i d] @
      (case ctx of None \<Rightarrow> [] | Some c \<Rightarrow> open_context_guards cfg c now i d))"

definition has_side :: "exec_context \<Rightarrow> string \<Rightarrow> string \<Rightarrow> bool" where
  "has_side c s side = list_ex (\<lambda>p. equal_fold (pi_symbol p) s \<and> equal_fold (pi_side p) side) (ctx_positions c)"

definition validate_close :: "exec_context option \<Rightarrow> int \<Rightarrow> bool \<Rightarrow> decision \<Rightarrow> goerror option" where
  "validate_close ctx i long d =
    (let side = (if long then ''long'' else ''short'')
     in guards [(trim_space (dec_symbol d) = '''', dec_error i ''symbol is required'' []),
       (ctx = None, dec_error i ''context required to validate close action'' []),
       (case ctx of Some c \<Rightarrow> \<not> has_side c (dec_symbol d) side | None \<Rightarrow> False,
        dec_error i ''no matching %s position to close for %s'' [side, dec_symbol d])])"

definition validate_decision :: "exec_config \<Rightarrow> exec_context option \<Rightarrow> time \<Rightarrow> int \<Rightarrow> decision \<Rightarrow> goerror option" where
  "validate_decision cfg ctx now i d =
    (let action = trim_space (dec_action d)
     in if action = ''open_long'' then validate_open cfg ctx now i True d
        else if action = ''open_short'' then validate_open cfg ctx now i False d
        else if action = ''close_long'' then validate_close ctx i True d
        else if action = ''close_short'' then validate_close ctx i False d
        else if action = ''hold'' \<or> action = ''wait'' then None
        else Some (dec_error i ''unknown action %q'' [dec_action d]))"

fun validate_from :: "exec_config \<Rightarrow> exec_context option \<Rightarrow> time \<Rightarrow> int \<Rightarrow> decision list \<Rightarrow> goerror option" where
  "validate_from cfg ctx now i [] = None"
| "validate_from cfg ctx now i (d # ds) = (case validate_decision cfg ctx now i d of
     Some e \<Rightarrow> Some e
   | None \<Rightarrow> validate_from cfg ctx now (i + 1) ds)"

definition validate_decisions ::
  "exec_config option \<Rightarrow> exec_context option \<Rightarrow> time \<Rightarrow> decision list \<Rightarrow> goerror option" where
  "validate_decisions cfg ctx now ds = (case cfg of
     None \<Rightarrow> Some (Errorf ''executor: missing config for validation'' [])
   | Some c \<Rightarrow> validate_from c ctx now 0 ds)"

subsection \<open>Building the context\<close>

text \<open>\<open>BuildContext\<close>: snapshots for the candidates and the open positions that have none yet;
  a symbol whose snapshot fails is skipped. \<open>it\<close> is the order the set of symbols is met in.\<close>

definition context_symbols :: "exec_context \<Rightarrow> (string, unit) gomap" where
  "context_symbols base =
    fold (\<lambda>s m. put s () m) (map cc_symbol (ctx_candidates base) @ map pi_symbol (ctx_positions base)) []"

fun fetch_snapshots :: "snapshot_source \<Rightarrow> string list \<Rightarrow> (string, snapshot option) gomap \<Rightarrow> (string, snapshot option) gomap" where
  "fetch_snapshots mkt [] m = m"
| "fetch_snapshots mkt (s # ss) m =
    (if lookup m s \<noteq> None then fetch_snapshots mkt ss m
     else case mkt s of
       Inl e \<Rightarrow> fetch_snapshots mkt ss m
     | Inr snap \<Rightarrow> fetch_snapshots mkt ss (put s snap m))"

definition build_context ::
  "((string \<times> unit) list \<Rightarrow> (string \<times> unit) list) \<Rightarrow> exec_context option \<Rightarrow> snapshot_source option \<Rightarrow> goerror + exec_context" where
  "build_context it base mkt = (case base of
     None \<Rightarrow> Inl (Errorf ''executor: base context is required'' [])
   | Some b \<Rightarrow> Inr (case mkt of
       None \<Rightarrow> b
     | Some m \<Rightarrow> b\<lparr>ctx_market_data := fetch_snapshots m (map fst (it (context_symbols b))) (ctx_market_data b)\<rparr>))"

subsection \<open>The decision flow\<close>

record chat_response =
  cr_model :: string
  cr_choices :: "string list"
  cr_prompt_tokens :: int
  cr_completion_tokens :: int
  cr_total_tokens :: int

record conversation_record =
  cv_model_id :: string
  cv_prompt :: string
  cv_prompt_tokens :: int
  cv_response :: string
  cv_completion_tokens :: int
  cv_total_tokens :: int
  cv_model_name :: string
  cv_timestamp :: time

text \<open>The executor's state. \<open>ex_schema\<close> is the compiled JSON schema, when output validation is
  on; \<open>ex_recorded\<close> is what the conversation recorder was given, latest first.\<close>

record executor =
  ex_cfg :: exec_config
  ex_performance :: "performance_view option"
  ex_model_alias :: string
  ex_failures :: "(string, int) gomap"
  ex_schema :: "(string \<Rightarrow> goerror option) option"
  ex_recorded :: "conversation_record list"

definition update_performance :: "performance_view option \<Rightarrow> executor \<Rightarrow> executor" where
  "update_performance view e = e\<lparr>ex_performance := view\<rparr>"

definition normalize_failure_key :: "string \<Rightarrow> goerror option \<Rightarrow> string" where
  "normalize_failure_key symbol err =
    (let key = to_upper (trim_space symbol)
     in if key \<noteq> '''' then key
        else case err of None \<Rightarrow> ''''
          | Some e \<Rightarrow> (let msg0 = trim_space (error_text e); msg = take 64 msg0
              in if msg = '''' then '''' else ''ERR:'' @ msg))"

definition track_failure :: "string \<Rightarrow> goerror \<Rightarrow> executor \<Rightarrow> executor" where
  "track_failure symbol err e =
    (let key = normalize_failure_key symbol (Some err)
     in if key = '''' then e
        else e\<lparr>ex_failures := put key (get_or 0 (ex_failures e) key + 1) (ex_failures e)\<rparr>)"

definition reset_failure :: "string \<Rightarrow> executor \<Rightarrow> executor" where
  "reset_failure symbol e =
    (let key = normalize_failure_key symbol None
     in if key = '''' then e else e\<lparr>ex_failures := del key (ex_failures e)\<rparr>)"

definition record_conversation :: "time \<Rightarrow> string \<Rightarrow> chat_response option \<Rightarrow> executor \<Rightarrow> executor" where
  "record_conversation now prompt resp e = (case resp of
     None \<Rightarrow> e
   | Some r \<Rightarrow> if trim_space (ec_trader_id (ex_cfg e)) = '''' then e
       else (case cr_choices r of
           [] \<Rightarrow> e
         | content # _ \<Rightarrow> e\<lparr>ex_recorded :=
             \<lparr>cv_model_id = ec_trader_id (ex_cfg e), cv_prompt = prompt, cv_prompt_tokens = cr_prompt_tokens r,
              cv_response = trim_space content, cv_completion_tokens = cr_completion_tokens r,
              cv_total_tokens = cr_total_tokens r, cv_model_name = cr_model r, cv_timestamp = now\<rparr> # ex_recorded e\<rparr>))"

text \<open>\<open>validateSchema\<close>: the raw answer, or the decoded contract printed again when it is blank.
  \<open>marshal\<close> is the JSON encoder.\<close>

definition validate_schema ::
  "(decision_contract \<Rightarrow> goerror + string) \<Rightarrow> chat_response option \<Rightarrow> decision_contract \<Rightarrow> executor \<Rightarrow> goerror option" where
  "validate_schema marshal resp contract e = (case ex_schema e of
     None \<Rightarrow> None
   | Some check \<Rightarrow>
       let content = (case resp of None \<Rightarrow> '''' | Some r \<Rightarrow>
             (case cr_choices r of [] \<Rightarrow> '''' | c # _ \<Rightarrow> trim_space c))
       in if content \<noteq> '''' then check content
          else (case marshal contract of
              Inl err \<Rightarrow> Some (Wrapf ''executor: marshal decision for schema validation: %w'' [] err)
            | Inr raw \<Rightarrow> if raw = '''' then None else check raw))"

text \<open>What the prompt is rendered from.\<close>

definition zero_account :: account_info where
  "zero_account = \<lparr>ai_total_equity = 0, ai_available = 0, ai_total_pnl = 0, ai_total_pnl_pct = 0,
     ai_margin_used = 0, ai_margin_used_pct = 0, ai_position_count = 0\<rparr>"

definition zero_context :: exec_context where
  "zero_context = \<lparr>ctx_current_time = '''', ctx_runtime_minutes = 0, ctx_call_count = 0,
     ctx_account = zero_account, ctx_positions = [], ctx_candidates = [], ctx_market_data = [],
     ctx_open_interest = [], ctx_performance = None, ctx_major_leverage = 0, ctx_alt_leverage = 0,
     ctx_asset_meta = [], ctx_max_risk_pct = 0, ctx_max_position_size = 0, ctx_liquidity_threshold = 0,
     ctx_max_margin_usage_pct = 0, ctx_btceth_min_multiple = 0, ctx_btceth_max_multiple = 0,
     ctx_alt_min_multiple = 0, ctx_alt_max_multiple = 0, ctx_recently_closed = [],
     ctx_cooldown_after_close = 0\<rparr>"

definition prompt_context :: "executor \<Rightarrow> exec_context \<Rightarrow> exec_context" where
  "prompt_context e input = zero_context
    \<lparr>ctx_current_time := ctx_current_time input, ctx_runtime_minutes := ctx_runtime_minutes input,
     ctx_call_count := ctx_call_count input, ctx_account := ctx_account input,
     ctx_positions := ctx_positions input, ctx_candidates := ctx_candidates input,
     ctx_market_data := ctx_market_data input, ctx_open_interest := ctx_open_interest input,
     ctx_performance := ex_performance e, ctx_major_leverage := ec_major_leverage (ex_cfg e),
     ctx_alt_leverage := ec_alt_leverage (ex_cfg e)\<rparr>"

text \<open>The services \<open>GetFullDecision\<close> calls: the prompt renderer, the structured chat (within the
  configured timeout) and the JSON encoder.\<close>

record exec_services =
  sv_render :: "exec_config \<Rightarrow> exec_context \<Rightarrow> goerror + string"
  sv_chat :: "duration \<Rightarrow> string \<Rightarrow> string \<Rightarrow> goerror + chat_response option \<times> decision_contract"
  sv_marshal :: "decision_contract \<Rightarrow> goerror + string"

definition get_full_decision ::
  "exec_services \<Rightarrow> time \<Rightarrow> exec_context option \<Rightarrow> executor \<Rightarrow> (full_decision option \<times> goerror option) \<times> executor" where
  "get_full_decision sv now input e = (case input of
     None \<Rightarrow> ((None, Some (Errorf ''executor: input context is required'' [])), e)
   | Some inp \<Rightarrow> (case sv_render sv (ex_cfg e) (prompt_context e inp) of
       Inl err \<Rightarrow> ((None, Some err), e)
     | Inr prompt \<Rightarrow>
         let answer = (\<lambda>ds. Some \<lparr>fd_user_prompt = prompt, fd_cot_trace = '''', fd_decisions = ds, fd_timestamp = now\<rparr>)
         in case sv_chat sv (ec_decision_timeout (ex_cfg e)) prompt (ex_model_alias e) of
           Inl err \<Rightarrow> ((answer [], Some err), e)
         | Inr (resp, out) \<Rightarrow>
             let e1 = record_conversation now prompt resp e;
                 schema_err = validate_schema (sv_marshal sv) resp out e1
             in if schema_err \<noteq> None \<and> ec_fail_on_invalid (ex_cfg e)
                then ((answer [], schema_err), e1)
                else let mapped = map_decision_contract out (ctx_positions inp)
                  in case validate_decisions (Some (ex_cfg e)) (Some inp) now [mapped] of
                    Some err \<Rightarrow> ((answer [mapped], Some err), track_failure (dec_symbol mapped) err e1)
                  | None \<Rightarrow> ((answer [mapped], None), reset_failure (dec_symbol mapped) e1)))"

subsection \<open>What validation accepts\<close>

lemma validate_open_None:
  "validate_open cfg ctx now i long d = None \<longleftrightarrow>
   guards (open_field_guards cfg i long d) = None \<and> dec_leverage d \<le> leverage_cap cfg ctx (dec_symbol d) \<and>
   (\<forall>c. ctx = Some c \<longrightarrow> guards (open_context_guards cfg c now i d) = None)"
  by (auto simp: validate_open_def guards_append guards.simps leverage_guard_def Let_def split: option.splits)

lemma validate_from_None:
  "validate_from cfg ctx now i ds = None \<longleftrightarrow> (\<forall>k < length ds. validate_decision cfg ctx now (i + int k) (ds ! k) = None)"
proof (induction ds arbitrary: i)
  case (Cons d ds)
  then show ?case by (auto simp: less_Suc_eq_0_disj algebra_simps split: option.splits)
qed simp

text \<open>The error of a batch is the error of its first bad decision, at its index.\<close>

theorem validate_first_error:
  "validate_decisions (Some cfg) ctx now ds = Some e \<longleftrightarrow>
   (\<exists>k < length ds. validate_decision cfg ctx now (int k) (ds ! k) = Some e \<and>
      (\<forall>j < k. validate_decision cfg ctx now (int j) (ds ! j) = None))"
proof -
  have "validate_from cfg ctx now i ds = Some e \<longleftrightarrow>
     (\<exists>k < length ds. validate_decision cfg ctx now (i + int k) (ds ! k) = Some e \<and>
        (\<forall>j < k. validate_decision cfg ctx now (i + int j) (ds ! j) = None))" for i
  proof (induction ds arbitrary: i)
    case (Cons d ds)
    show ?case
    proof (cases "validate_decision cfg ctx now i d")
      case None
      then show ?thesis using Cons [of "i + 1"]
        by (auto simp: Ex_less_Suc2 All_less_Suc2 algebra_simps)
    next
      case (Some e')
      then show ?thesis by (auto simp: Ex_less_Suc2 All_less_Suc2)
    qed
  qed simp
  from this [of 0] show ?thesis by (simp add: validate_decisions_def)
qed

lemma validated_member:
  assumes "validate_decisions (Some cfg) ctx now ds = None" "d \<in> set ds"
  obtains i where "validate_decision cfg ctx now i d = None"
  using assms by (auto simp: validate_decisions_def validate_from_None in_set_conv_nth)

lemma leverage_cap_le: "leverage_cap cfg ctx s \<le> (if is_btc_eth s then ec_major_leverage cfg else ec_alt_leverage cfg)"
  by (auto simp: leverage_cap_def Let_def split: option.splits)

lemma f64_pos_trans: "\<not> (a :: f64) \<le> 0 \<Longrightarrow> a < b \<Longrightarrow> 0 < a"
  by (cases a; cases b) (auto simp: zero_f64_def split: if_splits)

lemma f64_pos: "\<not> (a :: f64) \<le> 0 \<Longrightarrow> \<not> is_nan a \<Longrightarrow> 0 < a"
  by (auto simp: f64_not_le zero_f64_def)

lemma open_fields_None:
  "guards (open_field_guards cfg i long d) = None \<longleftrightarrow>
   trim_space (dec_symbol d) \<noteq> '''' \<and> 0 < dec_leverage d \<and> \<not> dec_position_size d \<le> 0 \<and>
   \<not> dec_stop_loss d \<le> 0 \<and> \<not> dec_take_profit d \<le> 0 \<and> \<not> dec_entry_price d \<le> 0 \<and>
   0 \<le> dec_confidence d \<and> dec_confidence d \<le> 100 \<and> ec_min_confidence cfg \<le> dec_confidence d \<and>
   (if long then dec_stop_loss d < dec_entry_price d \<and> dec_entry_price d < dec_take_profit d
    else dec_take_profit d < dec_entry_price d \<and> dec_entry_price d < dec_stop_loss d) \<and>
   \<not> reward_risk d long < ec_min_risk_reward cfg"
  unfolding guards_None open_field_guards_def by (auto simp: not_le)

lemma open_context_None:
  "guards (open_context_guards cfg c now i d) = None \<longleftrightarrow>
   (let s = dec_symbol d; equity = ai_total_equity (ctx_account c); sz = dec_position_size d in
    (0 < ctx_liquidity_threshold c \<longrightarrow> (\<forall>v. oi_value c s = Some v \<longrightarrow> \<not> v + eps < ctx_liquidity_threshold c)) \<and>
    (0 < equity \<and> 0 < min_multiple c s \<longrightarrow> \<not> sz + eps < equity * min_multiple c s) \<and>
    (0 < equity \<and> 0 < max_multiple c s \<longrightarrow> \<not> equity * max_multiple c s < sz - eps) \<and>
    (0 < ctx_max_margin_usage_pct c \<and> 0 < equity \<and> 0 < dec_leverage d \<longrightarrow>
       \<not> ctx_max_margin_usage_pct c + eps < margin_usage_pct c d) \<and>
    \<not> in_cooldown c now s \<and> int (length (ctx_positions c)) < ec_max_positions cfg \<and> \<not> has_position c s \<and>
    (0 < equity \<and> 0 < ctx_max_risk_pct c \<longrightarrow> \<not> equity * (ctx_max_risk_pct c / lit 100) + eps < dec_risk_usd d) \<and>
    (0 < ctx_max_position_size c \<longrightarrow> \<not> ctx_max_position_size c + eps < sz))"
  unfolding guards_None open_context_guards_def Let_def
  by (cases "oi_value c (dec_symbol d)") (auto simp: not_le)

definition is_open :: "decision \<Rightarrow> bool" where
  "is_open d \<longleftrightarrow> trim_space (dec_action d) \<in> {''open_long'', ''open_short''}"

definition is_long :: "decision \<Rightarrow> bool" where
  "is_long d \<longleftrightarrow> trim_space (dec_action d) = ''open_long''"

text \<open>A sound open: prices on the right sides of each other and positive, a size, a leverage
  within the cap, confidence and reward within the configuration.\<close>

definition sound_open :: "exec_config \<Rightarrow> exec_context option \<Rightarrow> decision \<Rightarrow> bool" where
  "sound_open cfg ctx d \<longleftrightarrow>
     trim_space (dec_symbol d) \<noteq> '''' \<and> 0 < dec_position_size d \<and>
     (if is_long d then 0 < dec_stop_loss d \<and> dec_stop_loss d < dec_entry_price d \<and> dec_entry_price d < dec_take_profit d
      else 0 < dec_take_profit d \<and> dec_take_profit d < dec_entry_price d \<and> dec_entry_price d < dec_stop_loss d) \<and>
     0 < dec_leverage d \<and> dec_leverage d \<le> leverage_cap cfg ctx (dec_symbol d) \<and>
     ec_min_confidence cfg \<le> dec_confidence d \<and> dec_confidence d \<le> 100 \<and>
     \<not> reward_risk d (is_long d) < ec_min_risk_reward cfg"

lemma validated_open:
  assumes "validate_decisions (Some cfg) ctx now ds = None" "d \<in> set ds" "is_open d"
  obtains i where "guards (open_field_guards cfg i (is_long d) d) = None"
    "dec_leverage d \<le> leverage_cap cfg ctx (dec_symbol d)"
    "\<And>c. ctx = Some c \<Longrightarrow> guards (open_context_guards cfg c now i d) = None"
proof -
  obtain i where "validate_decision cfg ctx now i d = None" using validated_member assms(1,2) by blast
  then have "validate_open cfg ctx now i (is_long d) d = None"
    using assms(3) by (auto simp: is_open_def is_long_def validate_decision_def Let_def)
  then show thesis using that by (auto simp: validate_open_None)
qed

text \<open>C2. Every open that passes validation is sound (a size of \<open>NaN\<close> apart, which no JSON
  number is).\<close>

theorem validated_open_sound:
  assumes "validate_decisions (Some cfg) ctx now ds = None" "d \<in> set ds" "is_open d"
    and "\<not> is_nan (dec_position_size d)"
  shows "sound_open cfg ctx d"
  using assms(4) by (rule_tac validated_open [OF assms(1-3)])
    (auto simp: sound_open_def open_fields_None intro: f64_pos f64_pos_trans)

text \<open>Opening on a validated decision never adds to a symbol that has a position, never
  exceeds the number of positions, and respects every limit the context sets.\<close>

theorem validated_open_exposure:
  assumes "validate_decisions (Some cfg) (Some c) now ds = None" "d \<in> set ds" "is_open d"
  shows "(\<forall>p \<in> set (ctx_positions c). \<not> equal_fold (pi_symbol p) (dec_symbol d)) \<and>
    int (length (ctx_positions c)) < ec_max_positions cfg \<and>
    (0 < ai_total_equity (ctx_account c) \<and> 0 < max_multiple c (dec_symbol d) \<longrightarrow>
       \<not> ai_total_equity (ctx_account c) * max_multiple c (dec_symbol d) < dec_position_size d - eps) \<and>
    (0 < ai_total_equity (ctx_account c) \<and> 0 < ctx_max_margin_usage_pct c \<longrightarrow>
       \<not> ctx_max_margin_usage_pct c + eps < margin_usage_pct c d) \<and>
    (0 < ctx_max_position_size c \<longrightarrow> \<not> ctx_max_position_size c + eps < dec_position_size d) \<and>
    \<not> in_cooldown c now (dec_symbol d)"
  by (rule_tac validated_open [OF assms])
    (auto simp: open_context_None open_fields_None Let_def has_position_def list_ex_iff)

text \<open>A validated close has an open position on its side to close.\<close>

theorem validated_close_matches:
  assumes "validate_decisions (Some cfg) ctx now ds = None" "d \<in> set ds"
    and "trim_space (dec_action d) \<in> {''close_long'', ''close_short''}"
  shows "\<exists>c p. ctx = Some c \<and> p \<in> set (ctx_positions c) \<and> equal_fold (pi_symbol p) (dec_symbol d) \<and>
    equal_fold (pi_side p) (if trim_space (dec_action d) = ''close_long'' then ''long'' else ''short'')"
proof -
  obtain i where "validate_decision cfg ctx now i d = None" using validated_member assms(1,2) by blast
  then show ?thesis using assms(3)
    by (auto simp: validate_decision_def validate_close_def Let_def guards_None has_side_def list_ex_iff split: if_splits option.splits)
qed


subsection \<open>From contract to decision\<close>

lemma lower_upper [simp]: "to_lower (to_upper s) = to_lower s"
proof -
  have "ascii_lower (ascii_upper c) = ascii_lower c" for c
    using code_inject by (auto simp: ascii_lower_def ascii_upper_def code_def)
  then show ?thesis by (simp add: to_lower_def to_upper_def)
qed

definition two_sided :: "position_info list \<Rightarrow> bool" where
  "two_sided ps = list_all (\<lambda>p. to_lower (pi_side p) \<in> {''long'', ''short''}) ps"

lemma infer_side_upper_found:
  assumes "two_sided ps" "list_ex (\<lambda>p. equal_fold (pi_symbol p) s) ps"
  shows "infer_side_upper ps s \<in> {''long'', ''short''} \<and>
    list_ex (\<lambda>p. equal_fold (pi_symbol p) s \<and> to_lower (pi_side p) = infer_side_upper ps s) ps"
  using assms by (induction ps) (auto simp: two_sided_def)

text \<open>When the model answers \<open>close\<close> on a symbol that has a position, the decision it is
  mapped to closes the side that is open, and passes validation.\<close>

theorem close_contract_validates:
  assumes "two_sided (ctx_positions c)" "to_lower (trim_space (dc_signal dc)) = ''close''"
    and "trim_space (dc_symbol dc) = dc_symbol dc" "dc_symbol dc \<noteq> ''''"
    and "\<exists>p \<in> set (ctx_positions c). equal_fold (pi_symbol p) (dc_symbol dc)"
  shows "validate_decisions cfg' (Some c) now [map_decision_contract dc (ctx_positions c)] =
    (if cfg' = None then Some (Errorf ''executor: missing config for validation'' []) else None)"
proof -
  let ?d = "map_decision_contract dc (ctx_positions c)"
  let ?s = "infer_side (ctx_positions c) (dc_symbol dc)"
  have fold: "equal_fold a (to_upper b) = equal_fold a b" for a b by (simp add: equal_fold_def)
  have "?s \<in> {''long'', ''short''} \<and> has_side c (dc_symbol dc) ?s"
    using infer_side_upper_found [OF assms(1), of "to_upper (dc_symbol dc)"] assms(3,5)
    by (auto simp: infer_side_def has_side_def list_ex_iff fold) (auto simp: equal_fold_def to_lower_def ascii_lower_def code_def)
  moreover have "trim_space ''close_long'' = ''close_long''" "trim_space ''close_short'' = ''close_short''" by code_simp+
  ultimately show ?thesis using assms(2-4)
    by (cases cfg') (auto simp: validate_decisions_def validate_decision_def validate_close_def map_decision_contract_def
        Let_def guards.simps)
qed

lemma mapped_action_known:
  "dec_action (map_decision_contract dc ps) \<in> {''open_long'', ''open_short'', ''hold'', ''close_long'', ''close_short''}"
  by (auto simp: map_decision_contract_def Let_def)

subsection \<open>The flow\<close>

definition failure_count :: "executor \<Rightarrow> string \<Rightarrow> int" where
  "failure_count e symbol = get_or 0 (ex_failures e) (to_upper (trim_space symbol))"

lemma record_conversation_frame [simp]:
  "ex_failures (record_conversation now prompt resp e) = ex_failures e"
  "ex_cfg (record_conversation now prompt resp e) = ex_cfg e"
  by (auto simp: record_conversation_def split: option.splits list.splits)

lemma failure_count_reset [simp]:
  "failure_count (reset_failure s e) s = (if trim_space s = '''' then failure_count e s else 0)"
  by (simp add: failure_count_def reset_failure_def normalize_failure_key_def Let_def)

lemma failure_count_track [simp]:
  "trim_space s \<noteq> '''' \<Longrightarrow> failure_count (track_failure s er e) s = failure_count e s + 1"
  by (simp add: failure_count_def track_failure_def normalize_failure_key_def Let_def)

lemma failure_count_record [simp]: "failure_count (record_conversation now prompt resp e) s = failure_count e s"
  by (simp add: failure_count_def)

text \<open>The flow reports success only with exactly one decision, which passed validation in
  the context it was asked about and clears the failures of its symbol; a decision that
  fails validation comes with its error and adds one to them.\<close>

theorem full_decision_validated:
  assumes "get_full_decision sv now (Some inp) e = ((Some fd, err), e')"
  shows "(case err of
      None \<Rightarrow> \<exists>d. fd_decisions fd = [d] \<and> validate_decisions (Some (ex_cfg e)) (Some inp) now [d] = None \<and>
        failure_count e' (dec_symbol d) = (if trim_space (dec_symbol d) = '''' then failure_count e (dec_symbol d) else 0)
    | Some er \<Rightarrow> fd_decisions fd = [] \<or>
        (\<exists>d. fd_decisions fd = [d] \<and> validate_decisions (Some (ex_cfg e)) (Some inp) now [d] = Some er \<and>
          (trim_space (dec_symbol d) \<noteq> '''' \<longrightarrow>
             failure_count e' (dec_symbol d) = failure_count e (dec_symbol d) + 1)))"
proof (cases "sv_render sv (ex_cfg e) (prompt_context e inp)")
  case (Inr prompt)
  show ?thesis
  proof (cases "sv_chat sv (ec_decision_timeout (ex_cfg e)) prompt (ex_model_alias e)")
    case (Inl er)
    then show ?thesis using assms Inr by (auto simp: get_full_decision_def)
  next
    case (Inr ro)
    obtain resp out where ro: "ro = (resp, out)" by (cases ro)
    define e1 where "e1 = record_conversation now prompt resp e"
    define d where "d = map_decision_contract out (ctx_positions inp)"
    note defs = get_full_decision_def \<open>sv_render _ _ _ = _\<close> Inr ro Let_def e1_def [symmetric] d_def [symmetric]
    have fr: "failure_count e1 s = failure_count e s" for s by (simp add: e1_def)
    show ?thesis
    proof (cases "validate_schema (sv_marshal sv) resp out e1 \<noteq> None \<and> ec_fail_on_invalid (ex_cfg e)")
      case True
      then show ?thesis using assms by (auto simp: defs)
    next
      case False
      show ?thesis
      proof (cases "validate_decisions (Some (ex_cfg e)) (Some inp) now [d]")
        case None
        then show ?thesis using assms False fr by (auto simp: defs intro!: exI [of _ d])
      next
        case (Some a)
        then have "err = Some a" "fd_decisions fd = [d]" "e' = track_failure (dec_symbol d) a e1"
          using assms False by (auto simp: defs)
        then show ?thesis using fr Some by simp
      qed
    qed
  qed
qed (use assms in \<open>simp add: get_full_decision_def\<close>)

subsection \<open>Examples\<close>

definition demo_cfg :: exec_config where
  "demo_cfg = \<lparr>ec_major_leverage = 10, ec_alt_leverage = 5, ec_min_confidence = 60, ec_min_risk_reward = lit 2,
     ec_max_positions = 3, ec_decision_interval = 180 * second, ec_decision_timeout = 60 * second,
     ec_max_concurrent = 1, ec_allowed_traders = [''alpha''], ec_signing_key = '''', ec_overrides = [],
     ec_schema_version = '''', ec_strict_mode = False, ec_require_version = False, ec_validate_output = False,
     ec_schema_path = '''', ec_fail_on_invalid = False, ec_trader_id = ''alpha'', ec_interval_raw = '''',
     ec_timeout_raw = '''', ec_min_rr_set = False, ec_base_dir = ''''\<rparr>"

definition demo_position :: position_info where
  "demo_position = \<lparr>pi_symbol = ''ETH'', pi_side = ''short'', pi_entry_price = lit 20, pi_mark_price = lit 20,
     pi_quantity = lit 1, pi_leverage = 1, pi_unrealized = 0, pi_unrealized_pct = 0, pi_liquidation_price = 0,
     pi_margin_used = lit 20, pi_update_time = 0\<rparr>"

definition demo_ctx :: exec_context where
  "demo_ctx = zero_context\<lparr>ctx_account := zero_account\<lparr>ai_total_equity := lit 1000\<rparr>,
     ctx_positions := [demo_position], ctx_max_margin_usage_pct := lit 60,
     ctx_btceth_max_multiple := lit 2, ctx_max_position_size := lit 500\<rparr>"

definition demo_contract :: "string \<Rightarrow> string \<Rightarrow> decision_contract" where
  "demo_contract signal symbol = \<lparr>dc_signal = signal, dc_symbol = symbol, dc_leverage = 5,
     dc_position_size = lit 400, dc_entry_price = lit 100, dc_stop_loss = lit 90, dc_take_profit = lit 130,
     dc_risk_usd = lit 10, dc_confidence = 80, dc_invalidation = '''', dc_reasoning = ''''\<rparr>"

definition demo_open :: decision where
  "demo_open = map_decision_contract (demo_contract ''buy_to_enter'' ''BTC'') (ctx_positions demo_ctx)"

definition demo_services :: exec_services where
  "demo_services = \<lparr>sv_render = (\<lambda>cfg c. Inr ''prompt''),
     sv_chat = (\<lambda>t p m. Inr (None, demo_contract ''buy_to_enter'' ''BTC'')), sv_marshal = (\<lambda>d. Inr '''')\<rparr>"

definition demo_executor :: executor where
  "demo_executor = \<lparr>ex_cfg = demo_cfg, ex_performance = None, ex_model_alias = '''',
     ex_failures = [(''BTC'', 2)], ex_schema = None, ex_recorded = []\<rparr>"

lemma demo_valid: "validate_decisions (Some demo_cfg) (Some demo_ctx) 0 [demo_open] = None"
  by code_simp

theorem validate_first_error_witness:
  "\<exists>k < length [demo_open, demo_open\<lparr>dec_action := ''x''\<rparr>].
     validate_decision demo_cfg (Some demo_ctx) 0 (int k) ([demo_open, demo_open\<lparr>dec_action := ''x''\<rparr>] ! k) \<noteq> None \<and>
     (\<forall>j < k. validate_decision demo_cfg (Some demo_ctx) 0 (int j) ([demo_open, demo_open\<lparr>dec_action := ''x''\<rparr>] ! j) = None)"
proof -
  have "validate_decisions (Some demo_cfg) (Some demo_ctx) 0 [demo_open, demo_open\<lparr>dec_action := ''x''\<rparr>] \<noteq> None"
    by code_simp
  then obtain e where "validate_decisions (Some demo_cfg) (Some demo_ctx) 0 [demo_open, demo_open\<lparr>dec_action := ''x''\<rparr>] = Some e"
    by blast
  from this [unfolded validate_first_error] show ?thesis by blast
qed

theorem validated_open_sound_witness: "sound_open demo_cfg (Some demo_ctx) demo_open"
proof -
  have "is_open demo_open" "\<not> is_nan (dec_position_size demo_open)" by code_simp+
  then show ?thesis using validated_open_sound [OF demo_valid] by simp
qed

theorem validated_open_exposure_witness:
  "int (length (ctx_positions demo_ctx)) < ec_max_positions demo_cfg \<and>
   \<not> ctx_max_position_size demo_ctx + eps < dec_position_size demo_open"
proof -
  have "is_open demo_open" "0 < ctx_max_position_size demo_ctx" by code_simp+
  then show ?thesis using validated_open_exposure [OF demo_valid, of demo_open] by simp
qed

theorem validated_close_matches_witness:
  "\<exists>p \<in> set (ctx_positions demo_ctx). equal_fold (pi_side p) ''short''"
proof -
  define d where "d = map_decision_contract (demo_contract ''close'' ''ETH'') (ctx_positions demo_ctx)"
  have v: "validate_decisions (Some demo_cfg) (Some demo_ctx) 0 [d] = None" unfolding d_def by code_simp
  have a: "trim_space (dec_action d) = ''close_short''" unfolding d_def by code_simp
  show ?thesis using validated_close_matches [OF v, of d] by (auto simp: a)
qed

theorem close_contract_validates_witness:
  "validate_decisions (Some demo_cfg) (Some demo_ctx) 0
     [map_decision_contract (demo_contract '' Close '' ''eth'') (ctx_positions demo_ctx)] = None"
proof -
  have "two_sided (ctx_positions demo_ctx)"
    "to_lower (trim_space (dc_signal (demo_contract '' Close '' ''eth''))) = ''close''"
    "trim_space (dc_symbol (demo_contract '' Close '' ''eth'')) = dc_symbol (demo_contract '' Close '' ''eth'')"
    "dc_symbol (demo_contract '' Close '' ''eth'') \<noteq> ''''"
    "\<exists>p \<in> set (ctx_positions demo_ctx). equal_fold (pi_symbol p) (dc_symbol (demo_contract '' Close '' ''eth''))"
    by code_simp+
  from close_contract_validates [OF this, of "Some demo_cfg" 0] show ?thesis by simp
qed

theorem full_decision_validated_witness:
  "failure_count (snd (get_full_decision demo_services 0 (Some demo_ctx) demo_executor)) ''BTC'' = 0"
proof -
  let ?fd = "\<lparr>fd_user_prompt = ''prompt'', fd_cot_trace = '''', fd_decisions = [demo_open], fd_timestamp = 0\<rparr>"
  have r: "fst (get_full_decision demo_services 0 (Some demo_ctx) demo_executor) = (Some ?fd, None)"
    by (simp add: get_full_decision_def demo_services_def demo_executor_def Let_def validate_schema_def
        demo_open_def [symmetric] demo_valid record_conversation_def)
  then have eq: "get_full_decision demo_services 0 (Some demo_ctx) demo_executor =
      ((Some ?fd, None), snd (get_full_decision demo_services 0 (Some demo_ctx) demo_executor))"
    by (metis prod.collapse)
  have sy: "dec_symbol demo_open = ''BTC''" "trim_space ''BTC'' = ''BTC''" by code_simp+
  from full_decision_validated [OF eq] show ?thesis by (simp add: sy)
qed

end
