(* ===== verification/Trader.thy ===== *)
theory Trader
  imports ManagerConfig Executor
begin

text \<open>
  A virtual trader (\<open>pkg/manager/trader.go\<close>): its lifecycle, the daily equity baseline and the
  risk circuit breaker (\<open>risk_circuit.go\<close>, \<open>policy.go\<close>), and the runtime state that survives a
  restart (\<open>buildRuntimeStateDetail\<close> and \<open>hydrateTraderFromState\<close> of \<open>manager.go\<close> with the records
  of \<open>pkg/repo/trader_runtime_repo.go\<close>). The providers and the executor a trader is bound to are
  arguments of the operations that call them; \<open>tr_provider_type\<close> is the Go type name of its
  exchange provider, which the policy looks at.

  Shown: a trader whose circuit breaker has tripped is not running, through every operation
  and across a restart, until an operator starts or resumes it; the baseline of a day is set
  once a day; and what of the runtime state a restart preserves.
\<close>

subsection \<open>Types\<close>

datatype trader_state = TraderRunning | TraderPaused | TraderStopped | TraderError

record resource_allocation =
  ra_allocated :: f64
  ra_allocation_pct :: f64
  ra_current_equity :: f64
  ra_available :: f64
  ra_margin_used :: f64
  ra_unrealized :: f64

record daily_risk =
  dr_date :: string
  dr_start_equity :: f64
  dr_last_equity :: f64
  dr_updated_at :: time

record risk_circuit =
  rc_blocked :: bool
  rc_date :: string
  rc_reason :: string
  rc_triggered_at :: time

record performance_metrics =
  pm_total_pnl :: f64
  pm_total_pnl_pct :: f64
  pm_sharpe :: f64
  pm_win_rate :: f64
  pm_total_trades :: int
  pm_winning :: int
  pm_losing :: int
  pm_avg_win :: f64
  pm_avg_loss :: f64
  pm_max_drawdown_pct :: f64
  pm_current_drawdown_pct :: f64
  pm_updated_at :: time

record virtual_position =
  vp_symbol :: string
  vp_side :: string
  vp_quantity :: f64
  vp_notional :: f64
  vp_entry_price :: f64
  vp_leverage :: int
  vp_opened_at :: time
  vp_updated_at :: time

record trader =
  tr_id :: string
  tr_name :: string
  tr_exchange :: string
  tr_model :: string
  tr_provider_type :: string
  tr_prompt_template :: string
  tr_execution_mode :: execution_mode
  tr_order_style :: order_style
  tr_slippage_bps :: f64
  tr_risk :: risk_parameters
  tr_guards :: exec_guards
  tr_alloc :: resource_allocation
  tr_daily :: daily_risk
  tr_circuit :: risk_circuit
  tr_config_version :: int
  tr_state :: trader_state
  tr_performance :: "performance_metrics option"
  tr_last_decision_at :: time
  tr_decision_interval :: duration
  tr_created_at :: time
  tr_updated_at :: time
  tr_positions :: "(string, virtual_position) gomap"
  tr_cooldown :: "(string, time) gomap"
  tr_journal_enabled :: bool
  tr_pause_until :: time

definition zero_alloc :: resource_allocation where
  "zero_alloc = \<lparr>ra_allocated = 0, ra_allocation_pct = 0, ra_current_equity = 0, ra_available = 0,
     ra_margin_used = 0, ra_unrealized = 0\<rparr>"

definition zero_daily :: daily_risk where
  "zero_daily = \<lparr>dr_date = '''', dr_start_equity = 0, dr_last_equity = 0, dr_updated_at = zero_time\<rparr>"

definition zero_circuit :: risk_circuit where
  "zero_circuit = \<lparr>rc_blocked = False, rc_date = '''', rc_reason = '''', rc_triggered_at = zero_time\<rparr>"

definition zero_performance :: performance_metrics where
  "zero_performance = \<lparr>pm_total_pnl = 0, pm_total_pnl_pct = 0, pm_sharpe = 0, pm_win_rate = 0, pm_total_trades = 0,
     pm_winning = 0, pm_losing = 0, pm_avg_win = 0, pm_avg_loss = 0, pm_max_drawdown_pct = 0,
     pm_current_drawdown_pct = 0, pm_updated_at = zero_time\<rparr>"

definition is_over_allocated :: "resource_allocation \<Rightarrow> bool" where
  "is_over_allocated r = (if ra_allocated r \<le> 0 then False else ra_allocated r < ra_margin_used r)"

definition to_executor_view :: "performance_metrics option \<Rightarrow> performance_view option" where
  "to_executor_view p = map_option (\<lambda>m. \<lparr>pf_sharpe = pm_sharpe m, pf_win_rate = pm_win_rate m,
     pf_total_trades = pm_total_trades m, pf_recent_rate = 0, pf_updated_at = pm_updated_at m\<rparr>) p"

subsection \<open>Lifecycle\<close>

definition trader_start :: "time \<Rightarrow> trader \<Rightarrow> trader" where
  "trader_start now t = (if tr_state t = TraderRunning then t
     else t\<lparr>tr_state := TraderRunning, tr_circuit := zero_circuit, tr_updated_at := now\<rparr>)"

definition trader_pause :: "time \<Rightarrow> trader \<Rightarrow> trader" where
  "trader_pause now t = (if tr_state t = TraderStopped then t
     else t\<lparr>tr_state := TraderPaused, tr_updated_at := now\<rparr>)"

definition trader_resume :: "time \<Rightarrow> trader \<Rightarrow> trader" where
  "trader_resume now t = (if tr_state t = TraderRunning then t
     else t\<lparr>tr_state := TraderRunning, tr_pause_until := zero_time, tr_circuit := zero_circuit, tr_updated_at := now\<rparr>)"

definition trader_stop :: "time \<Rightarrow> trader \<Rightarrow> trader" where
  "trader_stop now t = t\<lparr>tr_state := TraderStopped, tr_updated_at := now\<rparr>"

definition is_active :: "trader \<Rightarrow> bool" where
  "is_active t \<longleftrightarrow> tr_state t = TraderRunning"

definition should_make_decision :: "time \<Rightarrow> trader \<Rightarrow> bool" where
  "should_make_decision now t =
    (if tr_state t \<noteq> TraderRunning then False
     else if \<not> is_zero_time (tr_pause_until t) \<and> now < tr_pause_until t then False
     else if tr_decision_interval t \<le> 0 then True
     else if is_zero_time (tr_last_decision_at t) then True
     else now - tr_last_decision_at t \<ge> tr_decision_interval t)"

definition record_decision :: "time \<Rightarrow> time \<Rightarrow> trader \<Rightarrow> trader" where
  "record_decision now ts0 t = (let ts = (if is_zero_time ts0 then now else ts0)
     in t\<lparr>tr_last_decision_at := ts, tr_updated_at := ts\<rparr>)"

text \<open>The Sharpe gate of the trading loop: whether it holds the cycle, and the pause it sets.\<close>

definition sharpe_breach :: "trader \<Rightarrow> bool" where
  "sharpe_breach t = (\<not> feq (eg_sharpe_pause_threshold (tr_guards t)) 0 \<and> 0 < eg_pause_duration (tr_guards t) \<and>
     (case tr_performance t of None \<Rightarrow> False | Some p \<Rightarrow> pm_sharpe p < eg_sharpe_pause_threshold (tr_guards t)))"

definition sharpe_pause :: "time \<Rightarrow> trader \<Rightarrow> trader" where
  "sharpe_pause now t = (if tr_pause_until t < now
     then t\<lparr>tr_pause_until := now + eg_pause_duration (tr_guards t)\<rparr> else t)"

subsection \<open>Daily risk and the circuit breaker\<close>

definition same_utc_date :: "time \<Rightarrow> time \<Rightarrow> bool" where
  "same_utc_date a b = (if is_zero_time a \<or> is_zero_time b then False else format_date a = format_date b)"

definition update_daily_risk :: "daily_risk \<Rightarrow> f64 \<Rightarrow> time \<Rightarrow> daily_risk" where
  "update_daily_risk prev equity now =
    (if equity \<le> 0 then prev
     else let date = format_date now
       in if dr_date prev \<noteq> date \<or> dr_start_equity prev \<le> 0
          then \<lparr>dr_date = date, dr_start_equity = equity, dr_last_equity = equity, dr_updated_at = now\<rparr>
          else prev\<lparr>dr_last_equity := equity, dr_updated_at := now\<rparr>)"

definition clear_stale_circuit :: "trader \<Rightarrow> daily_risk \<Rightarrow> trader" where
  "clear_stale_circuit t daily =
    (if \<not> rc_blocked (tr_circuit t) then t
     else if dr_date daily = '''' then t
     else if rc_date (tr_circuit t) = ''''
     then (if \<not> same_utc_date (rc_triggered_at (tr_circuit t)) (dr_updated_at daily)
           then t\<lparr>tr_circuit := zero_circuit\<rparr> else t)
     else if rc_date (tr_circuit t) \<noteq> dr_date daily then t\<lparr>tr_circuit := zero_circuit\<rparr> else t)"

text \<open>What an account synchronisation writes into the trader.\<close>

definition sync_account :: "time \<Rightarrow> f64 \<Rightarrow> f64 \<Rightarrow> f64 \<Rightarrow> trader \<Rightarrow> trader" where
  "sync_account now equity margin unreal t =
    (let alloc = (tr_alloc t)\<lparr>ra_current_equity := equity, ra_margin_used := margin, ra_unrealized := unreal,
           ra_available := fmax 0 (equity - margin)\<rparr>;
         daily = update_daily_risk (tr_daily t) equity now
     in (clear_stale_circuit (t\<lparr>tr_alloc := alloc, tr_daily := daily\<rparr>) daily)\<lparr>tr_updated_at := now\<rparr>)"

text \<open>Tripping the breaker; what is persisted is in the theory of the manager.\<close>

definition trip_circuit :: "time \<Rightarrow> string \<Rightarrow> trader \<Rightarrow> trader" where
  "trip_circuit now reason0 t =
    (let reason = (if trim_space reason0 = '''' then ''daily loss limit exceeded'' else trim_space reason0);
         date = (if dr_date (tr_daily t) \<noteq> '''' then dr_date (tr_daily t) else format_date now)
     in t\<lparr>tr_state := TraderPaused, tr_pause_until := zero_time,
          tr_circuit := \<lparr>rc_blocked = True, rc_date = date, rc_reason = reason, rc_triggered_at = now\<rparr>,
          tr_updated_at := now\<rparr>)"

subsection \<open>Runtime state across a restart\<close>

record runtime_decision =
  rd_last_at :: "time option"
  rd_next_at :: "time option"

record runtime_pause =
  rpz_until :: "time option"
  rpz_reason :: string

record runtime_allocation =
  ral_equity :: f64
  ral_used_margin :: f64
  ral_available :: f64

record runtime_performance =
  rpf_sharpe :: f64
  rpf_total_pnl :: f64

record runtime_daily =
  rdl_date :: string
  rdl_start :: f64
  rdl_last :: f64
  rdl_updated_at :: "time option"

record runtime_circuit =
  rcr_blocked :: bool
  rcr_date :: string
  rcr_reason :: string
  rcr_triggered_at :: "time option"

record runtime_risk =
  rrk_daily :: "runtime_daily option"
  rrk_circuit :: "runtime_circuit option"

record runtime_detail =
  rdt_decision :: "runtime_decision option"
  rdt_pause :: "runtime_pause option"
  rdt_allocation :: "runtime_allocation option"
  rdt_performance :: "runtime_performance option"
  rdt_risk :: "runtime_risk option"

record runtime_record =
  rr_trader_id :: string
  rr_version :: int
  rr_is_running :: bool
  rr_detail :: runtime_detail

record cooldown_detail =
  cdd_reason :: string
  cdd_consecutive_losses :: int
  cdd_last_loss_pnl :: f64
  cdd_triggered_at :: time
  cdd_last_closed :: time

record cooldown_record =
  cd_trader_id :: string
  cd_symbol :: string
  cd_until :: time
  cd_detail :: cooldown_detail

definition time_option :: "time \<Rightarrow> time option" where
  "time_option t = (if is_zero_time t then None else Some t)"

definition detail_decision :: "trader \<Rightarrow> runtime_decision option" where
  "detail_decision t = (if is_zero_time (tr_last_decision_at t) then None
     else Some \<lparr>rd_last_at = Some (tr_last_decision_at t),
       rd_next_at = (if 0 < tr_decision_interval t
         then Some (tr_last_decision_at t + tr_decision_interval t) else None)\<rparr>)"

definition detail_pause :: "time \<Rightarrow> trader \<Rightarrow> runtime_pause option" where
  "detail_pause now t =
    (if rc_blocked (tr_circuit t) then Some \<lparr>rpz_until = None, rpz_reason = ''risk_circuit_breaker''\<rparr>
     else if \<not> is_zero_time (tr_pause_until t) \<and> now < tr_pause_until t
     then Some \<lparr>rpz_until = Some (tr_pause_until t),
       rpz_reason = (if tr_state t = TraderPaused then ''manual'' else ''pause'')\<rparr>
     else None)"

definition detail_allocation :: "resource_allocation \<Rightarrow> runtime_allocation option" where
  "detail_allocation a =
    (if 0 < ra_allocated a \<or> 0 < ra_margin_used a \<or> 0 < ra_available a \<or> 0 < ra_current_equity a
     then Some \<lparr>ral_equity = ra_current_equity a, ral_used_margin = ra_margin_used a, ral_available = ra_available a\<rparr>
     else None)"

definition detail_daily :: "daily_risk \<Rightarrow> runtime_daily option" where
  "detail_daily d =
    (if dr_date d \<noteq> '''' \<or> 0 < dr_start_equity d \<or> 0 < dr_last_equity d \<or> \<not> is_zero_time (dr_updated_at d)
     then Some \<lparr>rdl_date = dr_date d, rdl_start = dr_start_equity d, rdl_last = dr_last_equity d,
       rdl_updated_at = time_option (dr_updated_at d)\<rparr>
     else None)"

definition detail_circuit :: "risk_circuit \<Rightarrow> runtime_circuit option" where
  "detail_circuit c =
    (if rc_blocked c \<or> rc_reason c \<noteq> '''' \<or> \<not> is_zero_time (rc_triggered_at c)
     then Some \<lparr>rcr_blocked = rc_blocked c, rcr_date = rc_date c, rcr_reason = rc_reason c,
       rcr_triggered_at = time_option (rc_triggered_at c)\<rparr>
     else None)"

definition build_runtime_detail :: "time \<Rightarrow> trader \<Rightarrow> runtime_detail" where
  "build_runtime_detail now t =
    \<lparr>rdt_decision = detail_decision t, rdt_pause = detail_pause now t,
     rdt_allocation = detail_allocation (tr_alloc t),
     rdt_performance = map_option (\<lambda>p. \<lparr>rpf_sharpe = pm_sharpe p, rpf_total_pnl = pm_total_pnl p\<rparr>) (tr_performance t),
     rdt_risk = (if detail_daily (tr_daily t) \<noteq> None \<or> detail_circuit (tr_circuit t) \<noteq> None
       then Some \<lparr>rrk_daily = detail_daily (tr_daily t), rrk_circuit = detail_circuit (tr_circuit t)\<rparr> else None)\<rparr>"

definition runtime_record_of :: "time \<Rightarrow> trader \<Rightarrow> runtime_record" where
  "runtime_record_of now t =
    \<lparr>rr_trader_id = tr_id t, rr_version = (if tr_config_version t \<le> 0 then 1 else tr_config_version t),
     rr_is_running = (tr_state t = TraderRunning), rr_detail = build_runtime_detail now t\<rparr>"

definition time_or_zero :: "time option \<Rightarrow> time" where
  "time_or_zero t = (case t of None \<Rightarrow> zero_time | Some x \<Rightarrow> x)"

text \<open>The assignments of \<open>hydrateTraderFromState\<close>, in its order.\<close>

definition hydrate_version :: "runtime_record \<Rightarrow> trader \<Rightarrow> trader" where
  "hydrate_version s t =
    (if 0 < rr_version s \<and> (tr_config_version t \<le> 0 \<or> tr_config_version t < rr_version s)
     then t\<lparr>tr_config_version := rr_version s\<rparr> else t)"

definition hydrate_decision :: "runtime_detail \<Rightarrow> trader \<Rightarrow> trader" where
  "hydrate_decision d t = (case rdt_decision d of
     Some r \<Rightarrow> (case rd_last_at r of Some x \<Rightarrow> t\<lparr>tr_last_decision_at := x\<rparr> | None \<Rightarrow> t)
   | None \<Rightarrow> t)"

definition hydrate_pause :: "runtime_detail \<Rightarrow> trader \<Rightarrow> trader" where
  "hydrate_pause d t = (case rdt_pause d of
     Some r \<Rightarrow> (case rpz_until r of Some x \<Rightarrow> t\<lparr>tr_pause_until := x\<rparr> | None \<Rightarrow> t)
   | None \<Rightarrow> t)"

definition hydrate_allocation :: "runtime_detail \<Rightarrow> trader \<Rightarrow> trader" where
  "hydrate_allocation d t = (case rdt_allocation d of
     Some r \<Rightarrow> t\<lparr>tr_alloc := (tr_alloc t)\<lparr>ra_current_equity := ral_equity r, ra_available := ral_available r,
       ra_margin_used := ral_used_margin r\<rparr>\<rparr>
   | None \<Rightarrow> t)"

definition hydrate_performance :: "runtime_detail \<Rightarrow> trader \<Rightarrow> trader" where
  "hydrate_performance d t = (case rdt_performance d of
     Some r \<Rightarrow> t\<lparr>tr_performance := Some ((case tr_performance t of Some p \<Rightarrow> p | None \<Rightarrow> zero_performance)
       \<lparr>pm_sharpe := rpf_sharpe r, pm_total_pnl := rpf_total_pnl r\<rparr>)\<rparr>
   | None \<Rightarrow> t)"

definition hydrate_daily :: "runtime_detail \<Rightarrow> trader \<Rightarrow> trader" where
  "hydrate_daily d t = (case rdt_risk d of None \<Rightarrow> t | Some k \<Rightarrow> (case rrk_daily k of None \<Rightarrow> t
     | Some r \<Rightarrow> t\<lparr>tr_daily := \<lparr>dr_date = rdl_date r, dr_start_equity = rdl_start r,
         dr_last_equity = rdl_last r, dr_updated_at = time_or_zero (rdl_updated_at r)\<rparr>\<rparr>))"

definition hydrate_circuit :: "runtime_detail \<Rightarrow> trader \<Rightarrow> trader" where
  "hydrate_circuit d t = (case rdt_risk d of None \<Rightarrow> t | Some k \<Rightarrow> (case rrk_circuit k of None \<Rightarrow> t
     | Some r \<Rightarrow> t\<lparr>tr_circuit := \<lparr>rc_blocked = rcr_blocked r, rc_date = rcr_date r, rc_reason = rcr_reason r,
         rc_triggered_at = time_or_zero (rcr_triggered_at r)\<rparr>\<rparr>))"

definition hydrate_fields :: "runtime_record \<Rightarrow> trader \<Rightarrow> trader" where
  "hydrate_fields s t = (let d = rr_detail s in
     hydrate_circuit d (hydrate_daily d (hydrate_performance d (hydrate_allocation d
       (hydrate_pause d (hydrate_decision d (hydrate_version s t)))))))"

definition hydrated_state :: "time \<Rightarrow> runtime_record \<Rightarrow> trader \<Rightarrow> trader_state" where
  "hydrated_state now s t =
    (let base = (if rr_is_running s then TraderRunning else TraderStopped);
         paused = (case rdt_pause (rr_detail s) of None \<Rightarrow> False
           | Some p \<Rightarrow> (case rpz_until p of None \<Rightarrow> True | Some u \<Rightarrow> now < u))
     in if paused \<or> rc_blocked (tr_circuit t) then TraderPaused else base)"

fun hydrate_cooldowns :: "cooldown_record list \<Rightarrow> (string, time) gomap \<Rightarrow> (string, time) gomap" where
  "hydrate_cooldowns [] m = m"
| "hydrate_cooldowns (c # cs) m =
    (let ts = (if is_zero_time (cdd_last_closed (cd_detail c)) then cd_until c else cdd_last_closed (cd_detail c))
     in if trim_space (cd_symbol c) = '''' \<or> is_zero_time ts then hydrate_cooldowns cs m
        else hydrate_cooldowns cs (put (to_upper (cd_symbol c)) ts m))"

text \<open>\<open>hydrateTraderFromState\<close>: \<open>state\<close> is what \<open>GetState\<close> returned and \<open>cooldowns\<close> what
  \<open>ListCooldowns\<close> did. The result says whether the trader was running, and whether a state was found.\<close>

definition hydrate_trader ::
  "time \<Rightarrow> (goerror + runtime_record option) \<Rightarrow> (goerror + cooldown_record list) \<Rightarrow> trader \<Rightarrow> (bool \<times> bool) \<times> trader" where
  "hydrate_trader now state cooldowns t = (case state of
     Inl e \<Rightarrow> ((False, False), t)
   | Inr None \<Rightarrow> ((False, False), t)
   | Inr (Some s) \<Rightarrow>
       let t1 = hydrate_fields s t;
           t2 = t1\<lparr>tr_state := hydrated_state now s t1\<rparr>;
           t3 = (case cooldowns of Inl e \<Rightarrow> t2
                 | Inr cs \<Rightarrow> t2\<lparr>tr_cooldown := hydrate_cooldowns cs (tr_cooldown t2)\<rparr>)
       in ((rr_is_running s, True), t3))"

text \<open>What \<open>RegisterTrader\<close> makes of a configuration, before and after the stored state.\<close>

definition new_trader :: "time \<Rightarrow> string \<Rightarrow> trader_config \<Rightarrow> trader" where
  "new_trader now provider_type cfg =
    \<lparr>tr_id = tc_id cfg, tr_name = tc_name cfg, tr_exchange = tc_exchange_provider cfg, tr_model = tc_model cfg,
     tr_provider_type = provider_type, tr_prompt_template = tc_prompt_template cfg,
     tr_execution_mode = tc_execution_mode cfg, tr_order_style = tc_order_style cfg,
     tr_slippage_bps = tc_slippage_bps cfg, tr_risk = tc_risk_params cfg, tr_guards = tc_exec_guards cfg,
     tr_alloc = zero_alloc\<lparr>ra_allocation_pct := tc_allocation_pct cfg\<rparr>, tr_daily = zero_daily,
     tr_circuit = zero_circuit, tr_config_version = (if tc_version cfg \<le> 0 then 1 else tc_version cfg),
     tr_state = TraderStopped, tr_performance = None, tr_last_decision_at = zero_time,
     tr_decision_interval = tc_decision_interval cfg, tr_created_at = now, tr_updated_at = now,
     tr_positions = [], tr_cooldown = [], tr_journal_enabled = tc_journal_enabled cfg,
     tr_pause_until = zero_time\<rparr>"

definition boot_trader ::
  "time \<Rightarrow> bool \<Rightarrow> (goerror + runtime_record option) \<Rightarrow> (goerror + cooldown_record list) \<Rightarrow> trader \<Rightarrow> trader" where
  "boot_trader now auto_start state cooldowns t0 =
    (case hydrate_trader now state cooldowns t0 of ((run, found), t) \<Rightarrow>
       if (if found then run else auto_start) then trader_start now t else t)"

subsection \<open>The lifecycle as a step relation\<close>

datatype trader_op =
  OpStart | OpPause | OpResume | OpStop | OpDecision time | OpSharpe | OpSync f64 f64 f64 | OpTrip string

text \<open>What can happen to a trader at a time: the operator's commands, a decision round, the Sharpe
  gate, the account synchronisation and the breaker.\<close>

inductive trader_step :: "trader \<Rightarrow> trader_op \<Rightarrow> trader \<Rightarrow> bool" where
  step_start: "trader_step t OpStart (trader_start now t)"
| step_pause: "trader_step t OpPause (trader_pause now t)"
| step_resume: "trader_step t OpResume (trader_resume now t)"
| step_stop: "trader_step t OpStop (trader_stop now t)"
| step_decision: "trader_step t (OpDecision ts) (record_decision now ts t)"
| step_sharpe: "sharpe_breach t \<Longrightarrow> trader_step t OpSharpe (sharpe_pause now t)"
| step_sync: "trader_step t (OpSync equity margin unreal) (sync_account now equity margin unreal t)"
| step_trip: "trader_step t (OpTrip reason) (trip_circuit now reason t)"

inductive_cases trader_stepE: "trader_step t a t'"

inductive trader_run :: "trader \<Rightarrow> trader_op list \<Rightarrow> trader \<Rightarrow> bool" where
  run_nil: "trader_run t [] t"
| run_cons: "trader_step t a t1 \<Longrightarrow> trader_run t1 as t2 \<Longrightarrow> trader_run t (a # as) t2"

inductive_cases trader_run_consE: "trader_run t (a # as) t'"

lemmas trader_ops = trader_start_def trader_pause_def trader_resume_def trader_stop_def record_decision_def
  sharpe_pause_def clear_stale_circuit_def sync_account_def trip_circuit_def

text \<open>A trader whose circuit is blocked is not running: every operation keeps that.\<close>

theorem blocked_not_running:
  assumes "trader_run t ops t'" "rc_blocked (tr_circuit t) \<longrightarrow> tr_state t \<noteq> TraderRunning"
  shows "rc_blocked (tr_circuit t') \<longrightarrow> tr_state t' \<noteq> TraderRunning"
  using assms
proof (induction rule: trader_run.induct)
  case (run_cons t a t1 as t2)
  have "rc_blocked (tr_circuit t1) \<longrightarrow> tr_state t1 \<noteq> TraderRunning"
    using run_cons.hyps(1) run_cons.prems
    by (cases rule: trader_step.cases) (auto simp: trader_ops zero_circuit_def Let_def split: if_splits)
  with run_cons.IH show ?case by simp
qed simp

lemma not_running_kept:
  assumes "trader_step t a t'" "a \<noteq> OpStart" "a \<noteq> OpResume" "tr_state t \<noteq> TraderRunning"
  shows "tr_state t' \<noteq> TraderRunning"
  using assms by (cases rule: trader_step.cases) (auto simp: trader_ops Let_def split: if_splits)

text \<open>Once the breaker trips, the trader takes no decision, whatever happens and on whatever
  day, until an operator starts or resumes it.\<close>

theorem tripped_stays_down:
  assumes "trader_run (trip_circuit now reason t) ops t'" "OpStart \<notin> set ops" "OpResume \<notin> set ops"
  shows "\<not> is_active t' \<and> \<not> should_make_decision later t'"
proof -
  have "tr_state u' \<noteq> TraderRunning"
    if "trader_run u ops u'" "OpStart \<notin> set ops" "OpResume \<notin> set ops" "tr_state u \<noteq> TraderRunning" for u ops u'
    using that by (induction rule: trader_run.induct) (auto dest: not_running_kept)
  from this [OF assms] show ?thesis
    by (simp add: is_active_def should_make_decision_def trip_circuit_def Let_def)
qed

subsection \<open>Restart\<close>

lemmas hydrate_defs = hydrate_version_def hydrate_decision_def hydrate_pause_def hydrate_allocation_def
  hydrate_performance_def hydrate_daily_def hydrate_circuit_def

lemma hydrate_circuit_other [simp]:
  "tr_circuit (hydrate_version s t) = tr_circuit t" "tr_circuit (hydrate_decision d t) = tr_circuit t"
  "tr_circuit (hydrate_pause d t) = tr_circuit t" "tr_circuit (hydrate_allocation d t) = tr_circuit t"
  "tr_circuit (hydrate_performance d t) = tr_circuit t" "tr_circuit (hydrate_daily d t) = tr_circuit t"
  by (simp_all add: hydrate_defs split: option.splits)

lemma hydrate_daily_other [simp]:
  "tr_daily (hydrate_version s t) = tr_daily t" "tr_daily (hydrate_decision d t) = tr_daily t"
  "tr_daily (hydrate_pause d t) = tr_daily t" "tr_daily (hydrate_allocation d t) = tr_daily t"
  "tr_daily (hydrate_performance d t) = tr_daily t" "tr_daily (hydrate_circuit d t) = tr_daily t"
  by (simp_all add: hydrate_defs split: option.splits)

lemma hydrate_schedule_other [simp]:
  "tr_last_decision_at (hydrate_version s t) = tr_last_decision_at t" "tr_last_decision_at (hydrate_pause d t) = tr_last_decision_at t"
  "tr_last_decision_at (hydrate_allocation d t) = tr_last_decision_at t" "tr_last_decision_at (hydrate_performance d t) = tr_last_decision_at t"
  "tr_last_decision_at (hydrate_daily d t) = tr_last_decision_at t" "tr_last_decision_at (hydrate_circuit d t) = tr_last_decision_at t"
  "tr_pause_until (hydrate_version s t) = tr_pause_until t" "tr_pause_until (hydrate_decision d t) = tr_pause_until t"
  "tr_pause_until (hydrate_allocation d t) = tr_pause_until t" "tr_pause_until (hydrate_performance d t) = tr_pause_until t"
  "tr_pause_until (hydrate_daily d t) = tr_pause_until t" "tr_pause_until (hydrate_circuit d t) = tr_pause_until t"
  by (simp_all add: hydrate_defs split: option.splits)

lemma hydrate_interval_pieces [simp]:
  "tr_decision_interval (hydrate_version s t) = tr_decision_interval t"
  "tr_decision_interval (hydrate_decision d t) = tr_decision_interval t"
  "tr_decision_interval (hydrate_pause d t) = tr_decision_interval t"
  "tr_decision_interval (hydrate_allocation d t) = tr_decision_interval t"
  "tr_decision_interval (hydrate_performance d t) = tr_decision_interval t"
  "tr_decision_interval (hydrate_daily d t) = tr_decision_interval t"
  "tr_decision_interval (hydrate_circuit d t) = tr_decision_interval t"
  by (simp_all add: hydrate_defs split: option.splits)

lemma hydrate_interval [simp]: "tr_decision_interval (hydrate_fields s t) = tr_decision_interval t"
  by (simp add: hydrate_fields_def Let_def)

lemma time_option_or_zero [simp]: "time_or_zero (time_option x) = x"
  by (simp add: time_or_zero_def time_option_def is_zero_time_def)

lemma hydrated_circuit:
  "tr_circuit (hydrate_fields (runtime_record_of now t) t0) =
    (if detail_circuit (tr_circuit t) = None then tr_circuit t0 else tr_circuit t)"
  by (auto simp: hydrate_fields_def Let_def hydrate_circuit_def runtime_record_of_def build_runtime_detail_def
      detail_circuit_def)

lemma hydrated_daily:
  "tr_daily (hydrate_fields (runtime_record_of now t) t0) =
    (if detail_daily (tr_daily t) = None then tr_daily t0 else tr_daily t)"
  by (simp add: hydrate_fields_def Let_def hydrate_daily_def runtime_record_of_def build_runtime_detail_def
      detail_daily_def)

lemma hydrated_schedule:
  assumes "tr_last_decision_at t0 = zero_time" "tr_pause_until t0 = zero_time" "\<not> rc_blocked (tr_circuit t)"
  shows "tr_last_decision_at (hydrate_fields (runtime_record_of now t) t0) = tr_last_decision_at t"
    and "tr_pause_until (hydrate_fields (runtime_record_of now t) t0) =
      (if now < tr_pause_until t then tr_pause_until t else zero_time)"
  using assms by (auto simp: hydrate_fields_def Let_def hydrate_decision_def hydrate_pause_def runtime_record_of_def
      build_runtime_detail_def detail_decision_def detail_pause_def is_zero_time_def)

text \<open>C4. A restart does not lift the circuit breaker: the trader built from the stored state of
  a blocked one is blocked with the same reason and date, keeps the day's baseline, and is
  paused, even when its configuration says to start automatically.\<close>

theorem restart_keeps_circuit:
  assumes "rc_blocked (tr_circuit t)" "tr_state t \<noteq> TraderRunning"
    and "t' = boot_trader later auto (Inr (Some (runtime_record_of now t))) cooldowns (new_trader later ty cfg)"
  shows "tr_circuit t' = tr_circuit t \<and> tr_state t' = TraderPaused \<and> \<not> is_active t' \<and>
    (dr_date (tr_daily t) \<noteq> '''' \<longrightarrow> tr_daily t' = tr_daily t)"
proof -
  have "\<not> rr_is_running (runtime_record_of now t)" using assms(2) by (simp add: runtime_record_of_def)
  moreover have "detail_circuit (tr_circuit t) \<noteq> None" using assms(1) by (simp add: detail_circuit_def)
  moreover have "dr_date (tr_daily t) \<noteq> '''' \<longrightarrow> detail_daily (tr_daily t) \<noteq> None" by (simp add: detail_daily_def)
  ultimately show ?thesis using assms(1)
    by (cases cooldowns) (auto simp: assms(3) boot_trader_def hydrate_trader_def Let_def hydrated_circuit hydrated_daily
        hydrated_state_def is_active_def)
qed

text \<open>A restart does not change when a running trader takes its next decision.\<close>

theorem restart_keeps_schedule:
  assumes "tr_state t = TraderRunning" "\<not> rc_blocked (tr_circuit t)" "tr_decision_interval t = tc_decision_interval cfg"
    and "now \<le> later" "later \<le> moment"
    and "t' = boot_trader later auto (Inr (Some (runtime_record_of now t))) cooldowns (new_trader later ty cfg)"
  shows "should_make_decision moment t' = should_make_decision moment t"
proof -
  have "rr_is_running (runtime_record_of now t)" using assms(1) by (simp add: runtime_record_of_def)
  moreover have "tr_last_decision_at (new_trader later ty cfg) = zero_time" "tr_pause_until (new_trader later ty cfg) = zero_time"
    "tr_decision_interval (new_trader later ty cfg) = tc_decision_interval cfg"
    by (simp_all add: new_trader_def)
  ultimately show ?thesis using assms(1,3-5) hydrated_schedule [OF _ _ assms(2), of "new_trader later ty cfg" now]
    by (cases cooldowns) (auto simp: assms(6) boot_trader_def hydrate_trader_def Let_def should_make_decision_def
        trader_start_def is_zero_time_def)
qed

text \<open>The baseline of a day is set by the first positive equity of the day and not moved by
  any later one; only the latest equity is.\<close>

theorem daily_baseline_fixed:
  assumes "\<forall>(e, ts) \<in> set syncs. format_date ts = dr_date d" "\<not> dr_start_equity d \<le> 0"
    and "d' = fold (\<lambda>(e, ts) s. update_daily_risk s e ts) syncs d"
  shows "dr_start_equity d' = dr_start_equity d \<and> dr_date d' = dr_date d"
  using assms
proof (induction syncs arbitrary: d)
  case (Cons x xs)
  obtain e ts where x: "x = (e, ts)" by (cases x)
  let ?d1 = "update_daily_risk d e ts"
  have "dr_start_equity ?d1 = dr_start_equity d \<and> dr_date ?d1 = dr_date d"
    using Cons.prems x by (auto simp: update_daily_risk_def Let_def)
  then show ?case using Cons.IH [of ?d1] Cons.prems by (simp add: x)
qed simp


subsection \<open>Examples\<close>

definition demo_trader :: trader where
  "demo_trader = (new_trader second ''*sim.Provider'' demo_trader_config)
    \<lparr>tr_id := ''alpha'', tr_state := TraderRunning, tr_last_decision_at := second, tr_decision_interval := minute\<rparr>"

theorem blocked_not_running_witness:
  "rc_blocked (tr_circuit (trader_stop 7 (trip_circuit 5 ''loss'' demo_trader))) \<and>
   tr_state (trader_stop 7 (trip_circuit 5 ''loss'' demo_trader)) \<noteq> TraderRunning"
proof -
  have "trader_run demo_trader [OpTrip ''loss'', OpStop] (trader_stop 7 (trip_circuit 5 ''loss'' demo_trader))"
    by (rule run_cons [OF step_trip run_cons [OF step_stop run_nil]])
  moreover have "rc_blocked (tr_circuit demo_trader) \<longrightarrow> tr_state demo_trader \<noteq> TraderRunning" by code_simp
  ultimately have "rc_blocked (tr_circuit (trader_stop 7 (trip_circuit 5 ''loss'' demo_trader))) \<longrightarrow>
      tr_state (trader_stop 7 (trip_circuit 5 ''loss'' demo_trader)) \<noteq> TraderRunning"
    by (rule blocked_not_running)
  moreover have "rc_blocked (tr_circuit (trader_stop 7 (trip_circuit 5 ''loss'' demo_trader)))" by code_simp
  ultimately show ?thesis by blast
qed

theorem tripped_stays_down_witness:
  "\<not> should_make_decision (day_length * 3) (trader_pause 9 (trip_circuit 5 ''loss'' demo_trader))"
proof -
  have "trader_run (trip_circuit 5 ''loss'' demo_trader) [OpPause] (trader_pause 9 (trip_circuit 5 ''loss'' demo_trader))"
    by (rule run_cons [OF step_pause run_nil])
  from tripped_stays_down [OF this] show ?thesis by simp
qed

theorem restart_keeps_circuit_witness:
  "tr_state (boot_trader (2 * minute) True (Inr (Some (runtime_record_of minute (trip_circuit 5 ''loss'' demo_trader)))) (Inr [])
     (new_trader (2 * minute) ''*sim.Provider'' demo_trader_config)) = TraderPaused"
proof -
  have "rc_blocked (tr_circuit (trip_circuit 5 ''loss'' demo_trader))"
    "tr_state (trip_circuit 5 ''loss'' demo_trader) \<noteq> TraderRunning" by code_simp+
  from restart_keeps_circuit [OF this refl] show ?thesis by blast
qed

theorem restart_keeps_schedule_witness:
  "should_make_decision (10 * minute) (boot_trader (2 * minute) False (Inr (Some (runtime_record_of minute demo_trader))) (Inr [])
     (new_trader (2 * minute) ''*sim.Provider'' (demo_trader_config\<lparr>tc_decision_interval := minute\<rparr>)))
   = should_make_decision (10 * minute) demo_trader"
proof -
  have "tr_state demo_trader = TraderRunning" "\<not> rc_blocked (tr_circuit demo_trader)"
    "tr_decision_interval demo_trader = tc_decision_interval (demo_trader_config\<lparr>tc_decision_interval := minute\<rparr>)"
    "minute \<le> 2 * minute" "2 * minute \<le> 10 * minute"
    by code_simp+
  from restart_keeps_schedule [OF this refl] show ?thesis .
qed

theorem daily_baseline_fixed_witness:
  "dr_start_equity (fold (\<lambda>(e, ts) s. update_daily_risk s e ts) [(lit 900, second), (lit 950, minute)]
     \<lparr>dr_date = ''1970-01-01'', dr_start_equity = lit 1000, dr_last_equity = lit 1000, dr_updated_at = 0\<rparr>) = lit 1000"
proof -
  let ?d = "\<lparr>dr_date = ''1970-01-01'', dr_start_equity = lit 1000, dr_last_equity = lit 1000, dr_updated_at = 0\<rparr>"
  have "\<forall>(e, ts) \<in> set [(lit 900, second), (lit 950, minute)]. format_date ts = dr_date ?d" "\<not> dr_start_equity ?d \<le> 0"
    by code_simp+
  from daily_baseline_fixed [OF this refl] show ?thesis by simp
qed

end
