(* ===== verification/Exchange.thy ===== *)
theory Exchange
  imports GoTime
begin

text \<open>
  The exchange types (\<open>pkg/exchange/types.go\<close>) and the provider interface
  (\<open>pkg/exchange/interface.go\<close>). A provider is a record of operations over a world
  \<open>'w\<close>, which every call returns updated; the extensions the manager asks for by type
  assertion (\<open>SetMarkPrice\<close>, \<open>CancelAllBySymbol\<close>, \<open>IOCMarket\<close>, \<open>FormatPrice\<close>,
  \<open>FormatSize\<close>, \<open>SetStopLoss\<close>/\<open>SetTakeProfit\<close>) are optional. A \<open>nil\<close> pointer is
  \<open>None\<close>, an error is a \<open>goerror\<close>.
\<close>

record limit_order_type =
  lim_tif :: string

record trigger_order_type =
  trg_is_market :: bool
  trg_tpsl :: string

record order_type =
  ot_limit :: "limit_order_type option"
  ot_trigger :: "trigger_order_type option"

record builder_info =
  bi_name :: string
  bi_fee_bps :: int

record order =
  o_asset :: int
  o_is_buy :: bool
  o_limit_px :: string
  o_sz :: string
  o_reduce_only :: bool
  o_type :: order_type
  o_cloid :: string
  o_trigger_px :: string
  o_trigger_rel :: string
  o_grouping :: string
  o_builder :: "builder_info option"

record leverage =
  lev_type :: string
  lev_value :: int

record position =
  pos_coin :: string
  pos_entry_px :: "string option"
  pos_value :: string
  pos_szi :: string
  pos_unrealized :: string
  pos_roe :: string
  pos_leverage :: leverage
  pos_liquidation_px :: "string option"

record margin_summary =
  ms_account_value :: string
  ms_total_margin_used :: string
  ms_total_ntl_pos :: string
  ms_total_raw_usd :: string

record account_state =
  as_margin :: margin_summary
  as_cross_margin :: margin_summary
  as_positions :: "position list"

record filled_order =
  fo_total_sz :: string
  fo_avg_px :: string
  fo_oid :: int

record order_status_response =
  st_resting :: "int option"
  st_filled :: "filled_order option"
  st_error :: string

record order_response =
  or_status :: string
  or_type :: string
  or_statuses :: "order_status_response list"
  or_error_message :: string

record order_info =
  oi_coin :: string
  oi_side :: string
  oi_limit_px :: string
  oi_sz :: string
  oi_oid :: int
  oi_timestamp :: int
  oi_orig_sz :: string
  oi_cloid :: string

record order_status =
  os_order :: order_info
  os_status :: string
  os_timestamp :: int

text \<open>
  Decoding an order response: the payload is an object or a plain string. The JSON decoder
  is not part of the program: \<open>dec\<close> splits the envelope, \<open>dec_data\<close> and \<open>dec_text\<close> read
  the payload (\<open>None\<close> is a decoding error).
\<close>

definition order_response_unmarshal ::
  "('b \<Rightarrow> goerror + (string \<times> 'r)) \<Rightarrow> ('r \<Rightarrow> (string \<times> order_status_response list) option) \<Rightarrow>
   ('r \<Rightarrow> string option) \<Rightarrow> 'b \<Rightarrow> order_response \<Rightarrow> goerror option \<times> order_response" where
  "order_response_unmarshal dec dec_data dec_text data o0 = (case dec data of
     Inl e \<Rightarrow> (Some e, o0)
   | Inr (status, raw) \<Rightarrow> (let o1 = o0\<lparr>or_status := status\<rparr> in case dec_data raw of
       Some (t, sts) \<Rightarrow> (None, o1\<lparr>or_type := t, or_statuses := sts\<rparr>)
     | None \<Rightarrow> (case dec_text raw of
         Some m \<Rightarrow> (None, o1\<lparr>or_error_message := m\<rparr>)
       | None \<Rightarrow> (Some (Errorf ''response field is neither OrderResponseData nor string'' []), o1))))"

text \<open>The provider interface.\<close>

record 'w provider =
  pv_type_name :: string
  pv_place_order :: "order \<Rightarrow> 'w \<Rightarrow> (goerror + order_response option) \<times> 'w"
  pv_cancel_order :: "int \<Rightarrow> int \<Rightarrow> 'w \<Rightarrow> (goerror + unit) \<times> 'w"
  pv_get_open_orders :: "'w \<Rightarrow> (goerror + order_status list) \<times> 'w"
  pv_get_positions :: "'w \<Rightarrow> (goerror + position list) \<times> 'w"
  pv_close_position :: "string \<Rightarrow> 'w \<Rightarrow> (goerror + order_response option) \<times> 'w"
  pv_update_leverage :: "int \<Rightarrow> bool \<Rightarrow> int \<Rightarrow> 'w \<Rightarrow> (goerror + unit) \<times> 'w"
  pv_get_account_state :: "'w \<Rightarrow> (goerror + account_state) \<times> 'w"
  pv_get_account_value :: "'w \<Rightarrow> (goerror + f64) \<times> 'w"
  pv_get_asset_index :: "string \<Rightarrow> 'w \<Rightarrow> (goerror + int) \<times> 'w"
  pv_set_mark_price :: "(string \<Rightarrow> f64 \<Rightarrow> 'w \<Rightarrow> (goerror + unit) \<times> 'w) option"
  pv_cancel_all :: "(string \<Rightarrow> 'w \<Rightarrow> (goerror + unit) \<times> 'w) option"
  pv_ioc_market :: "(string \<Rightarrow> bool \<Rightarrow> f64 \<Rightarrow> f64 \<Rightarrow> bool \<Rightarrow> 'w \<Rightarrow> (goerror + order_response option) \<times> 'w) option"
  pv_format_price :: "(string \<Rightarrow> f64 \<Rightarrow> 'w \<Rightarrow> (goerror + string) \<times> 'w) option"
  pv_format_size :: "(string \<Rightarrow> f64 \<Rightarrow> 'w \<Rightarrow> (goerror + string) \<times> 'w) option"
  pv_set_stop_loss :: "(string \<Rightarrow> string \<Rightarrow> f64 \<Rightarrow> f64 \<Rightarrow> 'w \<Rightarrow> (goerror + unit) \<times> 'w) option"
  pv_set_take_profit :: "(string \<Rightarrow> string \<Rightarrow> f64 \<Rightarrow> f64 \<Rightarrow> 'w \<Rightarrow> (goerror + unit) \<times> 'w) option"

text \<open>
  The contract a provider keeps towards the manager: the calls that only read the account
  or prepare an order (positions, account state, asset index, mark price, formatting)
  change neither the book of positions nor the money of the account, nor do the protective
  trigger orders when they are placed; an order the
  provider refuses changes neither, and closing a position the provider refuses to close
  does not either. \<open>book\<close> is the part of the world that is the account.
\<close>

locale trading_account =
  fixes P :: "'w provider"
    and book :: "'w \<Rightarrow> 'b"
    and ok :: "'w \<Rightarrow> bool"
  assumes positions_read: "ok w \<Longrightarrow> pv_get_positions P w = (r, w') \<Longrightarrow> book w' = book w \<and> ok w'"
    and account_read: "ok w \<Longrightarrow> pv_get_account_state P w = (r', w') \<Longrightarrow> book w' = book w \<and> ok w'"
    and index_read: "ok w \<Longrightarrow> pv_get_asset_index P c w = (ri, w') \<Longrightarrow> book w' = book w \<and> ok w'"
    and leverage_set: "ok w \<Longrightarrow> pv_update_leverage P a x l w = (ru, w') \<Longrightarrow> book w' = book w \<and> ok w'"
    and mark_set: "ok w \<Longrightarrow> pv_set_mark_price P = Some f \<Longrightarrow> f c px w = (ru, w') \<Longrightarrow> book w' = book w \<and> ok w'"
    and orders_cancelled: "ok w \<Longrightarrow> pv_cancel_all P = Some g \<Longrightarrow> g c w = (ru, w') \<Longrightarrow> book w' = book w \<and> ok w'"
    and price_printed: "ok w \<Longrightarrow> pv_format_price P = Some h \<Longrightarrow> h c px w = (rs, w') \<Longrightarrow> book w' = book w \<and> ok w'"
    and size_printed: "ok w \<Longrightarrow> pv_format_size P = Some h \<Longrightarrow> h c px w = (rs, w') \<Longrightarrow> book w' = book w \<and> ok w'"
    and order_ok: "ok w \<Longrightarrow> pv_place_order P ord w = (ro, w') \<Longrightarrow> ok w'"
    and refused_order: "ok w \<Longrightarrow> pv_place_order P ord w = (Inl e, w') \<Longrightarrow> book w' = book w"
    and close_ok: "ok w \<Longrightarrow> pv_close_position P c w = (ro, w') \<Longrightarrow> ok w'"
    and refused_close: "ok w \<Longrightarrow> pv_close_position P c w = (Inl e, w') \<Longrightarrow> book w' = book w"
    and market_ok: "ok w \<Longrightarrow> pv_ioc_market P = Some k \<Longrightarrow> k c b q sl rd w = (ro, w') \<Longrightarrow> ok w'"
    and refused_market: "ok w \<Longrightarrow> pv_ioc_market P = Some k \<Longrightarrow> k c b q sl rd w = (Inl e, w') \<Longrightarrow> book w' = book w"
    and stop_set: "ok w \<Longrightarrow> pv_set_stop_loss P = Some s \<Longrightarrow> s c side q px w = (ru, w') \<Longrightarrow> book w' = book w \<and> ok w'"
    and profit_set: "ok w \<Longrightarrow> pv_set_take_profit P = Some s \<Longrightarrow> s c side q px w = (ru, w') \<Longrightarrow> book w' = book w \<and> ok w'"

end
