(* ===== verification/ManagerState.thy ===== *)
theory ManagerState
  imports Trader Exchange
begin

text \<open>
  The state of the manager and what it hands to the persistence hooks
  (\<open>pkg/manager/audit.go\<close>, \<open>persistence.go\<close>, \<open>persistRuntimeState\<close> and the \<open>record...\<close> methods
  of \<open>manager.go\<close>). The hooks only log an error, so their effect on the manager is the
  sequence of calls: \<open>mg_events\<close> holds the events in the order they are emitted,
  \<open>mg_states\<close> and \<open>mg_cooldowns\<close> the rows sent to the runtime repository. The JSON detail of an
  audit event is the map that is marshalled, with marshalling failing on a number JSON does
  not have.
\<close>

subsection \<open>Events\<close>

datatype audit_event_type =
  DecisionGenerated | DecisionValidationFailed | PolicyRejected | Approved | OrderSubmitted | OrderFailed

datatype detail_value =
  DInt int | DFloat f64 | DText string | DTexts "string list" | DFlag bool

datatype audit_detail = NoDetail | MarshalFailed | Detail "(string, detail_value) gomap"

record audit_trace =
  at_cycle_id :: int
  at_correlation_id :: string
  at_prompt_digest :: string

record audit_event =
  ae_type :: audit_event_type
  ae_trader_id :: string
  ae_cycle_id :: int
  ae_correlation_id :: string
  ae_symbol :: string
  ae_action :: string
  ae_model_id :: string
  ae_model_name :: string
  ae_prompt_digest :: string
  ae_approval_id :: string
  ae_reason :: string
  ae_error :: string
  ae_detail :: audit_detail
  ae_created_at :: time

datatype position_event_type = PositionOpen | PositionClose

record position_event =
  pe_trader_id :: string
  pe_decision :: decision
  pe_event :: position_event_type
  pe_response :: "order_response option"
  pe_occurred_at :: time
  pe_fill_price :: f64
  pe_fill_size :: f64

record account_snapshot =
  sn_trader_id :: string
  sn_equity :: f64
  sn_margin_used :: f64
  sn_available :: f64
  sn_unrealized :: f64
  sn_synced_at :: time

record analytics_snapshot =
  an_trader_id :: string
  an_total_pnl :: f64
  an_total_pnl_pct :: f64
  an_sharpe :: f64
  an_win_rate :: f64
  an_total_trades :: int
  an_max_drawdown_pct :: f64
  an_updated_at :: time

datatype manager_event =
  AuditEv audit_event | PositionEv position_event | AccountEv account_snapshot | AnalyticsEv analytics_snapshot

text \<open>The approval the policy hands to the execution of a decision.\<close>

record approval_token =
  ap_id :: string
  ap_trader_id :: string
  ap_symbol :: string
  ap_action :: string
  ap_notional :: f64
  ap_leverage :: int
  ap_approved_at :: time
  ap_expires_at :: time
  ap_checks :: "string list"

subsection \<open>The manager\<close>

text \<open>\<open>mg_exchanges\<close> gives the type name of the exchange provider registered under an identifier,
  \<open>mg_markets\<close> the identifiers of the market providers; \<open>mg_runtime\<close> says whether a runtime
  repository is wired.\<close>

record manager =
  mg_config :: config
  mg_traders :: "(string, trader) gomap"
  mg_owners :: "(string, string) gomap"
  mg_exchanges :: "(string, string) gomap"
  mg_markets :: "string list"
  mg_runtime :: bool
  mg_events :: "manager_event list"
  mg_states :: "runtime_record list"
  mg_cooldowns :: "cooldown_record list"

definition new_manager :: "config \<Rightarrow> (string, string) gomap \<Rightarrow> string list \<Rightarrow> bool \<Rightarrow> manager" where
  "new_manager cfg exch mkts runtime = \<lparr>mg_config = cfg, mg_traders = [], mg_owners = [], mg_exchanges = exch,
     mg_markets = mkts, mg_runtime = runtime, mg_events = [], mg_states = [], mg_cooldowns = []\<rparr>"

definition emit :: "manager_event \<Rightarrow> manager \<Rightarrow> manager" where
  "emit e m = m\<lparr>mg_events := mg_events m @ [e]\<rparr>"

text \<open>Writing back the trader with its identifier.\<close>

definition set_trader :: "trader \<Rightarrow> manager \<Rightarrow> manager" where
  "set_trader t m = m\<lparr>mg_traders := put (tr_id t) t (mg_traders m)\<rparr>"

definition persist_runtime_state :: "time \<Rightarrow> trader \<Rightarrow> manager \<Rightarrow> manager" where
  "persist_runtime_state now t m =
    (if mg_runtime m then m\<lparr>mg_states := mg_states m @ [runtime_record_of now t]\<rparr> else m)"

text \<open>\<open>tripRiskCircuitBreaker\<close>: trip, then persist.\<close>

definition trip_risk_circuit_breaker :: "time \<Rightarrow> string \<Rightarrow> string \<Rightarrow> manager \<Rightarrow> manager" where
  "trip_risk_circuit_breaker now tid reason m = (case lookup (mg_traders m) tid of
     None \<Rightarrow> m
   | Some t \<Rightarrow> let t' = trip_circuit now reason t in persist_runtime_state now t' (set_trader t' m))"

subsection \<open>Recording\<close>

definition new_audit_trace :: "time \<Rightarrow> string \<Rightarrow> time \<Rightarrow> audit_trace" where
  "new_audit_trace now trader_id ts0 =
    (let ts = (if is_zero_time ts0 then now else ts0);
         part = (if trim_space trader_id = '''' then ''manager'' else trim_space trader_id)
     in \<lparr>at_cycle_id = ts, at_correlation_id = part @ ''-'' @ itoa ts, at_prompt_digest = ''''\<rparr>)"

definition json_number :: "f64 \<Rightarrow> bool" where
  "json_number x \<longleftrightarrow> \<not> is_nan x \<and> \<not> is_inf x"

definition must_audit_detail :: "(string, detail_value) gomap \<Rightarrow> audit_detail" where
  "must_audit_detail detail =
    (if detail = [] then NoDetail
     else if list_all (\<lambda>(k, v). case v of DFloat x \<Rightarrow> json_number x | _ \<Rightarrow> True) detail then Detail detail
     else MarshalFailed)"

definition decision_detail :: "decision \<Rightarrow> (string, detail_value) gomap \<Rightarrow> (string, detail_value) gomap" where
  "decision_detail d detail =
    (let base = put ''position_size_usd'' (DFloat (dec_position_size d))
           (put ''leverage'' (DInt (dec_leverage d)) (put ''confidence'' (DInt (dec_confidence d)) detail))
     in if trim_space (dec_reasoning d) = '''' then base else put ''reasoning'' (DText (dec_reasoning d)) base)"

definition record_audit_event :: "time \<Rightarrow> audit_event \<Rightarrow> manager \<Rightarrow> manager" where
  "record_audit_event now e0 m =
    (let e1 = (if is_zero_time (ae_created_at e0) then e0\<lparr>ae_created_at := now\<rparr> else e0);
         trace = new_audit_trace now (ae_trader_id e1) (ae_created_at e1);
         e2 = (if ae_cycle_id e1 \<le> 0 \<and> trim_space (ae_correlation_id e1) = ''''
               then e1\<lparr>ae_cycle_id := at_cycle_id trace, ae_correlation_id := at_correlation_id trace\<rparr> else e1)
     in emit (AuditEv e2) m)"

definition record_audit_decision_event ::
  "time \<Rightarrow> audit_event_type \<Rightarrow> trader option \<Rightarrow> decision option \<Rightarrow> audit_trace \<Rightarrow> approval_token option \<Rightarrow>
   string \<Rightarrow> goerror option \<Rightarrow> (string, detail_value) gomap \<Rightarrow> manager \<Rightarrow> manager" where
  "record_audit_decision_event now ty trader dec trace approval reason err detail m =
    record_audit_event now
     \<lparr>ae_type = ty,
      ae_trader_id = (case trader of None \<Rightarrow> '''' | Some t \<Rightarrow> tr_id t),
      ae_cycle_id = at_cycle_id trace, ae_correlation_id = at_correlation_id trace,
      ae_symbol = (case dec of None \<Rightarrow> '''' | Some d \<Rightarrow> dec_symbol d),
      ae_action = (case dec of None \<Rightarrow> '''' | Some d \<Rightarrow> dec_action d),
      ae_model_id = (case trader of None \<Rightarrow> '''' | Some t \<Rightarrow> tr_id t),
      ae_model_name = (case trader of None \<Rightarrow> '''' | Some t \<Rightarrow> tr_model t),
      ae_prompt_digest = at_prompt_digest trace,
      ae_approval_id = (case approval of None \<Rightarrow> '''' | Some a \<Rightarrow> ap_id a),
      ae_reason = reason,
      ae_error = (case err of None \<Rightarrow> '''' | Some e \<Rightarrow> error_text e),
      ae_detail = must_audit_detail (case dec of None \<Rightarrow> detail | Some d \<Rightarrow> decision_detail d detail),
      ae_created_at = now\<rparr> m"

definition record_order_submitted ::
  "time \<Rightarrow> trader option \<Rightarrow> decision option \<Rightarrow> audit_trace \<Rightarrow> approval_token option \<Rightarrow> string \<Rightarrow>
   (string, detail_value) gomap \<Rightarrow> manager \<Rightarrow> manager" where
  "record_order_submitted now trader dec trace approval reason detail m =
    record_audit_decision_event now OrderSubmitted trader dec trace approval reason None detail m"

definition record_order_failed ::
  "time \<Rightarrow> trader option \<Rightarrow> decision option \<Rightarrow> audit_trace \<Rightarrow> approval_token option \<Rightarrow> string \<Rightarrow> goerror \<Rightarrow>
   (string, detail_value) gomap \<Rightarrow> manager \<Rightarrow> manager" where
  "record_order_failed now trader dec trace approval reason err detail m =
    record_audit_decision_event now OrderFailed trader dec trace approval reason (Some err) detail m"

definition record_position_event :: "time \<Rightarrow> position_event \<Rightarrow> manager \<Rightarrow> manager" where
  "record_position_event now e m =
    emit (PositionEv (if is_zero_time (pe_occurred_at e) then e\<lparr>pe_occurred_at := now\<rparr> else e)) m"

definition record_account_snapshot :: "time \<Rightarrow> account_snapshot \<Rightarrow> manager \<Rightarrow> manager" where
  "record_account_snapshot now s m =
    (if sn_trader_id s = '''' then m
     else emit (AccountEv (if is_zero_time (sn_synced_at s) then s\<lparr>sn_synced_at := now\<rparr> else s)) m)"

definition record_analytics :: "analytics_snapshot \<Rightarrow> manager \<Rightarrow> manager" where
  "record_analytics s m = (if trim_space (an_trader_id s) = '''' then m else emit (AnalyticsEv s) m)"

text \<open>Recording changes nothing but the record.\<close>

lemma emit_simps [simp]:
  "mg_traders (emit e m) = mg_traders m" "mg_owners (emit e m) = mg_owners m" "mg_config (emit e m) = mg_config m"
  "mg_exchanges (emit e m) = mg_exchanges m" "mg_markets (emit e m) = mg_markets m" "mg_runtime (emit e m) = mg_runtime m"
  "mg_states (emit e m) = mg_states m" "mg_cooldowns (emit e m) = mg_cooldowns m"
  "mg_events (emit e m) = mg_events m @ [e]"
  by (simp_all add: emit_def)

named_theorems record_defs \<open>definitions of the recording operations\<close>

lemmas [record_defs] = record_audit_event_def record_audit_decision_event_def record_order_submitted_def
  record_order_failed_def record_position_event_def record_account_snapshot_def record_analytics_def Let_def

lemma record_traders [simp]:
  "mg_traders (record_audit_decision_event now ty tr d trace ap reason err detail m) = mg_traders m"
  "mg_traders (record_order_submitted now tr d trace ap reason detail m) = mg_traders m"
  "mg_traders (record_order_failed now tr d trace ap reason e detail m) = mg_traders m"
  "mg_traders (record_position_event now pe m) = mg_traders m"
  "mg_traders (record_account_snapshot now sn m) = mg_traders m"
  "mg_traders (record_analytics an m) = mg_traders m"
  "mg_traders (persist_runtime_state now t m) = mg_traders m"
  by (simp_all add: record_defs persist_runtime_state_def)

lemma record_owners [simp]:
  "mg_owners (record_audit_decision_event now ty tr d trace ap reason err detail m) = mg_owners m"
  "mg_owners (record_order_submitted now tr d trace ap reason detail m) = mg_owners m"
  "mg_owners (record_order_failed now tr d trace ap reason e detail m) = mg_owners m"
  "mg_owners (record_position_event now pe m) = mg_owners m"
  "mg_owners (record_account_snapshot now sn m) = mg_owners m"
  "mg_owners (record_analytics an m) = mg_owners m"
  "mg_owners (persist_runtime_state now t m) = mg_owners m"
  by (simp_all add: record_defs persist_runtime_state_def)

lemma set_trader_simps [simp]:
  "mg_traders (set_trader t m) = put (tr_id t) t (mg_traders m)" "mg_owners (set_trader t m) = mg_owners m"
  "mg_config (set_trader t m) = mg_config m" "mg_runtime (set_trader t m) = mg_runtime m"
  "mg_events (set_trader t m) = mg_events m"
  by (simp_all add: set_trader_def)

end
