(* ===== verification/Ownership.thy ===== *)
theory Ownership
  imports ManagerState
begin

text \<open>
  The virtual book (\<open>pkg/manager/manager.go\<close>): registering and removing traders, which trader owns
  which symbol of the shared exchange account, and the view of the exchange positions a
  trader gets. A trader is addressed by its identifier; a pointer that is \<open>nil\<close> is an
  identifier that is not registered. Each operation is one step: the code holds the mutex
  of the manager for its duration, or reads and writes in the single goroutine of the loop.

  The locale \<open>exclusive_book\<close> states what the rest of the manager relies on: a symbol has at most
  one holder, the owner map names it, and nobody but the holder can release it. It is
  interpreted on the operations of the manager.
\<close>

subsection \<open>Operations\<close>

definition is_btc_or_eth :: "string \<Rightarrow> bool" where
  "is_btc_or_eth symbol \<longleftrightarrow> symbol \<in> {''BTC'', ''ETH'', ''BTCUSDT'', ''ETHUSDT''}"

definition get_position_owner :: "manager \<Rightarrow> string \<Rightarrow> string" where
  "get_position_owner m symbol = (let key = norm_symbol symbol in
     if key = '''' then '''' else get_or '''' (mg_owners m) key)"

definition ensure_symbol_available :: "string \<Rightarrow> string \<Rightarrow> manager \<Rightarrow> goerror option" where
  "ensure_symbol_available tid symbol m =
    (case lookup (mg_traders m) tid of None \<Rightarrow> Some (Errorf ''manager: trader is nil'' [])
     | Some t \<Rightarrow> let key = norm_symbol symbol; owner = get_position_owner m key in
       if key = '''' then Some (Errorf ''manager: symbol is required for open action'' [])
       else if owner = '''' then None
       else if owner = tr_id t then Some (Errorf ''manager: trader %s already controls %s'' [tr_id t, symbol])
       else Some (Errorf ''manager: symbol %s currently assigned to trader %s'' [symbol, owner]))"

definition ensure_close_ownership :: "string \<Rightarrow> string \<Rightarrow> manager \<Rightarrow> goerror option" where
  "ensure_close_ownership tid symbol m =
    (case lookup (mg_traders m) tid of None \<Rightarrow> Some (Errorf ''manager: trader is nil'' [])
     | Some t \<Rightarrow> let key = norm_symbol symbol; owner = get_position_owner m key in
       if key = '''' then Some (Errorf ''manager: symbol is required for close action'' [])
       else if owner = '''' then None
       else if owner \<noteq> tr_id t
       then Some (Errorf ''manager: trader %s cannot close %s owned by trader %s'' [tr_id t, symbol, owner])
       else None)"

definition assign_virtual_position :: "time \<Rightarrow> string \<Rightarrow> virtual_position \<Rightarrow> manager \<Rightarrow> goerror option \<times> manager" where
  "assign_virtual_position now tid pos0 m =
    (case lookup (mg_traders m) tid of
       None \<Rightarrow> (Some (Errorf ''manager: assign virtual position missing trader'' []), m)
     | Some t \<Rightarrow> let key = norm_symbol (vp_symbol pos0) in
       if key = '''' then (Some (Errorf ''manager: assign virtual position requires symbol'' []), m)
       else let pos = pos0\<lparr>vp_opened_at := (if is_zero_time (vp_opened_at pos0) then now else vp_opened_at pos0),
                vp_updated_at := now\<rparr>
         in case lookup (mg_owners m) key of
              Some owner \<Rightarrow> if owner \<noteq> tr_id t
                then (Some (Errorf ''manager: symbol %s already assigned to trader %s'' [vp_symbol pos, owner]), m)
                else (None, (set_trader (t\<lparr>tr_positions := put key pos (tr_positions t)\<rparr>) m)
                       \<lparr>mg_owners := put key (tr_id t) (mg_owners m)\<rparr>)
            | None \<Rightarrow> (None, (set_trader (t\<lparr>tr_positions := put key pos (tr_positions t)\<rparr>) m)
                       \<lparr>mg_owners := put key (tr_id t) (mg_owners m)\<rparr>))"

definition release_virtual_position :: "string \<Rightarrow> string \<Rightarrow> manager \<Rightarrow> manager" where
  "release_virtual_position tid symbol m =
    (let key = norm_symbol symbol; owner = get_or '''' (mg_owners m) key in
     if key = '''' then m
     else if owner \<noteq> '''' \<and> owner \<noteq> tid then m
     else let m1 = m\<lparr>mg_owners := del key (mg_owners m)\<rparr> in
       case lookup (mg_traders m) tid of
         None \<Rightarrow> m1
       | Some t \<Rightarrow> set_trader (t\<lparr>tr_positions := del key (tr_positions t)\<rparr>) m1)"

text \<open>The symbols of a trader are released in the order \<open>it\<close> in which Go ranges over the map.\<close>

definition release_all_virtual_positions ::
  "((string \<times> virtual_position) list \<Rightarrow> (string \<times> virtual_position) list) \<Rightarrow> trader \<Rightarrow> manager \<Rightarrow> manager" where
  "release_all_virtual_positions it t m =
    fold (\<lambda>s. release_virtual_position (tr_id t) s) (map fst (it (tr_positions t))) m"

definition snapshot_virtual_positions :: "string \<Rightarrow> manager \<Rightarrow> (string, virtual_position) gomap" where
  "snapshot_virtual_positions tid m = (case lookup (mg_traders m) tid of None \<Rightarrow> [] | Some t \<Rightarrow> tr_positions t)"

definition filter_positions_for_trader :: "string \<Rightarrow> position list \<Rightarrow> manager \<Rightarrow> position list" where
  "filter_positions_for_trader tid positions m =
    (if mg_owners m = [] then positions
     else filter (\<lambda>p. let owner = get_or '''' (mg_owners m) (norm_symbol (pos_coin p))
       in owner = '''' \<or> owner = tid) positions)"

text \<open>Registration. \<open>factory\<close> is the executor factory (\<open>None\<close> when it is not set), which returns an
  error or builds the executor of the trader; \<open>state\<close> and \<open>cooldowns\<close> are what the runtime repository
  answers, when there is one.\<close>

definition register_trader ::
  "config_env \<Rightarrow> (trader_config \<Rightarrow> goerror option) option \<Rightarrow> time \<Rightarrow> (goerror + runtime_record option) \<Rightarrow>
   (goerror + cooldown_record list) \<Rightarrow> trader_config \<Rightarrow> manager \<Rightarrow> (goerror + trader) \<times> manager" where
  "register_trader env factory now state cooldowns cfg m =
    (case config_validate env \<lparr>cfg_manager = cfg_manager (mg_config m), cfg_traders = [cfg],
         cfg_monitoring = cfg_monitoring (mg_config m), cfg_base_dir = ''''\<rparr> of
       Some e \<Rightarrow> (Inl e, m)
     | None \<Rightarrow>
       if lookup (mg_traders m) (tc_id cfg) \<noteq> None
       then (Inl (Errorf ''manager: trader %s already registered'' [tc_id cfg]), m)
       else (case lookup (mg_exchanges m) (tc_exchange_provider cfg) of
         None \<Rightarrow> (Inl (Errorf ''manager: unknown exchange provider %q for trader %s''
                   [tc_exchange_provider cfg, tc_id cfg]), m)
       | Some ty \<Rightarrow>
         if tc_market_provider cfg \<notin> set (mg_markets m)
         then (Inl (Errorf ''manager: unknown market provider %q for trader %s'' [tc_market_provider cfg, tc_id cfg]), m)
         else (case factory of
           None \<Rightarrow> (Inl (Errorf ''manager: executorFactory is not set'' []), m)
         | Some f \<Rightarrow> (case f cfg of
             Some e \<Rightarrow> (Inl (Wrapf ''manager: create executor for trader %s: %w'' [tc_id cfg] e), m)
           | None \<Rightarrow>
             let t = boot_trader now (tc_auto_start cfg) (if mg_runtime m then state else Inr None) cooldowns
                       (new_trader now ty cfg)
             in (Inr t, persist_runtime_state now t (set_trader t m))))))"

text \<open>Removal: the trader leaves the registry, is stopped and its symbols are released. The stopped
  trader is not stored anywhere any more.\<close>

definition unregister_trader ::
  "((string \<times> virtual_position) list \<Rightarrow> (string \<times> virtual_position) list) \<Rightarrow> string \<Rightarrow> manager \<Rightarrow> goerror option \<times> manager" where
  "unregister_trader it tid m = (case lookup (mg_traders m) tid of
     None \<Rightarrow> (Some (Errorf ''manager: trader %s not found'' [tid]), m)
   | Some t \<Rightarrow> (None, release_all_virtual_positions it t (m\<lparr>mg_traders := del tid (mg_traders m)\<rparr>)))"

definition get_active_traders :: "manager \<Rightarrow> trader list" where
  "get_active_traders m = sort_key tr_id (filter is_active (map snd (mg_traders m)))"

subsection \<open>The invariant of the book\<close>

definition trader_book_ok :: "(string, string) gomap \<Rightarrow> string \<times> trader \<Rightarrow> bool" where
  "trader_book_ok owners = (\<lambda>(i, t). i \<noteq> '''' \<and> tr_id t = i \<and> wf_map (tr_positions t) \<and>
     list_all (\<lambda>(k, v). k \<noteq> '''' \<and> norm_symbol (vp_symbol v) = k \<and> lookup owners k = Some i) (tr_positions t))"

definition owner_ok :: "(string, trader) gomap \<Rightarrow> string \<times> string \<Rightarrow> bool" where
  "owner_ok traders = (\<lambda>(k, i). case lookup traders i of None \<Rightarrow> False | Some t \<Rightarrow> lookup (tr_positions t) k \<noteq> None)"

definition book_inv :: "manager \<Rightarrow> bool" where
  "book_inv m \<longleftrightarrow> wf_map (mg_traders m) \<and> wf_map (mg_owners m) \<and>
     list_all (trader_book_ok (mg_owners m)) (mg_traders m) \<and> list_all (owner_ok (mg_traders m)) (mg_owners m)"

definition holds :: "manager \<Rightarrow> string \<Rightarrow> string \<Rightarrow> bool" where
  "holds m i k = (case lookup (mg_traders m) i of None \<Rightarrow> False | Some t \<Rightarrow> lookup (tr_positions t) (norm_symbol k) \<noteq> None)"

lemma list_all_wf_map: "wf_map m \<Longrightarrow> list_all P m \<longleftrightarrow> (\<forall>k v. lookup m k = Some v \<longrightarrow> P (k, v))"
  by (auto simp: list_all_iff wf_map_lookup_iff)

text \<open>The invariant, read through lookups: the registry is well formed, and \<open>vpos\<close> and the owner map
  are inverse to each other.\<close>

definition vpos :: "manager \<Rightarrow> string \<Rightarrow> string \<Rightarrow> virtual_position option" where
  "vpos m i k = (case lookup (mg_traders m) i of None \<Rightarrow> None | Some t \<Rightarrow> lookup (tr_positions t) k)"

definition registry_ok :: "manager \<Rightarrow> bool" where
  "registry_ok m \<longleftrightarrow> wf_map (mg_traders m) \<and> wf_map (mg_owners m) \<and>
     (\<forall>i t. lookup (mg_traders m) i = Some t \<longrightarrow> i \<noteq> '''' \<and> tr_id t = i \<and> wf_map (tr_positions t))"

lemma trader_book_ok_iff:
  "trader_book_ok owners (i, t) \<longleftrightarrow> i \<noteq> '''' \<and> tr_id t = i \<and> wf_map (tr_positions t) \<and>
    (\<forall>k v. lookup (tr_positions t) k = Some v \<longrightarrow>
      k \<noteq> '''' \<and> norm_symbol (vp_symbol v) = k \<and> lookup owners k = Some i)"
  by (simp add: trader_book_ok_def list_all_wf_map cong: conj_cong)

lemma vpos_Some: "vpos m i k = Some v \<longleftrightarrow> (\<exists>t. lookup (mg_traders m) i = Some t \<and> lookup (tr_positions t) k = Some v)"
  by (simp add: vpos_def split: option.splits)

lemma book_inv_lookup:
  "book_inv m \<longleftrightarrow> wf_map (mg_traders m) \<and> wf_map (mg_owners m) \<and>
    (\<forall>i t. lookup (mg_traders m) i = Some t \<longrightarrow> trader_book_ok (mg_owners m) (i, t)) \<and>
    (\<forall>k i. lookup (mg_owners m) k = Some i \<longrightarrow> owner_ok (mg_traders m) (k, i))"
  by (simp add: book_inv_def list_all_wf_map cong: conj_cong)

lemma owner_ok_iff: "owner_ok (mg_traders m) (k, i) \<longleftrightarrow> vpos m i k \<noteq> None"
  by (simp add: owner_ok_def vpos_def split: option.splits)

lemma book_inv_iff:
  "book_inv m \<longleftrightarrow> registry_ok m \<and>
    (\<forall>i k v. vpos m i k = Some v \<longrightarrow> k \<noteq> '''' \<and> norm_symbol (vp_symbol v) = k \<and> lookup (mg_owners m) k = Some i) \<and>
    (\<forall>k i. lookup (mg_owners m) k = Some i \<longrightarrow> vpos m i k \<noteq> None)"
proof -
  have "(\<forall>i t. lookup (mg_traders m) i = Some t \<longrightarrow> trader_book_ok (mg_owners m) (i, t)) \<longleftrightarrow>
    (\<forall>i t. lookup (mg_traders m) i = Some t \<longrightarrow> i \<noteq> '''' \<and> tr_id t = i \<and> wf_map (tr_positions t)) \<and>
    (\<forall>i k v. vpos m i k = Some v \<longrightarrow> k \<noteq> '''' \<and> norm_symbol (vp_symbol v) = k \<and> lookup (mg_owners m) k = Some i)"
    unfolding trader_book_ok_iff vpos_Some by blast
  then show ?thesis unfolding book_inv_lookup owner_ok_iff registry_ok_def by blast
qed

lemma vpos_owner:
  assumes "book_inv m" "vpos m i k = Some v"
  shows "k \<noteq> ''''" "norm_symbol (vp_symbol v) = k" "lookup (mg_owners m) k = Some i"
  using assms by (simp_all add: book_inv_iff)

lemma owner_vpos: "book_inv m \<Longrightarrow> lookup (mg_owners m) k = Some i \<Longrightarrow> vpos m i k \<noteq> None"
  by (simp add: book_inv_iff)

lemma registered:
  assumes "book_inv m" "lookup (mg_traders m) i = Some t"
  shows "i \<noteq> ''''" "tr_id t = i" "wf_map (tr_positions t)"
  using assms by (simp_all add: book_inv_iff registry_ok_def)

lemma vpos_trader: "vpos m i k \<noteq> None \<Longrightarrow> lookup (mg_traders m) i \<noteq> None"
  by (simp add: vpos_def split: option.splits)

lemma owner_registered: "book_inv m \<Longrightarrow> lookup (mg_owners m) k = Some i \<Longrightarrow> lookup (mg_traders m) i \<noteq> None"
  by (rule vpos_trader [OF owner_vpos])

lemma owner_nonempty: "book_inv m \<Longrightarrow> lookup (mg_owners m) k \<noteq> Some ''''"
  using owner_registered [of m k "''''"] registered(1) [of m "''''"] by auto

lemma owner_key: "book_inv m \<Longrightarrow> lookup (mg_owners m) '''' = None"
  using owner_vpos [of m "''''"] vpos_owner(1) [of m _ "''''"] by (meson not_Some_eq)

lemma book_inv_new [simp]: "book_inv (new_manager cfg exch mkts runtime)"
  by (simp add: book_inv_def new_manager_def)

lemma book_inv_cong: "mg_traders m' = mg_traders m \<Longrightarrow> mg_owners m' = mg_owners m \<Longrightarrow> book_inv m' = book_inv m"
  by (simp add: book_inv_def)

text \<open>A trader may be written back when its identifier and its positions are what they were.\<close>

lemma vpos_set_trader:
  "vpos (set_trader t m) i k = (if i = tr_id t then lookup (tr_positions t) k else vpos m i k)"
  by (simp add: vpos_def)

lemma registry_set_trader:
  "registry_ok m \<Longrightarrow> tr_id t \<noteq> '''' \<Longrightarrow> wf_map (tr_positions t) \<Longrightarrow> registry_ok (set_trader t m)"
  by (simp add: registry_ok_def)

lemma book_inv_set_trader [inv_intros]:
  assumes "book_inv m" "lookup (mg_traders m) (tr_id t') = Some t" "tr_positions t' = tr_positions t"
  shows "book_inv (set_trader t' m)"
proof -
  have "vpos (set_trader t' m) = vpos m"
    using assms(2,3) by (intro ext) (simp add: vpos_set_trader vpos_def)
  then show ?thesis using assms registered [OF assms(1,2)]
    by (simp add: book_inv_iff registry_set_trader)
qed


text \<open>Assignment and release.\<close>

lemma assign_cases:
  assumes "book_inv m" "assign_virtual_position now tid pos m = (r, m')" "key = norm_symbol (vp_symbol pos)"
  obtains (refused) e where "r = Some e" "m' = m" "lookup (mg_traders m) tid = None \<or> key = '''' \<or> lookup (mg_owners m) key \<notin> {None, Some tid}"
  | (assigned) t p where "r = None" "lookup (mg_traders m) tid = Some t" "tr_id t = tid" "key \<noteq> ''''"
      "lookup (mg_owners m) key \<in> {None, Some tid}" "vp_symbol p = vp_symbol pos"
      "m' = (set_trader (t\<lparr>tr_positions := put key p (tr_positions t)\<rparr>) m)\<lparr>mg_owners := put key tid (mg_owners m)\<rparr>"
      "vp_side p = vp_side pos" "vp_quantity p = vp_quantity pos"
proof (cases "lookup (mg_traders m) tid = None \<or> key = '''' \<or> lookup (mg_owners m) key \<notin> {None, Some tid}")
  case True
  then show thesis using assms registered(2) [OF assms(1), of tid]
    by (intro refused [of "the r"])
      (auto simp: assign_virtual_position_def Let_def split: option.splits if_splits)
next
  case False
  then obtain t where t: "lookup (mg_traders m) tid = Some t" by auto
  let ?p = "pos\<lparr>vp_opened_at := (if is_zero_time (vp_opened_at pos) then now else vp_opened_at pos), vp_updated_at := now\<rparr>"
  show thesis using False t assms registered(2) [OF assms(1) t]
    by (intro assigned [of t ?p])
      (auto simp: assign_virtual_position_def Let_def split: option.splits if_splits)
qed

lemma vpos_assigned:
  "vpos (set_trader (t\<lparr>tr_positions := put key p (tr_positions t)\<rparr>) m\<lparr>mg_owners := ow\<rparr>) i k =
    (if i = tr_id t then if k = key then Some p else lookup (tr_positions t) k else vpos m i k)"
  by (simp add: vpos_def)

lemma assign_book_inv [inv_intros]:
  assumes "book_inv m" "assign_virtual_position now tid pos m = (r, m')"
  shows "book_inv m'"
  using assms refl
proof (cases rule: assign_cases)
  case (assigned t p)
  let ?key = "norm_symbol (vp_symbol pos)"
  have vp: "vpos m' i k = (if i = tid \<and> k = ?key then Some p else vpos m i k)" for i k
    using assigned(2,3) by (simp add: assigned(7) vpos_assigned) (simp add: vpos_def)
  have ow: "lookup (mg_owners m') k = (if k = ?key then Some tid else lookup (mg_owners m) k)" for k
    by (simp add: assigned(7))
  have reg: "registry_ok m'"
    using assms(1) registered [OF assms(1) assigned(2)] by (simp add: assigned(7) book_inv_iff registry_ok_def)
  have own: "i = tid" if "vpos m i ?key = Some v" for i v
    using vpos_owner(3) [OF assms(1) that] assigned(5) by auto
  show ?thesis
    unfolding book_inv_iff
  proof (intro conjI allI impI)
    fix i k v assume "vpos m' i k = Some v"
    then have "k = ?key \<and> i = tid \<and> v = p \<or> k \<noteq> ?key \<and> vpos m i k = Some v"
      using own by (auto simp: vp split: if_splits)
    then show "k \<noteq> ''''" "norm_symbol (vp_symbol v) = k" "lookup (mg_owners m') k = Some i"
      using vpos_owner [OF assms(1)] assigned(4,6) by (auto simp: ow)
  next
    fix k i assume "lookup (mg_owners m') k = Some i"
    then show "vpos m' i k \<noteq> None" using owner_vpos [OF assms(1), of k i] by (auto simp: ow vp split: if_splits)
  qed (rule reg)
qed (use assms in simp)

lemma del_absent: "lookup m k = None \<Longrightarrow> del k m = m"
  by (simp add: map_of_eq_None_iff delete_idem)

lemma release_cases:
  assumes "book_inv m" "m' = release_virtual_position tid symbol m" "key = norm_symbol symbol"
  obtains (kept) "m' = m" "key = '''' \<or> lookup (mg_owners m) key \<notin> {None, Some tid}"
    | (gone) "lookup (mg_traders m) tid = None" "lookup (mg_owners m) key \<in> {None, Some tid}"
        "m' = m\<lparr>mg_owners := del key (mg_owners m)\<rparr>"
    | (freed) t where "lookup (mg_traders m) tid = Some t" "tr_id t = tid" "lookup (mg_owners m) key \<in> {None, Some tid}"
        "m' = set_trader (t\<lparr>tr_positions := del key (tr_positions t)\<rparr>) (m\<lparr>mg_owners := del key (mg_owners m)\<rparr>)"
proof -
  have refuse: "(get_or '''' (mg_owners m) key \<noteq> '''' \<and> get_or '''' (mg_owners m) key \<noteq> tid) \<longleftrightarrow>
      lookup (mg_owners m) key \<notin> {None, Some tid}"
    using owner_nonempty [OF assms(1), of key] by (auto simp: get_or_def split: option.splits)
  have def: "m' = (if key = '''' then m else if lookup (mg_owners m) key \<notin> {None, Some tid} then m
      else case lookup (mg_traders m) tid of None \<Rightarrow> m\<lparr>mg_owners := del key (mg_owners m)\<rparr>
        | Some t \<Rightarrow> set_trader (t\<lparr>tr_positions := del key (tr_positions t)\<rparr>) (m\<lparr>mg_owners := del key (mg_owners m)\<rparr>))"
    unfolding assms(2) release_virtual_position_def Let_def assms(3) [symmetric] refuse ..
  show thesis
  proof (cases "key = '''' \<or> lookup (mg_owners m) key \<notin> {None, Some tid}")
    case True
    then show thesis using def by (intro kept) auto
  next
    case False
    then show thesis
      using def registered(2) [OF assms(1), of tid] gone freed by (cases "lookup (mg_traders m) tid") auto
  qed
qed

lemma release_owners:
  assumes "book_inv m"
  shows "lookup (mg_owners (release_virtual_position tid symbol m)) k =
    (if k = norm_symbol symbol \<and> lookup (mg_owners m) k = Some tid then None else lookup (mg_owners m) k)"
  by (rule release_cases [OF assms refl refl, of tid symbol]) (use owner_key [OF assms] in auto)

lemma release_vpos:
  assumes "book_inv m"
  shows "vpos (release_virtual_position tid symbol m) i k = (if i = tid \<and> k = norm_symbol symbol then None else vpos m i k)"
proof (rule release_cases [OF assms refl refl, of tid symbol])
  assume kept: "release_virtual_position tid symbol m = m"
    "norm_symbol symbol = '''' \<or> lookup (mg_owners m) (norm_symbol symbol) \<notin> {None, Some tid}"
  then have "vpos m tid (norm_symbol symbol) = None"
    using vpos_owner(1,3) [OF assms, of tid "norm_symbol symbol"] by (cases "vpos m tid (norm_symbol symbol)") auto
  then show ?thesis by (simp add: kept(1))
qed (auto simp: vpos_def)

lemma release_registry: "registry_ok m \<Longrightarrow> registry_ok (release_virtual_position tid symbol m)"
  by (auto simp: registry_ok_def release_virtual_position_def Let_def split: option.splits)

lemma release_book_inv [inv_intros]:
  assumes "book_inv m"
  shows "book_inv (release_virtual_position tid symbol m)"
  unfolding book_inv_iff release_owners [OF assms] release_vpos [OF assms]
  using assms release_registry [of m tid symbol] by (auto simp: book_inv_iff)

subsection \<open>The contract of an exclusive book\<close>

datatype 'p book_op = AssignOp string 'p | ReleaseOp string string

primrec op_trader :: "'p book_op \<Rightarrow> string" where
  "op_trader (AssignOp i p) = i"
| "op_trader (ReleaseOp i k) = i"

text \<open>\<open>owner\<close> names the holder of a symbol, or is empty; \<open>key\<close> says which spellings of a symbol are the same.\<close>

locale exclusive_book =
  fixes inv :: "'s \<Rightarrow> bool"
    and key :: "string \<Rightarrow> string"
    and owner :: "'s \<Rightarrow> string \<Rightarrow> string"
    and held :: "'s \<Rightarrow> string \<Rightarrow> string \<Rightarrow> bool"
    and assign :: "string \<Rightarrow> 'p \<Rightarrow> 's \<Rightarrow> goerror option \<times> 's"
    and pos_symbol :: "'p \<Rightarrow> string"
    and release :: "string \<Rightarrow> string \<Rightarrow> 's \<Rightarrow> 's"
  assumes assign_keeps: "inv s \<Longrightarrow> inv (snd (assign i p s))"
    and release_keeps: "inv s \<Longrightarrow> inv (release i k s)"
    and held_owner: "inv s \<Longrightarrow> held s i k \<Longrightarrow> owner s k = i \<and> i \<noteq> ''''"
    and owner_held: "inv s \<Longrightarrow> owner s k \<noteq> '''' \<Longrightarrow> held s (owner s k) k"
    and assign_held: "inv s \<Longrightarrow> fst (assign i p s) = None \<Longrightarrow> held (snd (assign i p s)) j k \<longleftrightarrow>
      held s j k \<or> j = i \<and> key k = key (pos_symbol p)"
    and assign_error: "inv s \<Longrightarrow> fst (assign i p s) \<noteq> None \<Longrightarrow> snd (assign i p s) = s"
    and release_held: "inv s \<Longrightarrow> held (release i k s) j l \<longleftrightarrow> held s j l \<and> \<not> (j = i \<and> key l = key k)"
begin

definition book_apply :: "'p book_op \<Rightarrow> 's \<Rightarrow> 's" where
  "book_apply a s = (case a of AssignOp i p \<Rightarrow> snd (assign i p s) | ReleaseOp i k \<Rightarrow> release i k s)"

lemma exclusive: "inv s \<Longrightarrow> held s i k \<Longrightarrow> held s j k \<Longrightarrow> i = j"
  using held_owner [of s i k] held_owner [of s j k] by simp

lemma free_iff: "inv s \<Longrightarrow> owner s k = '''' \<longleftrightarrow> (\<forall>i. \<not> held s i k)"
  using held_owner [of s _ k] owner_held [of s k] by auto

lemma apply_keeps: "inv s \<Longrightarrow> inv (book_apply a s)"
  by (cases a) (simp_all add: book_apply_def assign_keeps release_keeps)

lemma run_keeps: "inv s \<Longrightarrow> inv (fold book_apply ops s)"
  by (induction ops arbitrary: s) (simp_all add: apply_keeps)

lemma other_keeps:
  assumes "inv s" "op_trader a \<noteq> i"
  shows "held (book_apply a s) i k \<longleftrightarrow> held s i k"
proof (cases a)
  case (AssignOp j p)
  then show ?thesis using assms assign_held [OF assms(1), of j p] assign_error [OF assms(1), of j p]
    by (cases "fst (assign j p s)") (auto simp: book_apply_def)
next
  case (ReleaseOp j l)
  then show ?thesis using assms by (auto simp: book_apply_def release_held)
qed

lemma others_keep:
  "inv s \<Longrightarrow> list_all (\<lambda>a. op_trader a \<noteq> i) ops \<Longrightarrow> held (fold book_apply ops s) i k \<longleftrightarrow> held s i k"
  by (induction ops arbitrary: s) (simp_all add: apply_keeps other_keeps)

end

text \<open>The manager keeps the contract.\<close>

lemma holds_vpos: "holds m i k \<longleftrightarrow> vpos m i (norm_symbol k) \<noteq> None"
  by (simp add: holds_def vpos_def split: option.splits)

lemma get_position_owner_eq:
  "book_inv m \<Longrightarrow> get_position_owner m k = (case lookup (mg_owners m) (norm_symbol k) of None \<Rightarrow> '''' | Some i \<Rightarrow> i)"
  using owner_key [of m] by (auto simp: get_position_owner_def Let_def get_or_def)

lemma assign_holds:
  assumes "book_inv m" "assign_virtual_position now tid pos m = (None, m')"
  shows "holds m' j k \<longleftrightarrow> holds m j k \<or> j = tid \<and> norm_symbol k = norm_symbol (vp_symbol pos)"
  using assms refl
proof (cases rule: assign_cases)
  case (assigned t p)
  then show ?thesis by (auto simp: holds_vpos vpos_assigned) (auto simp: vpos_def)
qed simp

interpretation book: exclusive_book book_inv norm_symbol get_position_owner holds
  "\<lambda>i p. assign_virtual_position (fst p) i (snd p)" "\<lambda>p. vp_symbol (snd p)" release_virtual_position
proof unfold_locales
  fix m i k j l and p :: "time \<times> virtual_position"
  let ?r = "assign_virtual_position (fst p) i (snd p) m"
  assume inv: "book_inv m"
  show "book_inv (snd ?r)" using assign_book_inv [OF inv, of "fst p" i "snd p" "fst ?r" "snd ?r"] by simp
  show "book_inv (release_virtual_position i k m)" by (rule release_book_inv [OF inv])
  show "get_position_owner m k = i \<and> i \<noteq> ''''" if "holds m i k"
    using that inv vpos_owner(3) [OF inv, of i "norm_symbol k"] owner_nonempty [OF inv, of "norm_symbol k"]
    by (auto simp: holds_vpos get_position_owner_eq)
  show "holds m (get_position_owner m k) k" if "get_position_owner m k \<noteq> ''''"
    using that inv owner_vpos [OF inv, of "norm_symbol k"]
    by (auto simp: holds_vpos get_position_owner_eq split: option.splits)
  show "holds (snd ?r) j k \<longleftrightarrow> holds m j k \<or> j = i \<and> norm_symbol k = norm_symbol (vp_symbol (snd p))" if "fst ?r = None"
    using that by (intro assign_holds [OF inv]) (simp add: prod_eq_iff)
  show "snd ?r = m" if "fst ?r \<noteq> None"
    using inv prod.collapse [symmetric] refl by (cases rule: assign_cases) (use that in auto)
  show "holds (release_virtual_position i k m) j l \<longleftrightarrow> holds m j l \<and> \<not> (j = i \<and> norm_symbol l = norm_symbol k)"
    by (simp add: holds_vpos release_vpos [OF inv])
qed

definition book_step :: "(time \<times> virtual_position) book_op \<Rightarrow> manager \<Rightarrow> manager" where
  "book_step a m = (case a of
     AssignOp i p \<Rightarrow> snd (assign_virtual_position (fst p) i (snd p) m)
   | ReleaseOp i k \<Rightarrow> release_virtual_position i k m)"

lemma book_step_eq: "book.book_apply = book_step"
  by (intro ext) (simp add: book.book_apply_def book_step_def)

text \<open>C5. A symbol a trader holds stays its own through any sequence of assignments and releases by
  other traders, under every spelling of the symbol: the owner map names the holder, and
  every other trader is refused both an open and a close on it.\<close>

theorem symbol_not_taken_over:
  assumes "book_inv m" "holds m i k" "list_all (\<lambda>a. op_trader a \<noteq> i) ops" "m' = fold book_step ops m"
  shows "holds m' i k \<and> get_position_owner m' k = i \<and>
    (j \<noteq> i \<longrightarrow> \<not> holds m' j k \<and> ensure_symbol_available j k m' \<noteq> None \<and> ensure_close_ownership j k m' \<noteq> None)"
proof -
  have inv: "book_inv m'" and h: "holds m' i k"
    using book.run_keeps [OF assms(1), of ops] book.others_keep [OF assms(1,3)] assms(2,4) by (simp_all add: book_step_eq)
  have o: "get_position_owner m' k = i" "i \<noteq> ''''" using book.held_owner [OF inv h] by auto
  have "norm_symbol k \<noteq> ''''" using h vpos_owner(1) [OF inv, of i "norm_symbol k"] by (auto simp: holds_vpos)
  moreover have "get_position_owner m' (norm_symbol k) = i" using o inv by (simp add: get_position_owner_eq)
  moreover have "tr_id t = j" if "lookup (mg_traders m') j = Some t" for t using registered(2) [OF inv that] .
  ultimately have "j \<noteq> i \<Longrightarrow> ensure_symbol_available j k m' \<noteq> None \<and> ensure_close_ownership j k m' \<noteq> None"
    using o(2) by (cases "lookup (mg_traders m') j") (simp_all add: ensure_symbol_available_def ensure_close_ownership_def Let_def)
  then show ?thesis using h o(1) book.exclusive [OF inv h, of j] by blast
qed

text \<open>A trader only sees the exchange positions nobody holds and those it holds itself.\<close>

theorem sees_own_positions:
  assumes "book_inv m"
  shows "p \<in> set (filter_positions_for_trader tid ps m) \<longleftrightarrow>
    p \<in> set ps \<and> (\<forall>j. holds m j (pos_coin p) \<longrightarrow> j = tid)"
proof -
  have "get_or '''' (mg_owners m) (norm_symbol (pos_coin p)) = get_position_owner m (pos_coin p)"
    using assms by (simp add: get_position_owner_eq get_or_def)
  moreover have "mg_owners m = [] \<Longrightarrow> get_position_owner m (pos_coin p) = ''''" by (simp add: get_position_owner_def Let_def get_or_def)
  moreover have "get_position_owner m (pos_coin p) \<in> {'''', tid} \<longleftrightarrow> (\<forall>j. holds m j (pos_coin p) \<longrightarrow> j = tid)"
    using book.free_iff [OF assms, of "pos_coin p"] book.owner_held [OF assms, of "pos_coin p"]
      book.held_owner [OF assms, of _ "pos_coin p"] by auto
  ultimately show ?thesis by (auto simp: filter_positions_for_trader_def Let_def)
qed

subsection \<open>Registration and removal\<close>

lemma hydrate_frame [simp]:
  "tr_id (hydrate_version s t) = tr_id t" "tr_id (hydrate_decision d t) = tr_id t" "tr_id (hydrate_pause d t) = tr_id t"
  "tr_id (hydrate_allocation d t) = tr_id t" "tr_id (hydrate_performance d t) = tr_id t"
  "tr_id (hydrate_daily d t) = tr_id t" "tr_id (hydrate_circuit d t) = tr_id t"
  "tr_positions (hydrate_version s t) = tr_positions t" "tr_positions (hydrate_decision d t) = tr_positions t"
  "tr_positions (hydrate_pause d t) = tr_positions t" "tr_positions (hydrate_allocation d t) = tr_positions t"
  "tr_positions (hydrate_performance d t) = tr_positions t" "tr_positions (hydrate_daily d t) = tr_positions t"
  "tr_positions (hydrate_circuit d t) = tr_positions t"
  by (simp_all add: hydrate_defs split: option.splits)

lemma hydrate_trader_frame:
  "tr_id (snd (hydrate_trader now state cds t)) = tr_id t" "tr_positions (snd (hydrate_trader now state cds t)) = tr_positions t"
  by (simp_all add: hydrate_trader_def Let_def hydrate_fields_def split: sum.splits option.splits)

lemma boot_trader_frame:
  "tr_id (boot_trader now auto state cds t) = tr_id t" "tr_positions (boot_trader now auto state cds t) = tr_positions t"
  using hydrate_trader_frame [of now state cds t]
  by (simp_all add: boot_trader_def trader_start_def case_prod_unfold)

lemma validated_id:
  assumes "config_validate env \<lparr>cfg_manager = a, cfg_traders = [cfg], cfg_monitoring = b, cfg_base_dir = d\<rparr> = None"
  shows "tc_id cfg \<noteq> ''''" "risk_params_ok (tc_risk_params cfg)"
  using assms validate_traders_sound [of env "[]" 0 0 "[cfg]"]
  by (auto simp: config_validate_def split: option.splits sum.splits)

lemma register_cases:
  assumes "register_trader env factory now state cooldowns cfg m = (r, m')"
  obtains (refused) e where "r = Inl e" "m' = m"
  | (registered) t where "r = Inr t" "m' = persist_runtime_state now t (set_trader t m)" "tr_id t = tc_id cfg"
      "tr_positions t = []" "tc_id cfg \<noteq> ''''" "lookup (mg_traders m) (tc_id cfg) = None" "risk_params_ok (tc_risk_params cfg)"
  using assms validated_id
  by (auto simp: register_trader_def Let_def boot_trader_frame new_trader_def split: option.splits if_splits)

text \<open>Registration adds exactly one trader, holding nothing, under an identifier that was free; a
  refused registration changes nothing, and either way the book stays consistent.\<close>

theorem register_keeps_book:
  assumes "book_inv m" "register_trader env factory now state cooldowns cfg m = (r, m')"
  shows "book_inv m' \<and> (\<forall>i k. holds m' i k \<longleftrightarrow> holds m i k) \<and>
    (case r of Inl e \<Rightarrow> m' = m
     | Inr t \<Rightarrow> lookup (mg_traders m) (tc_id cfg) = None \<and> lookup (mg_traders m') (tc_id cfg) = Some t)"
  using assms(2)
proof (cases rule: register_cases)
  case (registered t)
  have vp: "vpos m' = vpos m"
    using registered(2-4,6) by (intro ext) (simp add: vpos_def)
  then have "book_inv m'" using assms(1) registered
    by (simp add: book_inv_iff registry_ok_def)
  then show ?thesis using registered(1,6) by (simp add: holds_vpos vp) (simp add: registered(2,3))
qed (use assms(1) in simp)

lemma release_gone:
  assumes "registry_ok m" "lookup (mg_traders m) tid = None" "\<forall>s \<in> set ks. norm_symbol s = s \<and> s \<noteq> ''''"
    "\<forall>s \<in> set ks. lookup (mg_owners m) s \<in> {None, Some tid}" "tid \<noteq> ''''"
    "m' = fold (release_virtual_position tid) ks m"
  shows "mg_traders m' = mg_traders m \<and> wf_map (mg_owners m') \<and>
    (\<forall>k. lookup (mg_owners m') k = (if k \<in> set ks then None else lookup (mg_owners m) k))"
  using assms
proof (induction ks arbitrary: m)
  case Nil
  then show ?case by (simp add: registry_ok_def)
next
  case (Cons s ks)
  let ?m1 = "release_virtual_position tid s m"
  have m1: "?m1 = m\<lparr>mg_owners := del s (mg_owners m)\<rparr>"
    using Cons.prems by (auto simp: release_virtual_position_def Let_def get_or_def)
  show ?case using Cons.prems Cons.IH [of ?m1] by (auto simp: m1 registry_ok_def)
qed

text \<open>Removing a trader frees every symbol it held, in whatever order Go ranges over its positions,
  and touches the book of no other trader.\<close>

theorem unregister_frees:
  assumes "book_inv m" "is_order it" "unregister_trader it tid m = (None, m')"
  shows "book_inv m' \<and> lookup (mg_traders m') tid = None \<and>
    (holds m tid k \<longrightarrow> get_position_owner m' k = '''') \<and> (j \<noteq> tid \<longrightarrow> (holds m' j k \<longleftrightarrow> holds m j k))"
proof -
  obtain t where t: "lookup (mg_traders m) tid = Some t"
    and m': "m' = fold (release_virtual_position tid) (map fst (it (tr_positions t))) (m\<lparr>mg_traders := del tid (mg_traders m)\<rparr>)"
    using assms(3) registered(2) [OF assms(1), of tid]
    by (auto simp: unregister_trader_def release_all_virtual_positions_def split: option.splits)
  let ?m0 = "m\<lparr>mg_traders := del tid (mg_traders m)\<rparr>" and ?ks = "map fst (it (tr_positions t))"
  have keys: "s \<in> set ?ks \<longleftrightarrow> vpos m tid s \<noteq> None" for s
    using map_of_eq_None_iff [of "tr_positions t" s] by (simp add: vpos_def t is_order_set [OF assms(2)])
  have own: "s \<in> set ?ks \<longleftrightarrow> lookup (mg_owners m) s = Some tid" for s
    using keys [of s] vpos_owner(3) [OF assms(1), of tid s] owner_vpos [OF assms(1), of s tid] by auto
  have norm: "norm_symbol s = s \<and> s \<noteq> ''''" if "s \<in> set ?ks" for s
    using that keys [of s] vpos_owner(1,2) [OF assms(1), of tid s] by (metis norm_symbol_idem option.exhaust)
  have reg0: "registry_ok ?m0" using assms(1) by (simp add: book_inv_iff registry_ok_def)
  have "mg_traders m' = mg_traders ?m0 \<and> wf_map (mg_owners m') \<and>
      (\<forall>k. lookup (mg_owners m') k = (if k \<in> set ?ks then None else lookup (mg_owners ?m0) k))"
  proof (rule release_gone [OF reg0 _ _ _ registered(1) [OF assms(1) t] m'])
    show "\<forall>s \<in> set ?ks. norm_symbol s = s \<and> s \<noteq> ''''" using norm by blast
    show "\<forall>s \<in> set ?ks. lookup (mg_owners ?m0) s \<in> {None, Some tid}" unfolding own Ball_def by simp
  qed simp
  then have spec: "mg_traders m' = del tid (mg_traders m)" "wf_map (mg_owners m')"
    "lookup (mg_owners m') s = (if lookup (mg_owners m) s = Some tid then None else lookup (mg_owners m) s)" for s
    unfolding own by simp_all
  have vp: "vpos m' i s = (if i = tid then None else vpos m i s)" for i s by (simp add: vpos_def spec)
  have inv: "book_inv m'"
    using assms(1) reg0 by (auto simp: book_inv_iff registry_ok_def spec vp)
  show ?thesis using inv vpos_owner(3) [OF assms(1), of tid "norm_symbol k"]
    by (auto simp: holds_vpos vp spec get_position_owner_eq split: option.splits)
qed

subsection \<open>Examples\<close>

definition demo_vp :: virtual_position where
  "demo_vp = \<lparr>vp_symbol = '' btc'', vp_side = ''long'', vp_quantity = lit (1 / 2), vp_notional = lit 50,
     vp_entry_price = lit 100, vp_leverage = 3, vp_opened_at = zero_time, vp_updated_at = zero_time\<rparr>"

definition demo_manager :: manager where
  "demo_manager = snd (assign_virtual_position 5 ''alpha'' demo_vp
     (set_trader demo_trader (set_trader (demo_trader\<lparr>tr_id := ''beta''\<rparr>)
       (new_manager demo_config [(''paper'', ''*sim.Provider'')] [''hl''] True))))"

lemma demo_manager_inv: "book_inv demo_manager"
  by code_simp

theorem symbol_not_taken_over_witness:
  "get_position_owner (fold book_step [AssignOp ''beta'' (7, demo_vp), ReleaseOp ''beta'' ''BTC''] demo_manager) ''BTC'' = ''alpha'' \<and>
   ensure_close_ownership ''beta'' ''BTC'' (fold book_step [AssignOp ''beta'' (7, demo_vp), ReleaseOp ''beta'' ''BTC''] demo_manager) \<noteq> None"
proof -
  have "holds demo_manager ''alpha'' ''BTC''"
    "list_all (\<lambda>a. op_trader a \<noteq> ''alpha'') [AssignOp ''beta'' (7, demo_vp), ReleaseOp ''beta'' ''BTC'']" by code_simp+
  from symbol_not_taken_over [OF demo_manager_inv this refl, of "''beta''"] show ?thesis by simp
qed

theorem sees_own_positions_witness:
  "set (filter_positions_for_trader ''beta'' [\<lparr>pos_coin = ''BTC'', pos_entry_px = None, pos_value = '''', pos_szi = ''1'',
     pos_unrealized = '''', pos_roe = '''', pos_leverage = \<lparr>lev_type = '''', lev_value = 1\<rparr>, pos_liquidation_px = None\<rparr>] demo_manager) = {}"
proof -
  have h: "holds demo_manager ''alpha'' ''BTC''" by code_simp
  show ?thesis
    by (rule equals0I) (use h in \<open>auto simp: sees_own_positions [OF demo_manager_inv]\<close>)
qed

definition demo_env :: config_env where
  "demo_env = \<lparr>env_expand = (\<lambda>s. s), env_is_abs = (\<lambda>s. True), env_join = (\<lambda>a b. a @ b),
     env_stat = (\<lambda>s. None), env_project_path = Inr\<rparr>"

definition demo_registration :: "(goerror + trader) \<times> manager" where
  "demo_registration = register_trader demo_env (Some (\<lambda>c. None)) 9 (Inr None) (Inr [])
     (demo_trader_config\<lparr>tc_id := ''gamma'', tc_execution_mode := ''paper'', tc_order_style := ''limit_ioc''\<rparr>) demo_manager"

theorem register_keeps_book_witness:
  "is_ok (fst demo_registration) \<and> book_inv (snd demo_registration)"
proof
  show "is_ok (fst demo_registration)" by code_simp
  from register_keeps_book [OF demo_manager_inv prod.collapse [symmetric]]
  show "book_inv (snd demo_registration)" unfolding demo_registration_def by blast
qed

theorem unregister_frees_witness:
  "get_position_owner (snd (unregister_trader (\<lambda>m. m) ''alpha'' demo_manager)) ''BTC'' = ''''"
proof -
  have "unregister_trader (\<lambda>m. m) ''alpha'' demo_manager = (None, snd (unregister_trader (\<lambda>m. m) ''alpha'' demo_manager))"
    "holds demo_manager ''alpha'' ''BTC''" by code_simp+
  with unregister_frees [OF demo_manager_inv is_order_id this(1)] show ?thesis by blast
qed

end
