(* ===== verification/Policy.thy ===== *)
theory Policy
  imports Ownership
begin

text \<open>
  The policy every order passes (\<open>pkg/manager/policy.go\<close>, \<open>enforceSecondaryRisk\<close> of \<open>manager.go\<close> and
  \<open>approveDecisionWithAudit\<close> of \<open>audit.go\<close>): a decision becomes an approval token, which the execution
  checks again. The environment variables are read through \<open>getenv\<close>. The decision is passed
  by reference: the policy fills in its leverage, so the decision is part of the result.

  Shown: what holds of an approved open, that live trading needs the three environment
  switches, that a loss over the daily limit trips the circuit breaker, that the policy never
  touches the book, and that a token authorizes only the decision it was issued for, for
  thirty seconds.
\<close>

subsection \<open>Helpers\<close>

fun first_error :: "goerror option list \<Rightarrow> goerror option" where
  "first_error [] = None"
| "first_error (Some e # es) = Some e"
| "first_error (None # es) = first_error es"

lemma first_error_None: "first_error es = None \<longleftrightarrow> list_all (\<lambda>e. e = None) es"
  by (induction es rule: first_error.induct) auto

definition wrap_policy :: "goerror option \<Rightarrow> goerror option" where
  "wrap_policy e = map_option (Wrapf ''manager policy: %w'' []) e"

definition approval_token_ttl :: duration where "approval_token_ttl = 30 * second"

definition policy_error :: "string \<Rightarrow> string list \<Rightarrow> goerror" where
  "policy_error msg args = Errorf (''manager policy: '' @ msg) args"

definition trader_missing :: goerror where
  "trader_missing = policy_error ''trader and decision are required'' []"

definition truthy_env :: "string \<Rightarrow> bool" where
  "truthy_env v \<longleftrightarrow> to_lower (trim_space v) \<in> {''1'', ''true'', ''yes'', ''y'', ''on''}"

definition is_paper_execution_target :: "trader \<Rightarrow> bool" where
  "is_paper_execution_target t = (let name = to_lower (trim_space (tr_exchange t)) in
     contains_sub name ''paper'' \<or> contains_sub name ''sim'' \<or>
     contains_sub (to_lower (tr_provider_type t)) ''exchange/sim'')"

definition is_testnet_execution_target :: "trader \<Rightarrow> bool" where
  "is_testnet_execution_target t = contains_sub (to_lower (trim_space (tr_exchange t))) ''testnet''"

definition enforce_execution_mode :: "(string \<Rightarrow> string) \<Rightarrow> trader \<Rightarrow> goerror option" where
  "enforce_execution_mode getenv t =
    (let mode = normalize_execution_mode (tr_execution_mode t) (tr_exchange t) in
     if mode = mode_paper
     then (if is_paper_execution_target t then None
           else Some (policy_error ''execution_mode=paper requires a paper/sim exchange provider, got %q'' [tr_exchange t]))
     else if mode = mode_testnet
     then (if is_testnet_execution_target t then None
           else Some (policy_error ''execution_mode=testnet requires a testnet exchange provider, got %q'' [tr_exchange t]))
     else if mode = mode_live
     then guards
       [(getenv ''CI'' \<noteq> '''', policy_error ''live trading is disabled in CI'' []),
        (\<not> truthy_env (getenv ''ASTRAQUANT_ALLOW_LIVE_TRADING''),
         policy_error ''live trading requires %s=true'' [''ASTRAQUANT_ALLOW_LIVE_TRADING'']),
        (getenv ''ASTRAQUANT_LIVE_TRADING_ACK'' \<noteq> ''I_UNDERSTAND_THIS_CAN_LOSE_MONEY'',
         policy_error ''live trading requires %s=%s'' [''ASTRAQUANT_LIVE_TRADING_ACK'', ''I_UNDERSTAND_THIS_CAN_LOSE_MONEY''])]
     else Some (policy_error ''unsupported execution_mode %q'' [mode]))"

subsection \<open>Guards on an open\<close>

definition side_guards :: "string \<Rightarrow> decision \<Rightarrow> (bool \<times> goerror) list" where
  "side_guards action d =
    [(0 < dec_stop_loss d \<and> action = ''open_long'' \<and> dec_entry_price d \<le> dec_stop_loss d,
      Errorf ''open_long requires stop_loss below entry_price'' []),
     (0 < dec_stop_loss d \<and> action = ''open_short'' \<and> dec_stop_loss d \<le> dec_entry_price d,
      Errorf ''open_short requires stop_loss above entry_price'' []),
     (0 < dec_take_profit d \<and> action = ''open_long'' \<and> dec_take_profit d \<le> dec_entry_price d,
      Errorf ''open_long requires take_profit above entry_price'' []),
     (0 < dec_take_profit d \<and> action = ''open_short'' \<and> dec_entry_price d \<le> dec_take_profit d,
      Errorf ''open_short requires take_profit below entry_price'' [])]"

definition policy_risk :: "string \<Rightarrow> decision \<Rightarrow> f64" where
  "policy_risk action d = (if action = ''open_long'' then dec_entry_price d - dec_stop_loss d
     else if action = ''open_short'' then dec_stop_loss d - dec_entry_price d else 0)"

definition policy_reward :: "string \<Rightarrow> decision \<Rightarrow> f64" where
  "policy_reward action d = (if action = ''open_long'' then dec_take_profit d - dec_entry_price d
     else if action = ''open_short'' then dec_entry_price d - dec_take_profit d else 0)"

definition risk_reward_guards :: "risk_parameters \<Rightarrow> string \<Rightarrow> decision \<Rightarrow> (bool \<times> goerror) list" where
  "risk_reward_guards rp action d = (if 0 < rp_min_risk_reward rp then
    (let risk = policy_risk action d; reward = policy_reward action d; ratio = reward / risk in
    [(dec_stop_loss d \<le> 0 \<or> dec_take_profit d \<le> 0, Errorf ''min_risk_reward_ratio requires stop_loss and take_profit'' []),
     (risk \<le> 0 \<or> reward \<le> 0, Errorf ''invalid entry_price/stop_loss/take_profit relationship'' []),
     (ratio + eps < rp_min_risk_reward rp,
      Errorf ''reward/risk %.2f below minimum %.2f'' [format_fixed 2 ratio, format_fixed 2 (rp_min_risk_reward rp)])]) else [])"

definition enforce_open_decision_price_guards :: "risk_parameters \<Rightarrow> decision \<Rightarrow> goerror option" where
  "enforce_open_decision_price_guards rp d = (let action = trim_space (dec_action d) in guards (
    [(dec_entry_price d \<le> 0, Errorf ''open action requires positive entry_price'' []),
     (rp_stop_loss_enabled rp \<and> dec_stop_loss d \<le> 0, Errorf ''open action requires positive stop_loss'' []),
     (rp_take_profit_enabled rp \<and> dec_take_profit d \<le> 0, Errorf ''open action requires positive take_profit'' [])] @
    side_guards action d @ risk_reward_guards rp action d))"

definition enforce_position_capacity :: "string \<Rightarrow> manager \<Rightarrow> goerror option" where
  "enforce_position_capacity tid m = (case lookup (mg_traders m) tid of
     None \<Rightarrow> Some (policy_error ''trader is required'' [])
   | Some t \<Rightarrow> if 0 < rp_max_positions (tr_risk t) \<and> rp_max_positions (tr_risk t) \<le> int (length (tr_positions t))
       then Some (policy_error ''max positions reached (%d)'' [itoa (rp_max_positions (tr_risk t))]) else None)"

definition enforce_allowed_symbol :: "string list \<Rightarrow> string \<Rightarrow> goerror option" where
  "enforce_allowed_symbol allowed symbol0 = (let symbol = norm_symbol symbol0 in
     if symbol = '''' then Some (Errorf ''symbol is required'' [])
     else if allowed = [] then None
     else if list_ex (\<lambda>c. norm_symbol c = symbol) allowed then None
     else Some (Errorf ''symbol %s is not in allowed_symbols'' [symbol]))"

record daily_loss_error =
  dl_date :: string
  dl_start :: f64
  dl_current :: f64
  dl_loss :: f64
  dl_limit :: f64

definition daily_loss_goerror :: "daily_loss_error \<Rightarrow> goerror" where
  "daily_loss_goerror e = Errorf ''daily loss %.2f exceeds limit %.2f'' [format_fixed 2 (dl_loss e), format_fixed 2 (dl_limit e)]"

fun positive_min_from :: "f64 \<Rightarrow> f64 list \<Rightarrow> f64" where
  "positive_min_from mn [] = mn"
| "positive_min_from mn (v # vs) =
    (if v \<le> 0 then positive_min_from mn vs
     else if feq mn 0 \<or> v < mn then positive_min_from v vs else positive_min_from mn vs)"

definition positive_min :: "f64 list \<Rightarrow> f64" where
  "positive_min vs = positive_min_from 0 vs"

definition enforce_daily_loss_limit :: "trader \<Rightarrow> time \<Rightarrow> daily_loss_error option" where
  "enforce_daily_loss_limit t now =
    (let max_usd = rp_max_daily_loss_usd (tr_risk t); max_pct = rp_max_daily_loss_pct (tr_risk t);
         today = same_utc_date (dr_updated_at (tr_daily t)) now;
         start = (if today then dr_start_equity (tr_daily t) else ra_current_equity (tr_alloc t));
         current = (if today then dr_last_equity (tr_daily t) else ra_current_equity (tr_alloc t));
         loss = start - current;
         limit = positive_min [max_usd, start * (max_pct / lit 100)]
     in if max_usd \<le> 0 \<and> max_pct \<le> 0 then None
        else if start \<le> 0 \<or> current \<le> 0 then None
        else if loss \<le> 0 then None
        else if limit \<le> 0 then None
        else if limit + micro < loss
        then Some \<lparr>dl_date = (if dr_date (tr_daily t) = '''' then format_date now else dr_date (tr_daily t)),
                 dl_start = start, dl_current = current, dl_loss = loss, dl_limit = limit\<rparr>
        else None)"

definition enforce_secondary_risk :: "trader \<Rightarrow> decision \<Rightarrow> int \<Rightarrow> goerror option" where
  "enforce_secondary_risk t d leverage =
    (let rp = tr_risk t; equity = ra_current_equity (tr_alloc t);
         projected = ra_margin_used (tr_alloc t) + dec_position_size d / f64_of_int leverage;
         usage = lit 100 * (projected / equity)
     in guards
       [(0 < rp_max_position_size rp \<and> rp_max_position_size rp + micro < dec_position_size d,
         Errorf ''manager: decision size %.2f exceeds max_position_size_usd %.2f''
           [format_fixed 2 (dec_position_size d), format_fixed 2 (rp_max_position_size rp)]),
        (0 < rp_max_margin_usage_pct rp \<and> 0 < leverage \<and> 0 < equity \<and> rp_max_margin_usage_pct rp + micro < usage,
         Errorf ''manager: projected margin usage %.2f%% exceeds cap %.2f%%''
           [format_fixed 2 usage, format_fixed 2 (rp_max_margin_usage_pct rp)])])"

definition enforce_open_risk :: "time \<Rightarrow> string \<Rightarrow> decision \<Rightarrow> int \<Rightarrow> manager \<Rightarrow> goerror option \<times> manager" where
  "enforce_open_risk now tid d leverage m = (case lookup (mg_traders m) tid of
     None \<Rightarrow> (Some trader_missing, m)
   | Some t \<Rightarrow> (case enforce_allowed_symbol (rp_allowed_symbols (tr_risk t)) (dec_symbol d) of
       Some e \<Rightarrow> (Some e, m)
     | None \<Rightarrow> (case enforce_daily_loss_limit t now of
         Some e \<Rightarrow> (Some (daily_loss_goerror e),
                     trip_risk_circuit_breaker now tid (error_text (daily_loss_goerror e)) m)
       | None \<Rightarrow> (enforce_secondary_risk t d leverage, m))))"

subsection \<open>Approval\<close>

definition is_open_action :: "string \<Rightarrow> bool" where
  "is_open_action a \<longleftrightarrow> a = ''open_long'' \<or> a = ''open_short''"

definition is_close_action :: "string \<Rightarrow> bool" where
  "is_close_action a \<longleftrightarrow> a = ''close_long'' \<or> a = ''close_short''"

definition is_noop_action :: "string \<Rightarrow> bool" where
  "is_noop_action a \<longleftrightarrow> a = ''hold'' \<or> a = ''wait''"

definition policy_leverage_cap :: "risk_parameters \<Rightarrow> string \<Rightarrow> int" where
  "policy_leverage_cap rp symbol = (if is_btc_or_eth symbol then rp_major_leverage rp else rp_alt_leverage rp)"

definition shape_guards :: "decision \<Rightarrow> (bool \<times> goerror) list" where
  "shape_guards d = (let action = trim_space (dec_action d) in
    [(action = '''', policy_error ''decision action is required'' []),
     (dec_position_size d < 0, policy_error ''position size must be non-negative'' []),
     (\<not> is_open_action action \<and> \<not> is_close_action action \<and> \<not> is_noop_action action,
      policy_error ''unsupported action %q'' [action]),
     ((is_open_action action \<or> is_close_action action) \<and> norm_symbol (dec_symbol d) = '''',
      policy_error ''symbol is required for trade action'' [])])"

definition entry_guards :: "trader \<Rightarrow> decision \<Rightarrow> goerror option" where
  "entry_guards t d = (let rp = tr_risk t in first_error
    [(if dec_position_size d \<le> 0 then Some (policy_error ''open action requires positive position size'' []) else None),
     wrap_policy (enforce_open_decision_price_guards rp d),
     guards
      [(0 < rp_min_confidence rp \<and> dec_confidence d < rp_min_confidence rp,
        policy_error ''confidence %d below minimum %d'' [itoa (dec_confidence d), itoa (rp_min_confidence rp)]),
       (0 < rp_max_position_size rp \<and> rp_max_position_size rp + micro < dec_position_size d,
        policy_error ''position size %.2f exceeds max %.2f''
          [format_fixed 2 (dec_position_size d), format_fixed 2 (rp_max_position_size rp)])]])"

definition approve_open :: "time \<Rightarrow> string \<Rightarrow> trader \<Rightarrow> decision \<Rightarrow> manager \<Rightarrow> (goerror option \<times> decision) \<times> manager" where
  "approve_open now tid t d m =
    (let symbol = norm_symbol (dec_symbol d); cap = policy_leverage_cap (tr_risk t) symbol;
         lev = (if dec_leverage d \<le> 0 then cap else dec_leverage d); d1 = d\<lparr>dec_leverage := lev\<rparr>
     in case entry_guards t d of
          Some e \<Rightarrow> ((Some e, d), m)
        | None \<Rightarrow> (case first_error
            [(if 0 < cap \<and> cap < lev
              then Some (policy_error ''leverage %d exceeds cap %d for %s'' [itoa lev, itoa cap, symbol]) else None),
             wrap_policy (ensure_symbol_available tid symbol m),
             enforce_position_capacity tid m] of
            Some e \<Rightarrow> ((Some e, d1), m)
          | None \<Rightarrow> (case enforce_open_risk now tid d1 lev m of
              (r, m') \<Rightarrow> ((wrap_policy r, d1), m'))))"

definition approval_checks :: "string \<Rightarrow> string list" where
  "approval_checks action = [''action_allowed'', ''shape_valid'', ''execution_mode''] @
    (if is_open_action action then [''entry_price'', ''stop_loss'', ''take_profit'', ''risk_reward'', ''confidence_floor'',
       ''symbol_whitelist'', ''size_cap'', ''leverage_cap'', ''daily_loss_limit'', ''symbol_ownership'', ''position_count'', ''margin_cap''] else []) @
    (if is_close_action action then [''symbol_ownership''] else []) @
    (if is_noop_action action then [''noop''] else [])"

definition issue_token :: "time \<Rightarrow> trader \<Rightarrow> decision \<Rightarrow> approval_token" where
  "issue_token now t d = (let action = trim_space (dec_action d) in
    \<lparr>ap_id = ''approval-'' @ tr_id t @ ''-'' @ itoa now, ap_trader_id = tr_id t, ap_symbol = norm_symbol (dec_symbol d),
     ap_action = action, ap_notional = dec_position_size d, ap_leverage = dec_leverage d, ap_approved_at = now,
     ap_expires_at = now + approval_token_ttl, ap_checks = approval_checks action\<rparr>)"

definition approve_decision ::
  "(string \<Rightarrow> string) \<Rightarrow> time \<Rightarrow> string \<Rightarrow> decision \<Rightarrow> manager \<Rightarrow> ((goerror + approval_token) \<times> decision) \<times> manager" where
  "approve_decision getenv now tid d m = (case lookup (mg_traders m) tid of
     None \<Rightarrow> ((Inl trader_missing, d), m)
   | Some t \<Rightarrow> let action = trim_space (dec_action d); trade = is_open_action action \<or> is_close_action action in
     case first_error [guards (shape_guards d), (if trade then enforce_execution_mode getenv t else None)] of
       Some e \<Rightarrow> ((Inl e, d), m)
     | None \<Rightarrow>
       if is_open_action action
       then (case approve_open now tid t d m of
           ((Some e, d1), m1) \<Rightarrow> ((Inl e, d1), m1)
         | ((None, d1), m1) \<Rightarrow> ((Inr (issue_token now t d1), d1), m1))
       else if is_close_action action
       then (case ensure_close_ownership tid (norm_symbol (dec_symbol d)) m of
           Some e \<Rightarrow> ((Inl (Wrapf ''manager policy: %w'' [] e), d), m)
         | None \<Rightarrow> ((Inr (issue_token now t d), d), m))
       else ((Inr (issue_token now t d), d), m))"

definition approve_decision_with_audit ::
  "(string \<Rightarrow> string) \<Rightarrow> time \<Rightarrow> string \<Rightarrow> decision \<Rightarrow> audit_trace \<Rightarrow> manager \<Rightarrow>
   ((goerror + approval_token) \<times> decision) \<times> manager" where
  "approve_decision_with_audit getenv now tid d trace m = (case approve_decision getenv now tid d m of
     ((Inl e, d1), m1) \<Rightarrow> ((Inl e, d1), record_audit_decision_event now PolicyRejected (lookup (mg_traders m1) tid)
        (Some d1) trace None ''policy_rejected'' (Some e) [] m1)
   | ((Inr ap, d1), m1) \<Rightarrow> ((Inr ap, d1), record_audit_decision_event now Approved (lookup (mg_traders m1) tid)
        (Some d1) trace (Some ap) ''policy_approved'' None [(''checks'', DTexts (ap_checks ap))] m1))"

text \<open>Checking a token: \<open>None\<close> is the \<open>nil\<close> token or trader.\<close>

definition abs_float :: "f64 \<Rightarrow> f64" where
  "abs_float v = (if v < 0 then - v else v)"

definition token_validate :: "time \<Rightarrow> approval_token option \<Rightarrow> trader option \<Rightarrow> decision \<Rightarrow> goerror option" where
  "token_validate now ap trader d = (case ap of
     None \<Rightarrow> Some (policy_error ''approval token is required'' [])
   | Some a \<Rightarrow> (case trader of
       None \<Rightarrow> Some trader_missing
     | Some t \<Rightarrow> guards
        [(ap_expires_at a < now, policy_error ''approval token expired'' []),
         (ap_trader_id a \<noteq> tr_id t, policy_error ''approval token trader mismatch %q != %q'' [ap_trader_id a, tr_id t]),
         (ap_action a \<noteq> trim_space (dec_action d), policy_error ''approval token action mismatch'' []),
         (ap_symbol a \<noteq> norm_symbol (dec_symbol d), policy_error ''approval token symbol mismatch'' []),
         (micro < abs_float (ap_notional a - dec_position_size d), policy_error ''approval token notional mismatch'' []),
         (ap_leverage a \<noteq> dec_leverage d, policy_error ''approval token leverage mismatch'' [])]))"

subsection \<open>What an approval means\<close>

lemma approve_cases:
  assumes "approve_decision getenv now tid d m = ((Inr ap, d'), m')"
  obtains t where "lookup (mg_traders m) tid = Some t" "guards (shape_guards d) = None" "ap = issue_token now t d'"
    "is_open_action (trim_space (dec_action d)) \<or> is_close_action (trim_space (dec_action d)) \<Longrightarrow> enforce_execution_mode getenv t = None"
    "is_open_action (trim_space (dec_action d)) \<Longrightarrow> approve_open now tid t d m = ((None, d'), m')"
    "is_close_action (trim_space (dec_action d)) \<Longrightarrow> ensure_close_ownership tid (norm_symbol (dec_symbol d)) m = None"
    "\<not> is_open_action (trim_space (dec_action d)) \<Longrightarrow> d' = d \<and> m' = m"
proof (cases "lookup (mg_traders m) tid")
  case None
  then show thesis using assms by (simp add: approve_decision_def)
next
  case (Some t)
  let ?a = "trim_space (dec_action d)"
  have fe: "first_error [guards (shape_guards d),
      (if is_open_action ?a \<or> is_close_action ?a then enforce_execution_mode getenv t else None)] = None"
    using assms Some by (auto simp: approve_decision_def Let_def split: option.splits)
  then have fe': "guards (shape_guards d) = None"
    "is_open_action ?a \<or> is_close_action ?a \<Longrightarrow> enforce_execution_mode getenv t = None"
    by (auto simp: first_error_None)
  show thesis
  proof (cases "is_open_action ?a")
    case True
    then have "ap = issue_token now t d' \<and> approve_open now tid t d m = ((None, d'), m')"
      using assms Some fe by (auto simp: approve_decision_def Let_def split: prod.splits option.splits)
    then show thesis using that [OF Some fe'(1) _ fe'(2)] True
      by (auto simp: is_open_action_def is_close_action_def)
  next
    case False
    then have "ap = issue_token now t d' \<and> d' = d \<and> m' = m \<and>
        (is_close_action ?a \<longrightarrow> ensure_close_ownership tid (norm_symbol (dec_symbol d)) m = None)"
      using assms Some fe by (auto simp: approve_decision_def Let_def split: option.splits if_splits)
    then show thesis using that [OF Some fe'(1) _ fe'(2)] False by auto
  qed
qed

lemma approve_open_None:
  assumes "approve_open now tid t d m = ((None, d'), m')" "lookup (mg_traders m) tid = Some t"
  shows "m' = m" "d' = d\<lparr>dec_leverage := (if dec_leverage d \<le> 0
      then policy_leverage_cap (tr_risk t) (norm_symbol (dec_symbol d)) else dec_leverage d)\<rparr>"
    "entry_guards t d = None"
    "0 < policy_leverage_cap (tr_risk t) (norm_symbol (dec_symbol d)) \<longrightarrow>
       dec_leverage d' \<le> policy_leverage_cap (tr_risk t) (norm_symbol (dec_symbol d))"
    "ensure_symbol_available tid (norm_symbol (dec_symbol d)) m = None" "enforce_position_capacity tid m = None"
    "enforce_allowed_symbol (rp_allowed_symbols (tr_risk t)) (dec_symbol d) = None"
    "enforce_daily_loss_limit t now = None" "enforce_secondary_risk t d' (dec_leverage d') = None"
  using assms unfolding approve_open_def Let_def first_error_None
  by (auto simp: first_error_None wrap_policy_def enforce_open_risk_def not_less split: option.splits if_splits prod.splits)

lemma price_guards_None:
  assumes "enforce_open_decision_price_guards rp d = None" "is_open_action (trim_space (dec_action d))" "0 < rp_min_risk_reward rp"
    "\<not> is_nan (dec_entry_price d)" "\<not> is_nan (dec_stop_loss d)" "\<not> is_nan (dec_take_profit d)"
  shows "if is_long d then 0 < dec_stop_loss d \<and> dec_stop_loss d < dec_entry_price d \<and> dec_entry_price d < dec_take_profit d
      else 0 < dec_take_profit d \<and> dec_take_profit d < dec_entry_price d \<and> dec_entry_price d < dec_stop_loss d"
    and "\<not> policy_reward (trim_space (dec_action d)) d / policy_risk (trim_space (dec_action d)) d + eps < rp_min_risk_reward rp"
proof -
  have nz: "\<not> is_nan (0 :: f64)" by (simp add: zero_f64_def)
  note g = assms(1) [unfolded enforce_open_decision_price_guards_def Let_def guards_None side_guards_def risk_reward_guards_def]
  have "0 < dec_stop_loss d" "0 < dec_take_profit d"
    using g assms(3) f64_not_le [of "dec_stop_loss d" 0] f64_not_le [of "dec_take_profit d" 0] assms(5,6) nz by auto
  then show "if is_long d then 0 < dec_stop_loss d \<and> dec_stop_loss d < dec_entry_price d \<and> dec_entry_price d < dec_take_profit d
      else 0 < dec_take_profit d \<and> dec_take_profit d < dec_entry_price d \<and> dec_entry_price d < dec_stop_loss d"
    using g assms(2-6) by (auto simp: is_long_def is_open_action_def f64_not_le)
  show "\<not> policy_reward (trim_space (dec_action d)) d / policy_risk (trim_space (dec_action d)) d + eps < rp_min_risk_reward rp"
    using g assms(3) by auto
qed

text \<open>C6. What an approved open guarantees, for a trader with valid risk parameters and a decision
  whose numbers are numbers: the order has a size within the cap, prices on the right sides
  and enough reward for its risk, confidence over the floor, a positive leverage within the cap of
  the symbol, a symbol on the whitelist that nobody holds and room for one more position; the day's
  loss is within its limit and the projected margin within its cap. Approving changes nothing
  in the manager.\<close>

theorem approved_open_sound:
  assumes "approve_decision getenv now tid d m = ((Inr ap, d'), m')"
    and "is_open_action (trim_space (dec_action d))" "lookup (mg_traders m) tid = Some t"
    and "risk_params_ok (tr_risk t)" "0 < rp_min_risk_reward (tr_risk t)"
    and "list_all (\<lambda>x. \<not> is_nan x) [dec_position_size d, dec_entry_price d, dec_stop_loss d, dec_take_profit d]"
  shows "m' = m \<and> d' = d\<lparr>dec_leverage := dec_leverage d'\<rparr> \<and> 0 < dec_position_size d \<and>
    (0 < rp_max_position_size (tr_risk t) \<longrightarrow> \<not> rp_max_position_size (tr_risk t) + micro < dec_position_size d) \<and>
    (if is_long d then 0 < dec_stop_loss d \<and> dec_stop_loss d < dec_entry_price d \<and> dec_entry_price d < dec_take_profit d
     else 0 < dec_take_profit d \<and> dec_take_profit d < dec_entry_price d \<and> dec_entry_price d < dec_stop_loss d) \<and>
    \<not> policy_reward (ap_action ap) d / policy_risk (ap_action ap) d + eps < rp_min_risk_reward (tr_risk t) \<and>
    (0 < rp_min_confidence (tr_risk t) \<longrightarrow> rp_min_confidence (tr_risk t) \<le> dec_confidence d) \<and>
    0 < dec_leverage d' \<and> dec_leverage d' \<le> policy_leverage_cap (tr_risk t) (norm_symbol (dec_symbol d)) \<and>
    enforce_allowed_symbol (rp_allowed_symbols (tr_risk t)) (dec_symbol d) = None \<and>
    ensure_symbol_available tid (dec_symbol d) m = None \<and>
    int (length (tr_positions t)) < rp_max_positions (tr_risk t) \<and>
    enforce_daily_loss_limit t now = None \<and> enforce_secondary_risk t d' (dec_leverage d') = None"
proof -
  obtain ap_eq: "ap = issue_token now t d'" and open_ok: "approve_open now tid t d m = ((None, d'), m')"
    using approve_cases [OF assms(1)] assms(2,3) by (metis option.inject)
  note o = approve_open_None [OF open_ok assms(3)]
  have eg: "\<not> dec_position_size d \<le> 0" "enforce_open_decision_price_guards (tr_risk t) d = None"
    "0 < rp_min_confidence (tr_risk t) \<longrightarrow> rp_min_confidence (tr_risk t) \<le> dec_confidence d"
    "0 < rp_max_position_size (tr_risk t) \<longrightarrow> \<not> rp_max_position_size (tr_risk t) + micro < dec_position_size d"
    using o(3) by (auto simp: entry_guards_def Let_def first_error_None guards_None wrap_policy_def split: if_splits)
  have act: "ap_action ap = trim_space (dec_action d)" by (simp add: ap_eq issue_token_def Let_def o(2))
  have cap: "0 < policy_leverage_cap (tr_risk t) s" for s
    using assms(4) by (simp add: policy_leverage_cap_def risk_params_ok_def)
  have avail: "ensure_symbol_available tid (dec_symbol d) m = None"
    using o(5) assms(3) by (simp add: ensure_symbol_available_def Let_def split: if_splits)
  note pg = price_guards_None [OF eg(2) assms(2,5)]
  show ?thesis
  proof (intro conjI)
    show "0 < dec_position_size d" using eg(1) assms(6) by (simp add: f64_not_le) (simp add: zero_f64_def)
    show "0 < dec_leverage d'" "dec_leverage d' \<le> policy_leverage_cap (tr_risk t) (norm_symbol (dec_symbol d))"
      using o(2,4) cap by (auto simp: not_le)
    show "int (length (tr_positions t)) < rp_max_positions (tr_risk t)"
      using o(6) assms(3,4) by (simp add: enforce_position_capacity_def risk_params_ok_def not_le split: if_splits)
    show "d' = d\<lparr>dec_leverage := dec_leverage d'\<rparr>" by (subst (1 2) o(2)) simp
  qed (use o eg avail pg assms(6) in \<open>simp_all add: act\<close>)
qed

text \<open>C7. A trade is approved only on the kind of venue its mode names: paper trades go to a paper or
  simulated exchange, testnet trades to a testnet, and live trades need the three
  environment switches, outside continuous integration.\<close>

theorem execution_mode_gate:
  assumes "approve_decision getenv now tid d m = ((Inr ap, d'), m')" "lookup (mg_traders m) tid = Some t"
    and "is_open_action (trim_space (dec_action d)) \<or> is_close_action (trim_space (dec_action d))"
    and "mode = normalize_execution_mode (tr_execution_mode t) (tr_exchange t)"
  shows "mode = mode_paper \<and> is_paper_execution_target t \<or> mode = mode_testnet \<and> is_testnet_execution_target t \<or>
    mode = mode_live \<and> to_lower (trim_space (tr_execution_mode t)) = mode_live \<and> getenv ''CI'' = '''' \<and>
      truthy_env (getenv ''ASTRAQUANT_ALLOW_LIVE_TRADING'') \<and>
      getenv ''ASTRAQUANT_LIVE_TRADING_ACK'' = ''I_UNDERSTAND_THIS_CAN_LOSE_MONEY''"
proof -
  have ok: "enforce_execution_mode getenv t = None"
    using approve_cases [OF assms(1)] assms(2,3) by (metis option.inject)
  consider "mode = mode_paper" | "mode = mode_testnet" | "mode = mode_live"
    | "mode \<notin> {mode_paper, mode_testnet, mode_live}" by blast
  then show ?thesis
  proof cases
    case 3
    then have "to_lower (trim_space (tr_execution_mode t)) = mode_live"
      using assms(4) by (simp add: normalize_execution_mode_def Let_def split: if_splits)
    then show ?thesis using ok 3 assms(4) by (simp add: enforce_execution_mode_def guards_None)
  qed (use ok assms(4) in \<open>auto simp: enforce_execution_mode_def split: if_splits\<close>)
qed

text \<open>A token opens the way for the decision it was issued for and no other: it is accepted up to thirty
  seconds after it was issued, for the same trader, action, symbol and leverage and, up to a
  millionth of a dollar, the same size.\<close>

theorem token_authorizes_one:
  assumes "approve_decision getenv now tid d m = ((Inr ap, d'), m')" "lookup (mg_traders m) tid = Some t"
  shows "(token_validate later (Some ap) (Some t2) d2 = None \<longleftrightarrow>
      later \<le> now + 30 * second \<and> tr_id t2 = tr_id t \<and> trim_space (dec_action d2) = trim_space (dec_action d') \<and>
      norm_symbol (dec_symbol d2) = norm_symbol (dec_symbol d') \<and> dec_leverage d2 = dec_leverage d' \<and>
      \<not> micro < abs_float (dec_position_size d' - dec_position_size d2)) \<and>
    (later \<le> now + 30 * second \<longrightarrow> token_validate later (Some ap) (Some t) d' = None)"
proof -
  have ap: "ap = issue_token now t d'"
    using approve_cases [OF assms(1)] assms(2) by (metis option.inject)
  have zero: "abs_float (x - x) = (if x = NaN \<or> is_inf x then NaN else 0)" for x :: f64
    by (cases x) (auto simp: abs_float_def f64_ops)
  have "\<not> micro < 0" by code_simp
  then have diff: "\<not> micro < abs_float (x - x)" for x by (simp add: zero)
  show ?thesis
    by (auto simp: token_validate_def ap issue_token_def Let_def guards_None approval_token_ttl_def diff)
qed

subsection \<open>The policy and the book\<close>

lemma trip_traders:
  "lookup (mg_traders (trip_risk_circuit_breaker now tid reason m)) j =
    (case lookup (mg_traders m) tid of None \<Rightarrow> lookup (mg_traders m) j
     | Some t \<Rightarrow> if j = tr_id t then Some (trip_circuit now reason t) else lookup (mg_traders m) j)"
  by (auto simp: trip_risk_circuit_breaker_def Let_def trip_circuit_def split: option.splits)

lemma trip_owners [simp]: "mg_owners (trip_risk_circuit_breaker now tid reason m) = mg_owners m"
  by (simp add: trip_risk_circuit_breaker_def Let_def split: option.splits)

lemma trip_frame [simp]: "tr_id (trip_circuit now reason t) = tr_id t" "tr_positions (trip_circuit now reason t) = tr_positions t"
  by (simp_all add: trip_circuit_def Let_def)

lemma trip_book_inv [inv_intros]:
  assumes "book_inv m" shows "book_inv (trip_risk_circuit_breaker now tid reason m)"
proof (cases "lookup (mg_traders m) tid")
  case (Some t)
  have "book_inv (set_trader (trip_circuit now reason t) m)"
    using assms Some registered(2) [OF assms Some] by (intro book_inv_set_trader) auto
  then show ?thesis using Some by (simp add: trip_risk_circuit_breaker_def Let_def book_inv_def)
qed (simp add: trip_risk_circuit_breaker_def assms)

lemma trip_vpos [simp]:
  assumes "book_inv m" shows "vpos (trip_risk_circuit_breaker now tid reason m) i k = vpos m i k"
  using registered(2) [OF assms, of tid] by (auto simp: vpos_def trip_traders split: option.splits)

lemma approve_manager:
  assumes "approve_decision getenv now tid d m = (r, m')"
  shows "m' = m \<or> (\<exists>reason. m' = trip_risk_circuit_breaker now tid reason m)"
proof -
  have ao: "snd (approve_open now tid t d m) = m \<or>
      (\<exists>reason. snd (approve_open now tid t d m) = trip_risk_circuit_breaker now tid reason m)" for t
    unfolding approve_open_def Let_def enforce_open_risk_def by (auto split: option.splits)
  have "m' = m \<or> (\<exists>t. m' = snd (approve_open now tid t d m))"
    using assms by (auto simp: approve_decision_def Let_def split: option.splits if_splits prod.splits) (metis snd_conv)+
  then show ?thesis using ao by blast
qed

text \<open>The policy never moves a position: whether it approves or rejects, every trader holds what it
  held, the owner map is unchanged and the book stays consistent.\<close>

theorem policy_keeps_book:
  assumes "book_inv m" "approve_decision_with_audit getenv now tid d trace m = (r, m')"
  shows "book_inv m' \<and> mg_owners m' = mg_owners m \<and> (\<forall>i k. vpos m' i k = vpos m i k)"
proof -
  obtain r1 m1 where a: "approve_decision getenv now tid d m = (r1, m1)" by fastforce
  have same: "mg_traders m' = mg_traders m1" "mg_owners m' = mg_owners m1"
    using assms(2) by (auto simp: approve_decision_with_audit_def a split: sum.splits prod.splits)
  have "book_inv m1 \<and> mg_owners m1 = mg_owners m \<and> (\<forall>i k. vpos m1 i k = vpos m i k)"
    using approve_manager [OF a] assms(1) by (auto intro: trip_book_inv)
  moreover have "book_inv m' = book_inv m1" using same by (rule book_inv_cong)
  moreover have "vpos m' = vpos m1" using same(1) by (intro ext) (simp add: vpos_def)
  ultimately show ?thesis using same by simp
qed

subsection \<open>The daily loss limit\<close>

lemma micro_pos: "0 < micro" "\<not> is_nan micro" "\<not> is_inf micro"
  by code_simp+

lemma plus_finite_not_nan: "\<not> is_nan x \<Longrightarrow> \<not> is_nan y \<Longrightarrow> \<not> is_inf y \<Longrightarrow> \<not> is_nan (x + y)"
  by (cases x; cases y) (auto simp: plus_f64_def)

lemmas plus_micro_not_nan = plus_finite_not_nan [OF _ micro_pos(2,3)]

lemma positive_min_le:
  assumes "0 < a" "limit = positive_min [a, b]"
  shows "0 < limit" "limit \<le> a"
proof -
  have "\<not> a \<le> 0" "\<not> is_nan a" using assms(1) f64_le_not_less f64_pos_not_nan by blast+
  moreover have "\<not> feq a 0" using assms(1) by (cases a) (auto simp: zero_f64_def)
  moreover have "b \<le> 0 \<or> 0 < b \<or> is_nan b" using f64_not_le [of b 0] by (auto simp: zero_f64_def)
  ultimately show "0 < limit" "limit \<le> a"
    using assms by (auto simp: positive_min_def f64_le_refl f64_less_imp_le dest: f64_pos_not_nan)
qed

lemma loss_over_limit:
  assumes "0 < rp_max_daily_loss_usd (tr_risk t)" "same_utc_date (dr_updated_at (tr_daily t)) now"
    and "0 < dr_start_equity (tr_daily t)" "0 < dr_last_equity (tr_daily t)"
    and "rp_max_daily_loss_usd (tr_risk t) + micro < dr_start_equity (tr_daily t) - dr_last_equity (tr_daily t)"
  shows "enforce_daily_loss_limit t now \<noteq> None"
proof -
  let ?u = "rp_max_daily_loss_usd (tr_risk t)" and ?s = "dr_start_equity (tr_daily t)" and ?c = "dr_last_equity (tr_daily t)"
  define limit where "limit = positive_min [?u, ?s * (rp_max_daily_loss_pct (tr_risk t) / lit 100)]"
  note lim = positive_min_le [OF assms(1) limit_def]
  have nn: "\<not> is_nan limit" "\<not> is_nan ?u" using f64_pos_not_nan [OF lim(1)] f64_pos_not_nan [OF assms(1)] by simp_all
  have "limit + micro \<le> ?u + micro"
    using lim(2) plus_micro_not_nan nn by (intro f64_add_mono)
  then have over: "limit + micro < ?s - ?c" using assms(5) f64_le_less_trans by blast
  have "0 + micro \<le> limit + micro"
    using lim(1) plus_micro_not_nan nn by (intro f64_add_mono) (auto simp: f64_less_imp_le zero_f64_def)
  moreover have "0 \<le> 0 + micro" by code_simp
  ultimately have "0 < ?s - ?c" using over f64_le_trans f64_le_less_trans by blast
  then show ?thesis
    using assms(1-4) over lim f64_le_not_less
    by (auto simp: enforce_daily_loss_limit_def Let_def limit_def [symmetric])
qed

text \<open>When the equity of a trader has fallen since the start of the day by more than its limit in
  dollars, the next open the whitelist lets through is refused and trips the breaker: the trader
  is paused with its circuit blocked, the new state is handed to the runtime repository, and no
  other trader changes.\<close>

theorem daily_loss_trips:
  assumes "0 < rp_max_daily_loss_usd (tr_risk t)" "same_utc_date (dr_updated_at (tr_daily t)) now"
    and "0 < dr_start_equity (tr_daily t)" "0 < dr_last_equity (tr_daily t)"
    and "rp_max_daily_loss_usd (tr_risk t) + micro < dr_start_equity (tr_daily t) - dr_last_equity (tr_daily t)"
    and "lookup (mg_traders m) tid = Some t" "tr_id t = tid"
    and "enforce_allowed_symbol (rp_allowed_symbols (tr_risk t)) (dec_symbol d) = None"
    and "enforce_open_risk now tid d lev m = (r, m')"
  shows "r \<noteq> None \<and> (\<exists>t'. lookup (mg_traders m') tid = Some t' \<and> rc_blocked (tr_circuit t') \<and> tr_state t' = TraderPaused \<and>
      \<not> should_make_decision later t' \<and> (mg_runtime m \<longrightarrow> last (mg_states m') = runtime_record_of now t')) \<and>
    (j \<noteq> tid \<longrightarrow> lookup (mg_traders m') j = lookup (mg_traders m) j)"
proof -
  obtain e where e: "enforce_daily_loss_limit t now = Some e"
    using loss_over_limit [OF assms(1-5)] by blast
  let ?t' = "trip_circuit now (error_text (daily_loss_goerror e)) t"
  have m': "m' = persist_runtime_state now ?t' (set_trader ?t' m)" and r: "r \<noteq> None"
    using assms(6,8,9) e by (auto simp: enforce_open_risk_def trip_risk_circuit_breaker_def Let_def)
  have "rc_blocked (tr_circuit ?t') \<and> tr_state ?t' = TraderPaused"
    by (simp add: trip_circuit_def Let_def)
  then show ?thesis using r assms(7)
    by (auto simp: m' should_make_decision_def persist_runtime_state_def)
qed

subsection \<open>Examples\<close>

definition eth_open :: decision where
  "eth_open = demo_open\<lparr>dec_symbol := ''eth'', dec_leverage := 0\<rparr>"

definition no_env :: "string \<Rightarrow> string" where "no_env v = ''''"

definition eth_token :: approval_token where
  "eth_token = issue_token 9 (demo_trader\<lparr>tr_id := ''beta''\<rparr>) (eth_open\<lparr>dec_leverage := 10\<rparr>)"

lemma eth_approved:
  "approve_decision no_env 9 ''beta'' eth_open demo_manager = ((Inr eth_token, eth_open\<lparr>dec_leverage := 10\<rparr>), demo_manager)"
  by code_simp

lemma beta_registered: "lookup (mg_traders demo_manager) ''beta'' = Some (demo_trader\<lparr>tr_id := ''beta''\<rparr>)"
  by code_simp

theorem approved_open_sound_witness:
  "ensure_symbol_available ''beta'' ''eth'' demo_manager = None \<and> dec_stop_loss eth_open < dec_entry_price eth_open"
proof -
  have "is_open_action (trim_space (dec_action eth_open))" "risk_params_ok (tr_risk (demo_trader\<lparr>tr_id := ''beta''\<rparr>))"
    "0 < rp_min_risk_reward (tr_risk (demo_trader\<lparr>tr_id := ''beta''\<rparr>))"
    "list_all (\<lambda>x. \<not> is_nan x) [dec_position_size eth_open, dec_entry_price eth_open, dec_stop_loss eth_open, dec_take_profit eth_open]"
    "is_long eth_open" "dec_symbol eth_open = ''eth''"
    by code_simp+
  with approved_open_sound [OF eth_approved this(1) beta_registered this(2-4)] show ?thesis by simp
qed

theorem execution_mode_gate_witness:
  "is_paper_execution_target (demo_trader\<lparr>tr_id := ''beta''\<rparr>)"
proof -
  have "is_open_action (trim_space (dec_action eth_open)) \<or> is_close_action (trim_space (dec_action eth_open))"
    "normalize_execution_mode (tr_execution_mode (demo_trader\<lparr>tr_id := ''beta''\<rparr>)) (tr_exchange (demo_trader\<lparr>tr_id := ''beta''\<rparr>)) = mode_paper"
    by code_simp+
  with execution_mode_gate [OF eth_approved beta_registered this(1) refl] show ?thesis by simp
qed

theorem token_authorizes_one_witness:
  "token_validate (20 * second) (Some eth_token) (Some (demo_trader\<lparr>tr_id := ''beta''\<rparr>)) (eth_open\<lparr>dec_leverage := 10\<rparr>) = None"
proof -
  have "20 * second \<le> 9 + 30 * second" by code_simp
  with token_authorizes_one [OF eth_approved beta_registered] show ?thesis by blast
qed

theorem policy_keeps_book_witness:
  "vpos (snd (approve_decision_with_audit no_env 9 ''alpha'' eth_open
     \<lparr>at_cycle_id = 1, at_correlation_id = ''c'', at_prompt_digest = ''''\<rparr> demo_manager)) ''alpha'' ''BTC'' \<noteq> None"
proof -
  have "vpos demo_manager ''alpha'' ''BTC'' \<noteq> None" by code_simp
  with policy_keeps_book [OF demo_manager_inv prod.collapse [symmetric]] show ?thesis by metis
qed

definition losing_trader :: trader where
  "losing_trader = demo_trader\<lparr>tr_daily := \<lparr>dr_date = ''1970-01-01'', dr_start_equity = lit 1000, dr_last_equity = lit 800, dr_updated_at = second\<rparr>\<rparr>"

theorem daily_loss_trips_witness:
  "fst (enforce_open_risk minute ''alpha'' eth_open 5 (set_trader losing_trader demo_manager)) \<noteq> None \<and>
   (\<exists>t. lookup (mg_traders (snd (enforce_open_risk minute ''alpha'' eth_open 5 (set_trader losing_trader demo_manager)))) ''alpha'' = Some t \<and>
     rc_blocked (tr_circuit t))"
proof -
  have "0 < rp_max_daily_loss_usd (tr_risk losing_trader)" "same_utc_date (dr_updated_at (tr_daily losing_trader)) minute"
    "0 < dr_start_equity (tr_daily losing_trader)" "0 < dr_last_equity (tr_daily losing_trader)"
    "rp_max_daily_loss_usd (tr_risk losing_trader) + micro < dr_start_equity (tr_daily losing_trader) - dr_last_equity (tr_daily losing_trader)"
    "lookup (mg_traders (set_trader losing_trader demo_manager)) ''alpha'' = Some losing_trader" "tr_id losing_trader = ''alpha''"
    "enforce_allowed_symbol (rp_allowed_symbols (tr_risk losing_trader)) (dec_symbol eth_open) = None"
    by code_simp+
  from daily_loss_trips [OF this prod.collapse [symmetric]] show ?thesis by blast
qed

end
