(* ===== verification/Execution.thy ===== *)
theory Execution
  imports Policy Market Exchange "HOL-Library.Sublist"
begin

text \<open>
  Execution of an approved decision (\<open>pkg/manager/manager.go\<close>): reading the exchange's answers,
  the synchronisation of a trader with its account, the reconciliation of the virtual book
  with the exchange, and \<open>executeDecisionWithApproval\<close> itself. The exchange is a provider \<open>P\<close> over
  a world \<open>'w\<close>, the market a source of snapshots, and the SHA-256 digest of the client order
  identifier a parameter. Each operation reads the clock once. A dereference of a \<open>nil\<close> snapshot is
  the error \<open>nil_panic\<close>.

  The client lemmas of an exchange are proved in the locale \<open>trading_account\<close>: nothing but a submitted
  order touches the account, and an order is submitted only under a valid token, after the
  account has been synchronised and the hard checks have passed again. The book of the other traders is never touched, and
  a reconciliation that succeeds leaves the virtual book matching the exchange.
\<close>

subsection \<open>Reading the exchange\<close>

definition parse_num :: "string \<Rightarrow> f64" where
  "parse_num s = (if s = '''' then 0 else case parse_float s of (v, ok) \<Rightarrow> if ok then v else 0)"

definition parse_ptr_num :: "string option \<Rightarrow> f64" where
  "parse_ptr_num p = (case p of None \<Rightarrow> 0 | Some s \<Rightarrow> parse_num s)"

fun join_strings :: "string \<Rightarrow> string list \<Rightarrow> string" where
  "join_strings sep [] = ''''"
| "join_strings sep [s] = s"
| "join_strings sep (s # t # ts) = s @ sep @ join_strings sep (t # ts)"

definition status_line :: "nat \<times> order_status_response \<Rightarrow> string list" where
  "status_line = (\<lambda>(i, st).
     if st_error st \<noteq> '''' then [''['' @ itoa (int i) @ '']error='' @ st_error st]
     else (case st_filled st of
       Some f \<Rightarrow> [''['' @ itoa (int i) @ '']filled oid='' @ itoa (fo_oid f) @ '' total_sz='' @ fo_total_sz f @ '' avg_px='' @ fo_avg_px f]
     | None \<Rightarrow> (case st_resting st of
         Some oid \<Rightarrow> [''['' @ itoa (int i) @ '']resting oid='' @ itoa oid]
       | None \<Rightarrow> [])))"

definition summarize_order_response :: "order_response option \<Rightarrow> string" where
  "summarize_order_response resp = (case resp of
     None \<Rightarrow> ''status=<nil>''
   | Some r \<Rightarrow>
     let details = concat (map status_line (enumerate 0 (or_statuses r))) @
           (if or_error_message r \<noteq> '''' then [''message='' @ or_error_message r] else []);
         joined = join_strings ''; '' details;
         summary = (if trim_space joined = '''' then ''no_status'' else joined);
         status = trim_space (or_status r)
     in if status = '''' then summary else ''status='' @ status @ '' '' @ summary)"

definition order_response_failure :: "order_response option \<Rightarrow> goerror option" where
  "order_response_failure resp = (case resp of
     None \<Rightarrow> Some (Errorf ''empty exchange order response'' [])
   | Some r \<Rightarrow>
     let status = to_lower (trim_space (or_status r)) in
     if status \<notin> {'''', ''ok'', ''success''}
     then (if trim_space (or_error_message r) \<noteq> ''''
           then Some (Errorf ''exchange response status %q: %s'' [or_status r, or_error_message r])
           else Some (Errorf ''exchange response status %q'' [or_status r]))
     else map_option (\<lambda>(i, st). Errorf ''exchange response status[%d] error: %s'' [itoa (int i), trim_space (st_error st)])
       (find (\<lambda>(i, st). trim_space (st_error st) \<noteq> '''') (enumerate 0 (or_statuses r))))"

text \<open>The fill a response reports: the price and the quantity carry over from one status to the next
  until one of them is positive.\<close>

fun order_fill_from :: "f64 \<Rightarrow> f64 \<Rightarrow> order_status_response list \<Rightarrow> (f64 \<times> f64) option" where
  "order_fill_from price qty [] = None"
| "order_fill_from price qty (st # sts) = (case st_filled st of
     None \<Rightarrow> order_fill_from price qty sts
   | Some f \<Rightarrow>
     let px = parse_float (trim_space (fo_avg_px f)); sz = parse_float (trim_space (fo_total_sz f));
         price' = (if snd px \<and> 0 < fst px then fst px else price);
         qty' = (if snd sz \<and> 0 < fst sz then fst sz else qty)
     in if 0 < price' \<or> 0 < qty' then Some (price', qty') else order_fill_from price' qty' sts)"

definition parse_order_fill :: "order_response option \<Rightarrow> (f64 \<times> f64) option" where
  "parse_order_fill resp = (case resp of None \<Rightarrow> None | Some r \<Rightarrow> order_fill_from 0 0 (or_statuses r))"

definition zero_vp :: virtual_position where
  "zero_vp = \<lparr>vp_symbol = '''', vp_side = '''', vp_quantity = 0, vp_notional = 0, vp_entry_price = 0, vp_leverage = 0,
     vp_opened_at = zero_time, vp_updated_at = zero_time\<rparr>"

definition exchange_position_to_virtual :: "position \<Rightarrow> virtual_position \<times> bool" where
  "exchange_position_to_virtual p =
    (let signed = parse_num (pos_szi p); qty = \<bar>signed\<bar>; value = parse_num (pos_value p);
         entry0 = parse_ptr_num (pos_entry_px p);
         entry = (if entry0 \<le> 0 \<and> 0 < qty \<and> 0 < value then value / qty else entry0)
     in if feq signed 0 then (zero_vp, False)
        else (\<lparr>vp_symbol = pos_coin p, vp_side = (if signed < 0 then ''short'' else ''long''), vp_quantity = qty,
               vp_notional = (if 0 < entry then entry * qty else value), vp_entry_price = entry,
               vp_leverage = lev_value (pos_leverage p), vp_opened_at = zero_time, vp_updated_at = zero_time\<rparr>, True))"

subsection \<open>Reconciliation\<close>

text \<open>The order in which Go ranges over the two maps of a reconciliation.\<close>

record reconcile_iter =
  ri_virtual :: "(string \<times> virtual_position) list \<Rightarrow> (string \<times> virtual_position) list"
  ri_actual :: "(string \<times> position) list \<Rightarrow> (string \<times> position) list"

definition add_actual :: "position \<Rightarrow> (string, position) gomap \<Rightarrow> (string, position) gomap" where
  "add_actual p m = (if feq (parse_num (pos_szi p)) 0 then m else put (norm_symbol (pos_coin p)) p m)"

definition actual_positions :: "position list \<Rightarrow> (string, position) gomap" where
  "actual_positions ps = fold add_actual ps []"

definition position_tolerance :: f64 where "position_tolerance = micro"

fun reconcile_virtual ::
  "string \<Rightarrow> (string, position) gomap \<Rightarrow> (string \<times> virtual_position) list \<Rightarrow> manager \<Rightarrow> goerror option \<times> manager" where
  "reconcile_virtual tid actual [] m = (None, m)"
| "reconcile_virtual tid actual ((s, v) # vs) m = (case lookup actual s of
     None \<Rightarrow> reconcile_virtual tid actual vs (release_virtual_position tid s m)
   | Some p \<Rightarrow>
     let vp = fst (exchange_position_to_virtual p) in
     if vp_symbol vp = '''' then reconcile_virtual tid actual vs m
     else if vp_side v \<noteq> vp_side vp \<or> position_tolerance < \<bar>vp_quantity v - vp_quantity vp\<bar>
     then (Some (Errorf ''manager: position mismatch %s (virtual %.6f %s vs exchange %.6f %s)''
        [s, format_fixed 6 (vp_quantity v), vp_side v, format_fixed 6 (vp_quantity vp), vp_side vp]), m)
     else reconcile_virtual tid actual vs m)"

fun reconcile_actual ::
  "time \<Rightarrow> string \<Rightarrow> (string, virtual_position) gomap \<Rightarrow> (string \<times> position) list \<Rightarrow> manager \<Rightarrow> goerror option \<times> manager" where
  "reconcile_actual now tid virtual [] m = (None, m)"
| "reconcile_actual now tid virtual ((s, p) # ps) m =
    (let owner = get_position_owner m s in case exchange_position_to_virtual p of (vp, ok) \<Rightarrow>
     if \<not> ok then reconcile_actual now tid virtual ps m
     else if owner \<noteq> '''' \<and> owner \<noteq> tid then reconcile_actual now tid virtual ps m
     else if owner = '''' \<or> lookup virtual s = None
     then (case assign_virtual_position now tid vp m of
         (Some e, m1) \<Rightarrow> (Some e, m1)
       | (None, m1) \<Rightarrow> reconcile_actual now tid virtual ps m1)
     else reconcile_actual now tid virtual ps m)"

definition reconcile_trader_positions ::
  "'w provider \<Rightarrow> reconcile_iter \<Rightarrow> time \<Rightarrow> string \<Rightarrow> manager \<Rightarrow> 'w \<Rightarrow> (goerror option \<times> manager) \<times> 'w" where
  "reconcile_trader_positions P it now tid m w = (case lookup (mg_traders m) tid of
     None \<Rightarrow> ((Some (Errorf ''manager: reconcile trader %s not found'' [tid]), m), w)
   | Some t \<Rightarrow> (case pv_get_positions P w of
       (Inl e, w1) \<Rightarrow> ((Some (Wrapf ''manager: fetch positions for trader %s: %w'' [tid] e), m), w1)
     | (Inr raw, w1) \<Rightarrow>
       let actual = actual_positions raw; virtual = snapshot_virtual_positions tid m in
       (case reconcile_virtual tid actual (ri_virtual it virtual) m of
          (Some e, m1) \<Rightarrow> ((Some e, m1), w1)
        | (None, m1) \<Rightarrow> (reconcile_actual now tid virtual (ri_actual it actual) m1, w1))))"

definition analytics_of :: "trader \<Rightarrow> performance_metrics \<Rightarrow> analytics_snapshot" where
  "analytics_of t p = \<lparr>an_trader_id = tr_id t, an_total_pnl = pm_total_pnl p, an_total_pnl_pct = pm_total_pnl_pct p,
     an_sharpe = pm_sharpe p, an_win_rate = pm_win_rate p, an_total_trades = pm_total_trades p,
     an_max_drawdown_pct = pm_max_drawdown_pct p, an_updated_at = pm_updated_at p\<rparr>"

text \<open>What a synchronisation writes and reports before it reconciles.\<close>

definition record_sync :: "time \<Rightarrow> string \<Rightarrow> account_state \<Rightarrow> trader \<Rightarrow> manager \<Rightarrow> manager" where
  "record_sync now tid acct t m =
    (let equity = parse_num (ms_account_value (as_margin acct));
         margin = parse_num (ms_total_margin_used (as_margin acct));
         unreal = foldl (\<lambda>s p. s + parse_num (pos_unrealized p)) 0 (as_positions acct);
         t1 = sync_account now equity margin unreal t;
         m1 = record_account_snapshot now \<lparr>sn_trader_id = tid, sn_equity = equity, sn_margin_used = margin,
                sn_available = ra_available (tr_alloc t1), sn_unrealized = unreal, sn_synced_at = now\<rparr> (set_trader t1 m);
         m2 = (case tr_performance t1 of None \<Rightarrow> m1 | Some p \<Rightarrow> record_analytics (analytics_of t1 p) m1)
     in persist_runtime_state now t1 m2)"

definition sync_trader_positions ::
  "'w provider \<Rightarrow> reconcile_iter \<Rightarrow> time \<Rightarrow> string \<Rightarrow> manager \<Rightarrow> 'w \<Rightarrow> (goerror option \<times> manager) \<times> 'w" where
  "sync_trader_positions P it now tid m w = (case lookup (mg_traders m) tid of
     None \<Rightarrow> ((Some (Errorf ''manager: sync positions: trader %s not found'' [tid]), m), w)
   | Some t \<Rightarrow> (case pv_get_account_state P w of
       (Inl e, w1) \<Rightarrow> ((Some e, m), w1)
     | (Inr acct, w1) \<Rightarrow> reconcile_trader_positions P it now tid (record_sync now tid acct t m) w1))"

subsection \<open>Execution\<close>

text \<open>The time layout \<open>20060102T1504\<close> and the client order identifier; \<open>sha\<close> gives the SHA-256 digest of a
  text as bytes.\<close>

definition format_minute :: "time \<Rightarrow> string" where
  "format_minute t = (case civil_date (utc_day t) of (y, m, d) \<Rightarrow> let mins = (t mod day_length) div minute in
     pad_int 4 y @ pad_int 2 m @ pad_int 2 d @ ''T'' @ pad_int 2 (mins div 60) @ pad_int 2 (mins mod 60))"

definition hex_digit :: "int \<Rightarrow> char" where
  "hex_digit n = (if n < 10 then digit_char n else char_of (87 + nat n))"

definition hex_encode :: "int list \<Rightarrow> string" where
  "hex_encode bs = concat (map (\<lambda>b. [hex_digit (b div 16), hex_digit (b mod 16)]) bs)"

definition build_cloid :: "(string \<Rightarrow> int list) \<Rightarrow> string \<Rightarrow> string \<Rightarrow> string \<Rightarrow> f64 \<Rightarrow> time \<Rightarrow> string" where
  "build_cloid sha tid symbol action qty now =
    ''0x'' @ hex_encode (take 16 (sha (tid @ ''|'' @ to_upper symbol @ ''|'' @ action @ ''|'' @
      format_fixed 6 qty @ ''|'' @ format_minute now)))"

definition nil_panic :: goerror where
  "nil_panic = Errorf ''runtime error: invalid memory address or nil pointer dereference'' []"

text \<open>The checks of an open before anything is sent: the symbol is free, the account is synchronised,
  and the symbol is still free and there is room.\<close>

definition pre_open ::
  "'w provider \<Rightarrow> reconcile_iter \<Rightarrow> time \<Rightarrow> string \<Rightarrow> decision \<Rightarrow> audit_trace \<Rightarrow> approval_token \<Rightarrow> manager \<Rightarrow> 'w \<Rightarrow>
   (goerror option \<times> manager) \<times> 'w" where
  "pre_open P it now tid d trace ap m w = (case ensure_symbol_available tid (dec_symbol d) m of
     Some e \<Rightarrow> ((Some e, m), w)
   | None \<Rightarrow> (case sync_trader_positions P it now tid m w of
       ((Some e, m1), w1) \<Rightarrow>
         let wrapped = Wrapf ''manager: sync trader %s before execution: %w'' [tid] e in
         ((Some wrapped, record_audit_decision_event now PolicyRejected (lookup (mg_traders m1) tid) (Some d) trace (Some ap)
            ''pre_submit_account_sync_failed'' (Some wrapped) [(''checks'', DTexts (ap_checks ap))] m1), w1)
     | ((None, m1), w1) \<Rightarrow>
         ((first_error [ensure_symbol_available tid (dec_symbol d) m1, enforce_position_capacity tid m1], m1), w1)))"

definition close_mark :: "'w provider \<Rightarrow> snapshot_source \<Rightarrow> string \<Rightarrow> 'w \<Rightarrow> f64 \<times> 'w" where
  "close_mark P snap symbol w = (case pv_set_mark_price P of
     None \<Rightarrow> (0, w)
   | Some f \<Rightarrow> (case snap symbol of
       Inr (Some s) \<Rightarrow> if 0 < sn_price_last s then (sn_price_last s, snd (f symbol (sn_price_last s) w)) else (0, w)
     | _ \<Rightarrow> (0, w)))"

definition cancel_orders :: "'w provider \<Rightarrow> string \<Rightarrow> 'w \<Rightarrow> 'w" where
  "cancel_orders P symbol w = (case pv_cancel_all P of None \<Rightarrow> w | Some g \<Rightarrow> snd (g symbol w))"

text \<open>The cooldown of a closed symbol, in the trader and in the runtime repository.\<close>

definition mark_cooldown :: "time \<Rightarrow> string \<Rightarrow> string \<Rightarrow> manager \<Rightarrow> manager" where
  "mark_cooldown now tid symbol m = (case lookup (mg_traders m) tid of
     None \<Rightarrow> m
   | Some t \<Rightarrow> let m1 = set_trader (t\<lparr>tr_cooldown := put symbol now (tr_cooldown t)\<rparr>) m in
     if mg_runtime m \<and> 0 < eg_cooldown_after_close (tr_guards t)
     then m1\<lparr>mg_cooldowns := mg_cooldowns m1 @ [\<lparr>cd_trader_id = tr_id t, cd_symbol = to_upper symbol,
            cd_until = now + eg_cooldown_after_close (tr_guards t),
            cd_detail = \<lparr>cdd_reason = ''close_position'', cdd_consecutive_losses = 0, cdd_last_loss_pnl = 0,
              cdd_triggered_at = zero_time, cdd_last_closed = now\<rparr>\<rparr>]\<rparr>
     else m1)"

definition close_fill :: "order_response option \<Rightarrow> f64 \<Rightarrow> decision \<Rightarrow> f64 \<times> f64" where
  "close_fill resp mark d =
    (let (price, qty) = (case parse_order_fill resp of
           Some pq \<Rightarrow> pq
         | None \<Rightarrow> (if mark \<le> 0 then dec_entry_price d else mark, 0))
     in (price, if qty \<le> 0 \<and> 0 < price \<and> 0 < dec_position_size d then dec_position_size d / price else qty))"

definition execute_close ::
  "'w provider \<Rightarrow> snapshot_source \<Rightarrow> time \<Rightarrow> string \<Rightarrow> decision \<Rightarrow> audit_trace \<Rightarrow> approval_token \<Rightarrow> manager \<Rightarrow> 'w \<Rightarrow>
   (goerror option \<times> manager) \<times> 'w" where
  "execute_close P snap now tid d trace ap m w =
    (let trader = lookup (mg_traders m) tid in
     case close_mark P snap (dec_symbol d) w of (mark, w1) \<Rightarrow>
     case pv_close_position P (dec_symbol d) (cancel_orders P (dec_symbol d) w1) of
       (Inl e, w2) \<Rightarrow> ((Some e, record_order_failed now trader (Some d) trace (Some ap) ''close_position'' e [] m), w2)
     | (Inr resp, w2) \<Rightarrow> (case order_response_failure resp of
         Some e \<Rightarrow> ((Some (Wrapf ''manager: close position %s rejected by exchange response: %w'' [dec_symbol d] e),
           record_order_failed now trader (Some d) trace (Some ap) ''close_position_response_rejected'' e
             [(''response'', DText (summarize_order_response resp))] m), w2)
       | None \<Rightarrow>
         let m1 = record_order_submitted now trader (Some d) trace (Some ap) ''close_position''
               [(''response'', DText (summarize_order_response resp))] m;
             m2 = mark_cooldown now tid (dec_symbol d) m1;
             fill = close_fill resp mark d;
             m3 = record_position_event now \<lparr>pe_trader_id = tid, pe_decision = d, pe_event = PositionClose,
                 pe_response = resp, pe_occurred_at = now, pe_fill_price = fst fill, pe_fill_size = snd fill\<rparr> m2
         in ((None, release_virtual_position tid (dec_symbol d) m3), w2)))"

text \<open>Opening, until there is an order to send: the leverage, the hard checks on the synchronised
  account, the asset, the leverage on the exchange, the price and the quantity.\<close>

definition open_leverage :: "risk_parameters \<Rightarrow> decision \<Rightarrow> int" where
  "open_leverage rp d = (if dec_leverage d \<le> 0
     then (if is_btc_or_eth (dec_symbol d) then rp_major_leverage rp else rp_alt_leverage rp) else dec_leverage d)"

definition open_rejected ::
  "time \<Rightarrow> string \<Rightarrow> decision \<Rightarrow> audit_trace \<Rightarrow> approval_token \<Rightarrow> string \<Rightarrow> goerror \<Rightarrow> (string, detail_value) gomap \<Rightarrow>
   manager \<Rightarrow> manager" where
  "open_rejected now tid d trace ap reason e detail m =
    record_audit_decision_event now PolicyRejected (lookup (mg_traders m) tid) (Some d) trace (Some ap) reason (Some e) detail m"

definition prepare_asset ::
  "'w provider \<Rightarrow> time \<Rightarrow> string \<Rightarrow> decision \<Rightarrow> int \<Rightarrow> audit_trace \<Rightarrow> approval_token \<Rightarrow> manager \<Rightarrow> 'w \<Rightarrow>
   ((goerror + int) \<times> manager) \<times> 'w" where
  "prepare_asset P now tid d lev trace ap m w = (case pv_get_asset_index P (dec_symbol d) w of
     (Inl e, w1) \<Rightarrow>
       let wrapped = Wrapf ''manager: resolve asset index for %s: %w'' [dec_symbol d] e in
       ((Inl wrapped, open_rejected now tid d trace ap ''pre_submit_asset_resolution_failed'' wrapped
          [(''checks'', DTexts (ap_checks ap))] m), w1)
   | (Inr asset, w1) \<Rightarrow>
       if 0 < lev
       then (case pv_update_leverage P asset True lev w1 of
           (Inl e, w2) \<Rightarrow>
             let wrapped = Wrapf ''manager: update leverage for %s asset=%d leverage=%d: %w''
                   [dec_symbol d, itoa asset, itoa lev] e in
             ((Inl wrapped, open_rejected now tid d trace ap ''pre_submit_leverage_update_failed'' wrapped
                [(''asset'', DInt asset), (''checks'', DTexts (ap_checks ap)), (''leverage'', DInt lev)] m), w2)
         | (Inr _, w2) \<Rightarrow> ((Inr asset, m), w2))
       else ((Inr asset, m), w1))"

definition open_price :: "snapshot_source \<Rightarrow> decision \<Rightarrow> goerror + f64" where
  "open_price snap d =
    (let resolved = (if 0 < dec_entry_price d then Inr (dec_entry_price d)
       else (case snap (dec_symbol d) of
           Inl e \<Rightarrow> Inl (Wrapf ''manager: fetch market snapshot for %s: %w'' [dec_symbol d] e)
         | Inr None \<Rightarrow> Inl nil_panic
         | Inr (Some s) \<Rightarrow> Inr (sn_price_last s)))
     in case resolved of Inl e \<Rightarrow> Inl e
        | Inr px \<Rightarrow> if 0 < px then Inr px else Inl (Errorf ''manager: invalid price resolved for %s'' [dec_symbol d]))"

definition prepare_price ::
  "'w provider \<Rightarrow> snapshot_source \<Rightarrow> decision \<Rightarrow> 'w \<Rightarrow> (goerror + f64 \<times> f64) \<times> 'w" where
  "prepare_price P snap d w = (case open_price snap d of
     Inl e \<Rightarrow> (Inl e, w)
   | Inr px \<Rightarrow>
     let w1 = (case pv_set_mark_price P of None \<Rightarrow> w | Some f \<Rightarrow> snd (f (dec_symbol d) px w));
         qty = dec_position_size d / px
     in if qty \<le> 0 \<or> is_nan qty \<or> is_inf qty
        then (Inl (Errorf ''manager: invalid position size for %s: qty=%.6f'' [dec_symbol d, format_fixed 6 qty]), w1)
        else (Inr (px, qty), w1))"

text \<open>Sending the order, in the style of the trader.\<close>

definition market_slippage :: "trader \<Rightarrow> f64" where
  "market_slippage t = (let s = tr_slippage_bps t / lit 10000 in
     if s \<le> 0 then default_market_ioc_slippage_bps / lit 10000 else s)"

definition submit_market ::
  "'w provider \<Rightarrow> time \<Rightarrow> trader \<Rightarrow> decision \<Rightarrow> f64 \<Rightarrow> f64 \<Rightarrow> audit_trace \<Rightarrow> approval_token \<Rightarrow> manager \<Rightarrow> 'w \<Rightarrow>
   ((goerror + order_response option) \<times> manager) \<times> 'w" where
  "submit_market P now t d px qty trace ap m w = (case pv_ioc_market P of
     None \<Rightarrow> ((Inl (Errorf ''manager: trader %s order_style=market_ioc unsupported by exchange provider'' [tr_id t]), m), w)
   | Some k \<Rightarrow>
     let detail = [(''price'', DFloat px), (''quantity'', DFloat qty), (''slippage_bps'', DFloat (tr_slippage_bps t))] in
     (case k (dec_symbol d) (dec_action d = ''open_long'') qty (market_slippage t) False w of
        (Inl e, w1) \<Rightarrow> ((Inl (Wrapf ''manager: market_ioc order %s %s: %w'' [dec_symbol d, dec_action d] e),
          record_order_failed now (Some t) (Some d) trace (Some ap) ''market_ioc'' e detail m), w1)
      | (Inr resp, w1) \<Rightarrow> (case order_response_failure resp of
          Some e \<Rightarrow> ((Inl (Wrapf ''manager: market_ioc order %s %s rejected by exchange response: %w'' [dec_symbol d, dec_action d] e),
            record_order_failed now (Some t) (Some d) trace (Some ap) ''market_ioc_response_rejected'' e
              (detail @ [(''response'', DText (summarize_order_response resp))]) m), w1)
        | None \<Rightarrow> ((Inr resp, record_order_submitted now (Some t) (Some d) trace (Some ap) ''market_ioc''
              (detail @ [(''response'', DText (summarize_order_response resp))]) m), w1))))"

text \<open>The printed number: the provider's formatting, when it has one that succeeds.\<close>

definition printed ::
  "(string \<Rightarrow> f64 \<Rightarrow> 'w \<Rightarrow> (goerror + string) \<times> 'w) option \<Rightarrow> string \<Rightarrow> f64 \<Rightarrow> 'w \<Rightarrow> string \<times> 'w" where
  "printed fmt symbol x w = (case fmt of
     None \<Rightarrow> (format_fixed 8 x, w)
   | Some h \<Rightarrow> (case h symbol x w of
       (Inr s, w1) \<Rightarrow> (if s \<noteq> '''' then s else format_fixed 8 x, w1)
     | (Inl e, w1) \<Rightarrow> (format_fixed 8 x, w1)))"

definition limit_ioc_order :: "int \<Rightarrow> bool \<Rightarrow> string \<Rightarrow> string \<Rightarrow> string \<Rightarrow> order" where
  "limit_ioc_order asset is_buy px sz cloid = \<lparr>o_asset = asset, o_is_buy = is_buy, o_limit_px = px, o_sz = sz,
     o_reduce_only = False, o_type = \<lparr>ot_limit = Some \<lparr>lim_tif = ''Ioc''\<rparr>, ot_trigger = None\<rparr>, o_cloid = cloid,
     o_trigger_px = '''', o_trigger_rel = '''', o_grouping = '''', o_builder = None\<rparr>"

definition submit_limit ::
  "'w provider \<Rightarrow> (string \<Rightarrow> int list) \<Rightarrow> time \<Rightarrow> trader \<Rightarrow> decision \<Rightarrow> int \<Rightarrow> f64 \<Rightarrow> f64 \<Rightarrow> audit_trace \<Rightarrow> approval_token \<Rightarrow>
   manager \<Rightarrow> 'w \<Rightarrow> ((goerror + order_response option) \<times> manager) \<times> 'w" where
  "submit_limit P sha now t d asset px qty trace ap m w =
    (case printed (pv_format_price P) (dec_symbol d) px w of (px_text, w1) \<Rightarrow>
     case printed (pv_format_size P) (dec_symbol d) qty w1 of (sz_text, w2) \<Rightarrow>
     let cloid = build_cloid sha (tr_id t) (dec_symbol d) (dec_action d) qty now;
         ord = limit_ioc_order asset (dec_action d = ''open_long'') px_text sz_text cloid;
         detail = [(''asset'', DInt asset), (''price'', DText px_text), (''quantity'', DText sz_text), (''cloid'', DText cloid),
           (''reduce_only'', DFlag False)]
     in case pv_place_order P ord w2 of
        (Inl e, w3) \<Rightarrow> ((Inl (Wrapf ''manager: place order %s %s: %w'' [dec_symbol d, dec_action d] e),
          record_order_failed now (Some t) (Some d) trace (Some ap) ''limit_ioc'' e detail m), w3)
      | (Inr resp, w3) \<Rightarrow> (case order_response_failure resp of
          Some e \<Rightarrow> ((Inl (Wrapf ''manager: place order %s %s rejected by exchange response: %w'' [dec_symbol d, dec_action d] e),
            record_order_failed now (Some t) (Some d) trace (Some ap) ''limit_ioc_response_rejected'' e
              (detail @ [(''response'', DText (summarize_order_response resp))]) m), w3)
        | None \<Rightarrow> ((Inr resp, record_order_submitted now (Some t) (Some d) trace (Some ap) ''limit_ioc''
              (detail @ [(''response'', DText (summarize_order_response resp))]) m), w3)))"

definition submit_open ::
  "'w provider \<Rightarrow> (string \<Rightarrow> int list) \<Rightarrow> time \<Rightarrow> trader \<Rightarrow> decision \<Rightarrow> int \<Rightarrow> f64 \<Rightarrow> f64 \<Rightarrow> audit_trace \<Rightarrow> approval_token \<Rightarrow>
   manager \<Rightarrow> 'w \<Rightarrow> ((goerror + order_response option) \<times> manager) \<times> 'w" where
  "submit_open P sha now t d asset px qty trace ap m w =
    (if tr_order_style t = style_market_ioc then submit_market P now t d px qty trace ap m w
     else if tr_order_style t \<in> {style_limit_ioc, ''''} then submit_limit P sha now t d asset px qty trace ap m w
     else ((Inl (Errorf ''manager: trader %s unsupported order_style=%s'' [tr_id t, tr_order_style t]), m), w))"

text \<open>After the order: the protective orders, the position event and the virtual position.\<close>

definition protect :: "'w provider \<Rightarrow> decision \<Rightarrow> f64 \<Rightarrow> 'w \<Rightarrow> 'w" where
  "protect P d qty w = (let side = (if dec_action d = ''open_long'' then ''LONG'' else ''SHORT'') in
     case (pv_set_stop_loss P, pv_set_take_profit P) of
       (Some sl, Some tp) \<Rightarrow> snd (tp (dec_symbol d) side qty (dec_take_profit d) (snd (sl (dec_symbol d) side qty (dec_stop_loss d) w)))
     | _ \<Rightarrow> w)"

definition open_fill :: "order_response option \<Rightarrow> f64 \<Rightarrow> f64 \<Rightarrow> f64 \<times> f64" where
  "open_fill resp px qty =
    (let (fp, fq) = (case parse_order_fill resp of
           Some (p, q) \<Rightarrow> (if 0 < p then p else px, if 0 < q then q else qty)
         | None \<Rightarrow> (px, qty))
     in (if fp \<le> 0 then px else fp, if fq \<le> 0 then qty else fq))"

definition opened_position :: "decision \<Rightarrow> f64 \<times> f64 \<Rightarrow> virtual_position" where
  "opened_position d fill = \<lparr>vp_symbol = dec_symbol d, vp_side = (if dec_action d = ''open_long'' then ''long'' else ''short''),
     vp_quantity = snd fill, vp_notional = snd fill * fst fill, vp_entry_price = fst fill, vp_leverage = dec_leverage d,
     vp_opened_at = zero_time, vp_updated_at = zero_time\<rparr>"

definition book_open :: "time \<Rightarrow> string \<Rightarrow> decision \<Rightarrow> order_response option \<Rightarrow> f64 \<Rightarrow> f64 \<Rightarrow> manager \<Rightarrow> goerror option \<times> manager" where
  "book_open now tid d resp px qty m =
    (let fill = open_fill resp px qty;
         m1 = record_position_event now \<lparr>pe_trader_id = tid, pe_decision = d, pe_event = PositionOpen, pe_response = resp,
                pe_occurred_at = now, pe_fill_price = fst fill, pe_fill_size = snd fill\<rparr> m
     in if 0 < snd fill then assign_virtual_position now tid (opened_position d fill) m1 else (None, m1))"

definition execute_open ::
  "'w provider \<Rightarrow> snapshot_source \<Rightarrow> (string \<Rightarrow> int list) \<Rightarrow> time \<Rightarrow> string \<Rightarrow> decision \<Rightarrow> audit_trace \<Rightarrow> approval_token \<Rightarrow>
   manager \<Rightarrow> 'w \<Rightarrow> (goerror option \<times> manager) \<times> 'w" where
  "execute_open P snap sha now tid d trace ap m w = (case enforce_open_risk now tid d (dec_leverage d) m of
     (Some e, m1) \<Rightarrow> ((Some e, open_rejected now tid d trace ap ''pre_submit_risk_rejected'' e
        [(''checks'', DTexts (ap_checks ap))] m1), w)
   | (None, m1) \<Rightarrow> (case prepare_asset P now tid d (dec_leverage d) trace ap m1 w of
       ((Inl e, m2), w1) \<Rightarrow> ((Some e, m2), w1)
     | ((Inr asset, m2), w1) \<Rightarrow> (case prepare_price P snap d w1 of
         (Inl e, w2) \<Rightarrow> ((Some e, m2), w2)
       | (Inr (px, qty), w2) \<Rightarrow> (case lookup (mg_traders m2) tid of
           None \<Rightarrow> ((Some nil_panic, m2), w2)
         | Some t \<Rightarrow> (case submit_open P sha now t d asset px qty trace ap m2 w2 of
             ((Inl e, m3), w3) \<Rightarrow> ((Some e, m3), w3)
           | ((Inr resp, m3), w3) \<Rightarrow> (book_open now tid d resp px qty m3, protect P d qty w3))))))"

text \<open>\<open>executeDecisionWithApproval\<close>.\<close>

definition execute_decision_with_approval ::
  "'w provider \<Rightarrow> snapshot_source \<Rightarrow> (string \<Rightarrow> int list) \<Rightarrow> reconcile_iter \<Rightarrow> time \<Rightarrow> string \<Rightarrow> decision \<Rightarrow> approval_token option \<Rightarrow>
   audit_trace \<Rightarrow> manager \<Rightarrow> 'w \<Rightarrow> (goerror option \<times> manager) \<times> 'w" where
  "execute_decision_with_approval P snap sha it now tid d approval trace m w =
    (case token_validate now approval (lookup (mg_traders m) tid) d of
       Some e \<Rightarrow> ((Some e, m), w)
     | None \<Rightarrow> (case (approval, lookup (mg_traders m) tid) of
         (Some ap, Some t) \<Rightarrow>
           if dec_symbol d = '''' \<and> \<not> is_noop_action (dec_action d)
           then ((Some (Errorf ''manager: decision missing symbol'' []), m), w)
           else if dec_position_size d < 0
           then ((Some (Errorf ''manager: decision position size must be non-negative'' []), m), w)
           else if is_open_action (dec_action d)
           then (case pre_open P it now tid d trace ap m w of
               ((Some e, m1), w1) \<Rightarrow> ((Some e, m1), w1)
             | ((None, m1), w1) \<Rightarrow>
               execute_open P snap sha now tid (d\<lparr>dec_leverage := open_leverage (tr_risk t) d\<rparr>) trace ap m1 w1)
           else if is_close_action (dec_action d)
           then (case ensure_close_ownership tid (dec_symbol d) m of
               Some e \<Rightarrow> ((Some e, m), w)
             | None \<Rightarrow> execute_close P snap now tid d trace ap m w)
           else ((None, m), w)
       | _ \<Rightarrow> ((Some (Errorf ''manager: execute decision requires trader and decision'' []), m), w)))"

definition execute_decision ::
  "(string \<Rightarrow> string) \<Rightarrow> 'w provider \<Rightarrow> snapshot_source \<Rightarrow> (string \<Rightarrow> int list) \<Rightarrow> reconcile_iter \<Rightarrow> time \<Rightarrow> string \<Rightarrow> decision \<Rightarrow>
   manager \<Rightarrow> 'w \<Rightarrow> (goerror option \<times> manager) \<times> 'w" where
  "execute_decision getenv P snap sha it now tid d m w =
    (let trace = new_audit_trace now (case lookup (mg_traders m) tid of None \<Rightarrow> '''' | Some t \<Rightarrow> tr_id t) now in
     case approve_decision_with_audit getenv now tid d trace m of
       ((Inl e, d1), m1) \<Rightarrow> ((Some e, m1), w)
     | ((Inr ap, d1), m1) \<Rightarrow> execute_decision_with_approval P snap sha it now tid d1 (Some ap) trace m1 w)"

subsection \<open>What an execution may change in the manager\<close>

text \<open>\<open>confined tid m m'\<close>: from \<open>m\<close> to \<open>m'\<close> the book stays consistent, only the positions of the trader \<open>tid\<close> may
  change, and the events recorded so far stay in place.\<close>

definition confined :: "string \<Rightarrow> manager \<Rightarrow> manager \<Rightarrow> bool" where
  "confined tid m m' \<longleftrightarrow> prefix (mg_events m) (mg_events m') \<and>
     (book_inv m \<longrightarrow> book_inv m' \<and> (\<forall>j k. j \<noteq> tid \<longrightarrow> vpos m' j k = vpos m j k))"

named_theorems confined_intros \<open>steps of the manager that are confined to one trader\<close>

lemma confined_refl [simp]: "confined tid m m"
  by (simp add: confined_def)

lemma confined_trans [trans]: "confined tid m m1 \<Longrightarrow> confined tid m1 m2 \<Longrightarrow> confined tid m m2"
  by (auto simp: confined_def intro: prefix_order.trans)

lemma confined_same:
  "mg_traders m' = mg_traders m \<Longrightarrow> mg_owners m' = mg_owners m \<Longrightarrow> prefix (mg_events m) (mg_events m') \<Longrightarrow> confined tid m m'"
  using book_inv_cong [of m' m] by (simp add: confined_def vpos_def)

lemma confined_record [simp, confined_intros]:
  "confined tid m (record_audit_decision_event now ty tr d trace ap reason err detail m)"
  "confined tid m (record_order_submitted now tr d trace ap reason detail m)"
  "confined tid m (record_order_failed now tr d trace ap reason e detail m)"
  "confined tid m (record_position_event now pe m)"
  "confined tid m (record_account_snapshot now sn m)"
  "confined tid m (record_analytics an m)"
  "confined tid m (persist_runtime_state now t m)"
  by (rule confined_same; simp add: record_defs persist_runtime_state_def)+

lemma release_events [simp]: "mg_events (release_virtual_position tid s m) = mg_events m"
  by (simp add: release_virtual_position_def Let_def split: option.splits)

lemma assign_events: "assign_virtual_position now tid p m = (r, m') \<Longrightarrow> mg_events m' = mg_events m"
  by (auto simp: assign_virtual_position_def Let_def split: option.splits if_splits)

lemma confined_release [simp, confined_intros]: "confined tid m (release_virtual_position tid s m)"
  by (simp add: confined_def release_book_inv release_vpos)

lemma confined_assign [confined_intros]:
  assumes "assign_virtual_position now tid p m = (r, m')"
  shows "confined tid m m'"
  unfolding confined_def
proof (intro conjI impI)
  show "prefix (mg_events m) (mg_events m')" by (simp add: assign_events [OF assms])
  assume inv: "book_inv m"
  show "book_inv m'" by (rule assign_book_inv [OF inv assms])
  show "\<forall>j k. j \<noteq> tid \<longrightarrow> vpos m' j k = vpos m j k"
    using inv assms refl by (cases rule: assign_cases) (auto simp: vpos_assigned)
qed

lemma confined_trip [simp, confined_intros]: "confined tid m (trip_risk_circuit_breaker now i reason m)"
  by (auto simp: confined_def trip_book_inv)
    (simp add: trip_risk_circuit_breaker_def Let_def persist_runtime_state_def split: option.splits)

lemma confined_set_trader [confined_intros]:
  assumes "lookup (mg_traders m) i = Some t" "tr_id t' = tr_id t" "tr_positions t' = tr_positions t"
  shows "confined tid m (set_trader t' m)"
proof -
  have "book_inv (set_trader t' m) \<and> vpos (set_trader t' m) = vpos m" if inv: "book_inv m"
  proof
    have t: "lookup (mg_traders m) (tr_id t') = Some t" using assms registered(2) [OF inv assms(1)] by simp
    show "book_inv (set_trader t' m)" by (rule book_inv_set_trader [OF inv t assms(3)])
    show "vpos (set_trader t' m) = vpos m" using t assms(3) by (intro ext) (simp add: vpos_set_trader vpos_def)
  qed
  then show ?thesis by (simp add: confined_def)
qed

lemma confined_reconcile_virtual [confined_intros]:
  "reconcile_virtual tid actual vs m = (r, m') \<Longrightarrow> confined tid m m'"
proof (induction tid actual vs m arbitrary: r m' rule: reconcile_virtual.induct)
  case (2 tid actual s v vs m)
  then show ?case
    by (auto simp: Let_def split: option.splits if_splits intro: confined_trans [OF confined_release])
qed simp

lemma confined_reconcile_actual [confined_intros]:
  "reconcile_actual now tid virtual ps m = (r, m') \<Longrightarrow> confined tid m m'"
proof (induction now tid virtual ps m arbitrary: r m' rule: reconcile_actual.induct)
  case (2 now tid virtual s p ps m)
  obtain vp ok where vp: "exchange_position_to_virtual p = (vp, ok)" by fastforce
  obtain r1 m1 where a: "assign_virtual_position now tid vp m = (r1, m1)" by fastforce
  show ?case
    using "2.prems" "2.IH" [OF refl vp [symmetric]] confined_assign [OF a] a vp
    by (auto simp: Let_def split: option.splits if_splits intro: confined_trans)
qed simp

lemma confined_reconcile [confined_intros]:
  "reconcile_trader_positions P it now tid m w = ((r, m'), w') \<Longrightarrow> confined tid m m'"
  by (auto simp: reconcile_trader_positions_def Let_def split: option.splits sum.splits prod.splits
      intro: confined_intros confined_trans [OF confined_reconcile_virtual])

lemma sync_account_frame [simp]:
  "tr_id (sync_account now e mg u t) = tr_id t" "tr_positions (sync_account now e mg u t) = tr_positions t"
  by (simp_all add: sync_account_def Let_def clear_stale_circuit_def)

lemma confined_record_sync [confined_intros]:
  assumes "lookup (mg_traders m) tid = Some t"
  shows "confined tid m (record_sync now tid acct t m)"
proof -
  let ?t1 = "sync_account now (parse_num (ms_account_value (as_margin acct))) (parse_num (ms_total_margin_used (as_margin acct)))
    (foldl (\<lambda>s p. s + parse_num (pos_unrealized p)) 0 (as_positions acct)) t"
  have "confined tid m (set_trader ?t1 m)" by (rule confined_set_trader [OF assms sync_account_frame])
  also have "confined tid (set_trader ?t1 m) (record_sync now tid acct t m)"
    by (rule confined_same) (simp_all add: record_sync_def record_defs persist_runtime_state_def split: option.splits)
  finally show ?thesis .
qed

lemma confined_sync [confined_intros]:
  "sync_trader_positions P it now tid m w = ((r, m'), w') \<Longrightarrow> confined tid m m'"
  by (auto simp: sync_trader_positions_def split: option.splits sum.splits prod.splits
      intro: confined_trans [OF confined_record_sync confined_reconcile])

lemma confined_pre_open [confined_intros]:
  "pre_open P it now tid d trace ap m w = ((r, m'), w') \<Longrightarrow> confined tid m m'"
  by (auto simp: pre_open_def Let_def split: option.splits prod.splits
      intro: confined_sync confined_trans [OF confined_sync] confined_record)

lemma confined_cooldown [simp, confined_intros]: "confined tid m (mark_cooldown now i s m)"
proof (cases "lookup (mg_traders m) i")
  case (Some t)
  have "confined tid m (set_trader (t\<lparr>tr_cooldown := put s now (tr_cooldown t)\<rparr>) m)"
    by (rule confined_set_trader [OF Some]) simp_all
  also have "confined tid (set_trader (t\<lparr>tr_cooldown := put s now (tr_cooldown t)\<rparr>) m) (mark_cooldown now i s m)"
    by (rule confined_same) (simp_all add: mark_cooldown_def Some Let_def)
  finally show ?thesis .
qed (simp add: mark_cooldown_def)

lemma confined_close [confined_intros]:
  assumes "execute_close P snap now tid d trace ap m w = ((r, m'), w')"
  shows "confined tid m m'"
proof -
  have "confined tid m (release_virtual_position tid s (record_position_event now pe (mark_cooldown now tid s
      (record_order_submitted now tr (Some d) trace (Some ap) why detail m))))" for s pe tr why detail
    by (intro confined_trans [OF _ confined_release] confined_trans [OF _ confined_record(4)]
        confined_trans [OF _ confined_cooldown] confined_record)
  then show ?thesis using assms
    by (auto simp: execute_close_def Let_def split: prod.splits sum.splits option.splits)
qed

lemma prepare_asset_manager:
  "prepare_asset P now tid d lev trace ap m w = ((r, m'), w') \<Longrightarrow> confined tid m m' \<and> (\<forall>a. r = Inr a \<longrightarrow> m' = m)"
  by (auto simp: prepare_asset_def open_rejected_def Let_def split: prod.splits sum.splits if_splits)

lemma submit_manager:
  assumes "submit_open P sha now t d asset px qty trace ap m w = ((r, m'), w')"
  shows "confined tid m m' \<and> mg_traders m' = mg_traders m \<and> mg_owners m' = mg_owners m"
  using assms by (auto simp: submit_open_def submit_market_def submit_limit_def Let_def
      split: prod.splits sum.splits option.splits if_splits)

lemma confined_book_open [confined_intros]:
  "book_open now tid d resp px qty m = (r, m') \<Longrightarrow> confined tid m m'"
  by (auto simp: book_open_def Let_def split: if_splits intro: confined_trans [OF confined_record(4) confined_assign])

lemma confined_open_risk [confined_intros]:
  "enforce_open_risk now tid d lev m = (r, m') \<Longrightarrow> confined tid m m' \<and> (r = None \<longrightarrow> m' = m)"
  by (auto simp: enforce_open_risk_def split: option.splits)

lemma execute_open_cases:
  assumes "execute_open P snap sha now tid d trace ap m w = ((r, m'), w')"
  obtains (risk) e m1 where "enforce_open_risk now tid d (dec_leverage d) m = (Some e, m1)" "r = Some e" "w' = w" "confined tid m m'"
  | (asset) e where "enforce_open_risk now tid d (dec_leverage d) m = (None, m)"
      "prepare_asset P now tid d (dec_leverage d) trace ap m w = ((Inl e, m'), w')" "r = Some e"
  | (price) asset w1 e where "enforce_open_risk now tid d (dec_leverage d) m = (None, m)"
      "prepare_asset P now tid d (dec_leverage d) trace ap m w = ((Inr asset, m), w1)" "prepare_price P snap d w1 = (Inl e, w')"
      "r = Some e" "m' = m"
  | (refused) asset w1 px qty w2 t e where "enforce_open_risk now tid d (dec_leverage d) m = (None, m)"
      "prepare_asset P now tid d (dec_leverage d) trace ap m w = ((Inr asset, m), w1)" "prepare_price P snap d w1 = (Inr (px, qty), w2)"
      "lookup (mg_traders m) tid = Some t" "submit_open P sha now t d asset px qty trace ap m w2 = ((Inl e, m'), w')" "r = Some e"
  | (submitted) asset w1 px qty w2 t resp m3 w3 where "enforce_open_risk now tid d (dec_leverage d) m = (None, m)"
      "prepare_asset P now tid d (dec_leverage d) trace ap m w = ((Inr asset, m), w1)" "prepare_price P snap d w1 = (Inr (px, qty), w2)"
      "lookup (mg_traders m) tid = Some t" "submit_open P sha now t d asset px qty trace ap m w2 = ((Inr resp, m3), w3)"
      "book_open now tid d resp px qty m3 = (r, m')" "w' = protect P d qty w3"
proof -
  obtain r1 m1 where er: "enforce_open_risk now tid d (dec_leverage d) m = (r1, m1)" by fastforce
  note er' = confined_open_risk [OF er]
  show thesis
  proof (cases r1)
    case (Some e)
    have "confined tid m m'"
      using assms er er' Some by (auto simp: execute_open_def open_rejected_def intro: confined_trans confined_record)
    then show thesis using assms er Some by (intro risk) (auto simp: execute_open_def)
  next
    case None
    then have er1: "enforce_open_risk now tid d (dec_leverage d) m = (None, m)" using er er' by simp
    obtain r2 m2 w1 where pa: "prepare_asset P now tid d (dec_leverage d) trace ap m w = ((r2, m2), w1)"
      by (metis surj_pair)
    note pa' = prepare_asset_manager [OF pa]
    show thesis
    proof (cases r2)
      case (Inl e)
      then show thesis using assms er1 pa by (intro asset) (auto simp: execute_open_def)
    next
      case (Inr a)
      then have pa1: "prepare_asset P now tid d (dec_leverage d) trace ap m w = ((Inr a, m), w1)" using pa pa' by simp
      obtain r3 w2 where pp: "prepare_price P snap d w1 = (r3, w2)" by fastforce
      have "lookup (mg_traders m) tid \<noteq> None" using er1 by (auto simp: enforce_open_risk_def split: option.splits)
      then obtain t where t: "lookup (mg_traders m) tid = Some t" by blast
      show thesis
      proof (cases r3)
        case (Inl e)
        then show thesis using assms er1 pa1 pp by (intro price [of a w1 e]) (auto simp: execute_open_def)
      next
        case (Inr pq)
        obtain px qty where pq: "pq = (px, qty)" by fastforce
        obtain r4 m3 w3 where su: "submit_open P sha now t d a px qty trace ap m w2 = ((r4, m3), w3)" by (metis surj_pair)
        show thesis
        proof (cases r4)
          case (Inl e)
          then show thesis using assms er1 pa1 pp Inr pq t su \<open>r3 = Inr pq\<close>
            by (intro refused [of a w1 px qty w2 t e]) (auto simp: execute_open_def)
        next
          case (Inr resp)
          then show thesis using assms er1 pa1 pp pq t su \<open>r3 = Inr pq\<close>
            by (intro submitted [of a w1 px qty w2 t resp m3 w3]) (auto simp: execute_open_def)
        qed
      qed
    qed
  qed
qed

lemma confined_open [confined_intros]:
  assumes "execute_open P snap sha now tid d trace ap m w = ((r, m'), w')"
  shows "confined tid m m'"
  using assms
proof (cases rule: execute_open_cases)
  case (submitted asset w1 px qty w2 t resp m3 w3)
  from confined_trans [OF conjunct1 [OF submit_manager [OF submitted(5)]] confined_book_open [OF submitted(6)]] show ?thesis .
next
  case (asset e)
  then show ?thesis using prepare_asset_manager by metis
next
  case (refused asset w1 px qty w2 t e)
  from submit_manager [OF refused(5)] show ?thesis by blast
qed simp_all

lemma execute_cases:
  assumes "execute_decision_with_approval P snap sha it now tid d approval trace m w = ((r, m'), w')"
  obtains (idle) "m' = m" "w' = w" "r \<noteq> None \<or> \<not> is_open_action (dec_action d) \<and> \<not> is_close_action (dec_action d)"
  | (unready) ap e where "approval = Some ap" "token_validate now approval (lookup (mg_traders m) tid) d = None"
      "is_open_action (dec_action d)" "pre_open P it now tid d trace ap m w = ((Some e, m'), w')" "r = Some e"
  | (opened) ap t m1 w1 where "approval = Some ap" "token_validate now approval (lookup (mg_traders m) tid) d = None"
      "lookup (mg_traders m) tid = Some t" "is_open_action (dec_action d)"
      "pre_open P it now tid d trace ap m w = ((None, m1), w1)"
      "execute_open P snap sha now tid (d\<lparr>dec_leverage := open_leverage (tr_risk t) d\<rparr>) trace ap m1 w1 = ((r, m'), w')"
  | (closed) ap where "approval = Some ap" "token_validate now approval (lookup (mg_traders m) tid) d = None"
      "is_close_action (dec_action d)" "ensure_close_ownership tid (dec_symbol d) m = None"
      "execute_close P snap now tid d trace ap m w = ((r, m'), w')"
  using assms unfolding execute_decision_with_approval_def
  by (auto split: option.splits if_splits prod.splits) (metis option.distinct(1) option.exhaust)+

lemma confined_execute [confined_intros]:
  assumes "execute_decision_with_approval P snap sha it now tid d approval trace m w = ((r, m'), w')"
  shows "confined tid m m'"
  using assms
proof (cases rule: execute_cases)
  case (opened ap t m1 w1)
  from confined_trans [OF confined_pre_open [OF opened(5)] confined_open [OF opened(6)]] show ?thesis .
qed (auto intro: confined_intros)

text \<open>What a successful execution leaves in the book.\<close>

lemma prepare_price_pos:
  assumes "prepare_price P snap d w = (Inr (px, qty), w')"
  shows "0 < px \<and> 0 < qty \<and> \<not> is_nan qty \<and> \<not> is_inf qty"
proof -
  have px: "open_price snap d = Inr px" and q: "\<not> qty \<le> 0" "\<not> is_nan qty" "\<not> is_inf qty"
    using assms by (auto simp: prepare_price_def Let_def split: sum.splits if_splits)
  have "0 < px" using px by (auto simp: open_price_def Let_def split: sum.splits if_splits)
  moreover have "0 < qty" using q f64_not_le [of qty 0] by (auto simp: zero_f64_def)
  ultimately show ?thesis using q by simp
qed

lemma open_fill_pos:
  assumes "0 < px" "0 < qty"
  shows "0 < fst (open_fill resp px qty)" "0 < snd (open_fill resp px qty)"
  using assms f64_le_not_less [of _ 0]
  by (auto simp: open_fill_def Let_def f64_not_le zero_f64_def split: option.splits prod.splits)

lemma book_open_succeeds:
  assumes "book_inv m" "ensure_symbol_available tid (dec_symbol d) m = None" "0 < px" "0 < qty"
    and "book_open now tid d resp px qty m = (r, m')"
  shows "r = None \<and> holds m' tid (dec_symbol d)"
proof -
  let ?fill = "open_fill resp px qty"
  let ?m1 = "record_position_event now \<lparr>pe_trader_id = tid, pe_decision = d, pe_event = PositionOpen, pe_response = resp,
      pe_occurred_at = now, pe_fill_price = fst ?fill, pe_fill_size = snd ?fill\<rparr> m"
  have as: "assign_virtual_position now tid (opened_position d ?fill) ?m1 = (r, m')"
    using assms(5) open_fill_pos(2) [OF assms(3,4)] by (simp add: book_open_def Let_def)
  have inv: "book_inv ?m1" using assms(1) book_inv_cong [of ?m1 m] by simp
  have free: "lookup (mg_traders m) tid \<noteq> None" "norm_symbol (dec_symbol d) \<noteq> ''''"
    "lookup (mg_owners m) (norm_symbol (dec_symbol d)) = None"
    using assms(1,2) owner_nonempty [OF assms(1)]
    by (auto simp: ensure_symbol_available_def Let_def get_position_owner_eq split: option.splits if_splits)
  have r: "r = None"
    using inv as refl by (cases rule: assign_cases) (use free in \<open>auto simp: opened_position_def\<close>)
  then show ?thesis using assign_holds [OF inv as [unfolded r]] by (simp add: opened_position_def)
qed

lemma pre_open_ready:
  assumes "pre_open P it now tid d trace ap m w = ((None, m1), w1)"
  shows "ensure_symbol_available tid (dec_symbol d) m1 = None" "enforce_position_capacity tid m1 = None"
    "sync_trader_positions P it now tid m w = ((None, m1), w1)"
  using assms by (auto simp: pre_open_def Let_def first_error_None split: option.splits prod.splits)

lemma ensure_symbol_available_cong:
  assumes "mg_traders m' = mg_traders m" "mg_owners m' = mg_owners m"
  shows "ensure_symbol_available tid s m' = ensure_symbol_available tid s m"
proof -
  have "get_position_owner m' = get_position_owner m" by (intro ext) (simp add: get_position_owner_def Let_def assms(2))
  then show ?thesis by (simp only: ensure_symbol_available_def assms(1))
qed

lemma open_succeeds_held:
  assumes "book_inv m" "ensure_symbol_available tid (dec_symbol d) m = None"
    "execute_open P snap sha now tid d trace ap m w = ((None, m'), w')"
  shows "holds m' tid (dec_symbol d)"
  using assms(3)
proof (cases rule: execute_open_cases)
  case (submitted asset w1 px qty w2 t resp m3 w3)
  have same: "mg_traders m3 = mg_traders m" "mg_owners m3 = mg_owners m" using submit_manager [OF submitted(5)] by auto
  have "ensure_symbol_available tid (dec_symbol d) m3 = None"
    using ensure_symbol_available_cong [OF same] assms(2) by simp
  then show ?thesis
    using book_open_succeeds [OF _ _ _ _ submitted(6)] book_inv_cong [OF same] assms(1) prepare_price_pos [OF submitted(3)]
    by simp
qed simp_all

lemma close_succeeds_released:
  assumes "book_inv m" "execute_close P snap now tid d trace ap m w = ((None, m'), w')"
  shows "\<not> holds m' tid (dec_symbol d)"
proof -
  obtain m3 where m': "m' = release_virtual_position tid (dec_symbol d) m3" and c: "confined tid m m3"
    using assms(2)
    by (auto simp: execute_close_def Let_def split: prod.splits sum.splits option.splits
        intro!: that confined_trans [OF _ confined_record(4)] confined_trans [OF _ confined_cooldown] confined_record)
  have "book_inv m3" using c assms(1) by (simp add: confined_def)
  then show ?thesis by (simp add: m' book.release_held)
qed

lemma approve_decision_frame:
  assumes "approve_decision getenv now tid d m = ((ra, d1), m1)"
  shows "dec_symbol d1 = dec_symbol d \<and> dec_action d1 = dec_action d \<and> confined tid m m1"
proof -
  have "dec_symbol (snd (fst (approve_open now tid t d m))) = dec_symbol d \<and> dec_action (snd (fst (approve_open now tid t d m))) = dec_action d" for t
    by (simp add: approve_open_def Let_def split: option.splits prod.splits)
  then have "dec_symbol d1 = dec_symbol d \<and> dec_action d1 = dec_action d"
    using assms by (auto simp: approve_decision_def Let_def split: option.splits if_splits prod.splits) (metis fst_conv snd_conv)+
  then show ?thesis using approve_manager [OF assms] by auto
qed

lemma approve_audit_frame:
  assumes "approve_decision_with_audit getenv now tid d trace m = ((ra, d1), m1)"
  shows "dec_symbol d1 = dec_symbol d \<and> dec_action d1 = dec_action d \<and> confined tid m m1"
proof -
  obtain ra0 d0 m0 where a: "approve_decision getenv now tid d m = ((ra0, d0), m0)" by (metis surj_pair)
  note f = approve_decision_frame [OF a]
  show ?thesis
    using assms f by (auto simp: approve_decision_with_audit_def a split: sum.splits intro: confined_trans confined_record)
qed

lemma execute_decision_cases:
  assumes "execute_decision getenv P snap sha it now tid d m w = ((r, m'), w')"
  obtains (rejected) e d1 trace where "approve_decision_with_audit getenv now tid d trace m = ((Inl e, d1), m')" "r = Some e" "w' = w"
  | (approved) trace ap d1 m1 where "approve_decision_with_audit getenv now tid d trace m = ((Inr ap, d1), m1)"
      "execute_decision_with_approval P snap sha it now tid d1 (Some ap) trace m1 w = ((r, m'), w')"
  using assms by (auto simp: execute_decision_def Let_def split: sum.splits prod.splits)

text \<open>C8. Executing a decision for one trader, approved or not, keeps the book consistent, never changes what
  another trader holds and never rewrites the audit trail. When it succeeds, an open leaves the trader
  holding the symbol and a close leaves it not holding it.\<close>

theorem execution_confined:
  assumes "book_inv m" "execute_decision getenv P snap sha it now tid d m w = ((r, m'), w')"
  shows "book_inv m' \<and> prefix (mg_events m) (mg_events m') \<and> (j \<noteq> tid \<longrightarrow> (holds m' j k \<longleftrightarrow> holds m j k)) \<and>
    (r = None \<and> is_open_action (dec_action d) \<longrightarrow> holds m' tid (dec_symbol d)) \<and>
    (r = None \<and> is_close_action (dec_action d) \<longrightarrow> \<not> holds m' tid (dec_symbol d))"
  using assms(2)
proof (cases rule: execute_decision_cases)
  case (rejected e d1 trace)
  then show ?thesis using approve_audit_frame [OF rejected(1)] assms(1) by (auto simp: confined_def holds_vpos)
next
  case (approved trace ap d1 m1)
  note f = approve_audit_frame [OF approved(1)]
  have c: "confined tid m m'" using f confined_execute [OF approved(2)] confined_trans by blast
  have inv1: "book_inv m1" using f assms(1) by (simp add: confined_def)
  have own: "(r = None \<and> is_open_action (dec_action d) \<longrightarrow> holds m' tid (dec_symbol d)) \<and>
      (r = None \<and> is_close_action (dec_action d) \<longrightarrow> \<not> holds m' tid (dec_symbol d))"
    using approved(2)
  proof (cases rule: execute_cases)
    case (opened ap' t m2 w2)
    have "book_inv m2" using confined_pre_open [OF opened(5)] inv1 by (simp add: confined_def)
    then show ?thesis
      using open_succeeds_held [of m2 tid "d1\<lparr>dec_leverage := open_leverage (tr_risk t) d1\<rparr>"] opened(4,6) pre_open_ready(1) [OF opened(5)] f
      by (auto simp: is_open_action_def is_close_action_def)
  next
    case (closed ap')
    have "\<not> holds m' tid (dec_symbol d1)" if "r = None"
      using close_succeeds_released [OF inv1 closed(5) [unfolded that]] .
    then show ?thesis using closed(3) f by (auto simp: is_open_action_def is_close_action_def)
  qed (use f in auto)
  then show ?thesis using c assms(1) by (auto simp: confined_def holds_vpos)
qed

subsection \<open>What an execution may change on the exchange\<close>

text \<open>The authority an order needs: a token that is valid for the decision now, and for a close that
  nobody else holds the symbol; for an open, that after the account has been synchronised the
  symbol is free, there is room for a position and the hard risk checks pass.\<close>

definition authorized ::
  "'w provider \<Rightarrow> reconcile_iter \<Rightarrow> time \<Rightarrow> string \<Rightarrow> decision \<Rightarrow> approval_token option \<Rightarrow> manager \<Rightarrow> 'w \<Rightarrow> bool" where
  "authorized P it now tid d approval m w \<longleftrightarrow>
     token_validate now approval (lookup (mg_traders m) tid) d = None \<and>
     (is_close_action (dec_action d) \<and> ensure_close_ownership tid (dec_symbol d) m = None \<or>
      is_open_action (dec_action d) \<and>
      (\<exists>t m1 w1. lookup (mg_traders m) tid = Some t \<and> sync_trader_positions P it now tid m w = ((None, m1), w1) \<and>
         ensure_symbol_available tid (dec_symbol d) m1 = None \<and> enforce_position_capacity tid m1 = None \<and>
         enforce_open_risk now tid (d\<lparr>dec_leverage := open_leverage (tr_risk t) d\<rparr>) (open_leverage (tr_risk t) d) m1 = (None, m1)))"

context trading_account
begin

definition untouched :: "'w \<Rightarrow> 'w \<Rightarrow> bool" where
  "untouched w w' \<longleftrightarrow> (ok w \<longrightarrow> ok w' \<and> book w' = book w)"

lemma untouched_refl [simp]: "untouched w w"
  by (simp add: untouched_def)

lemma untouched_trans [trans]: "untouched w w1 \<Longrightarrow> untouched w1 w2 \<Longrightarrow> untouched w w2"
  by (auto simp: untouched_def)

lemma reads_untouched:
  "pv_get_positions P w = (r, w') \<Longrightarrow> untouched w w'"
  "pv_get_account_state P w = (r', w') \<Longrightarrow> untouched w w'"
  "pv_get_asset_index P c w = (ri, w') \<Longrightarrow> untouched w w'"
  "pv_update_leverage P a x l w = (ru, w') \<Longrightarrow> untouched w w'"
  by (auto simp: untouched_def dest: positions_read account_read index_read leverage_set)

lemma mark_untouched: "pv_set_mark_price P = Some f \<Longrightarrow> untouched w (snd (f c px w))"
  using mark_set prod.collapse unfolding untouched_def by metis

lemma cancel_untouched: "untouched w (cancel_orders P c w)"
proof (cases "pv_cancel_all P")
  case (Some g)
  then show ?thesis using orders_cancelled [OF _ Some, of w c "fst (g c w)" "snd (g c w)"]
    by (simp add: cancel_orders_def untouched_def)
qed (simp add: cancel_orders_def)

lemma printed_price_untouched:
  assumes "printed (pv_format_price P) c x w = (s, w')"
  shows "untouched w w'"
proof (cases "pv_format_price P")
  case (Some h)
  obtain r w1 where "h c x w = (r, w1)" by fastforce
  moreover from this have "untouched w w1" using price_printed [OF _ Some] by (auto simp: untouched_def)
  ultimately show ?thesis using assms Some by (cases r) (simp_all add: printed_def)
qed (use assms in \<open>simp add: printed_def\<close>)

lemma printed_size_untouched:
  assumes "printed (pv_format_size P) c x w = (s, w')"
  shows "untouched w w'"
proof (cases "pv_format_size P")
  case (Some h)
  obtain r w1 where "h c x w = (r, w1)" by fastforce
  moreover from this have "untouched w w1" using size_printed [OF _ Some] by (auto simp: untouched_def)
  ultimately show ?thesis using assms Some by (cases r) (simp_all add: printed_def)
qed (use assms in \<open>simp add: printed_def\<close>)

lemma reconcile_untouched: "reconcile_trader_positions P it now tid m w = (r, w') \<Longrightarrow> untouched w w'"
  by (auto simp: reconcile_trader_positions_def Let_def split: option.splits sum.splits prod.splits
      intro: reads_untouched)

lemma sync_untouched: "sync_trader_positions P it now tid m w = (r, w') \<Longrightarrow> untouched w w'"
  by (auto simp: sync_trader_positions_def split: option.splits sum.splits prod.splits
      intro: reads_untouched untouched_trans [OF reads_untouched(2) reconcile_untouched])

lemma pre_open_untouched: "pre_open P it now tid d trace ap m w = (r, w') \<Longrightarrow> untouched w w'"
  by (auto simp: pre_open_def Let_def split: option.splits prod.splits intro: sync_untouched)

lemma prepare_asset_untouched: "prepare_asset P now tid d lev trace ap m w = (r, w') \<Longrightarrow> untouched w w'"
  by (auto simp: prepare_asset_def Let_def split: sum.splits prod.splits if_splits
      intro: reads_untouched untouched_trans [OF reads_untouched(3) reads_untouched(4)])

lemma prepare_price_untouched: "prepare_price P snap d w = (r, w') \<Longrightarrow> untouched w w'"
  by (auto simp: prepare_price_def Let_def mark_untouched split: sum.splits option.splits if_splits)

lemma close_mark_untouched: "close_mark P snap c w = (px, w1) \<Longrightarrow> untouched w w1"
  by (auto simp: close_mark_def mark_untouched split: option.splits sum.splits if_splits)

text \<open>\<open>accepted resp\<close>: the provider answered \<open>resp\<close>, not an error, to an order that changed the account. The
  account differs after a submission only if an order was accepted.\<close>

definition accepted :: "order_response option \<Rightarrow> bool" where
  "accepted resp \<longleftrightarrow> (\<exists>ord v w. ok v \<and> pv_place_order P ord v = (Inr resp, w) \<and> book w \<noteq> book v) \<or>
     (\<exists>k c b q s rd v w. pv_ioc_market P = Some k \<and> ok v \<and> k c b q s rd v = (Inr resp, w) \<and> book w \<noteq> book v) \<or>
     (\<exists>c v w. ok v \<and> pv_close_position P c v = (Inr resp, w) \<and> book w \<noteq> book v)"

definition settled :: "(goerror + 'r) \<Rightarrow> 'w \<Rightarrow> 'w \<Rightarrow> bool" where
  "settled r w w' \<longleftrightarrow> (ok w \<longrightarrow> ok w' \<and>
     (book w' = book w \<or> (\<exists>resp. accepted resp \<and> (is_ok r \<or> order_response_failure resp \<noteq> None))))"

lemma submit_limit_settled:
  assumes "submit_limit P sha now t d asset px qty trace ap m w = ((r, m'), w')"
  shows "settled r w w'"
  unfolding settled_def
proof
  assume w: "ok w"
  obtain s1 w1 where p1: "printed (pv_format_price P) (dec_symbol d) px w = (s1, w1)" by fastforce
  obtain s2 w2 where p2: "printed (pv_format_size P) (dec_symbol d) qty w1 = (s2, w2)" by fastforce
  have u: "ok w2" "book w2 = book w"
    using untouched_trans [OF printed_price_untouched [OF p1] printed_size_untouched [OF p2]] w by (simp_all add: untouched_def)
  let ?ord = "limit_ioc_order asset (dec_action d = ''open_long'') s1 s2 (build_cloid sha (tr_id t) (dec_symbol d) (dec_action d) qty now)"
  obtain ro w3 where po: "pv_place_order P ?ord w2 = (ro, w3)" by fastforce
  show "ok w' \<and> (book w' = book w \<or> (\<exists>resp. accepted resp \<and> (is_ok r \<or> order_response_failure resp \<noteq> None)))"
  proof (cases ro)
    case (Inl e)
    have "w' = w3" using assms po by (simp add: submit_limit_def p1 p2 Let_def Inl)
    then show ?thesis using u(2) order_ok [OF u(1) po] refused_order [OF u(1) po [unfolded Inl]] by simp
  next
    case (Inr resp)
    then have "book w3 = book w2 \<or> accepted resp" using po u(1) unfolding accepted_def by blast
    then show ?thesis using assms po Inr u(2) order_ok [OF u(1) po]
      by (auto simp: submit_limit_def p1 p2 Let_def split: option.splits)
  qed
qed

lemma submit_market_settled:
  assumes "submit_market P now t d px qty trace ap m w = ((r, m'), w')"
  shows "settled r w w'"
  unfolding settled_def
proof
  assume w: "ok w"
  show "ok w' \<and> (book w' = book w \<or> (\<exists>resp. accepted resp \<and> (is_ok r \<or> order_response_failure resp \<noteq> None)))"
  proof (cases "pv_ioc_market P")
    case (Some k)
    obtain ro w1 where po: "k (dec_symbol d) (dec_action d = ''open_long'') qty (market_slippage t) False w = (ro, w1)" by fastforce
    show ?thesis
    proof (cases ro)
      case (Inl e)
      have "w' = w1" using assms po Some by (simp add: submit_market_def Let_def Inl)
      moreover have "book w1 = book w" by (rule refused_market [OF w Some]) (rule po [unfolded Inl])
      moreover have "ok w1" by (rule market_ok [OF w Some]) (rule po)
      ultimately show ?thesis by simp
    next
      case (Inr resp)
      then have "book w1 = book w \<or> accepted resp" using po w Some unfolding accepted_def by blast
      moreover have "ok w1" by (rule market_ok [OF w Some]) (rule po)
      ultimately show ?thesis using assms po Inr Some
        by (auto simp: submit_market_def Let_def split: option.splits)
    qed
  qed (use assms w in \<open>simp add: submit_market_def\<close>)
qed

lemma submit_open_settled:
  "submit_open P sha now t d asset px qty trace ap m w = ((r, m'), w') \<Longrightarrow> settled r w w'"
  by (auto simp: submit_open_def settled_def split: if_splits
      dest: submit_limit_settled [unfolded settled_def] submit_market_settled [unfolded settled_def])

text \<open>The result of an execution: an error, or success.\<close>

definition outcome :: "goerror option \<Rightarrow> goerror + unit" where
  "outcome r = (case r of None \<Rightarrow> Inr () | Some e \<Rightarrow> Inl e)"

lemma execute_close_settled:
  assumes "execute_close P snap now tid d trace ap m w = ((r, m'), w')"
  shows "settled (outcome r) w w'"
  unfolding settled_def
proof
  assume w: "ok w"
  obtain px w1 where cm: "close_mark P snap (dec_symbol d) w = (px, w1)" by fastforce
  let ?w2 = "cancel_orders P (dec_symbol d) w1"
  have u: "ok ?w2" "book ?w2 = book w"
    using untouched_trans [OF close_mark_untouched [OF cm] cancel_untouched] w by (simp_all add: untouched_def)
  obtain ro w3 where po: "pv_close_position P (dec_symbol d) ?w2 = (ro, w3)" by fastforce
  show "ok w' \<and> (book w' = book w \<or> (\<exists>resp. accepted resp \<and> (is_ok (outcome r) \<or> order_response_failure resp \<noteq> None)))"
  proof (cases ro)
    case (Inl e)
    have "w' = w3" using assms po by (simp add: execute_close_def cm Let_def Inl)
    then show ?thesis using u(2) close_ok [OF u(1) po] refused_close [OF u(1) po [unfolded Inl]] by simp
  next
    case (Inr resp)
    then have "book w3 = book ?w2 \<or> accepted resp" using po u(1) unfolding accepted_def by blast
    then show ?thesis using assms po Inr u(2) close_ok [OF u(1) po]
      by (auto simp: execute_close_def cm Let_def outcome_def split: option.splits)
  qed
qed

lemma protect_untouched: "untouched w (protect P d q w)"
proof (cases "pv_set_stop_loss P"; cases "pv_set_take_profit P")
  fix sl tp assume s: "pv_set_stop_loss P = Some sl" "pv_set_take_profit P = Some tp"
  have "untouched w (snd (sl c s x y w))" for c s x y w
    using stop_set [OF _ s(1) prod.collapse [symmetric]] by (auto simp: untouched_def)
  moreover have "untouched w (snd (tp c s x y w))" for c s x y w
    using profit_set [OF _ s(2) prod.collapse [symmetric]] by (auto simp: untouched_def)
  ultimately show ?thesis by (simp add: protect_def s Let_def) (meson untouched_trans)
qed (simp_all add: protect_def Let_def)

lemma execute_open_settled:
  assumes "execute_open P snap sha now tid d trace ap m w = ((r, m'), w')" "book_inv m"
    "ensure_symbol_available tid (dec_symbol d) m = None" "ok w"
  shows "settled (outcome r) w w'" "book w' \<noteq> book w \<Longrightarrow> enforce_open_risk now tid d (dec_leverage d) m = (None, m)"
proof -
  have "settled (outcome r) w w' \<and> (book w' \<noteq> book w \<longrightarrow> enforce_open_risk now tid d (dec_leverage d) m = (None, m))"
    using assms(1)
  proof (cases rule: execute_open_cases)
    case risk
    then show ?thesis by (simp add: settled_def)
  next
    case asset
    then show ?thesis using prepare_asset_untouched by (auto simp: settled_def untouched_def)
  next
    case (price asset w1 e)
    from untouched_trans [OF prepare_asset_untouched [OF price(2)] prepare_price_untouched [OF price(3)]]
    show ?thesis by (auto simp: settled_def untouched_def price(1))
  next
    case (refused asset w1 px qty w2 t e)
    note u = untouched_trans [OF prepare_asset_untouched [OF refused(2)] prepare_price_untouched [OF refused(3)]]
    from u submit_open_settled [OF refused(5)] show ?thesis
      by (auto simp: settled_def untouched_def refused(1,6) outcome_def)
  next
    case (submitted asset w1 px qty w2 t resp m3 w3)
    note u = untouched_trans [OF prepare_asset_untouched [OF submitted(2)] prepare_price_untouched [OF submitted(3)]]
    have same: "mg_traders m3 = mg_traders m" "mg_owners m3 = mg_owners m" using submit_manager [OF submitted(5)] by auto
    have r: "r = None"
      using book_open_succeeds [OF _ _ _ _ submitted(6)] book_inv_cong [OF same] assms(2,3) prepare_price_pos [OF submitted(3)]
        ensure_symbol_available_cong [OF same, of tid "dec_symbol d"] by simp
    from u submit_open_settled [OF submitted(5)] protect_untouched [of w3 d qty] show ?thesis
      by (auto simp: settled_def untouched_def submitted(1,7) outcome_def r)
  qed
  then show "settled (outcome r) w w'" "book w' \<noteq> book w \<Longrightarrow> enforce_open_risk now tid d (dec_leverage d) m = (None, m)"
    by simp_all
qed

lemma execute_settled:
  assumes "execute_decision_with_approval P snap sha it now tid d approval trace m w = ((r, m'), w')" "book_inv m" "ok w"
  shows "settled (outcome r) w w' \<and> (book w' \<noteq> book w \<longrightarrow> authorized P it now tid d approval m w)"
  using assms(1)
proof (cases rule: execute_cases)
  case idle
  then show ?thesis by (simp add: settled_def)
next
  case (unready ap e)
  from pre_open_untouched [OF unready(4)] show ?thesis using assms(3) by (simp add: settled_def untouched_def)
next
  case (opened ap t m1 w1)
  note u = pre_open_untouched [OF opened(5)] and ready = pre_open_ready [OF opened(5)]
  let ?d = "d\<lparr>dec_leverage := open_leverage (tr_risk t) d\<rparr>"
  have inv: "book_inv m1" using confined_pre_open [OF opened(5)] assms(2) by (simp add: confined_def)
  have w1: "ok w1" "book w1 = book w" using u assms(3) by (simp_all add: untouched_def)
  have free: "ensure_symbol_available tid (dec_symbol ?d) m1 = None" using ready(1) by simp
  note s = execute_open_settled [OF opened(6) inv free w1(1)]
  have "authorized P it now tid d approval m w" if "book w' \<noteq> book w"
    using s(2) that w1(2) ready opened(2-4) unfolding authorized_def by auto
  then show ?thesis using s(1) w1 by (simp add: settled_def)
next
  case (closed ap)
  then show ?thesis using execute_close_settled [OF closed(5)] by (simp add: authorized_def)
qed

end

text \<open>An exchange whose accepted orders carry no error in their response, like the paper exchange: there an
  execution that fails leaves the account as it was.\<close>

locale clean_account = trading_account +
  assumes accepted_clean: "accepted resp \<Longrightarrow> order_response_failure resp = None"
begin

lemma failed_execution:
  assumes "execute_decision_with_approval P snap sha it now tid d approval trace m w = ((Some e, m'), w')" "book_inv m" "ok w"
  shows "ok w' \<and> book w' = book w"
  using execute_settled [OF assms] assms(3) accepted_clean by (auto simp: settled_def outcome_def)

lemma failed_decision:
  assumes "execute_decision getenv P snap sha it now tid d m w = ((Some e, m'), w')" "book_inv m" "ok w"
  shows "ok w' \<and> book w' = book w"
  using assms(1)
proof (cases rule: execute_decision_cases)
  case (approved trace ap d1 m1)
  have "book_inv m1" using approve_audit_frame [OF approved(1)] assms(2) by (simp add: confined_def)
  from failed_execution [OF approved(2) this assms(3)] show ?thesis .
qed (use assms(3) in simp)

end

subsection \<open>Reconciliation makes the book match the exchange\<close>

definition matches :: "virtual_position \<Rightarrow> position \<Rightarrow> bool" where
  "matches v p \<longleftrightarrow> vp_side v = (if parse_num (pos_szi p) < 0 then ''short'' else ''long'') \<and>
     \<not> position_tolerance < \<bar>vp_quantity v - \<bar>parse_num (pos_szi p)\<bar>\<bar>"

definition open_size :: "position \<Rightarrow> bool" where
  "open_size p \<longleftrightarrow> \<not> feq (parse_num (pos_szi p)) 0"

lemma fold_actual_Some:
  "lookup (fold add_actual ps m) k = Some p \<Longrightarrow>
   lookup m k = Some p \<or> p \<in> set ps \<and> norm_symbol (pos_coin p) = k \<and> open_size p"
proof (induction ps arbitrary: m)
  case (Cons q ps)
  from Cons.IH [of "add_actual q m"] Cons.prems show ?case by (auto simp: add_actual_def open_size_def split: if_splits)
qed simp

lemma fold_actual_mem:
  "p \<in> set ps \<and> open_size p \<or> lookup m (norm_symbol (pos_coin p)) \<noteq> None \<Longrightarrow>
   lookup (fold add_actual ps m) (norm_symbol (pos_coin p)) \<noteq> None"
proof (induction ps arbitrary: m)
  case (Cons q ps)
  have "p \<in> set ps \<and> open_size p \<or> lookup (add_actual q m) (norm_symbol (pos_coin p)) \<noteq> None"
    using Cons.prems by (auto simp: add_actual_def open_size_def)
  from Cons.IH [OF this] show ?case by simp
qed simp

lemma actual_positions_spec:
  "lookup (actual_positions ps) k = Some p \<Longrightarrow> p \<in> set ps \<and> norm_symbol (pos_coin p) = k \<and> open_size p"
  "p \<in> set ps \<Longrightarrow> open_size p \<Longrightarrow> lookup (actual_positions ps) (norm_symbol (pos_coin p)) \<noteq> None"
  "wf_map (actual_positions ps)"
proof -
  have "wf_map m \<Longrightarrow> wf_map (fold add_actual ps m)" for m
    by (induction ps arbitrary: m) (simp_all add: add_actual_def)
  then show "wf_map (actual_positions ps)" by (simp add: actual_positions_def)
qed (use fold_actual_Some [of ps "[]"] fold_actual_mem [of p ps "[]"] in \<open>auto simp: actual_positions_def\<close>)

lemma norm_symbol_Nil: "norm_symbol '''' = ''''"
  by code_simp

lemma exchange_virtual:
  "open_size p \<Longrightarrow> snd (exchange_position_to_virtual p) \<and> vp_symbol (fst (exchange_position_to_virtual p)) = pos_coin p \<and>
     vp_side (fst (exchange_position_to_virtual p)) = (if parse_num (pos_szi p) < 0 then ''short'' else ''long'') \<and>
     vp_quantity (fst (exchange_position_to_virtual p)) = \<bar>parse_num (pos_szi p)\<bar>"
  by (simp add: exchange_position_to_virtual_def open_size_def Let_def)

lemma self_matches:
  assumes "vp_side v = vp_side (fst (exchange_position_to_virtual p))" "vp_quantity v = vp_quantity (fst (exchange_position_to_virtual p))" "open_size p"
  shows "matches v p"
proof -
  have zero: "\<bar>x - x\<bar> = (if x = NaN \<or> is_inf x then NaN else 0)" for x :: f64
    by (cases x) (auto simp: f64_ops)
  have "\<not> position_tolerance < 0" by code_simp
  then show ?thesis using assms exchange_virtual [OF assms(3)] zero [of "\<bar>parse_num (pos_szi p)\<bar>"]
    by (simp add: matches_def)
qed

lemma reconcile_virtual_spec:
  assumes "reconcile_virtual tid actual vs m = (None, m')" "book_inv m" "\<forall>(s, v) \<in> set vs. norm_symbol s = s"
    "\<forall>(s, v) \<in> set vs. \<forall>p. lookup actual s = Some p \<longrightarrow> open_size p \<and> pos_coin p \<noteq> ''''"
  shows "(\<forall>k. vpos m' tid k = (if k \<in> fst ` set vs \<and> lookup actual k = None then None else vpos m tid k)) \<and>
    (\<forall>(s, v) \<in> set vs. \<forall>p. lookup actual s = Some p \<longrightarrow> matches v p)"
  using assms
proof (induction tid actual vs m rule: reconcile_virtual.induct)
  case (2 tid actual s v vs m)
  show ?case
  proof (cases "lookup actual s")
    case None
    then show ?thesis using "2.IH"(1) [OF None] "2.prems" release_book_inv [of m tid s]
      by (auto simp: release_vpos)
  next
    case (Some p)
    then have p: "open_size p" "pos_coin p \<noteq> ''''" using "2.prems"(4) by auto
    have ok: "vp_side v = vp_side (fst (exchange_position_to_virtual p))"
      "\<not> position_tolerance < \<bar>vp_quantity v - vp_quantity (fst (exchange_position_to_virtual p))\<bar>"
      "reconcile_virtual tid actual vs m = (None, m')"
      using "2.prems"(1) Some p exchange_virtual [OF p(1)] by (auto simp: Let_def split: if_splits)
    then have "matches v p" using exchange_virtual [OF p(1)] by (simp add: matches_def)
    then show ?thesis using "2.IH"(3) [OF Some refl] ok p exchange_virtual [OF p(1)] "2.prems"(2-4) Some by auto
  qed
qed simp

lemma assign_exchange:
  assumes "book_inv m" "assign_virtual_position now tid (fst (exchange_position_to_virtual p)) m = (None, m')" "open_size p"
  shows "\<exists>v. matches v p \<and> (\<forall>k. vpos m' tid k = (if k = norm_symbol (pos_coin p) then Some v else vpos m tid k))"
    and "get_position_owner m' (pos_coin p) = tid"
proof -
  let ?vp = "fst (exchange_position_to_virtual p)"
  note ev = exchange_virtual [OF assms(3)]
  show "\<exists>v. matches v p \<and> (\<forall>k. vpos m' tid k = (if k = norm_symbol (pos_coin p) then Some v else vpos m tid k))"
    using assms(1,2) refl
  proof (cases rule: assign_cases)
    case (assigned t v)
    have "matches v p" using assigned(8,9) assms(3) by (intro self_matches)
    moreover have "vpos m' tid k = (if k = norm_symbol (pos_coin p) then Some v else vpos m tid k)" for k
      using assigned(2,3,7) ev by (simp add: vpos_assigned) (simp add: vpos_def)
    ultimately show ?thesis by blast
  qed simp
  have "holds m' tid (pos_coin p)" using assign_holds [OF assms(1,2)] ev by simp
  then show "get_position_owner m' (pos_coin p) = tid"
    using book.held_owner [OF assign_book_inv [OF assms(1,2)]] by blast
qed

lemma owner_norm: "get_position_owner m (norm_symbol s) = get_position_owner m s"
  by (simp add: get_position_owner_def)

lemma assign_owner_kept:
  assumes "book_inv m" "assign_virtual_position now tid p m = (None, m')" "get_position_owner m s \<noteq> ''''"
  shows "get_position_owner m' s \<noteq> ''''"
proof -
  have "holds m (get_position_owner m s) s" using book.owner_held [OF assms(1,3)] .
  then have "holds m' (get_position_owner m s) s" using assign_holds [OF assms(1,2)] by simp
  from book.held_owner [OF assign_book_inv [OF assms(1,2)] this] show ?thesis by simp
qed

definition carried :: "string \<Rightarrow> (string \<times> position) list \<Rightarrow> manager \<Rightarrow> manager \<Rightarrow> bool" where
  "carried tid ps m m' \<longleftrightarrow>
     (\<forall>k v. vpos m' tid k = Some v \<longrightarrow> vpos m tid k = Some v \<or> (\<exists>p. (k, p) \<in> set ps \<and> matches v p)) \<and>
     (\<forall>s \<in> fst ` set ps. get_position_owner m' s \<noteq> '''') \<and>
     (\<forall>s. get_position_owner m s \<noteq> '''' \<longrightarrow> get_position_owner m' s \<noteq> '''')"

lemma carried_skip: "carried tid ps m m' \<Longrightarrow> get_position_owner m s \<noteq> '''' \<Longrightarrow> carried tid ((s, p) # ps) m m'"
  unfolding carried_def by (auto; blast)

lemma carried_assign:
  assumes "carried tid ps m1 m'" "matches v p" "\<And>k. vpos m1 tid k = (if k = s then Some v else vpos m tid k)"
    "get_position_owner m1 s \<noteq> ''''" "\<And>x. get_position_owner m x \<noteq> '''' \<Longrightarrow> get_position_owner m1 x \<noteq> ''''"
  shows "carried tid ((s, p) # ps) m m'"
  unfolding carried_def
proof (intro conjI allI impI ballI)
  fix k u assume "vpos m' tid k = Some u"
  then have "vpos m1 tid k = Some u \<or> (\<exists>q. (k, q) \<in> set ps \<and> matches u q)" using assms(1) by (auto simp: carried_def)
  then show "vpos m tid k = Some u \<or> (\<exists>q. (k, q) \<in> set ((s, p) # ps) \<and> matches u q)"
    using assms(2,3) by (cases "k = s") auto
next
  fix x assume "x \<in> fst ` set ((s, p) # ps)"
  then show "get_position_owner m' x \<noteq> ''''" using assms(1,4) unfolding carried_def by auto
next
  fix x assume "get_position_owner m x \<noteq> ''''"
  then show "get_position_owner m' x \<noteq> ''''" using assms(1,5) unfolding carried_def by blast
qed

lemma reconcile_actual_spec:
  assumes "reconcile_actual now tid virtual ps m = (None, m')" "book_inv m" "tid \<noteq> ''''"
    "\<forall>(s, p) \<in> set ps. open_size p \<and> norm_symbol (pos_coin p) = s"
  shows "carried tid ps m m'"
  using assms
proof (induction ps arbitrary: m)
  case Nil
  then show ?case by (simp add: carried_def)
next
  case (Cons sp ps)
  obtain s p where sp: "sp = (s, p)" by fastforce
  have p: "open_size p" "norm_symbol (pos_coin p) = s" using Cons.prems(4) sp by auto
  obtain vp where vp: "exchange_position_to_virtual p = (vp, True)"
    using exchange_virtual [OF p(1)] by (cases "exchange_position_to_virtual p") auto
  show ?case
  proof (cases "get_position_owner m s = '''' \<or> get_position_owner m s = tid \<and> lookup virtual s = None")
    case True
    then obtain m1 where a: "assign_virtual_position now tid vp m = (None, m1)" and r: "reconcile_actual now tid virtual ps m1 = (None, m')"
      using Cons.prems(1) vp sp by (auto simp: Let_def split: prod.splits option.splits if_splits)
    have a': "assign_virtual_position now tid (fst (exchange_position_to_virtual p)) m = (None, m1)" using a vp by simp
    obtain v where v: "matches v p" "\<And>k. vpos m1 tid k = (if k = s then Some v else vpos m tid k)"
      using assign_exchange(1) [OF Cons.prems(2) a' p(1)] p(2) by blast
    have "get_position_owner m1 s \<noteq> ''''"
      using assign_exchange(2) [OF Cons.prems(2) a' p(1)] Cons.prems(3) owner_norm [of m1 "pos_coin p"] p(2) by simp
    moreover have "carried tid ps m1 m'"
      using Cons.IH [OF r assign_book_inv [OF Cons.prems(2) a] Cons.prems(3)] Cons.prems(4) by simp
    ultimately show ?thesis unfolding sp using v assign_owner_kept [OF Cons.prems(2) a] by (intro carried_assign [of tid ps m1 m' v])
  next
    case False
    then have "reconcile_actual now tid virtual ps m = (None, m')"
      using Cons.prems(1) vp sp by (auto simp: Let_def split: if_splits)
    then show ?thesis using Cons.IH Cons.prems False sp by (auto intro: carried_skip)
  qed
qed

text \<open>C10. After a reconciliation that succeeds, every position the trader holds in the virtual book is
  on the exchange, on the same side and of the same size within the tolerance, and every open
  position of the exchange has an owner.\<close>

theorem reconcile_matches:
  assumes "book_inv m" "is_order (ri_virtual it)" "is_order (ri_actual it)" "pv_get_positions P w = (Inr raw, w1)"
    and "reconcile_trader_positions P it now tid m w = ((None, m'), w')"
  shows "(\<forall>k v. vpos m' tid k = Some v \<longrightarrow> (\<exists>p \<in> set raw. norm_symbol (pos_coin p) = k \<and> open_size p \<and> matches v p)) \<and>
    (\<forall>p \<in> set raw. open_size p \<longrightarrow> get_position_owner m' (pos_coin p) \<noteq> '''')"
proof -
  let ?actual = "actual_positions raw" and ?virtual = "snapshot_virtual_positions tid m"
  obtain t where t: "lookup (mg_traders m) tid = Some t" using assms(5) by (auto simp: reconcile_trader_positions_def split: option.splits)
  obtain m1 where rv: "reconcile_virtual tid ?actual (ri_virtual it ?virtual) m = (None, m1)"
    and ra: "reconcile_actual now tid ?virtual (ri_actual it ?actual) m1 = (None, m')"
    using assms(4,5) t by (auto simp: reconcile_trader_positions_def Let_def split: option.splits prod.splits)
  have inv1: "book_inv m1" using confined_reconcile_virtual [OF rv] assms(1) by (simp add: confined_def)
  have vset: "(s, v) \<in> set (ri_virtual it ?virtual) \<longleftrightarrow> vpos m tid s = Some v" for s v
    using is_order_set [OF assms(2)] registered(3) [OF assms(1) t] by (simp add: snapshot_virtual_positions_def t vpos_def wf_map_lookup_iff)
  have aset: "(s, p) \<in> set (ri_actual it ?actual) \<longleftrightarrow> lookup ?actual s = Some p" for s p
    using is_order_set [OF assms(3)] actual_positions_spec(3) [of raw] by (simp add: wf_map_lookup_iff)
  have keys: "\<forall>(s, v) \<in> set (ri_virtual it ?virtual). norm_symbol s = s"
    using vpos_owner(2) [OF assms(1), of tid] by (auto simp: vset) (metis norm_symbol_idem)
  have "open_size p \<and> pos_coin p \<noteq> ''''"
    if s: "(s, v) \<in> set (ri_virtual it ?virtual)" "lookup ?actual s = Some p" for s v p
  proof -
    have "norm_symbol (pos_coin p) = s \<and> open_size p" using actual_positions_spec(1) [OF s(2)] by blast
    moreover have "s \<noteq> ''''" using s(1) vset vpos_owner(1) [OF assms(1), of tid s v] by simp
    ultimately show ?thesis using norm_symbol_Nil by auto
  qed
  then have act: "\<forall>(s, v) \<in> set (ri_virtual it ?virtual). \<forall>p. lookup ?actual s = Some p \<longrightarrow> open_size p \<and> pos_coin p \<noteq> ''''"
    by blast
  note rvs = reconcile_virtual_spec [OF rv assms(1) keys act]
  have "\<forall>(s, p) \<in> set (ri_actual it ?actual). open_size p \<and> norm_symbol (pos_coin p) = s"
    using aset actual_positions_spec(1) [of raw] by auto
  note ras = reconcile_actual_spec [OF ra inv1 registered(1) [OF assms(1) t] this, unfolded carried_def]
  show ?thesis
  proof (intro conjI allI impI ballI)
    fix k v assume k: "vpos m' tid k = Some v"
    consider (old) "vpos m1 tid k = Some v" | (new) p where "(k, p) \<in> set (ri_actual it ?actual)" "matches v p"
      using ras k by blast
    then show "\<exists>p \<in> set raw. norm_symbol (pos_coin p) = k \<and> open_size p \<and> matches v p"
    proof cases
      case old
      have vm: "vpos m tid k = Some v" and "k \<notin> fst ` set (ri_virtual it ?virtual) \<or> lookup ?actual k \<noteq> None"
        using rvs old by (auto split: if_splits)
      then have mem: "(k, v) \<in> set (ri_virtual it ?virtual)" and "lookup ?actual k \<noteq> None"
        using vset by (auto simp: image_iff) (metis fst_conv)
      then obtain p where "lookup ?actual k = Some p" by blast
      then show ?thesis using rvs mem actual_positions_spec(1) [of raw k p] by blast
    next
      case new
      then show ?thesis using aset actual_positions_spec(1) [of raw k p] by blast
    qed
  next
    fix p assume "p \<in> set raw" "open_size p"
    then obtain q where "(norm_symbol (pos_coin p), q) \<in> set (ri_actual it ?actual)"
      using actual_positions_spec(2) aset by blast
    then show "get_position_owner m' (pos_coin p) \<noteq> ''''"
      using ras owner_norm [of m' "pos_coin p"] by (metis fst_conv imageI)
  qed
qed

subsection \<open>The audit trail of an order\<close>

definition audited :: "audit_event_type \<Rightarrow> approval_token \<Rightarrow> manager_event \<Rightarrow> bool" where
  "audited ty ap e = (case e of AuditEv a \<Rightarrow> ae_type a = ty \<and> ae_approval_id a = ap_id ap | _ \<Rightarrow> False)"

lemma record_audited:
  "\<exists>e. mg_events (record_audit_decision_event now ty tr d trace (Some ap) reason err detail m) = mg_events m @ [e] \<and> audited ty ap e"
  by (simp add: record_defs audited_def)

lemma submit_audited:
  assumes "submit_open P sha now t d asset px qty trace ap m w = ((Inr resp, m'), w')"
  shows "\<exists>e. mg_events m' = mg_events m @ [e] \<and> audited OrderSubmitted ap e"
  using assms record_audited
  by (auto simp: submit_open_def submit_market_def submit_limit_def Let_def record_order_submitted_def
      split: prod.splits sum.splits option.splits if_splits)

lemma open_audited:
  assumes "execute_open P snap sha now tid d trace ap m w = ((None, m'), w')"
  shows "\<exists>e p. mg_events m' = mg_events m @ [e, PositionEv p] \<and> audited OrderSubmitted ap e \<and> pe_trader_id p = tid"
  using assms
proof (cases rule: execute_open_cases)
  case (submitted asset w1 px qty w2 t resp m3 w3)
  obtain e where e: "mg_events m3 = mg_events m @ [e]" "audited OrderSubmitted ap e" using submit_audited [OF submitted(5)] by blast
  have "\<exists>p. mg_events m' = mg_events m3 @ [PositionEv p] \<and> pe_trader_id p = tid"
    using submitted(6) by (auto simp: book_open_def Let_def record_position_event_def split: if_splits dest: assign_events)
  then show ?thesis using e by auto
qed simp_all

lemma close_audited:
  assumes "execute_close P snap now tid d trace ap m w = ((None, m'), w')"
  shows "\<exists>e p. mg_events m' = mg_events m @ [e, PositionEv p] \<and> audited OrderSubmitted ap e \<and> pe_trader_id p = tid"
proof -
  have cd: "mg_events (mark_cooldown now i s x) = mg_events x" for i s x
    by (simp add: mark_cooldown_def Let_def split: option.splits)
  obtain tr reason detail pe where m': "mg_events m' = mg_events (record_order_submitted now tr (Some d) trace (Some ap) reason detail m) @ [PositionEv pe]"
    and pe: "pe_trader_id pe = tid"
    using assms by (auto simp: execute_close_def Let_def cd record_position_event_def split: prod.splits sum.splits option.splits)
  obtain e where "mg_events (record_order_submitted now tr (Some d) trace (Some ap) reason detail m) = mg_events m @ [e]"
    "audited OrderSubmitted ap e" using record_audited unfolding record_order_submitted_def by blast
  then show ?thesis using m' pe by auto
qed

lemma approve_audited:
  assumes "approve_decision_with_audit getenv now tid d trace m = ((Inr ap, d1), m1)"
  shows "\<exists>xs e. mg_events m1 = mg_events m @ xs @ [e] \<and> audited Approved ap e"
proof -
  obtain m0 where a: "approve_decision getenv now tid d m = ((Inr ap, d1), m0)"
    and m1: "m1 = record_audit_decision_event now Approved (lookup (mg_traders m0) tid) (Some d1) trace (Some ap)
      ''policy_approved'' None [(''checks'', DTexts (ap_checks ap))] m0"
    using assms by (auto simp: approve_decision_with_audit_def split: prod.splits sum.splits)
  obtain xs where "mg_events m0 = mg_events m @ xs" using approve_decision_frame [OF a] by (auto simp: confined_def prefix_def)
  moreover obtain e where "mg_events m1 = mg_events m0 @ [e]" "audited Approved ap e" unfolding m1 using record_audited by blast
  ultimately show ?thesis by auto
qed

text \<open>C9. No trade without a trail: a trade that succeeds leaves, in this order, the approval, the submission of an
  order under that same approval, and the position event, and nothing recorded before is
  lost.\<close>

theorem trade_audited:
  assumes "execute_decision getenv P snap sha it now tid d m w = ((None, m'), w')"
    and "is_open_action (dec_action d) \<or> is_close_action (dec_action d)"
  shows "\<exists>ap xs a ys s p. mg_events m' = mg_events m @ xs @ [a] @ ys @ [s, PositionEv p] \<and>
    audited Approved ap a \<and> audited OrderSubmitted ap s \<and> pe_trader_id p = tid"
  using assms(1)
proof (cases rule: execute_decision_cases)
  case (approved trace ap d1 m1)
  have act: "is_open_action (dec_action d1) \<or> is_close_action (dec_action d1)" using approve_audit_frame [OF approved(1)] assms(2) by simp
  obtain xs a where a: "mg_events m1 = mg_events m @ xs @ [a]" "audited Approved ap a" using approve_audited [OF approved(1)] by blast
  have "\<exists>ys s p. mg_events m' = mg_events m1 @ ys @ [s, PositionEv p] \<and> audited OrderSubmitted ap s \<and> pe_trader_id p = tid"
    using approved(2)
  proof (cases rule: execute_cases)
    case (opened ap' t m2 w2)
    obtain ys where ys: "mg_events m2 = mg_events m1 @ ys" using confined_pre_open [OF opened(5)] by (auto simp: confined_def prefix_def)
    from open_audited [OF opened(6)] show ?thesis using ys opened(1) by fastforce
  next
    case (closed ap')
    from close_audited [OF closed(5)] show ?thesis using closed(1) by fastforce
  qed (use act in auto)
  then show ?thesis using a by fastforce
qed simp

end
