(* ===== verification/CommandStore.thy ===== *)
theory CommandStore
  imports Execution "HOL-Library.Product_Lexorder"
begin

text \<open>
  The durable queue of control commands: the repository (\<open>pkg/repo/control_command_repo.go\<close>), the SQL statements of its model
  (\<open>internal/model/controlcommandsmodel.go\<close>) and the constraints of the table (\<open>migrations/003_control_commands.up.sql\<close>).

  The table is the list of its rows, oldest first; each statement is one atomic step on it, which is what
  \<open>FOR UPDATE SKIP LOCKED\<close> gives to concurrent claims. A statement can fail with an error the caller supplies and then does
  nothing. The order in which a query without a complete \<open>ORDER BY\<close> returns its rows is a parameter. What
  \<open>encoding/json\<close> makes of the detail column is a parameter too, a \<open>json_codec\<close> of arbitrary functions, so that nothing shown here
  depends on it; so are the digest and the nonce of a new identifier.
  A row keeps its detail and its times as they are given; the columns are \<open>JSONB\<close> and \<open>TIMESTAMPTZ\<close>, which re-render the text of a detail and keep
  microseconds. Nothing shown here speaks of either but through the row itself, and commands of one microsecond may be claimed in another order.

  The repository refines the abstract queue of the theory's second half: a map from identifiers to statuses, where a command is created queued, moves from
  queued to processing when it is claimed and to a terminal status by an update.
\<close>

subsection \<open>Records and rows\<close>

abbreviation status_queued :: string where "status_queued \<equiv> ''queued''"
abbreviation status_processing :: string where "status_processing \<equiv> ''processing''"
abbreviation status_completed :: string where "status_completed \<equiv> ''completed''"
abbreviation status_failed :: string where "status_failed \<equiv> ''failed''"
abbreviation status_cancelled :: string where "status_cancelled \<equiv> ''cancelled''"
abbreviation target_decision :: string where "target_decision \<equiv> ''decision''"
abbreviation target_order :: string where "target_order \<equiv> ''order''"

record command =
  cm_id :: string
  cm_type :: string
  cm_target :: string
  cm_decision_id :: string
  cm_order_id :: string
  cm_trader_id :: string
  cm_action :: string
  cm_requested_by :: string
  cm_reason :: string
  cm_key :: string
  cm_correlation_id :: string
  cm_status :: string
  cm_queued :: bool
  cm_control_only :: bool
  cm_submitted :: bool
  cm_detail :: string
  cm_created_at :: time
  cm_updated_at :: time

record command_row =
  cw_id :: string
  cw_type :: string
  cw_target :: string
  cw_decision_id :: "string option"
  cw_order_id :: "string option"
  cw_trader_id :: "string option"
  cw_action :: string
  cw_requested_by :: string
  cw_reason :: string
  cw_key :: "string option"
  cw_correlation_id :: string
  cw_status :: string
  cw_queued :: bool
  cw_control_only :: bool
  cw_submitted :: bool
  cw_detail :: string
  cw_created_at :: time
  cw_updated_at :: time

type_synonym command_table = "command_row list"

text \<open>\<open>jc_normalize\<close>: the text unmarshalled into a value and marshalled again; \<open>jc_merge\<close>: unmarshalled into a map, the given members
  set, marshalled again. \<open>jc_payload\<close> and \<open>jc_decision\<close> unmarshal into the structures of the worker, \<open>jc_detail\<close> marshals its report.\<close>

record command_payload =
  pl_trader_id :: string
  pl_decision :: "decision option"
  pl_decisions :: "decision list"

record worker_detail =
  wd_command :: command
  wd_decision :: "decision option"
  wd_submitted :: bool
  wd_error :: string

record json_codec =
  jc_normalize :: "string \<Rightarrow> goerror + string"
  jc_merge :: "string \<Rightarrow> (string \<times> string) list \<Rightarrow> goerror + string"
  jc_payload :: "string \<Rightarrow> goerror + command_payload"
  jc_decision :: "string \<Rightarrow> goerror + decision"
  jc_detail :: "worker_detail \<Rightarrow> goerror + string"
  jc_jsonb :: "string \<Rightarrow> string"

definition null_string :: "string \<Rightarrow> string option" where
  "null_string s = (if trim_space s = '''' then None else Some (trim_space s))"

definition of_null :: "string option \<Rightarrow> string" where
  "of_null s = (case s of None \<Rightarrow> '''' | Some x \<Rightarrow> x)"

definition control_command_row :: "command \<Rightarrow> command_row" where
  "control_command_row r = \<lparr>cw_id = cm_id r, cw_type = cm_type r, cw_target = cm_target r,
     cw_decision_id = null_string (cm_decision_id r), cw_order_id = null_string (cm_order_id r),
     cw_trader_id = null_string (cm_trader_id r), cw_action = cm_action r, cw_requested_by = cm_requested_by r,
     cw_reason = cm_reason r, cw_key = null_string (cm_key r), cw_correlation_id = cm_correlation_id r,
     cw_status = cm_status r, cw_queued = cm_queued r, cw_control_only = cm_control_only r, cw_submitted = cm_submitted r,
     cw_detail = cm_detail r, cw_created_at = cm_created_at r, cw_updated_at = cm_updated_at r\<rparr>"

definition control_command_from_row :: "command_row \<Rightarrow> command" where
  "control_command_from_row r = \<lparr>cm_id = cw_id r, cm_type = cw_type r, cm_target = cw_target r,
     cm_decision_id = of_null (cw_decision_id r), cm_order_id = of_null (cw_order_id r),
     cm_trader_id = of_null (cw_trader_id r), cm_action = cw_action r, cm_requested_by = cw_requested_by r,
     cm_reason = cw_reason r, cm_key = of_null (cw_key r), cm_correlation_id = cw_correlation_id r,
     cm_status = cw_status r, cm_queued = cw_queued r, cm_control_only = cw_control_only r, cm_submitted = cw_submitted r,
     cm_detail = cw_detail r, cm_created_at = cw_created_at r, cm_updated_at = cw_updated_at r\<rparr>"

lemma from_row_simps [simp]:
  "cm_id (control_command_from_row r) = cw_id r" "cm_target (control_command_from_row r) = cw_target r"
  "cm_action (control_command_from_row r) = cw_action r" "cm_status (control_command_from_row r) = cw_status r"
  by (simp_all add: control_command_from_row_def)

subsection \<open>The statements\<close>

text \<open>The database: the rows, and the errors the next statements meet (none, when the list is used up).\<close>

record command_db =
  db_rows :: command_table
  db_faults :: "goerror option list"

definition next_fault :: "command_db \<Rightarrow> goerror option \<times> command_db" where
  "next_fault db = (case db_faults db of [] \<Rightarrow> (None, db) | f # fs \<Rightarrow> (f, db\<lparr>db_faults := fs\<rparr>))"

definition constraint_error :: "string \<Rightarrow> goerror" where
  "constraint_error c = Errorf ''violates constraint %s'' [c]"

text \<open>The columns of the partial unique index, when the row is in it.\<close>

definition idempotency_entry :: "command_row \<Rightarrow> (string \<times> string \<times> string \<times> string \<times> string) option" where
  "idempotency_entry r = (if of_null (cw_key r) = '''' then None
     else Some (cw_target r, of_null (cw_decision_id r), of_null (cw_order_id r), cw_action r, of_null (cw_key r)))"

definition table_guards :: "command_row \<Rightarrow> command_table \<Rightarrow> (bool \<times> goerror) list" where
  "table_guards r tbl =
    [(cw_target r \<notin> {target_decision, target_order}, constraint_error ''target''),
     (cw_action r \<notin> {''approve'', ''reject''}, constraint_error ''action''),
     (cw_status r \<notin> {status_queued, status_processing, status_completed, status_failed, status_cancelled}, constraint_error ''status''),
     (cw_decision_id r = None \<and> cw_order_id r = None, constraint_error ''ids''),
     (\<not> (cw_target r = target_decision \<and> cw_decision_id r \<noteq> None \<or> cw_target r = target_order \<and> cw_order_id r \<noteq> None),
      constraint_error ''target id''),
     (cw_id r \<in> set (map cw_id tbl), constraint_error ''primary key''),
     (idempotency_entry r \<noteq> None \<and> idempotency_entry r \<in> set (map idempotency_entry tbl), constraint_error ''idempotency'')]"

definition insert_row :: "time \<Rightarrow> command_row \<Rightarrow> command_db \<Rightarrow> goerror option \<times> command_db" where
  "insert_row now r db =
    (let created = (if is_zero_time (cw_created_at r) then now else cw_created_at r);
         updated = (if is_zero_time (cw_updated_at r) then created else cw_updated_at r);
         row = r\<lparr>cw_detail := (if trim_space (cw_detail r) = '''' then ''{}'' else cw_detail r), cw_created_at := created,
           cw_updated_at := updated\<rparr>
     in case next_fault db of
       (Some e, db1) \<Rightarrow> (Some e, db1)
     | (None, db1) \<Rightarrow> (case guards (table_guards row (db_rows db1)) of
         Some e \<Rightarrow> (Some e, db1)
       | None \<Rightarrow> (None, db1\<lparr>db_rows := db_rows db1 @ [row]\<rparr>)))"

definition not_found :: goerror where "not_found = Errorf ''sql: no rows in result set'' []"

text \<open>The order in which a statement meets its rows, where the query leaves it open: by an arbitrary rank.\<close>

type_synonym row_order = "command_row \<Rightarrow> int"

definition find_by_idempotency ::
  "row_order \<Rightarrow> string \<Rightarrow> string \<Rightarrow> string \<Rightarrow> string \<Rightarrow> command_db \<Rightarrow> (goerror + command_row) \<times> command_db" where
  "find_by_idempotency scan target0 tid0 action0 key0 db =
    (let target = to_lower (trim_space target0); tid = trim_space tid0; action = to_lower (trim_space action0); key = trim_space key0
     in if target = '''' \<or> tid = '''' \<or> action = '''' \<or> key = '''' then (Inl not_found, db)
        else case next_fault db of
          (Some e, db1) \<Rightarrow> (Inl e, db1)
        | (None, db1) \<Rightarrow> (case sort_key (\<lambda>r. - cw_created_at r) (sort_key scan (filter (\<lambda>r. cw_target r = target \<and>
              (if target = target_order then cw_order_id r else cw_decision_id r) = Some tid \<and>
              cw_action r = action \<and> cw_key r = Some key) (db_rows db1))) of
            [] \<Rightarrow> (Inl not_found, db1)
          | r # _ \<Rightarrow> (Inr r, db1)))"

record command_filter =
  cl_target :: string
  cl_status :: string
  cl_trader_id :: string
  cl_limit :: int
  cl_offset :: int

definition newest_first :: "command_table \<Rightarrow> command_table" where
  "newest_first tbl = rev (sort_key (\<lambda>r. (cw_created_at r, cw_id r)) tbl)"

definition list_rows :: "command_filter \<Rightarrow> command_db \<Rightarrow> (goerror + command_row list) \<times> command_db" where
  "list_rows f db =
    (let limit = (if cl_limit f \<le> 0 \<or> 500 < cl_limit f then 100 else cl_limit f);
         offset = (if cl_offset f < 0 then 0 else cl_offset f);
         target = to_lower (trim_space (cl_target f)); status = to_lower (trim_space (cl_status f)); tid = trim_space (cl_trader_id f)
     in case next_fault db of
       (Some e, db1) \<Rightarrow> (Inl e, db1)
     | (None, db1) \<Rightarrow> (Inr (take (nat limit) (drop (nat offset) (newest_first (filter (\<lambda>r.
          (target = '''' \<or> cw_target r = target) \<and> (status = '''' \<or> cw_status r = status) \<and>
          (tid = '''' \<or> cw_trader_id r = Some tid)) (db_rows db1))))), db1))"

definition claim_limit :: "int \<Rightarrow> nat" where
  "claim_limit limit = nat (if limit \<le> 0 \<or> 100 < limit then 10 else limit)"

definition selected_ids :: "int \<Rightarrow> command_table \<Rightarrow> string list" where
  "selected_ids limit tbl = take (claim_limit limit)
     (map cw_id (sort_key (\<lambda>r. (cw_created_at r, cw_id r)) (filter (\<lambda>r. cw_status r = status_queued) tbl)))"

definition claim_row :: "time \<Rightarrow> string list \<Rightarrow> command_row \<Rightarrow> command_row" where
  "claim_row now ids r = (if cw_id r \<in> set ids then r\<lparr>cw_status := status_processing, cw_updated_at := now\<rparr> else r)"

definition claim_rows :: "row_order \<Rightarrow> time \<Rightarrow> int \<Rightarrow> command_db \<Rightarrow> (goerror + command_row list) \<times> command_db" where
  "claim_rows scan now limit db = (case next_fault db of
     (Some e, db1) \<Rightarrow> (Inl e, db1)
   | (None, db1) \<Rightarrow>
     let ids = selected_ids limit (db_rows db1); rows = map (claim_row now ids) (db_rows db1)
     in (Inr (sort_key scan (filter (\<lambda>r. cw_id r \<in> set ids) rows)), db1\<lparr>db_rows := rows\<rparr>))"

definition settle_row :: "time \<Rightarrow> string \<Rightarrow> string \<Rightarrow> bool \<Rightarrow> string \<Rightarrow> command_row \<Rightarrow> command_row" where
  "settle_row now cid status submitted detail r = (if cw_id r = trim_space cid
     then r\<lparr>cw_status := trim_space status, cw_submitted := submitted,
       cw_detail := (if trim_space detail = '''' then ''{}'' else detail), cw_updated_at := now\<rparr> else r)"

definition update_status :: "time \<Rightarrow> string \<Rightarrow> string \<Rightarrow> bool \<Rightarrow> string \<Rightarrow> command_db \<Rightarrow> goerror option \<times> command_db" where
  "update_status now cid status submitted detail db = (case next_fault db of
     (Some e, db1) \<Rightarrow> (Some e, db1)
   | (None, db1) \<Rightarrow> (None, db1\<lparr>db_rows := map (settle_row now cid status submitted detail) (db_rows db1)\<rparr>))"

subsection \<open>The repository\<close>

definition normalize_command_detail :: "json_codec \<Rightarrow> string \<Rightarrow> goerror + string" where
  "normalize_command_detail J raw = (if trim_space raw = '''' then Inr ''{}''
     else case jc_normalize J (trim_space raw) of
       Inl e \<Rightarrow> Inl (Wrapf ''control command repo: invalid detail json: %w'' [] e)
     | Inr s \<Rightarrow> Inr s)"

definition command_target_id :: "command \<Rightarrow> string" where
  "command_target_id r = (if cm_target r = target_order then cm_order_id r else cm_decision_id r)"

text \<open>The digest \<open>sha\<close> and the eight random bytes of the identifier.\<close>

definition new_command_id :: "(string \<Rightarrow> int list) \<Rightarrow> int list \<Rightarrow> command \<Rightarrow> string" where
  "new_command_id sha nonce r = ''cmd-'' @ take 20 (hex_encode (sha (cm_target r @ ''|'' @ command_target_id r @ ''|'' @
     cm_action r @ ''|'' @ cm_key r @ ''|'' @ itoa (cm_created_at r) @ ''|'' @ hex_encode nonce)))"

definition trimmed_command :: "command \<Rightarrow> command" where
  "trimmed_command r =
    (let target = to_lower (trim_space (cm_target r)); action = to_lower (trim_space (cm_action r));
         status = to_lower (trim_space (cm_status r)); ty = trim_space (cm_type r)
     in r\<lparr>cm_target := target, cm_decision_id := trim_space (cm_decision_id r), cm_order_id := trim_space (cm_order_id r),
       cm_trader_id := trim_space (cm_trader_id r), cm_action := action, cm_requested_by := trim_space (cm_requested_by r),
       cm_reason := trim_space (cm_reason r), cm_key := trim_space (cm_key r), cm_correlation_id := trim_space (cm_correlation_id r),
       cm_status := (if status = '''' then status_queued else status),
       cm_type := (if ty = '''' \<and> target \<noteq> '''' \<and> action \<noteq> '''' then target @ ''_'' @ action else ty)\<rparr>)"

definition command_guards :: "command \<Rightarrow> (bool \<times> goerror) list" where
  "command_guards r =
    [(cm_target r = target_decision \<and> cm_decision_id r = '''', Errorf ''control command repo: decision id required'' []),
     (cm_target r = target_order \<and> cm_order_id r = '''', Errorf ''control command repo: order id required'' []),
     (cm_target r \<notin> {target_decision, target_order}, Errorf ''control command repo: unsupported target %q'' [cm_target r]),
     (cm_action r \<notin> {''approve'', ''reject''}, Errorf ''control command repo: unsupported action %q'' [cm_action r]),
     (cm_requested_by r = '''', Errorf ''control command repo: requested_by required'' []),
     (cm_reason r = '''', Errorf ''control command repo: reason required'' [])]"

definition stamped_command :: "(string \<Rightarrow> int list) \<Rightarrow> int list \<Rightarrow> time \<Rightarrow> command \<Rightarrow> command" where
  "stamped_command sha nonce now r =
    (let created = (if is_zero_time (cm_created_at r) then now else cm_created_at r);
         r1 = r\<lparr>cm_created_at := created, cm_updated_at := (if is_zero_time (cm_updated_at r) then created else cm_updated_at r)\<rparr>;
         r2 = r1\<lparr>cm_id := (if cm_id r1 = '''' then new_command_id sha nonce r1 else cm_id r1)\<rparr>
     in r2\<lparr>cm_correlation_id := (if cm_correlation_id r2 = '''' then cm_id r2 else cm_correlation_id r2),
       cm_queued := True, cm_control_only := True, cm_submitted := False\<rparr>)"

definition normalize_control_command ::
  "json_codec \<Rightarrow> (string \<Rightarrow> int list) \<Rightarrow> int list \<Rightarrow> time \<Rightarrow> command \<Rightarrow> goerror + command" where
  "normalize_control_command J sha nonce now r =
    (let r1 = trimmed_command r in case guards (command_guards r1) of
       Some e \<Rightarrow> Inl e
     | None \<Rightarrow> (case normalize_command_detail J (cm_detail r1) of
         Inl e \<Rightarrow> Inl e
       | Inr d \<Rightarrow> Inr ((stamped_command sha nonce now r1)\<lparr>cm_detail := d\<rparr>)))"

definition find_existing :: "row_order \<Rightarrow> command \<Rightarrow> command_db \<Rightarrow> (goerror + command) \<times> command_db" where
  "find_existing scan r db = (case find_by_idempotency scan (cm_target r) (command_target_id r) (cm_action r) (cm_key r) db of
     (Inl e, db1) \<Rightarrow> (Inl e, db1)
   | (Inr row, db1) \<Rightarrow> (Inr (control_command_from_row row), db1))"

text \<open>Inserting, with the second look-up when the row is refused.\<close>

definition insert_command :: "row_order \<Rightarrow> time \<Rightarrow> command \<Rightarrow> command_db \<Rightarrow> (goerror + command \<times> bool) \<times> command_db" where
  "insert_command scan now r db = (case insert_row now (control_command_row r) db of
     (None, db1) \<Rightarrow> (Inr (r, False), db1)
   | (Some e, db1) \<Rightarrow> if cm_key r = '''' then (Inl e, db1)
     else (case find_existing scan r db1 of
         (Inr c, db2) \<Rightarrow> (Inr (c, True), db2)
       | (Inl _, db2) \<Rightarrow> (Inl e, db2)))"

definition enqueue :: "json_codec \<Rightarrow> (string \<Rightarrow> int list) \<Rightarrow> row_order \<Rightarrow> int list \<Rightarrow> time \<Rightarrow> command \<Rightarrow> command_db \<Rightarrow>
    (goerror + command \<times> bool) \<times> command_db" where
  "enqueue J sha scan nonce now r db = (case normalize_control_command J sha nonce now r of
     Inl e \<Rightarrow> (Inl e, db)
   | Inr r1 \<Rightarrow> if cm_key r1 = '''' then insert_command scan now r1 db
     else (case find_existing scan r1 db of
         (Inr c, db1) \<Rightarrow> (Inr (c, True), db1)
       | (Inl e, db1) \<Rightarrow> if errors_is e not_found then insert_command scan now r1 db1 else (Inl e, db1)))"

definition list_commands :: "command_filter \<Rightarrow> command_db \<Rightarrow> (goerror + command list) \<times> command_db" where
  "list_commands f db = (case list_rows f db of
     (Inl e, db1) \<Rightarrow> (Inl e, db1) | (Inr rows, db1) \<Rightarrow> (Inr (map control_command_from_row rows), db1))"

definition claim_queued :: "row_order \<Rightarrow> time \<Rightarrow> int \<Rightarrow> command_db \<Rightarrow> (goerror + command list) \<times> command_db" where
  "claim_queued scan now limit db = (case claim_rows scan now limit db of
     (Inl e, db1) \<Rightarrow> (Inl e, db1) | (Inr rows, db1) \<Rightarrow> (Inr (map control_command_from_row rows), db1))"

text \<open>\<open>time.RFC3339Nano\<close>.\<close>

definition strip_zeros :: "string \<Rightarrow> string" where
  "strip_zeros s = rev (dropWhile (\<lambda>c. c = CHR ''0'') (rev s))"

definition format_rfc3339_nano :: "time \<Rightarrow> string" where
  "format_rfc3339_nano t = (let ns = t mod day_length; secs = ns div second; frac = strip_zeros (pad_int 9 (ns mod second)) in
     format_date t @ ''T'' @ pad_int 2 (secs div 3600) @ '':'' @ pad_int 2 (secs div 60 mod 60) @ '':'' @ pad_int 2 (secs mod 60) @
     (if frac = '''' then '''' else ''.'' @ frac) @ ''Z'')"

definition terminal_detail :: "json_codec \<Rightarrow> time \<Rightarrow> string \<Rightarrow> string \<Rightarrow> goerror + string" where
  "terminal_detail J now reason raw =
    (case jc_merge J (trim_space raw) ((if trim_space reason = '''' then [] else [(''terminal_reason'', trim_space reason)]) @
        [(''terminal_at'', format_rfc3339_nano now)]) of
       Inl e \<Rightarrow> Inl (Wrapf ''control command repo: invalid terminal detail json: %w'' [] e)
     | Inr s \<Rightarrow> Inr s)"

definition update_terminal ::
  "json_codec \<Rightarrow> time \<Rightarrow> string \<Rightarrow> string \<Rightarrow> bool \<Rightarrow> string \<Rightarrow> string \<Rightarrow> command_db \<Rightarrow> goerror option \<times> command_db" where
  "update_terminal J now cid status submitted reason detail db = (case terminal_detail J now reason detail of
     Inl e \<Rightarrow> (Some e, db)
   | Inr payload \<Rightarrow> update_status now (trim_space cid) status submitted payload db)"

text \<open>The interface the worker sees, \<open>ControlCommandRepository\<close>, over a state \<open>'r\<close>; the operations read the clock.\<close>

record 'r command_repo =
  rp_enqueue :: "int list \<Rightarrow> time \<Rightarrow> command \<Rightarrow> 'r \<Rightarrow> (goerror + command \<times> bool) \<times> 'r"
  rp_list :: "command_filter \<Rightarrow> 'r \<Rightarrow> (goerror + command list) \<times> 'r"
  rp_claim_queued :: "time \<Rightarrow> int \<Rightarrow> 'r \<Rightarrow> (goerror + command list) \<times> 'r"
  rp_complete :: "time \<Rightarrow> string \<Rightarrow> bool \<Rightarrow> string \<Rightarrow> 'r \<Rightarrow> goerror option \<times> 'r"
  rp_fail :: "time \<Rightarrow> string \<Rightarrow> string \<Rightarrow> string \<Rightarrow> 'r \<Rightarrow> goerror option \<times> 'r"
  rp_cancel :: "time \<Rightarrow> string \<Rightarrow> string \<Rightarrow> string \<Rightarrow> 'r \<Rightarrow> goerror option \<times> 'r"

definition store_repo :: "json_codec \<Rightarrow> (string \<Rightarrow> int list) \<Rightarrow> row_order \<Rightarrow> command_db command_repo" where
  "store_repo J sha scan = \<lparr>rp_enqueue = enqueue J sha scan, rp_list = list_commands, rp_claim_queued = claim_queued scan,
     rp_complete = (\<lambda>now cid submitted detail. update_terminal J now cid status_completed submitted '''' detail),
     rp_fail = (\<lambda>now cid reason detail. update_terminal J now cid status_failed False reason detail),
     rp_cancel = (\<lambda>now cid reason detail. update_terminal J now cid status_cancelled False reason detail)\<rparr>"

subsection \<open>The abstract queue\<close>

text \<open>Of a command the abstract queue knows its target, its action and its status. Three things can happen to it: new commands appear, a set of
  queued commands is claimed, and a command gets a terminal status.\<close>

type_synonym queue_view = "string \<Rightarrow> (string \<times> string \<times> string) option"

definition restatus :: "string \<Rightarrow> (string \<times> string \<times> string) option \<Rightarrow> (string \<times> string \<times> string) option" where
  "restatus st x = map_option (\<lambda>(t, a, _). (t, a, st)) x"

lemma restatus_simps [simp]:
  "restatus st None = None" "restatus st (Some (t, a, s)) = Some (t, a, st)" "restatus s2 (restatus s1 x) = restatus s2 x"
  "restatus st x = None \<longleftrightarrow> x = None"
  "restatus st x = Some (t, a, s) \<longleftrightarrow> s = st \<and> (\<exists>s0. x = Some (t, a, s0))"
  by (cases x; auto simp: restatus_def)+

definition view_grows :: "queue_view \<Rightarrow> queue_view \<Rightarrow> bool" where
  "view_grows v v' \<longleftrightarrow> (\<forall>i. v i \<noteq> None \<longrightarrow> v' i = v i)"

definition view_claims :: "command list \<Rightarrow> queue_view \<Rightarrow> queue_view \<Rightarrow> bool" where
  "view_claims cs v v' \<longleftrightarrow> distinct (map cm_id cs) \<and>
     (\<forall>c \<in> set cs. v (cm_id c) = Some (cm_target c, cm_action c, status_queued)) \<and>
     (\<forall>i. v' i = (if i \<in> cm_id ` set cs then restatus status_processing (v i) else v i))"

definition view_settles :: "string \<Rightarrow> string \<Rightarrow> queue_view \<Rightarrow> queue_view \<Rightarrow> bool" where
  "view_settles cid status v v' \<longleftrightarrow>
     (\<forall>i. v' i = v i \<or> i = cid \<and> v' i = restatus status (v i))"

locale command_repository =
  fixes R :: "'r command_repo" and view :: "'r \<Rightarrow> queue_view" and rinv :: "'r \<Rightarrow> bool"
  assumes enqueue_law: "rp_enqueue R nonce now c s = (res, s') \<Longrightarrow> rinv s \<Longrightarrow> rinv s' \<and> view_grows (view s) (view s')"
    and claim_law: "rp_claim_queued R now n s = (Inr cs, s') \<Longrightarrow> rinv s \<Longrightarrow> rinv s' \<and> view_claims cs (view s) (view s')"
    and claim_error: "rp_claim_queued R now n s = (Inl e, s') \<Longrightarrow> rinv s \<Longrightarrow> rinv s' \<and> view s' = view s"
    and complete_law: "rp_complete R now cid b d s = (r, s') \<Longrightarrow> rinv s \<Longrightarrow> rinv s' \<and> view_settles (trim_space cid) status_completed (view s) (view s')"
    and fail_law: "rp_fail R now cid x d s = (r, s') \<Longrightarrow> rinv s \<Longrightarrow> rinv s' \<and> view_settles (trim_space cid) status_failed (view s) (view s')"
    and cancel_law: "rp_cancel R now cid x d s = (r, s') \<Longrightarrow> rinv s \<Longrightarrow> rinv s' \<and> view_settles (trim_space cid) status_cancelled (view s) (view s')"

text \<open>The table as an abstract queue.\<close>

definition row_view :: "command_row \<Rightarrow> string \<times> string \<times> string" where
  "row_view r = (cw_target r, cw_action r, cw_status r)"

definition store_view :: "command_db \<Rightarrow> queue_view" where
  "store_view db i = map_option row_view (find (\<lambda>r. cw_id r = i) (db_rows db))"

definition store_inv :: "command_db \<Rightarrow> bool" where
  "store_inv db \<longleftrightarrow> distinct (map cw_id (db_rows db))"

lemma next_fault_rows [simp]: "db_rows (snd (next_fault db)) = db_rows db"
  by (simp add: next_fault_def split: list.splits)

lemma next_faultE:
  assumes "next_fault db = (x, db1)" shows "db_rows db1 = db_rows db"
  using next_fault_rows [of db] assms by simp

lemma find_by_idempotency_rows: "find_by_idempotency scan a b c d db = (x, db') \<Longrightarrow> db_rows db' = db_rows db"
  by (auto simp: find_by_idempotency_def Let_def split: if_splits prod.splits option.splits list.splits dest: next_faultE)

lemma find_existing_rows: "find_existing scan r db = (x, db') \<Longrightarrow> db_rows db' = db_rows db"
  by (auto simp: find_existing_def split: prod.splits sum.splits dest: find_by_idempotency_rows)

lemma insert_row_rows:
  assumes "insert_row now r db = (x, db')"
  shows "db_rows db' = db_rows db \<or> (\<exists>row. db_rows db' = db_rows db @ [row] \<and> cw_id row \<notin> set (map cw_id (db_rows db)))"
proof -
  obtain f db1 where n: "next_fault db = (f, db1)" by fastforce
  obtain row where row: "insert_row now r db = (case next_fault db of (Some e, db1) \<Rightarrow> (Some e, db1)
     | (None, db1) \<Rightarrow> (case guards (table_guards row (db_rows db1)) of
         Some e \<Rightarrow> (Some e, db1) | None \<Rightarrow> (None, db1\<lparr>db_rows := db_rows db1 @ [row]\<rparr>)))"
    by (simp add: insert_row_def Let_def)
  show ?thesis
  proof (cases "f = None \<and> guards (table_guards row (db_rows db1)) = None")
    case True
    then have "cw_id row \<notin> set (map cw_id (db_rows db1))" by (simp add: guards_None table_guards_def)
    moreover have "db_rows db' = db_rows db1 @ [row]" using assms True by (simp add: row n) (auto)
    ultimately show ?thesis using next_faultE [OF n] by metis
  next
    case False
    then have "db' = db1" using assms by (auto simp: row n split: option.splits)
    then show ?thesis using next_faultE [OF n] by simp
  qed
qed

lemma insert_command_rows:
  assumes "insert_command scan now r db = (x, db')"
  shows "db_rows db' = db_rows db \<or> (\<exists>row. db_rows db' = db_rows db @ [row] \<and> cw_id row \<notin> set (map cw_id (db_rows db)))"
proof -
  obtain e db1 where i: "insert_row now (control_command_row r) db = (e, db1)" by fastforce
  have "db_rows db' = db_rows db1"
    using assms by (auto simp: insert_command_def i split: option.splits if_splits prod.splits sum.splits dest: find_existing_rows)
  then show ?thesis using insert_row_rows [OF i] by simp
qed

lemma enqueue_rows:
  assumes "enqueue J sha scan nonce now c db = (x, db')"
  shows "db_rows db' = db_rows db \<or> (\<exists>row. db_rows db' = db_rows db @ [row] \<and> cw_id row \<notin> set (map cw_id (db_rows db)))"
proof (cases "normalize_control_command J sha nonce now c")
  case (Inl e)
  then show ?thesis using assms by (simp add: enqueue_def)
next
  case (Inr r1)
  obtain y db1 where f: "find_existing scan r1 db = (y, db1)" by fastforce
  have "db_rows db1 = db_rows db" using find_existing_rows [OF f] .
  then show ?thesis using assms insert_command_rows [of scan now r1 db x db'] insert_command_rows [of scan now r1 db1 x db']
    by (auto simp: enqueue_def Inr f split: if_splits sum.splits)
qed

lemma find_append_new: "find P xs \<noteq> None \<Longrightarrow> find P (xs @ ys) = find P xs"
  by (induction xs) auto

lemma find_map_same: "(\<And>x. P (f x) = P x) \<Longrightarrow> find P (map f xs) = map_option f (find P xs)"
  by (induction xs) auto

lemma find_id: "distinct (map cw_id rows) \<Longrightarrow> find (\<lambda>r. cw_id r = i) rows = Some r \<longleftrightarrow> r \<in> set rows \<and> cw_id r = i"
  by (induction rows) auto

lemma store_enqueue:
  assumes "enqueue J sha scan nonce now c db = (x, db')" "store_inv db"
  shows "store_inv db' \<and> view_grows (store_view db) (store_view db')"
  using enqueue_rows [OF assms(1)] assms(2)
  by (auto simp: store_inv_def view_grows_def store_view_def find_append_new)

lemma claim_row_simps [simp]:
  "cw_id (claim_row now ids r) = cw_id r" "cw_target (claim_row now ids r) = cw_target r"
  "cw_action (claim_row now ids r) = cw_action r"
  "cw_status (claim_row now ids r) = (if cw_id r \<in> set ids then status_processing else cw_status r)"
  by (simp_all add: claim_row_def)

lemma settle_row_simps [simp]:
  "cw_id (settle_row now cid st sub d r) = cw_id r" "cw_target (settle_row now cid st sub d r) = cw_target r"
  "cw_action (settle_row now cid st sub d r) = cw_action r"
  "cw_status (settle_row now cid st sub d r) = (if cw_id r = trim_space cid then trim_space st else cw_status r)"
  by (simp_all add: settle_row_def)

lemma store_view_map:
  assumes "db_rows db' = map f (db_rows db)" "\<And>r. cw_id (f r) = cw_id r" "\<And>r. cw_id r = i \<Longrightarrow> row_view (f r) = g (row_view r)"
  shows "store_view db' i = map_option g (store_view db i)"
  using assms by (cases "find (\<lambda>r. cw_id r = i) (db_rows db)") (auto simp: store_view_def find_map_same dest: find_SomeD)

lemma store_settle:
  assumes "update_terminal J now cid status b x d db = (r, db')" "store_inv db" "trim_space status = status"
  shows "store_inv db' \<and> view_settles (trim_space cid) status (store_view db) (store_view db')"
proof -
  have "db_rows db' = db_rows db \<or> (\<exists>sub det. db_rows db' = map (settle_row now (trim_space cid) status sub det) (db_rows db))"
  proof (cases "terminal_detail J now x d")
    case (Inl e)
    then show ?thesis using assms(1) by (simp add: update_terminal_def)
  next
    case (Inr p)
    obtain f db1 where n: "next_fault db = (f, db1)" by fastforce
    have "db_rows db' = db_rows db \<or> db_rows db' = map (settle_row now (trim_space cid) status b p) (db_rows db)"
      using assms(1) next_faultE [OF n] Inr by (cases f) (auto simp: update_terminal_def update_status_def n)
    then show ?thesis by blast
  qed
  then consider (same) "db_rows db' = db_rows db"
    | (new) sub det where "db_rows db' = map (settle_row now (trim_space cid) status sub det) (db_rows db)" by blast
  then show ?thesis
  proof cases
    case same
    then show ?thesis using assms(2) by (simp add: store_inv_def view_settles_def store_view_def)
  next
    case new
    have "store_view db' i = map_option (\<lambda>(t, a, s). (t, a, if i = trim_space cid then status else s)) (store_view db i)" for i
      by (rule store_view_map [OF new]) (simp_all add: row_view_def assms(3))
    moreover have "distinct (map cw_id (db_rows db'))" using assms(2) by (simp add: new store_inv_def comp_def)
    ultimately show ?thesis by (auto simp: store_inv_def view_settles_def restatus_def map_option_case split: option.splits)
  qed
qed

lemma selected_queued:
  assumes "i \<in> set (selected_ids n rows)"
  shows "\<exists>r \<in> set rows. cw_id r = i \<and> cw_status r = status_queued"
  using assms by (auto simp: selected_ids_def dest!: in_set_takeD)

lemma store_claim:
  assumes "claim_queued scan now n db = (Inr cs, db')" "store_inv db"
  shows "store_inv db' \<and> view_claims cs (store_view db) (store_view db')"
proof -
  let ?ids = "selected_ids n (db_rows db)" and ?rows = "map (claim_row now (selected_ids n (db_rows db))) (db_rows db)"
  have rows: "db_rows db' = ?rows" and cs: "cs = map control_command_from_row (sort_key scan (filter (\<lambda>r. cw_id r \<in> set ?ids) ?rows))"
    using assms(1) by (auto simp: claim_queued_def claim_rows_def Let_def split: prod.splits sum.splits option.splits dest: next_faultE)
  have d: "distinct (map cw_id (db_rows db))" using assms(2) by (simp add: store_inv_def)
  have dr: "distinct (map cw_id ?rows)" using d by (simp add: comp_def)
  have ids: "map cm_id cs = map cw_id (sort_key scan (filter (\<lambda>r. cw_id r \<in> set ?ids) ?rows))"
    by (simp add: cs comp_def)
  have "mset (map cm_id cs) = mset (map cw_id (filter (\<lambda>r. cw_id r \<in> set ?ids) ?rows))"
    unfolding ids mset_map by simp
  moreover have "distinct (map cw_id (filter (\<lambda>r. cw_id r \<in> set ?ids) ?rows))" using dr by (rule distinct_map_filter)
  ultimately have dcs: "distinct (map cm_id cs)" by (metis mset_eq_imp_distinct_iff)
  have mem: "c \<in> set cs \<longleftrightarrow> (\<exists>r \<in> set (db_rows db). cw_id r \<in> set ?ids \<and> c = control_command_from_row (claim_row now ?ids r))" for c
    by (auto simp: cs)
  have view: "store_view db i = Some (row_view r)" if "r \<in> set (db_rows db)" "cw_id r = i" for i r
    using that d by (auto simp: store_view_def find_id)
  have q: "cw_status r = status_queued" if "r \<in> set (db_rows db)" "cw_id r \<in> set ?ids" for r
    using selected_queued [OF that(2)] that(1) d by (metis find_id option.inject)
  have "i \<in> cm_id ` set cs \<longleftrightarrow> i \<in> set ?ids" for i
    using mem selected_queued [of i n "db_rows db"] by (auto simp: image_iff) (metis claim_row_simps(1) from_row_simps(1))
  moreover have "store_view db' i = map_option (\<lambda>(t, a, s). (t, a, if i \<in> set ?ids then status_processing else s)) (store_view db i)" for i
    by (rule store_view_map [OF rows]) (simp_all add: row_view_def)
  moreover have "store_view db (cm_id c) = Some (cm_target c, cm_action c, status_queued)" if "c \<in> set cs" for c
    using that mem view q by (auto simp: row_view_def)
  ultimately show ?thesis using dcs dr rows
    by (auto simp: store_inv_def view_claims_def restatus_def option.map_id split: option.splits)
qed

lemma store_claim_error: "claim_queued scan now n db = (Inl e, db') \<Longrightarrow> db_rows db' = db_rows db"
  by (auto simp: claim_queued_def claim_rows_def Let_def split: prod.splits sum.splits option.splits dest: next_faultE)

lemma status_trim:
  "trim_space status_completed = status_completed" "trim_space status_failed = status_failed"
  "trim_space status_cancelled = status_cancelled"
  by code_simp+

interpretation store: command_repository "store_repo J sha scan" store_view store_inv
proof
  fix nonce now c s res s' assume "rp_enqueue (store_repo J sha scan) nonce now c s = (res, s')" "store_inv s"
  then show "store_inv s' \<and> view_grows (store_view s) (store_view s')" using store_enqueue by (simp add: store_repo_def)
next
  fix now n s cs s' assume "rp_claim_queued (store_repo J sha scan) now n s = (Inr cs, s')" "store_inv s"
  then show "store_inv s' \<and> view_claims cs (store_view s) (store_view s')" using store_claim by (simp add: store_repo_def)
next
  fix now n s e s' assume "rp_claim_queued (store_repo J sha scan) now n s = (Inl e, s')" "store_inv s"
  then show "store_inv s' \<and> store_view s' = store_view s"
    using store_claim_error by (simp add: store_repo_def store_inv_def store_view_def fun_eq_iff)
qed (simp add: store_repo_def, erule store_settle, assumption, simp add: status_trim)+

subsection \<open>Idempotency\<close>

text \<open>The look-up key of a command, and whether the table has a row for it.\<close>

definition command_key :: "command \<Rightarrow> string \<times> string \<times> string \<times> string" where
  "command_key c = (let r = trimmed_command c in (cm_target r, command_target_id r, cm_action r, cm_key r))"

definition row_has_key :: "string \<times> string \<times> string \<times> string \<Rightarrow> command_row \<Rightarrow> bool" where
  "row_has_key k r = (case k of (t, i, a, key) \<Rightarrow> cw_target r = t \<and> (if t = target_order then cw_order_id r else cw_decision_id r) = Some i \<and>
     cw_action r = a \<and> cw_key r = Some key)"

definition has_key :: "string \<times> string \<times> string \<times> string \<Rightarrow> command_db \<Rightarrow> bool" where
  "has_key k db \<longleftrightarrow> (\<exists>r \<in> set (db_rows db). row_has_key k r)"

text \<open>The operations of the repository as steps.\<close>

inductive db_step :: "command_db \<Rightarrow> command_db \<Rightarrow> bool" where
  db_enqueue: "enqueue J sha scan nonce now c db = (res, db') \<Longrightarrow> db_step db db'"
| db_claim: "claim_queued scan now n db = (res, db') \<Longrightarrow> db_step db db'"
| db_settle: "update_terminal J now cid status b x d db = (res, db') \<Longrightarrow> db_step db db'"

lemma row_has_key_claim [simp]: "row_has_key k (claim_row now ids r) = row_has_key k r"
  by (simp add: row_has_key_def claim_row_def split: prod.splits)

lemma row_has_key_settle [simp]: "row_has_key k (settle_row now cid st b d r) = row_has_key k r"
  by (simp add: row_has_key_def settle_row_def split: prod.splits)

lemma db_step_keeps_key:
  assumes "db_step db db'" "has_key k db" shows "has_key k db'"
  using assms(1)
proof cases
  case (db_enqueue J sha scan nonce now c res)
  from enqueue_rows [OF this] show ?thesis using assms(2) by (auto simp: has_key_def)
next
  case (db_claim scan now n res)
  have "db_rows db' = db_rows db \<or> (\<exists>ids. db_rows db' = map (claim_row now ids) (db_rows db))"
  proof -
    obtain f db1 where n: "next_fault db = (f, db1)" by fastforce
    show ?thesis using db_claim next_faultE [OF n] by (cases f) (auto simp: claim_queued_def claim_rows_def n Let_def)
  qed
  then show ?thesis using assms(2) by (auto simp: has_key_def)
next
  case (db_settle J now cid status b x d res)
  have "db_rows db' = db_rows db \<or> (\<exists>p. db_rows db' = map (settle_row now (trim_space cid) status b p) (db_rows db))"
  proof -
    obtain f db1 where n: "next_fault db = (f, db1)" by fastforce
    show ?thesis using db_settle next_faultE [OF n]
      by (cases f; cases "terminal_detail J now x d") (auto simp: update_terminal_def update_status_def n)
  qed
  then show ?thesis using assms(2) by (auto simp: has_key_def)
qed

lemma db_steps_keep_key: "db_step\<^sup>*\<^sup>* db db' \<Longrightarrow> has_key k db \<Longrightarrow> has_key k db'"
  by (induction rule: rtranclp_induct) (auto intro: db_step_keeps_key)

lemma normalized_key:
  assumes "normalize_control_command J sha nonce now c = Inr r"
  shows "(cm_target r, command_target_id r, cm_action r, cm_key r) = command_key c"
    and "to_lower (trim_space (cm_target r)) = cm_target r" "to_lower (trim_space (cm_action r)) = cm_action r"
    and "trim_space (command_target_id r) = command_target_id r" "trim_space (cm_key r) = cm_key r"
    and "cm_target r \<in> {target_decision, target_order}" "cm_action r \<in> {''approve'', ''reject''}" "command_target_id r \<noteq> ''''"
proof -
  obtain d where r: "r = (stamped_command sha nonce now (trimmed_command c))\<lparr>cm_detail := d\<rparr>"
    and g: "guards (command_guards (trimmed_command c)) = None"
    using assms by (auto simp: normalize_control_command_def Let_def split: option.splits sum.splits)
  have eq: "cm_target r = cm_target (trimmed_command c)" "cm_action r = cm_action (trimmed_command c)"
    "command_target_id r = command_target_id (trimmed_command c)" "cm_key r = cm_key (trimmed_command c)"
    by (simp_all add: r stamped_command_def command_target_id_def Let_def)
  show "(cm_target r, command_target_id r, cm_action r, cm_key r) = command_key c" by (simp add: eq command_key_def Let_def)
  show "to_lower (trim_space (cm_target r)) = cm_target r" "to_lower (trim_space (cm_action r)) = cm_action r"
    "trim_space (command_target_id r) = command_target_id r" "trim_space (cm_key r) = cm_key r"
    unfolding eq by (simp_all add: trimmed_command_def command_target_id_def Let_def trim_to_lower)
  show "cm_target r \<in> {target_decision, target_order}" "cm_action r \<in> {''approve'', ''reject''}" "command_target_id r \<noteq> ''''"
    using g unfolding eq by (auto simp: guards_None command_guards_def command_target_id_def)
qed

text \<open>The look-up of a normalized command.\<close>

lemma find_existing_normalized:
  assumes "normalize_control_command J sha nonce now c = Inr r" "cm_key r \<noteq> ''''"
  shows "find_existing scan r db = (case next_fault db of
      (Some e, db1) \<Rightarrow> (Inl e, db1)
    | (None, db1) \<Rightarrow> (case sort_key (\<lambda>r. - cw_created_at r) (sort_key scan (filter (row_has_key (command_key c)) (db_rows db1))) of
        [] \<Rightarrow> (Inl not_found, db1) | row # _ \<Rightarrow> (Inr (control_command_from_row row), db1)))"
proof -
  note n = normalized_key [OF assms(1)]
  have k: "row_has_key (command_key c) = (\<lambda>x. cw_target x = cm_target r \<and> (if cm_target r = target_order then cw_order_id x else cw_decision_id x) =
      Some (command_target_id r) \<and> cw_action x = cm_action r \<and> cw_key x = Some (cm_key r))"
    by (rule ext) (simp add: row_has_key_def n(1) [symmetric])
  have ne: "\<not> (cm_target r = '''' \<or> command_target_id r = '''' \<or> cm_action r = '''' \<or> cm_key r = '''')" using n(6-8) assms(2) by auto
  show ?thesis
    unfolding find_existing_def find_by_idempotency_def Let_def n(2-5) k if_not_P [OF ne]
    by (simp split: prod.splits option.splits list.splits)
qed

lemma has_key_found:
  assumes "normalize_control_command J sha nonce now c = Inr r" "db_faults db = []" "cm_key r \<noteq> ''''" "has_key (command_key c) db"
  shows "\<exists>c'. find_existing scan r db = (Inr c', db)"
proof -
  let ?rows = "sort_key (\<lambda>r. - cw_created_at r) (sort_key scan (filter (row_has_key (command_key c)) (db_rows db)))"
  have "set ?rows \<noteq> {}" using assms(4) by (auto simp: has_key_def)
  then obtain a as where "?rows = a # as" by (cases ?rows) auto
  then show ?thesis using assms(2) by (simp add: find_existing_normalized [OF assms(1,3)] next_fault_def)
qed

lemma find_existing_has_key:
  assumes "normalize_control_command J sha nonce now c = Inr r" "cm_key r \<noteq> ''''" "find_existing scan r db = (Inr c', db')"
  shows "has_key (command_key c) db'"
proof -
  let ?rows = "\<lambda>db. sort_key (\<lambda>r. - cw_created_at r) (sort_key scan (filter (row_has_key (command_key c)) (db_rows db)))"
  have "\<exists>a as. ?rows db' = a # as"
    using assms(3) unfolding find_existing_normalized [OF assms(1,2)] by (auto split: prod.splits option.splits list.splits)
  then have "set (?rows db') \<noteq> {}" by (metis list.set_intros(1) empty_iff)
  then show ?thesis by (simp add: has_key_def) blast
qed

lemma insert_has_key:
  assumes "normalize_control_command J sha nonce now c = Inr r" "insert_row t (control_command_row r) db = (None, db')" "cm_key r \<noteq> ''''"
  shows "has_key (command_key c) db'"
proof -
  note n = normalized_key [OF assms(1)]
  obtain row where row: "row \<in> set (db_rows db')" "cw_target row = cm_target r" "cw_action row = cm_action r" "cw_key row = null_string (cm_key r)"
    "cw_decision_id row = null_string (cm_decision_id r)" "cw_order_id row = null_string (cm_order_id r)"
  proof -
    obtain e db1 where nf: "next_fault db = (e, db1)" by fastforce
    have "\<exists>x y z. db_rows db' = db_rows db1 @ [(control_command_row r)\<lparr>cw_detail := x, cw_created_at := y, cw_updated_at := z\<rparr>]"
    proof -
      let ?row = "\<lambda>x y z. (control_command_row r)\<lparr>cw_detail := x, cw_created_at := y, cw_updated_at := z\<rparr>"
      obtain x y z where "insert_row t (control_command_row r) db = (case next_fault db of (Some e, db1) \<Rightarrow> (Some e, db1)
          | (None, db1) \<Rightarrow> (case guards (table_guards (?row x y z) (db_rows db1)) of
              Some e \<Rightarrow> (Some e, db1) | None \<Rightarrow> (None, db1\<lparr>db_rows := db_rows db1 @ [?row x y z]\<rparr>)))"
        by (simp only: insert_row_def Let_def)
      then have "db_rows db' = db_rows db1 @ [?row x y z]" using assms(2) by (cases e) (auto simp: nf split: option.splits)
      then show ?thesis by blast
    qed
    then obtain x y z where "db_rows db' = db_rows db1 @ [(control_command_row r)\<lparr>cw_detail := x, cw_created_at := y, cw_updated_at := z\<rparr>]"
      by blast
    then show thesis by (intro that [of "(control_command_row r)\<lparr>cw_detail := x, cw_created_at := y, cw_updated_at := z\<rparr>"])
      (simp_all add: control_command_row_def)
  qed
  have "row_has_key (command_key c) row"
    unfolding n(1) [symmetric] using row n(4-8) assms(3) by (auto simp: row_has_key_def null_string_def command_target_id_def)
  then show ?thesis using row(1) by (auto simp: has_key_def)
qed

lemma enqueue_has_key:
  assumes "enqueue J sha scan nonce now c db = (Inr (c1, b), db1)" "trim_space (cm_key c) \<noteq> ''''"
  shows "has_key (command_key c) db1"
proof -
  obtain r where r: "normalize_control_command J sha nonce now c = Inr r" using assms(1) by (auto simp: enqueue_def split: sum.splits)
  have key: "cm_key r \<noteq> ''''"
    using normalized_key(1) [OF r] assms(2) by (auto simp: command_key_def Let_def trimmed_command_def)
  have ins: "has_key (command_key c) db1" if "insert_command scan now r db0 = (Inr (c1, b), db1)" for db0
  proof -
    obtain e db2 where i: "insert_row now (control_command_row r) db0 = (e, db2)" by fastforce
    show ?thesis
    proof (cases e)
      case None
      then show ?thesis using that i insert_has_key [OF r _ key] by (simp add: insert_command_def)
    next
      case (Some x)
      obtain y db3 where f: "find_existing scan r db2 = (y, db3)" by fastforce
      then have "find_existing scan r db2 = (Inr c1, db1)" using that i Some key by (cases y) (auto simp: insert_command_def)
      then show ?thesis using find_existing_has_key [OF r key] by blast
    qed
  qed
  obtain y db2 where f: "find_existing scan r db = (y, db2)" by fastforce
  show ?thesis
  proof (cases y)
    case (Inl e)
    then show ?thesis using assms(1) ins r key f by (auto simp: enqueue_def split: if_splits)
  next
    case (Inr c')
    then have "find_existing scan r db = (Inr c1, db1)" using assms(1) r key f by (simp add: enqueue_def)
    then show ?thesis using find_existing_has_key [OF r key] by blast
  qed
qed

text \<open>What of a command never changes once it is stored: everything but its status, its detail and its times.\<close>

definition command_origin :: "command \<Rightarrow> string list" where
  "command_origin c = [cm_id c, cm_type c, cm_target c, cm_decision_id c, cm_order_id c, cm_trader_id c, cm_action c, cm_requested_by c, cm_reason c,
     cm_key c, cm_correlation_id c]"

definition key_rows :: "string \<times> string \<times> string \<times> string \<Rightarrow> command_db \<Rightarrow> command_row list" where
  "key_rows k db = filter (row_has_key k) (db_rows db)"

definition holds_only :: "string \<times> string \<times> string \<times> string \<Rightarrow> string list \<Rightarrow> command_db \<Rightarrow> bool" where
  "holds_only k orig db \<longleftrightarrow> (\<exists>r. key_rows k db = [r] \<and> command_origin (control_command_from_row r) = orig)"

text \<open>No failing statement pretends that there are no rows.\<close>

definition honest_faults :: "command_db \<Rightarrow> bool" where
  "honest_faults db \<longleftrightarrow> list_all (\<lambda>f. case f of Some e \<Rightarrow> \<not> errors_is e not_found | None \<Rightarrow> True) (db_faults db)"

lemma origin_claim [simp]: "command_origin (control_command_from_row (claim_row now ids r)) = command_origin (control_command_from_row r)"
  by (simp add: command_origin_def control_command_from_row_def claim_row_def)

lemma origin_settle [simp]: "command_origin (control_command_from_row (settle_row now cid st b d r)) = command_origin (control_command_from_row r)"
  by (simp add: command_origin_def control_command_from_row_def settle_row_def)

lemma row_key_unique: "row_has_key k r \<Longrightarrow> row_has_key k' r \<Longrightarrow> k = k'"
  by (cases k; cases k') (auto simp: row_has_key_def split: if_splits)

text \<open>Faults are only used up.\<close>

lemma next_honest: "next_fault db = (f, db1) \<Longrightarrow> honest_faults db \<Longrightarrow> honest_faults db1 \<and> (\<forall>e. f = Some e \<longrightarrow> \<not> errors_is e not_found)"
  by (cases "db_faults db") (auto simp: next_fault_def honest_faults_def)

lemma find_honest: "find_existing scan r db = (x, db1) \<Longrightarrow> honest_faults db \<Longrightarrow> honest_faults db1"
  by (auto simp: find_existing_def find_by_idempotency_def Let_def split: prod.splits sum.splits option.splits list.splits if_splits dest: next_honest)

lemma insert_row_cases:
  assumes "insert_row now r db = (x, db')" "honest_faults db"
  shows "honest_faults db' \<and> (case x of Some e \<Rightarrow> db_rows db' = db_rows db
    | None \<Rightarrow> \<exists>d t u. db_rows db' = db_rows db @ [r\<lparr>cw_detail := d, cw_created_at := t, cw_updated_at := u\<rparr>])"
proof -
  obtain f db1 where n: "next_fault db = (f, db1)" by fastforce
  obtain d t u where row: "insert_row now r db = (case next_fault db of (Some e, db1) \<Rightarrow> (Some e, db1)
     | (None, db1) \<Rightarrow> (case guards (table_guards (r\<lparr>cw_detail := d, cw_created_at := t, cw_updated_at := u\<rparr>) (db_rows db1)) of
         Some e \<Rightarrow> (Some e, db1) | None \<Rightarrow> (None, db1\<lparr>db_rows := db_rows db1 @ [r\<lparr>cw_detail := d, cw_created_at := t, cw_updated_at := u\<rparr>]\<rparr>)))"
    by (simp only: insert_row_def Let_def)
  have h: "honest_faults db1" "db_rows db1 = db_rows db" using next_honest [OF n assms(2)] next_faultE [OF n] by simp_all
  have "(\<exists>e. x = Some e \<and> db' = db1) \<or>
      (x = None \<and> db' = db1\<lparr>db_rows := db_rows db1 @ [r\<lparr>cw_detail := d, cw_created_at := t, cw_updated_at := u\<rparr>]\<rparr>)"
    using assms(1) unfolding row n by (auto split: option.splits)
  then show ?thesis
  proof
    assume "\<exists>e. x = Some e \<and> db' = db1"
    then show ?thesis using h by auto
  next
    assume "x = None \<and> db' = db1\<lparr>db_rows := db_rows db1 @ [r\<lparr>cw_detail := d, cw_created_at := t, cw_updated_at := u\<rparr>]\<rparr>"
    then show ?thesis using h by (auto simp: honest_faults_def)
  qed
qed

lemma stored_origin:
  assumes "normalize_control_command J sha nonce now c = Inr r"
  shows "command_origin (control_command_from_row ((control_command_row r)\<lparr>cw_detail := d, cw_created_at := t, cw_updated_at := u\<rparr>)) = command_origin r"
    and "cm_key r = '''' \<Longrightarrow> \<not> row_has_key k ((control_command_row r)\<lparr>cw_detail := d, cw_created_at := t, cw_updated_at := u\<rparr>)"
    and "cm_key r \<noteq> '''' \<Longrightarrow> row_has_key k ((control_command_row r)\<lparr>cw_detail := d, cw_created_at := t, cw_updated_at := u\<rparr>) \<longleftrightarrow> k = command_key c"
proof -
  obtain e where r: "r = (stamped_command sha nonce now (trimmed_command c))\<lparr>cm_detail := e\<rparr>"
    using assms by (auto simp: normalize_control_command_def Let_def split: option.splits sum.splits)
  have n: "of_null (null_string s) = trim_space s" for s by (simp add: null_string_def of_null_def)
  show "command_origin (control_command_from_row ((control_command_row r)\<lparr>cw_detail := d, cw_created_at := t, cw_updated_at := u\<rparr>)) = command_origin r"
    by (simp add: r command_origin_def control_command_from_row_def control_command_row_def stamped_command_def trimmed_command_def Let_def n)
  show "cm_key r = '''' \<Longrightarrow> \<not> row_has_key k ((control_command_row r)\<lparr>cw_detail := d, cw_created_at := t, cw_updated_at := u\<rparr>)"
    by (simp add: row_has_key_def control_command_row_def null_string_def split: prod.splits)
  note k = normalized_key [OF assms]
  assume "cm_key r \<noteq> ''''"
  then have "row_has_key (command_key c) ((control_command_row r)\<lparr>cw_detail := d, cw_created_at := t, cw_updated_at := u\<rparr>)"
    unfolding k(1) [symmetric] using k(4-8) by (auto simp: row_has_key_def control_command_row_def null_string_def command_target_id_def)
  then show "row_has_key k ((control_command_row r)\<lparr>cw_detail := d, cw_created_at := t, cw_updated_at := u\<rparr>) \<longleftrightarrow> k = command_key c"
    using row_key_unique by blast
qed

text \<open>The look-up of a command in a table that has at most one row for its key.\<close>

lemma find_cases:
  assumes "normalize_control_command J sha nonce now c = Inr r" "cm_key r \<noteq> ''''" "find_existing scan r db = (x, db1)" "honest_faults db"
    "length (key_rows (command_key c) db) \<le> 1"
  shows "db_rows db1 = db_rows db \<and> honest_faults db1 \<and>
    (case x of Inr c' \<Rightarrow> holds_only (command_key c) (command_origin c') db | Inl e \<Rightarrow> errors_is e not_found \<longrightarrow> key_rows (command_key c) db = [])"
proof -
  let ?rows = "\<lambda>db. sort_key (\<lambda>r. - cw_created_at r) (sort_key scan (key_rows (command_key c) db))"
  obtain f db2 where n: "next_fault db = (f, db2)" by fastforce
  note h = next_honest [OF n assms(4)] next_faultE [OF n]
  have same: "?rows db = key_rows (command_key c) db" using assms(5) by (cases "key_rows (command_key c) db") auto
  have "(case f of Some e \<Rightarrow> (Inl e, db2) | None \<Rightarrow> (case key_rows (command_key c) db of [] \<Rightarrow> (Inl not_found, db2) | row # _ \<Rightarrow> (Inr (control_command_from_row row), db2))) = (x, db1)"
    using assms(3) same unfolding find_existing_normalized [OF assms(1,2)] n by (cases f) (simp_all add: key_rows_def h(2))
  moreover have "length (key_rows (command_key c) db) = 1 \<or> key_rows (command_key c) db = []" using assms(5) by (cases "key_rows (command_key c) db") auto
  ultimately show ?thesis using h find_honest [OF assms(3,4)]
    by (cases f; cases "key_rows (command_key c) db") (auto simp: holds_only_def)
qed

text \<open>What enqueuing does to a table that has at most one row for the key.\<close>

lemma enqueue_origin:
  assumes "enqueue J sha scan nonce now c db = (Inr (c1, b), db1)" "trim_space (cm_key c) \<noteq> ''''" "honest_faults db" "length (key_rows (command_key c) db) \<le> 1"
  shows "holds_only (command_key c) (command_origin c1) db1 \<and> honest_faults db1"
proof -
  let ?k = "command_key c"
  obtain r where r: "normalize_control_command J sha nonce now c = Inr r" using assms(1) by (auto simp: enqueue_def split: sum.splits)
  have key: "cm_key r \<noteq> ''''" using normalized_key(1) [OF r] assms(2) by (auto simp: command_key_def Let_def trimmed_command_def)
  have rows: "db_rows x = db_rows y \<Longrightarrow> key_rows ?k x = key_rows ?k y" for x y by (simp add: key_rows_def)
  have ins: ?thesis if i: "insert_command scan now r db0 = (Inr (c1, b), db1)" and d: "honest_faults db0" "key_rows ?k db0 = []" for db0
  proof -
    obtain e db2 where e: "insert_row now (control_command_row r) db0 = (e, db2)" by fastforce
    note c = insert_row_cases [OF e d(1)]
    show ?thesis
    proof (cases e)
      case None
      then obtain dd t u where "db_rows db2 = db_rows db0 @ [(control_command_row r)\<lparr>cw_detail := dd, cw_created_at := t, cw_updated_at := u\<rparr>]" using c by auto
      then have "key_rows ?k db2 = [(control_command_row r)\<lparr>cw_detail := dd, cw_created_at := t, cw_updated_at := u\<rparr>]"
        using d(2) stored_origin(3) [OF r key] by (simp add: key_rows_def)
      moreover have "c1 = r" "db1 = db2" using i e None by (simp_all add: insert_command_def)
      ultimately show ?thesis using c None stored_origin(1) [OF r] by (simp add: holds_only_def)
    next
      case (Some x)
      obtain y db3 where f: "find_existing scan r db2 = (y, db3)" by fastforce
      have "y = Inr c1" "db3 = db1" using i e Some key f by (cases y; auto simp: insert_command_def)+
      moreover have "key_rows ?k db2 = []" using c Some d(2) rows [of db2 db0] by simp
      ultimately show ?thesis using find_cases [OF r key f] c by (auto simp: holds_only_def)
    qed
  qed
  obtain y db2 where f: "find_existing scan r db = (y, db2)" by fastforce
  note fc = find_cases [OF r key f assms(3,4)]
  show ?thesis
  proof (cases y)
    case (Inl e)
    then have "errors_is e not_found" "insert_command scan now r db2 = (Inr (c1, b), db1)"
      using assms(1) r key f by (simp_all add: enqueue_def split: if_splits)
    moreover have "honest_faults db2" "key_rows ?k db2 = key_rows ?k db" using fc rows [of db2 db] by simp_all
    ultimately show ?thesis using ins [of db2] fc Inl by simp
  next
    case (Inr c')
    then have "c' = c1" "db2 = db1" using assms(1) r key f by (simp_all add: enqueue_def)
    then show ?thesis using fc Inr rows [of db1 db] by (simp add: holds_only_def)
  qed
qed

lemma enqueue_keeps_origin:
  assumes "enqueue J sha scan nonce now c db = (res, db1)" "honest_faults db" "holds_only k o1 db"
  shows "holds_only k o1 db1 \<and> honest_faults db1"
proof (cases "normalize_control_command J sha nonce now c")
  case (Inl e)
  then show ?thesis using assms by (simp add: enqueue_def)
next
  case (Inr r)
  have rows: "db_rows x = db_rows y \<Longrightarrow> holds_only k o1 x = holds_only k o1 y" for x y by (simp add: key_rows_def holds_only_def)
  have ins: ?thesis if i: "insert_command scan now r db0 = (res, db1)" and d: "honest_faults db0" "holds_only k o1 db0" and n: "cm_key r = '''' \<or> k \<noteq> command_key c" for db0
  proof -
    obtain e db2 where e: "insert_row now (control_command_row r) db0 = (e, db2)" by fastforce
    note c = insert_row_cases [OF e d(1)]
    have h: "holds_only k o1 db2 \<and> honest_faults db2"
    proof (cases e)
      case None
      then obtain dd t u where a: "db_rows db2 = db_rows db0 @ [(control_command_row r)\<lparr>cw_detail := dd, cw_created_at := t, cw_updated_at := u\<rparr>]" using c by auto
      have "\<not> row_has_key k ((control_command_row r)\<lparr>cw_detail := dd, cw_created_at := t, cw_updated_at := u\<rparr>)"
        using n stored_origin(2,3) [OF Inr] by (cases "cm_key r = ''''") auto
      then show ?thesis using a c d(2) None by (simp add: holds_only_def key_rows_def)
    next
      case (Some x) then show ?thesis using c d(2) rows [of db2 db0] by simp
    qed
    have "db_rows db1 = db_rows db2 \<and> honest_faults db1"
    proof (cases "e = None \<or> cm_key r = ''''")
      case True
      then have "db1 = db2" using i e by (cases e) (auto simp: insert_command_def)
      then show ?thesis using h by simp
    next
      case False
      obtain y db3 where f: "find_existing scan r db2 = (y, db3)" by fastforce
      have "db1 = db3" using i e f False by (cases e; cases y) (auto simp: insert_command_def)
      then show ?thesis using find_honest [OF f] find_existing_rows [OF f] h by simp
    qed
    then show ?thesis using h rows [of db1 db2] by simp
  qed
  show ?thesis
  proof (cases "cm_key r = ''''")
    case True
    then show ?thesis using ins [of db] assms Inr by (simp add: enqueue_def)
  next
    case False
    obtain y db2 where f: "find_existing scan r db = (y, db2)" by fastforce
    have f2: "honest_faults db2" "db_rows db2 = db_rows db" using find_honest [OF f assms(2)] find_existing_rows [OF f] by simp_all
    then have h2: "holds_only k o1 db2" using rows assms(3) by blast
    show ?thesis
    proof (cases "\<exists>e. y = Inl e \<and> errors_is e not_found")
      case True
      have "k \<noteq> command_key c"
      proof
        assume k: "k = command_key c"
        then have "length (key_rows (command_key c) db) \<le> 1" "key_rows (command_key c) db \<noteq> []" using assms(3) by (auto simp: holds_only_def)
        then show False using find_cases [OF Inr False f assms(2)] True by auto
      qed
      then show ?thesis using ins [of db2] f2(1) h2 assms(1) Inr False True f by (auto simp: enqueue_def)
    next
      case F: False
      then have "db1 = db2" using assms(1) Inr False f by (cases y) (auto simp: enqueue_def)
      then show ?thesis using f2 h2 by simp
    qed
  qed
qed

lemma mapped_origin:
  assumes "db_rows db1 = map f (db_rows db)" "\<And>r. row_has_key k (f r) = row_has_key k r"
    "\<And>r. command_origin (control_command_from_row (f r)) = command_origin (control_command_from_row r)" "holds_only k o1 db"
  shows "holds_only k o1 db1"
proof -
  have "key_rows k db1 = map f (key_rows k db)" using assms(1,2) by (simp add: key_rows_def filter_map comp_def)
  then show ?thesis using assms(3,4) by (auto simp: holds_only_def)
qed

lemma step_keeps_origin:
  assumes "db_step db db1" "honest_faults db" "holds_only k o1 db"
  shows "holds_only k o1 db1 \<and> honest_faults db1"
  using assms(1)
proof cases
  case (db_enqueue J sha scan nonce now c res)
  then show ?thesis using enqueue_keeps_origin assms(2,3) by blast
next
  case (db_claim scan now n res)
  obtain f db2 where n: "next_fault db = (f, db2)" by fastforce
  have "honest_faults db1 \<and> (db_rows db1 = map (\<lambda>r. r) (db_rows db) \<or> (\<exists>ids. db_rows db1 = map (claim_row now ids) (db_rows db)))"
    using db_claim next_faultE [OF n] next_honest [OF n assms(2)]
    by (cases f) (auto simp: claim_queued_def claim_rows_def n Let_def honest_faults_def)
  then show ?thesis using mapped_origin [OF _ _ _ assms(3)] row_has_key_claim origin_claim by metis
next
  case (db_settle J now cid status b x d res)
  obtain f db2 where n: "next_fault db = (f, db2)" by fastforce
  have "honest_faults db1 \<and> (db_rows db1 = map (\<lambda>r. r) (db_rows db) \<or> (\<exists>p. db_rows db1 = map (settle_row now (trim_space cid) status b p) (db_rows db)))"
    using db_settle next_faultE [OF n] next_honest [OF n assms(2)] assms(2)
    by (cases f; cases "terminal_detail J now x d") (auto simp: update_terminal_def update_status_def n honest_faults_def)
  then show ?thesis using mapped_origin [OF _ _ _ assms(3)] row_has_key_settle origin_settle by metis
qed

lemma steps_keep_origin: "db_step\<^sup>*\<^sup>* db db1 \<Longrightarrow> honest_faults db \<Longrightarrow> holds_only k o1 db \<Longrightarrow> holds_only k o1 db1"
proof -
  assume "db_step\<^sup>*\<^sup>* db db1" "honest_faults db" "holds_only k o1 db"
  then have "holds_only k o1 db1 \<and> honest_faults db1" by (induction rule: rtranclp_induct) (auto dest: step_keeps_origin)
  then show ?thesis by simp
qed

text \<open>C15. Enqueuing is idempotent: once a command with an idempotency key has been taken into a table that has at most one row for the key, a later one with the
  same target, identifier, action and key adds no row and gets the stored command back, however the first has been claimed and settled in between: the command
  read from the one row that has the key, with the identifier, the trader, the reason and everything else the first call returned, and the status it has by now.\<close>

theorem enqueue_idempotent:
  assumes "enqueue J sha scan nonce now c db = (Inr (c1, b), db1)" "trim_space (cm_key c) \<noteq> ''''" "length (key_rows (command_key c) db) \<le> 1" "honest_faults db"
    and "db_step\<^sup>*\<^sup>* db1 db2" "db_faults db2 = []" "command_key c' = command_key c" "is_ok (normalize_control_command J' sha' nonce' now' c')"
  shows "\<exists>row. key_rows (command_key c) db2 = [row] \<and> enqueue J' sha' scan' nonce' now' c' db2 = (Inr (control_command_from_row row, True), db2) \<and>
    command_origin (control_command_from_row row) = command_origin c1"
proof -
  obtain r where r: "normalize_control_command J' sha' nonce' now' c' = Inr r" using assms(8) by (auto simp: is_ok_iff)
  have key: "cm_key r \<noteq> ''''" using normalized_key(1) [OF r] assms(2,7) by (auto simp: command_key_def Let_def trimmed_command_def)
  have "holds_only (command_key c) (command_origin c1) db2"
    using enqueue_origin [OF assms(1,2,4,3)] steps_keep_origin [OF assms(5)] by blast
  then obtain row where row: "key_rows (command_key c) db2 = [row]" "command_origin (control_command_from_row row) = command_origin c1"
    by (auto simp: holds_only_def)
  have "find_existing scan' r db2 = (Inr (control_command_from_row row), db2)"
    using row(1) by (simp add: find_existing_normalized [OF r key] next_fault_def assms(6,7) key_rows_def)
  then show ?thesis using row r key by (simp add: enqueue_def)
qed

end
