(* ===== verification/AuditLog.thy ===== *)
theory AuditLog
  imports CommandStore
begin

text \<open>
  The durable audit trail: the repository (\<open>pkg/repo/audit_event_repo.go\<close>), the statements of its model (\<open>internal/model/auditeventsmodel.go\<close>) and the
  constraints of the table (\<open>migrations/002_audit_events.up.sql\<close>). As for the commands, the table is the list of its rows, a statement can fail with
  an error the caller supplies, and what \<open>encoding/json\<close> makes of a detail is a parameter; so is what the \<open>JSONB\<close> column makes of its text, which it re-renders. The
  \<open>TIMESTAMPTZ\<close> column keeps microseconds.

  Shown: the trail is append-only, its rows keep distinct identifiers and its constraints, and a recorded event is complete and is read back, each field in its place.
\<close>

definition valid_audit_types :: "string list" where
  "valid_audit_types = [''decision_generated'', ''decision_validation_failed'', ''policy_rejected'', ''approved'', ''order_submitted'', ''order_failed'']"

record audit_record =
  al_id :: int
  al_type :: string
  al_trader_id :: string
  al_cycle_id :: int
  al_correlation_id :: string
  al_symbol :: string
  al_action :: string
  al_model_id :: string
  al_model_name :: string
  al_prompt_digest :: string
  al_approval_id :: string
  al_reason :: string
  al_error :: string
  al_detail :: string
  al_created_at :: time

record audit_row =
  aw_id :: int
  aw_type :: string
  aw_trader_id :: string
  aw_cycle_id :: "int option"
  aw_correlation_id :: "string option"
  aw_symbol :: "string option"
  aw_action :: "string option"
  aw_model_id :: "string option"
  aw_model_name :: "string option"
  aw_prompt_digest :: "string option"
  aw_approval_id :: "string option"
  aw_reason :: "string option"
  aw_error :: "string option"
  aw_detail :: string
  aw_created_at :: time

record audit_filter =
  af_trader_id :: string
  af_type :: string
  af_correlation_id :: string
  af_after :: "time option"
  af_before :: "time option"
  af_limit :: int
  af_offset :: int

text \<open>The table, the next value of its sequence, and the errors the next statements meet.\<close>

record audit_db =
  ad_rows :: "audit_row list"
  ad_next_id :: int
  ad_faults :: "goerror option list"

definition audit_fault :: "audit_db \<Rightarrow> goerror option \<times> audit_db" where
  "audit_fault db = (case ad_faults db of [] \<Rightarrow> (None, db) | f # fs \<Rightarrow> (f, db\<lparr>ad_faults := fs\<rparr>))"

definition audit_guards :: "audit_row \<Rightarrow> (bool \<times> goerror) list" where
  "audit_guards r =
    [(aw_type r \<notin> set valid_audit_types, constraint_error ''event_type''),
     (aw_cycle_id r = None \<and> aw_correlation_id r = None, constraint_error ''trace'')]"

text \<open>The columns: what a \<open>JSONB\<close> column makes of a text is a parameter (it keeps the value, not the spelling), a \<open>TIMESTAMPTZ\<close> keeps microseconds.\<close>

definition micros :: "time \<Rightarrow> time" where
  "micros t = t div 1000 * 1000"

definition insert_audit :: "json_codec \<Rightarrow> time \<Rightarrow> audit_row \<Rightarrow> audit_db \<Rightarrow> (goerror + int) \<times> audit_db" where
  "insert_audit J now r db =
    (let row = r\<lparr>aw_id := ad_next_id db, aw_detail := jc_jsonb J (if trim_space (aw_detail r) = '''' then ''{}'' else aw_detail r),
           aw_created_at := micros (if is_zero_time (aw_created_at r) then now else aw_created_at r)\<rparr>
     in case audit_fault db of
       (Some e, db1) \<Rightarrow> (Inl e, db1)
     | (None, db1) \<Rightarrow>
       let db2 = db1\<lparr>ad_next_id := ad_next_id db1 + 1\<rparr> in
       (case guards (audit_guards row) of
          Some e \<Rightarrow> (Inl e, db2)
        | None \<Rightarrow> (Inr (aw_id row), db2\<lparr>ad_rows := ad_rows db2 @ [row]\<rparr>)))"

definition audit_matches :: "audit_filter \<Rightarrow> audit_row \<Rightarrow> bool" where
  "audit_matches f r \<longleftrightarrow>
     (trim_space (af_trader_id f) = '''' \<or> aw_trader_id r = trim_space (af_trader_id f)) \<and>
     (trim_space (af_type f) = '''' \<or> aw_type r = trim_space (af_type f)) \<and>
     (trim_space (af_correlation_id f) = '''' \<or> aw_correlation_id r = Some (trim_space (af_correlation_id f))) \<and>
     (case af_after f of None \<Rightarrow> True | Some t \<Rightarrow> micros t \<le> aw_created_at r) \<and>
     (case af_before f of None \<Rightarrow> True | Some t \<Rightarrow> aw_created_at r \<le> micros t)"

definition audit_newest_first :: "audit_row list \<Rightarrow> audit_row list" where
  "audit_newest_first rows = rev (sort_key (\<lambda>r. (aw_created_at r, aw_id r)) rows)"

definition audit_limit :: "audit_filter \<Rightarrow> nat" where
  "audit_limit f = nat (if af_limit f \<le> 0 \<or> 500 < af_limit f then 100 else af_limit f)"

definition list_audit_rows :: "audit_filter \<Rightarrow> audit_db \<Rightarrow> (goerror + audit_row list) \<times> audit_db" where
  "list_audit_rows f db = (case audit_fault db of
     (Some e, db1) \<Rightarrow> (Inl e, db1)
   | (None, db1) \<Rightarrow> (Inr (take (audit_limit f) (drop (nat (if af_offset f < 0 then 0 else af_offset f))
       (audit_newest_first (filter (audit_matches f) (ad_rows db1))))), db1))"

subsection \<open>The repository\<close>

definition audit_event_guards :: "audit_record \<Rightarrow> (bool \<times> goerror) list" where
  "audit_event_guards e =
    [(al_type e \<notin> set valid_audit_types, Errorf ''audit repo: unsupported event type %q'' [al_type e]),
     (trim_space (al_trader_id e) = '''', Errorf ''audit repo: trader id required'' []),
     (al_cycle_id e \<le> 0 \<and> trim_space (al_correlation_id e) = '''', Errorf ''audit repo: cycle id or correlation id required'' [])]"

definition normalize_audit_detail :: "json_codec \<Rightarrow> string \<Rightarrow> goerror + string" where
  "normalize_audit_detail J raw = (if trim_space raw = '''' then Inr ''{}''
     else case jc_normalize J (trim_space raw) of
       Inl e \<Rightarrow> Inl (Wrapf ''audit repo: invalid detail json: %w'' [] e)
     | Inr s \<Rightarrow> Inr s)"

definition build_audit_row :: "json_codec \<Rightarrow> audit_record \<Rightarrow> goerror + audit_row" where
  "build_audit_row J e = (case normalize_audit_detail J (al_detail e) of
     Inl er \<Rightarrow> Inl er
   | Inr d \<Rightarrow> Inr \<lparr>aw_id = 0, aw_type = al_type e, aw_trader_id = trim_space (al_trader_id e),
       aw_cycle_id = (if 0 < al_cycle_id e then Some (al_cycle_id e) else None), aw_correlation_id = null_string (al_correlation_id e),
       aw_symbol = null_string (to_upper (al_symbol e)), aw_action = null_string (to_lower (al_action e)), aw_model_id = null_string (al_model_id e),
       aw_model_name = null_string (al_model_name e), aw_prompt_digest = null_string (al_prompt_digest e),
       aw_approval_id = null_string (al_approval_id e), aw_reason = null_string (al_reason e), aw_error = null_string (al_error e),
       aw_detail = d, aw_created_at = al_created_at e\<rparr>)"

definition audit_event_from_row :: "audit_row \<Rightarrow> audit_record" where
  "audit_event_from_row r = \<lparr>al_id = aw_id r, al_type = aw_type r, al_trader_id = aw_trader_id r,
     al_cycle_id = (case aw_cycle_id r of None \<Rightarrow> 0 | Some n \<Rightarrow> n), al_correlation_id = of_null (aw_correlation_id r),
     al_symbol = of_null (aw_symbol r), al_action = of_null (aw_action r), al_model_id = of_null (aw_model_id r),
     al_model_name = of_null (aw_model_name r), al_prompt_digest = of_null (aw_prompt_digest r), al_approval_id = of_null (aw_approval_id r),
     al_reason = of_null (aw_reason r), al_error = of_null (aw_error r), al_detail = aw_detail r, al_created_at = aw_created_at r\<rparr>"

definition record_audit :: "json_codec \<Rightarrow> time \<Rightarrow> audit_record \<Rightarrow> audit_db \<Rightarrow> (goerror + int) \<times> audit_db" where
  "record_audit J now e db = (case guards (audit_event_guards e) of
     Some er \<Rightarrow> (Inl er, db)
   | None \<Rightarrow> (case build_audit_row J e of Inl er \<Rightarrow> (Inl er, db) | Inr r \<Rightarrow> insert_audit J now r db))"

definition list_audit :: "audit_filter \<Rightarrow> audit_db \<Rightarrow> (goerror + audit_record list) \<times> audit_db" where
  "list_audit f db = (case list_audit_rows f db of
     (Inl e, db1) \<Rightarrow> (Inl e, db1) | (Inr rows, db1) \<Rightarrow> (Inr (map audit_event_from_row rows), db1))"

definition list_audit_by_trader :: "string \<Rightarrow> int \<Rightarrow> audit_db \<Rightarrow> (goerror + audit_record list) \<times> audit_db" where
  "list_audit_by_trader tid limit db = (if trim_space tid = '''' then (Inr [], db)
     else list_audit \<lparr>af_trader_id = tid, af_type = '''', af_correlation_id = '''', af_after = None, af_before = None, af_limit = limit, af_offset = 0\<rparr> db)"

subsection \<open>The trail is append-only\<close>

definition audit_inv :: "audit_db \<Rightarrow> bool" where
  "audit_inv db \<longleftrightarrow> sorted_wrt (<) (map aw_id (ad_rows db)) \<and> list_all (\<lambda>r. aw_id r < ad_next_id db \<and> guards (audit_guards r) = None) (ad_rows db)"

lemma audit_fault_simps:
  assumes "audit_fault db = (x, db1)" shows "ad_rows db1 = ad_rows db" "ad_next_id db1 = ad_next_id db"
  using assms by (auto simp: audit_fault_def split: list.splits)

text \<open>What the row of an event becomes in the table.\<close>

definition stored_row :: "json_codec \<Rightarrow> int \<Rightarrow> time \<Rightarrow> audit_row \<Rightarrow> audit_row" where
  "stored_row J i now r = r\<lparr>aw_id := i, aw_detail := jc_jsonb J (if trim_space (aw_detail r) = '''' then ''{}'' else aw_detail r),
     aw_created_at := micros (if is_zero_time (aw_created_at r) then now else aw_created_at r)\<rparr>"

lemma insert_audit_cases:
  assumes "insert_audit J now r db = (x, db')"
  obtains (failed) e where "x = Inl e" "ad_rows db' = ad_rows db" "ad_next_id db \<le> ad_next_id db'"
  | (stored) "x = Inr (ad_next_id db)" "ad_rows db' = ad_rows db @ [stored_row J (ad_next_id db) now r]"
      "ad_next_id db' = ad_next_id db + 1" "guards (audit_guards (stored_row J (ad_next_id db) now r)) = None"
proof -
  obtain f db1 where n: "audit_fault db = (f, db1)" by fastforce
  note s = audit_fault_simps [OF n]
  show ?thesis
  proof (cases "f = None \<and> guards (audit_guards (stored_row J (ad_next_id db) now r)) = None")
    case True
    then show ?thesis using assms s stored by (auto simp: insert_audit_def Let_def n stored_row_def [symmetric]) (simp add: stored_row_def)
  next
    case False
    then show ?thesis using assms s failed by (cases f) (auto simp: insert_audit_def Let_def n stored_row_def split: option.splits)
  qed
qed

lemma record_audit_cases:
  assumes "record_audit J now e db = (x, db')"
  obtains (failed) er where "x = Inl er" "ad_rows db' = ad_rows db" "ad_next_id db \<le> ad_next_id db'"
  | (stored) r where "x = Inr (ad_next_id db)" "build_audit_row J e = Inr r" "guards (audit_event_guards e) = None"
      "ad_rows db' = ad_rows db @ [stored_row J (ad_next_id db) now r]"
      "ad_next_id db' = ad_next_id db + 1" "guards (audit_guards (stored_row J (ad_next_id db) now r)) = None"
proof -
  consider (bad) er where "x = Inl er" "db' = db"
    | (ins) r where "guards (audit_event_guards e) = None" "build_audit_row J e = Inr r" "insert_audit J now r db = (x, db')"
    using assms by (auto simp: record_audit_def split: option.splits sum.splits)
  then show ?thesis
  proof cases
    case bad
    then show ?thesis using failed by simp
  next
    case ins
    show ?thesis using ins(3)
    proof (cases rule: insert_audit_cases)
      case f: (failed er)
      show ?thesis by (rule failed [OF f])
    next
      case st: stored
      show ?thesis by (rule stored [OF st(1) ins(2,1) st(2-4)])
    qed
  qed
qed

text \<open>The audit trail is append-only and well formed: recording an event leaves every stored row as it is, adds exactly one row when it
  reports success and none when it fails; the identifiers stay distinct and increasing, and every row has a known type and a trace.\<close>

theorem audit_append_only:
  assumes "audit_inv db" "record_audit J now e db = (x, db')"
  shows "audit_inv db' \<and> (case x of Inl er \<Rightarrow> ad_rows db' = ad_rows db | Inr i \<Rightarrow> \<exists>r. ad_rows db' = ad_rows db @ [r] \<and> aw_id r = i)"
  using assms(2)
proof (cases rule: record_audit_cases)
  case (failed er)
  then show ?thesis using assms(1) by (auto simp: audit_inv_def list_all_iff)
next
  case (stored r)
  then show ?thesis using assms(1) by (auto simp: audit_inv_def list_all_iff sorted_wrt_append stored_row_def)
qed

definition normalized_event :: "json_codec \<Rightarrow> int \<Rightarrow> string \<Rightarrow> time \<Rightarrow> audit_record \<Rightarrow> audit_record" where
  "normalized_event J i d now e = \<lparr>al_id = i, al_type = al_type e, al_trader_id = trim_space (al_trader_id e),
     al_cycle_id = (if 0 < al_cycle_id e then al_cycle_id e else 0), al_correlation_id = trim_space (al_correlation_id e),
     al_symbol = trim_space (to_upper (al_symbol e)), al_action = trim_space (to_lower (al_action e)), al_model_id = trim_space (al_model_id e),
     al_model_name = trim_space (al_model_name e), al_prompt_digest = trim_space (al_prompt_digest e), al_approval_id = trim_space (al_approval_id e),
     al_reason = trim_space (al_reason e), al_error = trim_space (al_error e), al_detail = jc_jsonb J (if trim_space d = '''' then ''{}'' else d),
     al_created_at = micros (if is_zero_time (al_created_at e) then now else al_created_at e)\<rparr>"

lemma of_null_string [simp]: "of_null (null_string s) = trim_space s"
  by (simp add: of_null_def null_string_def)

lemma from_stored_row:
  assumes "build_audit_row J e = Inr r"
  shows "\<exists>d. normalize_audit_detail J (al_detail e) = Inr d \<and> audit_event_from_row (stored_row J i now r) = normalized_event J i d now e"
proof (cases "normalize_audit_detail J (al_detail e)")
  case (Inl er)
  then show ?thesis using assms by (simp add: build_audit_row_def)
next
  case (Inr d)
  note r = assms [unfolded build_audit_row_def Inr sum.case sum.inject, symmetric]
  have "audit_event_from_row (stored_row J i now r) = normalized_event J i d now e"
    unfolding r audit_event_from_row_def stored_row_def normalized_event_def
    by (cases "0 < al_cycle_id e") simp_all
  then show ?thesis using Inr by blast
qed

text \<open>C23. Round trip through the trail: an event that is recorded has a known type, a trader and a trace; it is one new row behind those that were there, which stay as
  they were, and it is in the list of its trader, as long as the trader has no more events than the limit of the query. It comes back with the fields it was given,
  each in its place, trimmed, the symbol in upper and the action in lower case, the detail as the \<open>JSONB\<close> column re-renders it and the time cut to microseconds.\<close>

theorem audit_read_back:
  assumes "record_audit J now e db = (Inr i, db')" "ad_faults db' = []"
    and "0 < limit" "limit \<le> 500" "length (filter (\<lambda>r. aw_trader_id r = trim_space (al_trader_id e)) (ad_rows db')) \<le> nat limit"
  shows "al_type e \<in> set valid_audit_types \<and> trim_space (al_trader_id e) \<noteq> '''' \<and> (0 < al_cycle_id e \<or> trim_space (al_correlation_id e) \<noteq> '''') \<and>
    (\<exists>d evs row. normalize_audit_detail J (al_detail e) = Inr d \<and> ad_rows db' = ad_rows db @ [row] \<and>
      audit_event_from_row row = normalized_event J i d now e \<and>
      list_audit_by_trader (al_trader_id e) limit db' = (Inr evs, db') \<and> normalized_event J i d now e \<in> set evs)"
  using assms(1)
proof (cases rule: record_audit_cases)
  case (stored r)
  let ?f = "\<lparr>af_trader_id = al_trader_id e, af_type = '''', af_correlation_id = '''', af_after = None, af_before = None, af_limit = limit, af_offset = 0\<rparr>"
  let ?row = "stored_row J (ad_next_id db) now r"
  have blank: "trim_space '''' = ''''" by code_simp
  have tid: "trim_space (al_trader_id e) \<noteq> ''''" using stored(3) by (simp add: guards_None audit_event_guards_def)
  have m: "audit_matches ?f = (\<lambda>x. aw_trader_id x = trim_space (al_trader_id e))" by (auto simp: audit_matches_def fun_eq_iff blank tid)
  let ?rows = "audit_newest_first (filter (audit_matches ?f) (ad_rows db'))"
  have "length ?rows \<le> nat limit" using assms(5) by (simp add: audit_newest_first_def m)
  then have l: "list_audit_by_trader (al_trader_id e) limit db' = (Inr (map audit_event_from_row ?rows), db')"
    using assms(2-4) tid by (simp add: list_audit_by_trader_def list_audit_def list_audit_rows_def audit_fault_def audit_limit_def)
  have "aw_trader_id ?row = trim_space (al_trader_id e)"
    using stored(2) by (auto simp: stored_row_def build_audit_row_def split: sum.splits)
  then have "?row \<in> set ?rows" by (simp add: audit_newest_first_def m stored(4))
  then have "audit_event_from_row ?row \<in> set (map audit_event_from_row ?rows)" by simp
  moreover obtain d where "normalize_audit_detail J (al_detail e) = Inr d" "audit_event_from_row ?row = normalized_event J (ad_next_id db) d now e"
    using from_stored_row [OF stored(2)] by blast
  moreover have "al_type e \<in> set valid_audit_types \<and> (0 < al_cycle_id e \<or> trim_space (al_correlation_id e) \<noteq> '''')"
    using stored(3) by (auto simp: guards_None audit_event_guards_def not_le)
  ultimately show ?thesis using l stored(1,4) tid by auto
qed simp

subsection \<open>Examples\<close>

definition plain_codec :: json_codec where
  "plain_codec = \<lparr>jc_normalize = Inr, jc_merge = (\<lambda>s _. Inr s), jc_payload = (\<lambda>s. Inr \<lparr>pl_trader_id = '''', pl_decision = None, pl_decisions = []\<rparr>),
     jc_decision = (\<lambda>s. Inl not_found), jc_detail = (\<lambda>d. Inr ''''), jc_jsonb = (\<lambda>s. s)\<rparr>"

definition demo_audit :: audit_record where
  "demo_audit = \<lparr>al_id = 0, al_type = ''approved'', al_trader_id = '' alpha '', al_cycle_id = 0, al_correlation_id = ''c-1'', al_symbol = ''eth'', al_action = ''OPEN'',
     al_model_id = '''', al_model_name = '''', al_prompt_digest = '''', al_approval_id = '''', al_reason = '''', al_error = '''', al_detail = '''', al_created_at = 7000\<rparr>"

definition empty_audit :: audit_db where
  "empty_audit = \<lparr>ad_rows = [], ad_next_id = 1, ad_faults = []\<rparr>"

definition demo_trail :: "(goerror + int) \<times> audit_db" where
  "demo_trail = record_audit plain_codec 9000 demo_audit empty_audit"

lemma demo_trail_facts: "fst demo_trail = Inr 1 \<and> ad_faults (snd demo_trail) = [] \<and> length (ad_rows (snd demo_trail)) = 1"
  by code_simp

lemma demo_trail_eq: "record_audit plain_codec 9000 demo_audit empty_audit = (Inr 1, snd demo_trail)"
  using demo_trail_facts unfolding demo_trail_def by (metis prod.collapse)

theorem audit_append_only_witness: "audit_inv (snd demo_trail) \<and> list_ex (\<lambda>r. aw_id r = 1) (ad_rows (snd demo_trail))"
proof -
  have "audit_inv empty_audit" by code_simp
  from audit_append_only [OF this demo_trail_eq] show ?thesis by (auto simp: list_ex_iff)
qed

theorem audit_read_back_witness:
  "\<exists>evs. fst (list_audit_by_trader '' alpha '' 10 (snd demo_trail)) = Inr evs \<and> list_ex (\<lambda>e. al_symbol e = ''ETH'' \<and> al_trader_id e = ''alpha'') evs"
proof -
  have n: "trim_space (to_upper (al_symbol demo_audit)) = ''ETH''" "trim_space (al_trader_id demo_audit) = ''alpha''" "al_trader_id demo_audit = '' alpha ''"
    by code_simp+
  have "length (filter (\<lambda>r. aw_trader_id r = trim_space (al_trader_id demo_audit)) (ad_rows (snd demo_trail))) \<le> nat 10"
    using demo_trail_facts length_filter_le [of _ "ad_rows (snd demo_trail)"] by (metis le_trans numeral_One one_le_numeral nat_numeral)
  from audit_read_back [OF demo_trail_eq _ _ _ this] demo_trail_facts obtain d evs
    where "list_audit_by_trader '' alpha '' 10 (snd demo_trail) = (Inr evs, snd demo_trail)" "normalized_event plain_codec 1 d 9000 demo_audit \<in> set evs"
    by (auto simp: n)
  then show ?thesis using n by (auto simp: list_ex_iff normalized_event_def intro!: bexI [of _ "normalized_event plain_codec 1 d 9000 demo_audit"])
qed

end
