(* ===== verification/ControlQueue.thy ===== *)
theory ControlQueue
  imports CommandStore "HOL-Library.Word"
begin

text \<open>
  The in-memory queue of control commands (\<open>internal/controlqueue/queue.go\<close>), used when no database is configured. The Go maps are association lists,
  the sequence number is the \<open>uint64\<close> it is in the code, and the digest of an identifier is a parameter.

  Shown: the indexes of the queue stay consistent with its list under every sequence of operations, and the queue refines the abstract intake of
  commands of the locale \<open>command_intake\<close>: one command for each idempotency key.
\<close>

record enqueue_request =
  er_target :: string
  er_decision_id :: string
  er_order_id :: string
  er_trader_id :: string
  er_action :: string
  er_decision :: string
  er_requested_by :: string
  er_reason :: string
  er_key :: string
  er_correlation_id :: string
  er_now :: time

record queue_command =
  qc_id :: string
  qc_type :: string
  qc_target :: string
  qc_decision_id :: string
  qc_order_id :: string
  qc_trader_id :: string
  qc_action :: string
  qc_decision :: string
  qc_requested_by :: string
  qc_reason :: string
  qc_key :: string
  qc_correlation_id :: string
  qc_status :: string
  qc_queued :: bool
  qc_control_only :: bool
  qc_submitted :: bool
  qc_created_at :: time

record control_queue =
  cq_seq :: "64 word"
  cq_commands :: "queue_command list"
  cq_by_id :: "(string, queue_command) gomap"
  cq_key_to_id :: "(string, string) gomap"
  cq_id_to_key :: "(string, string) gomap"

definition new_queue :: control_queue where
  "new_queue = \<lparr>cq_seq = 0, cq_commands = [], cq_by_id = [], cq_key_to_id = [], cq_id_to_key = []\<rparr>"

definition normalize_request :: "time \<Rightarrow> enqueue_request \<Rightarrow> enqueue_request" where
  "normalize_request now r =
    \<lparr>er_target = to_lower (trim_space (er_target r)), er_decision_id = trim_space (er_decision_id r), er_order_id = trim_space (er_order_id r),
     er_trader_id = trim_space (er_trader_id r), er_action = to_lower (trim_space (er_action r)), er_decision = er_decision r,
     er_requested_by = trim_space (er_requested_by r), er_reason = trim_space (er_reason r), er_key = trim_space (er_key r),
     er_correlation_id = trim_space (er_correlation_id r), er_now = (if is_zero_time (er_now r) then now else er_now r)\<rparr>"

definition request_target_id :: "enqueue_request \<Rightarrow> string" where
  "request_target_id r = (if er_target r = target_order then er_order_id r else er_decision_id r)"

definition nul :: string where "nul = [CHR 0x00]"

definition idempotency_index :: "enqueue_request \<Rightarrow> string" where
  "idempotency_index r = (if er_key r = '''' then '''' else er_target r @ nul @ request_target_id r @ nul @ er_action r @ nul @ er_key r)"

definition command_id :: "(string \<Rightarrow> int list) \<Rightarrow> enqueue_request \<Rightarrow> 64 word \<Rightarrow> string" where
  "command_id sha r seq = ''cmd-'' @ take 20 (hex_encode (sha (er_target r @ ''|'' @ request_target_id r @ ''|'' @ er_action r @ ''|'' @ er_key r @
     ''|'' @ itoa (er_now r) @ ''|'' @ itoa (uint seq))))"

fun trim_underscores :: "string \<Rightarrow> string" where
  "trim_underscores s = rev (dropWhile (\<lambda>c. c = CHR ''_'') (rev (dropWhile (\<lambda>c. c = CHR ''_'') s)))"

definition command_type :: "string \<Rightarrow> string \<Rightarrow> string" where
  "command_type target0 action0 = (let target = to_lower (trim_space target0); action = to_lower (trim_space action0) in
     if target = '''' \<or> action = '''' then trim_underscores (target @ ''_'' @ action) else target @ ''_'' @ action)"

definition queue_command_of :: "string \<Rightarrow> enqueue_request \<Rightarrow> queue_command" where
  "queue_command_of i r = \<lparr>qc_id = i, qc_type = command_type (er_target r) (er_action r), qc_target = er_target r, qc_decision_id = er_decision_id r,
     qc_order_id = er_order_id r, qc_trader_id = er_trader_id r, qc_action = er_action r, qc_decision = er_decision r,
     qc_requested_by = er_requested_by r, qc_reason = er_reason r, qc_key = er_key r,
     qc_correlation_id = (if er_correlation_id r = '''' then i else er_correlation_id r), qc_status = status_queued, qc_queued = True,
     qc_control_only = True, qc_submitted = False, qc_created_at = er_now r\<rparr>"

text \<open>The command a key already has, if any.\<close>

definition existing_command :: "string \<Rightarrow> control_queue \<Rightarrow> queue_command option" where
  "existing_command key q = (if key = '''' then None
     else case lookup (cq_key_to_id q) key of
       None \<Rightarrow> None
     | Some i \<Rightarrow> if i = '''' then None else lookup (cq_by_id q) i)"

definition queue_enqueue :: "(string \<Rightarrow> int list) \<Rightarrow> time \<Rightarrow> enqueue_request \<Rightarrow> control_queue \<Rightarrow> (queue_command \<times> bool) \<times> control_queue" where
  "queue_enqueue sha now req q =
    (let r = normalize_request now req; key = idempotency_index r in case existing_command key q of
       Some c \<Rightarrow> ((c, True), q)
     | None \<Rightarrow>
       let seq = cq_seq q + 1; i = command_id sha r seq; c = queue_command_of i r;
           q1 = q\<lparr>cq_seq := seq, cq_commands := cq_commands q @ [c], cq_by_id := put i c (cq_by_id q)\<rparr>
       in ((c, False), if key = '''' then q1
           else q1\<lparr>cq_key_to_id := put key i (cq_key_to_id q1), cq_id_to_key := put i key (cq_id_to_key q1)\<rparr>))"

fun remove_first :: "string \<Rightarrow> queue_command list \<Rightarrow> queue_command list" where
  "remove_first i [] = []"
| "remove_first i (c # cs) = (if qc_id c = i then cs else c # remove_first i cs)"

definition queue_remove :: "string \<Rightarrow> control_queue \<Rightarrow> control_queue" where
  "queue_remove id0 q = (let i = trim_space id0 in
     if i = '''' then q
     else let q1 = q\<lparr>cq_by_id := del i (cq_by_id q), cq_commands := remove_first i (cq_commands q)\<rparr> in
       case lookup (cq_id_to_key q) i of
         None \<Rightarrow> q1
       | Some key \<Rightarrow> if key = '''' then q1
           else q1\<lparr>cq_key_to_id := del key (cq_key_to_id q1), cq_id_to_key := del i (cq_id_to_key q1)\<rparr>)"

definition queue_get :: "string \<Rightarrow> control_queue \<Rightarrow> queue_command option" where
  "queue_get i q = lookup (cq_by_id q) (trim_space i)"

definition queue_list :: "control_queue \<Rightarrow> queue_command list" where
  "queue_list q = cq_commands q"

subsection \<open>The indexes of the queue\<close>

text \<open>The identifiers are distinct; the table by identifier holds exactly the commands of the list; a key leads to a command of the queue that has
  that key, and the two key tables are inverse to each other.\<close>

definition command_index :: "queue_command \<Rightarrow> string" where
  "command_index c = (if qc_key c = '''' then '''' else
     qc_target c @ nul @ (if qc_target c = target_order then qc_order_id c else qc_decision_id c) @ nul @ qc_action c @ nul @ qc_key c)"

definition queue_inv :: "control_queue \<Rightarrow> bool" where
  "queue_inv q \<longleftrightarrow> distinct (map qc_id (cq_commands q)) \<and> (\<forall>c \<in> set (cq_commands q). qc_id c \<noteq> '''') \<and>
     (\<forall>i c. lookup (cq_by_id q) i = Some c \<longleftrightarrow> c \<in> set (cq_commands q) \<and> qc_id c = i) \<and>
     (\<forall>k i. lookup (cq_key_to_id q) k = Some i \<longleftrightarrow> (\<exists>c \<in> set (cq_commands q). qc_id c = i \<and> command_index c = k \<and> k \<noteq> '''')) \<and>
     (\<forall>i k. lookup (cq_id_to_key q) i = Some k \<longleftrightarrow> (\<exists>c \<in> set (cq_commands q). qc_id c = i \<and> command_index c = k \<and> k \<noteq> ''''))"

text \<open>The identifier of a new command is taken from a digest; \<open>fresh_id\<close> says that it does not collide with one that is queued.\<close>

definition fresh_id :: "(string \<Rightarrow> int list) \<Rightarrow> time \<Rightarrow> enqueue_request \<Rightarrow> control_queue \<Rightarrow> bool" where
  "fresh_id sha now req q \<longleftrightarrow> (\<forall>c \<in> set (cq_commands q). qc_id c \<noteq> command_id sha (normalize_request now req) (cq_seq q + 1))"

lemma new_queue_inv: "queue_inv new_queue"
  by (simp add: queue_inv_def new_queue_def)

lemma queue_invD:
  assumes "queue_inv q"
  shows "lookup (cq_by_id q) i = Some c \<longleftrightarrow> c \<in> set (cq_commands q) \<and> qc_id c = i"
    and "lookup (cq_key_to_id q) k = Some i \<longleftrightarrow> (\<exists>c \<in> set (cq_commands q). qc_id c = i \<and> command_index c = k \<and> k \<noteq> '''')"
    and "lookup (cq_id_to_key q) i = Some k \<longleftrightarrow> (\<exists>c \<in> set (cq_commands q). qc_id c = i \<and> command_index c = k \<and> k \<noteq> '''')"
    and "c \<in> set (cq_commands q) \<Longrightarrow> qc_id c \<noteq> ''''" "distinct (map qc_id (cq_commands q))"
  using assms by (auto simp: queue_inv_def)

lemma existing_command_inv:
  assumes "queue_inv q"
  shows "existing_command k q = Some c \<longleftrightarrow> c \<in> set (cq_commands q) \<and> command_index c = k \<and> k \<noteq> ''''"
proof
  assume "existing_command k q = Some c"
  then obtain i where i: "k \<noteq> ''''" "lookup (cq_key_to_id q) k = Some i" "lookup (cq_by_id q) i = Some c"
    by (auto simp: existing_command_def split: if_splits option.splits)
  then obtain d where d: "d \<in> set (cq_commands q)" "qc_id d = i" "command_index d = k" using queue_invD(2) [OF assms] by blast
  then have "lookup (cq_by_id q) i = Some d" using queue_invD(1) [OF assms] by blast
  then show "c \<in> set (cq_commands q) \<and> command_index c = k \<and> k \<noteq> ''''" using i d by simp
next
  assume c: "c \<in> set (cq_commands q) \<and> command_index c = k \<and> k \<noteq> ''''"
  then have "lookup (cq_key_to_id q) k = Some (qc_id c)" "lookup (cq_by_id q) (qc_id c) = Some c" "qc_id c \<noteq> ''''"
    using queue_invD(2) [OF assms, of k "qc_id c"] queue_invD(1) [OF assms, of "qc_id c" c] queue_invD(4) [OF assms, of c] by auto
  then show "existing_command k q = Some c" using c by (simp add: existing_command_def)
qed

lemma command_id_nonempty: "command_id sha r seq \<noteq> ''''"
  by (simp add: command_id_def)

lemma new_command_index: "command_index (queue_command_of i r) = idempotency_index r" "qc_id (queue_command_of i r) = i"
  by (simp_all add: command_index_def queue_command_of_def idempotency_index_def request_target_id_def)

lemma enqueue_inv:
  assumes "queue_inv q" "fresh_id sha now req q" "queue_enqueue sha now req q = ((c, reused), q')"
  shows "queue_inv q'"
proof (cases "existing_command (idempotency_index (normalize_request now req)) q")
  case (Some d)
  then show ?thesis using assms by (simp add: queue_enqueue_def Let_def)
next
  case None
  let ?r = "normalize_request now req"
  let ?i = "command_id sha ?r (cq_seq q + 1)"
  let ?c = "queue_command_of ?i ?r"
  have new: "\<And>d. d \<in> set (cq_commands q) \<Longrightarrow> idempotency_index ?r \<noteq> '''' \<Longrightarrow> command_index d \<noteq> idempotency_index ?r"
    using None existing_command_inv [OF assms(1), of "idempotency_index ?r"] by fastforce
  have fr: "\<And>d. d \<in> set (cq_commands q) \<Longrightarrow> qc_id d \<noteq> ?i" using assms(2) by (simp add: fresh_id_def)
  have q': "cq_commands q' = cq_commands q @ [?c]" "cq_by_id q' = put ?i ?c (cq_by_id q)"
    "cq_key_to_id q' = (if idempotency_index ?r = '''' then cq_key_to_id q else put (idempotency_index ?r) ?i (cq_key_to_id q))"
    "cq_id_to_key q' = (if idempotency_index ?r = '''' then cq_id_to_key q else put ?i (idempotency_index ?r) (cq_id_to_key q))"
    using assms(3) None by (auto simp: queue_enqueue_def Let_def)
  note i = queue_invD [OF assms(1)]
  show ?thesis unfolding queue_inv_def
  proof (intro conjI allI ballI)
    show "distinct (map qc_id (cq_commands q'))" using i(5) by (auto simp: q'(1) new_command_index dest: fr)
    show "qc_id c \<noteq> ''''" if "c \<in> set (cq_commands q')" for c
      using that i(4) command_id_nonempty by (auto simp: q'(1) new_command_index)
    show "lookup (cq_by_id q') j = Some d \<longleftrightarrow> d \<in> set (cq_commands q') \<and> qc_id d = j" for j d
      using i(1) [of j d] fr [of d] by (auto simp: q' update_conv' new_command_index)
    show "lookup (cq_key_to_id q') k = Some j \<longleftrightarrow> (\<exists>c \<in> set (cq_commands q'). qc_id c = j \<and> command_index c = k \<and> k \<noteq> '''')" for k j
      using i(2) [of k j] new by (auto simp: q' update_conv' new_command_index)
    show "lookup (cq_id_to_key q') j = Some k \<longleftrightarrow> (\<exists>c \<in> set (cq_commands q'). qc_id c = j \<and> command_index c = k \<and> k \<noteq> '''')" for k j
      using i(3) [of j k] fr by (auto simp: q' update_conv' new_command_index)
  qed
qed

lemma set_remove_first: "distinct (map qc_id cs) \<Longrightarrow> set (remove_first i cs) = {c \<in> set cs. qc_id c \<noteq> i}"
  by (induction cs) (auto intro: rev_image_eqI)

lemma distinct_remove_first: "distinct (map qc_id cs) \<Longrightarrow> distinct (map qc_id (remove_first i cs))"
  by (induction cs) (auto simp: set_remove_first)

lemma remove_inv:
  assumes "queue_inv q" shows "queue_inv (queue_remove i q)"
proof (cases "trim_space i = ''''")
  case True
  then show ?thesis using assms by (simp add: queue_remove_def)
next
  case False
  define j where "j = trim_space i"
  note inv = queue_invD [OF assms]
  let ?q = "queue_remove i q"
  have by_id: "cq_by_id ?q = del j (cq_by_id q)" "cq_commands ?q = remove_first j (cq_commands q)"
    using False by (auto simp: queue_remove_def Let_def j_def split: option.splits)
  have cs: "set (cq_commands ?q) = {c \<in> set (cq_commands q). qc_id c \<noteq> j}" using inv(5) by (simp add: by_id set_remove_first)
  have pair: "lookup (cq_id_to_key q) j = Some k \<longleftrightarrow> lookup (cq_key_to_id q) k = Some j" for k by (simp only: inv(2,3))
  have ne: "lookup (cq_id_to_key q) j \<noteq> Some ''''" using inv(3) by blast
  have keys: "lookup (cq_id_to_key ?q) x = (if x = j then None else lookup (cq_id_to_key q) x)" for x
    using ne False by (auto simp: queue_remove_def Let_def j_def [symmetric] delete_conv' split: option.splits)
  have ids: "lookup (cq_key_to_id ?q) k = (if lookup (cq_key_to_id q) k = Some j then None else lookup (cq_key_to_id q) k)" for k
  proof (cases "lookup (cq_id_to_key q) j")
    case None
    then show ?thesis using pair [of k] False by (simp add: queue_remove_def Let_def j_def [symmetric])
  next
    case (Some k')
    then have "cq_key_to_id ?q = del k' (cq_key_to_id q)" using ne False by (simp add: queue_remove_def Let_def j_def [symmetric])
    then show ?thesis using pair [of k] pair [of k'] Some by (auto simp: delete_conv')
  qed
  show ?thesis unfolding queue_inv_def
  proof (intro conjI allI ballI)
    show "distinct (map qc_id (cq_commands ?q))" using inv(5) by (simp add: by_id distinct_remove_first)
    show "qc_id c \<noteq> ''''" if "c \<in> set (cq_commands ?q)" for c using that inv(4) by (simp add: cs)
    show "lookup (cq_by_id ?q) x = Some c \<longleftrightarrow> c \<in> set (cq_commands ?q) \<and> qc_id c = x" for x c
      using inv(1) [of x c] by (auto simp: cs by_id(1) delete_conv')
    show "lookup (cq_key_to_id ?q) k = Some x \<longleftrightarrow> (\<exists>c \<in> set (cq_commands ?q). qc_id c = x \<and> command_index c = k \<and> k \<noteq> '''')" for k x
      using inv(2) [of k x] inv(2) [of k j] by (auto simp: cs ids)
    show "lookup (cq_id_to_key ?q) x = Some k \<longleftrightarrow> (\<exists>c \<in> set (cq_commands ?q). qc_id c = x \<and> command_index c = k \<and> k \<noteq> '''')" for k x
      using inv(3) [of x k] by (auto simp: cs keys)
  qed
qed

subsection \<open>Reachable queues\<close>

inductive queue_step :: "(string \<Rightarrow> int list) \<Rightarrow> control_queue \<Rightarrow> control_queue \<Rightarrow> bool" for sha where
  enqueued: "fresh_id sha now req q \<Longrightarrow> queue_enqueue sha now req q = (res, q') \<Longrightarrow> queue_step sha q q'"
| removed: "queue_step sha q (queue_remove i q)"

lemma queue_step_inv: "queue_step sha q q' \<Longrightarrow> queue_inv q \<Longrightarrow> queue_inv q'"
  by (induction rule: queue_step.induct) (auto intro: enqueue_inv remove_inv)

lemma reachable_inv: "(queue_step sha)\<^sup>*\<^sup>* new_queue q \<Longrightarrow> queue_inv q"
  by (induction rule: rtranclp_induct) (auto intro: new_queue_inv queue_step_inv)

text \<open>C24. Whatever was enqueued and removed before, the look-up by identifier finds exactly the commands of the list, and no two commands of the
  list have the same target, action and idempotency key; a request with a key that is in the queue gets that command back and
  changes nothing, any other request adds its own command at the end. (Identifiers are digests: one that is in use is not generated again.)\<close>

theorem queue_consistent:
  assumes "(queue_step sha)\<^sup>*\<^sup>* new_queue q" "fresh_id sha now req q" "queue_enqueue sha now req q = ((c, reused), q')"
  shows "(\<forall>i d. queue_get i q = Some d \<longleftrightarrow> d \<in> set (queue_list q) \<and> qc_id d = trim_space i) \<and>
    (\<forall>d d'. d \<in> set (queue_list q) \<and> d' \<in> set (queue_list q) \<and> command_index d = command_index d' \<and> command_index d \<noteq> '''' \<longrightarrow> d = d') \<and>
    (if reused then q' = q \<and> c \<in> set (queue_list q) \<and> command_index c = idempotency_index (normalize_request now req)
     else queue_list q' = queue_list q @ [c] \<and> command_index c = idempotency_index (normalize_request now req) \<and>
       (\<forall>d \<in> set (queue_list q). command_index d = '''' \<or> command_index d \<noteq> command_index c))"
proof -
  note inv = reachable_inv [OF assms(1)]
  have u: "d = d'" if "d \<in> set (cq_commands q)" "d' \<in> set (cq_commands q)" "command_index d = command_index d'" "command_index d \<noteq> ''''" for d d'
    using that existing_command_inv [OF inv, of "command_index d"] by (metis option.inject)
  have r: "if reused then q' = q \<and> c \<in> set (cq_commands q) \<and> command_index c = idempotency_index (normalize_request now req)
     else cq_commands q' = cq_commands q @ [c] \<and> command_index c = idempotency_index (normalize_request now req) \<and>
       (\<forall>d \<in> set (cq_commands q). command_index d = '''' \<or> command_index d \<noteq> command_index c)"
  proof (cases "existing_command (idempotency_index (normalize_request now req)) q")
    case None
    then have "\<forall>d \<in> set (cq_commands q). command_index d = '''' \<or> command_index d \<noteq> idempotency_index (normalize_request now req)"
      using existing_command_inv [OF inv] by (metis option.distinct(1))
    then show ?thesis using assms(3) None by (auto simp: queue_enqueue_def Let_def new_command_index)
  next
    case (Some d)
    then have "c = d" "reused" "q' = q" using assms(3) by (simp_all add: queue_enqueue_def Let_def)
    then show ?thesis using existing_command_inv [OF inv, THEN iffD1, OF Some] by simp
  qed
  then show ?thesis unfolding queue_get_def queue_list_def using queue_invD(1) [OF inv] u by (intro conjI) (simp, blast, simp)
qed

subsection \<open>The intake of commands\<close>

text \<open>What the API relies on, whichever queue is behind it: \<open>held\<close> counts the commands, \<open>keyed s k\<close> says that the key \<open>k\<close> is taken. An accepted request is either
  a new command or a reused one and its key is taken from then on; a request whose key is taken is answered with a reused command.\<close>

fun submit_all :: "('i \<Rightarrow> 's \<Rightarrow> (goerror + 'c \<times> bool) \<times> 's) \<Rightarrow> 'i list \<Rightarrow> 's \<Rightarrow> (goerror + 'c \<times> bool) list \<times> 's" where
  "submit_all f [] s = ([], s)"
| "submit_all f (i # is) s = (case f i s of (r, s1) \<Rightarrow> (case submit_all f is s1 of (rs, s2) \<Rightarrow> (r # rs, s2)))"

fun all_ok :: "('i \<Rightarrow> 's \<Rightarrow> bool) \<Rightarrow> ('i \<Rightarrow> 's \<Rightarrow> (goerror + 'c \<times> bool) \<times> 's) \<Rightarrow> 'i list \<Rightarrow> 's \<Rightarrow> bool" where
  "all_ok ok f [] s = True"
| "all_ok ok f (i # is) s = (ok i s \<and> all_ok ok f is (snd (f i s)))"

definition is_new :: "goerror + 'c \<times> bool \<Rightarrow> bool" where
  "is_new r = (case r of Inl e \<Rightarrow> False | Inr (c, reused) \<Rightarrow> \<not> reused)"

locale command_intake =
  fixes submit :: "'i \<Rightarrow> 's \<Rightarrow> (goerror + 'c \<times> bool) \<times> 's" and key :: "'i \<Rightarrow> 'k option" and keyed :: "'s \<Rightarrow> 'k \<Rightarrow> bool"
    and held :: "'s \<Rightarrow> nat" and ok :: "'i \<Rightarrow> 's \<Rightarrow> bool"
  assumes accepted: "ok i s \<Longrightarrow> submit i s = (Inr (c, reused), s') \<Longrightarrow>
      held s' = (if reused then held s else Suc (held s)) \<and> (keyed s k \<or> key i = Some k \<longrightarrow> keyed s' k)"
    and refused: "ok i s \<Longrightarrow> submit i s = (Inl e, s') \<Longrightarrow> held s' = held s \<and> (keyed s k \<longrightarrow> keyed s' k)"
    and known: "ok i s \<Longrightarrow> key i = Some k \<Longrightarrow> keyed s k \<Longrightarrow> \<exists>c. submit i s = (Inr (c, True), s)"
begin

lemma step_keyed: "ok i s \<Longrightarrow> submit i s = (r, s') \<Longrightarrow> keyed s k \<Longrightarrow> keyed s' k"
  using accepted [of i s _ _ s' k] refused [of i s _ s' k] by (cases r) (auto split: prod.splits)

lemma step_held: "ok i s \<Longrightarrow> submit i s = (r, s') \<Longrightarrow> held s' = held s + (if is_new r then 1 else 0)"
  using accepted refused by (cases r) (auto simp: is_new_def split: prod.splits)

lemma one_new_per_key:
  "all_ok ok submit is s \<Longrightarrow> submit_all submit is s = (rs, s') \<Longrightarrow>
   length (filter (\<lambda>(i, r). key i = Some k \<and> is_new r) (zip is rs)) \<le> (if keyed s k then 0 else 1) \<and>
   held s' = held s + length (filter is_new rs)"
proof (induction "is" arbitrary: s rs s')
  case (Cons i "is")
  obtain r s1 where r: "submit i s = (r, s1)" by fastforce
  obtain rs1 s2 where rs: "submit_all submit is s1 = (rs1, s2)" by fastforce
  have ok: "ok i s" "all_ok ok submit is s1" using Cons.prems(1) r by auto
  have eq: "rs = r # rs1" "s' = s2" using Cons.prems(2) r rs by auto
  note ih = Cons.IH [OF ok(2) rs]
  have k: "key i = Some k \<and> is_new r \<Longrightarrow> \<not> keyed s k \<and> keyed s1 k"
    using known [OF ok(1)] accepted [OF ok(1), of _ _ s1 k] r by (cases r) (fastforce simp: is_new_def)+
  have "keyed s k \<Longrightarrow> keyed s1 k" using step_keyed [OF ok(1) r] .
  then show ?case using ih step_held [OF ok(1) r] k by (auto simp: eq split: if_splits)
qed simp

end

text \<open>The in-memory queue is such an intake: a request comes with the time it is made at.\<close>

definition queue_submit :: "(string \<Rightarrow> int list) \<Rightarrow> time \<times> enqueue_request \<Rightarrow> control_queue \<Rightarrow> (goerror + queue_command \<times> bool) \<times> control_queue" where
  "queue_submit sha = (\<lambda>(now, r) q. case queue_enqueue sha now r q of (res, q') \<Rightarrow> (Inr res, q'))"

definition queue_key :: "time \<times> enqueue_request \<Rightarrow> string option" where
  "queue_key = (\<lambda>(now, r). let k = idempotency_index (normalize_request now r) in if k = '''' then None else Some k)"

definition queue_keyed :: "control_queue \<Rightarrow> string \<Rightarrow> bool" where
  "queue_keyed q k \<longleftrightarrow> existing_command k q \<noteq> None"

definition queue_ok :: "(string \<Rightarrow> int list) \<Rightarrow> time \<times> enqueue_request \<Rightarrow> control_queue \<Rightarrow> bool" where
  "queue_ok sha = (\<lambda>(now, r) q. queue_inv q \<and> fresh_id sha now r q)"

lemma queue_keyed_iff: "queue_inv q \<Longrightarrow> queue_keyed q k \<longleftrightarrow> k \<noteq> '''' \<and> (\<exists>c \<in> set (cq_commands q). command_index c = k)"
  unfolding queue_keyed_def not_None_eq using existing_command_inv by blast

lemma queue_submit_law:
  assumes "queue_ok sha i q" "queue_submit sha i q = (Inr (c, reused), q')"
  shows "length (cq_commands q') = (if reused then length (cq_commands q) else Suc (length (cq_commands q)))"
    and "queue_keyed q k \<or> queue_key i = Some k \<longrightarrow> queue_keyed q' k"
proof -
  obtain now r where i: "i = (now, r)" by fastforce
  have inv: "queue_inv q" and fr: "fresh_id sha now r q" using assms(1) by (simp_all add: queue_ok_def i)
  have e: "queue_enqueue sha now r q = ((c, reused), q')" using assms(2) by (auto simp: queue_submit_def i split: prod.splits)
  have inv': "queue_inv q'" using enqueue_inv [OF inv fr e] .
  let ?k = "idempotency_index (normalize_request now r)"
  have key: "queue_key i = Some k \<longleftrightarrow> k = ?k \<and> k \<noteq> ''''" by (auto simp: queue_key_def i Let_def)
  have "length (cq_commands q') = (if reused then length (cq_commands q) else Suc (length (cq_commands q))) \<and>
      (queue_keyed q k \<or> queue_key i = Some k \<longrightarrow> queue_keyed q' k)"
  proof (cases "existing_command ?k q")
    case None
    then have "\<not> reused" "cq_commands q' = cq_commands q @ [c]" "command_index c = ?k"
      using e by (auto simp: queue_enqueue_def Let_def new_command_index)
    then show ?thesis unfolding queue_keyed_iff [OF inv] queue_keyed_iff [OF inv'] key by auto
  next
    case (Some d)
    then have "reused" "q' = q" using e by (simp_all add: queue_enqueue_def Let_def)
    then show ?thesis using Some by (auto simp: key queue_keyed_def)
  qed
  then show "length (cq_commands q') = (if reused then length (cq_commands q) else Suc (length (cq_commands q)))"
    "queue_keyed q k \<or> queue_key i = Some k \<longrightarrow> queue_keyed q' k" by auto
qed

interpretation intake: command_intake "queue_submit sha" queue_key queue_keyed "\<lambda>q. length (cq_commands q)" "queue_ok sha" for sha
proof
  show "length (cq_commands s') = (if reused then length (cq_commands s) else Suc (length (cq_commands s))) \<and>
      (queue_keyed s k \<or> queue_key i = Some k \<longrightarrow> queue_keyed s' k)"
    if "queue_ok sha i s" "queue_submit sha i s = (Inr (c, reused), s')" for i s c reused s' k
    using queue_submit_law [OF that] by blast
  show "length (cq_commands s') = length (cq_commands s) \<and> (queue_keyed s k \<longrightarrow> queue_keyed s' k)"
    if "queue_ok sha i s" "queue_submit sha i s = (Inl e, s')" for i s e s' k
    using that by (auto simp: queue_submit_def split: prod.splits)
  show "\<exists>c. queue_submit sha i s = (Inr (c, True), s)"
    if "queue_ok sha i s" "queue_key i = Some k" "queue_keyed s k" for i s k
    using that by (cases i) (auto simp: queue_submit_def queue_key_def queue_keyed_def queue_enqueue_def Let_def split: if_splits)
qed

text \<open>So is the durable repository, between faults of its database: a request comes with the nonce of its identifier and its time.\<close>

type_synonym command_input = "int list \<times> time \<times> command"

definition store_submit :: "json_codec \<Rightarrow> (string \<Rightarrow> int list) \<Rightarrow> row_order \<Rightarrow> command_input \<Rightarrow> command_db \<Rightarrow>
    (goerror + command \<times> bool) \<times> command_db" where
  "store_submit J sha scan = (\<lambda>(nonce, now, c) db. enqueue J sha scan nonce now c db)"

definition store_key :: "json_codec \<Rightarrow> (string \<Rightarrow> int list) \<Rightarrow> command_input \<Rightarrow> (string \<times> string \<times> string \<times> string) option" where
  "store_key J sha = (\<lambda>(nonce, now, c).
     if is_ok (normalize_control_command J sha nonce now c) \<and> trim_space (cm_key c) \<noteq> '''' then Some (command_key c) else None)"

definition store_ok :: "command_input \<Rightarrow> command_db \<Rightarrow> bool" where
  "store_ok i db \<longleftrightarrow> db_faults db = []"

lemma enqueue_new_row:
  assumes "enqueue J sha scan nonce now c db = (x, db')"
  shows "case x of Inr (r, False) \<Rightarrow> \<exists>row. db_rows db' = db_rows db @ [row] | _ \<Rightarrow> db_rows db' = db_rows db"
proof -
  have i: "case x of Inr (r, False) \<Rightarrow> \<exists>row. db_rows db' = db_rows db0 @ [row] | _ \<Rightarrow> db_rows db' = db_rows db0"
    if ins: "insert_command scan now r1 db0 = (x, db')" for r1 db0
  proof -
    obtain e db1 where e: "insert_row now (control_command_row r1) db0 = (e, db1)" by fastforce
    have nr: "case e of None \<Rightarrow> \<exists>row. db_rows db1 = db_rows db0 @ [row] | Some e \<Rightarrow> db_rows db1 = db_rows db0"
      using e by (auto simp: insert_row_def Let_def split: prod.splits option.splits dest!: next_faultE)
    show ?thesis
    proof (cases e)
      case None
      then show ?thesis using ins e nr by (auto simp: insert_command_def)
    next
      case (Some y)
      then show ?thesis using ins e nr
        by (auto simp: insert_command_def split: if_splits prod.splits sum.splits dest: find_existing_rows)
    qed
  qed
  show ?thesis
  proof (cases "normalize_control_command J sha nonce now c")
    case (Inl e)
    then show ?thesis using assms by (auto simp: enqueue_def)
  next
    case (Inr r1)
    obtain y db1 where f: "find_existing scan r1 db = (y, db1)" by fastforce
    have eq: "db_rows db1 = db_rows db" using find_existing_rows [OF f] .
    show ?thesis using assms eq i [of r1 db] i [of r1 db1, unfolded eq] by (cases y) (auto simp: enqueue_def Inr f split: if_splits)
  qed
qed

lemma has_key_mono: "db_rows db' = db_rows db \<or> (\<exists>row. db_rows db' = db_rows db @ [row]) \<Longrightarrow> has_key k db \<Longrightarrow> has_key k db'"
  by (auto simp: has_key_def)

interpretation store_intake: command_intake "store_submit J sha scan" "store_key J sha" "\<lambda>db k. has_key k db" "\<lambda>db. length (db_rows db)" store_ok
  for J sha scan
proof
  show "length (db_rows s') = (if reused then length (db_rows s) else Suc (length (db_rows s))) \<and>
      (has_key k s \<or> store_key J sha i = Some k \<longrightarrow> has_key k s')"
    if ok: "store_ok i s" and sub: "store_submit J sha scan i s = (Inr (c, reused), s')" for i s c reused s' k
  proof -
    obtain nonce now r where i: "i = (nonce, now, r)" by (metis prod_cases3)
    have e: "enqueue J sha scan nonce now r s = (Inr (c, reused), s')" using sub by (simp add: store_submit_def i)
    have "has_key k s'" if "store_key J sha i = Some k"
      using that enqueue_has_key [OF e] by (auto simp: store_key_def i split: if_splits)
    moreover have "has_key k s \<Longrightarrow> has_key k s'"
      using enqueue_new_row [OF e] has_key_mono [of s' s k] by (cases reused) auto
    ultimately show ?thesis using enqueue_new_row [OF e] by (cases reused) auto
  qed
  show "length (db_rows s') = length (db_rows s) \<and> (has_key k s \<longrightarrow> has_key k s')"
    if "store_ok i s" and sub: "store_submit J sha scan i s = (Inl e, s')" for i s e s' k
  proof -
    obtain nonce now r where i: "i = (nonce, now, r)" by (metis prod_cases3)
    have e: "enqueue J sha scan nonce now r s = (Inl e, s')" using sub by (simp add: store_submit_def i)
    show ?thesis using enqueue_new_row [OF e] has_key_mono [of s' s k] by auto
  qed
  show "\<exists>c. store_submit J sha scan i s = (Inr (c, True), s)"
    if ok: "store_ok i s" and key: "store_key J sha i = Some k" and has: "has_key k s" for i s k
  proof -
    obtain nonce now c where i: "i = (nonce, now, c)" by (metis prod_cases3)
    obtain r where r: "normalize_control_command J sha nonce now c = Inr r"
      using key by (auto simp: store_key_def i is_ok_iff split: if_splits)
    have k: "k = command_key c" and ne: "trim_space (cm_key c) \<noteq> ''''" using key by (auto simp: store_key_def i split: if_splits)
    have "cm_key r \<noteq> ''''" using normalized_key(1) [OF r] ne by (auto simp: command_key_def Let_def trimmed_command_def)
    moreover obtain c' where "find_existing scan r s = (Inr c', s)"
      using has_key_found [OF r _ calculation] ok has by (auto simp: store_ok_def k)
    ultimately show ?thesis by (simp add: store_submit_def i enqueue_def r)
  qed
qed

subsection \<open>An example\<close>

definition demo_digest :: "string \<Rightarrow> int list" where
  "demo_digest s = map (\<lambda>c. int (of_char c)) (rev s)"

definition demo_request :: enqueue_request where
  "demo_request = \<lparr>er_target = '' Decision'', er_decision_id = ''d1'', er_order_id = '''', er_trader_id = ''t1'', er_action = ''approve'',
     er_decision = ''{}'', er_requested_by = ''ops'', er_reason = ''ok'', er_key = ''k1'', er_correlation_id = '''', er_now = 5\<rparr>"

definition demo_queue :: control_queue where
  "demo_queue = snd (queue_enqueue demo_digest 5 demo_request new_queue)"

theorem queue_consistent_witness:
  "queue_list demo_queue = [hd (queue_list demo_queue)] \<and>
   queue_enqueue demo_digest 6 (demo_request\<lparr>er_reason := ''again''\<rparr>) demo_queue = ((hd (queue_list demo_queue), True), demo_queue)"
proof -
  have e: "queue_enqueue demo_digest 5 demo_request new_queue = (fst (queue_enqueue demo_digest 5 demo_request new_queue), demo_queue)"
    by (simp add: demo_queue_def)
  have "queue_step demo_digest new_queue demo_queue"
    by (rule enqueued [OF _ e]) (simp add: fresh_id_def new_queue_def)
  then have r: "(queue_step demo_digest)\<^sup>*\<^sup>* new_queue demo_queue" by blast
  let ?e = "queue_enqueue demo_digest 6 (demo_request\<lparr>er_reason := ''again''\<rparr>) demo_queue"
  have f: "fresh_id demo_digest 6 (demo_request\<lparr>er_reason := ''again''\<rparr>) demo_queue" by code_simp
  have b: "snd (fst ?e)" "length (queue_list demo_queue) = 1" by code_simp+
  have "?e = ((fst (fst ?e), snd (fst ?e)), snd ?e)" by simp
  from queue_consistent [OF r f this] b(1) have "snd ?e = demo_queue" "fst (fst ?e) \<in> set (queue_list demo_queue)" by auto
  with b show ?thesis by (cases ?e; cases "queue_list demo_queue") auto
qed

end
