(* ===== verification/ControlPlane.thy ===== *)
theory ControlPlane
  imports Policy "HOL-Library.Monad_Syntax"
begin

text \<open>
  The safe control plane (\<open>pkg/manager/control_plane.go\<close>) over the runtime repository
  (\<open>pkg/repo/trader_runtime_repo.go\<close> and the upsert of \<open>internal/model/traderruntimestatemodel.go\<close>). It records
  what an operator asks of a trader, start, stop, pause or resume, in memory and in the runtime
  table, from which the manager boots its traders.

  The table is an association list from trader to row. A detail is kept as the value its JSON
  spells: marshalling fails on a number that is not finite and loses nothing otherwise. Each call of the
  database may fail with an error the caller supplies. \<open>time.Parse\<close> is modelled for the layout \<open>RFC3339\<close>, the only one used; of its errors
  only the rejected text is kept. \<open>Handle\<close> reads the clock once.

  Shown: a command that is not accepted changes nothing, an accepted one changes the row of its trader
  only; the circuit breaker is cleared by nothing but an accepted start or resume, which for a live trader needs
  the environment's consent; and the next boot of the manager obeys the last accepted command.
\<close>

subsection \<open>The runtime table\<close>

record runtime_row =
  rw_record :: runtime_record
  rw_updated_at :: time

type_synonym runtime_table = "(string, runtime_row) gomap"

definition detail_numbers :: "runtime_detail \<Rightarrow> f64 list" where
  "detail_numbers d =
    (case rdt_allocation d of None \<Rightarrow> [] | Some a \<Rightarrow> [ral_equity a, ral_used_margin a, ral_available a]) @
    (case rdt_performance d of None \<Rightarrow> [] | Some p \<Rightarrow> [rpf_sharpe p, rpf_total_pnl p]) @
    (case rdt_risk d of None \<Rightarrow> [] | Some k \<Rightarrow> (case rrk_daily k of None \<Rightarrow> [] | Some r \<Rightarrow> [rdl_start r, rdl_last r]))"

definition upsert_state :: "goerror option \<Rightarrow> time \<Rightarrow> runtime_record \<Rightarrow> runtime_table \<Rightarrow> goerror option \<times> runtime_table" where
  "upsert_state fault now r tbl =
    (if rr_trader_id r = '''' then (Some (Errorf ''runtime repo: trader id required'' []), tbl)
     else if \<not> list_all json_number (detail_numbers (rr_detail r))
     then (Some (Wrapf ''runtime repo: marshal detail: %w'' [] (Errorf ''json: unsupported value'' [])), tbl)
     else case fault of
       Some e \<Rightarrow> (Some e, tbl)
     | None \<Rightarrow> (None, put (rr_trader_id r) \<lparr>rw_record = r, rw_updated_at = now\<rparr> tbl))"

definition get_state :: "goerror option \<Rightarrow> string \<Rightarrow> runtime_table \<Rightarrow> goerror + runtime_row option" where
  "get_state fault tid tbl =
    (if trim_space tid = '''' then Inr None
     else case fault of Some e \<Rightarrow> Inl e | None \<Rightarrow> Inr (lookup tbl tid))"

subsection \<open>Times in RFC 3339\<close>

text \<open>\<open>getnum\<close>: two digits, or one unless \<open>fixed\<close>.\<close>

definition getnum :: "bool \<Rightarrow> string \<Rightarrow> (int \<times> string) option" where
  "getnum fixed s = (case s of
     a # b # r \<Rightarrow> if \<not> is_digit a then None
       else if is_digit b then Some ((code a - 48) * 10 + (code b - 48), r)
       else if fixed then None else Some (code a - 48, b # r)
   | [a] \<Rightarrow> if \<not> is_digit a \<or> fixed then None else Some (code a - 48, [])
   | [] \<Rightarrow> None)"

definition expect :: "char \<Rightarrow> string \<Rightarrow> string option" where
  "expect c s = (case s of x # r \<Rightarrow> if x = c then Some r else None | [] \<Rightarrow> None)"

definition in_bounds :: "int \<Rightarrow> int \<Rightarrow> (int \<times> string) option \<Rightarrow> (int \<times> string) option" where
  "in_bounds lo hi p = (case p of Some (v, r) \<Rightarrow> if lo \<le> v \<and> v \<le> hi then Some (v, r) else None | None \<Rightarrow> None)"

definition long_year :: "string \<Rightarrow> (int \<times> string) option" where
  "long_year s = (if 4 \<le> length s \<and> list_all is_digit (take 4 s) then Some (digits_value (take 4 s), drop 4 s) else None)"

text \<open>A fraction of a second, which the layout does not name: nine digits count.\<close>

definition fraction :: "string \<Rightarrow> int \<times> string" where
  "fraction s = (case s of
     c # d # r \<Rightarrow> if (c = CHR ''.'' \<or> c = CHR '','') \<and> is_digit d
       then (let ds = takeWhile is_digit (d # r); used = take 9 ds
             in (digits_value used * 10 ^ (9 - length used), drop (length ds) (d # r)))
       else (0, s)
   | _ \<Rightarrow> (0, s))"

text \<open>The zone: its offset in seconds.\<close>

definition zone :: "string \<Rightarrow> (int \<times> string) option" where
  "zone s = (case expect (CHR ''Z'') s of
     Some r \<Rightarrow> Some (0, r)
   | None \<Rightarrow> (case s of
       sg # h1 # h2 # c # m1 # m2 # r \<Rightarrow>
         if c \<noteq> CHR '':'' then None
         else (case (in_bounds 0 24 (getnum True [h1, h2]), in_bounds 0 60 (getnum True [m1, m2])) of
           (Some (h, _), Some (m, _)) \<Rightarrow>
             if sg = CHR ''+'' then Some (h * 3600 + m * 60, r)
             else if sg = CHR ''-'' then Some (- (h * 3600 + m * 60), r) else None
         | _ \<Rightarrow> None)
     | _ \<Rightarrow> None))"

definition leap_year :: "int \<Rightarrow> bool" where
  "leap_year y \<longleftrightarrow> y mod 4 = 0 \<and> (y mod 100 \<noteq> 0 \<or> y mod 400 = 0)"

definition days_in :: "int \<Rightarrow> int \<Rightarrow> int" where
  "days_in y m = (if m = 2 then (if leap_year y then 29 else 28) else if m \<in> {4, 6, 9, 11} then 30 else 31)"

text \<open>The number of days from the epoch to a civil date.\<close>

definition days_from_civil :: "int \<Rightarrow> int \<Rightarrow> int \<Rightarrow> int" where
  "days_from_civil y0 m d = (let y = (if m \<le> 2 then y0 - 1 else y0); era = y div 400; yoe = y mod 400;
     doy = (153 * (if m > 2 then m - 3 else m + 9) + 2) div 5 + d - 1;
     doe = yoe * 365 + yoe div 4 - yoe div 100 + doy
     in era * 146097 + doe - 719468)"

definition parse_rfc3339 :: "string \<Rightarrow> time option" where
  "parse_rfc3339 s = do {
     (y, s) \<leftarrow> long_year s; s \<leftarrow> expect (CHR ''-'') s;
     (mo, s) \<leftarrow> in_bounds 1 12 (getnum True s); s \<leftarrow> expect (CHR ''-'') s;
     (d, s) \<leftarrow> getnum True s; s \<leftarrow> expect (CHR ''T'') s;
     (h, s) \<leftarrow> in_bounds 0 23 (getnum False s); s \<leftarrow> expect (CHR '':'') s;
     (mi, s) \<leftarrow> in_bounds 0 59 (getnum True s); s \<leftarrow> expect (CHR '':'') s;
     (sec, s) \<leftarrow> in_bounds 0 59 (getnum True s);
     let (ns, s) = fraction s;
     (off, s) \<leftarrow> zone s;
     if s \<noteq> '''' \<or> d < 1 \<or> days_in y mo < d then None
     else Some ((days_from_civil y mo d * 86400 + h * 3600 + mi * 60 + sec - off) * second + ns)
   }"

definition parse_optional_control_time :: "string \<Rightarrow> goerror + time option" where
  "parse_optional_control_time raw0 = (let raw = trim_space raw0 in
     if raw = '''' then Inr None
     else case parse_rfc3339 raw of
       None \<Rightarrow> Inl (Wrapf ''effective_until must be RFC3339: %w'' [] (Errorf ''parsing time %q'' [raw]))
     | Some t \<Rightarrow> Inr (Some t))"

subsection \<open>The control plane\<close>

type_synonym control_action = string

record control_request =
  cq_trader_id :: string
  cq_action :: control_action
  cq_requested_by :: string
  cq_reason :: string
  cq_idempotency_key :: string
  cq_correlation_id :: string
  cq_effective_until :: string

record control_result =
  cs_accepted :: bool
  cs_status :: string
  cs_trader_id :: string
  cs_action :: control_action
  cs_correlation_id :: string
  cs_message :: string
  cs_state :: "trader_state option"
  cs_execution_mode :: execution_mode
  cs_queued :: bool
  cs_control_plane_only :: bool
  cs_updated_at :: time

record control_snapshot =
  cn_trader_id :: string
  cn_state :: trader_state
  cn_version :: int
  cn_pause_until :: "time option"
  cn_pause_reason :: string
  cn_requested_by :: string
  cn_reason :: string
  cn_last_action :: control_action
  cn_correlation_id :: string
  cn_updated_at :: time

text \<open>\<open>cp_repo\<close> says whether the runtime repository is wired.\<close>

record control_plane =
  cp_config :: "config option"
  cp_repo :: bool
  cp_states :: "(string, control_snapshot) gomap"

definition new_control_plane :: "config option \<Rightarrow> bool \<Rightarrow> control_plane" where
  "new_control_plane cfg repo = \<lparr>cp_config = cfg, cp_repo = repo, cp_states = []\<rparr>"

definition set_runtime_repo :: "bool \<Rightarrow> control_plane \<Rightarrow> control_plane" where
  "set_runtime_repo repo c = c\<lparr>cp_repo := repo\<rparr>"

definition control_snapshot_of :: "control_plane \<Rightarrow> string \<Rightarrow> control_snapshot option" where
  "control_snapshot_of c tid = lookup (cp_states c) (trim_space tid)"

definition is_control_action :: "control_action \<Rightarrow> bool" where
  "is_control_action a \<longleftrightarrow> a \<in> {''start'', ''stop'', ''pause'', ''resume''}"

definition enforce_control_execution_mode :: "(string \<Rightarrow> string) \<Rightarrow> execution_mode \<Rightarrow> goerror option" where
  "enforce_control_execution_mode getenv mode =
    (if mode \<in> {mode_paper, mode_testnet} then None
     else if mode = mode_live
     then guards
       [(getenv ''CI'' \<noteq> '''', Errorf ''live trader control is disabled in CI'' []),
        (\<not> truthy_env (getenv ''ASTRAQUANT_ALLOW_LIVE_TRADING''),
         Errorf ''live trader control requires %s=true'' [''ASTRAQUANT_ALLOW_LIVE_TRADING'']),
        (getenv ''ASTRAQUANT_LIVE_TRADING_ACK'' \<noteq> ''I_UNDERSTAND_THIS_CAN_LOSE_MONEY'',
         Errorf ''live trader control requires %s=%s'' [''ASTRAQUANT_LIVE_TRADING_ACK'', ''I_UNDERSTAND_THIS_CAN_LOSE_MONEY''])]
     else Some (Errorf ''unsupported execution_mode %q'' [mode]))"

definition new_control_correlation_id :: "time \<Rightarrow> string \<Rightarrow> control_action \<Rightarrow> string" where
  "new_control_correlation_id now tid action =
    ''ctrl-'' @ (if trim_space tid = '''' then ''unknown'' else trim_space tid) @ ''-'' @
    (if action = '''' then ''control'' else action) @ ''-'' @ itoa now"

definition find_trader :: "config option \<Rightarrow> string \<Rightarrow> trader_config option" where
  "find_trader cfg tid = (case cfg of
     None \<Rightarrow> None
   | Some c \<Rightarrow> if tid = '''' then None else find (\<lambda>t. tc_id t = tid) (cfg_traders c))"

text \<open>The state a stored row stands for: the reading the manager makes of it on boot.\<close>

definition stored_state :: "time \<Rightarrow> runtime_record \<Rightarrow> trader_state" where
  "stored_state now r =
    (let base = (if rr_is_running r then TraderRunning else TraderStopped);
         paused = (case rdt_pause (rr_detail r) of None \<Rightarrow> False
           | Some p \<Rightarrow> (case rpz_until p of None \<Rightarrow> True | Some u \<Rightarrow> now < u));
         blocked = (case rdt_risk (rr_detail r) of None \<Rightarrow> False
           | Some k \<Rightarrow> (case rrk_circuit k of None \<Rightarrow> False | Some x \<Rightarrow> rcr_blocked x))
     in if paused \<or> blocked then TraderPaused else base)"

definition snapshot_of_row :: "time \<Rightarrow> string \<Rightarrow> runtime_row \<Rightarrow> control_snapshot" where
  "snapshot_of_row now tid row =
    (let r = rw_record row; p = rdt_pause (rr_detail r) in
     \<lparr>cn_trader_id = tid, cn_state = stored_state now r, cn_version = rr_version r,
      cn_pause_until = (case p of None \<Rightarrow> None | Some x \<Rightarrow> rpz_until x),
      cn_pause_reason = (case p of None \<Rightarrow> '''' | Some x \<Rightarrow> rpz_reason x),
      cn_requested_by = '''', cn_reason = '''', cn_last_action = '''', cn_correlation_id = '''',
      cn_updated_at = rw_updated_at row\<rparr>)"

definition current_state ::
  "goerror option \<Rightarrow> time \<Rightarrow> string \<Rightarrow> control_plane \<Rightarrow> runtime_table \<Rightarrow> control_snapshot option" where
  "current_state fault now tid c tbl = (case lookup (cp_states c) tid of
     Some s \<Rightarrow> Some s
   | None \<Rightarrow> if \<not> cp_repo c then None
     else (case get_state fault tid tbl of
         Inr (Some row) \<Rightarrow> Some (snapshot_of_row now tid row)
       | _ \<Rightarrow> None))"

definition stopped_snapshot :: "trader_config \<Rightarrow> control_snapshot" where
  "stopped_snapshot t = \<lparr>cn_trader_id = tc_id t, cn_state = TraderStopped, cn_version = tc_version t,
     cn_pause_until = None, cn_pause_reason = '''', cn_requested_by = '''', cn_reason = '''', cn_last_action = '''',
     cn_correlation_id = '''', cn_updated_at = zero_time\<rparr>"

definition next_state ::
  "time \<Rightarrow> trader_config \<Rightarrow> control_request \<Rightarrow> control_action \<Rightarrow> control_snapshot option \<Rightarrow> goerror + control_snapshot" where
  "next_state now t req action cur =
    (let current = (case cur of Some s \<Rightarrow> s | None \<Rightarrow> stopped_snapshot t);
         next = current\<lparr>cn_trader_id := tc_id t, cn_version := tc_version t, cn_updated_at := now,
           cn_requested_by := trim_space (cq_requested_by req), cn_reason := trim_space (cq_reason req),
           cn_last_action := action, cn_correlation_id := trim_space (cq_correlation_id req)\<rparr>
     in if action = ''start''
        then Inr (next\<lparr>cn_state := TraderRunning, cn_pause_until := None, cn_pause_reason := ''''\<rparr>)
        else if action = ''stop''
        then Inr (next\<lparr>cn_state := TraderStopped, cn_pause_until := None, cn_pause_reason := ''''\<rparr>)
        else if action = ''pause''
        then (if cn_state current = TraderStopped then Inl (Errorf ''cannot pause stopped trader %q'' [tc_id t])
              else case parse_optional_control_time (cq_effective_until req) of
                Inl e \<Rightarrow> Inl e
              | Inr until \<Rightarrow> Inr (next\<lparr>cn_state := TraderPaused, cn_pause_until := until,
                  cn_pause_reason := trim_space (cq_reason req)\<rparr>))
        else if action = ''resume''
        then (if cn_state current = TraderStopped
              then Inl (Errorf ''cannot resume stopped trader %q; start it first'' [tc_id t])
              else Inr (next\<lparr>cn_state := TraderRunning, cn_pause_until := None, cn_pause_reason := ''''\<rparr>))
        else Inl (Errorf ''unsupported control action %q'' [action]))"

text \<open>What \<open>persistState\<close> makes of the stored detail.\<close>

definition control_risk :: "control_snapshot \<Rightarrow> runtime_risk option \<Rightarrow> runtime_risk option" where
  "control_risk snap risk = (case risk of
     Some k \<Rightarrow> if cn_state snap = TraderRunning \<and> rrk_circuit k \<noteq> None
       then (if rrk_daily k = None then None else Some (k\<lparr>rrk_circuit := None\<rparr>)) else Some k
   | None \<Rightarrow> None)"

definition control_detail :: "control_snapshot \<Rightarrow> runtime_detail \<Rightarrow> runtime_detail" where
  "control_detail snap d = d\<lparr>
     rdt_pause := (if cn_state snap = TraderPaused \<or> cn_pause_until snap \<noteq> None \<or> trim_space (cn_pause_reason snap) \<noteq> ''''
       then Some \<lparr>rpz_until = cn_pause_until snap, rpz_reason = cn_pause_reason snap\<rparr> else None),
     rdt_risk := control_risk snap (rdt_risk d)\<rparr>"

definition empty_detail :: runtime_detail where
  "empty_detail = \<lparr>rdt_decision = None, rdt_pause = None, rdt_allocation = None, rdt_performance = None, rdt_risk = None\<rparr>"

definition persist_state ::
  "goerror option \<Rightarrow> goerror option \<Rightarrow> time \<Rightarrow> control_snapshot \<Rightarrow> control_plane \<Rightarrow> runtime_table \<Rightarrow>
   goerror option \<times> runtime_table" where
  "persist_state get_fault put_fault now snap c tbl =
    (if \<not> cp_repo c then (None, tbl)
     else case get_state get_fault (cn_trader_id snap) tbl of
       Inl e \<Rightarrow> (Some e, tbl)
     | Inr existing \<Rightarrow>
       let detail = (case existing of None \<Rightarrow> empty_detail | Some row \<Rightarrow> rr_detail (rw_record row)) in
       upsert_state put_fault now \<lparr>rr_trader_id = cn_trader_id snap, rr_version = cn_version snap,
         rr_is_running = (cn_state snap = TraderRunning), rr_detail = control_detail snap detail\<rparr> tbl)"

text \<open>The database errors of one command: of the two reads and of the write.\<close>

record control_faults =
  cf_current :: "goerror option"
  cf_existing :: "goerror option"
  cf_upsert :: "goerror option"

definition rejected_result :: "string \<Rightarrow> control_action \<Rightarrow> string \<Rightarrow> execution_mode \<Rightarrow> string \<Rightarrow> control_result" where
  "rejected_result tid action corr mode msg = \<lparr>cs_accepted = False, cs_status = ''rejected'', cs_trader_id = tid,
     cs_action = action, cs_correlation_id = corr, cs_message = msg, cs_state = None, cs_execution_mode = mode,
     cs_queued = False, cs_control_plane_only = True, cs_updated_at = zero_time\<rparr>"

text \<open>The part of \<open>Handle\<close> that follows its checks; \<open>base\<close> is the result with a message.\<close>

definition record_command ::
  "control_faults \<Rightarrow> time \<Rightarrow> trader_config \<Rightarrow> control_request \<Rightarrow> control_action \<Rightarrow> (string \<Rightarrow> control_result) \<Rightarrow>
   control_plane \<Rightarrow> runtime_table \<Rightarrow> ((control_result \<times> goerror option) \<times> control_plane) \<times> runtime_table" where
  "record_command f now t req action base c tbl =
    (case next_state now t req action (current_state (cf_current f) now (tc_id t) c tbl) of
       Inl e \<Rightarrow> (((base (error_text e), None), c), tbl)
     | Inr nxt \<Rightarrow> (case persist_state (cf_existing f) (cf_upsert f) now nxt c tbl of
         (Some e, tbl1) \<Rightarrow> (((base '''', Some e), c), tbl1)
       | (None, tbl1) \<Rightarrow>
         ((((base ''control state recorded; no trading loop was started and no orders were submitted'')
            \<lparr>cs_accepted := True, cs_status := ''accepted'', cs_state := Some (cn_state nxt), cs_updated_at := cn_updated_at nxt\<rparr>, None),
           c\<lparr>cp_states := put (tc_id t) nxt (cp_states c)\<rparr>), tbl1)))"

definition handle ::
  "(string \<Rightarrow> string) \<Rightarrow> control_faults \<Rightarrow> time \<Rightarrow> control_request \<Rightarrow> control_plane \<Rightarrow> runtime_table \<Rightarrow>
   ((control_result \<times> goerror option) \<times> control_plane) \<times> runtime_table" where
  "handle getenv f now req c tbl =
    (let tid = trim_space (cq_trader_id req); action = to_lower (trim_space (cq_action req));
         corr = (if trim_space (cq_correlation_id req) = '''' then new_control_correlation_id now tid action
                 else trim_space (cq_correlation_id req));
         refuse = (\<lambda>mode msg. (((rejected_result tid action corr mode msg, None), c), tbl))
     in if cp_config c = None then refuse '''' ''manager control plane is not configured''
        else case find_trader (cp_config c) tid of
          None \<Rightarrow> refuse '''' (error_text (Errorf ''trader %q not found'' [tid]))
        | Some t \<Rightarrow>
          let mode = normalize_execution_mode (tc_execution_mode t) (tc_exchange_provider t) in
          if \<not> is_control_action action then refuse mode (error_text (Errorf ''unsupported control action %q'' [action]))
          else case (if action = ''start'' \<or> action = ''resume'' then enforce_control_execution_mode getenv mode else None) of
            Some e \<Rightarrow> refuse mode (error_text e)
          | None \<Rightarrow> record_command f now t (req\<lparr>cq_correlation_id := corr\<rparr>) action (rejected_result tid action corr mode) c tbl)"

subsection \<open>The cases of a command\<close>

lemma upsert_state_error: "upsert_state fault now r tbl = (Some e, tbl') \<Longrightarrow> tbl' = tbl"
  by (auto simp: upsert_state_def split: if_splits option.splits)

lemma upsert_state_ok:
  "upsert_state fault now r tbl = (None, tbl') \<Longrightarrow> tbl' = put (rr_trader_id r) \<lparr>rw_record = r, rw_updated_at = now\<rparr> tbl"
  by (auto simp: upsert_state_def split: if_splits option.splits)

lemma persist_state_error: "persist_state gf pf now snap c tbl = (Some e, tbl') \<Longrightarrow> tbl' = tbl"
  by (auto simp: persist_state_def Let_def split: if_splits sum.splits dest: upsert_state_error)

lemma persist_state_ok:
  assumes "persist_state gf pf now snap c tbl = (None, tbl')" "cp_repo c" "trim_space (cn_trader_id snap) \<noteq> ''''"
  shows "tbl' = put (cn_trader_id snap) \<lparr>rw_record = \<lparr>rr_trader_id = cn_trader_id snap, rr_version = cn_version snap,
      rr_is_running = (cn_state snap = TraderRunning), rr_detail = control_detail snap
        (case lookup tbl (cn_trader_id snap) of None \<Rightarrow> empty_detail | Some row \<Rightarrow> rr_detail (rw_record row))\<rparr>,
      rw_updated_at = now\<rparr> tbl"
  using assms by (auto simp: persist_state_def get_state_def Let_def split: if_splits sum.splits option.splits dest: upsert_state_ok)

lemma find_trader_Some: "find_trader cfg tid = Some t \<Longrightarrow> tc_id t = tid \<and> tid \<noteq> ''''"
  by (auto simp: find_trader_def split: option.splits if_splits dest: find_SomeD)

text \<open>A command is refused, or accepted with the snapshot \<open>nxt\<close>.\<close>

lemma record_command_cases [consumes 1, case_names refused accepted]:
  assumes "record_command f now t req a (rejected_result tid a corr mode) c tbl = (((res, err), c'), tbl')"
  obtains "\<not> cs_accepted res" "c' = c" "tbl' = tbl"
  | nxt where "cs_accepted res" "err = None" "cs_trader_id res = tid" "cs_action res = a"
      "next_state now t req a (current_state (cf_current f) now (tc_id t) c tbl) = Inr nxt"
      "persist_state (cf_existing f) (cf_upsert f) now nxt c tbl = (None, tbl')"
      "c' = c\<lparr>cp_states := put (tc_id t) nxt (cp_states c)\<rparr>"
proof (cases "next_state now t req a (current_state (cf_current f) now (tc_id t) c tbl)")
  case (Inl e)
  then show thesis using assms by (intro that(1)) (auto simp: record_command_def rejected_result_def)
next
  case (Inr nxt)
  obtain r tbl1 where p: "persist_state (cf_existing f) (cf_upsert f) now nxt c tbl = (r, tbl1)" by fastforce
  show thesis
  proof (cases r)
    case None
    show thesis by (rule that(2) [of nxt]) (use assms Inr p None in \<open>auto simp: record_command_def rejected_result_def\<close>)
  next
    case (Some e)
    then have "tbl1 = tbl" using p persist_state_error by blast
    then show thesis using assms Inr p Some by (intro that(1)) (auto simp: record_command_def rejected_result_def)
  qed
qed

lemma handle_cases [consumes 1, case_names refused accepted]:
  assumes "handle getenv f now req c tbl = (((res, err), c'), tbl')"
  obtains "\<not> cs_accepted res" "c' = c" "tbl' = tbl"
  | t corr nxt where "cs_accepted res" "cs_trader_id res = trim_space (cq_trader_id req)" "tc_id t = trim_space (cq_trader_id req)"
      "tc_id t \<noteq> ''''" "find_trader (cp_config c) (trim_space (cq_trader_id req)) = Some t"
      "cs_action res \<in> {''start'', ''resume''} \<Longrightarrow>
         enforce_control_execution_mode getenv (normalize_execution_mode (tc_execution_mode t) (tc_exchange_provider t)) = None"
      "next_state now t (req\<lparr>cq_correlation_id := corr\<rparr>) (cs_action res) (current_state (cf_current f) now (tc_id t) c tbl) = Inr nxt"
      "persist_state (cf_existing f) (cf_upsert f) now nxt c tbl = (None, tbl')"
      "c' = c\<lparr>cp_states := put (tc_id t) nxt (cp_states c)\<rparr>"
proof -
  let ?tid = "trim_space (cq_trader_id req)" and ?a = "to_lower (trim_space (cq_action req))"
  consider (no) "\<not> cs_accepted res" "c' = c" "tbl' = tbl"
    | (yes) t corr mode where "find_trader (cp_config c) ?tid = Some t"
      "?a \<in> {''start'', ''resume''} \<Longrightarrow> enforce_control_execution_mode getenv (normalize_execution_mode (tc_execution_mode t) (tc_exchange_provider t)) = None"
      "record_command f now t (req\<lparr>cq_correlation_id := corr\<rparr>) ?a (rejected_result ?tid ?a corr mode) c tbl = (((res, err), c'), tbl')"
    using assms unfolding handle_def Let_def
    by (simp split: if_splits option.splits) (fastforce simp: rejected_result_def)+
  then show thesis
  proof cases
    case (yes t corr mode)
    from yes(3) show thesis
    proof (cases rule: record_command_cases)
      case (accepted nxt)
      show thesis by (rule that(2) [of t corr nxt]) (use accepted yes find_trader_Some [OF yes(1)] in auto)
    qed (rule that(1))
  qed (rule that(1))
qed

lemma next_state_id: "next_state now t req a cur = Inr nxt \<Longrightarrow> cn_trader_id nxt = tc_id t"
  by (auto simp: next_state_def Let_def split: if_splits sum.splits)

lemma next_state_state:
  assumes "next_state now t req a cur = Inr nxt"
  shows "(a \<in> {''start'', ''resume''} \<and> cn_state nxt = TraderRunning \<and> cn_pause_until nxt = None \<and> cn_pause_reason nxt = '''') \<or>
    (a = ''stop'' \<and> cn_state nxt = TraderStopped \<and> cn_pause_until nxt = None \<and> cn_pause_reason nxt = '''') \<or>
    (a = ''pause'' \<and> cn_state nxt = TraderPaused)"
  using assms by (auto simp: next_state_def Let_def split: if_splits sum.splits)

text \<open>Identifiers of a configuration are trimmed, so that the repository finds their rows.\<close>

lemma accepted_row:
  assumes "next_state now t req a cur = Inr nxt" "persist_state gf pf now nxt c tbl = (None, tbl')" "cp_repo c"
    "trim_space (tc_id t) \<noteq> ''''"
  shows "lookup tbl' j = (if j = tc_id t then Some \<lparr>rw_record = \<lparr>rr_trader_id = tc_id t, rr_version = cn_version nxt,
      rr_is_running = (cn_state nxt = TraderRunning), rr_detail = control_detail nxt
        (case lookup tbl (tc_id t) of None \<Rightarrow> empty_detail | Some row \<Rightarrow> rr_detail (rw_record row))\<rparr>,
      rw_updated_at = now\<rparr> else lookup tbl j)"
  using persist_state_ok [OF assms(2,3)] next_state_id [OF assms(1)] assms(4) by simp

definition stored_circuit :: "runtime_table \<Rightarrow> string \<Rightarrow> runtime_circuit option" where
  "stored_circuit tbl tid = (case lookup tbl tid of None \<Rightarrow> None
     | Some row \<Rightarrow> (case rdt_risk (rr_detail (rw_record row)) of None \<Rightarrow> None | Some k \<Rightarrow> rrk_circuit k))"

lemma control_risk_circuit:
  "(case control_risk snap risk of None \<Rightarrow> None | Some k \<Rightarrow> rrk_circuit k) =
   (if cn_state snap = TraderRunning then None else case risk of None \<Rightarrow> None | Some k \<Rightarrow> rrk_circuit k)"
  by (auto simp: control_risk_def split: option.splits if_splits)

text \<open>A control command is confined: refused, it changes neither the memory nor the table; accepted, it
  changes the entries of its own trader only. The circuit breaker that is stored for a trader changes under an
  accepted start or resume of that trader alone, which clears it and which, for a live trader, needs the three
  switches of the environment.\<close>

theorem control_confined:
  assumes "handle getenv f now req c tbl = (((res, err), c'), tbl')"
  shows "(\<not> cs_accepted res \<longrightarrow> c' = c \<and> tbl' = tbl) \<and>
    (j \<noteq> trim_space (cq_trader_id req) \<longrightarrow> lookup (cp_states c') j = lookup (cp_states c) j \<and> lookup tbl' j = lookup tbl j) \<and>
    (stored_circuit tbl' j \<noteq> stored_circuit tbl j \<longrightarrow>
       cs_accepted res \<and> j = trim_space (cq_trader_id req) \<and> cs_action res \<in> {''start'', ''resume''} \<and>
       stored_circuit tbl' j = None \<and>
       (\<exists>t. find_trader (cp_config c) j = Some t \<and>
          (to_lower (trim_space (tc_execution_mode t)) = mode_live \<longrightarrow>
             getenv ''CI'' = '''' \<and> truthy_env (getenv ''ASTRAQUANT_ALLOW_LIVE_TRADING'') \<and>
             getenv ''ASTRAQUANT_LIVE_TRADING_ACK'' = ''I_UNDERSTAND_THIS_CAN_LOSE_MONEY'')))"
  using assms
proof (cases rule: handle_cases)
  case refused
  then show ?thesis by simp
next
  case (accepted t corr nxt)
  let ?tid = "trim_space (cq_trader_id req)"
  have id: "tc_id t = ?tid" "trim_space (tc_id t) \<noteq> ''''" using accepted(3,4) by simp_all
  show ?thesis
  proof (cases "cp_repo c")
    case False
    then have "tbl' = tbl" using accepted(8) by (simp add: persist_state_def)
    then show ?thesis using accepted(1,9) id by simp
  next
    case True
    note row = accepted_row [OF accepted(7,8) True id(2)]
    have circ: "stored_circuit tbl' j = (if j = ?tid \<and> cn_state nxt = TraderRunning then None else stored_circuit tbl j)"
      using control_risk_circuit [of nxt]
      by (auto simp: stored_circuit_def row id control_detail_def empty_detail_def control_risk_def split: option.splits)
    have "getenv ''CI'' = '''' \<and> truthy_env (getenv ''ASTRAQUANT_ALLOW_LIVE_TRADING'') \<and>
        getenv ''ASTRAQUANT_LIVE_TRADING_ACK'' = ''I_UNDERSTAND_THIS_CAN_LOSE_MONEY''"
      if "cs_action res \<in> {''start'', ''resume''}" "to_lower (trim_space (tc_execution_mode t)) = mode_live"
      using accepted(6) [OF that(1)] that(2)
      by (simp add: normalize_execution_mode_def enforce_control_execution_mode_def Let_def guards_None split: if_splits)
    then show ?thesis using accepted(1,5,9) id row circ next_state_state [OF accepted(7)] by auto
  qed
qed

text \<open>What a boot from a stored row makes of the breaker and of the state.\<close>

lemma hydrate_keeps_circuit:
  "tr_circuit (hydrate_version s t) = tr_circuit t" "tr_circuit (hydrate_decision d t) = tr_circuit t"
  "tr_circuit (hydrate_pause d t) = tr_circuit t" "tr_circuit (hydrate_allocation d t) = tr_circuit t"
  "tr_circuit (hydrate_performance d t) = tr_circuit t" "tr_circuit (hydrate_daily d t) = tr_circuit t"
  by (simp_all add: hydrate_daily_def hydrate_performance_def hydrate_allocation_def hydrate_pause_def hydrate_decision_def
      hydrate_version_def split: option.splits)

lemma booted_circuit:
  "rc_blocked (tr_circuit (hydrate_fields s (new_trader later ty cfg))) =
   (case rdt_risk (rr_detail s) of None \<Rightarrow> False | Some k \<Rightarrow> (case rrk_circuit k of None \<Rightarrow> False | Some r \<Rightarrow> rcr_blocked r))"
proof -
  have "tr_circuit (new_trader later ty cfg) = zero_circuit" by (simp add: new_trader_def)
  then show ?thesis
    by (simp add: hydrate_fields_def Let_def hydrate_circuit_def hydrate_keeps_circuit zero_circuit_def split: option.splits)
qed

lemma boot_row:
  assumes "t' = boot_trader later auto_start (Inr (Some s)) cooldowns t0" "t1 = hydrate_fields s t0"
  shows "\<not> rr_is_running s \<Longrightarrow> \<not> is_active t' \<and> tr_circuit t' = tr_circuit t1"
    and "rr_is_running s \<Longrightarrow> \<not> rc_blocked (tr_circuit t1) \<Longrightarrow> is_active t' \<and> \<not> rc_blocked (tr_circuit t')"
proof -
  obtain cs where t': "t' = (let t2 = t1\<lparr>tr_state := hydrated_state later s t1, tr_cooldown := cs\<rparr> in
      if rr_is_running s then trader_start later t2 else t2)"
  proof (cases cooldowns)
    case (Inl e)
    have "tr_cooldown t1 = tr_cooldown (t1\<lparr>tr_state := x\<rparr>)" for x by simp
    then show thesis using assms Inl by (intro that [of "tr_cooldown t1"]) (simp add: boot_trader_def hydrate_trader_def Let_def)
  next
    case (Inr xs)
    then show thesis using assms by (intro that) (simp add: boot_trader_def hydrate_trader_def Let_def)
  qed
  show "\<not> rr_is_running s \<Longrightarrow> \<not> is_active t' \<and> tr_circuit t' = tr_circuit t1"
    by (simp add: t' Let_def is_active_def hydrated_state_def split: option.splits)
  show "rr_is_running s \<Longrightarrow> \<not> rc_blocked (tr_circuit t1) \<Longrightarrow> is_active t' \<and> \<not> rc_blocked (tr_circuit t')"
    by (simp add: t' Let_def is_active_def trader_start_def zero_circuit_def)
qed

text \<open>C12. The manager obeys the control plane: when it boots a trader from the table after an accepted command, the trader
  runs with its breaker clear after a start or a resume; after a stop or a pause it does not run and takes no decision, even
  if its configuration starts it automatically, and its breaker is blocked exactly if it was.\<close>

theorem control_governs_boot:
  assumes "handle getenv f now req c tbl = (((res, err), c'), tbl')" "cs_accepted res" "cp_repo c"
    and "t' = boot_trader later auto_start (Inr (map_option rw_record (lookup tbl' (cs_trader_id res)))) cooldowns (new_trader later ty cfg)"
  shows "if cs_action res \<in> {''start'', ''resume''} then is_active t' \<and> \<not> rc_blocked (tr_circuit t')
     else \<not> is_active t' \<and> \<not> should_make_decision ts t' \<and>
       rc_blocked (tr_circuit t') = (case stored_circuit tbl (cs_trader_id res) of None \<Rightarrow> False | Some k \<Rightarrow> rcr_blocked k)"
  using assms(1)
proof (cases rule: handle_cases)
  case (accepted t corr nxt)
  let ?tid = "cs_trader_id res"
  have id: "tc_id t = ?tid" "trim_space (tc_id t) \<noteq> ''''" using accepted(2-4) by simp_all
  let ?s = "\<lparr>rr_trader_id = tc_id t, rr_version = cn_version nxt, rr_is_running = (cn_state nxt = TraderRunning),
    rr_detail = control_detail nxt (case lookup tbl (tc_id t) of None \<Rightarrow> empty_detail | Some row \<Rightarrow> rr_detail (rw_record row))\<rparr>"
  have t': "t' = boot_trader later auto_start (Inr (Some ?s)) cooldowns (new_trader later ty cfg)"
    using assms(4) accepted_row [OF accepted(7,8) assms(3) id(2), of ?tid] id(1) by simp
  have circ: "rc_blocked (tr_circuit (hydrate_fields ?s (new_trader later ty cfg))) =
      (cn_state nxt \<noteq> TraderRunning \<and> (case stored_circuit tbl ?tid of None \<Rightarrow> False | Some k \<Rightarrow> rcr_blocked k))"
    by (auto simp: booted_circuit control_detail_def control_risk_def stored_circuit_def id empty_detail_def split: option.splits)
  have run: "cn_state nxt = TraderRunning \<longleftrightarrow> cs_action res \<in> {''start'', ''resume''}"
    using next_state_state [OF accepted(7)] by auto
  show ?thesis
  proof (cases "cn_state nxt = TraderRunning")
    case True
    then show ?thesis using boot_row(2) [OF t' refl] circ run by simp
  next
    case False
    then have "\<not> is_active t'" "rc_blocked (tr_circuit t') = (case stored_circuit tbl ?tid of None \<Rightarrow> False | Some k \<Rightarrow> rcr_blocked k)"
      using boot_row(1) [OF t' refl] circ by simp_all
    then show ?thesis using False run by (simp add: should_make_decision_def is_active_def)
  qed
qed (use assms(2) in simp)

subsection \<open>Examples\<close>

definition demo_command :: "string \<Rightarrow> control_request" where
  "demo_command a = \<lparr>cq_trader_id = '' alpha '', cq_action = a, cq_requested_by = ''ops'', cq_reason = ''drill'',
     cq_idempotency_key = '''', cq_correlation_id = '''', cq_effective_until = ''1970-01-01T00:10:00Z''\<rparr>"

definition no_faults :: control_faults where
  "no_faults = \<lparr>cf_current = None, cf_existing = None, cf_upsert = None\<rparr>"

text \<open>A paper trader whose breaker has tripped, as the manager persisted it.\<close>

definition tripped_table :: runtime_table where
  "tripped_table = snd (upsert_state None 5 (runtime_record_of 5 (trip_circuit 5 ''loss'' demo_trader)) [])"

definition demo_control :: control_plane where
  "demo_control = new_control_plane (Some (demo_config\<lparr>cfg_traders := [demo_trader_config\<lparr>tc_id := ''alpha''\<rparr>]\<rparr>)) True"

definition demo_handle :: "string \<Rightarrow> ((control_result \<times> goerror option) \<times> control_plane) \<times> runtime_table" where
  "demo_handle a = handle no_env no_faults 7 (demo_command a) demo_control tripped_table"

lemma demo_handle_eq: "handle no_env no_faults 7 (demo_command a) demo_control tripped_table =
    (((fst (fst (fst (demo_handle a))), snd (fst (fst (demo_handle a)))), snd (fst (demo_handle a))), snd (demo_handle a))"
  by (simp add: demo_handle_def)

theorem control_confined_witness:
  "stored_circuit (snd (demo_handle ''resume'')) ''alpha'' = None \<and> stored_circuit tripped_table ''alpha'' \<noteq> None \<and>
   cs_accepted (fst (fst (fst (demo_handle ''resume''))))"
proof -
  have "stored_circuit (snd (demo_handle ''resume'')) ''alpha'' \<noteq> stored_circuit tripped_table ''alpha''" by code_simp
  with control_confined [OF demo_handle_eq, of "''resume''" "''alpha''"] show ?thesis by metis
qed

theorem control_governs_boot_witness:
  "\<not> should_make_decision minute (boot_trader minute True (Inr (map_option rw_record (lookup (snd (demo_handle ''Pause'')) ''alpha'')))
     (Inr []) (new_trader minute ''*sim.Provider'' demo_trader_config))"
proof -
  have "cs_accepted (fst (fst (fst (demo_handle ''Pause''))))" "cp_repo demo_control"
    and r: "cs_trader_id (fst (fst (fst (demo_handle ''Pause'')))) = ''alpha''" "cs_action (fst (fst (fst (demo_handle ''Pause'')))) = ''pause''"
    by code_simp+
  from control_governs_boot [OF demo_handle_eq this(1,2) refl] show ?thesis by (simp add: r)
qed

end
