(* ===== verification/TradingApi.thy ===== *)
theory TradingApi
  imports Json AuditLog ControlQueue ControlPlane
begin

text \<open>
  The operator's commands on decisions and orders (\<open>internal/logic/tradingcontractlogic.go\<close>): the request is checked, put on the durable queue of
  the repository or, without a database, on the in-memory one, and recorded in the audit trail.

  Filling a structure from a JSON value is modelled, field by field; the text of a value is not: \<open>ae_encode\<close> and \<open>ae_decode\<close> stand for the printer and the parser of \<open>encoding/json\<close>, \<open>ae_decision\<close> for the printer on a decision.
  A service that is not wired (its field in the service context is nil) is \<open>None\<close>.

  Shown: with the in-memory queue a request that is refused leaves the queue and the trail as they were; a request that is accepted
  adds one command and one audit event which names it, or is answered with the command that has its key; whatever the queue behind the
  interface, a key gets at most one command.
\<close>

subsection \<open>Decision payloads\<close>

definition zero_decision :: decision where
  "zero_decision = \<lparr>dec_symbol = '''', dec_action = '''', dec_leverage = 0, dec_position_size = Fin 0, dec_entry_price = Fin 0, dec_stop_loss = Fin 0,
     dec_take_profit = Fin 0, dec_confidence = 0, dec_risk_usd = Fin 0, dec_reasoning = '''', dec_invalidation = ''''\<rparr>"

definition decision_fields :: "string list" where
  "decision_fields = [''Symbol'', ''Action'', ''Leverage'', ''PositionSizeUSD'', ''EntryPrice'', ''StopLoss'', ''TakeProfit'', ''Confidence'',
     ''RiskUSD'', ''Reasoning'', ''InvalidationCondition'']"

definition assign_decision :: "string \<Rightarrow> json \<Rightarrow> decision \<Rightarrow> decision option" where
  "assign_decision f v d =
    (if v = JNull then Some d
     else if f = ''Symbol'' then map_option (\<lambda>x. d\<lparr>dec_symbol := x\<rparr>) (as_string v)
     else if f = ''Action'' then map_option (\<lambda>x. d\<lparr>dec_action := x\<rparr>) (as_string v)
     else if f = ''Leverage'' then map_option (\<lambda>x. d\<lparr>dec_leverage := x\<rparr>) (as_int v)
     else if f = ''PositionSizeUSD'' then map_option (\<lambda>x. d\<lparr>dec_position_size := x\<rparr>) (as_float v)
     else if f = ''EntryPrice'' then map_option (\<lambda>x. d\<lparr>dec_entry_price := x\<rparr>) (as_float v)
     else if f = ''StopLoss'' then map_option (\<lambda>x. d\<lparr>dec_stop_loss := x\<rparr>) (as_float v)
     else if f = ''TakeProfit'' then map_option (\<lambda>x. d\<lparr>dec_take_profit := x\<rparr>) (as_float v)
     else if f = ''Confidence'' then map_option (\<lambda>x. d\<lparr>dec_confidence := x\<rparr>) (as_int v)
     else if f = ''RiskUSD'' then map_option (\<lambda>x. d\<lparr>dec_risk_usd := x\<rparr>) (as_float v)
     else if f = ''Reasoning'' then map_option (\<lambda>x. d\<lparr>dec_reasoning := x\<rparr>) (as_string v)
     else map_option (\<lambda>x. d\<lparr>dec_invalidation := x\<rparr>) (as_string v))"

record snake_payload =
  sp_symbol :: "string option"
  sp_action :: "string option"
  sp_leverage :: "int option"
  sp_position_size :: "f64 option"
  sp_entry_price :: "f64 option"
  sp_stop_loss :: "f64 option"
  sp_take_profit :: "f64 option"
  sp_confidence :: "int option"
  sp_risk_usd :: "f64 option"
  sp_reasoning :: "string option"
  sp_invalidation :: "string option"

definition zero_snake :: snake_payload where
  "zero_snake = \<lparr>sp_symbol = None, sp_action = None, sp_leverage = None, sp_position_size = None, sp_entry_price = None, sp_stop_loss = None,
     sp_take_profit = None, sp_confidence = None, sp_risk_usd = None, sp_reasoning = None, sp_invalidation = None\<rparr>"

definition snake_fields :: "string list" where
  "snake_fields = [''symbol'', ''action'', ''leverage'', ''position_size_usd'', ''entry_price'', ''stop_loss'', ''take_profit'', ''confidence'',
     ''risk_usd'', ''reasoning'', ''invalidation_condition'']"

definition assign_snake :: "string \<Rightarrow> json \<Rightarrow> snake_payload \<Rightarrow> snake_payload option" where
  "assign_snake f v p =
    (if f = ''symbol'' then map_option (\<lambda>x. p\<lparr>sp_symbol := x\<rparr>) (pointer as_string v)
     else if f = ''action'' then map_option (\<lambda>x. p\<lparr>sp_action := x\<rparr>) (pointer as_string v)
     else if f = ''leverage'' then map_option (\<lambda>x. p\<lparr>sp_leverage := x\<rparr>) (pointer as_int v)
     else if f = ''position_size_usd'' then map_option (\<lambda>x. p\<lparr>sp_position_size := x\<rparr>) (pointer as_float v)
     else if f = ''entry_price'' then map_option (\<lambda>x. p\<lparr>sp_entry_price := x\<rparr>) (pointer as_float v)
     else if f = ''stop_loss'' then map_option (\<lambda>x. p\<lparr>sp_stop_loss := x\<rparr>) (pointer as_float v)
     else if f = ''take_profit'' then map_option (\<lambda>x. p\<lparr>sp_take_profit := x\<rparr>) (pointer as_float v)
     else if f = ''confidence'' then map_option (\<lambda>x. p\<lparr>sp_confidence := x\<rparr>) (pointer as_int v)
     else if f = ''risk_usd'' then map_option (\<lambda>x. p\<lparr>sp_risk_usd := x\<rparr>) (pointer as_float v)
     else if f = ''reasoning'' then map_option (\<lambda>x. p\<lparr>sp_reasoning := x\<rparr>) (pointer as_string v)
     else map_option (\<lambda>x. p\<lparr>sp_invalidation := x\<rparr>) (pointer as_string v))"

definition or_keep :: "'a option \<Rightarrow> 'a \<Rightarrow> 'a" where
  "or_keep p x = (case p of None \<Rightarrow> x | Some y \<Rightarrow> y)"

definition apply_snake_decision_payload :: "decision \<Rightarrow> snake_payload \<Rightarrow> decision" where
  "apply_snake_decision_payload d p = \<lparr>dec_symbol = or_keep (sp_symbol p) (dec_symbol d), dec_action = or_keep (sp_action p) (dec_action d),
     dec_leverage = or_keep (sp_leverage p) (dec_leverage d), dec_position_size = or_keep (sp_position_size p) (dec_position_size d),
     dec_entry_price = or_keep (sp_entry_price p) (dec_entry_price d), dec_stop_loss = or_keep (sp_stop_loss p) (dec_stop_loss d),
     dec_take_profit = or_keep (sp_take_profit p) (dec_take_profit d), dec_confidence = or_keep (sp_confidence p) (dec_confidence d),
     dec_risk_usd = or_keep (sp_risk_usd p) (dec_risk_usd d), dec_reasoning = or_keep (sp_reasoning p) (dec_reasoning d),
     dec_invalidation = or_keep (sp_invalidation p) (dec_invalidation d)\<rparr>"

text \<open>The environment of the handlers: \<open>encoding/json\<close>, the digest, and what the repositories need.\<close>

record api_env =
  ae_encode :: "json \<Rightarrow> goerror + string"
  ae_decode :: "string \<Rightarrow> goerror + json"
  ae_decision :: "decision \<Rightarrow> goerror + string"
  ae_codec :: json_codec
  ae_sha :: "string \<Rightarrow> int list"
  ae_scan :: row_order

definition invalid_payload :: "goerror \<Rightarrow> goerror" where
  "invalid_payload e = Wrapf ''invalid decision payload: %w'' [] e"

definition read_decision_payload :: "json \<Rightarrow> goerror + decision" where
  "read_decision_payload v = (case fill_struct decision_fields assign_decision zero_decision v of
     Inl e \<Rightarrow> Inl (invalid_payload e)
   | Inr d \<Rightarrow> (case fill_struct snake_fields assign_snake zero_snake v of
       Inl e \<Rightarrow> Inl (invalid_payload e)
     | Inr p \<Rightarrow> let d' = apply_snake_decision_payload d p in
         if trim_space (dec_action d') = '''' then Inl (Errorf ''decision payload action is required'' []) else Inr d'))"

definition normalize_decision_payload :: "api_env \<Rightarrow> string \<Rightarrow> goerror + string" where
  "normalize_decision_payload E raw =
    (if trim_space raw = '''' then Inl (Errorf ''decision payload is required for decision approval'' [])
     else case ae_decode E raw of
       Inl e \<Rightarrow> Inl (invalid_payload e)
     | Inr v \<Rightarrow> (case read_decision_payload v of
         Inl e \<Rightarrow> Inl e
       | Inr d \<Rightarrow> (case ae_decision E d of Inl e \<Rightarrow> Inl (invalid_payload e) | Inr s \<Rightarrow> Inr s)))"

definition normalize_decision_map :: "api_env \<Rightarrow> (string \<times> json) list option \<Rightarrow> goerror + string" where
  "normalize_decision_map E m = (case m of
     None \<Rightarrow> Inr ''''
   | Some ms \<Rightarrow> (case ae_encode E (JObj ms) of Inl e \<Rightarrow> Inl (invalid_payload e) | Inr raw \<Rightarrow> normalize_decision_payload E raw))"

subsection \<open>Requests\<close>

record decision_request =
  dq_decision_id :: string
  dq_trader_id :: string
  dq_requested_by :: string
  dq_reason :: string
  dq_decision :: "(string \<times> json) list option"
  dq_key :: string
  dq_correlation_id :: string

record order_request =
  oq_order_id :: string
  oq_trader_id :: string
  oq_requested_by :: string
  oq_reason :: string
  oq_key :: string
  oq_correlation_id :: string

definition empty_input :: "string \<Rightarrow> string \<Rightarrow> enqueue_request" where
  "empty_input target action = \<lparr>er_target = target, er_decision_id = '''', er_order_id = '''', er_trader_id = '''', er_action = action, er_decision = '''',
     er_requested_by = '''', er_reason = '''', er_key = '''', er_correlation_id = '''', er_now = zero_time\<rparr>"

definition decision_input :: "api_env \<Rightarrow> decision_request option \<Rightarrow> string \<Rightarrow> goerror + enqueue_request" where
  "decision_input E req action = (case req of
     None \<Rightarrow> Inr (empty_input target_decision action)
   | Some r \<Rightarrow> (case normalize_decision_map E (dq_decision r) of
       Inl e \<Rightarrow> Inl e
     | Inr d \<Rightarrow> Inr ((empty_input target_decision action)\<lparr>er_decision_id := dq_decision_id r, er_trader_id := dq_trader_id r,
         er_requested_by := dq_requested_by r, er_reason := dq_reason r, er_decision := d, er_key := dq_key r,
         er_correlation_id := dq_correlation_id r\<rparr>)))"

definition order_input :: "order_request option \<Rightarrow> string \<Rightarrow> enqueue_request" where
  "order_input req action = (case req of
     None \<Rightarrow> empty_input target_order action
   | Some r \<Rightarrow> (empty_input target_order action)\<lparr>er_order_id := oq_order_id r, er_trader_id := oq_trader_id r,
       er_requested_by := oq_requested_by r, er_reason := oq_reason r, er_key := oq_key r, er_correlation_id := oq_correlation_id r\<rparr>)"

definition input_guards :: "enqueue_request \<Rightarrow> (bool \<times> goerror) list" where
  "input_guards r = (let action = to_lower (trim_space (er_action r)); target = to_lower (trim_space (er_target r)) in
    [(action \<notin> {''approve'', ''reject''}, Errorf ''unsupported control action %q'' [er_action r]),
     (target = target_decision \<and> trim_space (er_decision_id r) = '''', Errorf ''decision id is required'' []),
     (target = target_order \<and> trim_space (er_order_id r) = '''', Errorf ''order id is required'' []),
     (target \<notin> {target_decision, target_order}, Errorf ''unsupported control target %q'' [er_target r]),
     (trim_space (er_requested_by r) = '''', Errorf ''requested_by is required'' []),
     (trim_space (er_reason r) = '''', Errorf ''reason is required'' [])])"

definition validate_control_command_input :: "api_env \<Rightarrow> enqueue_request \<Rightarrow> goerror option" where
  "validate_control_command_input E r = (case guards (input_guards r) of
     Some e \<Rightarrow> Some e
   | None \<Rightarrow> if to_lower (trim_space (er_target r)) = target_decision \<and> to_lower (trim_space (er_action r)) = ''approve''
       then (case normalize_decision_payload E (er_decision r) of Inl e \<Rightarrow> Some e | Inr _ \<Rightarrow> None) else None)"

definition control_command_input_detail :: "api_env \<Rightarrow> enqueue_request \<Rightarrow> string" where
  "control_command_input_detail E r =
    (let decision = (if trim_space (er_decision r) = '''' then Inr []
           else case ae_decode E (er_decision r) of Inl e \<Rightarrow> Inl e | Inr v \<Rightarrow> Inr [(''decision'', v)]);
         text = (case decision of Inl e \<Rightarrow> Inl e | Inr dm \<Rightarrow>
           ae_encode E (JObj ([(''target'', JStr (er_target r)), (''action'', JStr (er_action r)), (''requested_by'', JStr (er_requested_by r)),
             (''idempotency_key'', JStr (er_key r))] @ (if er_decision_id r \<noteq> '''' then [(''decision_id'', JStr (er_decision_id r))] else []) @ dm @
             (if er_order_id r \<noteq> '''' then [(''order_id'', JStr (er_order_id r))] else []))))
     in case text of Inl e \<Rightarrow> ''{}'' | Inr s \<Rightarrow> s)"

definition control_command_record_from_input :: "api_env \<Rightarrow> enqueue_request \<Rightarrow> command" where
  "control_command_record_from_input E r = \<lparr>cm_id = '''', cm_type = '''', cm_target = er_target r, cm_decision_id = er_decision_id r,
     cm_order_id = er_order_id r, cm_trader_id = er_trader_id r, cm_action = er_action r, cm_requested_by = er_requested_by r, cm_reason = er_reason r,
     cm_key = er_key r, cm_correlation_id = er_correlation_id r, cm_status = '''', cm_queued = False, cm_control_only = False, cm_submitted = False,
     cm_detail = control_command_input_detail E r, cm_created_at = zero_time, cm_updated_at = zero_time\<rparr>"

definition control_command_from_record :: "command \<Rightarrow> queue_command" where
  "control_command_from_record c = \<lparr>qc_id = cm_id c, qc_type = cm_type c, qc_target = cm_target c, qc_decision_id = cm_decision_id c,
     qc_order_id = cm_order_id c, qc_trader_id = cm_trader_id c, qc_action = cm_action c, qc_decision = '''', qc_requested_by = cm_requested_by c,
     qc_reason = cm_reason c, qc_key = cm_key c, qc_correlation_id = cm_correlation_id c, qc_status = cm_status c, qc_queued = cm_queued c,
     qc_control_only = cm_control_only c, qc_submitted = cm_submitted c, qc_created_at = cm_created_at c\<rparr>"

subsection \<open>The handlers\<close>

text \<open>What the handlers change: the database of the commands, the in-memory queue and the audit trail.\<close>

record api_state =
  as_store :: "command_db option"
  as_queue :: "control_queue option"
  as_trail :: "audit_db option"

definition ensure_command_queue :: "api_state \<Rightarrow> control_queue" where
  "ensure_command_queue s = (case as_queue s of None \<Rightarrow> new_queue | Some q \<Rightarrow> q)"

definition enqueue_input :: "api_env \<Rightarrow> int list \<Rightarrow> time \<Rightarrow> enqueue_request \<Rightarrow> api_state \<Rightarrow> (goerror + queue_command \<times> bool) \<times> api_state" where
  "enqueue_input E nonce now r s = (case validate_control_command_input E r of
     Some e \<Rightarrow> (Inl e, s)
   | None \<Rightarrow> (case as_store s of
       Some db \<Rightarrow> (case enqueue (ae_codec E) (ae_sha E) (ae_scan E) nonce now (control_command_record_from_input E r) db of
           (Inl e, db1) \<Rightarrow> (Inl e, s\<lparr>as_store := Some db1\<rparr>)
         | (Inr (c, reused), db1) \<Rightarrow> (Inr (control_command_from_record c, reused), s\<lparr>as_store := Some db1\<rparr>))
     | None \<Rightarrow> (case queue_enqueue (ae_sha E) now r (ensure_command_queue s) of
           (res, q1) \<Rightarrow> (Inr res, s\<lparr>as_queue := Some q1\<rparr>))))"

definition enqueue_decision_command ::
  "api_env \<Rightarrow> int list \<Rightarrow> time \<Rightarrow> decision_request option \<Rightarrow> string \<Rightarrow> api_state \<Rightarrow> (goerror + queue_command \<times> bool) \<times> api_state" where
  "enqueue_decision_command E nonce now req action s = (case decision_input E req action of
     Inl e \<Rightarrow> (Inl e, s) | Inr r \<Rightarrow> enqueue_input E nonce now r s)"

definition enqueue_order_command ::
  "api_env \<Rightarrow> int list \<Rightarrow> time \<Rightarrow> order_request option \<Rightarrow> string \<Rightarrow> api_state \<Rightarrow> (goerror + queue_command \<times> bool) \<times> api_state" where
  "enqueue_order_command E nonce now req action s = enqueue_input E nonce now (order_input req action) s"

definition control_command_audit_type :: "string \<Rightarrow> string" where
  "control_command_audit_type action = (if to_lower (trim_space action) = ''approve'' then ''approved'' else ''policy_rejected'')"

definition control_command_audit_trader_id :: "string \<Rightarrow> string" where
  "control_command_audit_trader_id tid = (if trim_space tid \<noteq> '''' then trim_space tid else ''control-plane'')"

definition control_command_audit_detail :: "api_env \<Rightarrow> queue_command \<Rightarrow> goerror + string" where
  "control_command_audit_detail E c = ae_encode E (JObj ([(''command_id'', JStr (qc_id c)), (''command_type'', JStr (qc_type c)),
     (''target'', JStr (qc_target c)), (''action'', JStr (qc_action c)), (''requested_by'', JStr (qc_requested_by c)),
     (''idempotency_key'', JStr (qc_key c)), (''queued'', JBool (qc_queued c)), (''status'', JStr (qc_status c)),
     (''control_plane_only'', JBool (qc_control_only c)), (''submitted'', JBool (qc_submitted c))] @
     (if qc_decision_id c \<noteq> '''' then [(''decision_id'', JStr (qc_decision_id c))] else []) @
     (if qc_order_id c \<noteq> '''' then [(''order_id'', JStr (qc_order_id c))] else [])))"

definition command_audit_event :: "queue_command \<Rightarrow> string \<Rightarrow> audit_record" where
  "command_audit_event c detail = \<lparr>al_id = 0, al_type = control_command_audit_type (qc_action c),
     al_trader_id = control_command_audit_trader_id (qc_trader_id c), al_cycle_id = 0, al_correlation_id = qc_correlation_id c, al_symbol = '''',
     al_action = qc_type c, al_model_id = '''', al_model_name = '''', al_prompt_digest = '''', al_approval_id = qc_id c, al_reason = qc_reason c,
     al_error = '''', al_detail = detail, al_created_at = qc_created_at c\<rparr>"

definition record_control_command_audit :: "api_env \<Rightarrow> time \<Rightarrow> queue_command \<Rightarrow> api_state \<Rightarrow> goerror option \<times> api_state" where
  "record_control_command_audit E now c s = (case as_trail s of
     None \<Rightarrow> (None, s)
   | Some trail \<Rightarrow> (case control_command_audit_detail E c of
       Inl e \<Rightarrow> (Some e, s)
     | Inr d \<Rightarrow> (case record_audit (ae_codec E) now (command_audit_event c d) trail of
         (Inl e, trail1) \<Rightarrow> (Some e, s\<lparr>as_trail := Some trail1\<rparr>)
       | (Inr _, trail1) \<Rightarrow> (None, s\<lparr>as_trail := Some trail1\<rparr>))))"

record action_response =
  rs_accepted :: bool
  rs_status :: string
  rs_target_id :: string
  rs_action :: string
  rs_command_id :: string
  rs_correlation_id :: string
  rs_queued :: bool
  rs_control_only :: bool
  rs_submitted :: bool
  rs_message :: string

definition action_response_of :: "string \<Rightarrow> queue_command \<Rightarrow> action_response" where
  "action_response_of tid c = \<lparr>rs_accepted = True, rs_status = qc_status c, rs_target_id = tid, rs_action = qc_action c, rs_command_id = qc_id c,
     rs_correlation_id = qc_correlation_id c, rs_queued = qc_queued c, rs_control_only = qc_control_only c, rs_submitted = qc_submitted c,
     rs_message = ''control command queued; no order was submitted''\<rparr>"

text \<open>The common tail of the two handlers; \<open>tid\<close> picks the identifier of the response.\<close>

definition finish_action :: "api_env \<Rightarrow> time \<Rightarrow> (queue_command \<Rightarrow> string) \<Rightarrow> (goerror + queue_command \<times> bool) \<times> api_state \<Rightarrow>
    (goerror + action_response) \<times> api_state" where
  "finish_action E now tid res = (case res of
     (Inl e, s) \<Rightarrow> (Inl e, s)
   | (Inr (c, reused), s) \<Rightarrow> if reused then (Inr (action_response_of (tid c) c), s)
     else (case record_control_command_audit E now c s of
         (Some e, s1) \<Rightarrow> (Inl e, s1\<lparr>as_queue := map_option (queue_remove (qc_id c)) (as_queue s1)\<rparr>)
       | (None, s1) \<Rightarrow> (Inr (action_response_of (tid c) c), s1)))"

definition decision_action ::
  "api_env \<Rightarrow> int list \<Rightarrow> time \<Rightarrow> decision_request option \<Rightarrow> string \<Rightarrow> api_state \<Rightarrow> (goerror + action_response) \<times> api_state" where
  "decision_action E nonce now req action s = finish_action E now qc_decision_id (enqueue_decision_command E nonce now req action s)"

definition order_action ::
  "api_env \<Rightarrow> int list \<Rightarrow> time \<Rightarrow> order_request option \<Rightarrow> string \<Rightarrow> api_state \<Rightarrow> (goerror + action_response) \<times> api_state" where
  "order_action E nonce now req action s = finish_action E now qc_order_id (enqueue_order_command E nonce now req action s)"

subsection \<open>Identifiers\<close>

definition plain_char :: "char \<Rightarrow> bool" where
  "plain_char c \<longleftrightarrow> code c < 128 \<and> \<not> ascii_space c"

lemma trim_plain:
  assumes "s \<noteq> []" "plain_char (hd s)" "plain_char (last s)"
  shows "trim_space s = s"
proof -
  have b: "blank_len ps t = 0" if "t \<noteq> []" "plain_char (hd t)" for ps t
    using that by (cases t) (auto simp: plain_char_def)
  have "rev s \<noteq> []" "plain_char (hd (rev s))" using assms by (simp_all add: hd_rev)
  then show ?thesis using assms by (simp add: trim_space_def strip_blanks_done b)
qed

lemma hex_encode_take: "take (2 * n) (hex_encode bs) = hex_encode (take n bs)"
proof (induction bs arbitrary: n)
  case (Cons b bs)
  then show ?case by (cases n) (simp_all add: hex_encode_def)
qed (simp add: hex_encode_def)

lemma hex_digit_plain: "0 \<le> n \<Longrightarrow> n < 16 \<Longrightarrow> plain_char (hex_digit n)"
proof -
  assume "0 \<le> n" "n < 16"
  then have "n \<in> set (map int [0..<16])" by (auto simp: image_iff intro!: bexI [of _ "nat n"])
  moreover have "list_all (\<lambda>n. plain_char (hex_digit n)) (map int [0..<16])" by code_simp
  ultimately show ?thesis by (auto simp: list_all_iff)
qed

lemma hex_encode_last: "bs \<noteq> [] \<Longrightarrow> last (hex_encode bs) = hex_digit (last bs mod 16)"
  by (induction bs) (auto simp: hex_encode_def)

lemma command_id_trim: "trim_space (command_id sha r seq) = command_id sha r seq"
proof -
  have t: "take 20 (hex_encode x) = hex_encode (take 10 x)" for x using hex_encode_take [of 10 x] by simp
  have "\<exists>bs. command_id sha r seq = ''cmd-'' @ hex_encode bs" unfolding command_id_def t by (rule exI) (rule refl)
  then obtain bs where c: "command_id sha r seq = ''cmd-'' @ hex_encode bs" by blast
  have "plain_char (last (''cmd-'' @ hex_encode bs))"
  proof (cases "bs = []")
    case True
    then show ?thesis by (simp add: hex_encode_def plain_char_def ascii_space_def code_def)
  next
    case False
    then have "hex_encode bs \<noteq> []" by (cases bs) (simp_all add: hex_encode_def)
    then show ?thesis using False hex_digit_plain [of "last bs mod 16"] by (simp add: hex_encode_last)
  qed
  moreover have "plain_char (hd (''cmd-'' @ hex_encode bs))" by (simp add: plain_char_def ascii_space_def code_def)
  ultimately show ?thesis unfolding c by (intro trim_plain) simp_all
qed

subsection \<open>A request on the in-memory queue\<close>

definition api_commands :: "api_state \<Rightarrow> queue_command list" where
  "api_commands s = queue_list (ensure_command_queue s)"

definition trail_rows :: "api_state \<Rightarrow> audit_row list" where
  "trail_rows s = (case as_trail s of None \<Rightarrow> [] | Some t \<Rightarrow> ad_rows t)"

text \<open>What a request does is one of three things.\<close>

lemma enqueue_memory_cases:
  assumes "as_store s = None" "enqueue_input E nonce now r s = (res, s')"
  obtains (refused) e where "res = Inl e" "s' = s" "validate_control_command_input E r = Some e"
  | (taken) c reused q1 where "res = Inr (c, reused)" "queue_enqueue (ae_sha E) now r (ensure_command_queue s) = ((c, reused), q1)"
      "s' = s\<lparr>as_queue := Some q1\<rparr>" "validate_control_command_input E r = None"
  using assms by (auto simp: enqueue_input_def split: option.splits prod.splits)

lemma remove_first_new: "(\<forall>c \<in> set cs. qc_id c \<noteq> i) \<Longrightarrow> qc_id d = i \<Longrightarrow> remove_first i (cs @ [d]) = cs"
  by (induction cs) auto

lemma finish_memory:
  assumes inv: "queue_inv (ensure_command_queue s)" and fr: "fresh_id (ae_sha E) now r (ensure_command_queue s)"
    and store: "as_store s = None"
    and run: "finish_action E now tid (enqueue_input E nonce now r s) = (res, s')"
  shows "queue_inv (ensure_command_queue s') \<and> as_store s' = None \<and> (case res of
      Inl e \<Rightarrow> api_commands s' = api_commands s \<and> trail_rows s' = trail_rows s
    | Inr a \<Rightarrow> \<exists>c. c \<in> set (api_commands s') \<and> qc_id c = rs_command_id a \<and> a = action_response_of (tid c) c \<and>
        command_index c = idempotency_index (normalize_request now r) \<and>
        (api_commands s' = api_commands s \<and> trail_rows s' = trail_rows s \<or>
         api_commands s' = api_commands s @ [c] \<and>
         (if as_trail s = None then as_trail s' = None
          else \<exists>row. trail_rows s' = trail_rows s @ [row] \<and> aw_approval_id row = Some (qc_id c))))"
proof -
  obtain res0 s1 where e: "enqueue_input E nonce now r s = (res0, s1)" by fastforce
  show ?thesis using store e
  proof (cases rule: enqueue_memory_cases)
    case (refused x)
    then show ?thesis using run e inv store by (auto simp: finish_action_def)
  next
    case (taken c reused q1)
    note inv1 = enqueue_inv [OF inv fr taken(2)]
    let ?q = "ensure_command_queue s"
    let ?nr = "normalize_request now r"
    consider (old) "reused" "q1 = ?q" "c \<in> set (cq_commands ?q)" "command_index c = idempotency_index ?nr"
      | (new) "\<not> reused" "cq_commands q1 = cq_commands ?q @ [c]" "qc_id c = command_id (ae_sha E) ?nr (cq_seq ?q + 1)"
          "command_index c = idempotency_index ?nr"
    proof (cases "existing_command (idempotency_index ?nr) ?q")
      case None
      then show thesis using taken(2) new by (auto simp: queue_enqueue_def Let_def new_command_index)
    next
      case (Some d)
      then have "c = d" "reused" "q1 = ?q" using taken(2) by (simp_all add: queue_enqueue_def Let_def)
      then show thesis using old existing_command_inv [OF inv, THEN iffD1, OF Some] by simp
    qed
    then show ?thesis
    proof cases
      case old
      then show ?thesis using run e taken inv store
        by (auto simp: finish_action_def ensure_command_queue_def api_commands_def queue_list_def trail_rows_def action_response_of_def)
    next
      case new
      obtain x s2 where rec: "record_control_command_audit E now c s1 = (x, s2)" by fastforce
      have q2: "as_queue s2 = Some q1" "as_store s2 = None" using rec taken(3) store
        by (auto simp: record_control_command_audit_def split: option.splits sum.splits prod.splits)
      have id: "trim_space (qc_id c) = qc_id c" "qc_id c \<noteq> ''''" using new(3) by (simp_all add: command_id_trim command_id_nonempty)
      show ?thesis
      proof (cases x)
        case (Some er)
        then have fin: "res = Inl er" "s' = s2\<lparr>as_queue := Some (queue_remove (qc_id c) q1)\<rparr>"
          using run e taken new rec q2 by (auto simp: finish_action_def)
        have "trail_rows s2 = trail_rows s"
          using rec Some taken(3) record_audit_cases
          by (auto simp: record_control_command_audit_def trail_rows_def split: option.splits sum.splits prod.splits elim!: record_audit_cases)
        moreover have "cq_commands (queue_remove (qc_id c) q1) = cq_commands ?q"
          using id new(2,3) fr by (auto simp: queue_remove_def Let_def remove_first_new fresh_id_def split: option.splits)
        ultimately show ?thesis using fin remove_inv [OF inv1] q2
          by (simp add: api_commands_def ensure_command_queue_def queue_list_def trail_rows_def)
      next
        case None
        then have fin: "res = Inr (action_response_of (tid c) c)" "s' = s2"
          using run e taken new rec by (auto simp: finish_action_def)
        have tr: "if as_trail s = None then as_trail s2 = None
          else \<exists>row. trail_rows s2 = trail_rows s @ [row] \<and> aw_approval_id row = Some (qc_id c)"
        proof (cases "as_trail s")
          case None
          then show ?thesis using rec taken(3) by (auto simp: record_control_command_audit_def)
        next
          case (Some t)
          then obtain d i t1 where d: "record_audit (ae_codec E) now (command_audit_event c d) t = (Inr i, t1)" "as_trail s2 = Some t1"
            using rec taken(3) \<open>x = None\<close> by (auto simp: record_control_command_audit_def split: sum.splits prod.splits)
          show ?thesis using d(1)
          proof (cases rule: record_audit_cases)
            case (stored row)
            have "aw_approval_id (stored_row (ae_codec E) (ad_next_id t) now row) = Some (qc_id c)"
              using stored(2) id by (auto simp: stored_row_def build_audit_row_def command_audit_event_def null_string_def split: sum.splits)
            then show ?thesis using Some d(2) stored(4) by (simp add: trail_rows_def)
          qed simp
        qed
        have cm: "api_commands s2 = api_commands s @ [c]" "ensure_command_queue s2 = q1" using q2 new(2)
          by (simp_all add: api_commands_def ensure_command_queue_def queue_list_def)
        then show ?thesis using fin tr inv1 q2 new(4) by (auto simp: action_response_of_def)
      qed
    qed
  qed
qed

subsection \<open>Calls of the two endpoints\<close>

datatype api_call = DecisionCall "decision_request option" string | OrderCall "order_request option" string

fun call_input :: "api_env \<Rightarrow> api_call \<Rightarrow> goerror + enqueue_request" where
  "call_input E (DecisionCall req action) = decision_input E req action"
| "call_input E (OrderCall req action) = Inr (order_input req action)"

fun api_run :: "api_env \<Rightarrow> int list \<Rightarrow> time \<Rightarrow> api_call \<Rightarrow> api_state \<Rightarrow> (goerror + action_response) \<times> api_state" where
  "api_run E nonce now (DecisionCall req action) s = decision_action E nonce now req action s"
| "api_run E nonce now (OrderCall req action) s = order_action E nonce now req action s"

definition fresh_call :: "api_env \<Rightarrow> time \<Rightarrow> api_call \<Rightarrow> api_state \<Rightarrow> bool" where
  "fresh_call E now call s = (case call_input E call of Inl e \<Rightarrow> True | Inr r \<Rightarrow> fresh_id (ae_sha E) now r (ensure_command_queue s))"

inductive api_step :: "api_env \<Rightarrow> api_state \<Rightarrow> api_state \<Rightarrow> bool" for E where
  "fresh_call E now call s \<Longrightarrow> api_run E nonce now call s = (res, s') \<Longrightarrow> api_step E s s'"

definition call_effect :: "api_env \<Rightarrow> time \<Rightarrow> api_call \<Rightarrow> api_state \<Rightarrow> goerror + action_response \<Rightarrow> api_state \<Rightarrow> bool" where
  "call_effect E now call s res s' \<longleftrightarrow> (case res of
      Inl e \<Rightarrow> api_commands s' = api_commands s \<and> trail_rows s' = trail_rows s
    | Inr a \<Rightarrow> \<exists>r c. call_input E call = Inr r \<and> c \<in> set (api_commands s') \<and> qc_id c = rs_command_id a \<and>
        command_index c = idempotency_index (normalize_request now r) \<and>
        (api_commands s' = api_commands s \<and> trail_rows s' = trail_rows s \<or>
         api_commands s' = api_commands s @ [c] \<and>
         (if as_trail s = None then as_trail s' = None
          else \<exists>row. trail_rows s' = trail_rows s @ [row] \<and> aw_approval_id row = Some (qc_id c))))"

lemma api_run_finish:
  "api_run E nonce now call s = (case call_input E call of Inl e \<Rightarrow> (Inl e, s)
     | Inr r \<Rightarrow> finish_action E now (case call of DecisionCall _ _ \<Rightarrow> qc_decision_id | OrderCall _ _ \<Rightarrow> qc_order_id) (enqueue_input E nonce now r s))"
  by (cases call) (auto simp: decision_action_def order_action_def enqueue_decision_command_def enqueue_order_command_def finish_action_def
    split: sum.splits)

lemma api_run_effect:
  assumes "queue_inv (ensure_command_queue s)" "as_store s = None" "fresh_call E now call s" "api_run E nonce now call s = (res, s')"
  shows "queue_inv (ensure_command_queue s') \<and> as_store s' = None \<and> call_effect E now call s res s'"
proof (cases "call_input E call")
  case (Inl e)
  then have "res = Inl e" "s' = s" using assms(4) by (auto simp: api_run_finish)
  then show ?thesis using assms(1,2) by (simp add: call_effect_def)
next
  case (Inr r)
  let ?tid = "case call of DecisionCall _ _ \<Rightarrow> qc_decision_id | OrderCall _ _ \<Rightarrow> qc_order_id"
  have fr: "fresh_id (ae_sha E) now r (ensure_command_queue s)" using assms(3) Inr by (simp add: fresh_call_def)
  have run: "finish_action E now ?tid (enqueue_input E nonce now r s) = (res, s')" using assms(4) Inr by (simp add: api_run_finish)
  note f = finish_memory [OF assms(1) fr assms(2) run]
  show ?thesis
  proof (cases res)
    case e: (Inl e)
    then show ?thesis using f by (simp add: call_effect_def)
  next
    case a: (Inr a)
    then show ?thesis using f unfolding call_effect_def Inr a by auto
  qed
qed

lemma api_reachable_inv:
  assumes "(api_step E)\<^sup>*\<^sup>* s0 s" "queue_inv (ensure_command_queue s0)" "as_store s0 = None"
  shows "queue_inv (ensure_command_queue s) \<and> as_store s = None"
  using assms(1)
proof (induction rule: rtranclp_induct)
  case (step s s')
  from step(2) show ?case
  proof cases
    case (1 now call nonce res)
    then show ?thesis using api_run_effect [of s E now call nonce res s'] step(3) by simp
  qed
qed (use assms in simp)

text \<open>C25. On a server without a database, after any sequence of requests: a decision or order request that is answered with an error has
  left the queued commands and the audit trail as they were, even when it is the audit that failed; one that is accepted names a queued
  command with its target, action and key, and either that command was there and nothing changed, or exactly this command was
  appended together with exactly one audit event that carries its identifier (none only when no audit trail is wired).\<close>

theorem action_all_or_nothing:
  assumes "(api_step E)\<^sup>*\<^sup>* s0 s" "as_queue s0 = None" "as_store s0 = None"
    and "fresh_call E now call s" "api_run E nonce now call s = (res, s')"
  shows "call_effect E now call s res s'"
proof -
  have "queue_inv (ensure_command_queue s0)" using assms(2) by (simp add: ensure_command_queue_def new_queue_inv)
  from api_reachable_inv [OF assms(1) this assms(3)] api_run_effect [OF _ _ assms(4,5)] show ?thesis by blast
qed

text \<open>With the durable queue: of any sequence of requests with the same target, action and idempotency key at most one is answered
  with a new command, none if the table had one, and the table grows by exactly the commands that were answered as new.\<close>

theorem one_command_per_key:
  assumes "all_ok store_ok (store_submit J sha scan) reqs db" "submit_all (store_submit J sha scan) reqs db = (rs, db')"
  shows "length (filter (\<lambda>(i, r). store_key J sha i = Some k \<and> is_new r) (zip reqs rs)) \<le> (if has_key k db then 0 else 1) \<and>
    length (db_rows db') = length (db_rows db) + length (filter is_new rs)"
  by (rule store_intake.one_new_per_key [OF assms])

subsection \<open>Examples\<close>

definition demo_env :: api_env where
  "demo_env = \<lparr>ae_encode = (\<lambda>v. Inr ''{}''), ae_decode = (\<lambda>s. Inr (JObj [(''action'', JStr ''open_long'')])), ae_decision = (\<lambda>d. Inr ''{}''),
     ae_codec = plain_codec, ae_sha = demo_digest, ae_scan = (\<lambda>r. 0)\<rparr>"

definition demo_decision_request :: decision_request where
  "demo_decision_request = \<lparr>dq_decision_id = ''d1'', dq_trader_id = ''t1'', dq_requested_by = ''ops'', dq_reason = ''checked'',
     dq_decision = Some [(''action'', JStr ''open_long''), (''position_size_usd'', JNum ''25.5'')], dq_key = ''k1'', dq_correlation_id = ''''\<rparr>"

definition memory_server :: api_state where
  "memory_server = \<lparr>as_store = None, as_queue = None, as_trail = Some empty_audit\<rparr>"

definition approved_once :: "(goerror + action_response) \<times> api_state" where
  "approved_once = api_run demo_env [1] 5 (DecisionCall (Some demo_decision_request) ''approve'') memory_server"

text \<open>A payload may use either spelling of its fields; a number of the wrong kind is refused.\<close>

lemma payload_examples:
  "read_decision_payload (JObj [(''action'', JStr ''open_long''), (''position_size_usd'', JNum ''25.5''), (''LEVERAGE'', JNum ''3'')]) =
     Inr (zero_decision\<lparr>dec_action := ''open_long'', dec_position_size := Fin (51 / 2), dec_leverage := 3\<rparr>)"
  "\<not> is_ok (read_decision_payload (JObj [(''action'', JStr ''open_long''), (''leverage'', JNum ''2.5'')]))"
  by code_simp+

theorem action_all_or_nothing_witness:
  "call_effect demo_env 6 (DecisionCall (Some demo_decision_request) ''approve'') (snd approved_once)
     (fst (api_run demo_env [2] 6 (DecisionCall (Some demo_decision_request) ''approve'') (snd approved_once)))
     (snd (api_run demo_env [2] 6 (DecisionCall (Some demo_decision_request) ''approve'') (snd approved_once))) \<and>
   length (api_commands (snd approved_once)) = 1 \<and> length (trail_rows (snd approved_once)) = 1 \<and> is_ok (fst approved_once)"
proof -
  have "fresh_call demo_env 5 (DecisionCall (Some demo_decision_request) ''approve'') memory_server" by code_simp
  then have "api_step demo_env memory_server (snd approved_once)"
    by (rule api_step.intros [where nonce = "[1]" and res = "fst approved_once"]) (simp add: approved_once_def)
  then have r: "(api_step demo_env)\<^sup>*\<^sup>* memory_server (snd approved_once)" by blast
  have f: "fresh_call demo_env 6 (DecisionCall (Some demo_decision_request) ''approve'') (snd approved_once)" by code_simp
  have "call_effect demo_env 6 (DecisionCall (Some demo_decision_request) ''approve'') (snd approved_once)
     (fst (api_run demo_env [2] 6 (DecisionCall (Some demo_decision_request) ''approve'') (snd approved_once)))
     (snd (api_run demo_env [2] 6 (DecisionCall (Some demo_decision_request) ''approve'') (snd approved_once)))"
    by (rule action_all_or_nothing [OF r _ _ f, where nonce = "[2]"]) (simp_all add: memory_server_def)
  moreover have "length (api_commands (snd approved_once)) = 1" "length (trail_rows (snd approved_once)) = 1" "is_ok (fst approved_once)"
    by code_simp+
  ultimately show ?thesis by blast
qed

definition demo_stored_command :: command where
  "demo_stored_command = \<lparr>cm_id = '''', cm_type = '''', cm_target = ''decision'', cm_decision_id = ''d1'', cm_order_id = '''', cm_trader_id = ''t1'', cm_action = ''reject'',
     cm_requested_by = ''ops'', cm_reason = ''late'', cm_key = ''k1'', cm_correlation_id = '''', cm_status = '''', cm_queued = False, cm_control_only = False,
     cm_submitted = False, cm_detail = '''', cm_created_at = zero_time, cm_updated_at = zero_time\<rparr>"

definition demo_reqs :: "command_input list" where
  "demo_reqs = [([1], 5, demo_stored_command), ([2], 6, demo_stored_command\<lparr>cm_reason := ''again''\<rparr>)]"

theorem one_command_per_key_witness:
  "length (filter is_new (fst (submit_all (store_submit plain_codec demo_digest (\<lambda>r. 0)) demo_reqs \<lparr>db_rows = [], db_faults = []\<rparr>))) = 1 \<and>
   length (db_rows (snd (submit_all (store_submit plain_codec demo_digest (\<lambda>r. 0)) demo_reqs \<lparr>db_rows = [], db_faults = []\<rparr>))) = 1"
proof -
  let ?f = "store_submit plain_codec demo_digest (\<lambda>r. 0)" and ?db = "\<lparr>db_rows = [], db_faults = []\<rparr>"
  have ok: "all_ok store_ok ?f demo_reqs ?db" by code_simp
  have n: "length (filter is_new (fst (submit_all ?f demo_reqs ?db))) = 1" by code_simp
  have "length (db_rows (snd (submit_all ?f demo_reqs ?db))) = length (db_rows ?db) + length (filter is_new (fst (submit_all ?f demo_reqs ?db)))"
    using one_command_per_key [OF ok prod.collapse [symmetric]] by blast
  then show ?thesis using n by simp
qed

text \<open>With the database the promise is weaker: when the audit event of a new command cannot be stored the request is answered with an
  error, but its command stays in the table, where the worker will find it.\<close>

definition stored_server :: api_state where
  "stored_server = \<lparr>as_store = Some \<lparr>db_rows = [], db_faults = []\<rparr>, as_queue = None,
     as_trail = Some (empty_audit\<lparr>ad_faults := [Some (Errorf ''connection refused'' [])]\<rparr>)\<rparr>"

theorem failed_audit_leaves_command:
  "(case api_run demo_env [1] 5 (DecisionCall (Some demo_decision_request) ''approve'') stored_server of
     (res, s') \<Rightarrow> \<not> is_ok res \<and> trail_rows s' = [] \<and> map cw_status (db_rows (the (as_store s'))) = [status_queued])"
  by code_simp

end
