(* ===== verification/Journal.thy ===== *)
theory Journal
  imports GoFormat GoTime TradingApi
begin

text \<open>
  The journal of decision cycles: writing and reading the files of its directory (\<open>pkg/journal/journal.go\<close>, \<open>reader.go\<close>), and rebuilding the input of the
  executor from a recorded cycle (\<open>pkg/journal/replay.go\<close>).

  The directory is the list of its entries by name; a file is named by its name, the directory being fixed. What \<open>encoding/json\<close> makes of a record is
  a parameter that gives the record back or an error; the members of a record that are of any type are JSON values, \<open>JNull\<close> for nil.
\<close>

type_synonym json_object = "(string \<times> json) list"

record cycle =
  jc_timestamp :: time
  jc_trader_id :: string
  jc_config_version :: int
  jc_cycle_number :: int
  jc_prompt_digest :: string
  jc_cot_trace :: string
  jc_decisions_json :: string
  jc_account :: "json_object option"
  jc_positions :: "json_object option list"
  jc_candidates :: "string list"
  jc_market_digest :: json_object
  jc_actions :: "json_object option list"
  jc_success :: bool
  jc_error :: string

subsection \<open>The files\<close>

datatype journal_entry = Folder | Document string

type_synonym journal_dir = "(string, journal_entry) gomap"

record journal_json =
  jj_encode :: "cycle \<Rightarrow> goerror + string"
  jj_decode :: "string \<Rightarrow> goerror + cycle"

record journal_writer =
  jw_seq :: int

definition file_stamp :: "time \<Rightarrow> string" where
  "file_stamp t = (let s = (t div second) mod 86400 in filter (\<lambda>c. c \<noteq> CHR ''-'') (format_date t) @ ''_'' @
     pad_int 2 (s div 3600) @ pad_int 2 (s div 60 mod 60) @ pad_int 2 (s mod 60))"

definition cycle_name :: "time \<Rightarrow> int \<Rightarrow> string" where
  "cycle_name t seq = ''cycle_'' @ file_stamp t @ ''_'' @ pad_int 5 seq @ ''.json''"

text \<open>\<open>fault\<close> is the error writing the file meets. The result is the name of the file; the record is stamped and numbered in place.\<close>

definition write_cycle ::
  "journal_json \<Rightarrow> time \<Rightarrow> goerror option \<Rightarrow> cycle option \<Rightarrow> journal_writer \<times> journal_dir \<Rightarrow> (goerror + string) \<times> journal_writer \<times> journal_dir" where
  "write_cycle J now fault rec st = (case (rec, st) of
     (None, _) \<Rightarrow> (Inl (Errorf ''journal: nil record'' []), st)
   | (Some r, w, dir) \<Rightarrow>
     let t = (if is_zero_time (jc_timestamp r) then now else jc_timestamp r); seq = jw_seq w + 1;
         r' = r\<lparr>jc_timestamp := t, jc_cycle_number := seq\<rparr>; w' = w\<lparr>jw_seq := seq\<rparr>
     in (case jj_encode J r' of
           Inl e \<Rightarrow> (Inl e, w', dir)
         | Inr text \<Rightarrow> (case fault of
             Some e \<Rightarrow> (Inl e, w', dir)
           | None \<Rightarrow> (Inr (cycle_name t seq), w', put (cycle_name t seq) (Document text) dir))))"

definition is_cycle_file :: "string \<times> journal_entry \<Rightarrow> bool" where
  "is_cycle_file x = (case x of (name, en) \<Rightarrow> en \<noteq> Folder \<and> has_prefix ''cycle_'' name \<and> has_prefix (rev ''.json'') (rev name))"

definition list_cycles :: "goerror option \<Rightarrow> int \<Rightarrow> journal_dir \<Rightarrow> goerror + string list" where
  "list_cycles fault limit dir = (case fault of
     Some e \<Rightarrow> Inl (Wrapf ''journal: list dir: %w'' [] e)
   | None \<Rightarrow> let files = sort (map fst (filter is_cycle_file dir)) in
       Inr (if 0 < limit \<and> limit < int (length files) then drop (length files - nat limit) files else files))"

definition load_cycle :: "journal_json \<Rightarrow> string \<Rightarrow> journal_dir \<Rightarrow> goerror + cycle" where
  "load_cycle J name dir = (case lookup dir name of
     Some (Document text) \<Rightarrow> (case jj_decode J text of Inl e \<Rightarrow> Inl (Wrapf ''journal: decode %s: %w'' [name] e) | Inr r \<Rightarrow> Inr r)
   | _ \<Rightarrow> Inl (Errorf ''journal: read %s'' [name]))"

fun load_all :: "journal_json \<Rightarrow> string list \<Rightarrow> journal_dir \<Rightarrow> goerror + cycle list" where
  "load_all J [] dir = Inr []"
| "load_all J (n # ns) dir = (case load_cycle J n dir of
     Inl e \<Rightarrow> Inl e | Inr r \<Rightarrow> (case load_all J ns dir of Inl e \<Rightarrow> Inl e | Inr rs \<Rightarrow> Inr (r # rs)))"

definition latest_cycles :: "journal_json \<Rightarrow> goerror option \<Rightarrow> int \<Rightarrow> journal_dir \<Rightarrow> goerror + cycle list" where
  "latest_cycles J fault limit dir = (case list_cycles fault limit dir of Inl e \<Rightarrow> Inl e | Inr ns \<Rightarrow> load_all J ns dir)"

subsection \<open>Rebuilding the input of the executor\<close>

text \<open>\<open>rd\<close> is \<open>encoding/json\<close> on a text.\<close>

fun fill_decisions :: "json list \<Rightarrow> goerror + decision list" where
  "fill_decisions [] = Inr []"
| "fill_decisions (v # vs) = (case fill_struct decision_fields assign_decision zero_decision v of
     Inl e \<Rightarrow> Inl e | Inr d \<Rightarrow> (case fill_decisions vs of Inl e \<Rightarrow> Inl e | Inr ds \<Rightarrow> Inr (d # ds)))"

definition parse_decisions_json :: "(string \<Rightarrow> goerror + json) \<Rightarrow> string \<Rightarrow> goerror + decision list" where
  "parse_decisions_json rd payload =
    (if trim_space payload = '''' then Inr []
     else case rd payload of
       Inl e \<Rightarrow> Inl e
     | Inr JNull \<Rightarrow> Inr []
     | Inr (JArr vs) \<Rightarrow> fill_decisions vs
     | Inr _ \<Rightarrow> Inl (type_error ''''))"

definition number_value :: "string \<Rightarrow> f64" where
  "number_value l = (case parse_float l of (x, ok) \<Rightarrow> x)"

definition parse_string_float :: "string \<Rightarrow> f64" where
  "parse_string_float s = (let t = trim_space s in if t = '''' then 0 else number_value t)"

definition as_float_any :: "json option \<Rightarrow> f64" where
  "as_float_any v = (case v of Some (JNum l) \<Rightarrow> number_value l | Some (JStr s) \<Rightarrow> parse_string_float s | _ \<Rightarrow> 0)"

definition as_string_any :: "json option \<Rightarrow> string" where
  "as_string_any v = (case v of None \<Rightarrow> ''<nil>'' | Some j \<Rightarrow> sprint_json j)"

definition map_account_info :: "json_object option \<Rightarrow> account_info" where
  "map_account_info data = (case data of
     None \<Rightarrow> zero_account
   | Some m \<Rightarrow> zero_account\<lparr>ai_total_equity := as_float_any (member m ''equity''), ai_available := as_float_any (member m ''available''),
       ai_margin_used := as_float_any (member m ''used_margin''), ai_margin_used_pct := as_float_any (member m ''used_pct''),
       ai_position_count := int_of_f64 (as_float_any (member m ''positions''))\<rparr>)"

definition map_position :: "json_object \<Rightarrow> position_info" where
  "map_position m = \<lparr>pi_symbol = as_string_any (member m ''symbol''), pi_side = to_lower (as_string_any (member m ''side'')),
     pi_entry_price = as_float_any (member m ''entry''), pi_mark_price = as_float_any (member m ''mark''), pi_quantity = as_float_any (member m ''qty''),
     pi_leverage = int_of_f64 (as_float_any (member m ''lev'')), pi_unrealized = as_float_any (member m ''upnl''), pi_unrealized_pct = 0,
     pi_liquidation_price = as_float_any (member m ''liq''), pi_margin_used = 0, pi_update_time = 0\<rparr>"

definition map_positions :: "json_object option list \<Rightarrow> position_info list" where
  "map_positions raw = map map_position (List.map_filter id raw)"

definition map_candidates :: "string list \<Rightarrow> candidate_coin list" where
  "map_candidates raw = map (\<lambda>s. \<lparr>cc_symbol = s, cc_sources = []\<rparr>) (filter (\<lambda>s. s \<noteq> '''') (map (\<lambda>s. to_upper (trim_space s)) raw))"

definition bare_snapshot :: "string \<Rightarrow> f64 \<Rightarrow> f64 \<Rightarrow> f64 \<Rightarrow> snapshot" where
  "bare_snapshot sy px h1 h4 = \<lparr>sn_symbol = sy, sn_price_last = px, sn_change = \<lparr>ch_one_hour = h1, ch_four_hour = h4\<rparr>,
     sn_indicators = \<lparr>ind_ema = [], ind_macd = 0, ind_rsi = []\<rparr>, sn_open_interest = None, sn_funding_rate = None, sn_intraday = None, sn_long_term = None\<rparr>"

definition object_of :: "json \<Rightarrow> json_object" where
  "object_of v = (case v of JObj m \<Rightarrow> m | _ \<Rightarrow> [])"

definition digest_snapshot :: "string \<Rightarrow> json \<Rightarrow> snapshot" where
  "digest_snapshot sy v = (let m = object_of v; oi = as_float_any (member m ''oi_latest''); fr = as_float_any (member m ''funding'') in
     (bare_snapshot (to_upper sy) (as_float_any (member m ''price'')) (as_float_any (member m ''chg1h'')) (as_float_any (member m ''chg4h'')))
       \<lparr>sn_open_interest := (if feq oi 0 then None else Some \<lparr>oi_latest = oi, oi_average = 0\<rparr>), sn_funding_rate := (if feq fr 0 then None else Some fr)\<rparr>)"

text \<open>\<open>it\<close> is the order the map of the digest is met in: names that differ in case only meet in one entry, and the last wins.\<close>

definition map_market_digest :: "(json_object \<Rightarrow> json_object) \<Rightarrow> json_object \<Rightarrow> (string, snapshot option) gomap" where
  "map_market_digest it raw = foldl (\<lambda>m (sy, v). put (to_upper sy) (Some (digest_snapshot sy v)) m) [] (it raw)"

definition build_executor_context :: "(json_object \<Rightarrow> json_object) \<Rightarrow> exec_config option \<Rightarrow> cycle option \<Rightarrow> exec_context" where
  "build_executor_context it cfg rec = (case rec of
     None \<Rightarrow> zero_context
   | Some r \<Rightarrow>
     let ps = map_positions (jc_positions r) in
     zero_context\<lparr>ctx_current_time := (if is_zero_time (jc_timestamp r) then '''' else format_rfc3339 (jc_timestamp r)),
       ctx_major_leverage := (case cfg of None \<Rightarrow> 0 | Some c \<Rightarrow> ec_major_leverage c),
       ctx_alt_leverage := (case cfg of None \<Rightarrow> 0 | Some c \<Rightarrow> ec_alt_leverage c),
       ctx_account := (map_account_info (jc_account r))\<lparr>ai_position_count := int (length ps)\<rparr>,
       ctx_positions := ps, ctx_candidates := map_candidates (jc_candidates r), ctx_market_data := map_market_digest it (jc_market_digest r)\<rparr>)"

end
