(* ===== verification/Sim.thy ===== *)
theory Sim
  imports Exchange
begin

text \<open>
  The paper-trading exchange (\<open>pkg/exchange/sim/provider.go\<close>): symbols and asset indices,
  leverage, mark prices, positions and cash. Every method holds the provider's mutex, so an
  operation is one step on the record \<open>sim\<close> (\<open>IOCMarket\<close> is three: price, index, order).
  The two loops over maps take the order they meet the entries in from \<open>sim_iter\<close>.

  Shown: the invariant of the provider, that a refused order changes nothing of the
  account, that an accepted one leaves it solvent, that a reduce-only order never
  enlarges or flips a position, that closing closes, that asset indices are stable
  and unambiguous, and that the decimals it prints are read back as printed. The last
  section interprets \<open>trading_account\<close>.

  Order numbers, asset indices and times are unbounded integers, where the source has \<open>int\<close> and
  \<open>int64\<close>: a counter would have to pass 2^63 for the two to differ.
\<close>

subsection \<open>State\<close>

record position_state =
  ps_coin :: string
  ps_qty :: f64
  ps_entry :: f64

record sim =
  next_asset_id :: int
  next_oid :: int
  asset_index :: "(string, int) gomap"
  asset_symbol :: "(int, string) gomap"
  sim_leverage :: "(int, leverage) gomap"
  mark_px :: "(string, f64) gomap"
  positions :: "(string, position_state) gomap"
  initial_equity :: f64
  cash :: f64

record sim_iter =
  it_positions :: "(string \<times> position_state) list \<Rightarrow> (string \<times> position_state) list"
  it_assets :: "(string \<times> int) list \<Rightarrow> (string \<times> int) list"

definition default_initial_equity :: f64 where "default_initial_equity = lit 100000"
definition default_fallback_price :: f64 where "default_fallback_price = lit 100"
definition default_taker_fee_rate :: f64 where "default_taker_fee_rate = lit (4 / 10000)"
definition default_market_slippage :: f64 where "default_market_slippage = lit (2 / 1000)"

definition sim_new :: sim where
  "sim_new = \<lparr>next_asset_id = 1, next_oid = 1, asset_index = [], asset_symbol = [], sim_leverage = [],
     mark_px = [], positions = [], initial_equity = default_initial_equity, cash = default_initial_equity\<rparr>"

definition canonical :: "string \<Rightarrow> string" where
  "canonical coin = to_upper (trim_space coin)"

subsection \<open>Printing decimals\<close>

definition trim_right_zeros :: "string \<Rightarrow> string" where
  "trim_right_zeros s = rev (dropWhile (\<lambda>c. c = CHR ''0'') (rev s))"

definition trim_suffix_dot :: "string \<Rightarrow> string" where
  "trim_suffix_dot s = (if s \<noteq> [] \<and> last s = CHR ''.'' then butlast s else s)"

definition format_decimal :: "f64 \<Rightarrow> string" where
  "format_decimal v =
    (if is_nan v \<or> is_inf v then ''0''
     else if \<bar>v\<bar> < lit (1 / 1000000000) then ''0''
     else let s = trim_suffix_dot (trim_right_zeros (format_fixed 8 v))
          in if s = ''-0'' then ''0'' else s)"

subsection \<open>Reading the account\<close>

definition resolve_mark_price :: "sim \<Rightarrow> string \<Rightarrow> f64" where
  "resolve_mark_price p coin =
    (let fallback = (case lookup (positions p) coin of
        Some st \<Rightarrow> if 0 < ps_entry st then ps_entry st else default_fallback_price
      | None \<Rightarrow> default_fallback_price)
     in case lookup (mark_px p) coin of
        Some price \<Rightarrow> if 0 < price then price else fallback
      | None \<Rightarrow> fallback)"

definition leverage_for_coin :: "sim \<Rightarrow> string \<Rightarrow> leverage" where
  "leverage_for_coin p coin = (case lookup (asset_index p) coin of
     Some i \<Rightarrow> (case lookup (sim_leverage p) i of
        Some lev \<Rightarrow> lev
      | None \<Rightarrow> \<lparr>lev_type = ''cross'', lev_value = 1\<rparr>)
   | None \<Rightarrow> \<lparr>lev_type = ''cross'', lev_value = 1\<rparr>)"

text \<open>One round of the loop of \<open>buildAccountSnapshotLocked\<close>: the printed position, its
  unrealised profit, notional and margin.\<close>

definition snapshot_line :: "sim \<Rightarrow> string \<times> position_state \<Rightarrow> position \<times> f64 \<times> f64 \<times> f64" where
  "snapshot_line p e = (case e of (coin, st) \<Rightarrow>
     let qty = ps_qty st; mark = resolve_mark_price p coin;
         notional = \<bar>qty * mark\<bar>; unreal = qty * (mark - ps_entry st);
         lev = leverage_for_coin p coin;
         margin = (if lev_value lev > 0 then notional / f64_of_int (lev_value lev) else notional);
         entry = (if 0 < ps_entry st then Some (format_decimal (ps_entry st)) else None);
         roe = (if 0 < margin then format_decimal ((unreal / margin) * lit 100) else ''0'')
     in (\<lparr>pos_coin = coin, pos_entry_px = entry, pos_value = format_decimal notional,
          pos_szi = format_decimal qty, pos_unrealized = format_decimal unreal, pos_roe = roe,
          pos_leverage = lev, pos_liquidation_px = None\<rparr>, unreal, notional, margin))"

fun snapshot_fold ::
  "sim \<Rightarrow> (string \<times> position_state) list \<Rightarrow> position list \<times> f64 \<times> f64 \<times> f64 \<Rightarrow> position list \<times> f64 \<times> f64 \<times> f64" where
  "snapshot_fold p [] acc = acc"
| "snapshot_fold p (e # es) (ps, u, n, m) = (case snapshot_line p e of (pos, unreal, notional, margin) \<Rightarrow>
     snapshot_fold p es (ps @ [pos], u + unreal, n + notional, m + margin))"

definition build_account_snapshot :: "sim_iter \<Rightarrow> sim \<Rightarrow> position list \<times> f64 \<times> f64 \<times> f64" where
  "build_account_snapshot it p = (case snapshot_fold p (it_positions it (positions p)) ([], 0, 0, 0) of
     (ps, u, n, m) \<Rightarrow> (sort_key pos_coin ps, u, n, m))"

subsection \<open>Executing an order\<close>

text \<open>The second half of \<open>applyOrderLocked\<close>: trading the signed quantity \<open>delta\<close> against a
  position. It returns the realised profit and the size filled.\<close>

definition dust :: f64 where "dust = lit (1 / 10000000000)"

definition realized_pnl :: "f64 \<Rightarrow> f64 \<Rightarrow> position_state \<Rightarrow> f64" where
  "realized_pnl price delta st =
    (if \<not> feq (ps_qty st) 0 \<and> ps_qty st * delta < 0
     then fmin \<bar>ps_qty st\<bar> \<bar>delta\<bar> * (price - ps_entry st) * (if ps_qty st < 0 then lit (- 1) else lit 1)
     else 0)"

definition traded_entry :: "f64 \<Rightarrow> f64 \<Rightarrow> position_state \<Rightarrow> f64" where
  "traded_entry price delta st =
    (let old_qty = ps_qty st; new_qty = old_qty + delta
     in if feq old_qty 0 then price
        else if 0 < old_qty * delta then ((old_qty * ps_entry st) + (delta * price)) / new_qty
        else if old_qty * delta < 0
        then (if feq new_qty 0 then price else if old_qty * new_qty < 0 then price else ps_entry st)
        else ps_entry st)"

definition trade_position :: "string \<Rightarrow> f64 \<Rightarrow> f64 \<Rightarrow> position_state \<Rightarrow> sim \<Rightarrow> (f64 \<times> f64) \<times> sim" where
  "trade_position coin price delta st p =
    (let new_qty = ps_qty st + delta;
         qty1 = (if \<bar>new_qty\<bar> < dust then 0 else new_qty)
     in ((realized_pnl price delta st, \<bar>delta\<bar>),
         p\<lparr>positions := (if feq qty1 0 then del coin (positions p)
            else put coin (st\<lparr>ps_qty := qty1, ps_entry := traded_entry price delta st\<rparr>) (positions p))\<rparr>))"

definition apply_order :: "string \<Rightarrow> f64 \<Rightarrow> f64 \<Rightarrow> bool \<Rightarrow> bool \<Rightarrow> sim \<Rightarrow> (goerror + f64 \<times> f64) \<times> sim" where
  "apply_order coin price sz is_buy reduce_only p =
    (if price \<le> 0 then (Inl (Errorf ''sim: price must be positive'' []), p)
     else if sz \<le> 0 then (Inl (Errorf ''sim: size must be positive'' []), p)
     else
       let signed = (\<lambda>x. if is_buy then x else - x)
       in if reduce_only
       then (case lookup (positions p) coin of
           None \<Rightarrow> (Inr (0, 0), p)
         | Some st \<Rightarrow>
             if feq (ps_qty st) 0 then (Inr (0, 0), p)
             else if 0 < ps_qty st * signed sz
             then (Inl (Errorf ''sim: reduce-only order would increase position'' []), p)
             else let exec_size = (if \<bar>ps_qty st\<bar> < sz then \<bar>ps_qty st\<bar> else sz)
               in if exec_size \<le> 0 then (Inr (0, 0), p)
                  else (case trade_position coin price (signed exec_size) st p of (r, p1) \<Rightarrow> (Inr r, p1)))
       else (let st = (case lookup (positions p) coin of Some st \<Rightarrow> st
                       | None \<Rightarrow> \<lparr>ps_coin = coin, ps_qty = 0, ps_entry = 0\<rparr>)
             in case trade_position coin price (signed sz) st p of (r, p1) \<Rightarrow> (Inr r, p1)))"

text \<open>\<open>executeOrderLocked\<close> returns the realised profit, the size filled and the fee, and
  rolls the account back when the margin is not covered.\<close>

definition execute_order ::
  "sim_iter \<Rightarrow> string \<Rightarrow> f64 \<Rightarrow> f64 \<Rightarrow> bool \<Rightarrow> bool \<Rightarrow> f64 \<Rightarrow> sim \<Rightarrow> (goerror + f64 \<times> f64 \<times> f64) \<times> sim" where
  "execute_order it coin price sz is_buy reduce_only fee_rate p =
    (let old_cash = cash p; old_state = lookup (positions p) coin
     in case apply_order coin price sz is_buy reduce_only p of
       (Inl e, p1) \<Rightarrow> (Inl e, p1)
     | (Inr (realized, filled), p1) \<Rightarrow>
         if feq filled 0 then (Inr (realized, filled, 0), p1)
         else
           let fee = \<bar>filled * price * fee_rate\<bar>;
               p2 = p1\<lparr>cash := cash p1 + (realized - fee)\<rparr>
           in case build_account_snapshot it p2 of (_, unrealized, _, margin) \<Rightarrow>
              let equity = cash p2 + unrealized
              in if lit (1 / 1000000000) < margin - equity
                 then (Inl (Errorf ''sim: insufficient margin'' []),
                   p2\<lparr>cash := old_cash, positions := (case old_state of
                       Some st \<Rightarrow> put coin st (positions p2)
                     | None \<Rightarrow> del coin (positions p2))\<rparr>)
                 else (Inr (realized, filled, fee), p2))"

definition fee_rate_for_order :: "order \<Rightarrow> f64" where
  "fee_rate_for_order ord = (case o_builder ord of
     Some b \<Rightarrow> if bi_fee_bps b > 0 then default_taker_fee_rate + f64_of_int (bi_fee_bps b) / lit 10000
               else default_taker_fee_rate
   | None \<Rightarrow> default_taker_fee_rate)"

definition next_order_id :: "sim \<Rightarrow> int \<times> sim" where
  "next_order_id p = (next_oid p, p\<lparr>next_oid := next_oid p + 1\<rparr>)"

definition filled_response :: "f64 \<Rightarrow> f64 \<Rightarrow> int \<Rightarrow> order_response" where
  "filled_response filled price oid =
    \<lparr>or_status = ''ok'', or_type = ''order'',
     or_statuses = [\<lparr>st_resting = None,
        st_filled = Some \<lparr>fo_total_sz = format_decimal filled, fo_avg_px = format_decimal price, fo_oid = oid\<rparr>,
        st_error = ''''\<rparr>],
     or_error_message = ''''\<rparr>"

text \<open>The tail \<open>PlaceOrder\<close> and \<open>ClosePosition\<close> share: execute, mark, number, answer.\<close>

definition settle_order ::
  "sim_iter \<Rightarrow> string \<Rightarrow> f64 \<Rightarrow> f64 \<Rightarrow> bool \<Rightarrow> bool \<Rightarrow> f64 \<Rightarrow> sim \<Rightarrow> (goerror + order_response option) \<times> sim" where
  "settle_order it coin price sz is_buy reduce_only fee_rate p =
    (case execute_order it coin price sz is_buy reduce_only fee_rate p of
       (Inl e, p1) \<Rightarrow> (Inl e, p1)
     | (Inr (realized, filled, fee), p1) \<Rightarrow>
         let p2 = (if 0 < filled then p1\<lparr>mark_px := put coin price (mark_px p1)\<rparr> else p1)
         in case next_order_id p2 of (oid, p3) \<Rightarrow> (Inr (Some (filled_response filled price oid)), p3))"

definition asset_coin :: "sim_iter \<Rightarrow> int \<Rightarrow> sim \<Rightarrow> string" where
  "asset_coin it asset p = (case find (\<lambda>(s, i). i = asset) (it_assets it (asset_index p)) of
     Some (s, i) \<Rightarrow> s
   | None \<Rightarrow> '''')"

subsection \<open>Methods\<close>

definition get_asset_index :: "string \<Rightarrow> sim \<Rightarrow> (goerror + int) \<times> sim" where
  "get_asset_index coin p = (let c = canonical coin in case lookup (asset_index p) c of
     Some i \<Rightarrow> (Inr i, p)
   | None \<Rightarrow> (let i = next_asset_id p in (Inr i, p\<lparr>next_asset_id := i + 1,
       asset_index := put c i (asset_index p), asset_symbol := put i c (asset_symbol p)\<rparr>)))"

definition set_mark_price :: "string \<Rightarrow> f64 \<Rightarrow> sim \<Rightarrow> (goerror + unit) \<times> sim" where
  "set_mark_price coin price p =
    (if price \<le> 0 then (Inl (Errorf ''sim: mark price must be positive'' []), p)
     else (Inr (), p\<lparr>mark_px := put (canonical coin) price (mark_px p)\<rparr>))"

definition place_order :: "sim_iter \<Rightarrow> order \<Rightarrow> sim \<Rightarrow> (goerror + order_response option) \<times> sim" where
  "place_order it ord p =
    (if o_sz ord = '''' then (Inl (Errorf ''sim: order size is required'' []), p)
     else case parse_float (trim_space (o_limit_px ord)) of (price, price_ok) \<Rightarrow>
       if \<not> price_ok \<or> price \<le> 0 then (Inl (Errorf ''sim: invalid limit price %q'' [o_limit_px ord]), p)
       else case parse_float (trim_space (o_sz ord)) of (sz, size_ok) \<Rightarrow>
         if \<not> size_ok \<or> sz \<le> 0 then (Inl (Errorf ''sim: invalid size %q'' [o_sz ord]), p)
         else let coin = asset_coin it (o_asset ord) p
           in if coin = '''' then (Inl (Errorf ''sim: unknown asset index %d'' [itoa (o_asset ord)]), p)
              else settle_order it coin price sz (o_is_buy ord) (o_reduce_only ord) (fee_rate_for_order ord) p)"

definition ioc_market ::
  "sim_iter \<Rightarrow> string \<Rightarrow> bool \<Rightarrow> f64 \<Rightarrow> f64 \<Rightarrow> bool \<Rightarrow> sim \<Rightarrow> (goerror + order_response option) \<times> sim" where
  "ioc_market it coin is_buy qty slippage reduce_only p =
    (if qty \<le> 0 then (Inl (Errorf ''sim: IOCMarket qty must be positive'' []), p)
     else
       let mark = resolve_mark_price p (canonical coin);
           price0 = (if mark \<le> 0 then default_fallback_price else mark);
           slip = (if slippage \<le> 0 then default_market_slippage else slippage);
           price = (if is_buy then price0 * (lit 1 + slip) else price0 * fmax 0 (lit 1 - slip))
       in case get_asset_index coin p of
         (Inl e, p1) \<Rightarrow> (Inl e, p1)
       | (Inr i, p1) \<Rightarrow> place_order it
           \<lparr>o_asset = i, o_is_buy = is_buy, o_limit_px = format_decimal price, o_sz = format_decimal qty,
            o_reduce_only = reduce_only,
            o_type = \<lparr>ot_limit = Some \<lparr>lim_tif = ''Ioc''\<rparr>, ot_trigger = None\<rparr>,
            o_cloid = '''', o_trigger_px = '''', o_trigger_rel = '''', o_grouping = '''', o_builder = None\<rparr> p1)"

definition get_positions :: "sim_iter \<Rightarrow> sim \<Rightarrow> (goerror + position list) \<times> sim" where
  "get_positions it p = (case build_account_snapshot it p of (ps, _) \<Rightarrow> (Inr ps, p))"

definition apply_slippage :: "f64 \<Rightarrow> bool \<Rightarrow> f64 \<Rightarrow> f64" where
  "apply_slippage price is_buy slippage =
    (if slippage \<le> 0 then price
     else if is_buy then price * (lit 1 + slippage)
     else price * fmax 0 (lit 1 - slippage))"

definition close_position :: "sim_iter \<Rightarrow> string \<Rightarrow> sim \<Rightarrow> (goerror + order_response option) \<times> sim" where
  "close_position it coin p = (let c = canonical coin in case lookup (positions p) c of
     None \<Rightarrow> (Inr None, p)
   | Some st \<Rightarrow> if feq (ps_qty st) 0 then (Inr None, p)
       else let mark = resolve_mark_price p c;
                price0 = (if mark \<le> 0 then ps_entry st else mark);
                is_buy = (ps_qty st < 0);
                price = apply_slippage price0 is_buy default_market_slippage
            in settle_order it c price \<bar>ps_qty st\<bar> is_buy True default_taker_fee_rate p)"

definition update_leverage :: "int \<Rightarrow> bool \<Rightarrow> int \<Rightarrow> sim \<Rightarrow> (goerror + unit) \<times> sim" where
  "update_leverage asset is_cross lev p =
    (if lev \<le> 0 then (Inl (Errorf ''sim: leverage must be positive'' []), p)
     else (Inr (), p\<lparr>sim_leverage := put asset
        \<lparr>lev_type = (if is_cross then ''cross'' else ''isolated''), lev_value = lev\<rparr> (sim_leverage p)\<rparr>))"

definition get_account_state :: "sim_iter \<Rightarrow> sim \<Rightarrow> (goerror + account_state) \<times> sim" where
  "get_account_state it p = (case build_account_snapshot it p of (ps, unrealized, notional, margin) \<Rightarrow>
     let equity = cash p + unrealized;
         summary = \<lparr>ms_account_value = format_decimal equity, ms_total_margin_used = format_decimal margin,
            ms_total_ntl_pos = format_decimal notional, ms_total_raw_usd = format_decimal notional\<rparr>
     in (Inr \<lparr>as_margin = summary, as_cross_margin = summary, as_positions = ps\<rparr>, p))"

definition get_account_value :: "sim_iter \<Rightarrow> sim \<Rightarrow> (goerror + f64) \<times> sim" where
  "get_account_value it p = (case build_account_snapshot it p of (_, unrealized, _, _) \<Rightarrow>
     (Inr (cash p + unrealized), p))"

definition format_price :: "string \<Rightarrow> f64 \<Rightarrow> sim \<Rightarrow> (goerror + string) \<times> sim" where
  "format_price coin price p =
    (if price \<le> 0 then (Inl (Errorf ''sim: price must be positive'' []), p) else (Inr (format_decimal price), p))"

definition format_size :: "string \<Rightarrow> f64 \<Rightarrow> sim \<Rightarrow> (goerror + string) \<times> sim" where
  "format_size coin sz p =
    (if sz \<le> 0 then (Inl (Errorf ''sim: size must be positive'' []), p) else (Inr (format_decimal sz), p))"

text \<open>The simulator as a provider; it has no stop-loss or take-profit extension.\<close>

definition sim_provider :: "sim_iter \<Rightarrow> sim provider" where
  "sim_provider it =
    \<lparr>pv_type_name = ''*sim.Provider'',
     pv_place_order = place_order it,
     pv_cancel_order = (\<lambda>asset oid p. (Inr (), p)),
     pv_get_open_orders = (\<lambda>p. (Inr [], p)),
     pv_get_positions = get_positions it,
     pv_close_position = close_position it,
     pv_update_leverage = update_leverage,
     pv_get_account_state = get_account_state it,
     pv_get_account_value = get_account_value it,
     pv_get_asset_index = get_asset_index,
     pv_set_mark_price = Some set_mark_price,
     pv_cancel_all = Some (\<lambda>coin p. (Inr (), p)),
     pv_ioc_market = Some (ioc_market it),
     pv_format_price = Some format_price,
     pv_format_size = Some format_size,
     pv_set_stop_loss = None,
     pv_set_take_profit = None\<rparr>"

subsection \<open>Invariant\<close>

definition pos_ok :: "string \<times> position_state \<Rightarrow> bool" where
  "pos_ok e = (case e of (c, st) \<Rightarrow> ps_coin st = c \<and> \<not> \<bar>ps_qty st\<bar> < dust \<and> float_val (ps_qty st))"

definition sim_inv :: "sim \<Rightarrow> bool" where
  "sim_inv p \<longleftrightarrow>
     wf_map (asset_index p) \<and> wf_map (asset_symbol p) \<and> wf_map (sim_leverage p) \<and>
     wf_map (mark_px p) \<and> wf_map (positions p) \<and>
     list_all (\<lambda>(c, i). i < next_asset_id p \<and> lookup (asset_symbol p) i = Some c) (asset_index p) \<and>
     list_all (\<lambda>(i, c). i < next_asset_id p \<and> lookup (asset_index p) c = Some i) (asset_symbol p) \<and>
     list_all (\<lambda>(i, l). 0 < lev_value l) (sim_leverage p) \<and>
     list_all pos_ok (positions p)"

lemma sim_inv_new [simp]: "sim_inv sim_new"
  by (simp add: sim_inv_def sim_new_def)

lemma sim_inv_positions:
  "sim_inv p \<Longrightarrow> wf_map ps \<Longrightarrow> list_all pos_ok ps \<Longrightarrow> sim_inv (p\<lparr>positions := ps\<rparr>)"
  by (simp add: sim_inv_def)

lemma sim_inv_frame [simp]:
  "sim_inv (p\<lparr>cash := c\<rparr>) = sim_inv p"
  "sim_inv (p\<lparr>cash := c, positions := ps\<rparr>) = sim_inv (p\<lparr>positions := ps\<rparr>)"
  "sim_inv (p\<lparr>next_oid := n\<rparr>) = sim_inv p"
  "sim_inv p \<Longrightarrow> sim_inv (p\<lparr>mark_px := put k v (mark_px p)\<rparr>)"
  "sim_inv p \<Longrightarrow> 0 < lev_value l \<Longrightarrow> sim_inv (p\<lparr>sim_leverage := put a l (sim_leverage p)\<rparr>)"
  by (simp_all add: sim_inv_def list_all_put)

lemma sim_inv_lookup: "sim_inv p \<Longrightarrow> lookup (positions p) c = Some st \<Longrightarrow> pos_ok (c, st)"
  unfolding sim_inv_def using list_all_lookup [of pos_ok "positions p" c st] by blast

lemma sim_inv_put: "sim_inv p \<Longrightarrow> pos_ok (c, st) \<Longrightarrow> sim_inv (p\<lparr>positions := put c st (positions p)\<rparr>)"
  by (rule sim_inv_positions) (auto simp: sim_inv_def intro!: list_all_put)

lemma sim_inv_del: "sim_inv p \<Longrightarrow> sim_inv (p\<lparr>positions := del c (positions p)\<rparr>)"
  by (rule sim_inv_positions) (auto simp: sim_inv_def intro!: list_all_del)

lemma trade_position_inv:
  assumes "sim_inv p" "ps_coin st = coin"
  shows "sim_inv (snd (trade_position coin price delta st p))"
  using assms by (auto simp: trade_position_def Let_def pos_ok_def intro: sim_inv_del intro!: sim_inv_put)

text \<open>How an order is applied: it is refused or fills nothing, and the book stays as it is,
  or it trades against the position on the book or a fresh one.\<close>

definition order_target :: "string \<Rightarrow> sim \<Rightarrow> position_state" where
  "order_target coin p = (case lookup (positions p) coin of
     Some st \<Rightarrow> st | None \<Rightarrow> \<lparr>ps_coin = coin, ps_qty = 0, ps_entry = 0\<rparr>)"

definition order_delta :: "f64 \<Rightarrow> f64 \<Rightarrow> bool \<Rightarrow> bool \<Rightarrow> f64" where
  "order_delta qty sz is_buy reduce_only =
    (let ex = (if reduce_only \<and> \<bar>qty\<bar> < sz then \<bar>qty\<bar> else sz) in if is_buy then ex else - ex)"

lemma apply_order_cases [consumes 1, case_names refused nothing traded]:
  assumes "apply_order coin price sz is_buy reduce_only p = (r, p')"
    and "\<And>e. r = Inl e \<Longrightarrow> p' = p \<Longrightarrow> thesis"
    and "r = Inr (0, 0) \<Longrightarrow> p' = p \<Longrightarrow> reduce_only \<Longrightarrow> thesis"
    and "\<And>st delta v. st = order_target coin p \<Longrightarrow> delta = order_delta (ps_qty st) sz is_buy reduce_only \<Longrightarrow>
       \<not> price \<le> 0 \<Longrightarrow> \<not> sz \<le> 0 \<Longrightarrow> reduce_only \<longrightarrow> lookup (positions p) coin = Some st \<and>
         \<not> 0 < ps_qty st * (if is_buy then sz else - sz) \<Longrightarrow>
       trade_position coin price delta st p = (v, p') \<Longrightarrow> r = Inr v \<Longrightarrow> thesis"
  shows thesis
proof -
  consider "\<exists>e. r = Inl e \<and> p' = p" | "r = Inr (0, 0) \<and> p' = p \<and> reduce_only"
    | v where "\<not> price \<le> 0" "\<not> sz \<le> 0" "r = Inr v"
        "trade_position coin price (order_delta (ps_qty (order_target coin p)) sz is_buy reduce_only)
           (order_target coin p) p = (v, p')"
        "reduce_only \<longrightarrow> lookup (positions p) coin = Some (order_target coin p) \<and>
           \<not> 0 < ps_qty (order_target coin p) * (if is_buy then sz else - sz)"
    using assms(1)
    by (auto simp: apply_order_def Let_def order_target_def order_delta_def
        split: if_splits option.splits prod.splits)
  then show thesis using assms(2-) by cases blast+
qed

lemma order_target_coin: "sim_inv p \<Longrightarrow> ps_coin (order_target coin p) = coin"
  using sim_inv_lookup [of p coin] by (auto simp: order_target_def pos_ok_def split: option.splits)

lemma apply_order_inv:
  "apply_order coin price sz is_buy reduce_only p = (r, p') \<Longrightarrow> sim_inv p \<Longrightarrow> sim_inv p'"
  by (erule apply_order_cases) (simp, simp, metis order_target_coin trade_position_inv snd_conv)

lemma apply_order_frame:
  "apply_order coin price sz is_buy reduce_only p = (r, p') \<Longrightarrow>
   p' = p\<lparr>positions := positions p'\<rparr> \<and> (\<forall>c. c \<noteq> coin \<longrightarrow> lookup (positions p') c = lookup (positions p) c)"
  by (erule apply_order_cases) (auto simp: trade_position_def Let_def)


text \<open>Two states of the provider with the same account: nothing differs but, at most, the
  order in which the positions are stored.\<close>

definition same_account :: "sim \<Rightarrow> sim \<Rightarrow> bool" where
  "same_account p p' \<longleftrightarrow> p' = p\<lparr>positions := positions p'\<rparr> \<and> lookup (positions p') = lookup (positions p)"

lemma same_account_refl [simp]: "same_account p p"
  by (simp add: same_account_def)

lemma execute_order_cases [consumes 1, case_names refused unfilled filled]:
  assumes "execute_order it coin price sz is_buy reduce_only fee p = (r, p')"
    and "\<And>e. r = Inl e \<Longrightarrow> same_account p p' \<Longrightarrow> (sim_inv p \<Longrightarrow> sim_inv p') \<Longrightarrow> thesis"
    and "\<And>v x. r = Inr (v, x, 0) \<Longrightarrow> feq x 0 \<Longrightarrow> apply_order coin price sz is_buy reduce_only p = (Inr (v, x), p') \<Longrightarrow> thesis"
    and "\<And>p1 v x u n m ps. r = Inr (v, x, \<bar>x * price * fee\<bar>) \<Longrightarrow> \<not> feq x 0 \<Longrightarrow>
       apply_order coin price sz is_buy reduce_only p = (Inr (v, x), p1) \<Longrightarrow>
       p' = p1\<lparr>cash := cash p1 + (v - \<bar>x * price * fee\<bar>)\<rparr> \<Longrightarrow>
       build_account_snapshot it p' = (ps, u, n, m) \<Longrightarrow>
       \<not> lit (1 / 1000000000) < m - (cash p' + u) \<Longrightarrow> thesis"
  shows thesis
proof (cases "apply_order coin price sz is_buy reduce_only p")
  case (Pair r1 p1)
  note frame = apply_order_frame [OF Pair]
  show thesis
  proof (cases r1)
    case (Inl e)
    with Pair have "p1 = p" by (auto elim: apply_order_cases)
    then show thesis using assms(1) assms(2) [of e] Pair Inl by (auto simp: execute_order_def)
  next
    case (Inr vx)
    obtain v x where vx: "vx = (v, x)" by (cases vx)
    let ?p2 = "p1\<lparr>cash := cash p1 + (v - \<bar>x * price * fee\<bar>)\<rparr>"
    obtain ps u n m where sn: "build_account_snapshot it ?p2 = (ps, u, n, m)"
      by (cases "build_account_snapshot it ?p2")
    let ?undone = "?p2\<lparr>cash := cash p, positions := (case lookup (positions p) coin of
        Some st \<Rightarrow> put coin st (positions ?p2) | None \<Rightarrow> del coin (positions ?p2))\<rparr>"
    obtain Q where p1: "p1 = p\<lparr>positions := Q\<rparr>" using frame by blast
    have same: "same_account p ?undone"
      using frame by (cases "lookup (positions p) coin") (auto simp: same_account_def fun_eq_iff p1)
    have inv: "sim_inv ?undone" if "sim_inv p"
      using apply_order_inv [OF Pair that] sim_inv_lookup [OF that]
      by (cases "lookup (positions p) coin")
        (auto simp: sim_inv_put sim_inv_del)
    show thesis
    proof (cases "feq x 0 \<or> \<not> lit (1 / 1000000000) < m - (cash ?p2 + u)")
      case True
      then show thesis using assms(1,3,4) sn
        by (cases "feq x 0") (auto simp: execute_order_def Pair Inr vx Let_def)
    next
      case False
      then have "r = Inl (Errorf ''sim: insufficient margin'' [])" "p' = ?undone"
        using assms(1) sn by (auto simp: execute_order_def Pair Inr vx Let_def)
      then show thesis using assms(2) same inv by blast
    qed
  qed
qed

lemma execute_order_inv:
  "execute_order it coin price sz is_buy reduce_only fee p = (r, p') \<Longrightarrow> sim_inv p \<Longrightarrow> sim_inv p'"
  by (erule execute_order_cases) (auto dest: apply_order_inv)

lemma settle_order_cases [consumes 1, case_names refused accepted]:
  assumes "settle_order it coin price sz is_buy reduce_only fee p = (r, p')"
    and "\<And>e. r = Inl e \<Longrightarrow> same_account p p' \<Longrightarrow> (sim_inv p \<Longrightarrow> sim_inv p') \<Longrightarrow> thesis"
    and "\<And>v x f p1. execute_order it coin price sz is_buy reduce_only fee p = (Inr (v, x, f), p1) \<Longrightarrow>
       r = Inr (Some (filled_response x price (next_oid p1))) \<Longrightarrow>
       p' = p1\<lparr>mark_px := (if 0 < x then put coin price (mark_px p1) else mark_px p1), next_oid := next_oid p1 + 1\<rparr> \<Longrightarrow> thesis"
  shows thesis
proof (cases "execute_order it coin price sz is_buy reduce_only fee p")
  case (Pair r1 p1)
  show thesis
  proof (cases r1)
    case (Inl e)
    with Pair have "same_account p p1" "sim_inv p \<Longrightarrow> sim_inv p1" by (auto elim: execute_order_cases)
    then show thesis using assms(1) assms(2) [of e] Pair Inl by (auto simp: settle_order_def)
  next
    case (Inr vx)
    then show thesis using assms(1,3) Pair
      by (cases vx) (auto simp: settle_order_def Let_def next_order_id_def split: if_splits)
  qed
qed

lemma settle_order_inv:
  "settle_order it coin price sz is_buy reduce_only fee p = (r, p') \<Longrightarrow> sim_inv p \<Longrightarrow> sim_inv p'"
  by (erule settle_order_cases) (auto dest: execute_order_inv)

lemma place_order_cases [consumes 1, case_names refused settled]:
  assumes "place_order it ord p = (r, p')"
    and "\<And>e. r = Inl e \<Longrightarrow> p' = p \<Longrightarrow> thesis"
    and "\<And>coin price sz. parse_float (trim_space (o_limit_px ord)) = (price, True) \<Longrightarrow> \<not> price \<le> 0 \<Longrightarrow>
       parse_float (trim_space (o_sz ord)) = (sz, True) \<Longrightarrow> \<not> sz \<le> 0 \<Longrightarrow>
       coin = asset_coin it (o_asset ord) p \<Longrightarrow> coin \<noteq> '''' \<Longrightarrow>
       settle_order it coin price sz (o_is_buy ord) (o_reduce_only ord) (fee_rate_for_order ord) p = (r, p') \<Longrightarrow> thesis"
  shows thesis
  using assms(1,3) assms(2)
  by (auto simp: place_order_def Let_def split: if_splits prod.splits)

lemma place_order_inv: "place_order it ord p = (r, p') \<Longrightarrow> sim_inv p \<Longrightarrow> sim_inv p'"
  by (erule place_order_cases) (auto dest: settle_order_inv)

lemma close_position_inv: "close_position it coin p = (r, p') \<Longrightarrow> sim_inv p \<Longrightarrow> sim_inv p'"
  by (auto simp: close_position_def Let_def split: option.splits if_splits dest: settle_order_inv)

lemma index_entries_put:
  fixes n :: int
  assumes "list_all (\<lambda>(c, i). i < n \<and> lookup sm i = Some c) m"
  shows "list_all (\<lambda>(c, i). i < n + 1 \<and> lookup (put n c' sm) i = Some c) (put c' n m)"
  using assms by (intro list_all_put) (force simp: list_all_iff)+

lemma symbol_entries_put:
  fixes n :: int
  assumes "list_all (\<lambda>(i, c). i < n \<and> lookup m c = Some i) sm" and "lookup m c' = None"
  shows "list_all (\<lambda>(i, c). i < n + 1 \<and> lookup (put c' n m) c = Some i) (put n c' sm)"
  using assms by (intro list_all_put) (force simp: list_all_iff)+

lemma get_asset_index_inv: "get_asset_index coin p = (r, p') \<Longrightarrow> sim_inv p \<Longrightarrow> sim_inv p'"
  using index_entries_put [of "next_asset_id p" "asset_symbol p" "asset_index p" "canonical coin"]
    symbol_entries_put [of "next_asset_id p" "asset_index p" "asset_symbol p" "canonical coin"]
  by (auto simp: get_asset_index_def Let_def sim_inv_def split: option.splits)

lemma ioc_market_inv: "ioc_market it coin is_buy qty slip ro p = (r, p') \<Longrightarrow> sim_inv p \<Longrightarrow> sim_inv p'"
  by (auto simp: ioc_market_def Let_def split: if_splits prod.splits sum.splits
      dest: place_order_inv get_asset_index_inv)

lemma update_leverage_inv: "update_leverage a x l p = (r, p') \<Longrightarrow> sim_inv p \<Longrightarrow> sim_inv p'"
  by (auto simp: update_leverage_def sim_inv_def intro!: list_all_put split: if_splits)

lemma set_mark_price_inv: "set_mark_price coin px p = (r, p') \<Longrightarrow> sim_inv p \<Longrightarrow> sim_inv p'"
  by (auto simp: set_mark_price_def split: if_splits)


subsection \<open>A refused order changes nothing\<close>

text \<open>A refused order changes nothing: whatever the reason (bad price or size, unknown asset,
  a reduce-only order on the wrong side, insufficient margin after the fill was already
  booked), cash, positions, marks, leverage and order numbers are what they were.\<close>

theorem refused_order_keeps_account:
  "place_order it ord p = (Inl e, p') \<Longrightarrow> same_account p p'"
  by (erule place_order_cases) (auto elim: settle_order_cases)

lemma refused_close_keeps_account:
  "close_position it coin p = (Inl e, p') \<Longrightarrow> same_account p p'"
  by (auto simp: close_position_def Let_def split: option.splits if_splits elim: settle_order_cases)

lemma get_asset_index_account:
  "get_asset_index coin p = (r, p') \<Longrightarrow> cash p' = cash p \<and> positions p' = positions p"
  by (auto simp: get_asset_index_def Let_def split: option.splits)

subsection \<open>Reduce-only orders\<close>

text \<open>\<open>shrunk a b\<close>: the position \<open>a\<close> became \<open>b\<close> without growing or changing sides.\<close>

fun shrunk :: "position_state option \<Rightarrow> position_state option \<Rightarrow> bool" where
  "shrunk old None = True"
| "shrunk None (Some st) = False"
| "shrunk (Some a) (Some b) = (0 < ps_qty b \<and> ps_qty b \<le> ps_qty a \<or> ps_qty b < 0 \<and> ps_qty a \<le> ps_qty b)"

definition finite_val :: "f64 \<Rightarrow> bool" where
  "finite_val x \<longleftrightarrow> \<not> is_nan x \<and> \<not> is_inf x"

lemma finite_valE: "finite_val x \<Longrightarrow> (\<And>q. x = Fin q \<Longrightarrow> thesis) \<Longrightarrow> thesis"
  by (cases x) (auto simp: finite_val_def)

lemma dust_value: "\<exists>d. dust = Fin d \<and> 1 / 2 ^ 34 < d \<and> d < 1 / 2 ^ 33"
proof -
  have "dust = Fin (7737125245533627 / 77371252455336267181195264)" by code_simp
  then show ?thesis by (intro exI [of _ "7737125245533627 / 77371252455336267181195264"]) simp
qed

lemma dust_product_pos:
  assumes d: "dust = Fin d" and "d \<le> x" "d \<le> y"
  shows "Fin 0 < fround (x * y)"
proof -
  have lo: "1 / 2 ^ 34 < d" using dust_value d by (metis f64.inject(2))
  have "1 / 295147905179352825856 = (1 / 2 ^ 34 :: rat) * (1 / 2 ^ 34)" by simp
  also have "\<dots> \<le> x * y" using lo assms(2,3) by (intro mult_mono) simp_all
  finally have "fround (1 / 295147905179352825856) \<le> fround (x * y)" by (rule fround_mono)
  moreover have "Fin 0 < fround (1 / 295147905179352825856)" by code_simp
  ultimately show ?thesis by (rule f64_less_le_trans [rotated])
qed

lemma reduce_side:
  assumes q: "\<not> \<bar>Fin q\<bar> < dust" and sz: "dust \<le> sz" "\<not> 0 < Fin q * (if is_buy then sz else - sz)"
  shows "is_buy \<longleftrightarrow> q < 0"
proof (rule ccontr)
  assume wrong: "\<not> ?thesis"
  obtain d where d: "dust = Fin d" "0 < d" using dust_value by (auto dest: less_trans [of 0])
  show False
  proof (cases sz)
    case (Fin s)
    then show False
      using wrong q sz dust_product_pos [OF d(1), of q s] dust_product_pos [OF d(1), of "- q" s]
      by (auto simp: d(1) f64_ops(3,5,8) abs_f64_def abs_if split: if_splits)
  qed (use wrong q sz d(2) in \<open>auto simp: d(1) f64_ops abs_if split: if_splits\<close>)
qed

lemma reduce_shrinks:
  assumes q: "ps_qty st = Fin q" "float_val (ps_qty st)" "\<not> \<bar>ps_qty st\<bar> < dust"
    and sz: "dust \<le> sz" "\<not> 0 < ps_qty st * (if is_buy then sz else - sz)"
    and tr: "trade_position coin price (order_delta (ps_qty st) sz is_buy True) st p = (v, p')"
  shows "shrunk (Some st) (lookup (positions p') coin)"
proof -
  obtain d where d: "dust = Fin d" "0 < d" using dust_value by (auto dest: less_trans [of 0])
  have aq: "d \<le> \<bar>q\<bar>" using q by (simp add: d(1) abs_f64_def)
  have side: "is_buy \<longleftrightarrow> q < 0" using reduce_side q sz by metis
  have "\<exists>x. (if \<bar>Fin q\<bar> < sz then \<bar>Fin q\<bar> else sz) = Fin x \<and> 0 < x \<and> x \<le> \<bar>q\<bar>"
  proof (cases sz)
    case (Fin s)
    then show ?thesis using sz(1) d(2) aq by (cases "\<bar>q\<bar> < s") (simp_all add: d(1) abs_f64_def)
  qed (use sz(1) d(2) aq in \<open>simp_all add: d(1) abs_f64_def\<close>)
  then obtain x where x: "(if \<bar>Fin q\<bar> < sz then \<bar>Fin q\<bar> else sz) = Fin x" "0 < x" "x \<le> \<bar>q\<bar>" by blast
  have fq: "fround q = Fin q" using q(1,2) by (simp add: float_val_def)
  let ?n = "fround (q + (if q < 0 then x else - x))"
  have bounds: "if q < 0 then Fin q \<le> ?n \<and> ?n \<le> Fin 0 else Fin 0 \<le> ?n \<and> ?n \<le> Fin q"
    using x fround_mono [of q "q + x"] fround_mono [of "q + x" 0]
      fround_mono [of "q - x" q] fround_mono [of 0 "q - x"] fq by simp
  have "ps_qty st + order_delta (ps_qty st) sz is_buy True = ?n"
    by (simp only: q(1) order_delta_def Let_def simp_thms x(1) side) (simp add: plus_f64_def uminus_f64_def)
  then have p': "positions p' = (if \<bar>?n\<bar> < dust \<or> feq ?n 0 then del coin (positions p)
      else put coin (st\<lparr>ps_qty := ?n, ps_entry := traded_entry price (order_delta (ps_qty st) sz is_buy True) st\<rparr>) (positions p))"
    using tr by (auto simp: trade_position_def Let_def)
  show ?thesis
  proof (cases ?n)
    case (Fin n)
    show ?thesis using p' bounds q(1) unfolding Fin
      by (auto simp: zero_f64_def d(1) split: if_splits)
  qed (use bounds in \<open>auto split: if_splits\<close>)
qed

definition finite_book :: "sim \<Rightarrow> bool" where
  "finite_book p = list_all (\<lambda>(c, st). finite_val (ps_qty st)) (positions p)"

lemma shrunk_refl:
  "sim_inv p \<Longrightarrow> finite_book p \<Longrightarrow> shrunk (lookup (positions p) c) (lookup (positions p) c)"
proof (cases "lookup (positions p) c")
  case (Some st)
  assume "sim_inv p" "finite_book p"
  then have "pos_ok (c, st)" "finite_val (ps_qty st)"
    using sim_inv_lookup [OF _ Some] list_all_lookup [OF _ Some] unfolding finite_book_def by fastforce+
  then obtain q where q: "ps_qty st = Fin q" "\<not> \<bar>Fin q\<bar> < dust" by (auto simp: pos_ok_def elim: finite_valE)
  obtain d where d: "dust = Fin d" "0 < d" using dust_value by (auto dest: less_trans [of 0])
  have "d \<le> \<bar>q\<bar>" using q(2) by (simp add: d(1) abs_f64_def)
  then have "q < 0 \<or> 0 < q" using d(2) by linarith
  then show ?thesis by (auto simp: Some q(1) zero_f64_def)
qed simp

text \<open>A reduce-only order never opens, enlarges or flips a position, on any coin, whether
  it is filled or refused, for sizes above the dust threshold.\<close>

theorem reduce_only_shrinks:
  assumes "sim_inv p" "finite_book p" "o_reduce_only ord"
    and "parse_float (trim_space (o_sz ord)) = (sz, True)" "dust \<le> sz"
    and "place_order it ord p = (r, p')"
  shows "shrunk (lookup (positions p) c) (lookup (positions p') c)"
proof -
  have app: "shrunk (lookup (positions p) c) (lookup (positions p1) c)"
    if "apply_order coin price sz b True p = (Inr (v, x), p1)" for coin price b v x p1
    using that
  proof (cases rule: apply_order_cases)
    case (traded st delta v)
    show ?thesis
    proof (cases "c = coin")
      case True
      from traded have st: "lookup (positions p) coin = Some st" by simp
      then have "pos_ok (coin, st)" "finite_val (ps_qty st)"
        using sim_inv_lookup [OF assms(1) st] list_all_lookup [OF _ st] assms(2)
        unfolding finite_book_def by fastforce+
      then show ?thesis using reduce_shrinks [of st _ sz b coin price p] traded st True assms(5)
        by (auto simp: pos_ok_def elim!: finite_valE)
    next
      case False
      then show ?thesis using apply_order_frame [OF that] shrunk_refl assms(1,2) by simp
    qed
  qed (use shrunk_refl assms(1,2) in simp_all)
  from assms(6) show ?thesis
  proof (cases rule: place_order_cases)
    case (settled coin price s)
    with assms(3,4) have "settle_order it coin price sz (o_is_buy ord) True (fee_rate_for_order ord) p = (r, p')" by simp
    then show ?thesis
    proof (cases rule: settle_order_cases)
      case (accepted v x f p1)
      then have "positions p' = positions p1" by simp
      with accepted(1) app show ?thesis by (auto elim!: execute_order_cases)
    qed (use shrunk_refl assms(1,2) in \<open>simp add: same_account_def\<close>)
  qed (use shrunk_refl assms(1,2) in simp)
qed

subsection \<open>Decimals read back\<close>

lemma trim_right_zeros_append:
  "trim_right_zeros (s @ t) = (if trim_right_zeros t = [] then trim_right_zeros s else s @ trim_right_zeros t)"
  by (auto simp: trim_right_zeros_def dropWhile_append dropWhile_eq_Nil_conv)

lemma trim_right_zeros_split: "\<exists>k. t = trim_right_zeros t @ replicate k (CHR ''0'')"
proof -
  have "takeWhile (\<lambda>c. c = CHR ''0'') (rev t) = replicate (length (takeWhile (\<lambda>c. c = CHR ''0'') (rev t))) (CHR ''0'')"
    by (rule replicate_eqI) (auto dest: set_takeWhileD)
  then have "rev t = replicate (length (takeWhile (\<lambda>c. c = CHR ''0'') (rev t))) (CHR ''0'') @ dropWhile (\<lambda>c. c = CHR ''0'') (rev t)"
    by (metis takeWhile_dropWhile_id)
  then have "t = rev (replicate (length (takeWhile (\<lambda>c. c = CHR ''0'') (rev t))) (CHR ''0'') @ dropWhile (\<lambda>c. c = CHR ''0'') (rev t))"
    by (metis rev_rev_ident)
  then show ?thesis unfolding trim_right_zeros_def by (metis rev_append rev_replicate)
qed

lemma trim_decimal_text:
  assumes "fs \<noteq> []" "list_all is_digit fs"
  shows "trim_suffix_dot (trim_right_zeros (decimal_text neg ds fs)) = decimal_text neg ds (trim_right_zeros fs)"
proof -
  have dot: "trim_right_zeros (CHR ''.'' # t) = CHR ''.'' # trim_right_zeros t" for t
    using trim_right_zeros_append [of "''.''" t] by (auto simp: trim_right_zeros_def)
  have *: "trim_right_zeros (decimal_text neg ds fs) =
      (if neg then ''-'' else '''') @ ds @ CHR ''.'' # trim_right_zeros fs"
    unfolding decimal_text_def using assms(1)
    by (simp add: trim_right_zeros_append dot del: append_assoc flip: append_assoc)
  have "last (trim_right_zeros fs) \<noteq> CHR ''.''" if "trim_right_zeros fs \<noteq> []"
  proof -
    obtain k where "fs = trim_right_zeros fs @ replicate k (CHR ''0'')" using trim_right_zeros_split by blast
    then have "set (trim_right_zeros fs) \<subseteq> set fs" by (metis set_append Un_upper1)
    then have "is_digit (last (trim_right_zeros fs))" using last_in_set [OF that] assms(2) by (auto simp: list_all_iff)
    then show ?thesis by (auto simp: is_digit_def code_def)
  qed
  then show ?thesis unfolding * by (auto simp: trim_suffix_dot_def decimal_text_def butlast_append)
qed

lemma digits_value_zeros: "digits_value (s @ replicate k (CHR ''0'')) = digits_value s * 10 ^ k"
proof (induction k)
  case (Suc k)
  have "s @ replicate (Suc k) (CHR ''0'') = (s @ replicate k (CHR ''0'')) @ [CHR ''0'']"
    by (simp add: replicate_append_same)
  then have "digits_value (s @ replicate (Suc k) (CHR ''0'')) = digits_value (s @ replicate k (CHR ''0'')) * 10 + (code (CHR ''0'') - 48)"
    by (simp only: digits_value_snoc)
  then show ?case using Suc by (simp add: code_def)
qed simp

lemma parse_trimmed_text:
  assumes "list_all is_digit ds" "ds \<noteq> []" "list_all is_digit fs"
  shows "parse_float (decimal_text neg ds (trim_right_zeros fs)) = parse_float (decimal_text neg ds fs)"
proof -
  obtain k where k: "fs = trim_right_zeros fs @ replicate k (CHR ''0'')" using trim_right_zeros_split by blast
  let ?g = "trim_right_zeros fs"
  have g: "list_all is_digit ?g" using assms(3) by (subst (asm) k) simp
  have len: "length fs = length ?g + k" by (subst k) simp
  have "(of_int (digits_value fs) :: rat) = of_int (digits_value ?g) * 10 ^ k"
    by (subst k) (simp add: digits_value_zeros)
  then have v: "of_int (digits_value fs) / 10 ^ length fs = (of_int (digits_value ?g) / 10 ^ length ?g :: rat)"
    by (simp add: len power_add)
  show ?thesis unfolding parse_float_decimal_text [OF assms] parse_float_decimal_text [OF assms(1,2) g] v ..
qed

lemma small_rounds_to_zero: "\<bar>Fin q\<bar> < lit (1 / 1000000000) \<Longrightarrow> rne (q * 10 ^ 8) = 0"
proof -
  assume a: "\<bar>Fin q\<bar> < lit (1 / 1000000000)"
  have "lit (1 / 1000000000) < Fin (1 / 500000000)" by code_simp
  with a have "\<bar>Fin q\<bar> < Fin (1 / 500000000)" using f64_less_imp_le f64_less_le_trans by blast
  then have "\<bar>q * 10 ^ 8\<bar> < 1 / 2" by (simp add: abs_f64_def abs_mult)
  then have "\<bar>of_int (rne (q * 10 ^ 8)) :: rat\<bar> < 1" using rne_near [of "q * 10 ^ 8"] by linarith
  then show ?thesis by linarith
qed

text \<open>A finite number printed by the exchange is read back as its rounding to eight
  decimals (ties to even), rounded to a \<open>float64\<close>: stripping zeros, the point or the sign
  of zero loses nothing.\<close>

theorem format_decimal_round_trip:
  "parse_float (format_decimal (Fin q)) = in_range (fround (of_int (rne (q * 10 ^ 8)) / 10 ^ 8))"
proof -
  have zero: "parse_float ''0'' = in_range (fround 0)" by code_simp
  have minus: "parse_float ''-0'' = parse_float ''0''" by code_simp
  define n where "n = \<bar>rne (q * 10 ^ 8)\<bar>"
  have ds: "list_all is_digit (show_digits (n div 10 ^ 8))" "show_digits (n div 10 ^ 8) \<noteq> []"
    using show_digits_ok [of "n div 10 ^ 8"] by (simp_all add: n_def pos_imp_zdiv_nonneg_iff)
  have fs: "list_all is_digit (fixed_digits 8 (n mod 10 ^ 8))" "fixed_digits 8 (n mod 10 ^ 8) \<noteq> []"
    using fixed_digits_ok [of 8 "n mod 10 ^ 8"] by auto
  have "trim_suffix_dot (trim_right_zeros (format_fixed 8 (Fin q))) =
      decimal_text (q < 0) (show_digits (n div 10 ^ 8)) (trim_right_zeros (fixed_digits 8 (n mod 10 ^ 8)))"
    unfolding n_def by (subst format_fixed_text, simp, rule trim_decimal_text [OF fs(2,1) [unfolded n_def]])
  then have "parse_float (trim_suffix_dot (trim_right_zeros (format_fixed 8 (Fin q)))) = parse_float (format_fixed 8 (Fin q))"
    using parse_trimmed_text [OF ds fs(1)] format_fixed_text [of 8 q] by (simp add: n_def)
  then have main: "parse_float (trim_suffix_dot (trim_right_zeros (format_fixed 8 (Fin q)))) =
      in_range (fround (of_int (rne (q * 10 ^ 8)) / 10 ^ 8))"
    using parse_format_fixed [of 8 q] by simp
  show ?thesis
  proof (cases "\<bar>Fin q\<bar> < lit (1 / 1000000000)")
    case True
    then show ?thesis using zero small_rounds_to_zero [OF True] by (simp add: format_decimal_def)
  next
    case False
    then show ?thesis using main minus by (auto simp: format_decimal_def Let_def)
  qed
qed

subsection \<open>Closing\<close>

lemma apply_order_close:
  assumes "lookup (positions p) c = Some st" "ps_qty st = Fin q" "q \<noteq> 0" "\<not> price \<le> 0"
  shows "apply_order c price \<bar>ps_qty st\<bar> (ps_qty st < 0) True p =
    (Inr (realized_pnl price (- ps_qty st) st, \<bar>ps_qty st\<bar>), p\<lparr>positions := del c (positions p)\<rparr>)"
proof -
  have "0 < dust" by code_simp
  moreover have "\<not> Fin 0 < fround (- (q * q))"
    using fround_nonpos [of "- (q * q)"] f64_le_not_less by (simp add: zero_f64_def)
  ultimately show ?thesis using assms
    by (auto simp: apply_order_def Let_def trade_position_def f64_ops(5,6) abs_f64_def zero_f64_def
        times_f64_def abs_if)
qed

text \<open>Closing an open position, when it is not refused, removes it whole and touches no
  other position.\<close>

theorem close_position_closes:
  assumes "lookup (positions p) (canonical coin) = Some st" "finite_val (ps_qty st)" "\<not> feq (ps_qty st) 0"
    and "close_position it coin p = (Inr r, p')"
  shows "lookup (positions p') c = (if c = canonical coin then None else lookup (positions p) c)"
proof -
  obtain q where q: "ps_qty st = Fin q" "q \<noteq> 0" using assms(2,3) by (auto elim!: finite_valE simp: zero_f64_def)
  obtain price where
    "settle_order it (canonical coin) price \<bar>ps_qty st\<bar> (ps_qty st < 0) True default_taker_fee_rate p = (Inr r, p')"
    using assms by (auto simp: close_position_def Let_def)
  then show ?thesis
  proof (cases rule: settle_order_cases)
    case (accepted v x f p1)
    from accepted(1) obtain v' x' p2 where
      ap: "apply_order (canonical coin) price \<bar>ps_qty st\<bar> (ps_qty st < 0) True p = (Inr (v', x'), p2)"
      and "positions p1 = positions p2"
      by (cases rule: execute_order_cases) auto
    moreover have "\<not> price \<le> 0" using ap by (auto simp: apply_order_def)
    then have "p2 = p\<lparr>positions := del (canonical coin) (positions p)\<rparr>"
      using ap apply_order_close [OF assms(1) q] by (metis prod.inject)
    ultimately have "positions p1 = del (canonical coin) (positions p)" by simp
    then show ?thesis using accepted(3) by simp
  qed simp
qed

subsection \<open>Asset indices\<close>

lemma sim_inv_index:
  "sim_inv p \<Longrightarrow> (c, i) \<in> set (asset_index p) \<Longrightarrow> lookup (asset_symbol p) i = Some c"
  by (auto simp: sim_inv_def list_all_iff)

lemma asset_coin_unique:
  assumes "sim_inv p" "is_order (it_assets it)" "lookup (asset_index p) c = Some i"
  shows "asset_coin it i p = c"
proof -
  have ent: "c' = c" if "(c', i) \<in> set (asset_index p)" for c'
    using sim_inv_index [OF assms(1) that] sim_inv_index [OF assms(1) map_of_SomeD [OF assms(3)]] by simp
  have "(c, i) \<in> set (it_assets it (asset_index p))"
    using assms by (simp add: is_order_set map_of_SomeD)
  then obtain e where e: "find (\<lambda>(s, j). j = i) (it_assets it (asset_index p)) = Some e"
    by (cases "find (\<lambda>(s, j). j = i) (it_assets it (asset_index p))") (auto simp: find_None_iff)
  then have "snd e = i" "e \<in> set (it_assets it (asset_index p))"
    using find_SomeD [OF e] by (auto split: prod.splits)
  then show ?thesis using e ent [of "fst e"] assms(2) by (cases e) (auto simp: asset_coin_def is_order_set)
qed

lemma get_asset_index_lookup:
  "get_asset_index coin p = (r, p') \<Longrightarrow> \<exists>i. r = Inr i \<and> lookup (asset_index p') (canonical coin) = Some i \<and>
     (\<forall>c j. lookup (asset_index p) c = Some j \<longrightarrow> lookup (asset_index p') c = Some j)"
  by (auto simp: get_asset_index_def Let_def split: option.splits)

text \<open>Two coins have the same asset index exactly when they are the same symbol after
  trimming and upper-casing.\<close>

theorem asset_index_unambiguous:
  assumes "sim_inv p" "get_asset_index a p = (Inr i, p1)" "get_asset_index b p1 = (Inr j, p2)"
  shows "i = j \<longleftrightarrow> canonical a = canonical b"
proof -
  have inv: "sim_inv p2" using assms by (blast intro: get_asset_index_inv)
  have "lookup (asset_index p2) (canonical a) = Some i" "lookup (asset_index p2) (canonical b) = Some j"
    using get_asset_index_lookup [OF assms(2)] get_asset_index_lookup [OF assms(3)] by auto
  then show ?thesis using sim_inv_index [OF inv map_of_SomeD] by (metis option.inject)
qed

text \<open>An order sent with the index a coin was given touches no other coin's position,
  in whatever order the provider meets its symbols.\<close>

theorem order_trades_its_coin:
  assumes "sim_inv p" "is_order (it_assets it)" "get_asset_index coin p = (Inr i, p1)"
    and "o_asset ord = i" "place_order it ord p1 = (r, p2)" "c \<noteq> canonical coin"
  shows "lookup (positions p2) c = lookup (positions p) c"
proof -
  have inv: "sim_inv p1" using get_asset_index_inv [OF assms(3,1)] .
  have "asset_coin it i p1 = canonical coin"
    using asset_coin_unique [OF inv assms(2)] get_asset_index_lookup [OF assms(3)] by simp
  moreover have "positions p1 = positions p" using get_asset_index_account [OF assms(3)] by simp
  ultimately show ?thesis using assms(4-6)
    by (auto elim!: place_order_cases settle_order_cases execute_order_cases
        simp: same_account_def dest!: apply_order_frame)
qed

subsection \<open>Money\<close>

text \<open>C1. A filled order moves exactly its realised profit less its fee into cash, and leaves
  the margin of all positions covered by the equity, at the marks it was executed at.\<close>

theorem filled_order_accounting:
  assumes "execute_order it coin price sz is_buy reduce_only fee p = (Inr (realized, filled, paid), p')"
    and "\<not> feq filled 0"
  shows "paid = \<bar>filled * price * fee\<bar> \<and> cash p' = cash p + (realized - paid) \<and>
    (\<forall>ps u n m. build_account_snapshot it p' = (ps, u, n, m) \<longrightarrow> \<not> lit (1 / 1000000000) < m - (cash p' + u))"
  using assms(1)
proof (cases rule: execute_order_cases)
  case (filled p1 v x u n m ps)
  then show ?thesis using apply_order_frame [OF filled(3)] by (auto, metis sim.select_convs(9) sim.surjective sim.update_convs(7))
qed (use assms(2) in auto)

subsection \<open>The provider's contract\<close>

lemma same_accountD: "same_account p p' \<Longrightarrow> cash p' = cash p \<and> lookup (positions p') = lookup (positions p)"
  unfolding same_account_def by (metis sim.select_convs(9) sim.surjective sim.update_convs(7))

lemma refused_place:
  "place_order it ord p = (Inl e, p') \<Longrightarrow> cash p' = cash p \<and> lookup (positions p') = lookup (positions p)"
  by (rule same_accountD, erule place_order_cases) (auto elim: settle_order_cases)

lemma refused_close:
  "close_position it coin p = (Inl e, p') \<Longrightarrow> cash p' = cash p \<and> lookup (positions p') = lookup (positions p)"
  by (rule same_accountD [OF refused_close_keeps_account])

lemma refused_market_keeps_account:
  "ioc_market it coin is_buy qty slip ro p = (Inl e, p') \<Longrightarrow>
   cash p' = cash p \<and> lookup (positions p') = lookup (positions p)"
  by (auto simp: ioc_market_def Let_def split: if_splits prod.splits sum.splits
      dest!: refused_place get_asset_index_account)

lemmas sim_reads = get_positions_def get_account_state_def set_mark_price_def update_leverage_def
  format_price_def format_size_def

interpretation sim: trading_account "sim_provider it" "\<lambda>p. (cash p, lookup (positions p))" sim_inv
  by unfold_locales
    (auto simp: sim_provider_def sim_reads Let_def split: prod.splits if_splits
      dest: refused_place refused_close refused_market_keeps_account get_asset_index_account
        get_asset_index_inv place_order_inv close_position_inv ioc_market_inv set_mark_price_inv update_leverage_inv)

subsection \<open>Examples\<close>

definition list_iter :: sim_iter where
  "list_iter = \<lparr>it_positions = (\<lambda>m. m), it_assets = (\<lambda>m. m)\<rparr>"

definition limit_order :: "int \<Rightarrow> bool \<Rightarrow> string \<Rightarrow> string \<Rightarrow> bool \<Rightarrow> order" where
  "limit_order asset is_buy px sz reduce_only =
    \<lparr>o_asset = asset, o_is_buy = is_buy, o_limit_px = px, o_sz = sz, o_reduce_only = reduce_only,
     o_type = \<lparr>ot_limit = Some \<lparr>lim_tif = ''Ioc''\<rparr>, ot_trigger = None\<rparr>,
     o_cloid = '''', o_trigger_px = '''', o_trigger_rel = '''', o_grouping = '''', o_builder = None\<rparr>"

definition btc_sim :: sim where
  "btc_sim = \<lparr>next_asset_id = 2, next_oid = 1, asset_index = [(''BTC'', 1)], asset_symbol = [(1, ''BTC'')],
     sim_leverage = [], mark_px = [(''BTC'', lit 100)],
     positions = [(''BTC'', \<lparr>ps_coin = ''BTC'', ps_qty = lit 2, ps_entry = lit 100\<rparr>)],
     initial_equity = lit 100000, cash = lit 100000\<rparr>"

lemma btc_sim_inv: "sim_inv btc_sim" "finite_book btc_sim"
  by code_simp+

lemma list_iter_order [simp]: "is_order (it_assets list_iter)"
  by (simp add: list_iter_def)

theorem refused_order_keeps_account_witness:
  "fst (place_order list_iter (limit_order 1 True ''100000'' ''20'' False) btc_sim) =
     Inl (Errorf ''sim: insufficient margin'' []) \<and>
   same_account btc_sim (snd (place_order list_iter (limit_order 1 True ''100000'' ''20'' False) btc_sim))"
proof -
  have "fst (place_order list_iter (limit_order 1 True ''100000'' ''20'' False) btc_sim) =
     Inl (Errorf ''sim: insufficient margin'' [])" by code_simp
  then show ?thesis by (metis refused_order_keeps_account prod.collapse)
qed

theorem reduce_only_shrinks_witness:
  "shrunk (lookup (positions btc_sim) ''BTC'')
     (lookup (positions (snd (place_order list_iter (limit_order 1 False ''100'' ''5'' True) btc_sim))) ''BTC'')"
proof -
  have sz: "parse_float (trim_space (o_sz (limit_order 1 False ''100'' ''5'' True))) = (lit 5, True)"
    "dust \<le> lit 5" by code_simp+
  show ?thesis
    by (rule reduce_only_shrinks [OF btc_sim_inv _ sz surjective_pairing]) (simp add: limit_order_def)
qed

theorem close_position_closes_witness:
  "is_ok (fst (close_position list_iter '' btc'' btc_sim)) \<and>
   lookup (positions (snd (close_position list_iter '' btc'' btc_sim))) ''BTC'' = None"
proof -
  have ok: "is_ok (fst (close_position list_iter '' btc'' btc_sim))" by code_simp
  have c: "canonical '' btc'' = ''BTC''" by code_simp
  have "lookup (positions btc_sim) ''BTC'' = Some \<lparr>ps_coin = ''BTC'', ps_qty = lit 2, ps_entry = lit 100\<rparr>"
    "finite_val (lit 2)" "\<not> feq (lit 2) 0" by code_simp+
  then show ?thesis using ok c
    close_position_closes [of btc_sim "'' btc''" _ list_iter _ _ "''BTC''"]
    by (metis is_ok_iff position_state.select_convs(2) prod.collapse)
qed

theorem asset_index_unambiguous_witness:
  "fst (get_asset_index ''btc'' btc_sim) = Inr 1 \<and>
   fst (get_asset_index ''eth'' (snd (get_asset_index ''btc'' btc_sim))) = Inr 2 \<and>
   canonical ''btc'' \<noteq> canonical ''eth''"
proof -
  have "get_asset_index ''btc'' btc_sim = (Inr 1, btc_sim)" "fst (get_asset_index ''eth'' btc_sim) = Inr 2"
    by code_simp+
  then show ?thesis using asset_index_unambiguous [OF btc_sim_inv(1), of "''btc''" 1 btc_sim "''eth''" 2]
    by (simp add: prod_eq_iff)
qed

theorem order_trades_its_coin_witness:
  "lookup (positions (snd (place_order list_iter (limit_order 2 True ''10'' ''1'' False)
       (snd (get_asset_index ''eth'' btc_sim))))) ''BTC'' = lookup (positions btc_sim) ''BTC''"
proof -
  have "fst (get_asset_index ''eth'' btc_sim) = Inr 2" "''BTC'' \<noteq> canonical ''eth''" by code_simp+
  then show ?thesis
    using order_trades_its_coin [OF btc_sim_inv(1) list_iter_order, of "''eth''" 2 _ "limit_order 2 True ''10'' ''1'' False"]
    by (simp add: limit_order_def prod_eq_iff)
qed

theorem filled_order_accounting_witness:
  "cash (snd (execute_order list_iter ''BTC'' (lit 110) (lit 1) False True 0 btc_sim)) = cash btc_sim + (lit 10 - 0)"
proof -
  have "fst (execute_order list_iter ''BTC'' (lit 110) (lit 1) False True 0 btc_sim) = Inr (lit 10, lit 1, 0)"
    "\<not> feq (lit 1) 0" by code_simp+
  then show ?thesis
    using filled_order_accounting [of list_iter "''BTC''" "lit 110" "lit 1" False True 0 btc_sim "lit 10" "lit 1" 0]
    by (metis prod.collapse)
qed

text \<open>\<open>ParseFloat\<close> reads \<open>NaN\<close>, no comparison with it holds, and so an order of size \<open>NaN\<close>
  passes every check and leaves a position of size \<open>NaN\<close> and no usable cash.\<close>

theorem nan_size_accepted:
  "is_ok (fst (place_order list_iter (limit_order 1 True ''100'' ''NaN'' False) btc_sim)) \<and>
   cash (snd (place_order list_iter (limit_order 1 True ''100'' ''NaN'' False) btc_sim)) = NaN"
  by code_simp

end
