(* ===== verification/Backtest.thy ===== *)
theory Backtest
  imports Journal Sim
begin

text \<open>
  The backtest (\<open>pkg/backtest\<close>): the book of a simulated account, the engine that drives a feeder, a strategy and an exchange until the feeder
  ends, its figures, the feeders of a price series, the threshold strategy, and the replay of journalled cycles.

  A feeder and a strategy may share state (the replay's do): \<open>'f\<close> is that state, \<open>'w\<close> the world of the exchange. The loop runs on fuel, and
  that enough fuel exists is shown for every feeder that counts down.
\<close>

subsection \<open>The book\<close>

record portfolio =
  pt_cash :: f64
  pt_pos :: f64
  pt_avg :: f64
  pt_realized :: f64
  pt_unrealized :: f64
  pt_fee_bps :: f64
  pt_slippage_bps :: f64

definition portfolio_fee :: "portfolio \<Rightarrow> f64 \<Rightarrow> f64 \<Rightarrow> f64" where
  "portfolio_fee p px qty = (if feq (pt_fee_bps p) 0 then 0 else px * qty * (pt_fee_bps p / lit 10000))"

text \<open>An order in the direction of the position, or from flat.\<close>

definition increase :: "portfolio \<Rightarrow> f64 \<Rightarrow> f64 \<Rightarrow> f64 \<Rightarrow> f64 \<Rightarrow> portfolio" where
  "increase p side px qty fee =
    p\<lparr>pt_avg := (if feq (pt_pos p) 0 then px
         else let total = \<bar>pt_pos p\<bar> + qty in if 0 < total then (pt_avg p * \<bar>pt_pos p\<bar> + px * qty) / total else pt_avg p),
      pt_pos := pt_pos p + side * qty, pt_cash := pt_cash p - fee\<rparr>"

definition reduced :: "portfolio \<Rightarrow> f64 \<Rightarrow> portfolio" where
  "reduced p q = (if feq q \<bar>pt_pos p\<bar> then p\<lparr>pt_pos := 0, pt_avg := 0\<rparr>
     else p\<lparr>pt_pos := (if 0 < pt_pos p then pt_pos p - q else pt_pos p + q)\<rparr>)"

definition decrease :: "portfolio \<Rightarrow> f64 \<Rightarrow> f64 \<Rightarrow> f64 \<Rightarrow> f64 \<Rightarrow> f64 \<times> portfolio" where
  "decrease p side px qty fee =
    (let q = fmin \<bar>pt_pos p\<bar> qty;
         realized = (if 0 < pt_pos p then (px - pt_avg p) * q else (pt_avg p - px) * q);
         p1 = p\<lparr>pt_cash := pt_cash p + realized - fee, pt_realized := pt_realized p + realized\<rparr>;
         rest = qty - q; p2 = reduced p1 q
     in (realized, if feq rest 0 then p2
         else p2\<lparr>pt_pos := (if 0 < side then pt_pos p2 + rest else pt_pos p2 - rest), pt_avg := px\<rparr>))"

text \<open>The realized result, the fee, and whether a trade was completed.\<close>

definition portfolio_apply :: "bool \<Rightarrow> f64 \<Rightarrow> f64 \<Rightarrow> portfolio \<Rightarrow> (f64 \<times> f64 \<times> bool) \<times> portfolio" where
  "portfolio_apply is_buy px qty p =
    (if qty \<le> 0 \<or> px \<le> 0 then ((0, 0, False), p)
     else let side = (if is_buy then lit 1 else lit (- 1)); fee = portfolio_fee p px qty;
            sign = (if 0 < pt_pos p then lit 1 else if pt_pos p < 0 then lit (- 1) else 0)
       in if feq sign 0 \<or> feq sign side then ((0, fee, False), increase p side px qty fee)
          else (case decrease p side px qty fee of (realized, p') \<Rightarrow> ((realized, fee, True), p')))"

definition portfolio_equity :: "f64 \<Rightarrow> portfolio \<Rightarrow> f64 \<times> portfolio" where
  "portfolio_equity px p =
    (let u = (if 0 < pt_pos p then (px - pt_avg p) * pt_pos p else if pt_pos p < 0 then (pt_avg p - px) * \<bar>pt_pos p\<bar> else 0)
     in (pt_cash p + u, p\<lparr>pt_unrealized := u\<rparr>))"

subsection \<open>Figures\<close>

definition apply_slippage :: "f64 \<Rightarrow> f64 \<Rightarrow> bool \<Rightarrow> f64" where
  "apply_slippage px bps is_buy = (if feq bps 0 then px else let m = lit 1 + bps / lit 10000 in if is_buy then px * m else px / m)"

definition drawdown_step :: "f64 \<times> f64 \<Rightarrow> f64 \<Rightarrow> f64 \<times> f64" where
  "drawdown_step s v = (case s of (peak, mdd) \<Rightarrow>
     let peak' = (if peak < v then v else peak); dd = (peak' - v) / peak' in (peak', if mdd < dd then dd else mdd))"

definition max_drawdown_pct :: "f64 list \<Rightarrow> f64" where
  "max_drawdown_pct series = snd (foldl drawdown_step (hd series, 0) series) * lit 100"

fun returns :: "f64 list \<Rightarrow> f64 list" where
  "returns (a # b # xs) = (if feq a 0 then returns (b # xs) else (b / a - lit 1) # returns (b # xs))"
| "returns xs = []"

definition fsum :: "f64 list \<Rightarrow> f64" where
  "fsum xs = foldl (+) 0 xs"

definition sharpe :: "f64 list \<Rightarrow> f64" where
  "sharpe equity =
    (let rets = returns equity; n = f64_of_int (int (length rets)) in
     if rets = [] then 0
     else let m = fsum rets / n; sd = fsqrt (fsum (map (\<lambda>r. (r - m) * (r - m)) rets) / n) in
       if feq sd 0 then 0 else m / sd * fsqrt n)"

subsection \<open>The engine\<close>

record trade_line =
  tl_step :: int
  tl_side :: string
  tl_price :: f64
  tl_qty :: f64
  tl_fee :: f64
  tl_realized :: f64
  tl_position :: f64

record backtest_result =
  br_steps :: int
  br_orders_sent :: int
  br_trades :: int
  br_wins :: int
  br_win_rate :: f64
  br_realized :: f64
  br_unrealized :: f64
  br_total :: f64
  br_max_dd_pct :: f64
  br_sharpe :: f64
  br_curve :: "f64 list"
  br_details :: "trade_line list"

record ('f, 'w) engine =
  bt_feeder :: "(string \<Rightarrow> 'f \<Rightarrow> (goerror + snapshot option) \<times> 'f) option"
  bt_strategy :: "(snapshot \<Rightarrow> 'f \<times> 'w \<Rightarrow> (goerror + order list) \<times> 'f \<times> 'w) option"
  bt_exchange :: "'w provider option"
  bt_symbol :: string
  bt_initial_equity :: f64
  bt_fee_bps :: f64
  bt_slippage_bps :: f64
  bt_output_path :: string
  bt_write :: "string \<Rightarrow> backtest_result \<Rightarrow> goerror option"

text \<open>The state of a run: the book, the result so far, and the world.\<close>

type_synonym 'w run_state = "portfolio \<times> backtest_result \<times> 'w"

definition side_str :: "bool \<Rightarrow> string" where
  "side_str buy = (if buy then ''buy'' else ''sell'')"

definition book_order :: "f64 \<Rightarrow> f64 \<Rightarrow> order \<Rightarrow> portfolio \<times> backtest_result \<Rightarrow> (portfolio \<times> backtest_result) \<times> trade_line" where
  "book_order slip px ord st = (case st of (p, r) \<Rightarrow>
    (let sz = fst (parse_float (o_sz ord)); ex = apply_slippage px slip (o_is_buy ord) in
     case portfolio_apply (o_is_buy ord) ex sz p of ((realized, fee, done), p') \<Rightarrow>
       ((p', r\<lparr>br_trades := br_trades r + (if done then 1 else 0), br_wins := br_wins r + (if done \<and> 0 < realized then 1 else 0)\<rparr>),
        \<lparr>tl_step = br_steps r, tl_side = side_str (o_is_buy ord), tl_price = ex, tl_qty = sz, tl_fee = fee, tl_realized = realized, tl_position = pt_pos p'\<rparr>)))"

fun run_orders :: "'w provider \<Rightarrow> f64 \<Rightarrow> f64 \<Rightarrow> order list \<Rightarrow> 'w run_state \<Rightarrow> goerror option \<times> 'w run_state" where
  "run_orders X slip px [] st = (None, st)"
| "run_orders X slip px (ord # ords) (p, r, w) = (case book_order slip px ord (p, r) of ((p1, r1), line) \<Rightarrow>
     (case pv_place_order X ord w of
        (Inl e, w1) \<Rightarrow> (Some e, (p1, r1, w1))
      | (Inr _, w1) \<Rightarrow> run_orders X slip px ords
          (p1, r1\<lparr>br_orders_sent := br_orders_sent r1 + 1, br_details := br_details r1 @ [line]\<rparr>, w1)))"

fun run_loop ::
  "(string \<Rightarrow> 'f \<Rightarrow> (goerror + snapshot option) \<times> 'f) \<Rightarrow> (snapshot \<Rightarrow> 'f \<times> 'w \<Rightarrow> (goerror + order list) \<times> 'f \<times> 'w) \<Rightarrow> 'w provider \<Rightarrow>
   string \<Rightarrow> f64 \<Rightarrow> nat \<Rightarrow> 'f \<Rightarrow> 'w run_state \<Rightarrow> ((goerror + portfolio \<times> backtest_result) \<times> 'w) option" where
  "run_loop feed decide X sy slip 0 f st = None"
| "run_loop feed decide X sy slip (Suc n) f (p, r, w) = (case feed sy f of
     (Inl e, f1) \<Rightarrow> Some (Inl e, w)
   | (Inr None, f1) \<Rightarrow> Some (Inr (p, r), w)
   | (Inr (Some snap), f1) \<Rightarrow>
     let r1 = r\<lparr>br_steps := br_steps r + 1\<rparr> in
     (case decide snap (f1, w) of
        (Inl e, f2, w1) \<Rightarrow> Some (Inl e, w1)
      | (Inr ords, f2, w1) \<Rightarrow> (case run_orders X slip (sn_price_last snap) ords (p, r1, w1) of
          (Some e, _, _, w2) \<Rightarrow> Some (Inl e, w2)
        | (None, p2, r2, w2) \<Rightarrow> (case portfolio_equity (sn_price_last snap) p2 of
            (eq, p3) \<Rightarrow> run_loop feed decide X sy slip n f2 (p3, r2\<lparr>br_curve := br_curve r2 @ [eq]\<rparr>, w2)))))"

definition empty_result :: backtest_result where
  "empty_result = \<lparr>br_steps = 0, br_orders_sent = 0, br_trades = 0, br_wins = 0, br_win_rate = 0, br_realized = 0, br_unrealized = 0, br_total = 0,
     br_max_dd_pct = 0, br_sharpe = 0, br_curve = [], br_details = []\<rparr>"

definition start_equity :: "('f, 'w) engine \<Rightarrow> f64" where
  "start_equity E = (if bt_initial_equity E \<le> 0 then lit 100000 else bt_initial_equity E)"

definition start_book :: "('f, 'w) engine \<Rightarrow> portfolio" where
  "start_book E = \<lparr>pt_cash = start_equity E, pt_pos = 0, pt_avg = 0, pt_realized = 0, pt_unrealized = 0, pt_fee_bps = bt_fee_bps E,
     pt_slippage_bps = bt_slippage_bps E\<rparr>"

definition summarize :: "f64 \<Rightarrow> portfolio \<Rightarrow> backtest_result \<Rightarrow> backtest_result" where
  "summarize eq0 p r = r\<lparr>br_realized := pt_realized p, br_unrealized := pt_unrealized p, br_total := pt_realized p + pt_unrealized p,
     br_win_rate := (if 0 < br_trades r then f64_of_int (br_wins r) / f64_of_int (br_trades r) else br_win_rate r),
     br_max_dd_pct := max_drawdown_pct (eq0 # br_curve r), br_sharpe := sharpe (br_curve r)\<rparr>"

text \<open>The report is written if a path is given; marshalling fails on a number that is not finite.\<close>

definition result_numbers :: "backtest_result \<Rightarrow> f64 list" where
  "result_numbers r = [br_win_rate r, br_realized r, br_unrealized r, br_total r, br_max_dd_pct r, br_sharpe r] @ br_curve r @
     concat (map (\<lambda>d. [tl_price d, tl_qty d, tl_fee d, tl_realized d, tl_position d]) (br_details r))"

definition write_report :: "('f, 'w) engine \<Rightarrow> backtest_result \<Rightarrow> goerror option" where
  "write_report E r = (if \<not> list_all json_number (result_numbers r) then Some (Errorf ''json: unsupported value'' []) else bt_write E (bt_output_path E) r)"

definition run_engine :: "nat \<Rightarrow> ('f, 'w) engine \<Rightarrow> 'f \<Rightarrow> 'w \<Rightarrow> ((goerror + backtest_result) \<times> 'w) option" where
  "run_engine fuel E f w = (case (bt_feeder E, bt_strategy E, bt_exchange E) of
     (Some feed, Some decide, Some X) \<Rightarrow>
       if bt_symbol E = '''' then Some (Inl (Errorf ''backtest: engine not fully configured'' []), w)
       else (case run_loop feed decide X (bt_symbol E) (bt_slippage_bps E) fuel f (start_book E, empty_result, w) of
         None \<Rightarrow> None
       | Some (Inl e, w') \<Rightarrow> Some (Inl e, w')
       | Some (Inr (p, r), w') \<Rightarrow>
         let r' = summarize (start_equity E) p r in
         if bt_output_path E \<noteq> '''' then (case write_report E r' of Some e \<Rightarrow> Some (Inl e, w') | None \<Rightarrow> Some (Inr r', w')) else Some (Inr r', w'))
   | _ \<Rightarrow> Some (Inl (Errorf ''backtest: engine not fully configured'' []), w))"

subsection \<open>Feeders\<close>

record price_feeder =
  fd_prices :: "f64 list"
  fd_idx :: nat

text \<open>Both feeders of a series; \<open>rsi\<close> is what their snapshots have of the index.\<close>

definition series_next :: "(string, f64) gomap \<Rightarrow> string \<Rightarrow> price_feeder \<Rightarrow> (goerror + snapshot option) \<times> price_feeder" where
  "series_next rsi symbol f =
    (if length (fd_prices f) \<le> fd_idx f then (Inr None, f)
     else let px = fd_prices f ! fd_idx f; i = fd_idx f + 1;
            prev = (if 2 \<le> i then fd_prices f ! (i - 2) else 0);
            chg = (if 2 \<le> i \<and> \<not> feq prev 0 then (px - prev) / prev else 0)
       in (Inr (Some ((bare_snapshot symbol px chg chg)\<lparr>sn_indicators := \<lparr>ind_ema = [(''EMA2'', px)], ind_macd = 0, ind_rsi = rsi\<rparr>\<rparr>)), f\<lparr>fd_idx := i\<rparr>))"

definition price_next :: "string \<Rightarrow> price_feeder \<Rightarrow> (goerror + snapshot option) \<times> price_feeder" where
  "price_next = series_next [(''RSI2'', lit 50)]"

definition kline_next :: "string \<Rightarrow> price_feeder \<Rightarrow> (goerror + snapshot option) \<times> price_feeder" where
  "kline_next = series_next []"

text \<open>The closes of a table of rows, as \<open>encoding/csv\<close> reads them: a first row whose first column is no number is a header, or has its close in
  the second column.\<close>

definition row_close :: "bool \<Rightarrow> string list \<Rightarrow> f64 list" where
  "row_close is_first rec =
    (case rec of
       [] \<Rightarrow> []
     | c0 # cs \<Rightarrow>
       if is_first \<and> \<not> snd (parse_float c0)
       then (case cs of [] \<Rightarrow> [] | c1 # _ \<Rightarrow> (case parse_float c1 of (v, ok) \<Rightarrow> if ok then [v] else []))
       else (case parse_float (last rec) of (v, ok) \<Rightarrow> if ok then [v] else []))"

definition kline_closes :: "string list list \<Rightarrow> f64 list" where
  "kline_closes rows = (case rows of [] \<Rightarrow> [] | r # rs \<Rightarrow> row_close True r @ concat (map (row_close False) rs))"

definition new_kline_feeder :: "goerror + string list list \<Rightarrow> goerror + price_feeder" where
  "new_kline_feeder rows = (case rows of Inl e \<Rightarrow> Inl e | Inr rs \<Rightarrow> Inr \<lparr>fd_prices = kline_closes rs, fd_idx = 0\<rparr>)"

subsection \<open>The threshold strategy\<close>

record threshold =
  th_asset_id :: int
  th_last_price :: f64
  th_percent :: f64
  th_lot_sz :: string

definition threshold_order :: "threshold \<Rightarrow> bool \<Rightarrow> f64 \<Rightarrow> order" where
  "threshold_order s is_buy px = \<lparr>o_asset = th_asset_id s, o_is_buy = is_buy, o_limit_px = format_shortest px, o_sz = th_lot_sz s, o_reduce_only = False,
     o_type = \<lparr>ot_limit = None, ot_trigger = None\<rparr>, o_cloid = '''', o_trigger_px = '''', o_trigger_rel = '''', o_grouping = '''', o_builder = None\<rparr>"

definition threshold_decide :: "snapshot \<Rightarrow> threshold \<Rightarrow> (goerror + order list) \<times> threshold" where
  "threshold_decide snap s =
    (let px = sn_price_last snap; s' = s\<lparr>th_last_price := px\<rparr> in
     if feq (th_last_price s) 0 then (Inr [], s')
     else let pct = (px - th_last_price s) / th_last_price s * lit 100 in
       if th_percent s \<le> pct then (Inr [threshold_order s' True px], s')
       else if pct \<le> - th_percent s then (Inr [threshold_order s' False px], s') else (Inr [], s'))"

subsection \<open>The replay of a journal\<close>

text \<open>The session is shared by the feeder and the strategy; the strategy keeps the assets it has asked for.\<close>

record replay =
  ry_records :: "cycle list"
  ry_idx :: nat
  ry_current :: "cycle option"
  ry_assets :: "(string, int) gomap"

definition advance :: "replay \<Rightarrow> cycle option \<times> replay" where
  "advance s = (if length (ry_records s) \<le> ry_idx s then (None, s\<lparr>ry_current := None\<rparr>)
     else let r = ry_records s ! ry_idx s in (Some r, s\<lparr>ry_idx := ry_idx s + 1, ry_current := Some r\<rparr>))"

definition to_float :: "json option \<Rightarrow> f64" where
  "to_float v = (case v of
     Some (JNum l) \<Rightarrow> number_value l
   | Some (JStr s) \<Rightarrow> (case parse_float (trim_space s) of (f, ok) \<Rightarrow> if ok then f else 0)
   | _ \<Rightarrow> 0)"

definition snapshot_from_digest :: "cycle \<Rightarrow> string \<Rightarrow> snapshot" where
  "snapshot_from_digest r symbol = (let key = to_upper symbol in
     case member (jc_market_digest r) key of
       Some (JObj m) \<Rightarrow> bare_snapshot key (if 0 < to_float (member m ''price'') then to_float (member m ''price'') else 0)
         (to_float (member m ''chg1h'')) (to_float (member m ''chg4h''))
     | _ \<Rightarrow> bare_snapshot key 0 0 0)"

definition journal_next :: "string \<Rightarrow> string \<Rightarrow> replay \<Rightarrow> (goerror + snapshot option) \<times> replay" where
  "journal_next own symbol s =
    (if to_upper symbol \<noteq> own then (Inl (Errorf ''journal feeder: symbol mismatch %s != %s'' [symbol, own]), s)
     else case advance s of (None, s1) \<Rightarrow> (Inr None, s1) | (Some r, s1) \<Rightarrow> (Inr (Some (snapshot_from_digest r own)), s1))"

definition ensure_asset :: "'w provider \<Rightarrow> string \<Rightarrow> replay \<times> 'w \<Rightarrow> (goerror + int) \<times> replay \<times> 'w" where
  "ensure_asset X symbol st = (case st of (s, w) \<Rightarrow> (let key = to_upper symbol in
     case lookup (ry_assets s) key of
       Some i \<Rightarrow> (Inr i, s, w)
     | None \<Rightarrow> (case pv_get_asset_index X key w of
         (Inl e, w1) \<Rightarrow> (Inl e, s, w1) | (Inr i, w1) \<Rightarrow> (Inr i, s\<lparr>ry_assets := put key i (ry_assets s)\<rparr>, w1))))"

definition action_sides :: "(string \<times> bool \<times> bool) list" where
  "action_sides = [(''open_long'', True, False), (''open_short'', False, False), (''close_long'', False, True), (''close_short'', True, True)]"

definition replay_order :: "int \<Rightarrow> bool \<Rightarrow> f64 \<Rightarrow> f64 \<Rightarrow> bool \<Rightarrow> order" where
  "replay_order asset is_buy price qty reduce_only = \<lparr>o_asset = asset, o_is_buy = is_buy, o_limit_px = format_fixed 8 price, o_sz = format_fixed 8 qty,
     o_reduce_only = reduce_only, o_type = \<lparr>ot_limit = Some \<lparr>lim_tif = ''Ioc''\<rparr>, ot_trigger = None\<rparr>, o_cloid = '''', o_trigger_px = '''',
     o_trigger_rel = '''', o_grouping = '''', o_builder = None\<rparr>"

definition decision_to_order :: "'w provider \<Rightarrow> decision \<Rightarrow> f64 \<Rightarrow> replay \<times> 'w \<Rightarrow> order option \<times> replay \<times> 'w" where
  "decision_to_order X d fallback st =
    (let price = (if 0 < fallback then fallback else dec_entry_price d); notional = dec_position_size d; qty = notional / price in
     if price \<le> 0 \<or> notional \<le> 0 \<or> qty \<le> 0 then (None, st)
     else case ensure_asset X (dec_symbol d) st of
       (Inl e, st1) \<Rightarrow> (None, st1)
     | (Inr asset, st1) \<Rightarrow> (case lookup action_sides (to_lower (trim_space (dec_action d))) of
         None \<Rightarrow> (None, st1) | Some (is_buy, reduce_only) \<Rightarrow> (Some (replay_order asset is_buy price qty reduce_only), st1)))"

fun decisions_to_orders :: "'w provider \<Rightarrow> string \<Rightarrow> f64 \<Rightarrow> decision list \<Rightarrow> replay \<times> 'w \<Rightarrow> order list \<times> replay \<times> 'w" where
  "decisions_to_orders X own price [] st = ([], st)"
| "decisions_to_orders X own price (d # ds) st =
    (if \<not> equal_fold (dec_symbol d) own then decisions_to_orders X own price ds st
     else case decision_to_order X d price st of (x, st1) \<Rightarrow> (case decisions_to_orders X own price ds st1 of
       (ords, st2) \<Rightarrow> (case x of None \<Rightarrow> ords | Some ord \<Rightarrow> ord # ords, st2)))"

definition journal_decide :: "(string \<Rightarrow> goerror + json) \<Rightarrow> 'w provider \<Rightarrow> string \<Rightarrow> snapshot \<Rightarrow> replay \<times> 'w \<Rightarrow> (goerror + order list) \<times> replay \<times> 'w" where
  "journal_decide rd X own snap st = (case ry_current (fst st) of
     None \<Rightarrow> (Inr [], st)
   | Some r \<Rightarrow> (case parse_decisions_json rd (jc_decisions_json r) of
       Inl e \<Rightarrow> (Inl e, st)
     | Inr [] \<Rightarrow> (Inr [], st)
     | Inr ds \<Rightarrow> let price = (if sn_price_last snap \<le> 0 then 0 else sn_price_last snap) in
         (case decisions_to_orders X own price ds st of (ords, st1) \<Rightarrow> (Inr ords, st1))))"

definition replay_engine :: "(string \<Rightarrow> goerror + json) \<Rightarrow> sim_iter \<Rightarrow> string \<Rightarrow> f64 \<Rightarrow> (replay, sim) engine" where
  "replay_engine rd it symbol equity = \<lparr>bt_feeder = Some (journal_next (to_upper symbol)), bt_strategy = Some (journal_decide rd (sim_provider it) (to_upper symbol)),
     bt_exchange = Some (sim_provider it), bt_symbol = symbol, bt_initial_equity = equity, bt_fee_bps = 0, bt_slippage_bps = 0, bt_output_path = '''',
     bt_write = (\<lambda>_ _. None)\<rparr>"

definition run_journal_replay ::
  "nat \<Rightarrow> (string \<Rightarrow> goerror + json) \<Rightarrow> sim_iter \<Rightarrow> cycle list \<Rightarrow> string \<Rightarrow> f64 \<Rightarrow> (goerror + backtest_result) option" where
  "run_journal_replay fuel rd it records symbol equity =
    (if records = [] then Some (Inl (Errorf ''no journal cycles provided'' []))
     else let s = to_upper (trim_space symbol) in
       if s = '''' then Some (Inl (Errorf ''symbol is required for replay'' []))
       else map_option fst (run_engine fuel (replay_engine rd it s equity) \<lparr>ry_records = records, ry_idx = 0, ry_current = None, ry_assets = []\<rparr> sim_new))"

subsection \<open>The run ends\<close>

text \<open>A feeder and a strategy whose shared state counts down: every snapshot takes one off, and the strategy adds none.\<close>

locale counting_session =
  fixes feed :: "string \<Rightarrow> 'f \<Rightarrow> (goerror + snapshot option) \<times> 'f"
    and decide :: "snapshot \<Rightarrow> 'f \<times> 'w \<Rightarrow> (goerror + order list) \<times> 'f \<times> 'w"
    and left :: "'f \<Rightarrow> nat"
  assumes feed_counts: "feed s f = (Inr (Some snap), f') \<Longrightarrow> left f' < left f"
    and decide_keeps: "decide snap (f, w) = (x, f', w') \<Longrightarrow> left f' \<le> left f"
begin

lemma run_ends: "left f < n \<Longrightarrow> run_loop feed decide X s slip n f st \<noteq> None"
proof (induction n arbitrary: f st)
  case (Suc n)
  obtain p r w where st: "st = (p, r, w)" by (metis surj_pair)
  obtain y f1 where fd: "feed s f = (y, f1)" by fastforce
  show ?case
  proof (cases y)
    case (Inr sn)
    show ?thesis
    proof (cases sn)
      case (Some snap)
      obtain x f2 w1 where d: "decide snap (f1, w) = (x, f2, w1)" by (metis surj_pair)
      have "left f2 < n" using Suc.prems feed_counts [of s f snap f1] decide_keeps [OF d] fd Inr Some by simp
      then show ?thesis using Suc.IH by (auto simp: st fd Inr Some d split: sum.splits option.splits prod.splits)
    qed (simp add: st fd Inr)
  qed (simp add: st fd)
qed simp

end

lemma run_loop_more_fuel: "run_loop feed decide X s slip n f st = Some x \<Longrightarrow> n \<le> m \<Longrightarrow> run_loop feed decide X s slip m f st = Some x"
proof (induction n arbitrary: f st m)
  case (Suc n)
  obtain p r w where st: "st = (p, r, w)" by (metis surj_pair)
  obtain k where m: "m = Suc k" "n \<le> k" using Suc.prems(2) by (cases m) auto
  show ?case using Suc.prems(1) Suc.IH [OF _ m(2)] unfolding m(1) st by (auto split: sum.splits option.splits prod.splits)
qed simp

text \<open>The feeders of a series count the prices left; the replay counts the cycles left.\<close>

definition prices_left :: "price_feeder \<times> threshold \<Rightarrow> nat" where
  "prices_left s = length (fd_prices (fst s)) - fd_idx (fst s)"

definition cycles_left :: "replay \<Rightarrow> nat" where
  "cycles_left s = length (ry_records s) - ry_idx s"

text \<open>A feeder and the threshold strategy side by side.\<close>

definition paired_feed :: "(string \<Rightarrow> price_feeder \<Rightarrow> (goerror + snapshot option) \<times> price_feeder) \<Rightarrow> string \<Rightarrow> price_feeder \<times> threshold \<Rightarrow>
   (goerror + snapshot option) \<times> price_feeder \<times> threshold" where
  "paired_feed feed s st = (case feed s (fst st) of (x, f) \<Rightarrow> (x, f, snd st))"

definition paired_decide :: "snapshot \<Rightarrow> (price_feeder \<times> threshold) \<times> 'w \<Rightarrow> (goerror + order list) \<times> (price_feeder \<times> threshold) \<times> 'w" where
  "paired_decide snap st = (case st of ((f, s), w) \<Rightarrow> (case threshold_decide snap s of (x, s') \<Rightarrow> (x, (f, s'), w)))"

lemma series_counts: "series_next rsi s f = (Inr (Some snap), f') \<Longrightarrow> length (fd_prices f') - fd_idx f' < length (fd_prices f) - fd_idx f"
  by (auto simp: series_next_def Let_def split: if_splits)

interpretation prices: counting_session "paired_feed price_next" "paired_decide :: _ \<Rightarrow> _ \<times> 'w \<Rightarrow> _" prices_left
  by unfold_locales
    (auto simp: paired_feed_def paired_decide_def prices_left_def price_next_def dest: series_counts split: prod.splits)

interpretation klines: counting_session "paired_feed kline_next" "paired_decide :: _ \<Rightarrow> _ \<times> 'w \<Rightarrow> _" prices_left
  by unfold_locales
    (auto simp: paired_feed_def paired_decide_def prices_left_def kline_next_def dest: series_counts split: prod.splits)

lemma ensure_asset_left: "ensure_asset X s (f, w) = (x, f', w') \<Longrightarrow> cycles_left f' = cycles_left f"
  by (auto simp: ensure_asset_def Let_def cycles_left_def split: option.splits sum.splits prod.splits)

lemma decision_to_order_left: "decision_to_order X d px (f, w) = (x, f', w') \<Longrightarrow> cycles_left f' = cycles_left f"
  by (auto simp: decision_to_order_def Let_def ensure_asset_left split: if_splits option.splits sum.splits prod.splits)

lemma decisions_to_orders_left: "decisions_to_orders X own px ds (f, w) = (x, f', w') \<Longrightarrow> cycles_left f' = cycles_left f"
proof (induction ds arbitrary: f w x)
  case (Cons d ds)
  obtain y f1 w1 where d: "decision_to_order X d px (f, w) = (y, f1, w1)" by (metis surj_pair)
  obtain z f2 w2 where r: "decisions_to_orders X own px ds (f1, w1) = (z, f2, w2)" by (metis surj_pair)
  show ?case using Cons.prems Cons.IH decision_to_order_left [OF d] r by (auto simp: d split: if_splits)
qed simp

interpretation cycles: counting_session "journal_next own" "journal_decide rd (sim_provider it) own" cycles_left
proof unfold_locales
  show "journal_next own s f = (Inr (Some snap), f') \<Longrightarrow> cycles_left f' < cycles_left f" for s f snap f'
    by (auto simp: journal_next_def advance_def cycles_left_def Let_def split: if_splits)
  show "journal_decide rd (sim_provider it) own snap (f, w) = (x, f', w') \<Longrightarrow> cycles_left f' \<le> cycles_left f" for snap f w x f' w'
    by (auto simp: journal_decide_def Let_def decisions_to_orders_left simp del: decisions_to_orders.simps split: option.splits sum.splits list.splits prod.splits)
qed

text \<open>What a replay is, past its guards: a run of the loop, and the summary.\<close>

definition replay_loop :: "(string \<Rightarrow> goerror + json) \<Rightarrow> sim_iter \<Rightarrow> string \<Rightarrow> f64 \<Rightarrow> cycle list \<Rightarrow> nat \<Rightarrow> ((goerror + portfolio \<times> backtest_result) \<times> sim) option" where
  "replay_loop rd it s equity records n = run_loop (journal_next s) (journal_decide rd (sim_provider it) s) (sim_provider it) s 0 n
     \<lparr>ry_records = records, ry_idx = 0, ry_current = None, ry_assets = []\<rparr> (start_book (replay_engine rd it s equity), empty_result, sim_new)"

definition replay_finish :: "f64 \<Rightarrow> (goerror + portfolio \<times> backtest_result) \<times> sim \<Rightarrow> goerror + backtest_result" where
  "replay_finish eq0 x = (case x of (Inl e, w) \<Rightarrow> Inl e | (Inr (p, r), w) \<Rightarrow> Inr (summarize eq0 p r))"

lemma replay_unfold:
  assumes "records \<noteq> []" "to_upper (trim_space symbol) = s" "s \<noteq> ''''"
  shows "run_journal_replay n rd it records symbol equity =
    map_option (replay_finish (start_equity (replay_engine rd it s equity))) (replay_loop rd it s equity records n)"
proof -
  let ?E = "replay_engine rd it s equity"
  have up: "to_upper s = s" using assms(2) by auto
  have E: "bt_feeder ?E = Some (journal_next s)" "bt_strategy ?E = Some (journal_decide rd (sim_provider it) s)" "bt_exchange ?E = Some (sim_provider it)"
    "bt_symbol ?E = s" "bt_slippage_bps ?E = 0" "bt_output_path ?E = ''''"
    by (simp_all add: replay_engine_def up)
  have "map_option fst (run_engine n ?E \<lparr>ry_records = records, ry_idx = 0, ry_current = None, ry_assets = []\<rparr> sim_new) =
      map_option (replay_finish (start_equity ?E)) (replay_loop rd it s equity records n)"
    unfolding run_engine_def E option.case prod.case replay_loop_def [symmetric] Let_def using assms(3)
    by (cases "replay_loop rd it s equity records n") (simp_all add: replay_finish_def split: sum.split prod.split)
  then show ?thesis using assms(1,3) by (simp add: run_journal_replay_def assms(2))
qed

text \<open>C32. A replay ends: with fuel for one step more than there are cycles, whatever the cycles hold, the replay returns a result or an error, and more fuel
  gives the same.\<close>

theorem replay_returns:
  assumes "length records < fuel"
  shows "\<exists>x. \<forall>m \<ge> fuel. run_journal_replay m rd it records symbol equity = Some x"
proof (cases "records = [] \<or> to_upper (trim_space symbol) = ''''")
  case True
  then have "run_journal_replay m rd it records symbol equity = run_journal_replay fuel rd it records symbol equity \<and>
      run_journal_replay fuel rd it records symbol equity \<noteq> None" for m
    by (cases "records = []") (simp_all add: run_journal_replay_def)
  then show ?thesis by (metis not_None_eq)
next
  case False
  let ?s = "to_upper (trim_space symbol)"
  have "replay_loop rd it ?s equity records fuel \<noteq> None"
    unfolding replay_loop_def by (rule cycles.run_ends) (use assms in \<open>simp add: cycles_left_def\<close>)
  then obtain y where y: "replay_loop rd it ?s equity records fuel = Some y" by blast
  have "replay_loop rd it ?s equity records m = Some y" if "fuel \<le> m" for m
    using run_loop_more_fuel [OF y [unfolded replay_loop_def] that] by (simp only: replay_loop_def)
  then show ?thesis using False by (auto simp: replay_unfold)
qed

subsection \<open>The report adds up\<close>

text \<open>What holds between the book and the result all along a run.\<close>

definition books_agree :: "portfolio \<times> backtest_result \<Rightarrow> bool" where
  "books_agree st = (case st of (p, r) \<Rightarrow>
     int (length (br_curve r)) \<le> br_steps r \<and> int (length (br_details r)) = br_orders_sent r \<and>
     0 \<le> br_wins r \<and> br_wins r \<le> br_trades r \<and> br_trades r \<le> br_orders_sent r \<and>
     pt_realized p = fsum (map tl_realized (br_details r)))"

lemma add_zero [simp]: "float_val x \<Longrightarrow> x + 0 = (x :: f64)"
  by (cases x) (simp_all add: float_val_def plus_f64_def zero_f64_def)

lemma apply_realized:
  assumes "portfolio_apply b px q p = ((realized, fee, traded), p')" "float_val (pt_realized p)"
  shows "pt_realized p' = pt_realized p + realized \<and> (\<not> traded \<longrightarrow> realized = 0)"
  using assms by (auto simp: portfolio_apply_def decrease_def increase_def reduced_def Let_def split: if_splits prod.splits)

lemma fsum_append: "fsum (xs @ [x]) = fsum xs + x"
  by (simp add: fsum_def)

lemma float_val_fsum [simp]: "float_val (fsum xs)"
  by (induction xs rule: rev_induct) (simp_all add: fsum_append, simp add: fsum_def)

lemma book_order_agree:
  assumes "book_order slip px ord (p, r) = ((p1, r1), line)" "books_agree (p, r)"
  shows "books_agree (p1, r1\<lparr>br_orders_sent := br_orders_sent r1 + 1, br_details := br_details r1 @ [line]\<rparr>) \<and> br_curve r1 = br_curve r \<and> br_steps r1 = br_steps r"
proof -
  obtain realized fee traded p' where a: "portfolio_apply (o_is_buy ord) (apply_slippage px slip (o_is_buy ord)) (fst (parse_float (o_sz ord))) p = ((realized, fee, traded), p')"
    by (metis surj_pair)
  show ?thesis using assms apply_realized [OF a] by (auto simp: book_order_def Let_def a books_agree_def fsum_append)
qed

lemma run_orders_agree:
  "run_orders X slip px ords (p, r, w) = (None, p', r', w') \<Longrightarrow> books_agree (p, r) \<Longrightarrow>
   books_agree (p', r') \<and> br_curve r' = br_curve r \<and> br_steps r' = br_steps r"
proof (induction ords arbitrary: p r w)
  case (Cons ord ords)
  obtain p1 r1 line where b: "book_order slip px ord (p, r) = ((p1, r1), line)" by (metis surj_pair)
  show ?case using Cons.prems Cons.IH book_order_agree [OF b Cons.prems(2)] by (fastforce simp: b split: prod.splits sum.splits)
qed simp

lemma run_loop_agree:
  "run_loop feed decide X s slip n f (p, r, w) = Some (Inr (p', r'), w') \<Longrightarrow> books_agree (p, r) \<Longrightarrow> int (length (br_curve r)) = br_steps r \<Longrightarrow>
   books_agree (p', r') \<and> int (length (br_curve r')) = br_steps r'"
proof (induction n arbitrary: f p r w)
  case (Suc n)
  obtain y f1 where fd: "feed s f = (y, f1)" by fastforce
  show ?case
  proof (cases "\<exists>snap. y = Inr (Some snap)")
    case True
    then obtain snap where y: "y = Inr (Some snap)" by blast
    obtain x f2 w1 where d: "decide snap (f1, w) = (x, f2, w1)" by (metis surj_pair)
    obtain ords where x: "x = Inr ords" using Suc.prems(1) by (cases x) (simp_all add: fd y d)
    let ?r = "r\<lparr>br_steps := br_steps r + 1\<rparr>"
    obtain p2 r2 w2 where o: "run_orders X slip (sn_price_last snap) ords (p, ?r, w1) = (None, p2, r2, w2)"
      using Suc.prems(1) by (auto simp: fd y d x split: option.splits prod.splits)
    have "books_agree (p, ?r)" using Suc.prems(2) by (simp add: books_agree_def)
    from run_orders_agree [OF o this] have a: "books_agree (p2, r2)" "br_curve r2 = br_curve r" "br_steps r2 = br_steps r + 1" by simp_all
    obtain eq p3 where q: "portfolio_equity (sn_price_last snap) p2 = (eq, p3)" by fastforce
    then have "pt_realized p3 = pt_realized p2" by (auto simp: portfolio_equity_def Let_def)
    then have "books_agree (p3, r2\<lparr>br_curve := br_curve r2 @ [eq]\<rparr>)" using a Suc.prems(3) by (simp add: books_agree_def)
    then show ?thesis using Suc.IH [of f2 p3 "r2\<lparr>br_curve := br_curve r2 @ [eq]\<rparr>" w2] Suc.prems(1,3) a by (simp add: fd y d x o q)
  next
    case False
    then have "y = Inr None" using Suc.prems(1) by (cases y) (auto simp: fd)
    then show ?thesis using Suc.prems by (simp add: fd)
  qed
qed simp

lemma drawdown_nonneg: "0 \<le> snd s \<Longrightarrow> 0 \<le> snd (foldl drawdown_step s xs)"
proof (induction xs arbitrary: s)
  case (Cons x xs)
  have "0 \<le> snd (drawdown_step s x)"
    using Cons.prems by (auto simp: drawdown_step_def Let_def f64_less_imp_le f64_le_trans split: prod.splits intro: f64_le_trans [OF _ f64_less_imp_le])
  then show ?case using Cons.IH by simp
qed simp

lemma times_hundred_nonneg: "0 \<le> (x :: f64) \<Longrightarrow> 0 \<le> x * lit 100"
proof -
  assume x: "0 \<le> x"
  have l: "lit 100 = Fin 100" by code_simp
  show ?thesis
  proof (cases x)
    case (Fin q)
    then have "0 \<le> q * 100" using x by (simp add: zero_f64_def)
    then show ?thesis using Fin by (simp add: l times_f64_def fround_nonneg)
  next
    case (Infty s)
    then show ?thesis using x by (cases s) (simp_all add: l times_f64_def zero_f64_def less_eq_f64_def)
  qed (use x in simp)
qed

text \<open>C33. The report of a run adds up: one point of the equity curve for each step and one line for each order sent, no more trades than orders and no
  more wins than trades, a realized result that is the sum of its lines and with the unrealized one makes the total, and a drawdown that is not negative.\<close>

theorem report_adds_up:
  assumes "run_engine fuel E f w = Some (Inr r, w')"
  shows "int (length (br_curve r)) = br_steps r \<and> int (length (br_details r)) = br_orders_sent r \<and> 0 \<le> br_wins r \<and> br_wins r \<le> br_trades r \<and>
    br_trades r \<le> br_orders_sent r \<and> br_realized r = fsum (map tl_realized (br_details r)) \<and> br_total r = br_realized r + br_unrealized r \<and> 0 \<le> br_max_dd_pct r"
proof -
  obtain feed decide X where E: "bt_feeder E = Some feed" "bt_strategy E = Some decide" "bt_exchange E = Some X" "bt_symbol E \<noteq> ''''"
    using assms by (auto simp: run_engine_def split: option.splits if_splits)
  obtain p r0 where l: "run_loop feed decide X (bt_symbol E) (bt_slippage_bps E) fuel f (start_book E, empty_result, w) = Some (Inr (p, r0), w')"
      and r: "r = summarize (start_equity E) p r0"
    using assms by (auto simp: run_engine_def E Let_def split: option.splits sum.splits prod.splits if_splits)
  have "books_agree (start_book E, empty_result)" by (simp add: books_agree_def start_book_def empty_result_def fsum_def)
  from run_loop_agree [OF l this] have a: "books_agree (p, r0)" "int (length (br_curve r0)) = br_steps r0" by (simp_all add: empty_result_def)
  have "0 \<le> max_drawdown_pct xs" for xs
    unfolding max_drawdown_pct_def by (intro times_hundred_nonneg drawdown_nonneg) (simp add: zero_f64_def)
  then have "0 \<le> br_max_dd_pct r" by (simp add: r summarize_def)
  then show ?thesis using a by (simp add: r books_agree_def summarize_def)
qed

subsection \<open>The orders of a replay\<close>

text \<open>What a replay makes of a decision: its side, whether it only reduces, and its size.\<close>

definition order_of :: "f64 \<Rightarrow> decision \<Rightarrow> order \<Rightarrow> bool" where
  "order_of px d ord \<longleftrightarrow>
    (let price = (if 0 < px then px else dec_entry_price d); act = to_lower (trim_space (dec_action d)) in
     \<not> price \<le> 0 \<and> \<not> dec_position_size d \<le> 0 \<and> o_sz ord = format_fixed 8 (dec_position_size d / price) \<and> o_limit_px ord = format_fixed 8 price \<and>
     act \<in> {''open_long'', ''open_short'', ''close_long'', ''close_short''} \<and>
     (o_is_buy ord \<longleftrightarrow> act = ''open_long'' \<or> act = ''close_short'') \<and> (o_reduce_only ord \<longleftrightarrow> act = ''close_long'' \<or> act = ''close_short''))"

lemma decision_to_order_of: "decision_to_order X d px st = (Some ord, st') \<Longrightarrow> order_of px d ord"
  by (auto simp: decision_to_order_def Let_def order_of_def action_sides_def replay_order_def split: if_splits option.splits sum.splits prod.splits)

lemma decisions_to_orders_of:
  "decisions_to_orders X own px ds st = (ords, st') \<Longrightarrow> list_all (\<lambda>ord. \<exists>d \<in> set ds. equal_fold (dec_symbol d) own \<and> order_of px d ord) ords"
proof (induction ds arbitrary: st ords st')
  case (Cons d ds)
  obtain x st1 where d: "decision_to_order X d px st = (x, st1)" by (metis surj_pair)
  show ?case
  proof (cases "equal_fold (dec_symbol d) own")
    case True
    obtain ys st2 where r: "decisions_to_orders X own px ds st1 = (ys, st2)" by (metis surj_pair)
    have "list_all (\<lambda>ord. \<exists>d' \<in> set (d # ds). equal_fold (dec_symbol d') own \<and> order_of px d' ord) ys"
      using Cons.IH [OF r] by (auto simp: list_all_iff)
    moreover have "x = Some ord \<Longrightarrow> order_of px d ord" for ord using decision_to_order_of d by blast
    moreover have "ords = (case x of None \<Rightarrow> ys | Some ord \<Rightarrow> ord # ys)" using Cons.prems by (simp add: True d r)
    ultimately show ?thesis using True by (cases x) auto
  next
    case False
    then show ?thesis using Cons by (auto simp: list_all_iff)
  qed
qed simp

text \<open>C34. A replay trades only what was decided: each order it sends comes from a decision of the current cycle for its symbol, with a side that is
  the action's, the reduce-only flag of a close, and the decided notional at the price of the cycle's digest, or at the entry price when it has none.\<close>

theorem replay_orders_decided:
  assumes "journal_decide rd X own snap (s, w) = (Inr ords, s', w')" "ords \<noteq> []"
  shows "\<exists>r ds. ry_current s = Some r \<and> parse_decisions_json rd (jc_decisions_json r) = Inr ds \<and>
    list_all (\<lambda>ord. \<exists>d \<in> set ds. equal_fold (dec_symbol d) own \<and> order_of (if sn_price_last snap \<le> 0 then 0 else sn_price_last snap) d ord) ords"
proof -
  obtain r where r: "ry_current s = Some r" using assms by (auto simp: journal_decide_def split: option.splits)
  obtain ds where ds: "parse_decisions_json rd (jc_decisions_json r) = Inr ds"
    using assms by (auto simp: journal_decide_def r split: sum.splits)
  obtain y st1 where o: "decisions_to_orders X own (if sn_price_last snap \<le> 0 then 0 else sn_price_last snap) ds (s, w) = (y, st1)" by (metis surj_pair)
  have "y = ords" using assms o
    by (cases ds) (simp_all add: journal_decide_def r ds Let_def del: decisions_to_orders.simps)
  then show ?thesis using r ds decisions_to_orders_of [OF o] by blast
qed

subsection \<open>Examples\<close>

definition demo_cycle :: "string \<Rightarrow> string \<Rightarrow> cycle" where
  "demo_cycle decisions price = \<lparr>jc_timestamp = 5, jc_trader_id = ''alpha'', jc_config_version = 1, jc_cycle_number = 1, jc_prompt_digest = '''', jc_cot_trace = '''',
     jc_decisions_json = decisions, jc_account = None, jc_positions = [], jc_candidates = [''BTC''],
     jc_market_digest = [(''BTC'', JObj [(''price'', JNum price)])], jc_actions = [], jc_success = True, jc_error = ''''\<rparr>"

text \<open>A reader that knows two texts: one that opens a long of 1000, one that closes 3000 of it.\<close>

definition demo_read :: "string \<Rightarrow> goerror + json" where
  "demo_read t = Inr (JArr [JObj [(''Symbol'', JStr ''btc''), (''Action'', JStr (if t = ''open'' then ''open_long'' else ''close_long'')),
     (''PositionSizeUSD'', JNum (if t = ''open'' then ''1000'' else ''3000''))]])"

definition demo_records :: "cycle list" where
  "demo_records = [demo_cycle ''open'' ''100'', demo_cycle ''close'' ''100'']"

theorem replay_returns_witness: "\<exists>x. run_journal_replay 3 demo_read list_iter demo_records '' btc '' 0 = Some x"
proof -
  have "length demo_records < 3" by (simp add: demo_records_def)
  from replay_returns [OF this] show ?thesis by blast
qed

text \<open>A close is reduce-only and the exchange takes it as such, but the book of the backtest does not look at the flag: a long of ten that is
  closed with thirty ends as a short of twenty.\<close>

definition long_book :: portfolio where
  "long_book = \<lparr>pt_cash = lit 1000, pt_pos = lit 10, pt_avg = lit 100, pt_realized = 0, pt_unrealized = 0, pt_fee_bps = 0, pt_slippage_bps = 0\<rparr>"

lemma book_ignores_reduce_only: "pt_pos (fst (fst (book_order 0 (lit 100) (replay_order 1 False (lit 100) (lit 30) True) (long_book, empty_result)))) = Fin (- 20)"
  by code_simp

text \<open>A fee is taken from the cash, and so shows in the equity, but not in the realized, unrealized and total results.\<close>

definition fee_engine :: "(price_feeder \<times> threshold, sim) engine" where
  "fee_engine = \<lparr>bt_feeder = Some (paired_feed price_next), bt_strategy = Some paired_decide, bt_exchange = Some (sim_provider list_iter), bt_symbol = ''BTC'',
     bt_initial_equity = lit 1000, bt_fee_bps = lit 10000, bt_slippage_bps = 0, bt_output_path = '''', bt_write = (\<lambda>_ _. None)\<rparr>"

definition fee_run :: "((goerror + backtest_result) \<times> sim) option" where
  "fee_run = run_engine 3 fee_engine (\<lparr>fd_prices = [lit 100, lit 200], fd_idx = 0\<rparr>, \<lparr>th_asset_id = 1, th_last_price = 0, th_percent = 1, th_lot_sz = ''1''\<rparr>) btc_sim"

definition fee_report :: backtest_result where
  "fee_report = (case fee_run of Some (Inr r, _) \<Rightarrow> r | _ \<Rightarrow> empty_result)"

lemma total_ignores_fees:
  "case fee_run of Some (Inr r, w) \<Rightarrow> br_total r = 0 \<and> br_curve r = [Fin 1000, Fin 800] \<and> br_orders_sent r = 1 | _ \<Rightarrow> False"
  by code_simp

lemma fee_run_eq: "fee_run = Some (Inr fee_report, snd (the fee_run)) \<and> br_orders_sent fee_report = 1"
proof -
  obtain a w where x: "fee_run = Some (a, w)" using total_ignores_fees by (cases fee_run) auto
  then obtain r where "a = Inr r" "br_orders_sent r = 1"
    using total_ignores_fees [unfolded x option.case prod.case] by (cases a) auto
  then have r: "fee_run = Some (Inr r, w)" "br_orders_sent r = 1" using x by simp_all
  show ?thesis unfolding fee_report_def r(1) using r(2) by simp
qed

theorem report_adds_up_witness: "int (length (br_details fee_report)) = 1 \<and> 0 \<le> br_max_dd_pct fee_report"
proof -
  have "run_engine 3 fee_engine (\<lparr>fd_prices = [lit 100, lit 200], fd_idx = 0\<rparr>, \<lparr>th_asset_id = 1, th_last_price = 0, th_percent = 1, th_lot_sz = ''1''\<rparr>) btc_sim =
      Some (Inr fee_report, snd (the fee_run))" using fee_run_eq unfolding fee_run_def by simp
  from report_adds_up [OF this] fee_run_eq show ?thesis by simp
qed

definition demo_session :: replay where
  "demo_session = \<lparr>ry_records = demo_records, ry_idx = 1, ry_current = Some (demo_cycle ''open'' ''100''), ry_assets = []\<rparr>"

definition demo_orders :: "(goerror + order list) \<times> replay \<times> sim" where
  "demo_orders = journal_decide demo_read (sim_provider list_iter) ''BTC'' (bare_snapshot ''BTC'' (lit 100) 0 0) (demo_session, btc_sim)"

theorem replay_orders_decided_witness: "list_ex (\<lambda>ord. \<exists>d. order_of (lit 100) d ord) (case fst demo_orders of Inr ords \<Rightarrow> ords | Inl _ \<Rightarrow> [])"
proof -
  have f: "case fst demo_orders of Inr ords \<Rightarrow> length ords = 1 | Inl _ \<Rightarrow> False" by code_simp
  then obtain ords where o: "fst demo_orders = Inr ords" "length ords = 1" by (cases "fst demo_orders") auto
  have e: "journal_decide demo_read (sim_provider list_iter) ''BTC'' (bare_snapshot ''BTC'' (lit 100) 0 0) (demo_session, btc_sim) =
      (Inr ords, fst (snd demo_orders), snd (snd demo_orders))" using o(1) unfolding demo_orders_def [symmetric] by (metis prod.collapse)
  have px: "(if sn_price_last (bare_snapshot ''BTC'' (lit 100) 0 0) \<le> 0 then 0 else sn_price_last (bare_snapshot ''BTC'' (lit 100) 0 0)) = lit 100" by code_simp
  have ne: "ords \<noteq> []" using o(2) by auto
  from replay_orders_decided [OF e ne] obtain ds where "list_all (\<lambda>ord. \<exists>d \<in> set ds. equal_fold (dec_symbol d) ''BTC'' \<and> order_of (lit 100) d ord) ords"
    unfolding px by blast
  then show ?thesis using ne by (cases ords) (auto simp: o(1))
qed

end
