(* ===== verification/CacheKeys.thy ===== *)
theory CacheKeys
  imports GoNumbers GoTime
begin

text \<open>
  The keys and lifetimes of the cache (\<open>internal/cache/keys.go\<close>). A key is the namespace and the parts that are not blank, trimmed and joined by
  colons; the lifetimes come in three classes from the configuration, in seconds, where zero means the default and a negative number none.
\<close>

definition cache_namespace :: string where "cache_namespace = ''nof0''"

datatype ttl_class = TTLShort | TTLMedium | TTLLong

record ttl_set =
  tl_short :: duration
  tl_medium :: duration
  tl_long :: duration

definition duration_or_default :: "int \<Rightarrow> duration \<Rightarrow> duration" where
  "duration_or_default seconds fallback = (if seconds < 0 then 0 else if seconds = 0 then fallback else seconds * second)"

definition new_ttl_set :: "int \<Rightarrow> int \<Rightarrow> int \<Rightarrow> ttl_set" where
  "new_ttl_set s m l = \<lparr>tl_short = duration_or_default s (10 * second), tl_medium = duration_or_default m minute,
     tl_long = duration_or_default l (5 * minute)\<rparr>"

fun ttl_of :: "ttl_set \<Rightarrow> ttl_class \<Rightarrow> duration" where
  "ttl_of t TTLShort = tl_short t"
| "ttl_of t TTLMedium = tl_medium t"
| "ttl_of t TTLLong = tl_long t"

definition ttl_scaled :: "ttl_set \<Rightarrow> ttl_class \<Rightarrow> f64 \<Rightarrow> duration" where
  "ttl_scaled t c factor = (let base = ttl_of t c in if base \<le> 0 \<or> factor \<le> 0 then base else int_of_f64 (f64_of_int base * factor))"

fun join :: "string \<Rightarrow> string list \<Rightarrow> string" where
  "join sep [] = ''''"
| "join sep [x] = x"
| "join sep (x # y # xs) = x @ sep @ join sep (y # xs)"

definition format_key :: "string list \<Rightarrow> string" where
  "format_key parts = join '':'' (cache_namespace # filter (\<lambda>p. p \<noteq> '''') (map trim_space parts))"

definition price_latest_key :: "string \<Rightarrow> string" where "price_latest_key symbol = format_key [''price'', ''latest'', symbol]"
definition price_latest_by_provider_key :: "string \<Rightarrow> string \<Rightarrow> string" where
  "price_latest_by_provider_key provider symbol = format_key [''price'', ''latest'', provider, symbol]"
definition crypto_prices_key :: string where "crypto_prices_key = format_key [''crypto_prices'']"
definition market_asset_key :: "string \<Rightarrow> string" where "market_asset_key provider = format_key [''market'', ''asset'', provider]"
definition market_asset_ctx_key :: "string \<Rightarrow> string \<Rightarrow> string" where
  "market_asset_ctx_key provider symbol = format_key [''market'', ''ctx'', provider, symbol]"
definition positions_hash_key :: "string \<Rightarrow> string" where "positions_hash_key m = format_key [''positions'', m]"
definition trader_positions_hash_key :: string where "trader_positions_hash_key = format_key [''trader'', ''positions'']"
definition trader_trades_recent_hash_key :: string where "trader_trades_recent_hash_key = format_key [''trader'', ''trades_recent'']"
definition trader_analytics_hash_key :: string where "trader_analytics_hash_key = format_key [''trader'', ''analytics'']"
definition trader_since_inception_hash_key :: string where "trader_since_inception_hash_key = format_key [''trader'', ''since_inception'']"
definition trader_decision_last_hash_key :: string where "trader_decision_last_hash_key = format_key [''trader'', ''decision_last'']"
definition trader_hash_field :: "string \<Rightarrow> string" where "trader_hash_field tid = to_lower (trim_space tid)"
definition positions_lock_key :: "string \<Rightarrow> string" where "positions_lock_key m = format_key [''lock'', ''positions'', m]"
definition trades_recent_key :: "string \<Rightarrow> string" where "trades_recent_key m = format_key [''trades'', ''recent'', m]"
definition trades_stream_key :: string where "trades_stream_key = format_key [''trades'', ''stream'']"
definition trade_ingest_guard_key :: "string \<Rightarrow> string" where "trade_ingest_guard_key i = format_key [''ingest'', ''trade'', i]"
definition leaderboard_zset_key :: string where "leaderboard_zset_key = format_key [''leaderboard'']"
definition leaderboard_cache_key :: string where "leaderboard_cache_key = format_key [''leaderboard'', ''cache'']"
definition since_inception_key :: "string \<Rightarrow> string" where "since_inception_key m = format_key [''since_inception'', m]"
definition analytics_key :: "string \<Rightarrow> string" where "analytics_key m = format_key [''analytics'', m]"
definition analytics_all_key :: string where "analytics_all_key = format_key [''analytics'', ''all'']"
definition conversations_key :: "string \<Rightarrow> string" where "conversations_key m = format_key [''conversations'', m]"
definition decision_last_key :: "string \<Rightarrow> string" where "decision_last_key m = format_key [''decision'', ''last'', m]"
definition trader_state_key :: "string \<Rightarrow> string" where "trader_state_key tid = format_key [''trader'', tid, ''state'']"
definition sim_orders_key :: "string \<Rightarrow> string" where "sim_orders_key tid = format_key [''sim'', ''orders'', tid]"
definition sim_balances_key :: "string \<Rightarrow> string" where "sim_balances_key tid = format_key [''sim'', ''balances'', tid]"

definition build_key_with_suffix :: "string \<Rightarrow> string \<Rightarrow> string" where
  "build_key_with_suffix base suffix = (if trim_space suffix = '''' then base else base @ '':'' @ trim_space suffix)"

definition half :: f64 where "half = lit (1 / 2)"

definition price_ttl :: "ttl_set \<Rightarrow> duration" where "price_ttl t = ttl_of t TTLShort"
definition crypto_prices_ttl :: "ttl_set \<Rightarrow> duration" where "crypto_prices_ttl t = ttl_of t TTLShort"
definition market_asset_ttl :: "ttl_set \<Rightarrow> duration" where "market_asset_ttl t = ttl_of t TTLLong"
definition market_asset_ctx_ttl :: "ttl_set \<Rightarrow> duration" where "market_asset_ctx_ttl t = ttl_of t TTLMedium"
definition positions_ttl :: "ttl_set \<Rightarrow> duration" where "positions_ttl t = ttl_scaled t TTLMedium half"
definition positions_lock_ttl :: "ttl_set \<Rightarrow> duration" where "positions_lock_ttl t = ttl_scaled t TTLShort half"
definition trades_recent_ttl :: "ttl_set \<Rightarrow> duration" where "trades_recent_ttl t = ttl_of t TTLMedium"
definition trade_ingest_guard_ttl :: duration where "trade_ingest_guard_ttl = 24 * (60 * minute)"
definition leaderboard_ttl :: "ttl_set \<Rightarrow> duration" where "leaderboard_ttl t = ttl_of t TTLMedium"
definition since_inception_ttl :: "ttl_set \<Rightarrow> duration" where "since_inception_ttl t = ttl_of t TTLLong"
definition analytics_ttl :: "ttl_set \<Rightarrow> duration" where "analytics_ttl t = ttl_scaled t TTLLong (lit 2)"
definition conversations_ttl :: "ttl_set \<Rightarrow> duration" where "conversations_ttl t = ttl_of t TTLLong"
definition decision_last_ttl :: "ttl_set \<Rightarrow> duration" where "decision_last_ttl t = ttl_of t TTLMedium"
definition trader_state_ttl :: "ttl_set \<Rightarrow> duration" where "trader_state_ttl t = ttl_of t TTLMedium"
definition simulator_ttl :: "ttl_set \<Rightarrow> duration" where "simulator_ttl t = ttl_of t TTLMedium"

lemmas hash_keys = trader_positions_hash_key_def trader_trades_recent_hash_key_def trader_analytics_hash_key_def
  trader_since_inception_hash_key_def trader_decision_last_hash_key_def

text \<open>The hashes of the traders are five different keys.\<close>

lemma hash_keys_distinct:
  "distinct [trader_positions_hash_key, trader_trades_recent_hash_key, trader_analytics_hash_key, trader_since_inception_hash_key,
     trader_decision_last_hash_key]"
  by code_simp

text \<open>With the defaults the lifetimes are what the comments of the code say: positions thirty seconds, analytics ten minutes.\<close>

lemma default_ttls:
  "positions_ttl (new_ttl_set 0 0 0) = 30 * second" "positions_lock_ttl (new_ttl_set 0 0 0) = 5 * second"
  "analytics_ttl (new_ttl_set 0 0 0) = 600 * second"
  by code_simp+

text \<open>A trader called \<open>all\<close> shares its analytics key with the aggregate.\<close>

theorem analytics_key_collision: "analytics_key ''all'' = analytics_all_key"
  by (simp add: analytics_key_def analytics_all_key_def)

end
