(* ===== verification/Resilience.thy ===== *)
theory Resilience
  imports GoNumbers GoTime
begin

text \<open>
  How persistence failures are handled (\<open>internal/persistence/resilience/resilience.go\<close>): an error is blocked, ignored or retried, and a
  bounded queue retries in the background. A task works on a state of its own; the goroutine of a task is its sequence of attempts, and the
  attempts of different tasks interleave freely. The wait between two attempts is recorded, not slept; logging is left out.

  Shown: the queue never holds more tasks than its capacity, no task is attempted more often than it may be, and the queue empties after
  at most as many attempts as its tasks have left.
\<close>

subsection \<open>Classes of failures\<close>

text \<open>An error as \<open>errors.Is\<close> and \<open>errors.As\<close> see it: a context error, the cache miss of Redis, a \<open>net.Error\<close> that timed out, a \<open>net.OpError\<close>, a
  violated unique constraint of Postgres, no rows.\<close>

record fault =
  ft_error :: goerror
  ft_context :: bool
  ft_cache_miss :: bool
  ft_timeout :: bool
  ft_op_error :: bool
  ft_unique :: bool
  ft_no_rows :: bool

definition plain_fault :: "string \<Rightarrow> fault" where
  "plain_fault msg = \<lparr>ft_error = Errorf msg [], ft_context = False, ft_cache_miss = False, ft_timeout = False, ft_op_error = False,
     ft_unique = False, ft_no_rows = False\<rparr>"

datatype failure_class = Block | RetryAsync | Ignore

definition transport_texts :: "string list" where
  "transport_texts = [''timeout'', ''i/o timeout'', ''connection refused'', ''broken pipe'', ''connection reset'', ''network is unreachable'',
     ''tls handshake timeout'']"

definition retryable_transport_error :: "fault \<Rightarrow> bool" where
  "retryable_transport_error e \<longleftrightarrow> ft_timeout e \<or> ft_op_error e \<or>
     list_ex (contains_sub (to_lower (error_text (ft_error e)))) transport_texts"

definition redis_texts :: "string list" where
  "redis_texts = [''LOADING'', ''BUSY'', ''TRYAGAIN'', ''CLUSTERDOWN'', ''MOVED'', ''ASK'', ''READONLY'', ''MASTERDOWN'',
     ''MAX NUMBER OF CLIENTS REACHED'']"

definition retryable_redis_error :: "fault \<Rightarrow> bool" where
  "retryable_redis_error e \<longleftrightarrow> list_ex (contains_sub (to_upper (error_text (ft_error e)))) redis_texts"

definition classify :: "fault option \<Rightarrow> failure_class \<times> string" where
  "classify err = (case err of
     None \<Rightarrow> (Ignore, ''nil'')
   | Some e \<Rightarrow> if ft_context e then (RetryAsync, ''context timeout'')
     else if ft_cache_miss e then (Ignore, ''cache miss'')
     else if retryable_transport_error e then (RetryAsync, ''transient transport'')
     else if retryable_redis_error e then (RetryAsync, ''transient redis'')
     else (Block, ''non-transient''))"

definition should_retry_fault :: "fault option \<Rightarrow> bool" where
  "should_retry_fault err \<longleftrightarrow> fst (classify err) = RetryAsync"

text \<open>The words of Redis are looked for anywhere in the text, so an error that only mentions a task is taken for a redirection.\<close>

theorem task_error_retried: "classify (Some (plain_fault ''task is invalid'')) = (RetryAsync, ''transient redis'')"
  by code_simp

subsection \<open>Tasks and the queue\<close>

record 's retry_task =
  tk_operation :: string
  tk_resource :: string
  tk_max_attempts :: int
  tk_initial_backoff :: duration
  tk_max_backoff :: duration
  tk_attempt_timeout :: duration
  tk_retryable :: "(fault \<Rightarrow> bool) option"
  tk_do :: "('s \<Rightarrow> fault option \<times> 's) option"

record queue_config =
  rc_capacity :: int
  rc_max_attempts :: int
  rc_initial_backoff :: duration
  rc_max_backoff :: duration
  rc_attempt_timeout :: duration

definition positive_or :: "int \<Rightarrow> int \<Rightarrow> int" where
  "positive_or x d = (if x \<le> 0 then d else x)"

text \<open>A task in flight: the number of its next attempt and the wait before the one after it.\<close>

record 's retry_job =
  jb_task :: "'s retry_task"
  jb_do :: "'s \<Rightarrow> fault option \<times> 's"
  jb_attempt :: int
  jb_backoff :: duration

record 's retry_queue =
  rq_cfg :: queue_config
  rq_jobs :: "'s retry_job list"

definition new_retry_queue :: "queue_config \<Rightarrow> 's retry_queue" where
  "new_retry_queue c = \<lparr>rq_cfg = \<lparr>rc_capacity = positive_or (rc_capacity c) 32, rc_max_attempts = positive_or (rc_max_attempts c) 3,
     rc_initial_backoff = positive_or (rc_initial_backoff c) (250 * millisecond), rc_max_backoff = positive_or (rc_max_backoff c) (5 * second),
     rc_attempt_timeout = positive_or (rc_attempt_timeout c) (2 * second)\<rparr>, rq_jobs = []\<rparr>"

definition task_defaults :: "queue_config \<Rightarrow> 's retry_task \<Rightarrow> 's retry_task" where
  "task_defaults c t = t\<lparr>tk_operation := (if tk_operation t = '''' then ''persistence'' else tk_operation t),
     tk_max_attempts := positive_or (tk_max_attempts t) (rc_max_attempts c),
     tk_initial_backoff := positive_or (tk_initial_backoff t) (rc_initial_backoff c),
     tk_max_backoff := positive_or (tk_max_backoff t) (rc_max_backoff c),
     tk_attempt_timeout := positive_or (tk_attempt_timeout t) (rc_attempt_timeout c)\<rparr>"

definition enqueue_task :: "'s retry_task \<Rightarrow> 's retry_queue \<Rightarrow> bool \<times> 's retry_queue" where
  "enqueue_task t0 q = (case tk_do t0 of
     None \<Rightarrow> (False, q)
   | Some f \<Rightarrow> let t = task_defaults (rq_cfg q) t0 in
       if int (length (rq_jobs q)) < rc_capacity (rq_cfg q)
       then (True, q\<lparr>rq_jobs := rq_jobs q @ [\<lparr>jb_task = t, jb_do = f, jb_attempt = 1, jb_backoff = tk_initial_backoff t\<rparr>]\<rparr>)
       else (False, q))"

definition next_backoff :: "duration \<Rightarrow> duration \<Rightarrow> duration" where
  "next_backoff max_backoff b = int_of_f64 (fmin (f64_of_int max_backoff) (f64_of_int b * lit 2))"

text \<open>One attempt: the task ends (\<open>None\<close>) or goes on, and the wait before it does.\<close>

definition attempt_job :: "'s retry_job \<Rightarrow> 's \<Rightarrow> ('s retry_job option \<times> duration option) \<times> 's" where
  "attempt_job j s = (case jb_do j s of
     (None, s1) \<Rightarrow> ((None, None), s1)
   | (Some e, s1) \<Rightarrow>
     let retryable = (case tk_retryable (jb_task j) of None \<Rightarrow> fst (classify (Some e)) = RetryAsync | Some f \<Rightarrow> f e) in
     if \<not> retryable \<or> tk_max_attempts (jb_task j) \<le> jb_attempt j then ((None, None), s1)
     else ((Some (j\<lparr>jb_attempt := jb_attempt j + 1, jb_backoff := next_backoff (tk_max_backoff (jb_task j)) (jb_backoff j)\<rparr>),
            Some (jb_backoff j)), s1))"

definition attempts_left :: "'s retry_job \<Rightarrow> nat" where
  "attempts_left j = nat (tk_max_attempts (jb_task j) - jb_attempt j + 1)"

lemma attempt_job_left:
  assumes "attempt_job j s = ((Some j', w), s')" "jb_attempt j \<le> tk_max_attempts (jb_task j)"
  shows "attempts_left j' < attempts_left j \<and> jb_attempt j' \<le> tk_max_attempts (jb_task j') \<and> jb_attempt j' = jb_attempt j + 1 \<and>
    jb_task j' = jb_task j \<and> jb_do j' = jb_do j"
  using assms by (auto simp: attempt_job_def attempts_left_def Let_def split: prod.splits option.splits if_splits)

text \<open>The goroutine of a task: its attempts up to the last, with the waits between them. (The measure is checked at run time; for a task of the queue, which is
  within its attempts, the check always succeeds.)\<close>

function run_task :: "'s retry_job \<Rightarrow> 's \<Rightarrow> duration list \<times> 's" where
  "run_task j s = (case attempt_job j s of
     ((Some j', Some w), s1) \<Rightarrow> if attempts_left j' < attempts_left j then (case run_task j' s1 of (ws, s2) \<Rightarrow> (w # ws, s2)) else ([], s1)
   | ((_, _), s1) \<Rightarrow> ([], s1))"
  by pat_completeness auto
termination by (relation "measure (\<lambda>(j, s). attempts_left j)") auto

declare run_task.simps [simp del]

subsection \<open>The queue over time\<close>

fun settle_job :: "nat \<Rightarrow> 's retry_job option \<Rightarrow> 's retry_job list \<Rightarrow> 's retry_job list" where
  "settle_job i r [] = []"
| "settle_job 0 r (j # js) = (case r of None \<Rightarrow> js | Some j' \<Rightarrow> j' # js)"
| "settle_job (Suc i) r (j # js) = j # settle_job i r js"

inductive attempt_step :: "'s retry_queue \<times> 's \<Rightarrow> 's retry_queue \<times> 's \<Rightarrow> bool" where
  "i < length (rq_jobs q) \<Longrightarrow> attempt_job (rq_jobs q ! i) s = ((r, w), s') \<Longrightarrow>
   attempt_step (q, s) (q\<lparr>rq_jobs := settle_job i r (rq_jobs q)\<rparr>, s')"

inductive queue_run :: "'s retry_queue \<times> 's \<Rightarrow> 's retry_queue \<times> 's \<Rightarrow> bool" where
  run_enqueue: "enqueue_task t q = (b, q') \<Longrightarrow> queue_run (q, s) (q', s)"
| run_attempt: "attempt_step x y \<Longrightarrow> queue_run x y"

definition job_ok :: "'s retry_job \<Rightarrow> bool" where
  "job_ok j \<longleftrightarrow> 1 \<le> jb_attempt j \<and> jb_attempt j \<le> tk_max_attempts (jb_task j)"

definition retry_inv :: "'s retry_queue \<Rightarrow> bool" where
  "retry_inv q \<longleftrightarrow> 0 < rc_capacity (rq_cfg q) \<and> 0 < rc_max_attempts (rq_cfg q) \<and>
     int (length (rq_jobs q)) \<le> rc_capacity (rq_cfg q) \<and> list_all job_ok (rq_jobs q)"

lemma settle_length: "length (settle_job i r js) \<le> length js"
  by (induction i r js rule: settle_job.induct) (auto split: option.splits)

lemma settle_ok:
  "list_all job_ok js \<Longrightarrow> (\<And>j. r = Some j \<Longrightarrow> job_ok j) \<Longrightarrow> list_all job_ok (settle_job i r js)"
  by (induction i r js rule: settle_job.induct) (auto split: option.splits)

lemma attempt_step_inv:
  assumes "attempt_step x y" "retry_inv (fst x)"
  shows "retry_inv (fst y) \<and> rq_cfg (fst y) = rq_cfg (fst x)"
  using assms
proof cases
  case (1 i q s r w s')
  have ok: "job_ok (rq_jobs q ! i)" using assms(2) 1 by (simp add: retry_inv_def list_all_length)
  have "job_ok j" if "r = Some j" for j
    using attempt_job_left [of "rq_jobs q ! i" s j w s'] 1(4) that ok by (auto simp: job_ok_def)
  then show ?thesis using assms(2) 1 settle_ok [of "rq_jobs q" r i] settle_length [of i r "rq_jobs q"] by (simp add: retry_inv_def)
qed

lemma enqueue_task_inv: "enqueue_task t q = (b, q') \<Longrightarrow> retry_inv q \<Longrightarrow> retry_inv q'"
  by (auto simp: enqueue_task_def Let_def retry_inv_def job_ok_def task_defaults_def positive_or_def split: option.splits if_splits)

lemma queue_run_inv: "queue_run x y \<Longrightarrow> retry_inv (fst x) \<Longrightarrow> retry_inv (fst y)"
  by (induction rule: queue_run.induct) (auto dest: enqueue_task_inv attempt_step_inv)

lemma queue_reachable_inv: "queue_run\<^sup>*\<^sup>* (new_retry_queue c, s0) x \<Longrightarrow> retry_inv (fst x)"
proof (induction rule: rtranclp_induct)
  case base
  then show ?case by (simp add: retry_inv_def new_retry_queue_def positive_or_def)
qed (rule queue_run_inv)

definition total_left :: "'s retry_queue \<Rightarrow> nat" where
  "total_left q = sum_list (map attempts_left (rq_jobs q))"

lemma settle_left:
  "i < length js \<Longrightarrow> (case r of None \<Rightarrow> 0 < attempts_left (js ! i) | Some j \<Rightarrow> attempts_left j < attempts_left (js ! i)) \<Longrightarrow>
   sum_list (map attempts_left (settle_job i r js)) < sum_list (map attempts_left js)"
  by (induction i r js rule: settle_job.induct) (auto split: option.splits)

lemma attempt_step_left:
  assumes "attempt_step x y" "retry_inv (fst x)"
  shows "total_left (fst y) < total_left (fst x)"
  using assms
proof cases
  case (1 i q s r w s')
  have ok: "job_ok (rq_jobs q ! i)" using assms(2) 1 by (simp add: retry_inv_def list_all_length)
  have "case r of None \<Rightarrow> 0 < attempts_left (rq_jobs q ! i) | Some j \<Rightarrow> attempts_left j < attempts_left (rq_jobs q ! i)"
  proof (cases r)
    case None
    then show ?thesis using ok by (simp add: job_ok_def attempts_left_def)
  next
    case (Some j)
    then have "attempt_job (rq_jobs q ! i) s = ((Some j, w), s')" using 1(4) by simp
    from attempt_job_left [OF this] ok show ?thesis by (simp add: Some job_ok_def)
  qed
  then show ?thesis using 1 settle_left [of i "rq_jobs q" r] by (simp add: total_left_def)
qed

lemma attempts_bounded: "(attempt_step ^^ n) x y \<Longrightarrow> retry_inv (fst x) \<Longrightarrow> n + total_left (fst y) \<le> total_left (fst x) \<and> retry_inv (fst y)"
proof (induction n arbitrary: y)
  case (Suc n)
  then obtain z where z: "(attempt_step ^^ n) x z" "attempt_step z y" by auto
  then show ?case using Suc.IH [OF z(1) Suc.prems(2)] attempt_step_left [OF z(2)] attempt_step_inv [OF z(2)] by auto
qed simp

lemma attempts_reach_empty: "\<exists>n y. (attempt_step ^^ n) (q, s) y \<and> rq_jobs (fst y) = []" if "retry_inv q"
  using that
proof (induction "total_left q" arbitrary: q s rule: less_induct)
  case less
  show ?case
  proof (cases "rq_jobs q")
    case Nil
    then show ?thesis by (intro exI [of _ 0] exI [of _ "(q, s)"]) simp
  next
    case (Cons j js)
    obtain r w s' where a: "attempt_job (rq_jobs q ! 0) s = ((r, w), s')" by (metis prod.collapse)
    have st: "attempt_step (q, s) (q\<lparr>rq_jobs := settle_job 0 r (rq_jobs q)\<rparr>, s')" by (rule attempt_step.intros [OF _ a]) (simp add: Cons)
    obtain n y where y: "(attempt_step ^^ n) (q\<lparr>rq_jobs := settle_job 0 r (rq_jobs q)\<rparr>, s') y" "rq_jobs (fst y) = []"
      using less.hyps [of "q\<lparr>rq_jobs := settle_job 0 r (rq_jobs q)\<rparr>" s'] attempt_step_left [OF st] attempt_step_inv [OF st] less.prems by auto
    have "(attempt_step ^^ Suc n) (q, s) y" using relpowp_Suc_I2 [of attempt_step, OF st y(1)] .
    then show ?thesis using y(2) by blast
  qed
qed

text \<open>However tasks arrive and attempts interleave, the retry queue holds at most its capacity of tasks, each within its attempts; and from there
  it empties: some sequence of attempts ends with no task, and none is longer than the attempts the tasks have left together.\<close>

theorem retry_queue_drains:
  assumes "queue_run\<^sup>*\<^sup>* (new_retry_queue c, s0) (q, s)"
  shows "int (length (rq_jobs q)) \<le> rc_capacity (rq_cfg q) \<and> (\<forall>j \<in> set (rq_jobs q). 1 \<le> jb_attempt j \<and> jb_attempt j \<le> tk_max_attempts (jb_task j)) \<and>
    (\<exists>n y. (attempt_step ^^ n) (q, s) y \<and> rq_jobs (fst y) = []) \<and> (\<forall>n y. (attempt_step ^^ n) (q, s) y \<longrightarrow> n \<le> total_left q)"
proof -
  have inv: "retry_inv q" using queue_reachable_inv [OF assms] by simp
  have "n \<le> total_left q" if "(attempt_step ^^ n) (q, s) y" for n y using attempts_bounded [OF that] inv by simp
  then show ?thesis using inv attempts_reach_empty [OF inv] unfolding retry_inv_def job_ok_def by (simp add: list_all_iff)
qed

subsection \<open>An example\<close>

text \<open>A write that fails twice and then succeeds; the state counts its calls.\<close>

definition flaky :: "nat \<Rightarrow> fault option \<times> nat" where
  "flaky n = (if n < 2 then Some (plain_fault ''i/o timeout'') else None, n + 1)"

definition flaky_task :: "nat retry_task" where
  "flaky_task = \<lparr>tk_operation = '''', tk_resource = ''r'', tk_max_attempts = 0, tk_initial_backoff = 0, tk_max_backoff = 0, tk_attempt_timeout = 0,
     tk_retryable = None, tk_do = Some flaky\<rparr>"

definition default_config :: queue_config where
  "default_config = \<lparr>rc_capacity = 0, rc_max_attempts = 0, rc_initial_backoff = 0, rc_max_backoff = 0, rc_attempt_timeout = 0\<rparr>"

definition flaky_queue :: "nat retry_queue" where
  "flaky_queue = snd (enqueue_task flaky_task (new_retry_queue default_config))"

lemma flaky_run: "run_task (hd (rq_jobs flaky_queue)) 0 = ([250 * millisecond, 500 * millisecond], 3)"
  by code_simp

theorem retry_queue_drains_witness:
  "\<exists>n y. (attempt_step ^^ n) (flaky_queue, 0) y \<and> rq_jobs (fst y) = [] \<and> n \<le> 3 \<and> length (rq_jobs flaky_queue) = 1"
proof -
  have "enqueue_task flaky_task (new_retry_queue default_config) = (fst (enqueue_task flaky_task (new_retry_queue default_config)), flaky_queue)"
    by (simp add: flaky_queue_def)
  then have "queue_run (new_retry_queue default_config, 0) (flaky_queue, 0 :: nat)" by (rule run_enqueue)
  then have r: "queue_run\<^sup>*\<^sup>* (new_retry_queue default_config, 0) (flaky_queue, 0 :: nat)" by blast
  have "total_left flaky_queue = 3" "length (rq_jobs flaky_queue) = 1" by code_simp+
  with retry_queue_drains [OF r] show ?thesis by fastforce
qed

end
