(* ===== verification/EngineCache.thy ===== *)
theory EngineCache
  imports CacheKeys Resilience ManagerState
begin

text \<open>
  The caches the persistence service keeps beside the database (the second half of \<open>internal/persistence/engine/persistence.go\<close>): for each trader its
  open positions, its recent trades, its analytics, its last decision and its conversations, in hashes of Redis when it is wired and
  else under keys of the go-zero cache.

  A value is kept as what its JSON spells; marshalling fails on a number that is not finite and loses nothing otherwise, and a value is always
  read back at the kind of key it was written at. A call of the cache may fail with an error the caller supplies. A failed write is classified and, when
  it may be retried, queued: \<open>cs_pending\<close> holds the queued writes, as data instead of closures, up to the capacity of the queue. A write
  records the lifetime it asks for; that it has passed is a step of its own (\<open>hash_passes\<close>, \<open>key_passes\<close>), which may come at any time. Metrics and
  logging are left out.
\<close>

subsection \<open>Values\<close>

record position_entry =
  pc_symbol :: string
  pc_side :: string
  pc_quantity :: f64
  pc_entry_price :: f64
  pc_leverage :: f64
  pc_confidence :: f64
  pc_risk_usd :: f64
  pc_updated_at :: int
  pc_exchange :: string

record trade_entry =
  tn_model_id :: string
  tn_symbol :: string
  tn_side :: string
  tn_quantity :: f64
  tn_entry_price :: f64
  tn_exit_price :: f64
  tn_realized :: f64
  tn_confidence :: f64
  tn_closed_at :: int
  tn_exchange :: string
  tn_entry_time :: int
  tn_leverage :: f64
  tn_position_size :: f64

record decision_entry =
  dn_model_id :: string
  dn_config_version :: int
  dn_success :: bool
  dn_timestamp :: int
  dn_symbol :: string
  dn_action :: string
  dn_confidence :: int
  dn_error :: string

datatype payload_value = PFloat f64 | PInt int | PText string

type_synonym payload = "(string, payload_value) gomap"

datatype cache_value =
  VPositions "(string, position_entry) gomap" | VTrades "trade_entry list" | VPayload payload | VDecision decision_entry | VIds "int list"

fun value_numbers :: "cache_value \<Rightarrow> f64 list" where
  "value_numbers (VPositions m) = concat (map (\<lambda>(k, e). [pc_quantity e, pc_entry_price e, pc_leverage e, pc_confidence e, pc_risk_usd e]) m)"
| "value_numbers (VTrades ts) = concat (map (\<lambda>t. [tn_quantity t, tn_entry_price t, tn_exit_price t, tn_realized t, tn_confidence t,
     tn_leverage t, tn_position_size t]) ts)"
| "value_numbers (VPayload p) = concat (map (\<lambda>(k, v). case v of PFloat x \<Rightarrow> [x] | _ \<Rightarrow> []) p)"
| "value_numbers (VDecision d) = []"
| "value_numbers (VIds ids) = []"

definition marshals :: "cache_value \<Rightarrow> bool" where
  "marshals v \<longleftrightarrow> list_all json_number (value_numbers v)"

definition unsupported_value :: fault where
  "unsupported_value = plain_fault ''json: unsupported value''"

subsection \<open>Writes and their failures\<close>

datatype cache_write =
  HashSet string string duration cache_value | HashDel string string | ExpireKey string int
| KeySet string cache_value duration | KeyDel string | ZAdd string string f64

text \<open>What is wired: Redis, the go-zero cache, the retry queue; and the lifetimes.\<close>

record cache_service =
  sv_redis :: bool
  sv_cache :: bool
  sv_queue :: bool
  sv_capacity :: nat
  sv_ttl :: ttl_set

record cache_state =
  cs_hashes :: "(string \<times> string, cache_value) gomap"
  cs_expiry :: "(string, int) gomap"
  cs_keys :: "(string, cache_value \<times> duration) gomap"
  cs_scores :: "(string \<times> string, f64) gomap"
  cs_faults :: "fault option list"
  cs_pending :: "cache_write list"

definition cache_fault :: "cache_state \<Rightarrow> fault option \<times> cache_state" where
  "cache_fault s = (case cs_faults s of [] \<Rightarrow> (None, s) | f # fs \<Rightarrow> (f, s\<lparr>cs_faults := fs\<rparr>))"

text \<open>\<open>retry\<close> marks a write that comes from the retry queue.\<close>

definition handle_cache_failure :: "cache_service \<Rightarrow> bool \<Rightarrow> cache_write \<Rightarrow> fault option \<Rightarrow> cache_state \<Rightarrow> cache_state" where
  "handle_cache_failure E retry w err s =
    (if fst (classify err) = Ignore \<or> retry then s
     else if fst (classify err) = RetryAsync \<and> sv_queue E \<and> length (cs_pending s) < sv_capacity E
     then s\<lparr>cs_pending := cs_pending s @ [w]\<rparr> else s)"

definition duration_to_seconds :: "duration \<Rightarrow> int" where
  "duration_to_seconds d = (if d \<le> 0 then 0
     else case f64_of_int (d div second) + f64_of_int (d mod second) / f64_of_int second of Fin q \<Rightarrow> \<lceil>q\<rceil> | _ \<Rightarrow> 0)"

definition ttl_duration :: "duration \<Rightarrow> duration" where
  "ttl_duration d = (if d \<le> 0 then minute else d)"

definition hash_expire :: "cache_service \<Rightarrow> bool \<Rightarrow> string \<Rightarrow> duration \<Rightarrow> cache_state \<Rightarrow> cache_state" where
  "hash_expire E retry key ttl s =
    (if \<not> sv_redis E \<or> ttl \<le> 0 then s
     else let secs = duration_to_seconds ttl in case cache_fault s of
       (Some e, s1) \<Rightarrow> handle_cache_failure E retry (ExpireKey key secs) (Some e) s1
     | (None, s1) \<Rightarrow> s1\<lparr>cs_expiry := put key secs (cs_expiry s1)\<rparr>)"

definition hash_set_json :: "cache_service \<Rightarrow> bool \<Rightarrow> string \<Rightarrow> string \<Rightarrow> duration \<Rightarrow> cache_value \<Rightarrow> cache_state \<Rightarrow> fault option \<times> cache_state" where
  "hash_set_json E retry key field ttl v s =
    (if \<not> sv_redis E \<or> trim_space field = '''' then (None, s)
     else if \<not> marshals v then (Some unsupported_value, s)
     else case cache_fault s of
       (Some e, s1) \<Rightarrow> (Some e, s1)
     | (None, s1) \<Rightarrow> (None, hash_expire E retry key ttl (s1\<lparr>cs_hashes := put (key, field) v (cs_hashes s1)\<rparr>)))"

definition hash_get_json :: "cache_service \<Rightarrow> string \<Rightarrow> string \<Rightarrow> cache_state \<Rightarrow> (fault + cache_value option) \<times> cache_state" where
  "hash_get_json E key field s =
    (if \<not> sv_redis E \<or> trim_space field = '''' then (Inr None, s)
     else case cache_fault s of
       (Some e, s1) \<Rightarrow> (if ft_cache_miss e then Inr None else Inl e, s1)
     | (None, s1) \<Rightarrow> (Inr (lookup (cs_hashes s1) (key, field)), s1))"

definition hash_del_field :: "cache_service \<Rightarrow> string \<Rightarrow> string \<Rightarrow> cache_state \<Rightarrow> fault option \<times> cache_state" where
  "hash_del_field E key field s =
    (if \<not> sv_redis E \<or> trim_space field = '''' then (None, s)
     else case cache_fault s of
       (Some e, s1) \<Rightarrow> (Some e, s1) | (None, s1) \<Rightarrow> (None, s1\<lparr>cs_hashes := del (key, field) (cs_hashes s1)\<rparr>))"

definition miss_to_none :: "fault option \<Rightarrow> fault option" where
  "miss_to_none e = (case e of Some x \<Rightarrow> if ft_cache_miss x then None else Some x | None \<Rightarrow> None)"

definition exec_write :: "cache_service \<Rightarrow> bool \<Rightarrow> cache_write \<Rightarrow> cache_state \<Rightarrow> fault option \<times> cache_state" where
  "exec_write E retry w s = (case w of
     HashSet key field ttl v \<Rightarrow> hash_set_json E retry key field ttl v s
   | HashDel key field \<Rightarrow> (case hash_del_field E key field s of (e, s1) \<Rightarrow> (miss_to_none e, s1))
   | ExpireKey key secs \<Rightarrow> (case cache_fault s of (Some e, s1) \<Rightarrow> (Some e, s1) | (None, s1) \<Rightarrow> (None, s1\<lparr>cs_expiry := put key secs (cs_expiry s1)\<rparr>))
   | KeySet key v ttl \<Rightarrow> if \<not> marshals v then (Some unsupported_value, s)
       else (case cache_fault s of (Some e, s1) \<Rightarrow> (Some e, s1) | (None, s1) \<Rightarrow> (None, s1\<lparr>cs_keys := put key (v, ttl) (cs_keys s1)\<rparr>))
   | KeyDel key \<Rightarrow> (case cache_fault s of (Some e, s1) \<Rightarrow> (miss_to_none (Some e), s1) | (None, s1) \<Rightarrow> (None, s1\<lparr>cs_keys := del key (cs_keys s1)\<rparr>))
   | ZAdd key m x \<Rightarrow> (case cache_fault s of (Some e, s1) \<Rightarrow> (Some e, s1) | (None, s1) \<Rightarrow> (None, s1\<lparr>cs_scores := put (key, m) x (cs_scores s1)\<rparr>)))"

definition run_cache_write :: "cache_service \<Rightarrow> cache_write \<Rightarrow> cache_state \<Rightarrow> cache_state" where
  "run_cache_write E w s = (case exec_write E False w s of
     (Some e, s1) \<Rightarrow> handle_cache_failure E False w (Some e) s1 | (None, s1) \<Rightarrow> s1)"

text \<open>The task the retry queue runs for a queued write.\<close>

definition pending_task :: "cache_service \<Rightarrow> cache_write \<Rightarrow> cache_state retry_task" where
  "pending_task E w = \<lparr>tk_operation = ''engine.cache'', tk_resource = '''', tk_max_attempts = 0, tk_initial_backoff = 0, tk_max_backoff = 0,
     tk_attempt_timeout = 0, tk_retryable = None, tk_do = Some (exec_write E True w)\<rparr>"

text \<open>
  The lifetime of a hash or of a key has passed. Redis drops the hash whole, with the fields of every trader; a hash that was given no lifetime stays.
\<close>

definition hash_passes :: "string \<Rightarrow> cache_state \<Rightarrow> cache_state" where
  "hash_passes key s = (case lookup (cs_expiry s) key of
     None \<Rightarrow> s
   | Some secs \<Rightarrow> s\<lparr>cs_hashes := filter (\<lambda>((k, f), v). k \<noteq> key) (cs_hashes s), cs_expiry := del key (cs_expiry s)\<rparr>)"

definition key_passes :: "string \<Rightarrow> cache_state \<Rightarrow> cache_state" where
  "key_passes key s = s\<lparr>cs_keys := del key (cs_keys s)\<rparr>"

subsection \<open>The caches of a trader\<close>

text \<open>\<open>writePositionsCache\<close>, \<open>writeTradesCache\<close>, \<open>writeAnalyticsCache\<close> and \<open>writeSinceInceptionCache\<close> differ in their keys only; \<open>None\<close> is an empty payload.\<close>

definition write_trader_cache :: "cache_service \<Rightarrow> string \<Rightarrow> string \<Rightarrow> duration \<Rightarrow> string \<Rightarrow> cache_value option \<Rightarrow> cache_state \<Rightarrow> cache_state" where
  "write_trader_cache E hkey lkey ttl0 tid v s = (let ttl = ttl_duration ttl0 in
     if sv_redis E
     then (case v of None \<Rightarrow> run_cache_write E (HashDel hkey (trader_hash_field tid)) s
       | Some x \<Rightarrow> run_cache_write E (HashSet hkey (trader_hash_field tid) ttl x) s)
     else if \<not> sv_cache E then s
     else (case v of None \<Rightarrow> run_cache_write E (KeyDel lkey) s
       | Some x \<Rightarrow> if ttl \<le> 0 then s else run_cache_write E (KeySet lkey x ttl) s))"

definition write_positions_cache :: "cache_service \<Rightarrow> string \<Rightarrow> (string, position_entry) gomap \<Rightarrow> cache_state \<Rightarrow> cache_state" where
  "write_positions_cache E tid m = write_trader_cache E trader_positions_hash_key (positions_hash_key tid) (positions_ttl (sv_ttl E)) tid
     (if m = [] then None else Some (VPositions m))"

definition write_trades_cache :: "cache_service \<Rightarrow> string \<Rightarrow> trade_entry list \<Rightarrow> cache_state \<Rightarrow> cache_state" where
  "write_trades_cache E tid ts = write_trader_cache E trader_trades_recent_hash_key (trades_recent_key tid) (trades_recent_ttl (sv_ttl E)) tid
     (if ts = [] then None else Some (VTrades ts))"

definition write_analytics_cache :: "cache_service \<Rightarrow> string \<Rightarrow> payload \<Rightarrow> cache_state \<Rightarrow> cache_state" where
  "write_analytics_cache E tid p = write_trader_cache E trader_analytics_hash_key (analytics_key tid) (analytics_ttl (sv_ttl E)) tid
     (if p = [] then None else Some (VPayload p))"

definition write_since_inception_cache :: "cache_service \<Rightarrow> string \<Rightarrow> payload \<Rightarrow> cache_state \<Rightarrow> cache_state" where
  "write_since_inception_cache E tid p =
     write_trader_cache E trader_since_inception_hash_key (since_inception_key tid) (since_inception_ttl (sv_ttl E)) tid
     (if p = [] then None else Some (VPayload p))"

text \<open>Reading: from the hash, else from the key; a miss is empty.\<close>

definition load_value :: "cache_service \<Rightarrow> string \<Rightarrow> string \<Rightarrow> string \<Rightarrow> cache_state \<Rightarrow> (fault + cache_value option) \<times> cache_state" where
  "load_value E hkey lkey tid s =
    (if sv_redis E then hash_get_json E hkey (trader_hash_field tid) s
     else if \<not> sv_cache E then (Inr None, s)
     else case cache_fault s of
       (Some e, s1) \<Rightarrow> (if ft_cache_miss e then Inr None else Inl e, s1)
     | (None, s1) \<Rightarrow> (Inr (map_option fst (lookup (cs_keys s1) lkey)), s1))"

definition load_positions_cache :: "cache_service \<Rightarrow> string \<Rightarrow> cache_state \<Rightarrow> (fault + (string, position_entry) gomap) \<times> cache_state" where
  "load_positions_cache E tid s = (case load_value E trader_positions_hash_key (positions_hash_key tid) tid s of
     (Inl e, s1) \<Rightarrow> (Inl e, s1) | (Inr v, s1) \<Rightarrow> (Inr (case v of Some (VPositions m) \<Rightarrow> m | _ \<Rightarrow> []), s1))"

definition load_trades_cache :: "cache_service \<Rightarrow> string \<Rightarrow> cache_state \<Rightarrow> (fault + trade_entry list) \<times> cache_state" where
  "load_trades_cache E tid s = (case load_value E trader_trades_recent_hash_key (trades_recent_key tid) tid s of
     (Inl e, s1) \<Rightarrow> (Inl e, s1) | (Inr v, s1) \<Rightarrow> (Inr (case v of Some (VTrades ts) \<Rightarrow> ts | _ \<Rightarrow> []), s1))"

definition cache_open_position :: "cache_service \<Rightarrow> string \<Rightarrow> string \<Rightarrow> position_entry option \<Rightarrow> cache_state \<Rightarrow> cache_state" where
  "cache_open_position E tid symbol entry s =
    (if \<not> sv_redis E \<and> \<not> sv_cache E then s
     else case load_positions_cache E tid s of
       (Inl e, s1) \<Rightarrow> s1
     | (Inr m, s1) \<Rightarrow> let up = to_upper (trim_space symbol) in
         if up = '''' then s1
         else write_positions_cache E tid (case entry of None \<Rightarrow> del up m
           | Some e \<Rightarrow> put up (e\<lparr>pc_symbol := (if pc_symbol e = '''' then up else pc_symbol e), pc_exchange := trim_space (pc_exchange e)\<rparr>) m) s1)"

definition recent_trades_limit :: nat where "recent_trades_limit = 100"
definition conversations_cache_limit :: nat where "conversations_cache_limit = 20"

definition append_recent_trade :: "cache_service \<Rightarrow> string \<Rightarrow> trade_entry \<Rightarrow> cache_state \<Rightarrow> cache_state" where
  "append_recent_trade E tid entry s =
    (if \<not> sv_redis E \<and> \<not> sv_cache E then s
     else case load_trades_cache E tid s of
       (Inl e, s1) \<Rightarrow> s1 | (Inr ts, s1) \<Rightarrow> write_trades_cache E tid (take recent_trades_limit (entry # ts)) s1)"

text \<open>What the summary of a decision cycle needs of it; an action is a map.\<close>

record decision_cycle =
  dc_trader_id :: string
  dc_config_version :: int
  dc_timestamp :: time
  dc_cycle_number :: int
  dc_prompt_digest :: string
  dc_cot_trace :: string
  dc_decisions_json :: string
  dc_error :: string
  dc_success :: bool
  dc_actions :: "payload list"

definition text_member :: "payload \<Rightarrow> string \<Rightarrow> string" where
  "text_member p k = (case lookup p k of Some (PText s) \<Rightarrow> s | _ \<Rightarrow> '''')"

definition int_member :: "payload \<Rightarrow> string \<Rightarrow> int" where
  "int_member p k = (case lookup p k of Some (PInt n) \<Rightarrow> n | Some (PFloat (Fin q)) \<Rightarrow> half_away q | _ \<Rightarrow> 0)"

definition unix_milli :: "time \<Rightarrow> int" where
  "unix_milli t = t div millisecond"

definition decision_summary :: "time \<Rightarrow> string \<Rightarrow> int \<Rightarrow> decision_cycle \<Rightarrow> decision_entry" where
  "decision_summary now tid version c =
    (let a = (case dc_actions c of [] \<Rightarrow> [] | p # _ \<Rightarrow> p) in
     \<lparr>dn_model_id = tid, dn_config_version = version, dn_success = dc_success c,
      dn_timestamp = unix_milli (if is_zero_time (dc_timestamp c) then now else dc_timestamp c),
      dn_symbol = text_member a ''symbol'', dn_action = text_member a ''action'', dn_confidence = int_member a ''confidence'',
      dn_error = dc_error c\<rparr>)"

definition cache_decision_summary :: "cache_service \<Rightarrow> time \<Rightarrow> string \<Rightarrow> int \<Rightarrow> decision_cycle \<Rightarrow> cache_state \<Rightarrow> cache_state" where
  "cache_decision_summary E now tid version c s =
    (let entry = VDecision (decision_summary now tid version c); ttl = ttl_duration (decision_last_ttl (sv_ttl E)) in
     if ttl \<le> 0 then s
     else if sv_redis E then run_cache_write E (HashSet trader_decision_last_hash_key (trader_hash_field tid) ttl entry) s
     else if \<not> sv_cache E then s else run_cache_write E (KeySet (decision_last_key tid) entry ttl) s)"

definition cache_conversation_id :: "cache_service \<Rightarrow> string \<Rightarrow> int \<Rightarrow> cache_state \<Rightarrow> cache_state" where
  "cache_conversation_id E tid i s =
    (if \<not> sv_cache E \<or> i \<le> 0 \<or> trim_space tid = '''' then s
     else let key = conversations_key tid; ttl = ttl_duration (conversations_ttl (sv_ttl E)) in
       case cache_fault s of
         (Some e, s1) \<Rightarrow> if \<not> ft_cache_miss e then s1
           else if ttl \<le> 0 then s1 else run_cache_write E (KeySet key (VIds (take conversations_cache_limit [i])) ttl) s1
       | (None, s1) \<Rightarrow>
         let ids = (case lookup (cs_keys s1) key of Some (VIds is, _) \<Rightarrow> is | _ \<Rightarrow> []) in
         if ttl \<le> 0 then s1 else run_cache_write E (KeySet key (VIds (take conversations_cache_limit (i # ids))) ttl) s1)"

definition cache_leaderboard_score :: "cache_service \<Rightarrow> time \<Rightarrow> string \<Rightarrow> f64 \<Rightarrow> cache_state \<Rightarrow> cache_state" where
  "cache_leaderboard_score E now tid score s =
    (if sv_redis E then run_cache_write E (ZAdd leaderboard_zset_key tid score) s
     else if \<not> sv_cache E then s
     else let ttl = ttl_duration (leaderboard_ttl (sv_ttl E)) in
       if ttl \<le> 0 then s
       else run_cache_write E (KeySet leaderboard_cache_key (VPayload [(''model_id'', PText tid), (''score'', PFloat score),
         (''updated_at'', PInt (unix_milli now))]) ttl) s)"

end
