(* ===== verification/GoMath.thy ===== *)
theory GoMath
  imports GoFormat
begin

text \<open>
  The parts of Go's \<open>math\<close> and \<open>math/big\<close> the exchange client formats prices and sizes with: rounding to an integer, decimal logarithms, powers of
  ten and the rationals \<open>big.Rat\<close> reads. The logarithm is the algorithm of the library (the same on amd64 in assembly), operation by operation, so that
  its last bit is the one the program sees; its constants are the \<open>float64\<close> values of the library's.
\<close>

subsection \<open>Rounding\<close>

definition math_round :: "f64 \<Rightarrow> f64" where
  "math_round x = (case x of Fin q \<Rightarrow> Fin (of_int (half_away q)) | _ \<Rightarrow> x)"

definition math_floor :: "f64 \<Rightarrow> f64" where
  "math_floor x = (case x of Fin q \<Rightarrow> Fin (of_int \<lfloor>q\<rfloor>) | _ \<Rightarrow> x)"

definition is_finite :: "f64 \<Rightarrow> bool" where
  "is_finite x \<longleftrightarrow> \<not> is_nan x \<and> \<not> is_inf x"

subsection \<open>Logarithms\<close>

text \<open>\<open>Frexp\<close>: a fraction between a half and one, and the power of two it is scaled with.\<close>

definition scale2 :: "rat \<Rightarrow> int \<Rightarrow> rat" where
  "scale2 q k = (if 0 \<le> k then q * of_int (pow2 k) else q / of_int (pow2 (- k)))"

definition frexp :: "rat \<Rightarrow> rat \<times> int" where
  "frexp q = (if q = 0 then (0, 0) else case quotient_of q of (n, d) \<Rightarrow> let e = flog2 \<bar>n\<bar> d + 1 in (scale2 q (- e), e))"

definition log_c1 :: f64 where "log_c1 = Fin (6004799503160723 / 2 ^ 53)"
definition log_c2 :: f64 where "log_c2 = Fin (1801439850921601 / 2 ^ 52)"
definition log_c3 :: f64 where "log_c3 = Fin (5146971033736025 / 2 ^ 54)"
definition log_c4 :: f64 where "log_c4 = Fin (8006390766270639 / 2 ^ 55)"
definition log_c5 :: f64 where "log_c5 = Fin (3275661152453103 / 2 ^ 54)"
definition log_c6 :: f64 where "log_c6 = Fin (5517391500461727 / 2 ^ 55)"
definition log_c7 :: f64 where "log_c7 = Fin (1332903234475153 / 2 ^ 53)"
definition ln2_hi :: f64 where "ln2_hi = Fin (2977044471 / 2 ^ 32)"
definition ln2_lo :: f64 where "ln2_lo = Fin (3691024475790907 / 2 ^ 84)"
definition half_sqrt2 :: f64 where "half_sqrt2 = Fin (6369051672525773 / 2 ^ 53)"
definition log2_e :: f64 where "log2_e = Fin (3248660424278399 / 2 ^ 51)"
definition log10_2 :: f64 where "log10_2 = Fin (5422874305198591 / 2 ^ 54)"

definition log_series :: "f64 \<Rightarrow> f64 \<Rightarrow> f64" where
  "log_series f k =
    (let s = f / (lit 2 + f); s2 = s * s; s4 = s2 * s2;
         t1 = s2 * (log_c1 + s4 * (log_c3 + s4 * (log_c5 + s4 * log_c7)));
         t2 = s4 * (log_c2 + s4 * (log_c4 + s4 * log_c6));
         r = t1 + t2; hfsq = lit (1 / 2) * f * f
     in k * ln2_hi - ((hfsq - (s * (hfsq + r) + k * ln2_lo)) - f))"

definition math_log :: "f64 \<Rightarrow> f64" where
  "math_log x = (case x of
     NaN \<Rightarrow> NaN
   | Infty neg \<Rightarrow> (if neg then NaN else x)
   | Fin q \<Rightarrow> if q < 0 then NaN else if q = 0 then Infty True
       else (case frexp q of (f1, ki) \<Rightarrow>
         if Fin f1 < half_sqrt2 then log_series (Fin (f1 * 2) - lit 1) (f64_of_int (ki - 1))
         else log_series (Fin f1 - lit 1) (f64_of_int ki)))"

definition math_log2 :: "f64 \<Rightarrow> f64" where
  "math_log2 x = (case x of
     Fin q \<Rightarrow> (case frexp q of (fr, e) \<Rightarrow> if fr = 1 / 2 then f64_of_int (e - 1) else math_log (Fin fr) * log2_e + f64_of_int e)
   | _ \<Rightarrow> math_log x * log2_e + lit 0)"

definition math_log10 :: "f64 \<Rightarrow> f64" where
  "math_log10 x = math_log2 x * log10_2"

subsection \<open>Powers of ten\<close>

text \<open>\<open>Pow(10, n)\<close> for an integer \<open>n\<close>: the loop squares the fraction of ten and adds up the exponents apart.\<close>

function pow_loop :: "nat \<Rightarrow> f64 \<Rightarrow> int \<Rightarrow> f64 \<Rightarrow> int \<Rightarrow> f64 \<times> int" where
  "pow_loop i a1 ae x1 xe =
    (if i = 0 then (a1, ae)
     else if xe < - 4096 \<or> 4096 < xe then (a1, ae + xe)
     else let a2 = (if odd i then a1 * x1 else a1); ae2 = (if odd i then ae + xe else ae); sq = x1 * x1 in
       if sq < lit (1 / 2) then pow_loop (i div 2) a2 ae2 (sq + sq) (2 * xe - 1) else pow_loop (i div 2) a2 ae2 sq (2 * xe))"
  by pat_completeness auto
termination by (relation "measure (\<lambda>(i, _). i)") auto

declare pow_loop.simps [simp del]

definition ldexp :: "f64 \<Rightarrow> int \<Rightarrow> f64" where
  "ldexp x e = (case x of Fin q \<Rightarrow> fround (scale2 q e) | _ \<Rightarrow> x)"

definition pow10 :: "int \<Rightarrow> f64" where
  "pow10 n = (if n = 0 then lit 1 else if n = 1 then lit 10 else case pow_loop (nat \<bar>n\<bar>) (lit 1) 0 (lit (5 / 8)) 4 of (a1, ae) \<Rightarrow>
     if n < 0 then ldexp (lit 1 / a1) (- ae) else ldexp a1 ae)"

subsection \<open>Rationals\<close>

text \<open>
  \<open>Rat.SetString\<close>: a fraction of two integers, or a sign, a mantissa with a point and an exponent, decimal or binary, with nothing after it. A number may
  have a base prefix and single underscores between its digits; without a point, a leading zero makes it octal.

  The scanner of digits keeps what it saw last, as in the library: a digit, an underscore, or anything else (a point). It returns the value, the
  number of digits, the number of those before the point, whether an underscore was out of place, and what it left.
\<close>

definition digit_of :: "char \<Rightarrow> int" where
  "digit_of c = (if is_digit c then code c - 48
     else if 97 \<le> code c \<and> code c \<le> 122 then code c - 87
     else if 65 \<le> code c \<and> code c \<le> 90 then code c - 55 else 63)"

fun scan_digits :: "int \<Rightarrow> bool \<Rightarrow> char \<Rightarrow> bool \<Rightarrow> int \<Rightarrow> nat \<Rightarrow> nat option \<Rightarrow> string \<Rightarrow> int \<times> nat \<times> nat option \<times> bool \<times> string" where
  "scan_digits b point prev bad v n dp [] = (v, n, dp, bad \<or> prev = CHR ''_'', [])"
| "scan_digits b point prev bad v n dp (c # s) =
     (if c = CHR ''.'' \<and> point then scan_digits b False (CHR ''.'') (bad \<or> prev = CHR ''_'') v n (Some n) s
      else if c = CHR ''_'' then scan_digits b point (CHR ''_'') (bad \<or> prev \<noteq> CHR ''0'') v n dp s
      else if b \<le> digit_of c then (v, n, dp, bad \<or> prev = CHR ''_'', c # s)
      else scan_digits b point (CHR ''0'') bad (v * b + digit_of c) (Suc n) dp s)"

text \<open>\<open>nat.scan\<close> with the base left open: the base, whether it is the old octal one, the digits counted and what was seen before the rest.\<close>

definition scan_prefix :: "bool \<Rightarrow> string \<Rightarrow> int \<times> bool \<times> nat \<times> char \<times> string" where
  "scan_prefix point s = (case s of
     [] \<Rightarrow> (10, False, 0, CHR ''.'', s)
   | c # t \<Rightarrow> if c \<noteq> CHR ''0'' then (10, False, 0, CHR ''.'', s)
     else (case t of
         [] \<Rightarrow> (10, False, 1, CHR ''0'', t)
       | d # u \<Rightarrow> if d = CHR ''b'' \<or> d = CHR ''B'' then (2, False, 0, CHR ''0'', u)
         else if d = CHR ''o'' \<or> d = CHR ''O'' then (8, False, 0, CHR ''0'', u)
         else if d = CHR ''x'' \<or> d = CHR ''X'' then (16, False, 0, CHR ''0'', u)
         else if \<not> point then (8, True, 0, CHR ''0'', t) else (10, False, 1, CHR ''0'', t)))"

text \<open>The value, the base, minus the number of digits after the point, and the rest.\<close>

definition scan_nat :: "bool \<Rightarrow> string \<Rightarrow> (int \<times> int \<times> int \<times> string) option" where
  "scan_nat point s = (case scan_prefix point s of (b, octal, n0, prev, t) \<Rightarrow>
     (case scan_digits b point prev False 0 n0 None t of (v, n, dp, bad, u) \<Rightarrow>
       if bad then None
       else if n = 0 then (if octal then Some (0, 10, 0, u) else None)
       else Some (v, b, case dp of None \<Rightarrow> 0 | Some d \<Rightarrow> int d - int n, u)))"

text \<open>\<open>scanExponent\<close>: the exponent, its base and the rest.\<close>

definition scan_exponent :: "string \<Rightarrow> (int \<times> int \<times> string) option" where
  "scan_exponent s = (case s of
     [] \<Rightarrow> Some (0, 10, [])
   | c # t \<Rightarrow> if c \<notin> {CHR ''e'', CHR ''E'', CHR ''p'', CHR ''P''} then Some (0, 10, s)
     else (case read_sign t of (neg, u) \<Rightarrow>
       (case scan_digits 10 False (CHR ''.'') False 0 0 None u of (v, n, dp, bad, w) \<Rightarrow>
         let e = (if neg then - v else v) in
         if n = 0 \<or> bad \<or> e < - (2 ^ 63) \<or> 2 ^ 63 \<le> e then None
         else Some (e, if c = CHR ''e'' \<or> c = CHR ''E'' then 10 else 2, w))))"

definition rat_power :: "int \<Rightarrow> int \<Rightarrow> rat" where
  "rat_power b k = (if 0 \<le> k then of_int (b ^ nat k) else 1 / of_int (b ^ nat (- k)))"

text \<open>The mantissa scaled: the powers of five and of two apart, each within its limit. A mantissa of zero is zero whatever the exponent is.\<close>

definition scaled_rat :: "int \<Rightarrow> int \<Rightarrow> int \<Rightarrow> int \<Rightarrow> int \<Rightarrow> rat option" where
  "scaled_rat m b d eb e =
    (let e5 = (if b = 10 then d else 0) + (if eb = 10 then e else 0);
         e2 = d * (if b = 8 then 3 else if b = 16 then 4 else 1) + e in
     if m = 0 then Some 0
     else if 1000000 < \<bar>e5\<bar> \<or> 10000000 < \<bar>e2\<bar> then None
     else Some (of_int m * rat_power 5 e5 * rat_power 2 e2))"

definition int_set_string :: "string \<Rightarrow> int option" where
  "int_set_string s = (case read_sign s of (neg, t) \<Rightarrow> (case scan_nat False t of
     Some (n, _, _, []) \<Rightarrow> Some (if neg then - n else n) | _ \<Rightarrow> None))"

definition rat_set_string :: "string \<Rightarrow> rat option" where
  "rat_set_string s =
    (if CHR ''/'' \<in> set s
     then (case int_set_string (takeWhile (\<lambda>c. c \<noteq> CHR ''/'') s) of
         None \<Rightarrow> None
       | Some n \<Rightarrow> (case scan_nat False (tl (dropWhile (\<lambda>c. c \<noteq> CHR ''/'') s)) of
           Some (d, _, _, []) \<Rightarrow> if d = 0 then None else Some (of_int n / of_int d) | _ \<Rightarrow> None))
     else (case read_sign s of (neg, t) \<Rightarrow> (case scan_nat True t of
         None \<Rightarrow> None
       | Some (m, b, d, u) \<Rightarrow> (case scan_exponent u of
           Some (e, eb, []) \<Rightarrow> map_option (\<lambda>q. if neg then - q else q) (scaled_rat m b d eb e) | _ \<Rightarrow> None))))"

definition rat_float64 :: "rat \<Rightarrow> f64" where
  "rat_float64 q = fround q"

lemma log10_examples: "math_log10 (lit 1000) = lit 3"
  by code_simp

lemma pow10_examples: "pow10 5 = lit 100000" "pow10 (- 3) = lit (1 / 1000)"
  by code_simp+

lemma round_examples: "math_round (lit (5 / 2)) = Fin 3" "math_round (lit (- 5 / 2)) = Fin (- 3)"
  by code_simp+

lemma rat_examples:
  "rat_set_string ''-1.50e2'' = Some (- 150)" "rat_set_string ''0e99999999'' = Some 0" "rat_set_string ''1e99999999'' = None"
  "rat_set_string ''+.5'' = Some (1 / 2)" "rat_set_string ''-'' = None" "rat_set_string ''1.2.3'' = None"
  by code_simp+

lemma rat_spellings:
  "rat_set_string ''-3/4'' = Some (- 3 / 4)" "rat_set_string ''0x1.8p1'' = Some 3" "rat_set_string ''1_000.5'' = Some (2001 / 2)"
  "rat_set_string ''010/1'' = Some 8" "rat_set_string ''010'' = Some 10" "rat_set_string ''1__0'' = None" "rat_set_string ''1/0'' = None"
  "rat_set_string ''1/-2'' = None" "rat_set_string ''0b.1'' = Some (1 / 2)"
  by code_simp+

end
