(* ===== verification/HyperliquidWire.thy ===== *)
theory HyperliquidWire
  imports GoMath Exchange Json "HOL-Library.Word"
begin

text \<open>
  What the Hyperliquid client sends and reads (\<open>pkg/exchange/hyperliquid/types.go\<close>, \<open>order.go\<close>, \<open>modify.go\<close>, \<open>auth.go\<close> and the JSON tags of
  \<open>pkg/exchange/types.go\<close>): the action payloads and the builders that check and convert orders, cancellations and modifications, the decoders of the
  responses over JSON values, and the signed request. What \<open>go-ethereum\<close> and \<open>msgpack\<close> compute is the record \<open>hl_crypto\<close> of arbitrary functions.

  Shown: the action one order is built into holds exactly that order, with a size that denotes a positive number and, when the order is of one type, a
  positive price where it acts (\<open>built_order_posted\<close>). The numbers are read as \<open>big.Rat\<close> reads them, so that a fraction passes too
  (\<open>other_spellings_pass\<close>), and an order with a trigger price beside a limit type is sent with a price nothing looked at
  (\<open>limit_price_unchecked\<close>); a modification, other than an order, is sent unchecked (\<open>modify_sends_unchecked\<close>). The byte rewriting before the digest
  never grows a message, leaves one without the byte 0xda alone and damages an encoded integer that contains it (\<open>rewriting_damages_integers\<close>).
\<close>

subsection \<open>Operations on a world\<close>

text \<open>
  An operation takes the state it runs in to a result and a state. \<open>hl_bind\<close> composes two of them and stops at an error, \<open>hl_try\<close> drops one. A post
  is refused by the transport, answered by a body that cannot be read, or answered.
\<close>

type_synonym ('a, 's) operation = "'s \<Rightarrow> (goerror + 'a) \<times> 's"

datatype http_reply = Refused goerror | Unreadable goerror | Reply int string

definition success_status :: "int \<Rightarrow> bool" where
  "success_status n \<longleftrightarrow> 200 \<le> n \<and> n < 300"

definition hl_ret :: "'a \<Rightarrow> ('a, 's) operation" where
  "hl_ret x w = (Inr x, w)"

definition hl_fail :: "goerror \<Rightarrow> ('a, 's) operation" where
  "hl_fail e w = (Inl e, w)"

definition hl_bind :: "('a, 's) operation \<Rightarrow> ('a \<Rightarrow> ('b, 's) operation) \<Rightarrow> ('b, 's) operation" where
  "hl_bind m k w = (case m w of (Inl e, w1) \<Rightarrow> (Inl e, w1) | (Inr x, w1) \<Rightarrow> k x w1)"

definition hl_try :: "('a, 's) operation \<Rightarrow> (unit, 's) operation" where
  "hl_try m w = (case m w of (_, w1) \<Rightarrow> (Inr (), w1))"

definition hl_lift :: "goerror + 'a \<Rightarrow> ('a, 's) operation" where
  "hl_lift r w = (r, w)"

text \<open>\<open>keeps R m\<close>: running \<open>m\<close> relates the world before to the world after, error or not.\<close>

definition keeps :: "('s \<Rightarrow> 's \<Rightarrow> bool) \<Rightarrow> ('a, 's) operation \<Rightarrow> bool" where
  "keeps R m \<longleftrightarrow> (\<forall>w. R w (snd (m w)))"

lemma keepsD: "keeps R m \<Longrightarrow> m w = (r, w') \<Longrightarrow> R w w'"
  by (metis keeps_def snd_conv)

locale world_relation =
  fixes R :: "'s \<Rightarrow> 's \<Rightarrow> bool"
  assumes R_refl: "R w w"
    and R_trans: "R u v \<Longrightarrow> R v w \<Longrightarrow> R u w"
begin

lemma ret: "keeps R (hl_ret x)"
  by (simp add: keeps_def hl_ret_def R_refl)

lemma fail: "keeps R (hl_fail e)"
  by (simp add: keeps_def hl_fail_def R_refl)

lemma lift: "keeps R (hl_lift r)"
  by (simp add: keeps_def hl_lift_def R_refl)

lemma bind: "keeps R m \<Longrightarrow> (\<And>x. keeps R (k x)) \<Longrightarrow> keeps R (hl_bind m k)"
  by (auto simp: keeps_def hl_bind_def split: prod.splits sum.splits intro: R_trans; metis R_trans snd_conv)

lemma attempt: "keeps R m \<Longrightarrow> keeps R (hl_try m)"
  by (auto simp: keeps_def hl_try_def split: prod.splits; metis snd_conv)

end

subsection \<open>Payloads\<close>

record trigger_payload =
  tp_is_market :: bool
  tp_trigger_px :: string
  tp_tpsl :: string
  tp_trigger_rel :: string

record order_payload =
  op_asset :: int
  op_is_buy :: bool
  op_limit_px :: string
  op_sz :: string
  op_reduce_only :: bool
  op_limit :: "string option"
  op_trigger :: "trigger_payload option"
  op_cloid :: string

record builder_payload =
  bp_builder :: string
  bp_fee :: int

record cancel_payload =
  cp_asset :: int
  cp_oid :: int

record cloid_payload =
  cc_asset :: int
  cc_cloid :: string

datatype order_ident = ByOid int | ByCloid string

record modify_payload =
  mp_ident :: order_ident
  mp_order :: order_payload

text \<open>The \<open>Action\<close> structure and the other bodies an exchange request may have.\<close>

record plain_action =
  ac_type :: string
  ac_orders :: "order_payload list"
  ac_cancels :: "cancel_payload list"
  ac_grouping :: string
  ac_builder :: "builder_payload option"
  ac_asset :: "int option"
  ac_is_cross :: "bool option"
  ac_leverage :: int

datatype exchange_action =
  Plain plain_action
| CancelByCloid "cloid_payload list"
| Modify modify_payload
| BatchModify "modify_payload list"

definition zero_action :: "string \<Rightarrow> plain_action" where
  "zero_action t = \<lparr>ac_type = t, ac_orders = [], ac_cancels = [], ac_grouping = '''', ac_builder = None, ac_asset = None,
     ac_is_cross = None, ac_leverage = 0\<rparr>"

definition action_type :: "exchange_action \<Rightarrow> string" where
  "action_type a = (case a of Plain p \<Rightarrow> ac_type p | CancelByCloid _ \<Rightarrow> ''cancelByCloid'' | Modify _ \<Rightarrow> ''modify''
     | BatchModify _ \<Rightarrow> ''batchModify'')"

record info_request =
  ir_type :: string
  ir_user :: string
  ir_vault :: string

definition info_query :: "string \<Rightarrow> string \<Rightarrow> info_request" where
  "info_query t u = \<lparr>ir_type = t, ir_user = u, ir_vault = ''''\<rparr>"

subsection \<open>Checking and converting orders\<close>

definition invalid_asset :: goerror where "invalid_asset = Errorf ''hyperliquid: asset index must be non-negative'' []"
definition invalid_price :: goerror where "invalid_price = Errorf ''hyperliquid: price must be positive'' []"
definition invalid_size :: goerror where "invalid_size = Errorf ''hyperliquid: size must be positive'' []"

definition is_positive_decimal :: "string \<Rightarrow> bool" where
  "is_positive_decimal v = (case rat_set_string (trim_space v) of None \<Rightarrow> False | Some q \<Rightarrow> 0 < q)"

definition trim_prefix :: "char \<Rightarrow> string \<Rightarrow> string" where
  "trim_prefix c s = (case s of d # t \<Rightarrow> if d = c then t else s | [] \<Rightarrow> s)"

definition is_zero_decimal :: "string \<Rightarrow> bool" where
  "is_zero_decimal v =
    (let s = trim_space v in
     if s = '''' then True
     else dropWhile (\<lambda>c. c = CHR ''0'') (filter (\<lambda>c. c \<noteq> CHR ''.'') (trim_prefix (CHR ''-'') (trim_prefix (CHR ''+'') s))) = '''')"

definition validate_order :: "order \<Rightarrow> goerror option" where
  "validate_order x =
    (if o_asset x < 0 then Some invalid_asset
     else if trim_space (o_sz x) = '''' \<or> \<not> is_positive_decimal (o_sz x) then Some invalid_size
     else if (ot_trigger (o_type x) \<noteq> None \<or> trim_space (o_trigger_px x) \<noteq> '''') \<and> \<not> is_positive_decimal (o_trigger_px x)
     then Some (Errorf ''hyperliquid: trigger price must be positive'' [])
     else if \<not> (ot_trigger (o_type x) \<noteq> None \<or> trim_space (o_trigger_px x) \<noteq> '''') \<and>
       (trim_space (o_limit_px x) = '''' \<or> \<not> is_positive_decimal (o_limit_px x)) then Some invalid_price
     else if 128 < length (o_cloid x) then Some (Errorf ''hyperliquid: cloid longer than 128 characters'' [])
     else None)"

definition convert_order :: "order \<Rightarrow> goerror + order_payload" where
  "convert_order x =
    (let base = \<lparr>op_asset = o_asset x, op_is_buy = o_is_buy x, op_limit_px = o_limit_px x, op_sz = o_sz x,
       op_reduce_only = o_reduce_only x, op_limit = None, op_trigger = None, op_cloid = o_cloid x\<rparr> in
     if ot_trigger (o_type x) \<noteq> None \<or> (trim_space (o_trigger_px x) \<noteq> '''' \<and> ot_limit (o_type x) = None)
     then if trim_space (o_trigger_px x) = '''' then Inl (Errorf ''hyperliquid: trigger order requires trigger price'' [])
       else Inr (base\<lparr>op_trigger := Some \<lparr>tp_is_market = (case ot_trigger (o_type x) of Some t \<Rightarrow> trg_is_market t | None \<Rightarrow> False),
         tp_trigger_px = o_trigger_px x, tp_tpsl = (case ot_trigger (o_type x) of Some t \<Rightarrow> trg_tpsl t | None \<Rightarrow> ''''),
         tp_trigger_rel = o_trigger_rel x\<rparr>\<rparr>)
     else case ot_limit (o_type x) of
       None \<Rightarrow> Inl (Errorf ''hyperliquid: order type not specified (limit or trigger)'' [])
     | Some l \<Rightarrow> Inr (base\<lparr>op_limit := Some (lim_tif l)\<rparr>))"

definition indexed :: "string \<Rightarrow> nat \<Rightarrow> goerror \<Rightarrow> goerror" where
  "indexed what i e = Wrapf (what @ ''[%d]: %w'') [itoa (int i)] e"

text \<open>One round of the loop of \<open>buildPlaceOrderAction\<close>, on the grouping (and whether an order named it), the builder and the payloads.\<close>

record build_state =
  bs_grouping :: string
  bs_explicit :: bool
  bs_builder :: "builder_payload option"
  bs_payloads :: "order_payload list"

definition join_grouping :: "nat \<Rightarrow> order \<Rightarrow> build_state \<Rightarrow> goerror + build_state" where
  "join_grouping i x s =
    (let g = trim_space (o_grouping x) in
     if g = '''' then Inr s
     else if \<not> bs_explicit s then Inr (s\<lparr>bs_grouping := g, bs_explicit := True\<rparr>)
     else if bs_grouping s \<noteq> g
     then Inl (Errorf ''order[%d]: grouping %q mismatches previous grouping %q'' [itoa (int i), g, bs_grouping s])
     else Inr s)"

definition join_builder :: "nat \<Rightarrow> order \<Rightarrow> build_state \<Rightarrow> goerror + build_state" where
  "join_builder i x s = (case o_builder x of
     None \<Rightarrow> Inr s
   | Some b \<Rightarrow>
       if trim_space (bi_name b) = '''' then Inl (Errorf ''order[%d]: builder name required when builder is set'' [itoa (int i)])
       else if bi_fee_bps b < 0 then Inl (Errorf ''order[%d]: builder fee must be non-negative'' [itoa (int i)])
       else let c = \<lparr>bp_builder = bi_name b, bp_fee = bi_fee_bps b\<rparr> in
         (case bs_builder s of
            None \<Rightarrow> Inr (s\<lparr>bs_builder := Some c\<rparr>)
          | Some c0 \<Rightarrow> if c0 \<noteq> c then Inl (Errorf ''order[%d]: builder configuration must match previous orders'' [itoa (int i)])
              else Inr s))"

definition add_order :: "nat \<Rightarrow> order \<Rightarrow> build_state \<Rightarrow> goerror + build_state" where
  "add_order i x s = (case validate_order x of
     Some e \<Rightarrow> Inl (indexed ''order'' i e)
   | None \<Rightarrow> (case join_grouping i x s of
       Inl e \<Rightarrow> Inl e
     | Inr s1 \<Rightarrow> (case join_builder i x s1 of
         Inl e \<Rightarrow> Inl e
       | Inr s2 \<Rightarrow> (case convert_order x of
           Inl e \<Rightarrow> Inl (indexed ''order'' i e)
         | Inr p \<Rightarrow> Inr (s2\<lparr>bs_payloads := bs_payloads s2 @ [p]\<rparr>)))))"

fun add_orders :: "nat \<Rightarrow> order list \<Rightarrow> build_state \<Rightarrow> goerror + build_state" where
  "add_orders i [] s = Inr s"
| "add_orders i (x # xs) s = (case add_order i x s of Inl e \<Rightarrow> Inl e | Inr s1 \<Rightarrow> add_orders (Suc i) xs s1)"

definition build_place_order_action :: "order list \<Rightarrow> goerror + exchange_action" where
  "build_place_order_action xs =
    (case add_orders 0 xs \<lparr>bs_grouping = ''na'', bs_explicit = False, bs_builder = None, bs_payloads = []\<rparr> of
       Inl e \<Rightarrow> Inl e
     | Inr s \<Rightarrow> Inr (Plain ((zero_action ''order'')\<lparr>ac_grouping := bs_grouping s, ac_builder := bs_builder s, ac_orders := bs_payloads s\<rparr>)))"

definition build_cancel_action :: "cancel_payload list \<Rightarrow> exchange_action" where
  "build_cancel_action cs = Plain ((zero_action ''cancel'')\<lparr>ac_cancels := cs\<rparr>)"

definition check_cloid_cancel :: "nat \<Rightarrow> cloid_payload \<Rightarrow> goerror + cloid_payload" where
  "check_cloid_cancel i c =
    (let cloid = trim_space (cc_cloid c) in
     if cc_asset c < 0 then Inl (Errorf ''hyperliquid: cancel[%d]: asset must be non-negative'' [itoa (int i)])
     else if cloid = '''' then Inl (Errorf ''hyperliquid: cancel[%d]: cloid is required'' [itoa (int i)])
     else if 128 < length cloid then Inl (Errorf ''hyperliquid: cancel[%d]: cloid exceeds 128 characters'' [itoa (int i)])
     else Inr \<lparr>cc_asset = cc_asset c, cc_cloid = cloid\<rparr>)"

text \<open>Converting a list, the first error with its index ends it.\<close>

fun convert_all :: "(nat \<Rightarrow> 'a \<Rightarrow> goerror + 'b) \<Rightarrow> nat \<Rightarrow> 'a list \<Rightarrow> goerror + 'b list" where
  "convert_all f i [] = Inr []"
| "convert_all f i (x # xs) = (case f i x of
     Inl e \<Rightarrow> Inl e
   | Inr y \<Rightarrow> (case convert_all f (Suc i) xs of Inl e \<Rightarrow> Inl e | Inr ys \<Rightarrow> Inr (y # ys)))"

definition build_cancel_by_cloid_action :: "cloid_payload list \<Rightarrow> goerror + exchange_action" where
  "build_cancel_by_cloid_action cs =
    (if cs = [] then Inl (Errorf ''hyperliquid: at least one cancel-by-cloid entry required'' [])
     else case convert_all check_cloid_cancel 0 cs of Inl e \<Rightarrow> Inl e | Inr ps \<Rightarrow> Inr (CancelByCloid ps))"

record modify_request =
  mr_oid :: "int option"
  mr_cloid :: string
  mr_order :: order

definition build_modify_payload :: "modify_request \<Rightarrow> goerror + modify_payload" where
  "build_modify_payload r =
    (let cloid = trim_space (mr_cloid r) in
     if (mr_oid r \<noteq> None) = (cloid \<noteq> '''') then Inl (Errorf ''hyperliquid: modify request must specify exactly one of oid or cloid'' [])
     else case convert_order (mr_order r) of
       Inl e \<Rightarrow> Inl e
     | Inr p \<Rightarrow> (case mr_oid r of
         Some oid \<Rightarrow> if oid \<le> 0 then Inl (Errorf ''hyperliquid: modify oid must be positive'' [])
           else Inr \<lparr>mp_ident = ByOid oid, mp_order = p\<rparr>
       | None \<Rightarrow> if 128 < length cloid then Inl (Errorf ''hyperliquid: modify cloid exceeds 128 characters'' [])
           else Inr \<lparr>mp_ident = ByCloid cloid, mp_order = p\<rparr>))"

definition build_modify_action :: "modify_request \<Rightarrow> goerror + exchange_action" where
  "build_modify_action r = (case build_modify_payload r of Inl e \<Rightarrow> Inl e | Inr p \<Rightarrow> Inr (Modify p))"

definition build_batch_modify_action :: "modify_request list \<Rightarrow> goerror + exchange_action" where
  "build_batch_modify_action rs =
    (if rs = [] then Inl (Errorf ''hyperliquid: at least one modify request required'' [])
     else case convert_all (\<lambda>i r. case build_modify_payload r of Inl e \<Rightarrow> Inl (indexed ''modify'' i e) | Inr p \<Rightarrow> Inr p) 0 rs of
       Inl e \<Rightarrow> Inl e | Inr ps \<Rightarrow> Inr (BatchModify ps))"

definition aggressive_limit_price :: "bool \<Rightarrow> string" where
  "aggressive_limit_price is_buy = (if is_buy then ''999999999'' else ''0.00000001'')"

subsection \<open>Reading responses\<close>

text \<open>A structure by the table of its fields, each with the function that stores a value in it.\<close>

definition read_struct :: "(string \<times> (json \<Rightarrow> 'a \<Rightarrow> 'a option)) list \<Rightarrow> 'a \<Rightarrow> json \<Rightarrow> goerror + 'a" where
  "read_struct tbl zero v = fill_struct (map fst tbl) (\<lambda>f x d. case map_of tbl f of Some g \<Rightarrow> g x d | None \<Rightarrow> Some d) zero v"

definition store :: "(json \<Rightarrow> 'b option) \<Rightarrow> ('b \<Rightarrow> 'a \<Rightarrow> 'a) \<Rightarrow> json \<Rightarrow> 'a \<Rightarrow> 'a option" where
  "store rd upd v d = (if v = JNull then Some d else map_option (\<lambda>x. upd x d) (rd v))"

definition store_inner :: "(json \<Rightarrow> 'b \<Rightarrow> goerror + 'b) \<Rightarrow> ('a \<Rightarrow> 'b) \<Rightarrow> ('b \<Rightarrow> 'a \<Rightarrow> 'a) \<Rightarrow> json \<Rightarrow> 'a \<Rightarrow> 'a option" where
  "store_inner rd sel upd v d = (case rd v (sel d) of Inl e \<Rightarrow> None | Inr x \<Rightarrow> Some (upd x d))"

definition as_bool :: "json \<Rightarrow> bool option" where
  "as_bool v = (case v of JBool b \<Rightarrow> Some b | _ \<Rightarrow> None)"

fun read_all :: "(json \<Rightarrow> goerror + 'a) \<Rightarrow> json list \<Rightarrow> goerror + 'a list" where
  "read_all rd [] = Inr []"
| "read_all rd (v # vs) = (case rd v of Inl e \<Rightarrow> Inl e | Inr x \<Rightarrow> (case read_all rd vs of Inl e \<Rightarrow> Inl e | Inr xs \<Rightarrow> Inr (x # xs)))"

definition read_array :: "(json \<Rightarrow> goerror + 'a) \<Rightarrow> json \<Rightarrow> goerror + 'a list" where
  "read_array rd v = (case v of JNull \<Rightarrow> Inr [] | JArr vs \<Rightarrow> read_all rd vs | _ \<Rightarrow> Inl (type_error ''''))"

definition store_array :: "(json \<Rightarrow> goerror + 'b) \<Rightarrow> ('b list \<Rightarrow> 'a \<Rightarrow> 'a) \<Rightarrow> json \<Rightarrow> 'a \<Rightarrow> 'a option" where
  "store_array rd upd v d = (case read_array rd v of Inl e \<Rightarrow> None | Inr xs \<Rightarrow> Some (upd xs d))"

definition read_text :: "json \<Rightarrow> goerror + string" where
  "read_text v = (case v of JNull \<Rightarrow> Inr '''' | JStr s \<Rightarrow> Inr s | _ \<Rightarrow> Inl (type_error ''''))"

record universe_entry =
  ue_name :: string
  ue_sz_decimals :: int
  ue_max_leverage :: f64
  ue_margin_table :: int
  ue_only_isolated :: bool
  ue_is_delisted :: bool

definition read_universe_entry :: "json \<Rightarrow> goerror + universe_entry" where
  "read_universe_entry = read_struct
     [(''name'', store as_string (\<lambda>x d. d\<lparr>ue_name := x\<rparr>)), (''szDecimals'', store as_int (\<lambda>x d. d\<lparr>ue_sz_decimals := x\<rparr>)),
      (''maxLeverage'', store as_float (\<lambda>x d. d\<lparr>ue_max_leverage := x\<rparr>)), (''marginTableId'', store as_int (\<lambda>x d. d\<lparr>ue_margin_table := x\<rparr>)),
      (''onlyIsolated'', store as_bool (\<lambda>x d. d\<lparr>ue_only_isolated := x\<rparr>)), (''isDelisted'', store as_bool (\<lambda>x d. d\<lparr>ue_is_delisted := x\<rparr>))]
     \<lparr>ue_name = '''', ue_sz_decimals = 0, ue_max_leverage = 0, ue_margin_table = 0, ue_only_isolated = False, ue_is_delisted = False\<rparr>"

record asset_ctx =
  ax_funding :: string
  ax_open_interest :: string
  ax_prev_day_px :: string
  ax_day_ntl_vlm :: string
  ax_day_base_vlm :: string
  ax_premium :: string
  ax_oracle_px :: string
  ax_mark_px :: string
  ax_mid_px :: string
  ax_impact_pxs :: "string list"

definition zero_ctx :: asset_ctx where
  "zero_ctx = \<lparr>ax_funding = '''', ax_open_interest = '''', ax_prev_day_px = '''', ax_day_ntl_vlm = '''', ax_day_base_vlm = '''',
     ax_premium = '''', ax_oracle_px = '''', ax_mark_px = '''', ax_mid_px = '''', ax_impact_pxs = []\<rparr>"

definition read_asset_ctx :: "json \<Rightarrow> goerror + asset_ctx" where
  "read_asset_ctx = read_struct
     [(''funding'', store as_string (\<lambda>x d. d\<lparr>ax_funding := x\<rparr>)), (''openInterest'', store as_string (\<lambda>x d. d\<lparr>ax_open_interest := x\<rparr>)),
      (''prevDayPx'', store as_string (\<lambda>x d. d\<lparr>ax_prev_day_px := x\<rparr>)), (''dayNtlVlm'', store as_string (\<lambda>x d. d\<lparr>ax_day_ntl_vlm := x\<rparr>)),
      (''dayBaseVlm'', store as_string (\<lambda>x d. d\<lparr>ax_day_base_vlm := x\<rparr>)), (''premium'', store as_string (\<lambda>x d. d\<lparr>ax_premium := x\<rparr>)),
      (''oraclePx'', store as_string (\<lambda>x d. d\<lparr>ax_oracle_px := x\<rparr>)), (''markPx'', store as_string (\<lambda>x d. d\<lparr>ax_mark_px := x\<rparr>)),
      (''midPx'', store as_string (\<lambda>x d. d\<lparr>ax_mid_px := x\<rparr>)), (''impactPxs'', store_array read_text (\<lambda>x d. d\<lparr>ax_impact_pxs := x\<rparr>))]
     zero_ctx"

record directory_response =
  dr_universe :: "universe_entry list"
  dr_ctxs :: "asset_ctx list"

definition read_directory_object :: "json \<Rightarrow> goerror + directory_response" where
  "read_directory_object = read_struct
     [(''universe'', store_array read_universe_entry (\<lambda>x d. d\<lparr>dr_universe := x\<rparr>)),
      (''assetCtxs'', store_array read_asset_ctx (\<lambda>x d. d\<lparr>dr_ctxs := x\<rparr>))]
     \<lparr>dr_universe = [], dr_ctxs = []\<rparr>"

definition read_universe_holder :: "json \<Rightarrow> goerror + universe_entry list" where
  "read_universe_holder = read_struct [(''universe'', store_array read_universe_entry (\<lambda>x d. x))] []"

text \<open>The fallback of the directory is an array of the universe and the contexts.\<close>

definition read_directory :: "json \<Rightarrow> goerror + directory_response" where
  "read_directory v =
    (let fallback = (case v of
         JArr (u # rest) \<Rightarrow> (case read_universe_holder u of
           Inl e \<Rightarrow> Inl (Wrapf ''hyperliquid: metaAndAssetCtxs universe: %w'' [] e)
         | Inr us \<Rightarrow> (case rest of
             [] \<Rightarrow> Inr \<lparr>dr_universe = us, dr_ctxs = []\<rparr>
           | c # _ \<Rightarrow> (case read_array read_asset_ctx c of
               Inl e \<Rightarrow> Inl (Wrapf ''hyperliquid: metaAndAssetCtxs assetCtxs: %w'' [] e)
             | Inr cs \<Rightarrow> Inr \<lparr>dr_universe = us, dr_ctxs = cs\<rparr>)))
       | JArr [] \<Rightarrow> Inl (Errorf ''hyperliquid: metaAndAssetCtxs empty payload'' [])
       | JNull \<Rightarrow> Inl (Errorf ''hyperliquid: metaAndAssetCtxs empty payload'' [])
       | _ \<Rightarrow> Inl (Wrapf ''hyperliquid: metaAndAssetCtxs decode: %w'' [] (type_error '''')))
     in case read_directory_object v of
       Inl e \<Rightarrow> fallback
     | Inr d \<Rightarrow> if dr_universe d \<noteq> [] \<or> dr_ctxs d \<noteq> [] then Inr d else fallback)"

record frontend_order =
  fr_coin :: string
  fr_side :: string
  fr_limit_px :: string
  fr_sz :: string
  fr_orig_sz :: string
  fr_oid :: int
  fr_timestamp :: int
  fr_cloid :: string
  fr_reduce_only :: bool
  fr_order_type :: json

definition read_frontend_order :: "json \<Rightarrow> goerror + frontend_order" where
  "read_frontend_order = read_struct
     [(''coin'', store as_string (\<lambda>x d. d\<lparr>fr_coin := x\<rparr>)), (''side'', store as_string (\<lambda>x d. d\<lparr>fr_side := x\<rparr>)),
      (''limitPx'', store as_string (\<lambda>x d. d\<lparr>fr_limit_px := x\<rparr>)), (''sz'', store as_string (\<lambda>x d. d\<lparr>fr_sz := x\<rparr>)),
      (''origSz'', store as_string (\<lambda>x d. d\<lparr>fr_orig_sz := x\<rparr>)), (''oid'', store as_int (\<lambda>x d. d\<lparr>fr_oid := x\<rparr>)),
      (''timestamp'', store as_int (\<lambda>x d. d\<lparr>fr_timestamp := x\<rparr>)), (''cloid'', store as_string (\<lambda>x d. d\<lparr>fr_cloid := x\<rparr>)),
      (''reduceOnly'', store as_bool (\<lambda>x d. d\<lparr>fr_reduce_only := x\<rparr>)), (''orderType'', \<lambda>x d. Some (d\<lparr>fr_order_type := x\<rparr>))]
     \<lparr>fr_coin = '''', fr_side = '''', fr_limit_px = '''', fr_sz = '''', fr_orig_sz = '''', fr_oid = 0, fr_timestamp = 0, fr_cloid = '''',
      fr_reduce_only = False, fr_order_type = JNull\<rparr>"

definition read_open_orders :: "json \<Rightarrow> goerror + frontend_order list" where
  "read_open_orders raw = (case raw of
     JArr _ \<Rightarrow> (case read_array read_frontend_order raw of
         Inl e \<Rightarrow> Inl (Wrapf ''hyperliquid: decode open orders array: %w'' [] e) | Inr xs \<Rightarrow> Inr xs)
   | _ \<Rightarrow> (case read_struct [(''status'', store as_string (\<lambda>x (s, ys). (x, ys))),
           (''data'', store_array read_frontend_order (\<lambda>xs (s, ys). (s, xs)))] ('''', []) raw of
         Inl e \<Rightarrow> Inl (Wrapf ''hyperliquid: decode open orders object: %w'' [] e)
       | Inr (status, xs) \<Rightarrow> if to_lower status \<noteq> ''ok'' then Inl (Errorf ''hyperliquid: frontendOpenOrders status %q'' [status])
           else Inr xs))"

definition open_order_status :: "frontend_order \<Rightarrow> order_status" where
  "open_order_status r = \<lparr>os_order = \<lparr>oi_coin = fr_coin r, oi_side = fr_side r, oi_limit_px = fr_limit_px r, oi_sz = fr_sz r,
     oi_oid = fr_oid r, oi_timestamp = fr_timestamp r, oi_orig_sz = fr_orig_sz r, oi_cloid = fr_cloid r\<rparr>,
     os_status = ''open'', os_timestamp = fr_timestamp r\<rparr>"

text \<open>The account: the tags of \<open>exchange.AccountState\<close> and what it holds.\<close>

definition read_leverage :: "json \<Rightarrow> leverage \<Rightarrow> goerror + leverage" where
  "read_leverage v d = read_struct
     [(''type'', store as_string (\<lambda>x d. d\<lparr>lev_type := x\<rparr>)), (''value'', store as_int (\<lambda>x d. d\<lparr>lev_value := x\<rparr>))] d v"

definition read_position :: "json \<Rightarrow> goerror + position" where
  "read_position = read_struct
     [(''coin'', store as_string (\<lambda>x d. d\<lparr>pos_coin := x\<rparr>)), (''entryPx'', \<lambda>v d. map_option (\<lambda>x. d\<lparr>pos_entry_px := x\<rparr>) (pointer as_string v)),
      (''positionValue'', store as_string (\<lambda>x d. d\<lparr>pos_value := x\<rparr>)), (''szi'', store as_string (\<lambda>x d. d\<lparr>pos_szi := x\<rparr>)),
      (''unrealizedPnl'', store as_string (\<lambda>x d. d\<lparr>pos_unrealized := x\<rparr>)), (''returnOnEquity'', store as_string (\<lambda>x d. d\<lparr>pos_roe := x\<rparr>)),
      (''leverage'', store_inner read_leverage pos_leverage (\<lambda>x d. d\<lparr>pos_leverage := x\<rparr>)),
      (''liquidationPx'', \<lambda>v d. map_option (\<lambda>x. d\<lparr>pos_liquidation_px := x\<rparr>) (pointer as_string v))]
     \<lparr>pos_coin = '''', pos_entry_px = None, pos_value = '''', pos_szi = '''', pos_unrealized = '''', pos_roe = '''',
      pos_leverage = \<lparr>lev_type = '''', lev_value = 0\<rparr>, pos_liquidation_px = None\<rparr>"

definition read_margin :: "json \<Rightarrow> margin_summary \<Rightarrow> goerror + margin_summary" where
  "read_margin v d = read_struct
     [(''accountValue'', store as_string (\<lambda>x d. d\<lparr>ms_account_value := x\<rparr>)), (''totalMarginUsed'', store as_string (\<lambda>x d. d\<lparr>ms_total_margin_used := x\<rparr>)),
      (''totalNtlPos'', store as_string (\<lambda>x d. d\<lparr>ms_total_ntl_pos := x\<rparr>)), (''totalRawUsd'', store as_string (\<lambda>x d. d\<lparr>ms_total_raw_usd := x\<rparr>))] d v"

definition zero_margin :: margin_summary where
  "zero_margin = \<lparr>ms_account_value = '''', ms_total_margin_used = '''', ms_total_ntl_pos = '''', ms_total_raw_usd = ''''\<rparr>"

definition read_account :: "json \<Rightarrow> goerror + account_state" where
  "read_account = read_struct
     [(''marginSummary'', store_inner read_margin as_margin (\<lambda>x d. d\<lparr>as_margin := x\<rparr>)),
      (''crossMarginSummary'', store_inner read_margin as_cross_margin (\<lambda>x d. d\<lparr>as_cross_margin := x\<rparr>)),
      (''assetPositions'', store_array read_position (\<lambda>x d. d\<lparr>as_positions := x\<rparr>))]
     \<lparr>as_margin = zero_margin, as_cross_margin = zero_margin, as_positions = []\<rparr>"

text \<open>The answer to an order.\<close>

definition read_filled :: "json \<Rightarrow> goerror + filled_order" where
  "read_filled = read_struct
     [(''totalSz'', store as_string (\<lambda>x d. d\<lparr>fo_total_sz := x\<rparr>)), (''avgPx'', store as_string (\<lambda>x d. d\<lparr>fo_avg_px := x\<rparr>)),
      (''oid'', store as_int (\<lambda>x d. d\<lparr>fo_oid := x\<rparr>))] \<lparr>fo_total_sz = '''', fo_avg_px = '''', fo_oid = 0\<rparr>"

definition read_pointer :: "(json \<Rightarrow> goerror + 'a) \<Rightarrow> json \<Rightarrow> 'a option option" where
  "read_pointer rd v = pointer (\<lambda>x. case rd x of Inl e \<Rightarrow> None | Inr y \<Rightarrow> Some y) v"

definition read_order_status :: "json \<Rightarrow> goerror + order_status_response" where
  "read_order_status = read_struct
     [(''resting'', \<lambda>v d. map_option (\<lambda>x. d\<lparr>st_resting := x\<rparr>) (read_pointer (read_struct [(''oid'', store as_int (\<lambda>x d. x))] 0) v)),
      (''filled'', \<lambda>v d. map_option (\<lambda>x. d\<lparr>st_filled := x\<rparr>) (read_pointer read_filled v)),
      (''error'', store as_string (\<lambda>x d. d\<lparr>st_error := x\<rparr>))] \<lparr>st_resting = None, st_filled = None, st_error = ''''\<rparr>"

definition read_statuses :: "json \<Rightarrow> order_status_response list \<Rightarrow> goerror + order_status_response list" where
  "read_statuses v d = read_struct [(''statuses'', store_array read_order_status (\<lambda>x d. x))] d v"

definition read_order_data :: "json option \<Rightarrow> (string \<times> order_status_response list) option" where
  "read_order_data raw = (case raw of
     None \<Rightarrow> None
   | Some v \<Rightarrow> (case read_struct [(''type'', store as_string (\<lambda>x (t, ss). (x, ss))),
         (''data'', store_inner read_statuses snd (\<lambda>x (t, ss). (t, x)))] ('''', []) v of
       Inl e \<Rightarrow> None | Inr d \<Rightarrow> Some d))"

definition read_order_response :: "json \<Rightarrow> goerror + order_response" where
  "read_order_response v = (case order_response_unmarshal
     (read_struct [(''status'', store as_string (\<lambda>x (s, r). (x, r))), (''response'', \<lambda>x (s, r). Some (s, Some x))] ('''', None))
     read_order_data (\<lambda>raw. Option.bind raw as_string) v
     \<lparr>or_status = '''', or_type = '''', or_statuses = [], or_error_message = ''''\<rparr> of
       (Some e, r) \<Rightarrow> Inl e | (None, r) \<Rightarrow> Inr r)"

subsection \<open>Signing\<close>

type_synonym byte = "8 word"

record signature =
  sg_r :: string
  sg_s :: string
  sg_v :: int

record exchange_request =
  er_action :: exchange_action
  er_nonce :: int
  er_signature :: signature
  er_vault :: string

text \<open>
  \<open>go-ethereum\<close> and \<open>msgpack\<close>: addresses (whether a text is one, its checksummed text and its bytes), the key of a hexadecimal text with its address, the
  hashes, the hash of the domain and of an agent, signing, and the encoding of an action.
\<close>

record hl_crypto =
  cy_is_address :: "string \<Rightarrow> bool"
  cy_checksum :: "string \<Rightarrow> string"
  cy_address_bytes :: "string \<Rightarrow> byte list"
  cy_key_address :: "string \<Rightarrow> goerror + string"
  cy_keccak :: "byte list \<Rightarrow> byte list"
  cy_hash_domain :: "goerror + byte list"
  cy_hash_agent :: "string \<Rightarrow> byte list \<Rightarrow> goerror + byte list"
  cy_sign :: "string \<Rightarrow> byte list \<Rightarrow> goerror + byte list"
  cy_pack :: "exchange_action \<Rightarrow> goerror + byte list"

definition private_key_hex :: "string \<Rightarrow> string" where
  "private_key_hex s = (let t = trim_space s in if has_prefix ''0x'' t then drop 2 t else t)"

text \<open>A signer is its key and its address.\<close>

definition new_private_key_signer :: "hl_crypto \<Rightarrow> string \<Rightarrow> goerror + string \<times> string" where
  "new_private_key_signer C text =
    (let k = private_key_hex text in
     if k = '''' then Inl (Errorf ''hyperliquid: empty private key'' [])
     else case cy_key_address C k of
       Inl e \<Rightarrow> Inl (Wrapf ''hyperliquid: decode private key: %w'' [] e)
     | Inr a \<Rightarrow> Inr (k, to_lower a))"

definition hex_digit :: "int \<Rightarrow> char" where
  "hex_digit d = char_of (if d < 10 then 48 + d else 87 + d)"

definition hex_encode :: "byte list \<Rightarrow> string" where
  "hex_encode bs = concat (map (\<lambda>b. [hex_digit (uint b div 16), hex_digit (uint b mod 16)]) bs)"

definition sign_digest :: "hl_crypto \<Rightarrow> string \<Rightarrow> byte list \<Rightarrow> goerror + signature" where
  "sign_digest C key msg =
    (if msg = [] then Inl (Errorf ''hyperliquid: empty message for signing'' [])
     else if length msg \<noteq> 32 then Inl (Errorf ''hyperliquid: expected 32-byte message hash, got %d bytes'' [itoa (int (length msg))])
     else case cy_sign C key msg of
       Inl e \<Rightarrow> Inl (Wrapf ''hyperliquid: sign message: %w'' [] e)
     | Inr bs \<Rightarrow> (case drop 64 bs of
         [] \<Rightarrow> Inl (Errorf ''runtime error: index out of range'' [])
       | v # _ \<Rightarrow> Inr \<lparr>sg_r = ''0x'' @ hex_encode (take 32 bs), sg_s = ''0x'' @ hex_encode (take 32 (drop 32 bs)), sg_v = uint v + 27\<rparr>))"

text \<open>\<open>convertStr16ToStr8\<close> rewrites the long headers of short strings; it walks over the bytes, not over the values they encode.\<close>

function convert_str16 :: "byte list \<Rightarrow> byte list" where
  "convert_str16 [] = []"
| "convert_str16 [b] = [b]"
| "convert_str16 [b, c] = [b, c]"
| "convert_str16 (b # hi # lo # rest) = (let n = 256 * unat hi + unat lo in
     if b = 0xDA \<and> n < 256 \<and> n \<le> length rest then 0xD9 # of_nat n # take n rest @ convert_str16 (drop n rest)
     else b # convert_str16 (hi # lo # rest))"
  by pat_completeness auto
termination by (relation "measure length") auto

definition nonce_bytes :: "int \<Rightarrow> byte list" where
  "nonce_bytes n = map (\<lambda>k. word_of_int (n div 256 ^ k)) [7, 6, 5, 4, 3, 2, 1, 0]"

definition typed_data_hash :: "hl_crypto \<Rightarrow> string \<Rightarrow> byte list \<Rightarrow> goerror + byte list" where
  "typed_data_hash C source connection = (case cy_hash_domain C of
     Inl e \<Rightarrow> Inl (Wrapf ''hyperliquid: hash domain: %w'' [] e)
   | Inr d \<Rightarrow> (case cy_hash_agent C source connection of
       Inl e \<Rightarrow> Inl (Wrapf ''hyperliquid: hash primary type: %w'' [] e)
     | Inr m \<Rightarrow> Inr (cy_keccak C ([0x19, 0x01] @ d @ m))))"

definition build_eip712_message :: "hl_crypto \<Rightarrow> exchange_action \<Rightarrow> int \<Rightarrow> string \<Rightarrow> bool \<Rightarrow> goerror + byte list" where
  "build_eip712_message C action nonce vault is_mainnet =
    (if nonce \<le> 0 then Inl (Errorf ''hyperliquid: nonce must be positive'' [])
     else case cy_pack C action of
       Inl e \<Rightarrow> Inl (Wrapf ''hyperliquid: msgpack encode action: %w'' [] e)
     | Inr packed \<Rightarrow>
         if vault \<noteq> '''' \<and> \<not> cy_is_address C vault then Inl (Errorf ''hyperliquid: invalid vault address %q'' [vault])
         else typed_data_hash C (if is_mainnet then ''a'' else ''b'') (cy_keccak C (convert_str16 packed @ nonce_bytes nonce @
           (if vault = '''' then [0x00] else 0x01 # cy_address_bytes C vault))))"

text \<open>\<open>wall\<close> is \<open>time.Now\<close>, asked when the clock of the client gave no positive number.\<close>

definition sign_action :: "hl_crypto \<Rightarrow> string \<Rightarrow> exchange_action \<Rightarrow> int \<Rightarrow> int \<Rightarrow> string \<Rightarrow> bool \<Rightarrow> goerror + exchange_request" where
  "sign_action C key action nonce0 wall vault is_mainnet =
    (let nonce = (if nonce0 \<le> 0 then wall else nonce0) in
     case build_eip712_message C action nonce vault is_mainnet of
       Inl e \<Rightarrow> Inl e
     | Inr digest \<Rightarrow> (case sign_digest C key digest of
         Inl e \<Rightarrow> Inl e
       | Inr sig \<Rightarrow> Inr \<lparr>er_action = action, er_nonce = nonce, er_signature = sig, er_vault = vault\<rparr>))"

subsection \<open>The byte rewriting\<close>

lemma convert_str16_shorter: "length (convert_str16 bs) \<le> length bs"
  by (induction bs rule: convert_str16.induct) (auto simp: Let_def min_def)

lemma convert_str16_id: "0xDA \<notin> set bs \<Longrightarrow> convert_str16 bs = bs"
  by (induction bs rule: convert_str16.induct) (auto simp: Let_def)

text \<open>The header of a short string that was encoded with a length of two bytes is shortened.\<close>

lemma convert_str16_header:
  assumes "length s < 256" and "0xDA \<notin> set rest"
  shows "convert_str16 ([0xDA, 0, of_nat (length s)] @ s @ rest) = [0xD9, of_nat (length s)] @ s @ rest"
  using assms by (simp add: unat_of_nat convert_str16_id)

text \<open>
  But the order number 0xDA000123 of a cancellation, a map of two integers, loses a byte: what is signed is not what the venue reads. (\<open>msgpack\<close> writes
  strings shorter than 256 bytes with the short header by itself.)
\<close>

lemma rewriting_damages_integers:
  "convert_str16 [0x82, 0xA1, 0x61, 0x05, 0xA1, 0x6F, 0xCE, 0xDA, 0x00, 0x01, 0x23] =
     [0x82, 0xA1, 0x61, 0x05, 0xA1, 0x6F, 0xCE, 0xD9, 0x01, 0x23]"
  by (simp add: convert_str16.simps)

subsection \<open>What is built\<close>

text \<open>
  What an order is on the wire: its own asset, side, size, limit price, reduce-only flag and identifier, and exactly one of the two types. A trigger
  order, or a trigger price beside no type, is sent as a trigger; anything else as a limit with its time in force.
\<close>

definition order_on_wire :: "order \<Rightarrow> order_payload \<Rightarrow> bool" where
  "order_on_wire x p \<longleftrightarrow> op_asset p = o_asset x \<and> op_is_buy p = o_is_buy x \<and> op_sz p = o_sz x \<and> op_limit_px p = o_limit_px x \<and>
     op_reduce_only p = o_reduce_only x \<and> op_cloid p = o_cloid x \<and>
     (case ot_trigger (o_type x) of
        Some t \<Rightarrow> op_limit p = None \<and> op_trigger p = Some \<lparr>tp_is_market = trg_is_market t, tp_trigger_px = o_trigger_px x, tp_tpsl = trg_tpsl t,
          tp_trigger_rel = o_trigger_rel x\<rparr>
      | None \<Rightarrow> (case ot_limit (o_type x) of
          Some l \<Rightarrow> op_limit p = Some (lim_tif l) \<and> op_trigger p = None
        | None \<Rightarrow> op_limit p = None \<and> op_trigger p = Some \<lparr>tp_is_market = False, tp_trigger_px = o_trigger_px x, tp_tpsl = '''',
            tp_trigger_rel = o_trigger_rel x\<rparr>))"

text \<open>The price the venue acts on: where a trigger fires, or the limit.\<close>

definition wire_price :: "order_payload \<Rightarrow> string" where
  "wire_price p = (case op_trigger p of Some t \<Rightarrow> tp_trigger_px t | None \<Rightarrow> op_limit_px p)"

definition denotes_positive :: "string \<Rightarrow> bool" where
  "denotes_positive s \<longleftrightarrow> (\<exists>q. rat_set_string (trim_space s) = Some q \<and> 0 < q)"

text \<open>An order of one type: its trigger price, when it has one, belongs to a trigger.\<close>

definition plainly_typed :: "order \<Rightarrow> bool" where
  "plainly_typed x \<longleftrightarrow> trim_space (o_trigger_px x) = '''' \<or> ot_trigger (o_type x) \<noteq> None \<or> ot_limit (o_type x) = None"

definition converted :: "order \<Rightarrow> order_payload \<Rightarrow> bool" where
  "converted x p \<longleftrightarrow> validate_order x = None \<and> convert_order x = Inr p"

lemma converted_fields:
  "convert_order x = Inr p \<Longrightarrow> op_asset p = o_asset x \<and> op_is_buy p = o_is_buy x \<and> op_sz p = o_sz x \<and>
     op_limit_px p = o_limit_px x \<and> op_reduce_only p = o_reduce_only x \<and> op_cloid p = o_cloid x"
  by (auto simp: convert_order_def Let_def split: if_splits option.splits)

lemma positive_denotes: "is_positive_decimal s \<longleftrightarrow> denotes_positive s"
  by (simp add: is_positive_decimal_def denotes_positive_def split: option.split)

lemma converted_wire: "convert_order x = Inr p \<Longrightarrow> order_on_wire x p"
  by (auto simp: convert_order_def order_on_wire_def Let_def split: if_splits option.splits)

lemma converted_numbers:
  assumes "converted x p"
  shows "0 \<le> op_asset p" "denotes_positive (op_sz p)" "length (op_cloid p) \<le> 128" "plainly_typed x \<Longrightarrow> denotes_positive (wire_price p)"
  using assms
  by (auto simp: converted_def validate_order_def convert_order_def plainly_typed_def wire_price_def positive_denotes Let_def
      split: if_splits option.splits)

definition agrees :: "build_state \<Rightarrow> order \<Rightarrow> bool" where
  "agrees s x \<longleftrightarrow> (trim_space (o_grouping x) = '''' \<or> (bs_explicit s \<and> bs_grouping s = trim_space (o_grouping x))) \<and>
     (case o_builder x of None \<Rightarrow> True | Some b \<Rightarrow> bs_builder s = Some \<lparr>bp_builder = bi_name b, bp_fee = bi_fee_bps b\<rparr>)"

definition extends :: "build_state \<Rightarrow> build_state \<Rightarrow> bool" where
  "extends s s' \<longleftrightarrow> (bs_explicit s \<longrightarrow> bs_explicit s' \<and> bs_grouping s' = bs_grouping s) \<and>
     (bs_builder s \<noteq> None \<longrightarrow> bs_builder s' = bs_builder s)"

lemma extends_trans: "extends s t \<Longrightarrow> extends t u \<Longrightarrow> extends s u"
  by (auto simp: extends_def)

lemma extends_agrees: "agrees s x \<Longrightarrow> extends s t \<Longrightarrow> agrees t x"
  by (auto simp: extends_def agrees_def split: option.splits)

lemma join_grouping_ok:
  "join_grouping i x s = Inr t \<Longrightarrow> extends s t \<and> bs_payloads t = bs_payloads s \<and>
     (trim_space (o_grouping x) = '''' \<or> (bs_explicit t \<and> bs_grouping t = trim_space (o_grouping x)))"
  by (auto simp: join_grouping_def extends_def Let_def split: if_splits)

lemma join_builder_ok:
  "join_builder i x s = Inr t \<Longrightarrow> extends s t \<and> bs_payloads t = bs_payloads s \<and> bs_explicit t = bs_explicit s \<and>
     bs_grouping t = bs_grouping s \<and>
     (case o_builder x of None \<Rightarrow> True | Some b \<Rightarrow> bs_builder t = Some \<lparr>bp_builder = bi_name b, bp_fee = bi_fee_bps b\<rparr>)"
  by (auto simp: join_builder_def extends_def Let_def split: if_splits option.splits)

lemma add_order_ok:
  assumes "add_order i x s = Inr t"
  shows "\<exists>p. converted x p \<and> bs_payloads t = bs_payloads s @ [p] \<and> extends s t \<and> agrees t x"
proof -
  obtain s1 s2 p where j: "validate_order x = None" "join_grouping i x s = Inr s1" "join_builder i x s1 = Inr s2"
    "convert_order x = Inr p" and t: "t = s2\<lparr>bs_payloads := bs_payloads s2 @ [p]\<rparr>"
    using assms by (auto simp: add_order_def split: option.splits sum.splits)
  show ?thesis
    using join_grouping_ok [OF j(2)] join_builder_ok [OF j(3)] j(1,4)
    by (intro exI [of _ p]) (auto simp: t converted_def extends_def agrees_def split: option.splits)
qed

lemma add_orders_ok:
  "add_orders i xs s = Inr t \<Longrightarrow>
     \<exists>ps. list_all2 converted xs ps \<and> bs_payloads t = bs_payloads s @ ps \<and> extends s t \<and> list_all (agrees t) xs"
proof (induction xs arbitrary: i s)
  case Nil
  then show ?case by (simp add: extends_def)
next
  case (Cons x xs)
  then obtain u where u: "add_order i x s = Inr u" "add_orders (Suc i) xs u = Inr t" by (auto split: sum.splits)
  from add_order_ok [OF u(1)] Cons.IH [OF u(2)] show ?case
    by (fastforce intro: extends_trans extends_agrees)
qed

text \<open>An action that was built holds every order, checked and converted, in their sequence; the grouping and the builder are those of all orders that name one.\<close>

lemma built_orders:
  assumes "build_place_order_action xs = Inr a"
  obtains p where "a = Plain p" "ac_type p = ''order''" "list_all2 converted xs (ac_orders p)" "ac_cancels p = []"
    "list_all (\<lambda>x. trim_space (o_grouping x) = '''' \<or> ac_grouping p = trim_space (o_grouping x)) xs"
    "list_all (\<lambda>x. case o_builder x of None \<Rightarrow> True | Some b \<Rightarrow> ac_builder p = Some \<lparr>bp_builder = bi_name b, bp_fee = bi_fee_bps b\<rparr>) xs"
proof -
  let ?s = "\<lparr>bs_grouping = ''na'', bs_explicit = False, bs_builder = None, bs_payloads = []\<rparr>"
  obtain s where s: "add_orders 0 xs ?s = Inr s"
    and a: "a = Plain ((zero_action ''order'')\<lparr>ac_grouping := bs_grouping s, ac_builder := bs_builder s, ac_orders := bs_payloads s\<rparr>)"
    using assms by (auto simp: build_place_order_action_def split: sum.splits)
  from add_orders_ok [OF s] obtain ps where "list_all2 converted xs ps" "bs_payloads s = ps" "list_all (agrees s) xs" by auto
  then show ?thesis by (intro that [OF a]) (auto simp: zero_action_def agrees_def list_all_iff split: option.splits)
qed

text \<open>The action one order becomes.\<close>

definition posts_order :: "order \<Rightarrow> exchange_action \<Rightarrow> bool" where
  "posts_order x a \<longleftrightarrow> (\<exists>b p. a = Plain b \<and> ac_type b = ''order'' \<and> ac_orders b = [p] \<and> ac_cancels b = [] \<and> order_on_wire x p \<and>
     0 \<le> op_asset p \<and> denotes_positive (op_sz p) \<and> length (op_cloid p) \<le> 128 \<and> (plainly_typed x \<longrightarrow> denotes_positive (wire_price p)))"

lemma built_order_posted:
  assumes "build_place_order_action [x] = Inr a" shows "posts_order x a"
proof -
  obtain b where b: "a = Plain b" "ac_type b = ''order''" "list_all2 converted [x] (ac_orders b)" "ac_cancels b = []"
    using built_orders [OF assms] by metis
  then obtain p where p: "ac_orders b = [p]" "converted x p" by (auto simp: list_all2_Cons1)
  then have "order_on_wire x p" by (simp add: converted_def converted_wire)
  then show ?thesis unfolding posts_order_def using b p converted_numbers [OF p(2)] by blast
qed

text \<open>The check reads a number the way \<open>big.Rat\<close> does: a fraction or a hexadecimal number is a size too, and is sent as it is spelled.\<close>

lemma other_spellings_pass:
  "is_positive_decimal ''1/2''" "is_positive_decimal ''0x10''" "is_positive_decimal ''1_0''" "is_positive_decimal ''1p3''"
  by code_simp+

text \<open>A limit order with a trigger price passes the check on that price and is sent with a limit price that was never looked at.\<close>

lemma limit_price_unchecked:
  "build_place_order_action [\<lparr>o_asset = 0, o_is_buy = True, o_limit_px = ''abc'', o_sz = ''1'', o_reduce_only = False,
     o_type = \<lparr>ot_limit = Some \<lparr>lim_tif = ''Gtc''\<rparr>, ot_trigger = None\<rparr>, o_cloid = '''', o_trigger_px = ''5'', o_trigger_rel = '''',
     o_grouping = '''', o_builder = None\<rparr>] =
   Inr (Plain ((zero_action ''order'')\<lparr>ac_grouping := ''na'', ac_orders := [\<lparr>op_asset = 0, op_is_buy = True, op_limit_px = ''abc'', op_sz = ''1'',
     op_reduce_only = False, op_limit = Some ''Gtc'', op_trigger = None, op_cloid = ''''\<rparr>]\<rparr>))"
  by code_simp

text \<open>A modification converts its order without the check: a size of zero is sent.\<close>

lemma modify_sends_unchecked:
  "build_modify_action \<lparr>mr_oid = Some 7, mr_cloid = '''', mr_order = \<lparr>o_asset = - 1, o_is_buy = True, o_limit_px = '''', o_sz = ''0'',
     o_reduce_only = False, o_type = \<lparr>ot_limit = Some \<lparr>lim_tif = ''Gtc''\<rparr>, ot_trigger = None\<rparr>, o_cloid = '''', o_trigger_px = '''',
     o_trigger_rel = '''', o_grouping = '''', o_builder = None\<rparr>\<rparr> =
   Inr (Modify \<lparr>mp_ident = ByOid 7, mp_order = \<lparr>op_asset = - 1, op_is_buy = True, op_limit_px = '''', op_sz = ''0'', op_reduce_only = False,
     op_limit = Some ''Gtc'', op_trigger = None, op_cloid = ''''\<rparr>\<rparr>)"
  by code_simp

lemma convert_all_ok: "convert_all f i xs = Inr ys \<Longrightarrow> length ys = length xs \<and> (\<forall>k < length xs. f (i + k) (xs ! k) = Inr (ys ! k))"
proof (induction xs arbitrary: i ys)
  case (Cons x xs)
  then obtain y zs where yz: "f i x = Inr y" "convert_all f (Suc i) xs = Inr zs" "ys = y # zs" by (auto split: sum.splits)
  then show ?case using Cons.IH [OF yz(2)] by (auto simp: nth_Cons split: nat.splits)
qed simp

end
