(* ===== verification/Hyperliquid.thy ===== *)
theory Hyperliquid
  imports HyperliquidWire Sim
begin

text \<open>
  The Hyperliquid client and the provider over it (\<open>pkg/exchange/hyperliquid/client.go\<close>, \<open>utils.go\<close>, \<open>convenience.go\<close>, \<open>position.go\<close>, \<open>account.go\<close>,
  \<open>provider.go\<close>). Its state is the record \<open>hl_client\<close> (addresses, formatting defaults, the cached asset directory); the world it runs in also keeps
  what was posted to the two endpoints. The transport, the clocks, the context and the text parser of \<open>encoding/json\<close> are the record \<open>hl_env\<close>.
  An operation takes the world to a result and a world and is composed with \<open>hl_bind\<close>, which stops at the first error.

  Shown: a call that trades posts at most one signed request, which holds exactly the order the call is about (\<open>sent_orders_valid\<close>); a close is a
  reduce-only order of the reported size on the other side (\<open>close_flattens\<close>); the two maps of the directory always agree (\<open>directory_kept\<close>); queries are
  posted at most three times, actions once (\<open>request_posts\<close>).
\<close>

subsection \<open>State\<close>

record asset_info =
  hi_name :: string
  hi_sz_decimals :: int
  hi_max_leverage :: f64
  hi_margin_table :: int
  hi_only_isolated :: bool
  hi_is_delisted :: bool
  hi_index :: int
  hi_mark_px :: string
  hi_mid_px :: string
  hi_oracle_px :: string
  hi_impact_pxs :: "string list"

record hl_client =
  hc_info_url :: string
  hc_exchange_url :: string
  hc_timeout :: duration
  hc_key :: string
  hc_address :: string
  hc_main_address :: string
  hc_is_testnet :: bool
  hc_vault :: string
  hc_asset_index :: "(string, int) gomap"
  hc_asset_info :: "(string, asset_info) gomap"
  hc_default_slippage :: f64
  hc_price_sig_figs :: int
  hc_asset_ttl :: duration
  hc_asset_last_ref :: time

record 'w hl_world =
  hw_client :: hl_client
  hw_queries :: "(string \<times> info_request) list"
  hw_sent :: "(string \<times> exchange_request) list"
  hw_ext :: 'w

record 'w hl_env =
  he_crypto :: hl_crypto
  he_post_info :: "string \<Rightarrow> info_request \<Rightarrow> 'w \<Rightarrow> http_reply \<times> 'w"
  he_post_exchange :: "string \<Rightarrow> exchange_request \<Rightarrow> 'w \<Rightarrow> http_reply \<times> 'w"
  he_ctx_err :: "'w \<Rightarrow> goerror option"
  he_pause :: "duration \<Rightarrow> 'w \<Rightarrow> goerror option \<times> 'w"
  he_clock :: "'w \<Rightarrow> time"
  he_wall :: "'w \<Rightarrow> time"
  he_json :: "string \<Rightarrow> goerror + json"

type_synonym ('a, 'w) hl_op = "'w hl_world \<Rightarrow> (goerror + 'a) \<times> 'w hl_world"

subsection \<open>Construction\<close>

definition mainnet_info_url :: string where "mainnet_info_url = ''https://api.hyperliquid.xyz/info''"
definition mainnet_exchange_url :: string where "mainnet_exchange_url = ''https://api.hyperliquid.xyz/exchange''"
definition testnet_info_url :: string where "testnet_info_url = ''https://api.hyperliquid-testnet.xyz/info''"
definition testnet_exchange_url :: string where "testnet_exchange_url = ''https://api.hyperliquid-testnet.xyz/exchange''"
definition default_http_timeout :: duration where "default_http_timeout = 30 * second"
definition default_retry_backoff :: duration where "default_retry_backoff = 200 * millisecond"
definition max_retry_attempts :: nat where "max_retry_attempts = 3"

datatype client_option =
  With_Timeout duration
| With_Vault string
| With_Main_Address string
| With_Default_Slippage f64
| With_Price_Sig_Figs int
| With_Asset_Cache_Ttl duration

definition apply_option :: "hl_crypto \<Rightarrow> client_option \<Rightarrow> hl_client \<Rightarrow> hl_client" where
  "apply_option C opt c = (case opt of
     With_Timeout d \<Rightarrow> c\<lparr>hc_timeout := d\<rparr>
   | With_Vault a \<Rightarrow> if cy_is_address C a then c\<lparr>hc_vault := cy_checksum C a\<rparr> else c
   | With_Main_Address a \<Rightarrow> if cy_is_address C a then c\<lparr>hc_main_address := to_lower (cy_checksum C a)\<rparr> else c
   | With_Default_Slippage x \<Rightarrow> if 0 < x then c\<lparr>hc_default_slippage := x\<rparr> else c
   | With_Price_Sig_Figs n \<Rightarrow> if 1 \<le> n then c\<lparr>hc_price_sig_figs := n\<rparr> else c
   | With_Asset_Cache_Ttl d \<Rightarrow> if 0 < d then c\<lparr>hc_asset_ttl := d\<rparr> else c)"

definition new_client :: "hl_crypto \<Rightarrow> string \<Rightarrow> bool \<Rightarrow> client_option list \<Rightarrow> goerror + hl_client" where
  "new_client C key testnet opts =
    (if key = '''' then Inl (Errorf ''hyperliquid: private key is required'' [])
     else case new_private_key_signer C key of
       Inl e \<Rightarrow> Inl (Wrapf ''hyperliquid: create signer: %w'' [] e)
     | Inr (k, a) \<Rightarrow> Inr (fold (apply_option C) opts
         \<lparr>hc_info_url = (if testnet then testnet_info_url else mainnet_info_url),
          hc_exchange_url = (if testnet then testnet_exchange_url else mainnet_exchange_url),
          hc_timeout = default_http_timeout, hc_key = k, hc_address = a, hc_main_address = '''', hc_is_testnet = testnet,
          hc_vault = '''', hc_asset_index = [], hc_asset_info = [], hc_default_slippage = 0, hc_price_sig_figs = 5,
          hc_asset_ttl = 0, hc_asset_last_ref = zero_time\<rparr>))"

definition get_info_address :: "hl_client \<Rightarrow> string" where
  "get_info_address c = (if hc_main_address c \<noteq> '''' then hc_main_address c else hc_address c)"

subsection \<open>Requests\<close>

text \<open>The transport, with the record of what was posted.\<close>

definition post_info :: "'w hl_env \<Rightarrow> info_request \<Rightarrow> 'w hl_world \<Rightarrow> http_reply \<times> 'w hl_world" where
  "post_info E q w = (let url = hc_info_url (hw_client w) in case he_post_info E url q (hw_ext w) of
     (r, x) \<Rightarrow> (r, w\<lparr>hw_queries := hw_queries w @ [(url, q)], hw_ext := x\<rparr>))"

definition post_exchange :: "'w hl_env \<Rightarrow> exchange_request \<Rightarrow> 'w hl_world \<Rightarrow> http_reply \<times> 'w hl_world" where
  "post_exchange E q w = (let url = hc_exchange_url (hw_client w) in case he_post_exchange E url q (hw_ext w) of
     (r, x) \<Rightarrow> (r, w\<lparr>hw_sent := hw_sent w @ [(url, q)], hw_ext := x\<rparr>))"

definition pause :: "'w hl_env \<Rightarrow> duration \<Rightarrow> 'w hl_world \<Rightarrow> goerror option \<times> 'w hl_world" where
  "pause E d w = (case he_pause E d (hw_ext w) of (r, x) \<Rightarrow> (r, w\<lparr>hw_ext := x\<rparr>))"

text \<open>An attempt is over with a result or leaves the error of a retry.\<close>

definition info_attempt :: "'w hl_env \<Rightarrow> info_request \<Rightarrow> (json \<Rightarrow> goerror + 'a) \<Rightarrow> 'w hl_world \<Rightarrow> ((goerror + 'a) + goerror) \<times> 'w hl_world" where
  "info_attempt E q rd w = (case post_info E q w of
     (Refused e, w1) \<Rightarrow> ((case he_ctx_err E (hw_ext w1) of Some c \<Rightarrow> Inl (Inl c) | None \<Rightarrow> Inr e), w1)
   | (Unreadable e, w1) \<Rightarrow> (Inr (Wrapf ''hyperliquid: read info response: %w'' [] e), w1)
   | (Reply st body, w1) \<Rightarrow>
       ((if \<not> success_status st then Inr (Errorf ''hyperliquid: info http status %d: %s'' [itoa st, body])
         else Inl (case he_json E body of
           Inl e \<Rightarrow> Inl (Wrapf ''hyperliquid: decode info response: %w'' [] e)
         | Inr v \<Rightarrow> (case rd v of
             Inl e \<Rightarrow> Inl (Wrapf ''hyperliquid: decode info response: %w'' [] e) | Inr x \<Rightarrow> Inr x))), w1))"

fun info_attempts :: "'w hl_env \<Rightarrow> info_request \<Rightarrow> (json \<Rightarrow> goerror + 'a) \<Rightarrow> nat \<Rightarrow> duration \<Rightarrow> goerror option \<Rightarrow> ('a, 'w) hl_op" where
  "info_attempts E q rd 0 backoff last_err w =
     (Inl (case last_err of Some e \<Rightarrow> e | None \<Rightarrow> Errorf ''hyperliquid: info request failed'' []), w)"
| "info_attempts E q rd (Suc n) backoff last_err w = (case info_attempt E q rd w of
     (Inl r, w1) \<Rightarrow> (r, w1)
   | (Inr e, w1) \<Rightarrow> (case pause E backoff w1 of
       (Some c, w2) \<Rightarrow> (Inl c, w2)
     | (None, w2) \<Rightarrow> info_attempts E q rd n (2 * backoff) (Some e) w2))"

definition do_info_request :: "'w hl_env \<Rightarrow> info_request \<Rightarrow> (json \<Rightarrow> goerror + 'a) \<Rightarrow> ('a, 'w) hl_op" where
  "do_info_request E q rd = info_attempts E q rd max_retry_attempts default_retry_backoff None"

definition client_sign_action :: "'w hl_env \<Rightarrow> exchange_action \<Rightarrow> (exchange_request, 'w) hl_op" where
  "client_sign_action E action w = (let c = hw_client w in
     hl_lift (sign_action (he_crypto E) (hc_key c) action (he_clock E (hw_ext w) div millisecond) (he_wall E (hw_ext w) div millisecond)
       (hc_vault c) (\<not> hc_is_testnet c)) w)"

text \<open>A caller that asks for no result passes \<open>ignore_body\<close>; otherwise the body is decoded.\<close>

definition decode_body :: "'w hl_env \<Rightarrow> (json \<Rightarrow> goerror + 'a) \<Rightarrow> string \<Rightarrow> goerror + 'a" where
  "decode_body E rd body = (case he_json E body of
     Inl e \<Rightarrow> Inl (Wrapf ''hyperliquid: decode exchange response: %w'' [] e)
   | Inr v \<Rightarrow> (case rd v of Inl e \<Rightarrow> Inl (Wrapf ''hyperliquid: decode exchange response: %w'' [] e) | Inr x \<Rightarrow> Inr x))"

definition ignore_body :: "string \<Rightarrow> goerror + unit" where
  "ignore_body body = Inr ()"

definition do_exchange_request :: "'w hl_env \<Rightarrow> exchange_action \<Rightarrow> (string \<Rightarrow> goerror + 'a) \<Rightarrow> ('a, 'w) hl_op" where
  "do_exchange_request E action result = hl_bind (client_sign_action E action) (\<lambda>req w. case post_exchange E req w of
     (Refused e, w1) \<Rightarrow> (Inl (case he_ctx_err E (hw_ext w1) of Some c \<Rightarrow> c | None \<Rightarrow> e), w1)
   | (Unreadable e, w1) \<Rightarrow> (Inl (Wrapf ''hyperliquid: read exchange response: %w'' [] e), w1)
   | (Reply st body, w1) \<Rightarrow>
       ((if \<not> success_status st then Inl (Errorf ''hyperliquid: exchange http status %d: %s'' [itoa st, body]) else result body), w1))"

subsection \<open>The asset directory\<close>

definition canonical_asset_key :: "string \<Rightarrow> string" where
  "canonical_asset_key s = to_upper (trim_space s)"

definition asset_entry :: "int \<Rightarrow> universe_entry \<Rightarrow> asset_ctx \<Rightarrow> asset_info" where
  "asset_entry idx e x = \<lparr>hi_name = ue_name e, hi_sz_decimals = ue_sz_decimals e, hi_max_leverage = ue_max_leverage e,
     hi_margin_table = ue_margin_table e, hi_only_isolated = ue_only_isolated e, hi_is_delisted = ue_is_delisted e, hi_index = idx,
     hi_mark_px = ax_mark_px x, hi_mid_px = ax_mid_px x, hi_oracle_px = ax_oracle_px x, hi_impact_pxs = ax_impact_pxs x\<rparr>"

fun fill_directory :: "nat \<Rightarrow> universe_entry list \<Rightarrow> asset_ctx list \<Rightarrow> (string, int) gomap \<times> (string, asset_info) gomap \<Rightarrow>
    (string, int) gomap \<times> (string, asset_info) gomap" where
  "fill_directory idx [] xs d = d"
| "fill_directory idx (e # es) xs (index, info) =
    (let key = canonical_asset_key (ue_name e); x = (if idx < length xs then xs ! idx else zero_ctx) in
     fill_directory (Suc idx) es xs (if key = '''' then (index, info)
       else (put key (int idx) index, put key (asset_entry (int idx) e x) info)))"

definition refresh_asset_directory :: "'w hl_env \<Rightarrow> (unit, 'w) hl_op" where
  "refresh_asset_directory E = hl_bind (do_info_request E (info_query ''metaAndAssetCtxs'' '''') read_directory) (\<lambda>d w.
     if dr_universe d = [] then (Inl (Errorf ''hyperliquid: metaAndAssetCtxs response contained no assets'' []), w)
     else case fill_directory 0 (dr_universe d) (dr_ctxs d) ([], []) of (index, info) \<Rightarrow>
       (Inr (), w\<lparr>hw_client := (hw_client w)\<lparr>hc_asset_index := index, hc_asset_info := info, hc_asset_last_ref := he_clock E (hw_ext w)\<rparr>\<rparr>))"

definition maybe_refresh_asset_directory :: "'w hl_env \<Rightarrow> (unit, 'w) hl_op" where
  "maybe_refresh_asset_directory E w = (let c = hw_client w in
     if hc_asset_ttl c \<le> 0 then (Inr (), w)
     else if is_zero_time (hc_asset_last_ref c) \<or> hc_asset_ttl c < he_clock E (hw_ext w) - hc_asset_last_ref c
     then refresh_asset_directory E w else (Inr (), w))"

text \<open>\<open>GetAssetIndex\<close> and \<open>GetAssetInfo\<close> differ in the map they look in.\<close>

definition get_asset :: "'w hl_env \<Rightarrow> (hl_client \<Rightarrow> string \<Rightarrow> 'a option) \<Rightarrow> string \<Rightarrow> string \<Rightarrow> ('a, 'w) hl_op" where
  "get_asset E sel missing coin =
    (let key = canonical_asset_key coin in
     if key = '''' then hl_fail (Errorf ''hyperliquid: empty coin symbol'' [])
     else hl_bind (hl_try (maybe_refresh_asset_directory E)) (\<lambda>_ w. case sel (hw_client w) key of
       Some x \<Rightarrow> (Inr x, w)
     | None \<Rightarrow> hl_bind (refresh_asset_directory E) (\<lambda>_ w. case sel (hw_client w) key of
         Some x \<Rightarrow> (Inr x, w) | None \<Rightarrow> (Inl (Errorf missing [coin]), w)) w))"

definition hl_get_asset_index :: "'w hl_env \<Rightarrow> string \<Rightarrow> (int, 'w) hl_op" where
  "hl_get_asset_index E = get_asset E (\<lambda>c. lookup (hc_asset_index c)) ''hyperliquid: asset %s not found''"

definition hl_get_asset_info :: "'w hl_env \<Rightarrow> string \<Rightarrow> (asset_info, 'w) hl_op" where
  "hl_get_asset_info E = get_asset E (\<lambda>c. lookup (hc_asset_info c)) ''hyperliquid: asset info %s not found''"

subsection \<open>Prices and sizes\<close>

definition trim_right_dots :: "string \<Rightarrow> string" where
  "trim_right_dots s = rev (dropWhile (\<lambda>c. c = CHR ''.'') (rev s))"

definition round_price_to_sig_figs :: "f64 \<Rightarrow> int \<Rightarrow> string" where
  "round_price_to_sig_figs price sigfigs =
    (if sigfigs \<le> 0 \<or> \<not> is_finite price \<or> feq price 0 then ''0''
     else let sign = (if price < 0 then lit (- 1) else lit 1);
         p = (if price < 0 then - price else price);
         e = math_floor (math_log10 p);
         scale = pow10 (int_of_f64 (f64_of_int sigfigs - lit 1 - e));
         rounded = sign * math_round (p * scale) / scale
       in if feq rounded 0 \<or> \<not> is_finite rounded then ''0''
          else let absr = (if rounded < 0 then - rounded else rounded);
              dec_e = math_floor (math_log10 absr);
              decimals = int_of_f64 (fmax 0 (f64_of_int (sigfigs - 1) - dec_e));
              s = format_fixed (nat decimals) rounded;
              t = (if 0 < decimals then trim_right_dots (trim_right_zeros s) else s)
            in if t = '''' \<or> t = ''-'' then ''0'' else t)"

text \<open>The text of a size: rounded to the decimals of the asset, with the zeros at the end cut off, those before a missing point too.\<close>

definition size_text :: "int \<Rightarrow> f64 \<Rightarrow> string" where
  "size_text sz qty =
    (let q = (if qty < 0 then - qty else qty); pow = pow10 sz; v = math_round (q * pow) / pow;
         s = trim_suffix_dot (trim_right_zeros (if 0 \<le> sz then format_fixed (nat sz) v else format_shortest v))
     in if s = '''' then ''0'' else s)"

definition hl_format_price :: "'w hl_env \<Rightarrow> string \<Rightarrow> f64 \<Rightarrow> (string, 'w) hl_op" where
  "hl_format_price E coin price =
    (if price \<le> 0 \<or> \<not> is_finite price then hl_fail (Errorf ''hyperliquid: invalid price'' [])
     else hl_bind (hl_get_asset_info E coin) (\<lambda>_ w.
       let c = hw_client w; c1 = (if hc_price_sig_figs c \<le> 0 then c\<lparr>hc_price_sig_figs := 5\<rparr> else c)
       in (Inr (round_price_to_sig_figs price (hc_price_sig_figs c1)), w\<lparr>hw_client := c1\<rparr>)))"

definition hl_format_size :: "'w hl_env \<Rightarrow> string \<Rightarrow> f64 \<Rightarrow> (string, 'w) hl_op" where
  "hl_format_size E coin qty = hl_bind (hl_get_asset_info E coin) (\<lambda>info. hl_ret (size_text (hi_sz_decimals info) qty))"

subsection \<open>Orders\<close>

definition hl_place_orders :: "'w hl_env \<Rightarrow> order list \<Rightarrow> (order_response, 'w) hl_op" where
  "hl_place_orders E orders =
    (if orders = [] then hl_fail (Errorf ''hyperliquid: at least one order required'' [])
     else hl_bind (hl_lift (build_place_order_action orders)) (\<lambda>action. do_exchange_request E action (decode_body E read_order_response)))"

definition hl_place_order :: "'w hl_env \<Rightarrow> order \<Rightarrow> (order_response, 'w) hl_op" where
  "hl_place_order E x = hl_place_orders E [x]"

definition hl_cancel_order :: "'w hl_env \<Rightarrow> int \<Rightarrow> int \<Rightarrow> (unit, 'w) hl_op" where
  "hl_cancel_order E asset oid = do_exchange_request E (build_cancel_action [\<lparr>cp_asset = asset, cp_oid = oid\<rparr>]) ignore_body"

definition hl_cancel_orders :: "'w hl_env \<Rightarrow> cancel_payload list \<Rightarrow> (unit, 'w) hl_op" where
  "hl_cancel_orders E cs = (if cs = [] then hl_ret () else do_exchange_request E (build_cancel_action cs) ignore_body)"

definition hl_get_open_orders :: "'w hl_env \<Rightarrow> (order_status list, 'w) hl_op" where
  "hl_get_open_orders E w = (let addr = get_info_address (hw_client w) in
     if addr = '''' then (Inl (Errorf ''hyperliquid: client address unavailable'' []), w)
     else hl_bind (do_info_request E (info_query ''frontendOpenOrders'' addr) Inr) (\<lambda>raw.
       hl_bind (hl_lift (read_open_orders raw)) (\<lambda>xs. hl_ret (map open_order_status xs))) w)"

text \<open>The orders of an asset among the open ones; those whose coin has no index are skipped.\<close>

fun orders_of_asset :: "'w hl_env \<Rightarrow> int \<Rightarrow> order_status list \<Rightarrow> (cancel_payload list, 'w) hl_op" where
  "orders_of_asset E asset [] w = (Inr [], w)"
| "orders_of_asset E asset (x # xs) w = (case hl_get_asset_index E (oi_coin (os_order x)) w of
     (r, w1) \<Rightarrow> (case orders_of_asset E asset xs w1 of
       (Inl e, w2) \<Rightarrow> (Inl e, w2)
     | (Inr cs, w2) \<Rightarrow> (Inr (if r = Inr asset then \<lparr>cp_asset = asset, cp_oid = oi_oid (os_order x)\<rparr> # cs else cs), w2)))"

definition hl_cancel_all_orders :: "'w hl_env \<Rightarrow> int \<Rightarrow> (unit, 'w) hl_op" where
  "hl_cancel_all_orders E asset w = (case hl_get_open_orders E w of
     (Inl e, w1) \<Rightarrow> (Inl (Wrapf ''hyperliquid: failed to get open orders: %w'' [] e), w1)
   | (Inr xs, w1) \<Rightarrow> hl_bind (orders_of_asset E asset xs) (hl_cancel_orders E) w1)"

definition hl_cancel_orders_by_cloid :: "'w hl_env \<Rightarrow> cloid_payload list \<Rightarrow> (unit, 'w) hl_op" where
  "hl_cancel_orders_by_cloid E cs =
    (if cs = [] then hl_ret ()
     else hl_bind (hl_lift (build_cancel_by_cloid_action cs)) (\<lambda>action. do_exchange_request E action ignore_body))"

definition hl_cancel_by_cloid :: "'w hl_env \<Rightarrow> int \<Rightarrow> string \<Rightarrow> (unit, 'w) hl_op" where
  "hl_cancel_by_cloid E asset cloid =
     hl_bind (hl_lift (build_cancel_by_cloid_action [\<lparr>cc_asset = asset, cc_cloid = cloid\<rparr>])) (\<lambda>action. do_exchange_request E action ignore_body)"

definition hl_modify_order :: "'w hl_env \<Rightarrow> modify_request \<Rightarrow> (order_response, 'w) hl_op" where
  "hl_modify_order E r = hl_bind (hl_lift (build_modify_action r)) (\<lambda>action. do_exchange_request E action (decode_body E read_order_response))"

definition hl_modify_orders :: "'w hl_env \<Rightarrow> modify_request list \<Rightarrow> (order_response, 'w) hl_op" where
  "hl_modify_orders E rs =
    (if rs = [] then hl_fail (Errorf ''hyperliquid: at least one modify request required'' [])
     else hl_bind (hl_lift (build_batch_modify_action rs)) (\<lambda>action. do_exchange_request E action (decode_body E read_order_response)))"

definition hl_update_leverage :: "'w hl_env \<Rightarrow> int \<Rightarrow> bool \<Rightarrow> int \<Rightarrow> (unit, 'w) hl_op" where
  "hl_update_leverage E asset is_cross lev =
    (if lev \<le> 0 then hl_fail (Errorf ''hyperliquid: leverage must be positive'' [])
     else do_exchange_request E (Plain ((zero_action ''updateLeverage'')\<lparr>ac_asset := Some asset, ac_is_cross := Some is_cross,
       ac_leverage := lev\<rparr>)) ignore_body)"

subsection \<open>The account\<close>

definition hl_get_account_state :: "'w hl_env \<Rightarrow> (account_state, 'w) hl_op" where
  "hl_get_account_state E w = (let addr = get_info_address (hw_client w) in
     if addr = '''' then (Inl (Errorf ''hyperliquid: client address unavailable'' []), w)
     else hl_bind (do_info_request E (info_query ''clearinghouseState'' addr) read_account) (\<lambda>st.
       if trim_space (ms_account_value (as_margin st)) = '''' \<and> trim_space (ms_account_value (as_cross_margin st)) = ''''
       then hl_fail (Errorf ''hyperliquid: clearinghouseState missing fields'' []) else hl_ret st) w)"

definition hl_get_account_value :: "'w hl_env \<Rightarrow> (f64, 'w) hl_op" where
  "hl_get_account_value E = hl_bind (hl_get_account_state E) (\<lambda>st.
     case parse_float (ms_account_value (as_margin st)) of (x, ok) \<Rightarrow>
       if ok then hl_ret x else hl_fail (Wrapf ''hyperliquid: parse account value: %w'' []
         (Errorf ''strconv.ParseFloat: parsing %q'' [ms_account_value (as_margin st)])))"

definition hl_get_positions :: "'w hl_env \<Rightarrow> (position list, 'w) hl_op" where
  "hl_get_positions E = hl_bind (hl_get_account_state E) (\<lambda>st. hl_ret (as_positions st))"

subsection \<open>Closing a position\<close>

text \<open>\<open>trimSign\<close>: signs at the front, with the blanks around them.\<close>

function strip_signs :: "string \<Rightarrow> string" where
  "strip_signs s = (case s of c # t \<Rightarrow> if c = CHR ''+'' \<or> c = CHR ''-'' then strip_signs (trim_space t) else s | [] \<Rightarrow> [])"
  by pat_completeness auto

lemma strip_blanks_length: "length (strip_blanks ps s) \<le> length s"
  using strip_blanks_suffix [of s ps] by (metis length_append le_add2)

lemma trim_space_length: "length (trim_space s) \<le> length s"
  unfolding trim_space_def
  using strip_blanks_length [of utf8_spaces s] strip_blanks_length [of "map rev utf8_spaces" "rev (strip_blanks utf8_spaces s)"]
  by simp

termination strip_signs
  by (relation "measure length") (auto simp: less_Suc_eq_le trim_space_length)

declare strip_signs.simps [simp del]

definition trim_sign :: "string \<Rightarrow> string" where
  "trim_sign v = strip_signs (trim_space v)"

definition compute_close_limit :: "string \<Rightarrow> bool \<Rightarrow> string" where
  "compute_close_limit mark is_buy =
    (let trimmed = trim_space mark in
     case (if trimmed \<noteq> '''' \<and> is_positive_decimal trimmed then rat_set_string trimmed else None) of
       None \<Rightarrow> aggressive_limit_price is_buy
     | Some price \<Rightarrow> (let result = price * (if is_buy then 1005 / 1000 else 995 / 1000) in
         if 0 < price \<and> 0 < result \<and> 0 < rat_float64 result then round_price_to_sig_figs (rat_float64 result) 5
         else aggressive_limit_price is_buy))"

definition ioc_type :: order_type where
  "ioc_type = \<lparr>ot_limit = Some \<lparr>lim_tif = ''Ioc''\<rparr>, ot_trigger = None\<rparr>"

definition simple_order :: "int \<Rightarrow> bool \<Rightarrow> string \<Rightarrow> string \<Rightarrow> bool \<Rightarrow> order_type \<Rightarrow> string \<Rightarrow> order" where
  "simple_order asset is_buy px sz reduce_only ot trigger =
    \<lparr>o_asset = asset, o_is_buy = is_buy, o_limit_px = px, o_sz = sz, o_reduce_only = reduce_only, o_type = ot, o_cloid = '''',
     o_trigger_px = trigger, o_trigger_rel = '''', o_grouping = '''', o_builder = None\<rparr>"

definition build_close_order :: "int \<Rightarrow> string \<Rightarrow> position \<Rightarrow> order option" where
  "build_close_order idx mark p =
    (let raw = trim_space (pos_szi p) in
     if raw = '''' \<or> is_zero_decimal raw then None
     else let is_short = has_prefix ''-'' raw; size = trim_sign raw in
       if size = '''' \<or> is_zero_decimal size then None
       else Some (simple_order idx is_short (compute_close_limit mark is_short) size True ioc_type ''''))"

definition hl_close_position :: "'w hl_env \<Rightarrow> string \<Rightarrow> (order_response option, 'w) hl_op" where
  "hl_close_position E coin = hl_bind (hl_get_positions E) (\<lambda>ps.
     case find (\<lambda>p. equal_fold (pos_coin p) coin) ps of
       None \<Rightarrow> hl_ret None
     | Some target \<Rightarrow> hl_bind (hl_get_asset_index E coin) (\<lambda>idx. hl_bind (hl_get_asset_info E coin) (\<lambda>info.
         case build_close_order idx (hi_mark_px info) target of
           None \<Rightarrow> hl_ret None
         | Some x \<Rightarrow> hl_bind (hl_place_order E x) (\<lambda>resp. hl_ret (Some resp)))))"

subsection \<open>Market and trigger orders\<close>

definition first_non_empty :: "string list \<Rightarrow> string" where
  "first_non_empty vs = (case find (\<lambda>v. v \<noteq> '''') vs of Some v \<Rightarrow> v | None \<Rightarrow> '''')"

definition order_rejection :: "order_response \<Rightarrow> goerror option" where
  "order_rejection r =
    (if or_status r \<noteq> ''err'' then None
     else Some (case or_statuses r of
         s # _ \<Rightarrow> if st_error s \<noteq> '''' then Errorf ''hyperliquid: order rejected: %s'' [st_error s]
           else if or_error_message r \<noteq> '''' then Errorf ''hyperliquid: order rejected: %s'' [or_error_message r]
           else Errorf ''hyperliquid: order rejected with status 'err' (no error details provided)'' []
       | [] \<Rightarrow> if or_error_message r \<noteq> '''' then Errorf ''hyperliquid: order rejected: %s'' [or_error_message r]
           else Errorf ''hyperliquid: order rejected with status 'err' (no error details provided)'' []))"

definition ioc_slippage :: "f64 \<Rightarrow> hl_client \<Rightarrow> f64" where
  "ioc_slippage slippage c =
    (if slippage \<le> 0 then (if 0 < hc_default_slippage c then hc_default_slippage c else lit (1 / 100)) else slippage)"

definition reference_price :: "string \<Rightarrow> asset_info \<Rightarrow> goerror + f64" where
  "reference_price coin info =
    (let base = first_non_empty [hi_mid_px info, hi_mark_px info, hi_oracle_px info] in
     if base = '''' then Inl (Errorf ''hyperliquid: missing reference price for %s'' [coin])
     else case parse_float base of (px, ok) \<Rightarrow>
       if \<not> ok \<or> \<not> 0 < px then Inl (Errorf ''hyperliquid: invalid reference price %q for %s'' [base, coin]) else Inr px)"

text \<open>The answer of the venue and the error beside it: a rejected order returns both.\<close>

definition ioc_limit :: "bool \<Rightarrow> f64 \<Rightarrow> f64 \<Rightarrow> hl_client \<Rightarrow> string" where
  "ioc_limit is_buy base slip c = round_price_to_sig_figs (if is_buy then base * (lit 1 + slip) else base * (lit 1 - slip))
     (if hc_price_sig_figs c \<le> 0 then 5 else hc_price_sig_figs c)"

definition ioc_order :: "'w hl_env \<Rightarrow> string \<Rightarrow> bool \<Rightarrow> f64 \<Rightarrow> bool \<Rightarrow> int \<Rightarrow> string \<Rightarrow> (order_response \<times> goerror option, 'w) hl_op" where
  "ioc_order E coin is_buy qty reduce_only idx price = hl_bind (hl_format_size E coin qty) (\<lambda>size.
     hl_bind (hl_place_order E (simple_order idx is_buy price size reduce_only ioc_type '''')) (\<lambda>resp. hl_ret (resp, order_rejection resp)))"

definition ioc_with :: "'w hl_env \<Rightarrow> string \<Rightarrow> bool \<Rightarrow> f64 \<Rightarrow> f64 \<Rightarrow> bool \<Rightarrow> (order_response \<times> goerror option, 'w) hl_op" where
  "ioc_with E coin is_buy qty slip reduce_only = hl_bind (hl_get_asset_index E coin) (\<lambda>idx. hl_bind (hl_get_asset_info E coin) (\<lambda>info.
     hl_bind (hl_lift (reference_price coin info)) (\<lambda>base w.
       ioc_order E coin is_buy qty reduce_only idx (ioc_limit is_buy base slip (hw_client w)) w)))"

definition hl_ioc_market :: "'w hl_env \<Rightarrow> string \<Rightarrow> bool \<Rightarrow> f64 \<Rightarrow> f64 \<Rightarrow> bool \<Rightarrow> (order_response \<times> goerror option, 'w) hl_op" where
  "hl_ioc_market E coin is_buy qty slippage reduce_only w =
     ioc_with E coin is_buy qty (ioc_slippage slippage (hw_client w)) reduce_only w"

definition hl_place_trigger_reduce_only :: "'w hl_env \<Rightarrow> string \<Rightarrow> bool \<Rightarrow> f64 \<Rightarrow> f64 \<Rightarrow> string \<Rightarrow> (unit, 'w) hl_op" where
  "hl_place_trigger_reduce_only E coin is_buy qty trigger_px tpsl =
    (if \<not> 0 < trigger_px then hl_fail (Errorf ''hyperliquid: trigger price must be positive'' [])
     else hl_bind (hl_get_asset_index E coin) (\<lambda>idx. hl_bind (hl_format_size E coin qty) (\<lambda>size.
       hl_bind (hl_place_order E (simple_order idx is_buy (aggressive_limit_price is_buy) size True
           \<lparr>ot_limit = None, ot_trigger = Some \<lparr>trg_is_market = True, trg_tpsl = tpsl\<rparr>\<rparr> (round_price_to_sig_figs trigger_px 5)))
         (\<lambda>_. hl_ret ()))))"

subsection \<open>The provider\<close>

definition hl_set_stop_loss :: "'w hl_env \<Rightarrow> string \<Rightarrow> string \<Rightarrow> f64 \<Rightarrow> f64 \<Rightarrow> (unit, 'w) hl_op" where
  "hl_set_stop_loss E coin side qty px = hl_place_trigger_reduce_only E coin (equal_fold side ''SHORT'') qty px ''sl''"

definition hl_set_take_profit :: "'w hl_env \<Rightarrow> string \<Rightarrow> string \<Rightarrow> f64 \<Rightarrow> f64 \<Rightarrow> (unit, 'w) hl_op" where
  "hl_set_take_profit E coin side qty px = hl_place_trigger_reduce_only E coin (equal_fold side ''SHORT'') qty px ''tp''"

definition hl_cancel_all_by_symbol :: "'w hl_env \<Rightarrow> string \<Rightarrow> (unit, 'w) hl_op" where
  "hl_cancel_all_by_symbol E coin = hl_bind (hl_get_asset_index E coin) (hl_cancel_all_orders E)"

definition some_result :: "('a, 'w) hl_op \<Rightarrow> ('a option, 'w) hl_op" where
  "some_result m = hl_bind m (\<lambda>x. hl_ret (Some x))"

definition first_error :: "('a \<times> goerror option, 'w) hl_op \<Rightarrow> ('a option, 'w) hl_op" where
  "first_error m = hl_bind m (\<lambda>(x, e). case e of None \<Rightarrow> hl_ret (Some x) | Some f \<Rightarrow> hl_fail f)"

definition hl_provider :: "'w hl_env \<Rightarrow> 'w hl_world provider" where
  "hl_provider E =
    \<lparr>pv_type_name = ''*hyperliquid.Provider'',
     pv_place_order = \<lambda>x. some_result (hl_place_order E x),
     pv_cancel_order = hl_cancel_order E,
     pv_get_open_orders = hl_get_open_orders E,
     pv_get_positions = hl_get_positions E,
     pv_close_position = hl_close_position E,
     pv_update_leverage = hl_update_leverage E,
     pv_get_account_state = hl_get_account_state E,
     pv_get_account_value = hl_get_account_value E,
     pv_get_asset_index = hl_get_asset_index E,
     pv_set_mark_price = None,
     pv_cancel_all = Some (hl_cancel_all_by_symbol E),
     pv_ioc_market = Some (\<lambda>coin is_buy qty slippage reduce_only. first_error (hl_ioc_market E coin is_buy qty slippage reduce_only)),
     pv_format_price = Some (hl_format_price E),
     pv_format_size = Some (hl_format_size E),
     pv_set_stop_loss = Some (hl_set_stop_loss E),
     pv_set_take_profit = Some (hl_set_take_profit E)\<rparr>"

subsection \<open>Relations every operation keeps\<close>

text \<open>A relation kept by what reading does to the world: a query, a pause, a new asset directory, and the default of the price figures.\<close>

locale reading_relation = world_relation R for R :: "'w hl_world \<Rightarrow> 'w hl_world \<Rightarrow> bool" +
  assumes R_query: "R w (w\<lparr>hw_queries := hw_queries w @ [q], hw_ext := x\<rparr>)"
    and R_wait: "R w (w\<lparr>hw_ext := x\<rparr>)"
    and R_directory: "fill_directory 0 us xs ([], []) = (index, info) \<Longrightarrow>
      R w (w\<lparr>hw_client := (hw_client w)\<lparr>hc_asset_index := index, hc_asset_info := info, hc_asset_last_ref := t\<rparr>\<rparr>)"
    and R_figures: "R w (w\<lparr>hw_client := (hw_client w)\<lparr>hc_price_sig_figs := n\<rparr>\<rparr>)"
begin

lemma info_attempt: "R w (snd (info_attempt E q rd w))"
  by (auto simp: info_attempt_def post_info_def Let_def R_query split: prod.splits http_reply.splits)

lemma info_attempts: "R w (snd (info_attempts E q rd n d e w))"
proof (induction n arbitrary: d e w)
  case (Suc n)
  obtain r w1 where a: "Hyperliquid.info_attempt E q rd w = (r, w1)" by (cases "Hyperliquid.info_attempt E q rd w")
  have R1: "R w w1" using info_attempt [of w E q rd] by (simp add: a)
  show ?case
  proof (cases r)
    case (Inl x)
    then show ?thesis by (simp add: a R1)
  next
    case (Inr f)
    obtain c w2 where p: "pause E d w1 = (c, w2)" by (cases "pause E d w1")
    have "R w1 w2" using p by (auto simp: pause_def R_wait split: prod.splits)
    then have R2: "R w w2" using R1 R_trans by blast
    then show ?thesis using Suc.IH [of w2] R_trans by (auto simp: a p Inr split: option.splits)
  qed
qed (simp add: R_refl)

lemma info_request: "keeps R (do_info_request E q rd)"
  by (simp add: keeps_def do_info_request_def info_attempts)

lemma refresh: "keeps R (refresh_asset_directory E)"
  unfolding refresh_asset_directory_def
  by (intro bind info_request) (auto simp: keeps_def R_refl R_directory split: prod.splits)

lemma maybe_refresh: "keeps R (maybe_refresh_asset_directory E)"
  using refresh by (auto simp: keeps_def maybe_refresh_asset_directory_def Let_def R_refl)

lemma asset: "keeps R (get_asset E sel missing coin)"
proof -
  have "keeps R (hl_bind (refresh_asset_directory E) (\<lambda>_ w. case sel (hw_client w) key of
         Some x \<Rightarrow> (Inr x, w) | None \<Rightarrow> (Inl e, w)))" for key e
    by (intro bind refresh) (auto simp: keeps_def R_refl split: option.splits)
  then have "keeps R (\<lambda>w. case sel (hw_client w) key of
       Some x \<Rightarrow> (Inr x, w)
     | None \<Rightarrow> hl_bind (refresh_asset_directory E) (\<lambda>_ w. case sel (hw_client w) key of
         Some x \<Rightarrow> (Inr x, w) | None \<Rightarrow> (Inl e, w)) w)" for key e
    by (auto simp: keeps_def R_refl split: option.splits)
  then show ?thesis unfolding get_asset_def Let_def by (auto intro!: fail bind attempt maybe_refresh)
qed

lemma index: "keeps R (hl_get_asset_index E coin)"
  unfolding hl_get_asset_index_def by (rule asset)

lemma info: "keeps R (hl_get_asset_info E coin)"
  unfolding hl_get_asset_info_def by (rule asset)

lemma format_size: "keeps R (hl_format_size E coin qty)"
  unfolding hl_format_size_def by (intro bind info ret)

lemma format_price: "keeps R (hl_format_price E coin px)"
proof -
  have "R w (w\<lparr>hw_client := if b then (hw_client w)\<lparr>hc_price_sig_figs := 5\<rparr> else hw_client w\<rparr>)" for w and b
    using R_figures [of w 5] R_refl [of w] by simp
  then show ?thesis unfolding hl_format_price_def Let_def
    by (cases "px \<le> 0 \<or> \<not> is_finite px", simp_all only: if_True if_False) (rule fail, rule bind, rule info, simp add: keeps_def)
qed

lemma open_orders: "keeps R (hl_get_open_orders E)"
proof -
  have "keeps R (hl_bind (do_info_request E q Inr) (\<lambda>raw. hl_bind (hl_lift (read_open_orders raw)) (\<lambda>xs. hl_ret (map open_order_status xs))))" for q
    by (intro bind info_request lift ret)
  then show ?thesis by (auto simp: keeps_def hl_get_open_orders_def Let_def R_refl)
qed

lemma account_state: "keeps R (hl_get_account_state E)"
proof -
  have "keeps R (hl_bind (do_info_request E q read_account) (\<lambda>st.
       if trim_space (ms_account_value (as_margin st)) = '''' \<and> trim_space (ms_account_value (as_cross_margin st)) = ''''
       then hl_fail e else hl_ret st))" for q e
    by (intro bind info_request) (auto intro: fail ret)
  then show ?thesis by (auto simp: keeps_def hl_get_account_state_def Let_def R_refl)
qed

lemma account_value: "keeps R (hl_get_account_value E)"
  unfolding hl_get_account_value_def by (intro bind account_state) (auto intro: fail ret split: prod.splits)

lemma positions: "keeps R (hl_get_positions E)"
  unfolding hl_get_positions_def by (intro bind account_state ret)

lemma orders_of: "keeps R (orders_of_asset E asset xs)"
proof (induction xs)
  case (Cons x xs)
  show ?case
    using keepsD [OF index] keepsD [OF Cons.IH] R_trans
    by (fastforce simp: keeps_def split: prod.splits sum.splits)
qed (simp add: keeps_def R_refl)

end

text \<open>Posting to the exchange endpoint is the other thing an operation does.\<close>

locale trading_relation = reading_relation R for R :: "'w hl_world \<Rightarrow> 'w hl_world \<Rightarrow> bool" +
  assumes R_sent: "R w (w\<lparr>hw_sent := hw_sent w @ [q], hw_ext := x\<rparr>)"
begin

lemma exchange_request: "keeps R (do_exchange_request E action result)"
  unfolding do_exchange_request_def
  by (rule bind) (auto simp: keeps_def client_sign_action_def hl_lift_def Let_def post_exchange_def R_refl R_sent
      split: prod.splits http_reply.splits)

lemma lifted_request: "keeps R (hl_bind (hl_lift r) (\<lambda>action. do_exchange_request E action (f action)))"
  by (intro bind lift exchange_request)

lemma place_orders: "keeps R (hl_place_orders E xs)"
  by (auto simp: hl_place_orders_def intro: fail bind lift exchange_request)

lemma place_order: "keeps R (hl_place_order E x)"
  unfolding hl_place_order_def by (rule place_orders)

lemma cancel_order: "keeps R (hl_cancel_order E asset oid)"
  unfolding hl_cancel_order_def by (rule exchange_request)

lemma cancel_orders: "keeps R (hl_cancel_orders E cs)"
  by (auto simp: hl_cancel_orders_def intro: ret exchange_request)

lemma cancel_all_orders: "keeps R (hl_cancel_all_orders E asset)"
proof -
  have "keeps R (hl_bind (orders_of_asset E asset xs) (hl_cancel_orders E))" for xs
    by (intro bind orders_of cancel_orders)
  then show ?thesis
    using keepsD [OF open_orders] R_trans by (fastforce simp: keeps_def hl_cancel_all_orders_def split: prod.splits sum.splits)
qed

lemma cancel_by_cloid: "keeps R (hl_cancel_by_cloid E asset cloid)" "keeps R (hl_cancel_orders_by_cloid E cs)"
  by (auto simp: hl_cancel_by_cloid_def hl_cancel_orders_by_cloid_def intro: ret lifted_request)

lemma modify: "keeps R (hl_modify_order E r)" "keeps R (hl_modify_orders E rs)"
  by (auto simp: hl_modify_order_def hl_modify_orders_def intro: fail lifted_request)

lemma update_leverage: "keeps R (hl_update_leverage E asset cross lev)"
  by (auto simp: hl_update_leverage_def intro: fail exchange_request)

lemma close_position: "keeps R (hl_close_position E coin)"
  unfolding hl_close_position_def
  by (intro bind positions) (auto split: option.splits intro!: bind ret index info place_order)

lemma ioc_order: "keeps R (ioc_order E coin b q rd idx price)"
  unfolding ioc_order_def by (intro bind format_size place_order ret)

lemma ioc_market: "keeps R (hl_ioc_market E coin b q s rd)"
proof -
  have "keeps R (ioc_with E coin b q slip rd)" for slip
    unfolding ioc_with_def using ioc_order by (intro bind index info lift) (simp add: keeps_def)
  then show ?thesis by (simp add: keeps_def hl_ioc_market_def)
qed

lemma trigger: "keeps R (hl_place_trigger_reduce_only E coin b q px t)"
  unfolding hl_place_trigger_reduce_only_def by (auto intro!: fail bind index format_size place_order ret)

lemma cancel_symbol: "keeps R (hl_cancel_all_by_symbol E coin)"
  unfolding hl_cancel_all_by_symbol_def by (intro bind index cancel_all_orders)

lemma wrapped: "keeps R m \<Longrightarrow> keeps R (some_result m)" "keeps R m' \<Longrightarrow> keeps R (first_error m')"
  unfolding some_result_def first_error_def by (auto intro!: bind ret fail split: option.splits)

end

subsection \<open>What is sent\<close>

definition sends :: "(exchange_request \<Rightarrow> bool) \<Rightarrow> ('a, 'w) hl_op \<Rightarrow> bool" where
  "sends S m \<longleftrightarrow> (\<forall>w. hw_sent (snd (m w)) = hw_sent w \<or>
     (\<exists>q. hw_sent (snd (m w)) = hw_sent w @ [(hc_exchange_url (hw_client w), q)] \<and> er_vault q = hc_vault (hw_client w) \<and> S q))"

text \<open>What a client is to the venue: its endpoints, its key, its account, its vault.\<close>

definition identity :: "hl_client \<Rightarrow> string list \<times> bool" where
  "identity c = ([hc_info_url c, hc_exchange_url c, hc_key c, hc_address c, hc_main_address c, hc_vault c], hc_is_testnet c)"

interpretation same: trading_relation "\<lambda>w w'. identity (hw_client w') = identity (hw_client w)"
  by unfold_locales (simp_all add: identity_def)

definition quiet :: "'w hl_world \<Rightarrow> 'w hl_world \<Rightarrow> bool" where
  "quiet w w' \<longleftrightarrow> hw_sent w' = hw_sent w \<and> identity (hw_client w') = identity (hw_client w)"

interpretation reads: reading_relation quiet
  by unfold_locales (simp_all add: quiet_def identity_def)

lemma sends_quiet: "keeps quiet m \<Longrightarrow> sends S m"
  by (simp add: keeps_def sends_def quiet_def)

lemma sends_mono: "sends S m \<Longrightarrow> (\<And>q. S q \<Longrightarrow> T q) \<Longrightarrow> sends T m"
  unfolding sends_def by blast

lemma quiet_first:
  assumes "keeps quiet m" and "\<And>x. sends S (k x)"
  shows "sends S (hl_bind m k)"
  unfolding sends_def
proof
  fix w
  obtain r w1 where m: "m w = (r, w1)" by (cases "m w")
  have q: "hw_sent w1 = hw_sent w" "hc_exchange_url (hw_client w1) = hc_exchange_url (hw_client w)" "hc_vault (hw_client w1) = hc_vault (hw_client w)"
    using keepsD [OF assms(1) m] by (simp_all add: quiet_def identity_def)
  show "hw_sent (snd (hl_bind m k w)) = hw_sent w \<or> (\<exists>q. hw_sent (snd (hl_bind m k w)) = hw_sent w @ [(hc_exchange_url (hw_client w), q)]
      \<and> er_vault q = hc_vault (hw_client w) \<and> S q)"
    using assms(2) q by (cases r) (auto simp: hl_bind_def m sends_def, metis)
qed

lemma quiet_after:
  assumes "sends S m" and "\<And>x. keeps quiet (k x)"
  shows "sends S (hl_bind m k)"
  unfolding sends_def
proof
  fix w
  obtain r w1 where m: "m w = (r, w1)" by (cases "m w")
  have "hw_sent (snd (hl_bind m k w)) = hw_sent w1"
    using assms(2) by (cases r) (auto simp: hl_bind_def m keeps_def quiet_def)
  then show "hw_sent (snd (hl_bind m k w)) = hw_sent w \<or> (\<exists>q. hw_sent (snd (hl_bind m k w)) = hw_sent w @ [(hc_exchange_url (hw_client w), q)]
      \<and> er_vault q = hc_vault (hw_client w) \<and> S q)"
    using assms(1) m unfolding sends_def by (metis snd_conv)
qed

lemma signed_fields: "sign_action C key action n wall vault b = Inr q \<Longrightarrow> er_action q = action \<and> er_vault q = vault \<and> 0 < er_nonce q"
  by (auto simp: sign_action_def build_eip712_message_def Let_def split: sum.splits if_splits)

lemma request_sends: "S action \<Longrightarrow> sends (\<lambda>q. S (er_action q)) (do_exchange_request E action result)"
  by (auto simp: sends_def do_exchange_request_def hl_bind_def client_sign_action_def hl_lift_def Let_def post_exchange_def
      dest!: signed_fields split: prod.splits sum.splits http_reply.splits)

lemma lifted_sends:
  assumes "\<And>action. r = Inr action \<Longrightarrow> S action"
  shows "sends (\<lambda>q. S (er_action q)) (hl_bind (hl_lift r) (\<lambda>action. do_exchange_request E action result))"
proof (cases r)
  case (Inl e)
  then show ?thesis by (simp add: sends_def hl_bind_def hl_lift_def)
next
  case (Inr action)
  have "hl_bind (hl_lift r) (\<lambda>action. do_exchange_request E action result) = do_exchange_request E action result"
    by (simp add: fun_eq_iff hl_bind_def hl_lift_def Inr)
  then show ?thesis using request_sends [of S action E result] assms Inr by simp
qed

definition order_sent :: "(order \<Rightarrow> bool) \<Rightarrow> exchange_request \<Rightarrow> bool" where
  "order_sent P q \<longleftrightarrow> (\<exists>x. P x \<and> posts_order x (er_action q))"

lemma place_sends:
  assumes "P x" shows "sends (order_sent P) (hl_place_order E x)"
  unfolding hl_place_order_def hl_place_orders_def order_sent_def
  using assms built_order_posted [of x] by (auto intro!: lifted_sends)

text \<open>The size of an order comes from the quantity, at some number of decimals.\<close>

definition sized :: "f64 \<Rightarrow> order \<Rightarrow> bool" where
  "sized qty x \<longleftrightarrow> (\<exists>d. o_sz x = size_text d qty)"

lemma format_size_first:
  assumes "\<And>d. sends S (k (size_text d qty))"
  shows "sends S (hl_bind (hl_format_size E coin qty) k)"
proof -
  have "hl_bind (hl_format_size E coin qty) k = hl_bind (hl_get_asset_info E coin) (\<lambda>info. k (size_text (hi_sz_decimals info) qty))"
    by (simp add: hl_format_size_def hl_bind_def hl_ret_def fun_eq_iff split: prod.splits sum.splits)
  then show ?thesis using quiet_first [OF reads.info] assms by metis
qed

text \<open>What a client asks for: an immediate order on a side, and a market order that protects a position once a price is reached.\<close>

definition immediate :: "bool \<Rightarrow> bool \<Rightarrow> order \<Rightarrow> bool" where
  "immediate is_buy reduce_only x \<longleftrightarrow> plainly_typed x \<and> o_type x = ioc_type \<and> o_is_buy x = is_buy \<and> o_reduce_only x = reduce_only"

definition protective :: "string \<Rightarrow> bool \<Rightarrow> f64 \<Rightarrow> order \<Rightarrow> bool" where
  "protective tpsl is_buy px x \<longleftrightarrow> plainly_typed x \<and> o_type x = \<lparr>ot_limit = None, ot_trigger = Some \<lparr>trg_is_market = True, trg_tpsl = tpsl\<rparr>\<rparr> \<and>
     o_is_buy x = is_buy \<and> o_reduce_only x \<and> o_trigger_px x = round_price_to_sig_figs px 5 \<and> 0 < px"

lemma simple_order_fields [simp]:
  "immediate b' r' (simple_order i b px sz r ioc_type '''') \<longleftrightarrow> b = b' \<and> r = r'"
  "protective t b' p (simple_order i b px sz True \<lparr>ot_limit = None, ot_trigger = Some \<lparr>trg_is_market = True, trg_tpsl = t\<rparr>\<rparr> (round_price_to_sig_figs p 5))
     \<longleftrightarrow> b = b' \<and> 0 < p"
  "sized q (simple_order i b px (size_text d q) r ot t')" "o_is_buy (simple_order i b px sz r ot t') = b"
  by (auto simp: immediate_def protective_def sized_def plainly_typed_def simple_order_def)

lemma close_sends: "sends (order_sent (\<lambda>y. immediate (o_is_buy y) True y)) (hl_close_position E coin)"
proof -
  let ?S = "order_sent (\<lambda>y. immediate (o_is_buy y) True y)"
  have last: "sends ?S (case build_close_order idx mark p of
      None \<Rightarrow> hl_ret None | Some x \<Rightarrow> hl_bind (hl_place_order E x) (\<lambda>resp. hl_ret (Some resp)))" for idx mark p
  proof (cases "build_close_order idx mark p")
    case None
    then show ?thesis by (simp add: sends_quiet [OF reads.ret])
  next
    case (Some x)
    then obtain b px sz where x: "x = simple_order idx b px sz True ioc_type ''''"
      by (auto simp: build_close_order_def Let_def split: if_splits)
    show ?thesis unfolding Some option.case x by (intro quiet_after place_sends reads.ret) simp
  qed
  have "sends ?S (case find f ps of None \<Rightarrow> hl_ret None
     | Some target \<Rightarrow> hl_bind (hl_get_asset_index E coin) (\<lambda>idx. hl_bind (hl_get_asset_info E coin) (\<lambda>info.
         case build_close_order idx (hi_mark_px info) target of
           None \<Rightarrow> hl_ret None | Some x \<Rightarrow> hl_bind (hl_place_order E x) (\<lambda>resp. hl_ret (Some resp)))))" for f ps
    by (cases "find f ps") (simp_all add: sends_quiet [OF reads.ret] quiet_first reads.index reads.info last)
  then show ?thesis unfolding hl_close_position_def by (intro quiet_first [OF reads.positions])
qed

lemma market_sends: "sends (order_sent (\<lambda>y. immediate b rd y \<and> sized q y)) (hl_ioc_market E coin b q s rd)"
proof -
  let ?S = "order_sent (\<lambda>y. immediate b rd y \<and> sized q y)"
  have last: "sends ?S (ioc_order E coin b q rd i px)" for i px
    unfolding ioc_order_def by (rule format_size_first, rule quiet_after [OF place_sends reads.ret]) simp
  have "sends ?S (ioc_with E coin b q slip rd)" for slip
    unfolding ioc_with_def
    by (rule quiet_first [OF reads.index], rule quiet_first [OF reads.info], rule quiet_first [OF reads.lift])
      (use last in \<open>simp add: sends_def\<close>)
  then show ?thesis by (simp add: sends_def hl_ioc_market_def)
qed

lemma trigger_sends: "sends (order_sent (\<lambda>y. protective t b px y \<and> sized q y)) (hl_place_trigger_reduce_only E coin b q px t)"
proof (cases "0 < px")
  case True
  then show ?thesis by (simp add: hl_place_trigger_reduce_only_def
    quiet_first [OF reads.index] format_size_first quiet_after [OF place_sends reads.ret])
next
  case False
  then show ?thesis by (simp add: hl_place_trigger_reduce_only_def sends_quiet [OF reads.fail])
qed

text \<open>C36. The requests that reach the exchange endpoint: each call that trades posts at most one signed request, for the account of the client, and it
  holds one order, with exactly the fields of the order the call is about. \<open>PlaceOrder\<close> sends the order it is given; a close and a market order are
  immediate, on the side asked for, the close reduce-only; a stop loss and a take profit are reduce-only market triggers at the price asked for, on the
  buying side for a short; the sizes come from the quantities. What is sent has an asset that is not negative, a size that denotes a positive
  number, an identifier of at most 128 bytes, and, when the order is of one type, a positive price where it acts. An order with a trigger price beside a
  limit type is sent as a limit whose price nothing looked at.\<close>

theorem sent_orders_valid:
  "sends (order_sent (\<lambda>y. y = x)) (pv_place_order (hl_provider E) x) \<and>
   sends (order_sent (\<lambda>y. immediate (o_is_buy y) True y)) (pv_close_position (hl_provider E) coin) \<and>
   (\<forall>m. pv_ioc_market (hl_provider E) = Some m \<longrightarrow> sends (order_sent (\<lambda>y. immediate b rd y \<and> sized q y)) (m coin b q s rd)) \<and>
   (\<forall>m. pv_set_stop_loss (hl_provider E) = Some m \<longrightarrow>
     sends (order_sent (\<lambda>y. protective ''sl'' (equal_fold side ''SHORT'') px y \<and> sized q y)) (m coin side q px)) \<and>
   (\<forall>m. pv_set_take_profit (hl_provider E) = Some m \<longrightarrow>
     sends (order_sent (\<lambda>y. protective ''tp'' (equal_fold side ''SHORT'') px y \<and> sized q y)) (m coin side q px))"
proof -
  have "sends (order_sent (\<lambda>y. y = x)) (some_result (hl_place_order E x))"
    unfolding some_result_def by (intro quiet_after place_sends reads.ret) simp
  moreover have "sends (order_sent (\<lambda>y. immediate b rd y \<and> sized q y)) (first_error (hl_ioc_market E coin b q s rd))"
    unfolding first_error_def by (auto intro!: quiet_after market_sends intro: reads.ret reads.fail split: option.splits)
  ultimately show ?thesis
    by (auto simp: hl_provider_def hl_set_stop_loss_def hl_set_take_profit_def close_sends trigger_sends)
qed

subsection \<open>The directory is one table\<close>

definition directory_ok :: "hl_client \<Rightarrow> bool" where
  "directory_ok c \<longleftrightarrow> (\<forall>k. lookup (hc_asset_index c) k = map_option hi_index (lookup (hc_asset_info c) k)) \<and>
     (\<forall>k a. lookup (hc_asset_info c) k = Some a \<longrightarrow> k \<noteq> '''' \<and> canonical_asset_key (hi_name a) = k \<and> 0 \<le> hi_index a)"

lemma fill_directory_ok:
  "fill_directory idx us xs (index, info) = (index', info') \<Longrightarrow> directory_ok (c\<lparr>hc_asset_index := index, hc_asset_info := info\<rparr>) \<Longrightarrow>
     directory_ok (c\<lparr>hc_asset_index := index', hc_asset_info := info'\<rparr>)"
proof (induction us arbitrary: idx index info)
  case (Cons e es)
  let ?k = "canonical_asset_key (ue_name e)"
  let ?x = "if idx < length xs then xs ! idx else zero_ctx"
  show ?case
  proof (cases "?k = ''''")
    case True
    then show ?thesis using Cons by (simp add: Let_def)
  next
    case False
    have "directory_ok (c\<lparr>hc_asset_index := put ?k (int idx) index, hc_asset_info := put ?k (asset_entry (int idx) e ?x) info\<rparr>)"
      using Cons.prems(2) False by (auto simp: directory_ok_def asset_entry_def)
    then show ?thesis using Cons False by (simp add: Let_def)
  qed
qed simp

definition directory_step :: "'w hl_world \<Rightarrow> 'w hl_world \<Rightarrow> bool" where
  "directory_step w w' \<longleftrightarrow> (directory_ok (hw_client w) \<longrightarrow> directory_ok (hw_client w')) \<and> identity (hw_client w') = identity (hw_client w)"

lemma directory_ok_other:
  "directory_ok (c\<lparr>hc_asset_last_ref := t\<rparr>) = directory_ok c" "directory_ok (c\<lparr>hc_price_sig_figs := n\<rparr>) = directory_ok c"
  by (simp_all add: directory_ok_def)

interpretation directory: trading_relation directory_step
proof
  fix w :: "'w hl_world" and us xs index info t
  assume f: "fill_directory 0 us xs ([], []) = (index, info)"
  have "directory_ok ((hw_client w)\<lparr>hc_asset_index := [], hc_asset_info := []\<rparr>)" by (simp add: directory_ok_def)
  from fill_directory_ok [OF f this] show "directory_step w (w\<lparr>hw_client := (hw_client w)\<lparr>hc_asset_index := index, hc_asset_info := info,
      hc_asset_last_ref := t\<rparr>\<rparr>)"
    by (simp add: directory_step_def identity_def directory_ok_def)
qed (auto simp: directory_step_def identity_def directory_ok_other)

lemma apply_option_directory:
  "hc_asset_index (apply_option C opt c) = hc_asset_index c \<and> hc_asset_info (apply_option C opt c) = hc_asset_info c"
  by (simp add: apply_option_def split: client_option.splits)

lemma fold_option_directory:
  "hc_asset_index (fold (apply_option C) opts c) = hc_asset_index c \<and> hc_asset_info (fold (apply_option C) opts c) = hc_asset_info c"
  by (induction opts arbitrary: c) (simp_all add: apply_option_directory)

lemma new_client_ok: "new_client C key testnet opts = Inr c \<Longrightarrow> directory_ok c"
  by (auto simp: new_client_def directory_ok_def fold_option_directory split: if_splits sum.splits)

text \<open>A key that was found is in the directory the operation leaves.\<close>

lemma get_asset_found:
  assumes "get_asset E sel missing coin w = (Inr x, w')"
  shows "sel (hw_client w') (canonical_asset_key coin) = Some x \<and> canonical_asset_key coin \<noteq> ''''"
  using assms by (auto simp: get_asset_def hl_fail_def hl_bind_def hl_try_def Let_def split: if_splits prod.splits sum.splits option.splits)

text \<open>C37. The asset directory of a client.\<close>

theorem directory_kept:
  "(new_client C key testnet opts = Inr c \<longrightarrow> directory_ok c) \<and>
   keeps directory_step (pv_place_order (hl_provider E) x) \<and>
   keeps directory_step (pv_cancel_order (hl_provider E) asset oid) \<and>
   keeps directory_step (pv_get_open_orders (hl_provider E)) \<and>
   keeps directory_step (pv_get_positions (hl_provider E)) \<and>
   keeps directory_step (pv_close_position (hl_provider E) coin) \<and>
   keeps directory_step (pv_update_leverage (hl_provider E) asset cross lev) \<and>
   keeps directory_step (pv_get_account_state (hl_provider E)) \<and>
   keeps directory_step (pv_get_asset_index (hl_provider E) coin) \<and>
   keeps directory_step (hl_cancel_all_by_symbol E coin) \<and>
   keeps directory_step (hl_ioc_market E coin b q s rd) \<and>
   keeps directory_step (hl_place_trigger_reduce_only E coin b q px tpsl) \<and>
   (directory_ok (hw_client w) \<and> pv_get_asset_index (hl_provider E) coin w = (Inr i, w') \<longrightarrow>
     (\<exists>a. lookup (hc_asset_info (hw_client w')) (canonical_asset_key coin) = Some a \<and> hi_index a = i \<and> 0 \<le> i \<and>
       canonical_asset_key (hi_name a) = canonical_asset_key coin))"
proof -
  have "\<exists>a. lookup (hc_asset_info (hw_client w')) (canonical_asset_key coin) = Some a \<and> hi_index a = i \<and> 0 \<le> i \<and>
       canonical_asset_key (hi_name a) = canonical_asset_key coin"
    if ok: "directory_ok (hw_client w)" and g: "hl_get_asset_index E coin w = (Inr i, w')"
  proof -
    have "directory_ok (hw_client w')" using keepsD [OF directory.index g] ok by (simp add: directory_step_def)
    moreover have "lookup (hc_asset_index (hw_client w')) (canonical_asset_key coin) = Some i"
      using get_asset_found [OF g [unfolded hl_get_asset_index_def]] by simp
    ultimately show ?thesis by (auto simp: directory_ok_def)
  qed
  then show ?thesis
    by (auto simp: hl_provider_def new_client_ok directory.wrapped directory.place_order directory.cancel_order directory.open_orders
        directory.positions directory.close_position directory.update_leverage directory.account_state directory.index
        directory.cancel_symbol directory.ioc_market directory.trigger)
qed

subsection \<open>Closing a position\<close>

lemma blank_at_start: "is_digit c \<or> c = CHR ''.'' \<Longrightarrow> blank_len utf8_spaces (c # s) = 0"
  by (auto simp: is_digit_def ascii_space_def code_def)

lemma strip_blanks_fixed: "strip_blanks ps s = s \<Longrightarrow> blank_len ps s = 0"
  using blank_len_strip [of ps s] by simp

lemma trimmed_tail:
  assumes "trim_space (c # t) = c # t" and "blank_len utf8_spaces t = 0"
  shows "trim_space t = t"
proof -
  let ?b = "map rev utf8_spaces"
  define u where "u = strip_blanks utf8_spaces (c # t)"
  have r: "strip_blanks ?b (rev u) = rev (c # t)" using assms(1) unfolding trim_space_def u_def by (metis rev_rev_ident)
  have "length (strip_blanks ?b (rev u)) \<le> length u" using strip_blanks_length [of ?b "rev u"] by simp
  then have "length (c # t) \<le> length u" unfolding r by simp
  moreover obtain v where v: "c # t = v @ u" using strip_blanks_suffix [of "c # t" utf8_spaces] unfolding u_def by blast
  ultimately have "v = []" by (metis add_le_same_cancel2 le_zero_eq length_0_conv length_append)
  then have "strip_blanks ?b (rev (c # t)) = rev (c # t)" using v r by simp
  then have "blank_len ?b (rev t @ [c]) = 0" using strip_blanks_fixed by force
  then have "blank_len ?b (rev t) = 0" using blank_len_prefix [OF blank_patterns_utf8(2)] by blast
  then show ?thesis using assms(2) by (simp add: trim_space_def strip_blanks_done)
qed

text \<open>What a decimal starts with after its sign.\<close>

definition decimal_start :: "string \<Rightarrow> bool" where
  "decimal_start t \<longleftrightarrow> (\<exists>c u. t = c # u \<and> (is_digit c \<or> c = CHR ''.''))"

definition read_unsigned :: "string \<Rightarrow> rat option" where
  "read_unsigned t =
    (if CHR ''/'' \<in> set t
     then (case scan_nat False (takeWhile (\<lambda>c. c \<noteq> CHR ''/'') t) of
         Some (n, _, _, []) \<Rightarrow> (case scan_nat False (tl (dropWhile (\<lambda>c. c \<noteq> CHR ''/'') t)) of
           Some (d, _, _, []) \<Rightarrow> if d = 0 then None else Some (of_int n / of_int d) | _ \<Rightarrow> None)
       | _ \<Rightarrow> None)
     else (case scan_nat True t of
         None \<Rightarrow> None
       | Some (m, b, d, u) \<Rightarrow> (case scan_exponent u of Some (e, eb, []) \<Rightarrow> scaled_rat m b d eb e | _ \<Rightarrow> None)))"

lemma sign_before_bar:
  "read_sign s = (neg, t) \<Longrightarrow> (CHR ''/'' \<in> set s \<longleftrightarrow> CHR ''/'' \<in> set t) \<and>
     read_sign (takeWhile (\<lambda>c. c \<noteq> CHR ''/'') s) = (neg, takeWhile (\<lambda>c. c \<noteq> CHR ''/'') t) \<and>
     dropWhile (\<lambda>c. c \<noteq> CHR ''/'') s = dropWhile (\<lambda>c. c \<noteq> CHR ''/'') t"
  by (cases s) (auto simp: read_sign_def split: if_splits)

lemma rat_set_string_split:
  "rat_set_string s = (case read_sign s of (neg, t) \<Rightarrow> map_option (\<lambda>q. if neg then - q else q) (read_unsigned t))"
proof -
  obtain neg t where r: "read_sign s = (neg, t)" by (cases "read_sign s")
  note b = sign_before_bar [OF r]
  show ?thesis
    using b by (auto simp: rat_set_string_def int_set_string_def read_unsigned_def r split: option.splits prod.splits list.splits)
qed

lemma sign_not_digit [simp]: "\<not> is_digit (CHR ''+'')" "\<not> is_digit (CHR ''-'')" "\<not> is_digit (CHR ''.'')"
  by code_simp+

lemma scan_digits_bad: "scan_digits b point prev bad v n dp s = (v', n', dp', bad', u) \<Longrightarrow> bad \<Longrightarrow> bad'"
  by (induction b point prev bad v n dp s rule: scan_digits.induct) (auto split: if_splits)

lemma digit_of_nonneg: "0 \<le> digit_of c"
  by (simp add: digit_of_def is_digit_def)

lemma scan_digits_nonneg: "scan_digits b point prev bad v n dp s = (v', n', dp', bad', u) \<Longrightarrow> 0 \<le> v \<Longrightarrow> 0 \<le> b \<Longrightarrow> 0 \<le> v'"
  by (induction b point prev bad v n dp s rule: scan_digits.induct) (auto simp: digit_of_nonneg split: if_splits)

lemma scan_prefix_base: "scan_prefix point s = (b, octal, n, prev, t) \<Longrightarrow> b \<in> {2, 8, 10, 16}"
  by (auto simp: scan_prefix_def split: list.splits if_splits)

lemma scan_prefix_rest: "scan_prefix point s = (b, octal, n, prev, t) \<Longrightarrow> set t \<subseteq> set s"
  by (auto simp: scan_prefix_def split: list.splits if_splits)

lemma scan_nat_nonneg: "scan_nat point s = Some (v, b, d, u) \<Longrightarrow> 0 \<le> v \<and> b \<in> {2, 8, 10, 16}"
  by (auto simp: scan_nat_def split: prod.splits if_splits dest!: scan_digits_nonneg scan_prefix_base)

lemma scan_nat_start: "scan_nat point t = Some x \<Longrightarrow> decimal_start t"
proof (cases t)
  case (Cons c u)
  assume s: "scan_nat point t = Some x"
  show ?thesis
  proof (rule ccontr)
    assume n: "\<not> decimal_start t"
    then have c: "\<not> is_digit c" "c \<noteq> CHR ''.''" by (auto simp: decimal_start_def Cons)
    then have z: "c \<noteq> CHR ''0''" by (auto simp: is_digit_def code_def)
    have d: "\<not> digit_of c < 10" using c by (auto simp: digit_of_def)
    show False
      using s c z d scan_digits_bad [where bad = True]
      by (fastforce simp: Cons scan_nat_def scan_prefix_def split: if_splits prod.splits)
  qed
qed (simp add: scan_nat_def scan_prefix_def)

lemma read_unsigned_start: "read_unsigned t = Some q \<Longrightarrow> decimal_start t"
proof -
  assume r: "read_unsigned t = Some q"
  show ?thesis
  proof (cases "CHR ''/'' \<in> set t")
    case True
    then have "decimal_start (takeWhile (\<lambda>c. c \<noteq> CHR ''/'') t)" using r scan_nat_start by (auto simp: read_unsigned_def split: option.splits)
    then show ?thesis by (cases t) (auto simp: decimal_start_def split: if_splits)
  next
    case False
    then show ?thesis using r scan_nat_start by (auto simp: read_unsigned_def split: option.splits)
  qed
qed

lemma decimal_start_sign: "decimal_start t \<Longrightarrow> read_sign t = (False, t)"
  by (auto simp: decimal_start_def read_sign_def)

lemma rat_power_pos: "0 < b \<Longrightarrow> 0 < rat_power b k"
  by (simp add: rat_power_def)

lemma scaled_rat_nonneg: "scaled_rat m b d eb e = Some q \<Longrightarrow> 0 \<le> m \<Longrightarrow> 0 \<le> q"
  using rat_power_pos [of 5] rat_power_pos [of 2]
  by (auto simp: scaled_rat_def Let_def less_imp_le split: if_splits)

lemma read_unsigned_nonneg:
  assumes r: "read_unsigned t = Some q" shows "0 \<le> q"
proof (cases "CHR ''/'' \<in> set t")
  case True
  then obtain n d b c e f where "scan_nat False (takeWhile (\<lambda>c. c \<noteq> CHR ''/'') t) = Some (n, b, c, [])"
    "scan_nat False (tl (dropWhile (\<lambda>c. c \<noteq> CHR ''/'') t)) = Some (d, e, f, [])" "q = of_int n / of_int d"
    using r by (auto simp: read_unsigned_def split: option.splits list.splits if_splits)
  moreover from this have "0 \<le> n" "0 \<le> d" using scan_nat_nonneg by blast+
  ultimately show ?thesis by simp
next
  case False
  then obtain m b d u e eb where s: "scan_nat True t = Some (m, b, d, u)" "scaled_rat m b d eb e = Some q"
    using r by (auto simp: read_unsigned_def split: option.splits list.splits)
  then show ?thesis using scan_nat_nonneg [OF s(1)] scaled_rat_nonneg [OF s(2)] by blast
qed

lemma digit_of_zero: "digit_of (CHR ''0'') = 0" "digit_of (CHR ''.'') = 63"
  by code_simp+

lemma zeros_scanned:
  "list_all (\<lambda>c. c = CHR ''0'' \<or> c = CHR ''.'') s \<Longrightarrow> 0 < b \<Longrightarrow> b \<le> 63 \<Longrightarrow> scan_digits b point prev bad 0 n dp s = (v, n', dp', bad', u) \<Longrightarrow> v = 0"
  by (induction s arbitrary: point prev bad n dp) (auto simp: digit_of_zero split: if_splits)

lemma read_unsigned_none [simp]:
  "read_unsigned [] = None" "read_unsigned (CHR ''+'' # t) = None" "read_unsigned (CHR ''-'' # t) = None"
proof -
  have "\<not> decimal_start []" "\<not> decimal_start (CHR ''+'' # t)" "\<not> decimal_start (CHR ''-'' # t)" by (simp_all add: decimal_start_def)
  then show "read_unsigned [] = None" "read_unsigned (CHR ''+'' # t) = None" "read_unsigned (CHR ''-'' # t) = None"
    using read_unsigned_start by (metis not_Some_eq)+
qed

lemma zeros_value:
  assumes z: "list_all (\<lambda>c. c = CHR ''0'' \<or> c = CHR ''.'') t" and r: "read_unsigned t = Some q"
  shows "q = 0"
proof -
  have b: "CHR ''/'' \<notin> set t" using z by (auto simp: list_all_iff)
  then obtain v bs d u e eb where s: "scan_nat True t = Some (v, bs, d, u)" "scaled_rat v bs d eb e = Some q"
    using r by (auto simp: read_unsigned_def split: option.splits list.splits)
  obtain b octal n0 prev t' where p: "scan_prefix True t = (b, octal, n0, prev, t')" by (metis prod_cases5)
  have t': "list_all (\<lambda>c. c = CHR ''0'' \<or> c = CHR ''.'') t'" "0 < b" "b \<le> 63"
  proof -
    show "list_all (\<lambda>c. c = CHR ''0'' \<or> c = CHR ''.'') t'" using z scan_prefix_rest [OF p] unfolding list_all_iff by blast
    show "0 < b" "b \<le> 63" using scan_prefix_base [OF p] by (elim insertE emptyE; simp)+
  qed
  have "v = 0" using s(1) zeros_scanned [OF t'] by (auto simp: scan_nat_def p split: prod.splits if_splits)
  then show ?thesis using s(2) by (simp add: scaled_rat_def Let_def)
qed

lemma dropWhile_filter_zeros:
  "dropWhile (\<lambda>c. c = CHR ''0'') (filter (\<lambda>c. c \<noteq> CHR ''.'') t) = '''' \<Longrightarrow> list_all (\<lambda>c. c = CHR ''0'' \<or> c = CHR ''.'') t"
  by (auto simp: dropWhile_eq_Nil_conv list_all_iff)

lemma zero_decimal_value:
  assumes z: "is_zero_decimal s" and r: "rat_set_string (trim_space s) = Some q"
  shows "q = 0"
proof (cases "trim_space s")
  case Nil
  then show ?thesis using r by (simp add: rat_set_string_split read_sign_def)
next
  case (Cons c t)


  have zs: "list_all (\<lambda>c. c = CHR ''0'' \<or> c = CHR ''.'') (trim_prefix (CHR ''-'') (trim_prefix (CHR ''+'') (c # t)))"
    using z Cons by (auto simp: is_zero_decimal_def Let_def intro: dropWhile_filter_zeros)
  show ?thesis
    using r zs zeros_value [of t]  zeros_value [of "c # t"]
    by (auto simp: Cons rat_set_string_split read_sign_def trim_prefix_def split: if_splits list.splits)
qed

text \<open>The size without its sign.\<close>

lemma trim_sign_value:
  assumes r: "rat_set_string (trim_space s) = Some q" and nz: "q \<noteq> 0"
  defines "t \<equiv> trim_sign (trim_space s)"
  shows "rat_set_string t = Some \<bar>q\<bar>" and "trim_space t = t" and "t \<noteq> ''''" and "has_prefix ''-'' (trim_space s) \<longleftrightarrow> q < 0"
proof -
  obtain neg u where sg: "read_sign (trim_space s) = (neg, u)" by (cases "read_sign (trim_space s)")
  obtain x where ru: "read_unsigned u = Some x" and q: "q = (if neg then - x else x)"
    using r by (auto simp: rat_set_string_split sg)
  have x: "0 \<le> x" "x \<noteq> 0" using read_unsigned_nonneg [OF ru] q nz by (auto split: if_splits)
  have st: "decimal_start u" by (rule read_unsigned_start [OF ru])
  then obtain d v where u: "u = d # v" "is_digit d \<or> d = CHR ''.''" by (auto simp: decimal_start_def)
  have cs: "trim_space s = u \<and> \<not> neg \<or> (\<exists>c. trim_space s = c # u \<and> (c = CHR ''-'' \<and> neg \<or> c = CHR ''+'' \<and> \<not> neg))"
    using sg by (auto simp: read_sign_def split: list.splits if_splits)
  have tu: "trim_space u = u"
  proof (cases "trim_space s = u")
    case True
    then show ?thesis using trim_space_idem [of s] by simp
  next
    case False
    then obtain c where "trim_space s = c # u" using cs by blast
    then have "trim_space (c # u) = c # u" using trim_space_idem [of s] by simp
    then show ?thesis by (rule trimmed_tail) (simp only: u blank_at_start [OF u(2)])
  qed
  have su: "strip_signs u = u" using u by (auto simp: strip_signs.simps [of "d # v"])
  have t: "t = u" using cs tu su trim_space_idem [of s]
    by (auto simp: t_def trim_sign_def strip_signs.simps [of "_ # u"])
  show "rat_set_string t = Some \<bar>q\<bar>"
    using ru q x decimal_start_sign [OF st] by (auto simp: t rat_set_string_split)
  show "trim_space t = t" "t \<noteq> ''''" using tu u by (simp_all add: t)
  show "has_prefix ''-'' (trim_space s) \<longleftrightarrow> q < 0" using cs u q x by auto
qed

lemma close_order_built:
  assumes r: "rat_set_string (trim_space (pos_szi p)) = Some q" and nz: "q \<noteq> 0"
  shows "\<exists>sz. build_close_order idx mark p = Some (simple_order idx (q < 0) (compute_close_limit mark (q < 0)) sz True ioc_type '''')
    \<and> rat_set_string sz = Some \<bar>q\<bar>"
proof -
  let ?raw = "trim_space (pos_szi p)"
  note v = trim_sign_value [OF r nz]
  have "\<not> is_zero_decimal ?raw" using zero_decimal_value [of ?raw q] r nz by auto
  moreover have "\<not> is_zero_decimal (trim_sign ?raw)" using zero_decimal_value [of "trim_sign ?raw" "\<bar>q\<bar>"] v(1,2) nz by auto
  moreover have "?raw \<noteq> ''''" using r by (auto simp: rat_set_string_split read_sign_def)
  ultimately show ?thesis using v by (auto simp: build_close_order_def Let_def)
qed

text \<open>C35. Closing a position that the account reports.\<close>

theorem close_flattens:
  assumes "hl_get_positions E w = (Inr ps, w1)" and "find (\<lambda>p. equal_fold (pos_coin p) coin) ps = Some p"
    and "rat_set_string (trim_space (pos_szi p)) = Some q" and "q \<noteq> 0"
    and "hl_get_asset_index E coin w1 = (Inr idx, w2)" and "hl_get_asset_info E coin w2 = (Inr info, w3)"
  shows "\<exists>x. pv_close_position (hl_provider E) coin w = some_result (hl_place_order E x) w3 \<and> o_asset x = idx \<and> o_reduce_only x \<and>
    (o_is_buy x \<longleftrightarrow> q < 0) \<and> rat_set_string (o_sz x) = Some \<bar>q\<bar> \<and> o_type x = ioc_type"
proof -
  obtain sz where b: "build_close_order idx (hi_mark_px info) p =
      Some (simple_order idx (q < 0) (compute_close_limit (hi_mark_px info) (q < 0)) sz True ioc_type '''')" "rat_set_string sz = Some \<bar>q\<bar>"
    using close_order_built [OF assms(3,4)] by blast
  show ?thesis
    using assms(1,2,5,6) b
    by (intro exI [of _ "simple_order idx (q < 0) (compute_close_limit (hi_mark_px info) (q < 0)) sz True ioc_type ''''"])
      (simp add: hl_provider_def hl_close_position_def hl_bind_def some_result_def simple_order_def)
qed

subsection \<open>One request at most\<close>

lemma cancel_all_sends: "sends (\<lambda>q. \<exists>cs. er_action q = build_cancel_action cs \<and> list_all (\<lambda>c. cp_asset c = asset) cs \<and> cs \<noteq> [])
    (hl_cancel_all_orders E asset)"
proof -
  let ?S = "\<lambda>q. \<exists>cs. er_action q = build_cancel_action cs \<and> list_all (\<lambda>c. cp_asset c = asset) cs \<and> cs \<noteq> []"
  have of_asset: "orders_of_asset E asset xs w = (Inr cs, w') \<Longrightarrow> list_all (\<lambda>c. cp_asset c = asset) cs" for xs w w' cs
    by (induction xs arbitrary: w cs) (auto split: prod.splits sum.splits if_splits)
  have last: "sends ?S (hl_bind (orders_of_asset E asset xs) (hl_cancel_orders E))" for xs
  proof -
    have eq: "hl_bind (orders_of_asset E asset xs) (hl_cancel_orders E) =
      hl_bind (orders_of_asset E asset xs) (\<lambda>cs. if list_all (\<lambda>c. cp_asset c = asset) cs then hl_cancel_orders E cs else hl_ret ())"
      using of_asset by (auto simp: hl_bind_def fun_eq_iff split: prod.splits sum.splits)
    have "sends ?S (hl_cancel_orders E cs)" if "list_all (\<lambda>c. cp_asset c = asset) cs" for cs
      using request_sends [of "\<lambda>a. \<exists>cs. a = build_cancel_action cs \<and> list_all (\<lambda>c. cp_asset c = asset) cs \<and> cs \<noteq> []"
          "build_cancel_action cs" E ignore_body] that sends_quiet [OF reads.ret]
      by (auto simp: hl_cancel_orders_def)
    then show ?thesis unfolding eq by (intro quiet_first reads.orders_of) (auto intro: sends_quiet [OF reads.ret])
  qed
  have "sends ?S (hl_bind (hl_get_open_orders E) (\<lambda>xs. hl_bind (orders_of_asset E asset xs) (hl_cancel_orders E)))"
    by (intro quiet_first [OF reads.open_orders] last)
  moreover have "hw_sent (snd (hl_cancel_all_orders E asset w)) =
      hw_sent (snd (hl_bind (hl_get_open_orders E) (\<lambda>xs. hl_bind (orders_of_asset E asset xs) (hl_cancel_orders E)) w))" for w
    by (simp add: hl_cancel_all_orders_def hl_bind_def split: prod.splits sum.splits)
  ultimately show ?thesis unfolding sends_def by presburger
qed

text \<open>An info request is posted at most as often as there are attempts, the same request each time; nothing goes to the exchange endpoint.\<close>

lemma info_attempts_posts:
  "\<exists>k \<le> n. hw_queries (snd (info_attempts E q rd n d e w)) = hw_queries w @ replicate k (hc_info_url (hw_client w), q)"
proof (induction n arbitrary: d e w)
  case (Suc n)
  obtain r w1 where a: "info_attempt E q rd w = (r, w1)" by (cases "info_attempt E q rd w")
  have w1: "hw_queries w1 = hw_queries w @ [(hc_info_url (hw_client w), q)]" "hw_client w1 = hw_client w"
    using a by (auto simp: info_attempt_def post_info_def Let_def split: prod.splits http_reply.splits)
  show ?case
  proof (cases r)
    case (Inl x)
    then show ?thesis using w1 by (auto simp: a intro!: exI [of _ 1])
  next
    case (Inr f)
    obtain c w2 where p: "pause E d w1 = (c, w2)" by (cases "pause E d w1")
    then have w2: "hw_queries w2 = hw_queries w1" "hw_client w2 = hw_client w1" by (auto simp: pause_def split: prod.splits)
    obtain k where k: "k \<le> n" "hw_queries (snd (info_attempts E q rd n (2 * d) (Some f) w2)) =
        hw_queries w2 @ replicate k (hc_info_url (hw_client w2), q)" using Suc.IH by blast
    show ?thesis
    proof (cases c)
      case None
      then show ?thesis using k w1 w2 by (auto simp: a p Inr intro!: exI [of _ "Suc k"])
    next
      case (Some x)
      then show ?thesis using w1 w2 by (auto simp: a p Inr intro!: exI [of _ 1])
    qed
  qed
qed simp

text \<open>C38. How often a request is posted.\<close>

theorem request_posts:
  "(\<exists>k. k \<le> 3 \<and> hw_queries (snd (do_info_request E iq rd w)) = hw_queries w @ replicate k (hc_info_url (hw_client w), iq) \<and>
     hw_sent (snd (do_info_request E iq rd w)) = hw_sent w) \<and>
   sends (\<lambda>q. er_action q = action) (do_exchange_request E action result) \<and>
   sends (\<lambda>q. action_type (er_action q) = ''cancel'') (pv_cancel_order (hl_provider E) asset oid) \<and>
   sends (\<lambda>q. action_type (er_action q) = ''updateLeverage'') (pv_update_leverage (hl_provider E) asset cross lev) \<and>
   sends (\<lambda>q. \<exists>cs. er_action q = build_cancel_action cs \<and> list_all (\<lambda>c. cp_asset c = asset) cs \<and> cs \<noteq> []) (hl_cancel_all_orders E asset) \<and>
   sends (\<lambda>q. False) (pv_get_open_orders (hl_provider E)) \<and> sends (\<lambda>q. False) (pv_get_positions (hl_provider E)) \<and>
   sends (\<lambda>q. False) (pv_get_account_value (hl_provider E)) \<and> sends (\<lambda>q. False) (pv_get_asset_index (hl_provider E) coin)"
proof -
  have info: "hw_sent (snd (do_info_request E iq rd w)) = hw_sent w"
    using reads.info_request [of E iq rd] by (simp add: keeps_def quiet_def)
  obtain k where k: "k \<le> 3" "hw_queries (snd (do_info_request E iq rd w)) = hw_queries w @ replicate k (hc_info_url (hw_client w), iq)"
    using info_attempts_posts [of max_retry_attempts E iq rd default_retry_backoff None w] by (auto simp: do_info_request_def max_retry_attempts_def)
  have cancel: "sends (\<lambda>q. action_type (er_action q) = ''cancel'') (hl_cancel_order E asset oid)"
    unfolding hl_cancel_order_def
    by (rule request_sends [of "\<lambda>a. action_type a = ''cancel''"]) (simp add: build_cancel_action_def action_type_def zero_action_def)
  have lev: "sends (\<lambda>q. action_type (er_action q) = ''updateLeverage'') (hl_update_leverage E asset cross lev)"
  proof (cases "lev \<le> 0")
    case False
    show ?thesis unfolding hl_update_leverage_def if_not_P [OF False]
      by (rule request_sends [of "\<lambda>a. action_type a = ''updateLeverage''"]) (simp add: action_type_def zero_action_def)
  qed (simp add: hl_update_leverage_def sends_quiet [OF reads.fail])
  have q: "sends (\<lambda>q. False) (hl_get_open_orders E)" "sends (\<lambda>q. False) (hl_get_positions E)"
    "sends (\<lambda>q. False) (hl_get_account_value E)" "sends (\<lambda>q. False) (hl_get_asset_index E coin)"
    by (rule sends_quiet [OF reads.open_orders] sends_quiet [OF reads.positions] sends_quiet [OF reads.account_value] sends_quiet [OF reads.index])+
  show ?thesis
    using info k cancel lev q cancel_all_sends [of asset E] request_sends [of "\<lambda>a. a = action" action E result]
    by (simp add: hl_provider_def)
qed

subsection \<open>What the text of a size and an answer hide\<close>

text \<open>An asset without decimals: the zeros cut off are those of the number, and ten times, a hundred times a size is sent as the size.\<close>

lemma whole_sizes_lose_zeros: "size_text 0 (lit 100) = ''1''" "size_text 0 (lit 10) = ''1''" "size_text 0 (lit 1) = ''1''" "size_text 0 (lit 250) = ''25''"
  by code_simp+

text \<open>With decimals the text reads back as the rounded size.\<close>

lemma size_text_reads_back:
  assumes "0 < sz" and v: "math_round ((if Fin q < 0 then - Fin q else Fin q) * pow10 sz) / pow10 sz = Fin v"
  shows "parse_float (size_text sz (Fin q)) = in_range (fround (of_int (rne (v * 10 ^ nat sz)) / 10 ^ nat sz))"
proof -
  let ?p = "nat sz"
  define n where "n = \<bar>rne (v * 10 ^ ?p)\<bar>"
  have ds: "list_all is_digit (show_digits (n div 10 ^ ?p))" "show_digits (n div 10 ^ ?p) \<noteq> []"
    using show_digits_ok [of "n div 10 ^ ?p"] by (simp_all add: n_def pos_imp_zdiv_nonneg_iff)
  have fs: "list_all is_digit (fixed_digits ?p (n mod 10 ^ ?p))" "fixed_digits ?p (n mod 10 ^ ?p) \<noteq> []"
    using fixed_digits_ok [of ?p "n mod 10 ^ ?p"] assms(1) by auto
  have t: "trim_suffix_dot (trim_right_zeros (format_fixed ?p (Fin v))) =
      decimal_text (v < 0) (show_digits (n div 10 ^ ?p)) (trim_right_zeros (fixed_digits ?p (n mod 10 ^ ?p)))"
    unfolding n_def by (subst format_fixed_text, use assms(1) in simp, rule trim_decimal_text [OF fs(2,1) [unfolded n_def]])
  then have p: "parse_float (trim_suffix_dot (trim_right_zeros (format_fixed ?p (Fin v)))) = parse_float (format_fixed ?p (Fin v))"
    using parse_trimmed_text [OF ds fs(1)] format_fixed_text [of ?p v] assms(1) by (simp add: n_def)
  have "decimal_text b (show_digits (n div 10 ^ ?p)) f \<noteq> []" for b f using ds(2) by (simp add: decimal_text_def)
  then have "size_text sz (Fin q) = trim_suffix_dot (trim_right_zeros (format_fixed ?p (Fin v)))"
    using assms(1) t by (simp add: size_text_def v Let_def)
  then show ?thesis using p parse_format_fixed [of ?p v] assms(1) by simp
qed

text \<open>
  A world to run the client in: one asset, an account with a short position of 2.5, and a venue that answers every order with a rejection (the body
  of a successful reply). The hashes and the signature are constants.
\<close>

definition demo_crypto :: hl_crypto where
  "demo_crypto = \<lparr>cy_is_address = (\<lambda>a. a \<noteq> ''''), cy_checksum = id, cy_address_bytes = (\<lambda>a. []), cy_key_address = (\<lambda>k. Inr ''0xab''),
     cy_keccak = (\<lambda>bs. replicate 32 0), cy_hash_domain = Inr [], cy_hash_agent = (\<lambda>s c. Inr []), cy_sign = (\<lambda>k m. Inr (replicate 65 0)),
     cy_pack = (\<lambda>a. Inr [])\<rparr>"

definition demo_json :: "string \<Rightarrow> goerror + json" where
  "demo_json body =
    (if body = ''metaAndAssetCtxs'' then Inr (JArr [JObj [(''universe'', JArr [JObj [(''name'', JStr ''eth''), (''szDecimals'', JNum ''2'')]])],
       JArr [JObj [(''markPx'', JStr '''')]]])
     else if body = ''clearinghouseState'' then Inr (JObj [(''marginSummary'', JObj [(''accountValue'', JStr ''100'')]),
       (''assetPositions'', JArr [JObj [(''coin'', JStr ''ETH''), (''szi'', JStr ''-2.50'')]])])
     else if body = ''rejected'' then Inr (JObj [(''status'', JStr ''err''), (''response'', JStr ''Insufficient margin'')])
     else Inl (Errorf ''invalid character'' []))"

definition demo_env :: "unit hl_env" where
  "demo_env = \<lparr>he_crypto = demo_crypto, he_post_info = (\<lambda>u q x. (Reply 200 (ir_type q), x)), he_post_exchange = (\<lambda>u q x. (Reply 200 ''rejected'', x)),
     he_ctx_err = (\<lambda>x. None), he_pause = (\<lambda>d x. (None, x)), he_clock = (\<lambda>x. 1000000000), he_wall = (\<lambda>x. 1000000000), he_json = demo_json\<rparr>"

definition demo_client :: hl_client where
  "demo_client = (case new_client demo_crypto ''0x01'' True [] of Inr c \<Rightarrow> c)"

definition demo_world :: "unit hl_world" where
  "demo_world = \<lparr>hw_client = demo_client, hw_queries = [], hw_sent = [], hw_ext = ()\<rparr>"

text \<open>
  A stop loss is reported as placed whatever the venue answers, and so is a change of leverage: the answer to an order, which may say that it was
  rejected, is dropped.
\<close>

lemma rejected_stop_loss_unseen:
  assumes "0 < px" and "hl_get_asset_index E coin w = (Inr i, w1)" and "hl_format_size E coin q w1 = (Inr sz, w2)"
    and "hl_place_order E (simple_order i b (aggressive_limit_price b) sz True
      \<lparr>ot_limit = None, ot_trigger = Some \<lparr>trg_is_market = True, trg_tpsl = ''sl''\<rparr>\<rparr> (round_price_to_sig_figs px 5)) w2 = (Inr resp, w3)"
    and "b = equal_fold side ''SHORT''"
  shows "hl_set_stop_loss E coin side q px w = (Inr (), w3)"
  using assms by (simp add: hl_set_stop_loss_def hl_place_trigger_reduce_only_def hl_bind_def hl_ret_def)

lemma rejections_answered:
  "fst (hl_place_order demo_env (simple_order 0 True ''1'' ''1'' True ioc_type '''') demo_world) =
     Inr \<lparr>or_status = ''err'', or_type = '''', or_statuses = [], or_error_message = ''Insufficient margin''\<rparr>"
  "fst (hl_update_leverage demo_env 0 True 5 demo_world) = Inr ()"
  by code_simp+

subsection \<open>Witnesses\<close>

theorem sent_orders_valid_witness:
  "sends (order_sent (\<lambda>y. y = simple_order 0 True ''1'' ''1'' True ioc_type '''')) (pv_place_order (hl_provider demo_env) (simple_order 0 True ''1'' ''1'' True ioc_type '''')) \<and>
   sends (order_sent (\<lambda>y. protective ''sl'' True (lit 3) y \<and> sized (lit 2) y)) (hl_set_stop_loss demo_env ''eth'' ''short'' (lit 2) (lit 3)) \<and>
   length (hw_sent (snd (pv_place_order (hl_provider demo_env) (simple_order 0 True ''1'' ''1'' True ioc_type '''') demo_world))) = 1"
proof (intro conjI)
  note t = sent_orders_valid [of "simple_order 0 True ''1'' ''1'' True ioc_type ''''" demo_env "''eth''" True True "lit 2" "lit 1" "''short''" "lit 3"]
  show "sends (order_sent (\<lambda>y. y = simple_order 0 True ''1'' ''1'' True ioc_type '''')) (pv_place_order (hl_provider demo_env) (simple_order 0 True ''1'' ''1'' True ioc_type ''''))"
    using t by blast
  have "pv_set_stop_loss (hl_provider demo_env) = Some (hl_set_stop_loss demo_env)" by (simp add: hl_provider_def)
  moreover have "equal_fold ''short'' ''SHORT''" by code_simp
  ultimately show "sends (order_sent (\<lambda>y. protective ''sl'' True (lit 3) y \<and> sized (lit 2) y)) (hl_set_stop_loss demo_env ''eth'' ''short'' (lit 2) (lit 3))"
    using t by simp
qed code_simp

theorem directory_kept_witness:
  "directory_ok demo_client \<and>
   (\<exists>a. lookup (hc_asset_info (hw_client (snd (pv_get_asset_index (hl_provider demo_env) ''eth'' demo_world)))) ''ETH'' = Some a \<and> hi_index a = 0)"
proof -
  have n: "new_client demo_crypto ''0x01'' True [] = Inr demo_client" by code_simp
  have i: "fst (pv_get_asset_index (hl_provider demo_env) ''eth'' demo_world) = Inr 0" by code_simp
  have k: "canonical_asset_key ''eth'' = ''ETH''" by code_simp
  have ok: "directory_ok demo_client" using directory_kept [of demo_crypto "''0x01''" True "[]" demo_client] n by blast
  then have okw: "directory_ok (hw_client demo_world)" by (simp add: demo_world_def)
  obtain w' where w': "pv_get_asset_index (hl_provider demo_env) ''eth'' demo_world = (Inr 0, w')"
    using i by (metis prod.collapse)
  have "\<exists>a. lookup (hc_asset_info (hw_client w')) (canonical_asset_key ''eth'') = Some a \<and> hi_index a = 0"
    using directory_kept [where w = demo_world and w' = w' and E = demo_env and coin = "''eth''" and i = 0] okw w' by blast
  then show ?thesis using ok w' k by simp
qed

theorem close_flattens_witness:
  "\<exists>x w. pv_close_position (hl_provider demo_env) ''eth'' demo_world = some_result (hl_place_order demo_env x) w \<and> o_reduce_only x \<and>
     o_is_buy x \<and> rat_set_string (o_sz x) = Some (5 / 2)"
proof -
  define w1 where "w1 = snd (hl_get_positions demo_env demo_world)"
  define w2 where "w2 = snd (hl_get_asset_index demo_env ''eth'' w1)"
  define p where "p = \<lparr>pos_coin = ''ETH'', pos_entry_px = None, pos_value = '''', pos_szi = ''-2.50'', pos_unrealized = '''', pos_roe = '''',
      pos_leverage = \<lparr>lev_type = '''', lev_value = 0\<rparr>, pos_liquidation_px = None\<rparr>"
  have "fst (hl_get_positions demo_env demo_world) = Inr [p]" unfolding p_def by code_simp
  then have a: "hl_get_positions demo_env demo_world = (Inr [p], w1)" unfolding w1_def by (metis prod.collapse)
  have "fst (hl_get_asset_index demo_env ''eth'' w1) = Inr 0" unfolding w1_def by code_simp
  then have b: "hl_get_asset_index demo_env ''eth'' w1 = (Inr 0, w2)" unfolding w2_def by (metis prod.collapse)
  have "is_ok (fst (hl_get_asset_info demo_env ''eth'' w2))" unfolding w2_def w1_def by code_simp
  then obtain info w3 where c: "hl_get_asset_info demo_env ''eth'' w2 = (Inr info, w3)" by (auto simp: is_ok_iff) (metis prod.collapse)
  have f: "find (\<lambda>x. equal_fold (pos_coin x) ''eth'') [p] = Some p" unfolding p_def by code_simp
  have q: "rat_set_string (trim_space (pos_szi p)) = Some (- 5 / 2)" unfolding p_def by code_simp
  show ?thesis using close_flattens [OF a f q _ b c] by auto
qed

end
