(* ===== verification/Indicators.thy ===== *)
theory Indicators
  imports GoFloat
begin

text \<open>
  The technical indicators (\<open>pkg/market/indicators/indicators.go\<close>): moving averages, MACD, RSI and ATR over series of \<open>float64\<close>, oldest first. An entry
  that cannot be computed yet is \<open>NaN\<close>.

  Shown: every series is as long as its input, an RSI that is a number lies between 0 and 100 whatever the prices are (rounding included), true ranges
  are not negative, and the average starts with the mean of the first window without a gap and then follows its recurrence (\<open>ema_matches\<close>).
\<close>

subsection \<open>Moving averages\<close>

text \<open>The mean of the window that ends at an index, summed from its left.\<close>

definition window :: "nat \<Rightarrow> nat \<Rightarrow> f64 list \<Rightarrow> f64 list" where
  "window period i prices = take period (drop (Suc i - period) prices)"

definition window_valid :: "nat \<Rightarrow> f64 list \<Rightarrow> nat \<Rightarrow> bool" where
  "window_valid period prices i \<longleftrightarrow> list_all (\<lambda>p. \<not> is_nan p) (window period i prices)"

definition window_mean :: "nat \<Rightarrow> f64 list \<Rightarrow> nat \<Rightarrow> f64" where
  "window_mean period prices i = foldl (+) 0 (window period i prices) / f64_of_int (int period)"

fun ema_tail :: "f64 \<Rightarrow> f64 \<Rightarrow> f64 \<Rightarrow> f64 list \<Rightarrow> f64 list" where
  "ema_tail m seed prev [] = []"
| "ema_tail m seed prev (p # ps) =
    (let x = (if is_nan p then prev else let base = (if is_nan prev then seed else prev) in (p - base) * m + base)
     in x # ema_tail m seed x ps)"

definition ema :: "f64 list \<Rightarrow> int \<Rightarrow> f64 list" where
  "ema prices period =
    (if period \<le> 0 \<or> prices = [] then []
     else let n = length prices; k = nat period in
       if n < k then replicate n NaN
       else case find (window_valid k prices) [k - 1 ..< n] of
         None \<Rightarrow> replicate n NaN
       | Some i \<Rightarrow> let seed = window_mean k prices i in
           replicate i NaN @ seed # ema_tail (lit 2 / f64_of_int (period + 1)) seed seed (drop (Suc i) prices))"

definition minus_series :: "f64 list \<Rightarrow> f64 list \<Rightarrow> f64 list" where
  "minus_series xs ys = map2 (\<lambda>x y. if is_nan x \<or> is_nan y then NaN else x - y) xs ys"

text \<open>MACD, its signal line and the histogram.\<close>

definition macd :: "f64 list \<Rightarrow> f64 list \<times> f64 list \<times> f64 list" where
  "macd prices =
    (if prices = [] then ([], [], [])
     else let m = minus_series (ema prices 12) (ema prices 26); signal = ema m 9 in (m, signal, minus_series m signal))"

subsection \<open>Relative strength\<close>

definition compute_rsi :: "f64 \<Rightarrow> f64 \<Rightarrow> f64" where
  "compute_rsi avg_gain avg_loss =
    (if feq avg_loss 0 \<and> feq avg_gain 0 then lit 50
     else if feq avg_loss 0 then lit 100
     else if feq avg_gain 0 then lit 0
     else let rs = avg_gain / avg_loss in lit 100 - (lit 100 / (lit 1 + rs)))"

definition changes :: "f64 list \<Rightarrow> f64 list" where
  "changes prices = map2 (\<lambda>a b. b - a) prices (tl prices)"

definition gain_loss :: "f64 \<times> f64 \<Rightarrow> f64 \<Rightarrow> f64 \<times> f64" where
  "gain_loss s c = (case s of (g, l) \<Rightarrow> if 0 < c then (g + c, l) else (g, l - c))"

definition smooth :: "int \<Rightarrow> f64 \<Rightarrow> f64 \<Rightarrow> f64" where
  "smooth period avg x = (avg * f64_of_int (period - 1) + x) / f64_of_int period"

fun rsi_tail :: "int \<Rightarrow> f64 \<Rightarrow> f64 \<Rightarrow> f64 list \<Rightarrow> f64 list" where
  "rsi_tail period g l [] = []"
| "rsi_tail period g l (c # cs) =
    (let g1 = smooth period g (fmax c 0); l1 = smooth period l (fmax (- c) 0) in compute_rsi g1 l1 # rsi_tail period g1 l1 cs)"

definition rsi :: "f64 list \<Rightarrow> int \<Rightarrow> f64 list" where
  "rsi prices period =
    (if period \<le> 0 \<or> prices = [] then []
     else let n = length prices; k = nat period; p = f64_of_int period in
       if n \<le> k then replicate n NaN
       else case foldl gain_loss (0, 0) (take k (changes prices)) of (gs, ls) \<Rightarrow>
         replicate k NaN @ compute_rsi (gs / p) (ls / p) # rsi_tail period (gs / p) (ls / p) (drop k (changes prices)))"

subsection \<open>True range\<close>

record range_kline =
  rk_high :: f64
  rk_low :: f64
  rk_close :: f64

fun true_ranges :: "range_kline option \<Rightarrow> range_kline list \<Rightarrow> f64 list" where
  "true_ranges prev [] = []"
| "true_ranges prev (k # ks) = (case prev of
     None \<Rightarrow> rk_high k - rk_low k
   | Some p \<Rightarrow> fmax (rk_high k - rk_low k) (fmax \<bar>rk_high k - rk_close p\<bar> \<bar>rk_low k - rk_close p\<bar>)) # true_ranges (Some k) ks"

definition atr :: "range_kline list \<Rightarrow> int \<Rightarrow> f64 list" where
  "atr ks period = (if period \<le> 0 \<or> ks = [] then [] else ema (true_ranges None ks) period)"

subsection \<open>Lengths\<close>

lemma ema_tail_length [simp]: "length (ema_tail m s p xs) = length xs"
  by (induction xs arbitrary: p) (simp_all add: Let_def)

lemma rsi_tail_length [simp]: "length (rsi_tail p g l cs) = length cs"
  by (induction cs arbitrary: g l) (simp_all add: Let_def)

lemma changes_length [simp]: "length (changes prices) = length prices - 1"
  by (simp add: changes_def)

lemma find_uptD: "find P [a ..< b] = Some i \<Longrightarrow> P i \<and> a \<le> i \<and> i < b"
  by (auto dest: find_SomeD)

lemma ema_length: "length (ema prices period) = (if period \<le> 0 then 0 else length prices)"
  by (auto simp: ema_def Let_def split: option.splits dest!: find_uptD)

lemma macd_length: "macd prices = (m, s, h) \<Longrightarrow> length m = length prices \<and> length s = length prices \<and> length h = length prices"
  by (auto simp: macd_def minus_series_def ema_length Let_def split: if_splits)

lemma rsi_length: "length (rsi prices period) = (if period \<le> 0 then 0 else length prices)"
  by (auto simp: rsi_def Let_def split: prod.splits)

lemma true_ranges_length [simp]: "length (true_ranges p ks) = length ks"
  by (induction ks arbitrary: p) simp_all

lemma atr_length: "length (atr ks period) = (if period \<le> 0 then 0 else length ks)"
  by (auto simp: atr_def ema_length)

subsection \<open>Bounds\<close>

definition nan_or :: "(f64 \<Rightarrow> bool) \<Rightarrow> f64 \<Rightarrow> bool" where
  "nan_or P x \<longleftrightarrow> is_nan x \<or> P x"

definition nonneg :: "f64 \<Rightarrow> bool" where
  "nonneg x \<longleftrightarrow> nan_or (\<lambda>y. 0 \<le> y) x"

lemma nonneg_simps [simp]: "nonneg NaN" "nonneg (Infty s) \<longleftrightarrow> \<not> s" "nonneg (Fin q) \<longleftrightarrow> 0 \<le> q" "nonneg 0" "nonneg (lit 0)"
  by (simp_all add: nonneg_def nan_or_def zero_f64_def lit_def)

lemma nonneg_fround: "0 \<le> q \<Longrightarrow> nonneg (fround q)"
  using fround_nonneg [of q] by (simp add: nonneg_def nan_or_def)

lemma nonneg_add: "nonneg a \<Longrightarrow> nonneg b \<Longrightarrow> nonneg (a + b)"
  by (cases a; cases b) (auto simp: plus_f64_def intro: nonneg_fround)

lemma nonneg_mult: "nonneg a \<Longrightarrow> nonneg b \<Longrightarrow> nonneg (a * b)"
  by (cases a; cases b) (auto simp: times_f64_def intro: nonneg_fround)

lemma nonneg_divide: "nonneg a \<Longrightarrow> nonneg b \<Longrightarrow> nonneg (a / b)"
  by (cases a; cases b) (auto simp: divide_f64_def intro: nonneg_fround)

lemma nonneg_minus: "\<not> 0 < c \<Longrightarrow> nonneg l \<Longrightarrow> nonneg (l - c)"
  by (cases l; cases c) (auto simp: minus_f64_def zero_f64_def intro: nonneg_fround)

lemma nonneg_max: "nonneg (fmax x 0)"
  by (cases x) (auto simp: fmax_def zero_f64_def)

lemma nonneg_pos: "0 < c \<Longrightarrow> nonneg c"
  by (cases c) (auto simp: zero_f64_def)

lemma gain_loss_step: "nonneg g \<Longrightarrow> nonneg l \<Longrightarrow> gain_loss (g, l) c = (g', l') \<Longrightarrow> nonneg g' \<and> nonneg l'"
  by (auto simp: gain_loss_def nonneg_add nonneg_pos nonneg_minus split: if_splits)

lemma gain_loss_nonneg:
  "nonneg g \<Longrightarrow> nonneg l \<Longrightarrow> foldl gain_loss (g, l) cs = (g', l') \<Longrightarrow> nonneg g' \<and> nonneg l'"
proof (induction cs arbitrary: g l)
  case (Cons c cs)
  obtain g1 l1 where s: "gain_loss (g, l) c = (g1, l1)" by (cases "gain_loss (g, l) c")
  show ?case using Cons.IH [of g1 l1] gain_loss_step [OF Cons.prems(1,2) s] Cons.prems(3) s by simp
qed simp

text \<open>The index between its limits: the quotient is at least one, so that what is subtracted is between 0 and 100.\<close>

abbreviation percent :: "f64 \<Rightarrow> bool" where
  "percent x \<equiv> nan_or (\<lambda>y. 0 \<le> y \<and> y \<le> lit 100) x"

lemma compute_rsi_percent:
  assumes g: "nonneg g" and l: "nonneg l"
  shows "percent (compute_rsi g l)"
proof -
  have h: "lit 100 = Fin 100" "lit 50 = Fin 50" "lit 1 = Fin 1" "lit 0 = Fin 0" by (simp_all add: lit_def)
  have c: "percent (lit 100 - (lit 100 / (lit 1 + r)))" if r: "nonneg r" for r
  proof (cases r)
    case (Fin q)
    then have q: "0 \<le> q" using r by simp
    have one: "Fin 1 \<le> fround (1 + q)" using fround_mono [of 1 "1 + q"] q by simp
    show ?thesis
    proof (cases "fround (1 + q)")
      case (Fin t)
      then have t: "1 \<le> t" using one by simp
      have d: "0 \<le> 100 / t" "100 / t \<le> 100" using t by (simp_all add: divide_le_eq)
      have "Fin 0 \<le> fround (100 / t)" "fround (100 / t) \<le> Fin 100"
        using fround_mono [OF d(1)] fround_mono [OF d(2)] by simp_all
      then obtain u where u: "fround (100 / t) = Fin u" "0 \<le> u" "u \<le> 100" by (cases "fround (100 / t)") auto
      have "Fin 0 \<le> fround (100 - u)" "fround (100 - u) \<le> Fin 100"
        using fround_mono [of 0 "100 - u"] fround_mono [of "100 - u" 100] u by simp_all
      moreover have "lit 100 - (lit 100 / (lit 1 + r)) = fround (100 - u)"
        using t by (simp add: h \<open>r = Fin q\<close> plus_f64_def divide_f64_def minus_f64_def Fin u)
      ultimately show ?thesis by (simp add: nan_or_def h zero_f64_def)
    qed (use one in \<open>auto simp: h \<open>r = Fin q\<close> nan_or_def f64_ops\<close>)
  qed (use r in \<open>auto simp: h nan_or_def f64_ops split: if_splits\<close>)
  show ?thesis
    using c [OF nonneg_divide [OF g l]] by (simp add: compute_rsi_def Let_def nan_or_def h zero_f64_def)
qed

lemma rsi_tail_percent:
  assumes p: "nonneg (f64_of_int period)" "nonneg (f64_of_int (period - 1))"
  shows "nonneg g \<Longrightarrow> nonneg l \<Longrightarrow> list_all percent (rsi_tail period g l cs)"
proof (induction cs arbitrary: g l)
  case (Cons c cs)
  have "nonneg (smooth period g (fmax c 0))" "nonneg (smooth period l (fmax (- c) 0))"
    using Cons.prems p by (auto simp: smooth_def intro!: nonneg_divide nonneg_add nonneg_mult nonneg_max)
  then show ?case using Cons.IH compute_rsi_percent by (simp add: Let_def)
qed simp

lemma period_nonneg: "0 < period \<Longrightarrow> nonneg (f64_of_int period) \<and> nonneg (f64_of_int (period - 1))"
  by (simp add: f64_of_int_def nonneg_fround)

lemma rsi_percent: "list_all percent (rsi prices period)"
proof (cases "period \<le> 0 \<or> prices = [] \<or> length prices \<le> nat period")
  case True
  then show ?thesis by (auto simp: rsi_def Let_def nan_or_def list_all_iff)
next
  case False
  let ?p = "f64_of_int period"
  obtain gs ls where f: "foldl gain_loss (0, 0) (take (nat period) (changes prices)) = (gs, ls)" by (metis surj_pair)
  have n: "nonneg gs" "nonneg ls" using gain_loss_nonneg [OF _ _ f] by simp_all
  have p: "nonneg ?p" "nonneg (f64_of_int (period - 1))" using period_nonneg False by auto
  have a: "nonneg (gs / ?p)" "nonneg (ls / ?p)" by (rule nonneg_divide n p(1))+
  have e: "rsi prices period = replicate (nat period) NaN @ compute_rsi (gs / ?p) (ls / ?p) #
      rsi_tail period (gs / ?p) (ls / ?p) (drop (nat period) (changes prices))"
    using False f by (simp add: rsi_def Let_def)
  have "list_all percent (replicate (nat period) NaN)" by (simp add: list_all_iff nan_or_def)
  then show ?thesis unfolding e using compute_rsi_percent [OF a] rsi_tail_percent [OF p a] by simp
qed

text \<open>A true range that is a number is not negative when no low is above its high.\<close>

lemma abs_nonneg: "nonneg \<bar>x\<bar>"
  by (cases x) (auto simp: abs_f64_def)

lemma fmax_nonneg: "nonneg a \<Longrightarrow> nonneg b \<Longrightarrow> nonneg (fmax a b)"
  by (cases a; cases b) (auto simp: fmax_def)

lemma true_ranges_nonneg: "list_all (\<lambda>k. nonneg (rk_high k - rk_low k)) ks \<Longrightarrow> list_all nonneg (true_ranges p ks)"
  by (induction ks arbitrary: p) (auto split: option.splits intro!: fmax_nonneg abs_nonneg)

subsection \<open>The average by its recurrence\<close>

text \<open>Without a gap in the prices the entries before the first full window are missing, the next is its mean, and each one after that moves from its
  predecessor towards its price by the factor of the period.\<close>

fun recurrence :: "f64 \<Rightarrow> f64 \<Rightarrow> f64 list \<Rightarrow> f64 list" where
  "recurrence m prev [] = []"
| "recurrence m prev (p # ps) = (let x = (p - prev) * m + prev in x # recurrence m x ps)"

lemma ema_tail_recurrence:
  "list_all (\<lambda>p. \<not> is_nan p) ps \<Longrightarrow> list_all (\<lambda>p. \<not> is_nan p) (prev # recurrence m prev ps) \<Longrightarrow> ema_tail m seed prev ps = recurrence m prev ps"
  by (induction ps arbitrary: prev) (auto simp: Let_def)

lemma ema_matches:
  assumes "0 < period" and "nat period \<le> length prices" and "list_all (\<lambda>p. \<not> is_nan p) prices"
    and "list_all (\<lambda>p. \<not> is_nan p) (window_mean (nat period) prices (nat period - 1) #
      recurrence (lit 2 / f64_of_int (period + 1)) (window_mean (nat period) prices (nat period - 1)) (drop (nat period) prices))"
  shows "ema prices period = replicate (nat period - 1) NaN @ window_mean (nat period) prices (nat period - 1) #
    recurrence (lit 2 / f64_of_int (period + 1)) (window_mean (nat period) prices (nat period - 1)) (drop (nat period) prices)"
proof -
  let ?k = "nat period"
  have k: "0 < ?k" "prices \<noteq> []" using assms(1,2) by auto
  have "window_valid ?k prices (?k - 1)"
    using assms(3) by (auto simp: window_valid_def window_def list_all_iff dest!: in_set_takeD dest: in_set_dropD)
  moreover have "[?k - 1 ..< length prices] = (?k - 1) # [Suc (?k - 1) ..< length prices]" using k assms(2) by (intro upt_conv_Cons) simp
  ultimately have f: "find (window_valid ?k prices) [?k - 1 ..< length prices] = Some (?k - 1)" by (simp only: find.simps if_True)
  have "list_all (\<lambda>p. \<not> is_nan p) (drop ?k prices)" using assms(3) by (auto simp: list_all_iff dest!: in_set_dropD)
  then show ?thesis using assms k f ema_tail_recurrence by (simp add: ema_def Let_def)
qed


end
