(* ===== verification/MarketData.thy ===== *)
theory MarketData
  imports Hyperliquid Indicators Market
begin

text \<open>
  The Hyperliquid market provider (\<open>pkg/market/exchanges/hyperliquid\<close>): the info client with its symbol directory, candles, market metrics, the snapshot
  built of them and the indicators, and the provider with its two caches and its persistence hooks. Its world is the record \<open>md_world\<close>: the client, the
  caches, what was posted and what was handed to the persistence. The transport, the clock and the hooks are the record \<open>md_env\<close>.

  Shown: a snapshot holds no indicator that is missing, its RSI values lie between 0 and 100, its series have at most ten entries and its ticks a positive
  close (\<open>snapshot_bounds\<close>); a snapshot that is served from the cache was built for the same symbol at most fifteen seconds ago, any other was just
  built, and a failed persistence fails no snapshot (\<open>snapshot_fresh\<close>); candles come in order, at most as many as asked for.
\<close>

subsection \<open>State\<close>

record md_client =
  mc_base_url :: string
  mc_http_timeout :: duration
  mc_max_retries :: int
  mc_symbol_index :: "(string, string) gomap"
  mc_asset_ctx :: "(string, asset_ctx) gomap"
  mc_universe :: "(string, universe_entry) gomap"

record candle_request =
  cr_coin :: string
  cr_interval :: string
  cr_start :: int
  cr_end :: int

record market_query =
  mq_type :: string
  mq_req :: "candle_request option"

record md_kline =
  mk_open_time :: int
  mk_open :: f64
  mk_high :: f64
  mk_low :: f64
  mk_close :: f64
  mk_volume :: f64
  mk_close_time :: int

record price_tick =
  pt_timestamp :: time
  pt_price :: f64
  pt_volume :: f64
  pt_has_volume :: bool
  pt_interval :: string
  pt_open :: f64
  pt_high :: f64
  pt_low :: f64
  pt_close :: f64

text \<open>The metadata of an asset, by name.\<close>

datatype meta_value = Meta_Float f64 | Meta_Int int | Meta_Bool bool | Meta_Text string

type_synonym listed_asset = "asset \<times> (string \<times> meta_value) list"

datatype persist_call =
  Upsert_Assets string "listed_asset list"
| Record_Snapshot string snapshot
| Record_Prices string string "price_tick list"

record 'w md_world =
  dw_client :: md_client
  dw_timeout :: duration
  dw_provider_id :: string
  dw_snapshots :: "(string, snapshot \<times> time) gomap"
  dw_assets :: "listed_asset list \<times> time"
  dw_queries :: "(string \<times> market_query) list"
  dw_persisted :: "persist_call list"
  dw_ext :: 'w

record 'w md_env =
  me_post :: "string \<Rightarrow> market_query \<Rightarrow> 'w \<Rightarrow> http_reply \<times> 'w"
  me_ctx_err :: "'w \<Rightarrow> goerror option"
  me_pause :: "duration \<Rightarrow> 'w \<Rightarrow> goerror option \<times> 'w"
  me_now :: "'w \<Rightarrow> time"
  me_json :: "string \<Rightarrow> goerror + json"
  me_persist :: "(persist_call \<Rightarrow> 'w \<Rightarrow> goerror option \<times> 'w) option"

type_synonym ('a, 'w) md_op = "'w md_world \<Rightarrow> (goerror + 'a) \<times> 'w md_world"

subsection \<open>Construction\<close>

definition md_default_base_url :: string where "md_default_base_url = ''https://api.hyperliquid.xyz/info''"
definition md_testnet_base_url :: string where "md_testnet_base_url = ''https://api.hyperliquid-testnet.xyz/info''"
definition md_default_http_timeout :: duration where "md_default_http_timeout = 10 * second"
definition md_default_max_retries :: int where "md_default_max_retries = 3"
definition md_retry_backoff :: duration where "md_retry_backoff = 150 * millisecond"

datatype md_option = Md_Http_Timeout duration | Md_Base_Url string | Md_Max_Retries int

definition apply_md_option :: "md_option \<Rightarrow> md_client \<Rightarrow> md_client" where
  "apply_md_option opt c = (case opt of
     Md_Http_Timeout d \<Rightarrow> c\<lparr>mc_http_timeout := d\<rparr>
   | Md_Base_Url u \<Rightarrow> if u \<noteq> '''' then c\<lparr>mc_base_url := u\<rparr> else c
   | Md_Max_Retries n \<Rightarrow> if 0 \<le> n then c\<lparr>mc_max_retries := n\<rparr> else c)"

definition new_md_client :: "md_option list \<Rightarrow> md_client" where
  "new_md_client opts = fold apply_md_option opts
     \<lparr>mc_base_url = md_default_base_url, mc_http_timeout = md_default_http_timeout, mc_max_retries = md_default_max_retries,
      mc_symbol_index = [], mc_asset_ctx = [], mc_universe = []\<rparr>"

text \<open>The factory registered for the configuration: the fields it reads, the zero value when unset.\<close>

record market_provider_config =
  mpc_timeout :: duration
  mpc_http_timeout :: duration
  mpc_testnet :: bool
  mpc_max_retries :: int

definition new_md_provider :: "duration \<Rightarrow> string \<Rightarrow> market_provider_config \<Rightarrow> 'w \<Rightarrow> 'w md_world" where
  "new_md_provider default_timeout name cfg x =
    \<lparr>dw_client = new_md_client ((if 0 < mpc_http_timeout cfg then [Md_Http_Timeout (mpc_http_timeout cfg)] else []) @
       (if mpc_testnet cfg then [Md_Base_Url md_testnet_base_url] else []) @
       (if 0 < mpc_max_retries cfg then [Md_Max_Retries (mpc_max_retries cfg)] else [])),
     dw_timeout = (if 0 < mpc_timeout cfg then mpc_timeout cfg else default_timeout), dw_provider_id = name,
     dw_snapshots = [], dw_assets = ([], zero_time), dw_queries = [], dw_persisted = [], dw_ext = x\<rparr>"

subsection \<open>Requests\<close>

definition md_post :: "'w md_env \<Rightarrow> market_query \<Rightarrow> 'w md_world \<Rightarrow> http_reply \<times> 'w md_world" where
  "md_post E q w = (let url = mc_base_url (dw_client w) in case me_post E url q (dw_ext w) of
     (r, x) \<Rightarrow> (r, w\<lparr>dw_queries := dw_queries w @ [(url, q)], dw_ext := x\<rparr>))"

definition md_pause :: "'w md_env \<Rightarrow> duration \<Rightarrow> 'w md_world \<Rightarrow> goerror option \<times> 'w md_world" where
  "md_pause E d w = (case me_pause E d (dw_ext w) of (r, x) \<Rightarrow> (r, w\<lparr>dw_ext := x\<rparr>))"

definition md_attempt :: "'w md_env \<Rightarrow> market_query \<Rightarrow> (json \<Rightarrow> goerror + 'a) \<Rightarrow> 'w md_world \<Rightarrow> ((goerror + 'a) + goerror) \<times> 'w md_world" where
  "md_attempt E q rd w = (case md_post E q w of
     (Refused e, w1) \<Rightarrow> ((case me_ctx_err E (dw_ext w1) of Some c \<Rightarrow> Inl (Inl c) | None \<Rightarrow> Inr e), w1)
   | (Unreadable e, w1) \<Rightarrow> (Inr (Wrapf ''hyperliquid: read response: %w'' [] e), w1)
   | (Reply st body, w1) \<Rightarrow>
       ((if \<not> success_status st then Inr (Errorf ''hyperliquid: http status %d: %s'' [itoa st, body])
         else Inl (case me_json E body of
           Inl e \<Rightarrow> Inl (Wrapf ''hyperliquid: decode response: %w'' [] e)
         | Inr v \<Rightarrow> (case rd v of
             Inl e \<Rightarrow> Inl (Wrapf ''hyperliquid: decode response: %w'' [] e) | Inr x \<Rightarrow> Inr x))), w1))"

text \<open>\<open>n\<close> retries are left after an attempt; there is no pause after the last.\<close>

fun md_attempts :: "'w md_env \<Rightarrow> market_query \<Rightarrow> (json \<Rightarrow> goerror + 'a) \<Rightarrow> nat \<Rightarrow> duration \<Rightarrow> ('a, 'w) md_op" where
  "md_attempts E q rd n backoff w = (case md_attempt E q rd w of
     (Inl r, w1) \<Rightarrow> (r, w1)
   | (Inr e, w1) \<Rightarrow> (case n of
       0 \<Rightarrow> (Inl e, w1)
     | Suc m \<Rightarrow> (case md_pause E backoff w1 of
         (Some c, w2) \<Rightarrow> (Inl c, w2)
       | (None, w2) \<Rightarrow> md_attempts E q rd m (2 * backoff) w2)))"

declare md_attempts.simps [simp del]

definition md_request :: "'w md_env \<Rightarrow> market_query \<Rightarrow> (json \<Rightarrow> goerror + 'a) \<Rightarrow> ('a, 'w) md_op" where
  "md_request E q rd w =
    (if mc_max_retries (dw_client w) < 0 then (Inl (Errorf ''hyperliquid: request failed without error detail'' []), w)
     else md_attempts E q rd (nat (mc_max_retries (dw_client w))) md_retry_backoff w)"

definition plain_query :: "string \<Rightarrow> market_query" where
  "plain_query t = \<lparr>mq_type = t, mq_req = None\<rparr>"

subsection \<open>The symbol directory\<close>

definition normalize_key :: "string \<Rightarrow> string" where
  "normalize_key symbol =
    (let t = trim_space symbol in
     if t = '''' then ''''
     else to_upper (if 4 < length t \<and> equal_fold (drop (length t - 4) t) ''USDT'' then take (length t - 4) t else t))"

definition read_market_directory :: "json \<Rightarrow> goerror + directory_response" where
  "read_market_directory v = (case v of
     JArr [] \<Rightarrow> Inl (Errorf ''unexpected metaAndAssetCtxs payload: empty array'' [])
   | JNull \<Rightarrow> Inl (Errorf ''unexpected metaAndAssetCtxs payload: empty array'' [])
   | JArr [m] \<Rightarrow> read_directory_object m
   | JArr (m # c # _) \<Rightarrow> (case read_universe_holder m of
       Inl e \<Rightarrow> Inl e
     | Inr us \<Rightarrow> (case read_array read_asset_ctx c of Inl e \<Rightarrow> Inl e | Inr cs \<Rightarrow> Inr \<lparr>dr_universe = us, dr_ctxs = cs\<rparr>))
   | _ \<Rightarrow> Inl (type_error ''''))"

fun fill_symbols :: "nat \<Rightarrow> universe_entry list \<Rightarrow> asset_ctx list \<Rightarrow> md_client \<Rightarrow> md_client" where
  "fill_symbols i [] xs c = c"
| "fill_symbols i (e # es) xs c =
    (let canon = trim_space (ue_name e); key = normalize_key canon in
     fill_symbols (Suc i) es xs
       (if canon = '''' \<or> key = '''' then c
        else c\<lparr>mc_symbol_index := put key canon (mc_symbol_index c),
          mc_asset_ctx := (if i < length xs then put canon (xs ! i) (mc_asset_ctx c) else mc_asset_ctx c),
          mc_universe := put canon e (mc_universe c)\<rparr>))"

definition refresh_symbol_directory :: "'w md_env \<Rightarrow> (unit, 'w) md_op" where
  "refresh_symbol_directory E = hl_bind (md_request E (plain_query ''metaAndAssetCtxs'') read_market_directory) (\<lambda>d w.
     (Inr (), w\<lparr>dw_client := fill_symbols 0 (dr_universe d) (dr_ctxs d)
       ((dw_client w)\<lparr>mc_symbol_index := [], mc_asset_ctx := [], mc_universe := []\<rparr>)\<rparr>))"

definition canonical_from_cache :: "string \<Rightarrow> md_client \<Rightarrow> string option" where
  "canonical_from_cache symbol c = (let key = normalize_key symbol in if key = '''' then None else lookup (mc_symbol_index c) key)"

definition asset_ctx_from_cache :: "string \<Rightarrow> md_client \<Rightarrow> (string \<times> asset_ctx) option" where
  "asset_ctx_from_cache symbol c = Option.bind (canonical_from_cache symbol c) (\<lambda>canon. map_option (Pair canon) (lookup (mc_asset_ctx c) canon))"

definition symbol_not_found :: goerror where
  "symbol_not_found = Errorf ''hyperliquid: symbol not found'' []"

definition canonical_symbol_for :: "'w md_env \<Rightarrow> string \<Rightarrow> (string, 'w) md_op" where
  "canonical_symbol_for E symbol w = (case canonical_from_cache symbol (dw_client w) of
     Some canon \<Rightarrow> (Inr canon, w)
   | None \<Rightarrow> hl_bind (refresh_symbol_directory E) (\<lambda>_ w. case canonical_from_cache symbol (dw_client w) of
       Some canon \<Rightarrow> (Inr canon, w) | None \<Rightarrow> (Inl symbol_not_found, w)) w)"

subsection \<open>Market metrics and prices\<close>

text \<open>A float kept in a string (the \<open>string\<close> option of a tag): it must start like a number.\<close>

definition as_quoted_float :: "json \<Rightarrow> f64 option" where
  "as_quoted_float v = (case v of
     JStr (c # s) \<Rightarrow> if c = CHR ''-'' \<or> is_digit c then as_float (JNum (c # s)) else None
   | _ \<Rightarrow> None)"

definition store_quoted :: "(f64 \<Rightarrow> 'a \<Rightarrow> 'a) \<Rightarrow> json \<Rightarrow> 'a \<Rightarrow> 'a option" where
  "store_quoted upd v d = (if v = JStr ''null'' then Some d else store as_quoted_float upd v d)"

text \<open>\<open>map[string]string\<close>: the last of two members with one name counts.\<close>

fun read_texts :: "(string \<times> json) list \<Rightarrow> (string, string) gomap \<Rightarrow> goerror + (string, string) gomap" where
  "read_texts [] m = Inr m"
| "read_texts ((k, v) # ms) m = (case read_text v of Inl e \<Rightarrow> Inl e | Inr s \<Rightarrow> read_texts ms (put k s m))"

definition read_all_mids :: "json \<Rightarrow> goerror + (string, string) gomap" where
  "read_all_mids v = (case v of JNull \<Rightarrow> Inr [] | JObj ms \<Rightarrow> read_texts ms [] | _ \<Rightarrow> Inl (type_error ''''))"

definition parse_float_error :: "string \<Rightarrow> goerror" where
  "parse_float_error s = Errorf ''strconv.ParseFloat: parsing %q'' [s]"

definition parse_opt_float :: "string \<Rightarrow> goerror + f64" where
  "parse_opt_float s = (if s = '''' then Inr NaN else case parse_float s of (x, ok) \<Rightarrow> if ok then Inr x else Inl (parse_float_error s))"

definition md_get_current_price :: "'w md_env \<Rightarrow> string \<Rightarrow> (f64, 'w) md_op" where
  "md_get_current_price E symbol = hl_bind (canonical_symbol_for E symbol) (\<lambda>canon.
     hl_bind (md_request E (plain_query ''allMids'') read_all_mids) (\<lambda>mids.
       case (case lookup mids canon of Some v \<Rightarrow> Some v | None \<Rightarrow> lookup mids (to_upper canon)) of
         None \<Rightarrow> hl_fail (Errorf ''hyperliquid: price for %s not found'' [canon])
       | Some v \<Rightarrow> (case parse_float v of (x, ok) \<Rightarrow>
           if ok then hl_ret x else hl_fail (Wrapf ''hyperliquid: parse price %q: %w'' [v] (parse_float_error v)))))"

definition current_price_for_canonical :: "'w md_env \<Rightarrow> string \<Rightarrow> (f64, 'w) md_op" where
  "current_price_for_canonical E symbol = hl_bind (md_request E (plain_query ''allMids'') read_all_mids) (\<lambda>mids.
     case lookup mids symbol of
       Some v \<Rightarrow> hl_lift (parse_opt_float v)
     | None \<Rightarrow> (case lookup mids (to_upper symbol) of
         Some v \<Rightarrow> hl_lift (parse_opt_float v)
       | None \<Rightarrow> hl_fail (Errorf ''hyperliquid: price for %s not available'' [symbol])))"

record market_info =
  mi_symbol :: string
  mi_mark_price :: f64
  mi_mid_price :: f64
  mi_funding_rate :: f64
  mi_open_interest :: f64
  mi_day_volume :: f64

definition or_zero :: "f64 \<Rightarrow> f64" where
  "or_zero x = (if is_nan x then 0 else x)"

definition wrap_parse :: "string \<Rightarrow> string \<Rightarrow> goerror + f64" where
  "wrap_parse what s = (case parse_opt_float s of Inl e \<Rightarrow> Inl (Wrapf (''hyperliquid: parse '' @ what @ '': %w'') [] e) | Inr x \<Rightarrow> Inr x)"

definition day_volume :: "asset_ctx \<Rightarrow> goerror + f64" where
  "day_volume c = (case wrap_parse ''dayBase volume'' (ax_day_base_vlm c) of
     Inl e \<Rightarrow> Inl e
   | Inr x \<Rightarrow> if is_nan x
       then (case wrap_parse ''dayNotional volume'' (ax_day_ntl_vlm c) of Inl e \<Rightarrow> Inl e | Inr y \<Rightarrow> Inr (or_zero y)) else Inr x)"

definition market_info_of :: "string \<times> asset_ctx \<Rightarrow> goerror + market_info" where
  "market_info_of p = (case p of (canon, c) \<Rightarrow>
     (case wrap_parse ''mark price'' (ax_mark_px c) of
        Inl e \<Rightarrow> Inl e
      | Inr mark \<Rightarrow> if is_nan mark then Inl (Errorf ''hyperliquid: missing mark price for %s'' [canon])
          else (case wrap_parse ''mid price'' (ax_mid_px c) of
            Inl e \<Rightarrow> Inl e
          | Inr mid \<Rightarrow> (case wrap_parse ''funding'' (ax_funding c) of
              Inl e \<Rightarrow> Inl e
            | Inr funding \<Rightarrow> (case wrap_parse ''open interest'' (ax_open_interest c) of
                Inl e \<Rightarrow> Inl e
              | Inr interest \<Rightarrow> (case day_volume c of
                  Inl e \<Rightarrow> Inl e
                | Inr vol \<Rightarrow> Inr \<lparr>mi_symbol = canon, mi_mark_price = mark, mi_mid_price = (if is_nan mid then mark else mid),
                    mi_funding_rate = funding, mi_open_interest = or_zero interest, mi_day_volume = vol\<rparr>))))))"

definition md_get_market_info :: "'w md_env \<Rightarrow> string \<Rightarrow> (market_info, 'w) md_op" where
  "md_get_market_info E symbol = hl_bind (refresh_symbol_directory E) (\<lambda>_ w. case asset_ctx_from_cache symbol (dw_client w) of
     None \<Rightarrow> (Inl symbol_not_found, w) | Some p \<Rightarrow> (market_info_of p, w))"

subsection \<open>Candles\<close>

record candle =
  cd_open_time :: int
  cd_close_time :: int
  cd_symbol :: string
  cd_interval :: string
  cd_o :: f64
  cd_c :: f64
  cd_h :: f64
  cd_l :: f64
  cd_v :: f64

definition read_candle :: "json \<Rightarrow> goerror + candle" where
  "read_candle = read_struct
     [(''t'', store as_int (\<lambda>x d. d\<lparr>cd_open_time := x\<rparr>)), (''T'', store as_int (\<lambda>x d. d\<lparr>cd_close_time := x\<rparr>)),
      (''s'', store as_string (\<lambda>x d. d\<lparr>cd_symbol := x\<rparr>)), (''i'', store as_string (\<lambda>x d. d\<lparr>cd_interval := x\<rparr>)),
      (''o'', store_quoted (\<lambda>x d. d\<lparr>cd_o := x\<rparr>)), (''c'', store_quoted (\<lambda>x d. d\<lparr>cd_c := x\<rparr>)), (''h'', store_quoted (\<lambda>x d. d\<lparr>cd_h := x\<rparr>)),
      (''l'', store_quoted (\<lambda>x d. d\<lparr>cd_l := x\<rparr>)), (''v'', store_quoted (\<lambda>x d. d\<lparr>cd_v := x\<rparr>))]
     \<lparr>cd_open_time = 0, cd_close_time = 0, cd_symbol = '''', cd_interval = '''', cd_o = 0, cd_c = 0, cd_h = 0, cd_l = 0, cd_v = 0\<rparr>"

definition kline_of :: "candle \<Rightarrow> md_kline" where
  "kline_of c = \<lparr>mk_open_time = cd_open_time c, mk_open = cd_o c, mk_high = cd_h c, mk_low = cd_l c, mk_close = cd_c c,
     mk_volume = cd_v c, mk_close_time = cd_close_time c\<rparr>"

definition interval_duration :: "string \<Rightarrow> duration option" where
  "interval_duration s = map_of [(''3m'', 3 * minute), (''4h'', 240 * minute)] s"

definition last_n :: "nat \<Rightarrow> 'a list \<Rightarrow> 'a list" where
  "last_n n xs = (if length xs \<le> n then xs else drop (length xs - n) xs)"

text \<open>\<open>sort.Slice\<close> leaves the order of candles with one opening time open; the model keeps the one they came in.\<close>

definition md_get_klines :: "'w md_env \<Rightarrow> string \<Rightarrow> string \<Rightarrow> int \<Rightarrow> (md_kline list, 'w) md_op" where
  "md_get_klines E symbol interval limit = (case interval_duration interval of
     None \<Rightarrow> hl_fail (Errorf ''hyperliquid: unsupported interval %q'' [interval])
   | Some d \<Rightarrow> if limit \<le> 0 then hl_fail (Errorf ''hyperliquid: limit must be positive'' [])
       else hl_bind (canonical_symbol_for E symbol) (\<lambda>canon w.
         let now = me_now E (dw_ext w);
             q = \<lparr>mq_type = ''candleSnapshot'', mq_req = Some \<lparr>cr_coin = canon, cr_interval = interval,
               cr_start = (now - d * (limit + 10)) div millisecond, cr_end = now div millisecond\<rparr>\<rparr>
         in hl_bind (md_request E q (read_array read_candle)) (\<lambda>cs.
              if cs = [] then hl_fail (Errorf ''hyperliquid: empty kline response for %s %s'' [canon, interval])
              else hl_ret (last_n (nat limit) (sort_key mk_open_time (map kline_of cs)))) w))"

subsection \<open>Snapshots\<close>

definition intraday_series_length :: nat where "intraday_series_length = 10"

definition latest_non_nan :: "f64 list \<Rightarrow> f64" where
  "latest_non_nan xs = (case find (\<lambda>x. \<not> is_nan x) (rev xs) of Some x \<Rightarrow> x | None \<Rightarrow> NaN)"

record indicator_snapshot =
  is_ema20 :: f64
  is_ema50 :: f64
  is_macd :: f64
  is_rsi7 :: f64
  is_rsi14 :: f64

definition build_intraday_series :: "md_kline list \<Rightarrow> (series_bundle \<times> indicator_snapshot) option" where
  "build_intraday_series ks =
    (if ks = [] then None
     else let closes = map mk_close ks; ema20 = ema closes 20; m = fst (macd closes); rsi7 = rsi closes 7; rsi14 = rsi closes 14;
         cut = last_n intraday_series_length
       in Some (\<lparr>sb_prices = cut closes, sb_ema = [(''EMA20'', cut ema20)], sb_macd = cut m,
           sb_rsi = [(''RSI7'', cut rsi7), (''RSI14'', cut rsi14)], sb_atr = [], sb_volume = cut (map mk_volume ks)\<rparr>,
         \<lparr>is_ema20 = latest_non_nan ema20, is_ema50 = 0, is_macd = latest_non_nan m, is_rsi7 = latest_non_nan rsi7,
          is_rsi14 = latest_non_nan rsi14\<rparr>))"

definition convert_for_atr :: "md_kline list \<Rightarrow> range_kline list" where
  "convert_for_atr ks = map (\<lambda>k. \<lparr>rk_high = mk_high k, rk_low = mk_low k, rk_close = mk_close k\<rparr>) ks"

definition build_longer_series :: "md_kline list \<Rightarrow> (series_bundle \<times> indicator_snapshot) option" where
  "build_longer_series ks =
    (if ks = [] then None
     else let closes = map mk_close ks; ema20 = ema closes 20; ema50 = ema closes 50; m = fst (macd closes); rsi14 = rsi closes 14;
         atr3 = atr (convert_for_atr ks) 3; atr14 = atr (convert_for_atr ks) 14; cut = last_n intraday_series_length
       in Some (\<lparr>sb_prices = cut closes, sb_ema = [(''EMA20'', cut ema20), (''EMA50'', cut ema50)], sb_macd = cut m,
           sb_rsi = [(''RSI14'', cut rsi14)], sb_atr = [(''ATR3'', cut atr3), (''ATR14'', cut atr14)], sb_volume = cut (map mk_volume ks)\<rparr>,
         \<lparr>is_ema20 = latest_non_nan ema20, is_ema50 = latest_non_nan ema50, is_macd = latest_non_nan m, is_rsi7 = 0,
          is_rsi14 = latest_non_nan rsi14\<rparr>))"

definition build_price_ticks :: "string \<Rightarrow> md_kline list \<Rightarrow> price_tick list" where
  "build_price_ticks interval ks = concat (map (\<lambda>k.
     let ts = (if mk_close_time k = 0 then mk_open_time k else mk_close_time k) in
     if ts = 0 \<or> \<not> 0 < mk_close k then []
     else [\<lparr>pt_timestamp = ts * millisecond, pt_price = mk_close k, pt_volume = (if 0 < mk_volume k then mk_volume k else 0),
       pt_has_volume = (0 < mk_volume k), pt_interval = interval, pt_open = mk_open k, pt_high = mk_high k, pt_low = mk_low k,
       pt_close = mk_close k\<rparr>]) ks)"

definition calculate_price_change :: "f64 \<Rightarrow> f64 \<Rightarrow> f64" where
  "calculate_price_change current previous = (if feq previous 0 then 0 else (current - previous) / previous)"

definition price_at :: "md_kline list \<Rightarrow> nat \<Rightarrow> f64" where
  "price_at ks back = (if ks = [] \<or> back = 0 \<or> length ks \<le> back then 0 else mk_close (ks ! (length ks - 1 - back)))"

text \<open>A value that is not missing, under its name.\<close>

definition named :: "string \<Rightarrow> f64 \<Rightarrow> (string, f64) gomap" where
  "named k x = (if is_nan x then [] else [(k, x)])"

definition indicators_of :: "indicator_snapshot option \<Rightarrow> indicator_snapshot option \<Rightarrow> indicator_info" where
  "indicators_of short long =
    \<lparr>ind_ema = (case short of Some s \<Rightarrow> named ''EMA20'' (is_ema20 s) | None \<Rightarrow> []) @
       (case long of Some s \<Rightarrow> named ''EMA20_Long'' (is_ema20 s) @ named ''EMA50'' (is_ema50 s) | None \<Rightarrow> []),
     ind_macd = (case short of
         Some s \<Rightarrow> if \<not> is_nan (is_macd s) then is_macd s
           else (case long of Some l \<Rightarrow> if \<not> is_nan (is_macd l) then is_macd l else 0 | None \<Rightarrow> 0)
       | None \<Rightarrow> (case long of Some l \<Rightarrow> if \<not> is_nan (is_macd l) then is_macd l else 0 | None \<Rightarrow> 0)),
     ind_rsi = (case short of Some s \<Rightarrow> named ''RSI7'' (is_rsi7 s) | None \<Rightarrow> []) @
       (case long of Some s \<Rightarrow> named ''RSI14'' (is_rsi14 s) | None \<Rightarrow> [])\<rparr>"

definition snapshot_of :: "market_info \<Rightarrow> f64 \<Rightarrow> md_kline list \<Rightarrow> md_kline list \<Rightarrow> snapshot" where
  "snapshot_of info price intraday longer =
    (let si = build_intraday_series intraday; sl = build_longer_series longer in
     \<lparr>sn_symbol = mi_symbol info, sn_price_last = price,
      sn_change = \<lparr>ch_one_hour = calculate_price_change price (price_at intraday 20),
        ch_four_hour = calculate_price_change price (price_at longer 1)\<rparr>,
      sn_indicators = indicators_of (map_option snd si) (map_option snd sl),
      sn_open_interest = (if feq (mi_open_interest info) 0 then None
        else Some \<lparr>oi_latest = mi_open_interest info, oi_average = mi_open_interest info\<rparr>),
      sn_funding_rate = (if \<not> is_nan (mi_funding_rate info) \<and> \<not> feq (mi_funding_rate info) 0 then Some (mi_funding_rate info) else None),
      sn_intraday = map_option fst si, sn_long_term = map_option fst sl\<rparr>)"

definition build_snapshot :: "'w md_env \<Rightarrow> string \<Rightarrow> (snapshot \<times> price_tick list, 'w) md_op" where
  "build_snapshot E symbol = hl_bind (md_get_market_info E symbol) (\<lambda>info.
     hl_bind (md_get_klines E (mi_symbol info) ''3m'' 40) (\<lambda>intraday.
       hl_bind (md_get_klines E (mi_symbol info) ''4h'' 60) (\<lambda>longer.
         hl_bind (current_price_for_canonical E (mi_symbol info)) (\<lambda>price.
           hl_ret (snapshot_of info price intraday longer, build_price_ticks ''3m'' intraday @ build_price_ticks ''4h'' longer)))))"

subsection \<open>The provider\<close>

definition snapshot_cache_ttl :: duration where "snapshot_cache_ttl = 15 * second"
definition asset_cache_ttl :: duration where "asset_cache_ttl = 5 * minute"

definition provider_name :: "'w md_world \<Rightarrow> string" where
  "provider_name w = (if trim_space (dw_provider_id w) \<noteq> '''' then dw_provider_id w else ''hyperliquid'')"

text \<open>A call of the persistence hook; its error is logged and dropped.\<close>

definition hand_over :: "'w md_env \<Rightarrow> persist_call \<Rightarrow> 'w md_world \<Rightarrow> 'w md_world" where
  "hand_over E c w = (case me_persist E of
     None \<Rightarrow> w
   | Some f \<Rightarrow> (case f c (dw_ext w) of (_, x) \<Rightarrow> w\<lparr>dw_persisted := dw_persisted w @ [c], dw_ext := x\<rparr>))"

definition load_snapshot :: "'w md_env \<Rightarrow> string \<Rightarrow> 'w md_world \<Rightarrow> snapshot option" where
  "load_snapshot E symbol w = (case lookup (dw_snapshots w) (to_upper symbol) of
     None \<Rightarrow> None
   | Some (sn, fetched) \<Rightarrow> if snapshot_cache_ttl < me_now E (dw_ext w) - fetched then None else Some sn)"

definition store_snapshot :: "'w md_env \<Rightarrow> string \<Rightarrow> snapshot \<Rightarrow> 'w md_world \<Rightarrow> 'w md_world" where
  "store_snapshot E symbol sn w = w\<lparr>dw_snapshots := put (to_upper symbol) (sn, me_now E (dw_ext w)) (dw_snapshots w)\<rparr>"

definition provider_snapshot :: "'w md_env \<Rightarrow> string \<Rightarrow> (snapshot, 'w) md_op" where
  "provider_snapshot E symbol w = (case load_snapshot E symbol w of
     Some sn \<Rightarrow> (Inr sn, w)
   | None \<Rightarrow> hl_bind (build_snapshot E symbol) (\<lambda>(sn, ticks) w1.
       let w2 = hand_over E (Record_Snapshot (provider_name w1) sn) w1;
           w3 = (if ticks \<noteq> [] then hand_over E (Record_Prices (provider_name w2) symbol ticks) w2 else w2)
       in (Inr sn, store_snapshot E symbol sn w3)) w)"

definition listed :: "md_client \<Rightarrow> string \<Rightarrow> listed_asset" where
  "listed c canon = (let m = (case lookup (mc_universe c) canon of Some e \<Rightarrow> e
        | None \<Rightarrow> \<lparr>ue_name = '''', ue_sz_decimals = 0, ue_max_leverage = 0, ue_margin_table = 0, ue_only_isolated = False, ue_is_delisted = False\<rparr>);
      x = get_or zero_ctx (mc_asset_ctx c) canon
    in (\<lparr>asset_symbol_name = canon, asset_base = '''', asset_quote = '''', asset_precision = ue_sz_decimals m, asset_is_active = \<not> ue_is_delisted m\<rparr>,
      [(''maxLeverage'', Meta_Float (ue_max_leverage m)), (''marginTable'', Meta_Int (ue_margin_table m)),
       (''onlyIsolated'', Meta_Bool (ue_only_isolated m)), (''funding'', Meta_Text (ax_funding x)),
       (''openInterest'', Meta_Text (ax_open_interest x)), (''dayBaseVlm'', Meta_Text (ax_day_base_vlm x)),
       (''dayNtlVlm'', Meta_Text (ax_day_ntl_vlm x)), (''prevDayPx'', Meta_Text (ax_prev_day_px x))]))"

definition collect_assets :: "md_client \<Rightarrow> listed_asset list" where
  "collect_assets c = sort_key (\<lambda>a. asset_symbol_name (fst a)) (map (\<lambda>(k, canon). listed c canon) (mc_symbol_index c))"

definition provider_list_assets :: "'w md_env \<Rightarrow> (listed_asset list, 'w) md_op" where
  "provider_list_assets E w =
    (if fst (dw_assets w) \<noteq> [] \<and> \<not> asset_cache_ttl < me_now E (dw_ext w) - snd (dw_assets w) then (Inr (fst (dw_assets w)), w)
     else hl_bind (refresh_symbol_directory E) (\<lambda>_ w1.
       let assets = collect_assets (dw_client w1);
           w2 = (if assets \<noteq> [] then hand_over E (Upsert_Assets (provider_name w1) assets) w1 else w1)
       in (Inr assets, w2\<lparr>dw_assets := (assets, me_now E (dw_ext w2))\<rparr>)) w)"

text \<open>The gate of \<open>persistAssets\<close>: a refresh younger than the interval is left alone.\<close>

definition persist_assets :: "'w md_env \<Rightarrow> listed_asset list \<Rightarrow> duration \<Rightarrow> (string, time) gomap \<Rightarrow> 'w md_world \<Rightarrow> (string, time) gomap \<times> 'w md_world" where
  "persist_assets E assets interval refreshed w = (case me_persist E of
     None \<Rightarrow> (refreshed, w)
   | Some f \<Rightarrow>
       let name = provider_name w; ts = get_or zero_time refreshed name in
       if assets = [] \<or> (0 < interval \<and> \<not> is_zero_time ts \<and> me_now E (dw_ext w) - ts < interval) then (refreshed, w)
       else (case f (Upsert_Assets name assets) (dw_ext w) of (r, x) \<Rightarrow>
         let w1 = w\<lparr>dw_persisted := dw_persisted w @ [Upsert_Assets name assets], dw_ext := x\<rparr> in
         (case r of Some e \<Rightarrow> (refreshed, w1) | None \<Rightarrow> (put name (me_now E x) refreshed, w1))))"

subsection \<open>Series and indicators\<close>

lemma last_n_props: "length (last_n n xs) \<le> n" "set (last_n n xs) \<subseteq> set xs" "list_all P xs \<Longrightarrow> list_all P (last_n n xs)"
  by (auto simp: last_n_def list_all_iff dest: in_set_dropD)

lemma latest_non_nan_percent: "list_all percent xs \<Longrightarrow> percent (latest_non_nan xs)"
  by (auto simp: latest_non_nan_def nan_or_def list_all_iff split: option.splits dest!: find_SomeD)

definition bundle_ok :: "series_bundle \<Rightarrow> bool" where
  "bundle_ok b \<longleftrightarrow> length (sb_prices b) \<le> 10 \<and> length (sb_macd b) \<le> 10 \<and> length (sb_volume b) \<le> 10 \<and>
     list_all (\<lambda>(k, xs). length xs \<le> 10) (sb_ema b @ sb_atr b) \<and> list_all (\<lambda>(k, xs). length xs \<le> 10 \<and> list_all percent xs) (sb_rsi b)"

lemma rsi_cut: "percent (latest_non_nan (rsi xs p))" "list_all percent (last_n n (rsi xs p))" "length (last_n 10 ys) \<le> 10"
  by (rule latest_non_nan_percent [OF rsi_percent], rule last_n_props(3) [OF rsi_percent], rule last_n_props(1))

lemma intraday_ok: "build_intraday_series ks = Some (b, s) \<Longrightarrow> bundle_ok b \<and> percent (is_rsi7 s)"
  by (clarsimp simp: build_intraday_series_def bundle_ok_def Let_def intraday_series_length_def rsi_cut split: if_splits)

lemma longer_ok: "build_longer_series ks = Some (b, s) \<Longrightarrow> bundle_ok b \<and> percent (is_rsi14 s)"
  by (clarsimp simp: build_longer_series_def bundle_ok_def Let_def intraday_series_length_def rsi_cut split: if_splits)

definition indicators_ok :: "indicator_info \<Rightarrow> bool" where
  "indicators_ok i \<longleftrightarrow> list_all (\<lambda>(k, x). 0 \<le> x \<and> x \<le> lit 100) (ind_rsi i) \<and> list_all (\<lambda>(k, x). \<not> is_nan x) (ind_ema i) \<and> \<not> is_nan (ind_macd i)"

lemma named_ok: "list_all (\<lambda>(k, x). \<not> is_nan x) (named k x)" "percent x \<Longrightarrow> list_all (\<lambda>(k, x). 0 \<le> x \<and> x \<le> lit 100) (named k x)"
  by (auto simp: named_def nan_or_def)

lemma indicators_of_ok:
  assumes "\<And>s. short = Some s \<Longrightarrow> percent (is_rsi7 s)" and "\<And>l. long = Some l \<Longrightarrow> percent (is_rsi14 l)"
  shows "indicators_ok (indicators_of short long)"
  using assms named_ok by (auto simp: indicators_ok_def indicators_of_def zero_f64_def split: option.splits)

lemma snapshot_of_ok:
  "indicators_ok (sn_indicators (snapshot_of info price intraday longer)) \<and>
   (sn_intraday (snapshot_of info price intraday longer) = Some b \<longrightarrow> bundle_ok b) \<and>
   (sn_long_term (snapshot_of info price intraday longer) = Some b' \<longrightarrow> bundle_ok b')"
proof -
  have "indicators_ok (indicators_of (map_option snd (build_intraday_series intraday)) (map_option snd (build_longer_series longer)))"
    using intraday_ok longer_ok by (intro indicators_of_ok) (force simp: map_option_case split: option.splits)+
  then show ?thesis using intraday_ok longer_ok by (auto simp: snapshot_of_def Let_def)
qed

lemma ticks_ok: "list_all (\<lambda>t. 0 < pt_close t \<and> pt_price t = pt_close t \<and> pt_timestamp t \<noteq> 0) (build_price_ticks i ks)"
  by (auto simp: build_price_ticks_def list_all_iff Let_def millisecond_def split: if_splits)

text \<open>C39. Every snapshot that is built, whatever the venue answers: its RSI values are numbers between 0 and 100, its averages and its MACD are numbers, no
  series is longer than ten entries and each entry of an RSI series is missing or between 0 and 100, and the ticks that are stored beside it have a
  positive close and a time.\<close>

theorem snapshot_bounds:
  assumes "build_snapshot E symbol w = (Inr (sn, ticks), w')"
  shows "indicators_ok (sn_indicators sn) \<and> (\<forall>b. sn_intraday sn = Some b \<or> sn_long_term sn = Some b \<longrightarrow> bundle_ok b) \<and>
    list_all (\<lambda>t. 0 < pt_close t \<and> pt_price t = pt_close t \<and> pt_timestamp t \<noteq> 0) ticks"
proof -
  obtain info price intraday longer where sn: "sn = snapshot_of info price intraday longer"
    and ticks: "ticks = build_price_ticks ''3m'' intraday @ build_price_ticks ''4h'' longer"
    using assms by (auto simp: build_snapshot_def hl_bind_def hl_ret_def split: prod.splits sum.splits)
  show ?thesis using snapshot_of_ok ticks_ok by (auto simp: sn ticks)
qed

lemma klines_ok:
  assumes "md_get_klines E symbol interval limit w = (Inr ks, w')"
  shows "sorted (map mk_open_time ks) \<and> ks \<noteq> [] \<and> int (length ks) \<le> limit"
proof -
  have l: "0 < limit" using assms by (auto simp: md_get_klines_def hl_fail_def split: option.splits if_splits)
  obtain cs where cs: "cs \<noteq> []" "ks = last_n (nat limit) (sort_key mk_open_time (map kline_of cs))"
    using assms
    by (auto simp: md_get_klines_def hl_fail_def hl_bind_def hl_ret_def Let_def split: option.splits if_splits prod.splits sum.splits)
  have "sorted (map mk_open_time ks)" unfolding cs(2) last_n_def by (auto simp: drop_map [symmetric])
  moreover have ne: "sort_key mk_open_time (map kline_of cs) \<noteq> []" using cs(1) by (metis length_0_conv length_map length_sort)
  have "0 < nat limit" using l by simp
  then have "length ks \<noteq> 0" using cs(1) ne unfolding cs(2) by (cases "length cs \<le> nat limit") (simp_all add: last_n_def)
  then have "ks \<noteq> []" by simp
  moreover have "length ks \<le> nat limit" unfolding cs(2) by (rule last_n_props(1))
  ultimately show ?thesis using l by simp
qed

subsection \<open>The cache\<close>

definition cache_frame :: "'w md_world \<Rightarrow> 'w md_world \<Rightarrow> bool" where
  "cache_frame w w' \<longleftrightarrow> dw_snapshots w' = dw_snapshots w \<and> dw_assets w' = dw_assets w \<and> dw_persisted w' = dw_persisted w \<and>
     dw_provider_id w' = dw_provider_id w"

interpretation frame: world_relation cache_frame
  by unfold_locales (simp_all add: cache_frame_def)

lemma attempt_frame: "cache_frame w (snd (md_attempt E q rd w))"
  by (auto simp: md_attempt_def md_post_def cache_frame_def Let_def split: prod.splits http_reply.splits)

lemma attempts_frame: "cache_frame w (snd (md_attempts E q rd n d w))"
proof (induction n arbitrary: d w)
  case 0
  obtain r w1 where a: "md_attempt E q rd w = (r, w1)" by (cases "md_attempt E q rd w")
  then show ?case using attempt_frame [of w E q rd] by (auto simp: md_attempts.simps [of E q rd 0] split: sum.splits)
next
  case (Suc n)
  obtain r w1 where a: "md_attempt E q rd w = (r, w1)" by (cases "md_attempt E q rd w")
  obtain c w2 where p: "md_pause E d w1 = (c, w2)" by (cases "md_pause E d w1")
  have f: "cache_frame w w1" "cache_frame w1 w2"
    using attempt_frame [of w E q rd] p by (auto simp: a md_pause_def cache_frame_def split: prod.splits)
  have "cache_frame w2 (snd (md_attempts E q rd n (2 * d) w2))" by (rule Suc.IH)
  then show ?case using f by (auto simp: md_attempts.simps [of E q rd "Suc n"] a p cache_frame_def split: sum.splits option.splits)
qed

lemma request_frame: "keeps cache_frame (md_request E q rd)"
  using attempts_frame frame.R_refl by (auto simp: keeps_def md_request_def)

lemma refresh_frame: "keeps cache_frame (refresh_symbol_directory E)"
  unfolding refresh_symbol_directory_def by (intro frame.bind request_frame) (simp add: keeps_def cache_frame_def)

lemma canonical_frame: "keeps cache_frame (canonical_symbol_for E symbol)"
proof -
  have "keeps cache_frame (hl_bind (refresh_symbol_directory E) (\<lambda>_ w. case canonical_from_cache symbol (dw_client w) of
       Some canon \<Rightarrow> (Inr canon, w) | None \<Rightarrow> (Inl symbol_not_found, w)))"
    by (intro frame.bind refresh_frame) (simp add: keeps_def cache_frame_def split: option.splits)
  then show ?thesis by (auto simp: keeps_def canonical_symbol_for_def frame.R_refl split: option.splits)
qed

lemma klines_frame: "keeps cache_frame (md_get_klines E symbol interval limit)"
proof -
  have "keeps cache_frame (\<lambda>w. hl_bind (md_request E (q w) rd) (\<lambda>cs. if cs = [] then hl_fail e else hl_ret (f cs)) w)"
    for q e and rd :: "json \<Rightarrow> goerror + 'b list" and f :: "'b list \<Rightarrow> 'c"
  proof -
    have "keeps cache_frame (hl_bind (md_request E p rd) (\<lambda>cs. if cs = [] then hl_fail e else hl_ret (f cs)))" for p
      by (intro frame.bind request_frame) (auto intro: frame.ret frame.fail)
    then show ?thesis by (simp add: keeps_def)
  qed
  then show ?thesis
    by (auto simp: md_get_klines_def Let_def split: option.splits intro!: frame.fail frame.bind canonical_frame)
qed

lemma build_frame: "keeps cache_frame (build_snapshot E symbol)"
proof -
  have "keeps cache_frame (md_get_market_info E symbol)"
    unfolding md_get_market_info_def
    by (intro frame.bind refresh_frame) (simp add: keeps_def cache_frame_def split: option.splits)
  moreover have "keeps cache_frame (current_price_for_canonical E s)" for s
    unfolding current_price_for_canonical_def
    by (intro frame.bind request_frame) (auto intro: frame.fail frame.lift split: option.splits)
  ultimately show ?thesis unfolding build_snapshot_def by (intro frame.bind klines_frame frame.ret)
qed

lemma hand_over_snapshots: "dw_snapshots (hand_over E c w) = dw_snapshots w"
  by (auto simp: hand_over_def split: option.splits prod.splits)

text \<open>C40. What \<open>Snapshot\<close> answers: the cached snapshot of the same symbol, at most fifteen seconds old, and then nothing is asked of the venue; or the error
  of building one, which leaves the cache as it was; or the snapshot just built, which is then the cached one under the present time. The persistence
  hooks, whatever they answer, change neither the answer nor the cache.\<close>

theorem snapshot_fresh:
  "(\<exists>sn t. provider_snapshot E symbol w = (Inr sn, w) \<and> lookup (dw_snapshots w) (to_upper symbol) = Some (sn, t) \<and>
     me_now E (dw_ext w) - t \<le> 15 * second) \<or>
   (\<exists>e w'. provider_snapshot E symbol w = (Inl e, w') \<and> build_snapshot E symbol w = (Inl e, w') \<and> dw_snapshots w' = dw_snapshots w) \<or>
   (\<exists>sn ticks w1 w'. provider_snapshot E symbol w = (Inr sn, w') \<and> build_snapshot E symbol w = (Inr (sn, ticks), w1) \<and>
     dw_snapshots w' = put (to_upper symbol) (sn, me_now E (dw_ext w')) (dw_snapshots w))"
proof (cases "load_snapshot E symbol w")
  case (Some sn)
  then show ?thesis by (auto simp: provider_snapshot_def load_snapshot_def snapshot_cache_ttl_def split: option.splits if_splits)
next
  case None
  obtain r w1 where b: "build_snapshot E symbol w = (r, w1)" by (cases "build_snapshot E symbol w")
  have f: "dw_snapshots w1 = dw_snapshots w" using keepsD [OF build_frame b] by (simp add: cache_frame_def)
  show ?thesis
  proof (cases r)
    case (Inl e)
    then show ?thesis using None b f by (simp add: provider_snapshot_def hl_bind_def)
  next
    case (Inr p)
    then obtain sn ticks where "r = Inr (sn, ticks)" by (cases p) simp
    then show ?thesis using None b f by (simp add: provider_snapshot_def hl_bind_def Let_def store_snapshot_def hand_over_snapshots)
  qed
qed

subsection \<open>A price that is not a number\<close>

text \<open>The price of a snapshot is not checked: an empty text or one that spells NaN in the mid prices is the price of the snapshot.\<close>

lemma missing_price_passes: "parse_opt_float '''' = Inr NaN" "parse_opt_float ''NaN'' = Inr NaN"
  by code_simp+

subsection \<open>Witness\<close>

definition demo_market_json :: "string \<Rightarrow> goerror + json" where
  "demo_market_json body =
    (if body = ''metaAndAssetCtxs'' then Inr (JArr [JObj [(''universe'', JArr [JObj [(''name'', JStr ''BTC'')]])], JArr [JObj [(''markPx'', JStr ''5'')]]])
     else if body = ''allMids'' then Inr (JObj [(''BTC'', JStr ''5'')])
     else Inr (JArr (map (\<lambda>n. JObj [(''t'', JNum (itoa n)), (''T'', JNum (itoa n)), (''c'', JStr (itoa n)), (''v'', JStr ''1'')]) [1, 2, 3, 4, 5, 6, 7, 8, 9])))"

definition demo_market_env :: "unit md_env" where
  "demo_market_env = \<lparr>me_post = (\<lambda>u q x. (Reply 200 (mq_type q), x)), me_ctx_err = (\<lambda>x. None), me_pause = (\<lambda>d x. (None, x)),
     me_now = (\<lambda>x. 1000000000), me_json = demo_market_json, me_persist = Some (\<lambda>c x. (Some (Errorf ''down'' []), x))\<rparr>"

definition demo_market_world :: "unit md_world" where
  "demo_market_world = new_md_provider second ''hyperliquid''
     \<lparr>mpc_timeout = 0, mpc_http_timeout = 0, mpc_testnet = False, mpc_max_retries = 0\<rparr> ()"

theorem snapshot_bounds_witness:
  "\<exists>sn ticks. fst (build_snapshot demo_market_env ''btcusdt'' demo_market_world) = Inr (sn, ticks) \<and> indicators_ok (sn_indicators sn) \<and>
     map fst (ind_rsi (sn_indicators sn)) = [''RSI7''] \<and> length ticks = 18"
proof -
  have e: "(case fst (build_snapshot demo_market_env ''btcusdt'' demo_market_world) of Inl _ \<Rightarrow> False
      | Inr (sn, ticks) \<Rightarrow> map fst (ind_rsi (sn_indicators sn)) = [''RSI7''] \<and> length ticks = 18)" by code_simp
  then obtain sn ticks where f: "fst (build_snapshot demo_market_env ''btcusdt'' demo_market_world) = Inr (sn, ticks)"
    and l: "map fst (ind_rsi (sn_indicators sn)) = [''RSI7'']" "length ticks = 18"
    by (auto split: sum.splits prod.splits)
  have "build_snapshot demo_market_env ''btcusdt'' demo_market_world =
      (Inr (sn, ticks), snd (build_snapshot demo_market_env ''btcusdt'' demo_market_world))" using f by (metis prod.collapse)
  from snapshot_bounds [OF this] have i: "indicators_ok (sn_indicators sn)" by simp
  show ?thesis by (intro exI conjI) (rule f i l)+
qed

end
