(* ===== verification/MarketStore.thy ===== *)
theory MarketStore
  imports EngineCache MarketData
begin

text \<open>
  The persistence of market data (\<open>internal/persistence/market/service.go\<close>): the tables of assets, latest prices, market contexts and price ticks
  (\<open>migrations/001_initial_schema.up.sql\<close> and \<open>004_market_data_storage.up.sql\<close>), the caches beside them, and the reload of the caches after
  a restart. It is what the provider of \<open>MarketData\<close> hands its assets, snapshots and ticks to.

  A table with a unique index is a map from its key to the row; a statement is one atomic step, which the database may fail with an error the caller
  supplies. A JSON document is the value it spells: marshalling fails on a number that is not finite and loses nothing otherwise, and reading it back
  makes every number a float; a \<open>JSONB\<close> column keeps that value, and the microseconds of a timestamp are finer than the milliseconds compared here.
  The calls of the cache and their failures are as in \<open>EngineCache\<close>, with the keys of this service; a lifetime is recorded and does not pass.

  Shown: without faults the caches hold what the tables hold, after a restart as before it; a snapshot that is refused changes nothing; what the
  schema of the migrations does to the price ticks.
\<close>

subsection \<open>Documents\<close>

datatype doc = DNull | DNum f64 | DInt int | DBool bool | DText string | DArr "doc list" | DObj "(string \<times> doc) list"

fun doc_ok :: "doc \<Rightarrow> bool" where
  "doc_ok (DNum x) = json_number x"
| "doc_ok (DArr ds) = list_all doc_ok ds"
| "doc_ok (DObj ms) = list_all (\<lambda>(k, d). doc_ok d) ms"
| "doc_ok d = True"

fun read_back :: "doc \<Rightarrow> doc" where
  "read_back (DInt n) = DNum (f64_of_int n)"
| "read_back (DArr ds) = DArr (map read_back ds)"
| "read_back (DObj ms) = DObj (map (\<lambda>(k, d). (k, read_back d)) ms)"
| "read_back d = d"

definition nums :: "f64 list \<Rightarrow> doc" where "nums xs = DArr (map DNum xs)"

definition series_docs :: "(string, f64 list) gomap \<Rightarrow> doc" where
  "series_docs m = DObj (map (\<lambda>(k, xs). (k, nums xs)) m)"

definition values_doc :: "(string, f64) gomap \<Rightarrow> doc" where
  "values_doc m = DObj (map (\<lambda>(k, x). (k, DNum x)) m)"

definition bundle_doc :: "series_bundle option \<Rightarrow> doc" where
  "bundle_doc b = (case b of None \<Rightarrow> DNull
   | Some s \<Rightarrow> DObj [(''Prices'', nums (sb_prices s)), (''EMA'', series_docs (sb_ema s)), (''MACD'', nums (sb_macd s)),
       (''RSI'', series_docs (sb_rsi s)), (''ATR'', series_docs (sb_atr s)), (''Volume'', nums (sb_volume s))])"

definition change_doc :: "change_info \<Rightarrow> doc" where
  "change_doc c = DObj [(''OneHour'', DNum (ch_one_hour c)), (''FourHour'', DNum (ch_four_hour c))]"

definition indicators_doc :: "indicator_info \<Rightarrow> doc" where
  "indicators_doc i = DObj [(''EMA'', values_doc (ind_ema i)), (''MACD'', DNum (ind_macd i)), (''RSI'', values_doc (ind_rsi i))]"

definition funding_doc :: "f64 option \<Rightarrow> doc" where
  "funding_doc f = (case f of None \<Rightarrow> DNull | Some x \<Rightarrow> DObj [(''Rate'', DNum x)])"

definition interest_doc :: "open_interest_info option \<Rightarrow> doc" where
  "interest_doc i = (case i of None \<Rightarrow> DNull | Some x \<Rightarrow> DObj [(''Latest'', DNum (oi_latest x)), (''Average'', DNum (oi_average x))])"

text \<open>The document of the database and the payload of the cache.\<close>

definition market_context_document :: "string \<Rightarrow> string \<Rightarrow> snapshot \<Rightarrow> time \<Rightarrow> (string \<times> doc) list" where
  "market_context_document provider symbol sn ts =
    [(''provider'', DText provider), (''symbol'', DText symbol), (''price'', DNum (sn_price_last sn)), (''change'', change_doc (sn_change sn)),
     (''funding'', funding_doc (sn_funding_rate sn)), (''open_interest'', interest_doc (sn_open_interest sn)),
     (''indicators'', indicators_doc (sn_indicators sn)), (''intraday'', bundle_doc (sn_intraday sn)), (''long_term'', bundle_doc (sn_long_term sn)),
     (''recorded_at_ms'', DInt (unix_milli ts))]"

definition context_payload :: "snapshot \<Rightarrow> time \<Rightarrow> (string, doc) gomap" where
  "context_payload sn ts =
    [(''price'', DNum (sn_price_last sn)), (''change'', change_doc (sn_change sn)), (''funding'', funding_doc (sn_funding_rate sn)),
     (''oi'', interest_doc (sn_open_interest sn)), (''indicators'', indicators_doc (sn_indicators sn)), (''timestamp_ms'', DInt (unix_milli ts))]"

definition copy_if_present :: "(string, doc) gomap \<Rightarrow> string \<Rightarrow> string \<Rightarrow> (string, doc) gomap \<Rightarrow> (string, doc) gomap" where
  "copy_if_present src k dk dst = (case lookup src k of None \<Rightarrow> dst | Some d \<Rightarrow> put dk d dst)"

definition doc_float :: "doc \<Rightarrow> f64 option" where
  "doc_float d = (case d of DNum x \<Rightarrow> Some x | DInt n \<Rightarrow> Some (f64_of_int n)
     | DText s \<Rightarrow> (case parse_float s of (x, ok) \<Rightarrow> if ok then Some x else None) | _ \<Rightarrow> None)"

text \<open>The payload rebuilt from a stored document; \<open>None\<close> is a document that is not an object.\<close>

definition market_context_cache_payload :: "doc \<Rightarrow> time \<Rightarrow> (string, doc) gomap option" where
  "market_context_cache_payload d updated_at = (case read_back d of
     DObj ms \<Rightarrow> let p = copy_if_present ms ''indicators'' ''indicators'' (copy_if_present ms ''oi'' ''oi'' (copy_if_present ms ''open_interest'' ''oi''
         (copy_if_present ms ''funding'' ''funding'' (copy_if_present ms ''change'' ''change'' (copy_if_present ms ''price'' ''price'' [])))))
       in Some (case Option.bind (lookup ms ''recorded_at_ms'') doc_float of
         Some x \<Rightarrow> put ''timestamp_ms'' (DInt (int_of_f64 x)) p
       | None \<Rightarrow> if is_zero_time updated_at then p else put ''timestamp_ms'' (DInt (unix_milli updated_at)) p)
   | DNull \<Rightarrow> Some (if is_zero_time updated_at then [] else [(''timestamp_ms'', DInt (unix_milli updated_at))])
   | _ \<Rightarrow> None)"

subsection \<open>Tables\<close>

record asset_row =
  sa_name :: "string option"
  sa_sz_decimals :: "int option"
  sa_max_leverage :: "f64 option"
  sa_only_isolated :: "bool option"
  sa_margin_table :: "int option"
  sa_is_delisted :: bool
  sa_created_at :: time
  sa_updated_at :: time

record price_row =
  lp_price :: f64
  lp_ts_ms :: int
  lp_created_at :: time
  lp_updated_at :: time

record context_row =
  cx_context :: doc
  cx_created_at :: time
  cx_updated_at :: time

record tick_row =
  kr_provider :: string
  kr_symbol :: string
  kr_price :: f64
  kr_ts_ms :: int
  kr_volume :: "f64 option"
  kr_raw :: "doc option"
  kr_symbol_id :: "string option"
  kr_exchange_provider :: "string option"

type_synonym market_key = "string \<times> string"

text \<open>\<open>mb_legacy_required\<close>: the table of ticks has the columns of the first migration, which must not be null and have no default.\<close>

record market_db =
  mb_assets :: "(market_key, asset_row) gomap"
  mb_prices :: "(market_key, price_row) gomap"
  mb_contexts :: "(market_key, context_row) gomap"
  mb_ticks :: "tick_row list"
  mb_legacy_required :: bool
  mb_faults :: "fault option list"

definition market_fault :: "market_db \<Rightarrow> fault option \<times> market_db" where
  "market_fault db = (case mb_faults db of [] \<Rightarrow> (None, db) | f # fs \<Rightarrow> (f, db\<lparr>mb_faults := fs\<rparr>))"

definition cardinality_violation :: fault where
  "cardinality_violation = plain_fault ''ON CONFLICT DO UPDATE command cannot affect row a second time''"

definition integer_out_of_range :: fault where "integer_out_of_range = plain_fault ''integer out of range''"

definition not_null_violation :: fault where
  "not_null_violation = plain_fault ''null value in column violates not-null constraint''"

definition int4 :: "int option \<Rightarrow> bool" where
  "int4 v \<longleftrightarrow> (case v of None \<Rightarrow> True | Some n \<Rightarrow> - (2 ^ 31) \<le> n \<and> n < 2 ^ 31)"

text \<open>The batch insert of assets: one statement, so a key that is listed twice fails it.\<close>

definition put_asset :: "string \<Rightarrow> time \<Rightarrow> string \<times> asset_row \<Rightarrow> (market_key, asset_row) gomap \<Rightarrow> (market_key, asset_row) gomap" where
  "put_asset provider now e m = (case e of (symbol, r) \<Rightarrow>
     put (provider, symbol) (r\<lparr>sa_created_at := (case lookup m (provider, symbol) of None \<Rightarrow> now | Some old \<Rightarrow> sa_created_at old), sa_updated_at := now\<rparr>) m)"

definition exec_upsert_assets :: "string \<Rightarrow> time \<Rightarrow> (string \<times> asset_row) list \<Rightarrow> market_db \<Rightarrow> fault option \<times> market_db" where
  "exec_upsert_assets provider now rows db = (case market_fault db of
     (Some e, db1) \<Rightarrow> (Some e, db1)
   | (None, db1) \<Rightarrow>
       if \<not> list_all (\<lambda>(s, r). int4 (sa_sz_decimals r) \<and> int4 (sa_margin_table r)) rows then (Some integer_out_of_range, db1)
       else if \<not> distinct (map fst rows) then (Some cardinality_violation, db1)
       else (None, db1\<lparr>mb_assets := fold (put_asset provider now) rows (mb_assets db1)\<rparr>))"

text \<open>The transaction of a snapshot: \<open>upsertPriceLatest\<close> and \<open>upsertMarketAssetCtx\<close>, both or neither.\<close>

definition upsert_price_latest :: "string \<Rightarrow> string \<Rightarrow> f64 \<Rightarrow> time \<Rightarrow> market_db \<Rightarrow> market_db" where
  "upsert_price_latest provider symbol price now db = db\<lparr>mb_prices := put (provider, symbol)
     \<lparr>lp_price = price, lp_ts_ms = unix_milli now,
      lp_created_at = (case lookup (mb_prices db) (provider, symbol) of None \<Rightarrow> now | Some old \<Rightarrow> lp_created_at old), lp_updated_at = now\<rparr> (mb_prices db)\<rparr>"

definition upsert_market_asset_ctx :: "string \<Rightarrow> string \<Rightarrow> doc \<Rightarrow> time \<Rightarrow> market_db \<Rightarrow> market_db" where
  "upsert_market_asset_ctx provider symbol d now db = db\<lparr>mb_contexts := put (provider, symbol)
     \<lparr>cx_context = d,
      cx_created_at = (case lookup (mb_contexts db) (provider, symbol) of None \<Rightarrow> now | Some old \<Rightarrow> cx_created_at old), cx_updated_at = now\<rparr> (mb_contexts db)\<rparr>"

definition transact_snapshot :: "string \<Rightarrow> string \<Rightarrow> f64 \<Rightarrow> doc \<Rightarrow> time \<Rightarrow> market_db \<Rightarrow> fault option \<times> market_db" where
  "transact_snapshot provider symbol price d now db = (case market_fault db of
     (Some e, db1) \<Rightarrow> (Some e, db1)
   | (None, db1) \<Rightarrow> (None, upsert_market_asset_ctx provider symbol d now (upsert_price_latest provider symbol price now db1)))"

text \<open>Ticks: the table has no unique index beside its serial key, so \<open>ON CONFLICT DO NOTHING\<close> drops nothing.\<close>

definition insert_price_ticks_batch :: "tick_row list \<Rightarrow> market_db \<Rightarrow> fault option \<times> market_db" where
  "insert_price_ticks_batch rows db =
    (if rows = [] then (None, db)
     else case market_fault db of
       (Some e, db1) \<Rightarrow> (Some e, db1)
     | (None, db1) \<Rightarrow>
         if mb_legacy_required db1 \<and> \<not> list_all (\<lambda>r. kr_symbol_id r \<noteq> None \<and> kr_exchange_provider r \<noteq> None) rows then (Some not_null_violation, db1)
         else (None, db1\<lparr>mb_ticks := mb_ticks db1 @ rows\<rparr>))"

subsection \<open>Caches\<close>

datatype market_value = MvPrice f64 int | MvContext "(string, doc) gomap" | MvPrices "(string, f64) gomap"

text \<open>A write, as data: the closures the service hands the retry queue.\<close>

datatype market_write =
  SetMarketKey string market_value duration
| MergePrice string f64 duration
| SetAssets string "(string \<times> doc) list" duration

record market_service =
  mv_sql :: bool
  mv_ticks_model :: bool
  mv_cache :: bool
  mv_redis :: bool
  mv_queue :: bool
  mv_capacity :: nat
  mv_ttl :: ttl_set

text \<open>\<open>NewService\<close>: without a connection there is no service.\<close>

definition new_market_service :: "market_service \<Rightarrow> market_service option" where
  "new_market_service cfg = (if \<not> mv_sql cfg then None else Some cfg)"

record market_cache =
  mq_keys :: "(string, market_value \<times> duration) gomap"
  mq_hashes :: "(string \<times> string, doc) gomap"
  mq_expiry :: "(string, int) gomap"
  mq_faults :: "fault option list"
  mq_pending :: "market_write list"

definition mq_fault :: "market_cache \<Rightarrow> fault option \<times> market_cache" where
  "mq_fault c = (case mq_faults c of [] \<Rightarrow> (None, c) | f # fs \<Rightarrow> (f, c\<lparr>mq_faults := fs\<rparr>))"

definition set_market_key :: "string \<Rightarrow> market_value \<Rightarrow> duration \<Rightarrow> market_cache \<Rightarrow> fault option \<times> market_cache" where
  "set_market_key key v ttl c = (case mq_fault c of
     (Some e, c1) \<Rightarrow> (Some e, c1) | (None, c1) \<Rightarrow> (None, c1\<lparr>mq_keys := put key (v, ttl) (mq_keys c1)\<rparr>))"

definition quotes_of :: "market_cache \<Rightarrow> (string, f64) gomap" where
  "quotes_of c = (case lookup (mq_keys c) crypto_prices_key of Some (MvPrices m, _) \<Rightarrow> m | _ \<Rightarrow> [])"

text \<open>\<open>HMSET\<close> and \<open>EXPIRE\<close> in one pipeline. \<open>EXPIRE\<close> takes whole seconds, and a lifetime that is not positive deletes the key.\<close>

definition set_asset_fields :: "string \<Rightarrow> (string \<times> doc) list \<Rightarrow> duration \<Rightarrow> market_cache \<Rightarrow> market_cache" where
  "set_asset_fields key members ttl c =
    (if ttl \<le> 0 then c\<lparr>mq_hashes := filter (\<lambda>((k, f), d). k \<noteq> key) (mq_hashes c), mq_expiry := del key (mq_expiry c)\<rparr>
     else c\<lparr>mq_hashes := fold (\<lambda>(f, d). put (key, f) d) members (mq_hashes c), mq_expiry := put key (max 1 (ttl div second)) (mq_expiry c)\<rparr>)"

definition exec_market_write :: "market_service \<Rightarrow> market_write \<Rightarrow> market_cache \<Rightarrow> fault option \<times> market_cache" where
  "exec_market_write S w c = (case w of
     SetMarketKey key v ttl \<Rightarrow> set_market_key key v ttl c
   | MergePrice field price ttl \<Rightarrow> (case mq_fault c of
       (Some e, c1) \<Rightarrow> if ft_cache_miss e then set_market_key crypto_prices_key (MvPrices [(field, price)]) ttl c1 else (Some e, c1)
     | (None, c1) \<Rightarrow> set_market_key crypto_prices_key (MvPrices (put field price (quotes_of c1))) ttl c1)
   | SetAssets key members ttl \<Rightarrow>
       if \<not> mv_redis S then (None, c)
       else (case mq_fault c of (Some e, c1) \<Rightarrow> (Some e, c1) | (None, c1) \<Rightarrow> (None, set_asset_fields key members ttl c1)))"

text \<open>\<open>retry\<close> marks a write that comes from the retry queue.\<close>

definition handle_market_failure :: "market_service \<Rightarrow> bool \<Rightarrow> market_write \<Rightarrow> fault option \<Rightarrow> market_cache \<Rightarrow> market_cache" where
  "handle_market_failure S retry w err c =
    (if fst (classify err) = Ignore \<or> retry then c
     else if fst (classify err) = RetryAsync \<and> mv_queue S \<and> length (mq_pending c) < mv_capacity S
     then c\<lparr>mq_pending := mq_pending c @ [w]\<rparr> else c)"

definition run_market_write :: "market_service \<Rightarrow> market_write \<Rightarrow> market_cache \<Rightarrow> market_cache" where
  "run_market_write S w c = (case exec_market_write S w c of (e, c1) \<Rightarrow> handle_market_failure S False w e c1)"

definition market_task :: "market_service \<Rightarrow> market_write \<Rightarrow> market_cache retry_task" where
  "market_task S w = \<lparr>tk_operation = ''market.cache'', tk_resource = '''', tk_max_attempts = 0, tk_initial_backoff = 0, tk_max_backoff = 0,
     tk_attempt_timeout = 0, tk_retryable = None, tk_do = Some (exec_market_write S w)\<rparr>"

definition cache_price :: "market_service \<Rightarrow> string \<Rightarrow> string \<Rightarrow> f64 \<Rightarrow> int \<Rightarrow> market_cache \<Rightarrow> market_cache" where
  "cache_price S provider symbol price ms c = (let ttl = price_ttl (mv_ttl S) in
     if \<not> mv_cache S \<or> ttl \<le> 0 then c
     else run_market_write S (SetMarketKey (price_latest_key symbol) (MvPrice price ms) ttl)
       (run_market_write S (SetMarketKey (price_latest_by_provider_key provider symbol) (MvPrice price ms) ttl) c))"

definition cache_market_ctx :: "market_service \<Rightarrow> string \<Rightarrow> string \<Rightarrow> snapshot \<Rightarrow> time \<Rightarrow> market_cache \<Rightarrow> market_cache" where
  "cache_market_ctx S provider symbol sn now c = (let ttl = market_asset_ctx_ttl (mv_ttl S) in
     if \<not> mv_cache S \<or> ttl \<le> 0 then c
     else run_market_write S (SetMarketKey (market_asset_ctx_key provider symbol) (MvContext (context_payload sn now)) ttl) c)"

definition quote_field :: "string \<Rightarrow> string \<Rightarrow> string" where
  "quote_field provider symbol = provider @ '':'' @ symbol"

definition update_crypto_prices :: "market_service \<Rightarrow> string \<Rightarrow> string \<Rightarrow> f64 \<Rightarrow> market_cache \<Rightarrow> market_cache" where
  "update_crypto_prices S provider symbol price c = (let ttl = crypto_prices_ttl (mv_ttl S) in
     if \<not> mv_cache S \<or> ttl \<le> 0 then c else run_market_write S (MergePrice (quote_field provider symbol) price ttl) c)"

definition cache_crypto_prices :: "market_service \<Rightarrow> (string, f64) gomap \<Rightarrow> market_cache \<Rightarrow> market_cache" where
  "cache_crypto_prices S m c = (let ttl = crypto_prices_ttl (mv_ttl S) in
     if \<not> mv_cache S \<or> m = [] \<or> ttl \<le> 0 then c else run_market_write S (SetMarketKey crypto_prices_key (MvPrices m) ttl) c)"

definition meta_doc :: "meta_value \<Rightarrow> doc" where
  "meta_doc v = (case v of Meta_Float x \<Rightarrow> DNum x | Meta_Int n \<Rightarrow> DInt n | Meta_Bool b \<Rightarrow> DBool b | Meta_Text s \<Rightarrow> DText s)"

definition asset_doc :: "time \<Rightarrow> listed_asset \<Rightarrow> doc" where
  "asset_doc now la = (case la of (a, meta) \<Rightarrow> DObj ([(''symbol'', DText (asset_symbol_name a)), (''base'', DText (asset_base a)),
     (''quote'', DText (asset_quote a)), (''precision'', DInt (asset_precision a)), (''is_active'', DBool (asset_is_active a)),
     (''updated_at'', DInt (unix_milli now))] @ (if meta = [] then [] else [(''metadata'', DObj (map (\<lambda>(k, v). (k, meta_doc v)) meta))])))"

definition asset_fields :: "time \<Rightarrow> listed_asset list \<Rightarrow> (string \<times> doc) list" where
  "asset_fields now las = fold (\<lambda>la m. if trim_space (asset_symbol_name (fst la)) = '''' \<or> \<not> doc_ok (asset_doc now la) then m
     else put (asset_symbol_name (fst la)) (asset_doc now la) m) las []"

definition cache_assets :: "market_service \<Rightarrow> time \<Rightarrow> string \<Rightarrow> listed_asset list \<Rightarrow> market_cache \<Rightarrow> market_cache" where
  "cache_assets S now provider las c =
    (if \<not> mv_redis S \<or> las = [] then c
     else let ttl0 = ttl_of (mv_ttl S) TTLLong; ttl = (if ttl0 \<le> 0 then market_asset_ttl (mv_ttl S) else ttl0); members = asset_fields now las in
       if members = [] then c else run_market_write S (SetAssets (market_asset_key provider) members ttl) c)"

subsection \<open>Metadata\<close>

definition meta_float :: "meta_value \<Rightarrow> f64 option" where
  "meta_float v = (case v of Meta_Float x \<Rightarrow> Some x | Meta_Int n \<Rightarrow> Some (f64_of_int n)
     | Meta_Text s \<Rightarrow> (case parse_float s of (x, ok) \<Rightarrow> if ok then Some x else None) | Meta_Bool _ \<Rightarrow> None)"

definition meta_int :: "meta_value \<Rightarrow> int option" where
  "meta_int v = (case v of Meta_Int n \<Rightarrow> Some n | Meta_Float x \<Rightarrow> Some (int_of_f64 x) | _ \<Rightarrow> None)"

definition meta_bool :: "meta_value \<Rightarrow> bool option" where
  "meta_bool v = (case v of Meta_Bool b \<Rightarrow> Some b
     | Meta_Text s \<Rightarrow> if equal_fold s ''true'' then Some True else if equal_fold s ''false'' then Some False else None | _ \<Rightarrow> None)"

text \<open>\<open>nullFloatFromMeta\<close>, \<open>nullIntFromMeta\<close>, \<open>nullBoolFromMeta\<close>: the first of the names that has a value of the kind.\<close>

fun from_meta :: "(meta_value \<Rightarrow> 'a option) \<Rightarrow> (string \<times> meta_value) list \<Rightarrow> string list \<Rightarrow> 'a option" where
  "from_meta rd meta [] = None"
| "from_meta rd meta (k # ks) = (case Option.bind (lookup meta k) rd of Some x \<Rightarrow> Some x | None \<Rightarrow> from_meta rd meta ks)"

definition asset_row_of :: "listed_asset \<Rightarrow> string \<times> asset_row" where
  "asset_row_of la = (case la of (a, meta) \<Rightarrow>
     let base = trim_space (asset_base a); name = (if base \<noteq> '''' then base else asset_symbol_name a) in
     (asset_symbol_name a,
      \<lparr>sa_name = (if name = '''' then None else Some name),
       sa_sz_decimals = (if 0 < asset_precision a then Some (asset_precision a) else None),
       sa_max_leverage = from_meta meta_float meta [''maxLeverage''],
       sa_only_isolated = from_meta meta_bool meta [''onlyIsolated'', ''only_isolated''],
       sa_margin_table = from_meta meta_int meta [''marginTable'', ''margin_table_id''],
       sa_is_delisted = \<not> asset_is_active a, sa_created_at = zero_time, sa_updated_at = zero_time\<rparr>))"

subsection \<open>Operations\<close>

type_synonym market_state = "market_db \<times> market_cache"

definition upsert_assets :: "market_service \<Rightarrow> time \<Rightarrow> string \<Rightarrow> listed_asset list \<Rightarrow> market_state \<Rightarrow> fault option \<times> market_state" where
  "upsert_assets S now provider0 assets st = (case st of (db, c) \<Rightarrow>
     let provider = trim_space provider0; valid = filter (\<lambda>la. trim_space (asset_symbol_name (fst la)) \<noteq> '''') assets in
     if \<not> mv_sql S \<or> assets = [] \<or> provider = '''' \<or> valid = [] then (None, st)
     else case exec_upsert_assets provider now (map asset_row_of valid) db of
       (Some e, db1) \<Rightarrow> (Some e, (db1, c))
     | (None, db1) \<Rightarrow> (None, (db1, cache_assets S now provider valid c)))"

definition refused_price :: "string \<Rightarrow> string \<Rightarrow> f64 \<Rightarrow> fault" where
  "refused_price provider symbol price = (plain_fault '''')\<lparr>ft_error :=
     Errorf ''marketpersist: invalid snapshot price provider=%s symbol=%s price=%v'' [provider, symbol]\<rparr>"

definition snapshot_key :: "string \<Rightarrow> snapshot \<Rightarrow> market_key" where
  "snapshot_key provider sn = (trim_space provider, to_upper (trim_space (sn_symbol sn)))"

definition record_snapshot :: "market_service \<Rightarrow> time \<Rightarrow> string \<Rightarrow> snapshot option \<Rightarrow> market_state \<Rightarrow> fault option \<times> market_state" where
  "record_snapshot S now provider0 snap st = (case st of (db, c) \<Rightarrow> case snap of
     None \<Rightarrow> (None, st)
   | Some sn \<Rightarrow> let provider = trim_space provider0; symbol = to_upper (trim_space (sn_symbol sn)); price = sn_price_last sn in
     if \<not> mv_sql S \<or> provider = '''' \<or> symbol = '''' then (None, st)
     else if \<not> 0 < price \<or> \<not> json_number price then (Some (refused_price provider symbol price), st)
     else let d = DObj (market_context_document provider symbol sn now) in
     if \<not> doc_ok d then (Some unsupported_value, st)
     else case transact_snapshot provider symbol price d now db of
       (Some e, db1) \<Rightarrow> (Some e, (db1, c))
     | (None, db1) \<Rightarrow> (None, (db1, update_crypto_prices S provider symbol price
         (cache_market_ctx S provider symbol sn now (cache_price S provider symbol price (unix_milli now) c)))))"

definition tick_raw :: "price_tick \<Rightarrow> doc option" where
  "tick_raw t = (let d = DObj ([(''interval'', DText (pt_interval t)), (''open'', DNum (pt_open t)), (''high'', DNum (pt_high t)),
       (''low'', DNum (pt_low t)), (''close'', DNum (pt_close t))] @ (if pt_has_volume t then [(''volume'', DNum (pt_volume t))] else []))
     in if doc_ok d then Some d else None)"

definition tick_row_of :: "string \<Rightarrow> string \<Rightarrow> price_tick \<Rightarrow> tick_row" where
  "tick_row_of provider symbol t = \<lparr>kr_provider = provider, kr_symbol = symbol, kr_price = pt_price t, kr_ts_ms = unix_milli (pt_timestamp t),
     kr_volume = (if pt_has_volume t then Some (pt_volume t) else None), kr_raw = tick_raw t, kr_symbol_id = None, kr_exchange_provider = None\<rparr>"

text \<open>Without a connection the rows go one by one to the model, which is a parameter; a duplicate is passed over.\<close>

fun insert_each :: "(tick_row \<Rightarrow> market_db \<Rightarrow> fault option \<times> market_db) \<Rightarrow> tick_row list \<Rightarrow> market_db \<Rightarrow> fault option \<times> market_db" where
  "insert_each ins [] db = (None, db)"
| "insert_each ins (r # rs) db = (case ins r db of
     (Some e, db1) \<Rightarrow> if ft_unique e then insert_each ins rs db1 else (Some e, db1) | (None, db1) \<Rightarrow> insert_each ins rs db1)"

definition record_price_series ::
  "market_service \<Rightarrow> (tick_row \<Rightarrow> market_db \<Rightarrow> fault option \<times> market_db) \<Rightarrow> string \<Rightarrow> string \<Rightarrow> price_tick list \<Rightarrow> market_db \<Rightarrow> fault option \<times> market_db" where
  "record_price_series S ins provider0 symbol0 ticks db =
    (let provider = trim_space provider0; symbol = to_upper (trim_space symbol0) in
     if \<not> mv_sql S \<and> \<not> mv_ticks_model S then (None, db)
     else if provider = '''' \<or> symbol = '''' \<or> ticks = [] then (None, db)
     else let rows = map (tick_row_of provider symbol) (filter (\<lambda>t. \<not> is_zero_time (pt_timestamp t) \<and> 0 < pt_price t) ticks) in
       if rows = [] then (None, db)
       else if mv_sql S then insert_price_ticks_batch rows db else insert_each ins rows db)"

subsection \<open>The reload after a restart\<close>

definition normalize_providers :: "string list \<Rightarrow> string list" where
  "normalize_providers ps = sort (remdups (filter (\<lambda>p. p \<noteq> '''') (map trim_space ps)))"

text \<open>A query over a table: the rows of the providers asked for, or of all, by provider and symbol (bytewise).\<close>

definition query_rows :: "string list \<Rightarrow> (market_key, 'r) gomap \<Rightarrow> (market_key \<times> 'r) list" where
  "query_rows filters rows = sort_key (\<lambda>(k, r). fst k) (sort_key (\<lambda>(k, r). snd k) (filter (\<lambda>(k, r). filters = [] \<or> fst k \<in> set filters) rows))"

definition hydrate_price :: "market_service \<Rightarrow> market_key \<times> price_row \<Rightarrow> market_cache \<times> (string, f64) gomap \<Rightarrow> market_cache \<times> (string, f64) gomap" where
  "hydrate_price S row acc = (case (row, acc) of (((p, s), r), (c, m)) \<Rightarrow>
     let provider = trim_space p; symbol = to_upper (trim_space s) in
     if provider = '''' \<or> symbol = '''' \<or> \<not> 0 < lp_price r then (c, m)
     else (cache_price S provider symbol (lp_price r) (lp_ts_ms r) c, put (quote_field provider symbol) (lp_price r) m))"

definition hydrate_latest_prices :: "market_service \<Rightarrow> string list \<Rightarrow> market_state \<Rightarrow> fault option \<times> market_state" where
  "hydrate_latest_prices S filters st = (case st of (db, c) \<Rightarrow> case market_fault db of
     (Some e, db1) \<Rightarrow> (Some e, (db1, c))
   | (None, db1) \<Rightarrow> (case fold (hydrate_price S) (query_rows filters (mb_prices db1)) (c, []) of (c1, m) \<Rightarrow>
       (None, (db1, cache_crypto_prices S m c1))))"

definition hydrate_context :: "market_service \<Rightarrow> market_key \<times> context_row \<Rightarrow> market_cache \<Rightarrow> market_cache" where
  "hydrate_context S row c = (case row of ((p, s), r) \<Rightarrow>
     let provider = trim_space p; symbol = to_upper (trim_space s) in
     if provider = '''' \<or> symbol = '''' then c
     else case market_context_cache_payload (cx_context r) (cx_updated_at r) of
       None \<Rightarrow> c
     | Some payload \<Rightarrow> run_market_write S (SetMarketKey (market_asset_ctx_key provider symbol) (MvContext payload) (market_asset_ctx_ttl (mv_ttl S))) c)"

definition hydrate_market_contexts :: "market_service \<Rightarrow> string list \<Rightarrow> market_state \<Rightarrow> fault option \<times> market_state" where
  "hydrate_market_contexts S filters st = (case st of (db, c) \<Rightarrow> case market_fault db of
     (Some e, db1) \<Rightarrow> (Some e, (db1, c))
   | (None, db1) \<Rightarrow> (None, (db1, if market_asset_ctx_ttl (mv_ttl S) \<le> 0 then c
       else fold (hydrate_context S) (query_rows filters (mb_contexts db1)) c)))"

definition hydrated_asset :: "string \<Rightarrow> asset_row \<Rightarrow> listed_asset" where
  "hydrated_asset symbol r = (\<lparr>asset_symbol_name = symbol, asset_base = (case sa_name r of Some n \<Rightarrow> n | None \<Rightarrow> ''''), asset_quote = '''',
     asset_precision = (case sa_sz_decimals r of Some n \<Rightarrow> n | None \<Rightarrow> 0), asset_is_active = \<not> sa_is_delisted r\<rparr>,
     [(''is_delisted'', Meta_Bool (sa_is_delisted r))] @
     (case sa_sz_decimals r of Some n \<Rightarrow> [(''sz_decimals'', Meta_Int n)] | None \<Rightarrow> []) @
     (case sa_max_leverage r of Some x \<Rightarrow> [(''maxLeverage'', Meta_Float x)] | None \<Rightarrow> []) @
     (case sa_only_isolated r of Some b \<Rightarrow> [(''onlyIsolated'', Meta_Bool b)] | None \<Rightarrow> []) @
     (case sa_margin_table r of Some n \<Rightarrow> [(''marginTable'', Meta_Int n)] | None \<Rightarrow> []))"

definition group_asset :: "market_key \<times> asset_row \<Rightarrow> (string, listed_asset list) gomap \<Rightarrow> (string, listed_asset list) gomap" where
  "group_asset row g = (case row of ((p, s), r) \<Rightarrow>
     let provider = trim_space p; symbol = to_upper (trim_space s) in
     if provider = '''' \<or> symbol = '''' then g else put provider (get_or [] g provider @ [hydrated_asset symbol r]) g)"

text \<open>\<open>it\<close> is the order the groups are met in.\<close>

definition hydrate_market_assets ::
  "market_service \<Rightarrow> ((string \<times> listed_asset list) list \<Rightarrow> (string \<times> listed_asset list) list) \<Rightarrow> time \<Rightarrow> string list \<Rightarrow> market_state \<Rightarrow> fault option \<times> market_state" where
  "hydrate_market_assets S it now filters st = (case st of (db, c) \<Rightarrow> case market_fault db of
     (Some e, db1) \<Rightarrow> (Some e, (db1, c))
   | (None, db1) \<Rightarrow> (None, (db1, fold (\<lambda>(p, las). cache_assets S now p las) (it (fold group_asset (query_rows filters (mb_assets db1)) [])) c)))"

text \<open>The errors are joined; none is success.\<close>

definition hydrate_market_caches ::
  "market_service \<Rightarrow> ((string \<times> listed_asset list) list \<Rightarrow> (string \<times> listed_asset list) list) \<Rightarrow> time \<Rightarrow> string list \<Rightarrow> market_state \<Rightarrow> fault list \<times> market_state" where
  "hydrate_market_caches S it now providers st =
    (if \<not> mv_sql S then ([], st)
     else let filters = normalize_providers providers;
       (e1, st1) = (if mv_cache S then hydrate_latest_prices S filters st else (None, st));
       (e2, st2) = (if mv_cache S then hydrate_market_contexts S filters st1 else (None, st1));
       (e3, st3) = (if mv_redis S then hydrate_market_assets S it now filters st2 else (None, st2))
     in (List.map_filter (\<lambda>e. e) [e1, e2, e3], st3))"

subsection \<open>Keys\<close>

definition clean_name :: "string \<Rightarrow> bool" where
  "clean_name s \<longleftrightarrow> s \<noteq> '''' \<and> trim_space s = s \<and> CHR '':'' \<notin> set s"

definition clean_key :: "market_key \<Rightarrow> bool" where
  "clean_key k \<longleftrightarrow> clean_name (fst k) \<and> clean_name (snd k) \<and> to_upper (snd k) = snd k"

lemma colon_split: "CHR '':'' \<notin> set a \<Longrightarrow> CHR '':'' \<notin> set b \<Longrightarrow> a @ '':'' @ x = b @ '':'' @ y \<Longrightarrow> a = b \<and> x = y"
  by (induction a arbitrary: b) (auto simp: Cons_eq_append_conv append_eq_Cons_conv)

lemma fixed_parts: "trim_space ''price'' = ''price''" "trim_space ''latest'' = ''latest''" "trim_space ''market'' = ''market''"
  "trim_space ''ctx'' = ''ctx''" "trim_space ''crypto_prices'' = ''crypto_prices''"
  by code_simp+

lemma clean_keys:
  assumes "clean_key k"
  shows "price_latest_by_provider_key (fst k) (snd k) = ''nof0:price:latest:'' @ fst k @ '':'' @ snd k"
    and "market_asset_ctx_key (fst k) (snd k) = ''nof0:market:ctx:'' @ fst k @ '':'' @ snd k"
    and "price_latest_key (snd k) = ''nof0:price:latest:'' @ snd k"
  using assms by (simp_all add: clean_key_def clean_name_def price_latest_by_provider_key_def market_asset_ctx_key_def price_latest_key_def
    format_key_def cache_namespace_def fixed_parts)

lemma key_inj:
  assumes "clean_key k" "clean_key j"
  shows "price_latest_by_provider_key (fst k) (snd k) = price_latest_by_provider_key (fst j) (snd j) \<longleftrightarrow> k = j"
    and "market_asset_ctx_key (fst k) (snd k) = market_asset_ctx_key (fst j) (snd j) \<longleftrightarrow> k = j"
    and "quote_field (fst k) (snd k) = quote_field (fst j) (snd j) \<longleftrightarrow> k = j"
  using assms colon_split [of "fst k" "fst j" "snd k" "snd j"]
  by (auto simp: clean_keys clean_key_def clean_name_def quote_field_def prod_eq_iff)

lemma keys_apart:
  assumes "clean_key k" "clean_key j"
  shows "price_latest_key (snd k) \<noteq> price_latest_by_provider_key (fst j) (snd j)"
    and "price_latest_key (snd k) \<noteq> market_asset_ctx_key (fst j) (snd j)"
    and "price_latest_by_provider_key (fst k) (snd k) \<noteq> market_asset_ctx_key (fst j) (snd j)"
    and "price_latest_key (snd k) \<noteq> crypto_prices_key"
    and "price_latest_by_provider_key (fst k) (snd k) \<noteq> crypto_prices_key"
    and "market_asset_ctx_key (fst k) (snd k) \<noteq> crypto_prices_key"
proof -
  have c: "CHR '':'' \<notin> set (snd k)" using assms by (simp add: clean_key_def clean_name_def)
  have q: "crypto_prices_key = ''nof0:crypto_prices''"
    by (simp add: crypto_prices_key_def format_key_def cache_namespace_def fixed_parts)
  show "price_latest_key (snd k) \<noteq> price_latest_by_provider_key (fst j) (snd j)"
    using c by (auto simp: clean_keys assms dest: arg_cong [of _ _ set])
qed (simp_all add: clean_keys assms crypto_prices_key_def format_key_def cache_namespace_def fixed_parts)

text \<open>Without faults a write of the cache is a single update.\<close>

lemma handle_none [simp]: "handle_market_failure S retry w None c = c"
  by (simp add: handle_market_failure_def classify_def)

lemma set_calm: "mq_faults c = [] \<Longrightarrow> run_market_write S (SetMarketKey key v ttl) c = c\<lparr>mq_keys := put key (v, ttl) (mq_keys c)\<rparr>"
  by (simp add: run_market_write_def exec_market_write_def set_market_key_def mq_fault_def)

lemma merge_calm: "mq_faults c = [] \<Longrightarrow> run_market_write S (MergePrice f x ttl) c =
    c\<lparr>mq_keys := put crypto_prices_key (MvPrices (put f x (quotes_of c)), ttl) (mq_keys c)\<rparr>"
  by (simp add: run_market_write_def exec_market_write_def set_market_key_def mq_fault_def)

lemma assets_calm: "mq_faults c = [] \<Longrightarrow> mq_faults (cache_assets S now p las c) = [] \<and> mq_keys (cache_assets S now p las c) = mq_keys c"
  by (simp add: cache_assets_def Let_def run_market_write_def exec_market_write_def mq_fault_def set_asset_fields_def)

subsection \<open>The caches and the tables\<close>

text \<open>What the table and the cache say of the latest price of a market, of its quote among all, and of its context.\<close>

definition stored_price :: "market_db \<Rightarrow> market_key \<Rightarrow> (f64 \<times> int) option" where
  "stored_price db k = map_option (\<lambda>r. (lp_price r, lp_ts_ms r)) (lookup (mb_prices db) k)"

definition cached_price :: "market_cache \<Rightarrow> market_key \<Rightarrow> (f64 \<times> int) option" where
  "cached_price c k = (case lookup (mq_keys c) (price_latest_by_provider_key (fst k) (snd k)) of Some (MvPrice x ms, _) \<Rightarrow> Some (x, ms) | _ \<Rightarrow> None)"

definition cached_quote :: "market_cache \<Rightarrow> market_key \<Rightarrow> f64 option" where
  "cached_quote c k = lookup (quotes_of c) (quote_field (fst k) (snd k))"

definition stored_context :: "market_db \<Rightarrow> market_key \<Rightarrow> (string, doc) gomap option" where
  "stored_context db k = Option.bind (lookup (mb_contexts db) k) (\<lambda>r. market_context_cache_payload (cx_context r) (cx_updated_at r))"

definition cached_context :: "market_cache \<Rightarrow> market_key \<Rightarrow> (string, doc) gomap option" where
  "cached_context c k = (case lookup (mq_keys c) (market_asset_ctx_key (fst k) (snd k)) of Some (MvContext p, _) \<Rightarrow> Some p | _ \<Rightarrow> None)"

lemmas market_views = cached_price_def cached_quote_def cached_context_def quotes_of_def

text \<open>Every market of the providers \<open>F\<close> (of all when it is empty) that has a row is cached as its row says.\<close>

definition caches_mirror :: "string list \<Rightarrow> market_db \<Rightarrow> market_cache \<Rightarrow> bool" where
  "caches_mirror F db c \<longleftrightarrow> (\<forall>k. clean_key k \<longrightarrow> F = [] \<or> fst k \<in> set F \<longrightarrow>
     (\<forall>x ms. stored_price db k = Some (x, ms) \<longrightarrow> cached_price c k = Some (x, ms) \<and> cached_quote c k = Some x) \<and>
     (\<forall>p. stored_context db k = Some p \<longrightarrow> cached_context c k = Some p))"

definition live_caches :: "market_service \<Rightarrow> bool" where
  "live_caches S \<longleftrightarrow> mv_sql S \<and> mv_cache S \<and> 0 < tl_short (mv_ttl S) \<and> 0 < tl_medium (mv_ttl S)"

definition clean_tables :: "market_db \<Rightarrow> bool" where
  "clean_tables db \<longleftrightarrow> mb_faults db = [] \<and> wf_map (mb_prices db) \<and> wf_map (mb_contexts db) \<and>
     list_all (\<lambda>(k, r). clean_key k \<and> 0 < lp_price r) (mb_prices db) \<and> list_all (\<lambda>(k, r). clean_key k) (mb_contexts db)"

lemma price_ttls: "price_ttl t = tl_short t" "crypto_prices_ttl t = tl_short t" "market_asset_ctx_ttl t = tl_medium t"
  by (simp_all add: price_ttl_def crypto_prices_ttl_def market_asset_ctx_ttl_def)

lemma clean_key_trim [simp]: "clean_key k \<Longrightarrow> trim_space (fst k) = fst k" "clean_key k \<Longrightarrow> to_upper (trim_space (snd k)) = snd k"
  "clean_key k \<Longrightarrow> fst k \<noteq> ''''" "clean_key k \<Longrightarrow> snd k \<noteq> ''''" "clean_key k \<Longrightarrow> trim_space (snd k) \<noteq> ''''"
  by (simp_all add: clean_key_def clean_name_def)

lemma price_step:
  assumes "live_caches S" "mq_faults c = []" "clean_key k" "clean_key j"
  shows "mq_faults (cache_price S (fst k) (snd k) x ms c) = []"
    and "cached_price (cache_price S (fst k) (snd k) x ms c) j = (if j = k then Some (x, ms) else cached_price c j)"
    and "cached_context (cache_price S (fst k) (snd k) x ms c) j = cached_context c j"
    and "quotes_of (cache_price S (fst k) (snd k) x ms c) = quotes_of c"
  using assms keys_apart [OF assms(3,4)] keys_apart [OF assms(4,3)] key_inj [OF assms(3,4)] keys_apart [OF assms(3,3)]
  by (auto simp: cache_price_def Let_def live_caches_def price_ttls set_calm market_views)

lemma hydrate_price_clean: "clean_key k \<Longrightarrow> 0 < lp_price r \<Longrightarrow> hydrate_price S (k, r) (c, m) =
    (cache_price S (fst k) (snd k) (lp_price r) (lp_ts_ms r) c, put (quote_field (fst k) (snd k)) (lp_price r) m)"
  by (cases k) (use clean_key_trim [of k] in \<open>simp add: hydrate_price_def\<close>)

lemma prices_fold:
  assumes "live_caches S"
  shows "mq_faults c = [] \<Longrightarrow> list_all (\<lambda>(k, r). clean_key k \<and> 0 < lp_price r) rows \<Longrightarrow> distinct (map fst rows) \<Longrightarrow>
     fold (hydrate_price S) rows (c, m) = (d, n) \<Longrightarrow> clean_key j \<Longrightarrow>
     mq_faults d = [] \<and> cached_context d j = cached_context c j \<and>
     cached_price d j = (case lookup rows j of Some r \<Rightarrow> Some (lp_price r, lp_ts_ms r) | None \<Rightarrow> cached_price c j) \<and>
     lookup n (quote_field (fst j) (snd j)) = (case lookup rows j of Some r \<Rightarrow> Some (lp_price r) | None \<Rightarrow> lookup m (quote_field (fst j) (snd j)))"
proof (induction rows arbitrary: c m)
  case Nil then show ?case by simp
next
  case (Cons row rows)
  obtain k r where row: "row = (k, r)" by (cases row)
  have k: "clean_key k" "0 < lp_price r" using Cons.prems(2) row by simp_all
  let ?c = "cache_price S (fst k) (snd k) (lp_price r) (lp_ts_ms r) c" and ?m = "put (quote_field (fst k) (snd k)) (lp_price r) m"
  have f: "fold (hydrate_price S) rows (?c, ?m) = (d, n)"
    using Cons.prems(4) hydrate_price_clean [OF k, of S c m] by (simp add: row)
  note st = price_step [OF assms Cons.prems(1) k(1) Cons.prems(5), of "lp_price r" "lp_ts_ms r"]
  have n: "lookup rows k = None" using Cons.prems(3) row by (simp add: map_of_eq_None_iff)
  from Cons.IH [OF st(1) _ _ f Cons.prems(5)] Cons.prems(2,3) st n key_inj(3) [OF k(1) Cons.prems(5)] show ?case
    by (auto simp: row split: option.splits)
qed

lemma contexts_fold:
  assumes "live_caches S"
  shows "mq_faults c = [] \<Longrightarrow> list_all (\<lambda>(k, r). clean_key k) rows \<Longrightarrow> distinct (map fst rows) \<Longrightarrow> clean_key j \<Longrightarrow>
     d = fold (hydrate_context S) rows c \<Longrightarrow>
     mq_faults d = [] \<and> cached_price d j = cached_price c j \<and> quotes_of d = quotes_of c \<and>
     cached_context d j = (case Option.bind (lookup rows j) (\<lambda>r. market_context_cache_payload (cx_context r) (cx_updated_at r)) of
       Some p \<Rightarrow> Some p | None \<Rightarrow> cached_context c j)"
proof (induction rows arbitrary: c)
  case Nil then show ?case by simp
next
  case (Cons row rows)
  obtain k r where row: "row = (k, r)" by (cases row)
  have k: "clean_key k" using Cons.prems(2) row by simp
  let ?c = "hydrate_context S row c"
  have c: "mq_faults ?c = []" "cached_price ?c j = cached_price c j" "quotes_of ?c = quotes_of c"
    "cached_context ?c j = (if j = k then (case market_context_cache_payload (cx_context r) (cx_updated_at r) of Some p \<Rightarrow> Some p | None \<Rightarrow> cached_context c j)
       else cached_context c j)"
    using Cons.prems(1) k keys_apart [OF k Cons.prems(4)] keys_apart [OF Cons.prems(4) k] key_inj [OF k Cons.prems(4)]
    by (auto simp: row hydrate_context_def Let_def split_beta set_calm market_views split: option.splits)
  have n: "lookup rows k = None" using Cons.prems(3) row by (simp add: map_of_eq_None_iff)
  have f: "d = fold (hydrate_context S) rows ?c" using Cons.prems(5) by simp
  from Cons.IH [OF c(1) _ _ Cons.prems(4) f] Cons.prems(2,3) c n show ?case
    by (auto simp: row split: option.splits)
qed

lemma query_rows_mset: "mset (query_rows F rows) = mset (filter (\<lambda>(k, r). F = [] \<or> fst k \<in> set F) rows)"
  by (simp add: query_rows_def)

lemma query_rows_set: "set (query_rows F rows) = {(k, r). (k, r) \<in> set rows \<and> (F = [] \<or> fst k \<in> set F)}"
  using mset_eq_setD [OF query_rows_mset [of F rows]] by auto

lemma query_rows_distinct: "wf_map rows \<Longrightarrow> distinct (map fst (query_rows F rows))"
proof -
  assume "wf_map rows"
  then have "distinct (map fst (filter (\<lambda>(k, r). F = [] \<or> fst k \<in> set F) rows))" by (simp add: wf_map_def distinct_map_filter)
  moreover have "mset (map fst (query_rows F rows)) = mset (map fst (filter (\<lambda>(k, r). F = [] \<or> fst k \<in> set F) rows))"
    by (simp only: mset_map query_rows_mset)
  ultimately show ?thesis using mset_eq_imp_distinct_iff by blast
qed

lemma query_rows_lookup:
  assumes "wf_map rows" "F = [] \<or> fst k \<in> set F"
  shows "lookup (query_rows F rows) k = lookup rows k"
proof -
  have eq: "lookup (query_rows F rows) k = Some r \<longleftrightarrow> lookup rows k = Some r" for r
    using assms(2) wf_map_lookup_iff [OF assms(1), of k r] wf_map_lookup_iff [of "query_rows F rows" k r] query_rows_distinct [OF assms(1), of F]
    by (simp add: wf_map_def query_rows_set)
  then show ?thesis by (metis option.exhaust)
qed

lemma query_rows_all: "list_all P rows \<Longrightarrow> list_all P (query_rows F rows)"
  using query_rows_set [of F rows] by (auto simp: list_all_iff)

lemma cache_quotes_calm:
  assumes "live_caches S" "mq_faults c = []" "clean_key j"
  shows "mq_faults (cache_crypto_prices S m c) = []" "cached_price (cache_crypto_prices S m c) j = cached_price c j"
    "cached_context (cache_crypto_prices S m c) j = cached_context c j"
    "m \<noteq> [] \<Longrightarrow> quotes_of (cache_crypto_prices S m c) = m"
  using assms keys_apart [OF assms(3,3)]
  by (auto simp: cache_crypto_prices_def Let_def live_caches_def price_ttls set_calm market_views)

lemma fault_free [simp]: "mb_faults db = [] \<Longrightarrow> market_fault db = (None, db)"
  by (simp add: market_fault_def)

lemma assets_fold: "mq_faults c = [] \<Longrightarrow> mq_faults (fold (\<lambda>(p, las). cache_assets S now p las) gs c) = [] \<and>
    mq_keys (fold (\<lambda>(p, las). cache_assets S now p las) gs c) = mq_keys c"
proof (induction gs arbitrary: c)
  case (Cons g gs)
  then show ?case using assets_calm [OF Cons.prems, of S now "fst g" "snd g"] by (simp add: split_beta)
qed simp

text \<open>The reload makes the caches agree with the tables, whatever they held before.\<close>

lemma hydrate_mirrors:
  assumes live: "live_caches S" and db: "clean_tables db" and c: "mq_faults c = []"
    and h: "hydrate_market_caches S it now ps (db, c) = (errs, st)"
  shows "errs = [] \<and> fst st = db \<and> mq_faults (snd st) = [] \<and> caches_mirror (normalize_providers ps) db (snd st)"
proof -
  let ?F = "normalize_providers ps"
  obtain c1 m where f: "fold (hydrate_price S) (query_rows ?F (mb_prices db)) (c, []) = (c1, m)" by fastforce
  define c2 where "c2 = cache_crypto_prices S m c1"
  define c3 where "c3 = fold (hydrate_context S) (query_rows ?F (mb_contexts db)) c2"
  define c4 where "c4 = (if mv_redis S then fold (\<lambda>(p, las). cache_assets S now p las) (it (fold group_asset (query_rows ?F (mb_assets db)) [])) c3 else c3)"
  have t: "mb_faults db = []" "wf_map (mb_prices db)" "wf_map (mb_contexts db)"
    "list_all (\<lambda>(k, r). clean_key k \<and> 0 < lp_price r) (mb_prices db)" "list_all (\<lambda>(k, r). clean_key k) (mb_contexts db)"
    using db by (simp_all add: clean_tables_def)
  have st: "errs = []" "st = (db, c4)"
    using h live t(1) f by (auto simp: hydrate_market_caches_def hydrate_latest_prices_def hydrate_market_contexts_def hydrate_market_assets_def Let_def
      live_caches_def price_ttls c2_def c3_def c4_def map_filter_def split: if_splits)
  have one: "mq_faults c4 = [] \<and> (?F = [] \<or> fst k \<in> set ?F \<longrightarrow>
      (\<forall>x ms. stored_price db k = Some (x, ms) \<longrightarrow> cached_price c4 k = Some (x, ms) \<and> cached_quote c4 k = Some x) \<and>
      (\<forall>p. stored_context db k = Some p \<longrightarrow> cached_context c4 k = Some p))" if k: "clean_key k" for k
  proof -
    note P = prices_fold [OF live c query_rows_all [OF t(4)] query_rows_distinct [OF t(2)] f k]
    have c1: "mq_faults c1 = []" using P by simp
    note Q = cache_quotes_calm [OF live c1 k, of m, folded c2_def]
    note C = contexts_fold [OF live Q(1) query_rows_all [OF t(5)] query_rows_distinct [OF t(3)] k c3_def]
    have c3: "mq_faults c3 = []" using C by simp
    have c4: "mq_faults c4 = [] \<and> mq_keys c4 = mq_keys c3" using assets_fold [OF c3] c3 by (simp add: c4_def)
    have keys: "cached_price c4 k = cached_price c3 k" "cached_quote c4 k = cached_quote c3 k" "cached_context c4 k = cached_context c3 k"
      using c4 by (simp_all add: market_views)
    show ?thesis
    proof (intro conjI impI allI)
      show "mq_faults c4 = []" using c4 by simp
      fix x ms assume F: "?F = [] \<or> fst k \<in> set ?F" and s: "stored_price db k = Some (x, ms)"
      then obtain r where r: "lookup (query_rows ?F (mb_prices db)) k = Some r" "lp_price r = x" "lp_ts_ms r = ms"
        using query_rows_lookup [OF t(2) F] by (auto simp: stored_price_def)
      show "cached_price c4 k = Some (x, ms)" using keys C Q P r by simp
      have m: "lookup m (quote_field (fst k) (snd k)) = Some x" using P r by simp
      then have "m \<noteq> []" by auto
      then show "cached_quote c4 k = Some x" using keys C Q m by (simp add: cached_quote_def)
    next
      fix p assume F: "?F = [] \<or> fst k \<in> set ?F" and s: "stored_context db k = Some p"
      then show "cached_context c4 k = Some p" using keys C query_rows_lookup [OF t(3) F] by (simp add: stored_context_def)
    qed
  qed
  have "mq_faults c4 = []"
  proof -
    have k: "clean_key (''x'', ''X'')" by code_simp
    show ?thesis using one [OF k] by simp
  qed
  then show ?thesis using st one unfolding caches_mirror_def by simp
qed

subsection \<open>Recording a snapshot\<close>

lemma read_values [simp]: "read_back (values_doc m) = values_doc m"
  by (simp add: values_doc_def split_beta o_def)

lemma read_parts [simp]: "read_back (change_doc c) = change_doc c" "read_back (indicators_doc i) = indicators_doc i"
  "read_back (funding_doc f) = funding_doc f" "read_back (interest_doc x) = interest_doc x"
  by (simp_all add: change_doc_def indicators_doc_def funding_doc_def interest_doc_def split: option.splits)

lemma milli_exact: "\<bar>n\<bar> \<le> 2 ^ 53 \<Longrightarrow> int_of_f64 (f64_of_int n) = n"
  using fround_of_int [of n] by (simp add: f64_of_int_def trunc_rat_def abs_le_iff)

text \<open>The payload rebuilt from a stored context is the one that was cached when it was recorded.\<close>

lemma payload_of_document:
  "\<bar>unix_milli ts\<bar> \<le> 2 ^ 53 \<Longrightarrow> market_context_cache_payload (DObj (market_context_document p s sn ts)) upd = Some (context_payload sn ts)"
  by (simp add: market_context_cache_payload_def market_context_document_def context_payload_def copy_if_present_def doc_float_def Let_def milli_exact)

definition clean_event :: "time \<times> string \<times> snapshot \<Rightarrow> bool" where
  "clean_event e \<longleftrightarrow> (case e of (now, provider, sn) \<Rightarrow> clean_key (snapshot_key provider sn) \<and> \<bar>unix_milli now\<bar> \<le> 2 ^ 53)"

definition record_event :: "market_service \<Rightarrow> time \<times> string \<times> snapshot \<Rightarrow> market_state \<Rightarrow> market_state" where
  "record_event S e st = (case e of (now, provider, sn) \<Rightarrow> snd (record_snapshot S now provider (Some sn) st))"

lemma record_cases:
  assumes "record_snapshot S now provider (Some sn) (db, c) = (r, st)" "mb_faults db = []" "mv_sql S" "clean_key (snapshot_key provider sn)"
  obtains (refused) e where "r = Some e" "st = (db, c)" "\<not> (0 < sn_price_last sn \<and> doc_ok (DObj (market_context_document (fst (snapshot_key provider sn)) (snd (snapshot_key provider sn)) sn now)))"
  | (stored) k where "r = None" "k = snapshot_key provider sn" "0 < sn_price_last sn"
      "doc_ok (DObj (market_context_document (fst k) (snd k) sn now))"
      "st = (upsert_market_asset_ctx (fst k) (snd k) (DObj (market_context_document (fst k) (snd k) sn now)) now
               (upsert_price_latest (fst k) (snd k) (sn_price_last sn) now db),
             update_crypto_prices S (fst k) (snd k) (sn_price_last sn) (cache_market_ctx S (fst k) (snd k) sn now
               (cache_price S (fst k) (snd k) (sn_price_last sn) (unix_milli now) c)))"
proof -
  have ne: "trim_space provider \<noteq> ''''" "to_upper (trim_space (sn_symbol sn)) \<noteq> ''''"
    using assms(4) by (auto simp: snapshot_key_def clean_key_def clean_name_def)
  show thesis
  proof (cases "0 < sn_price_last sn \<and> json_number (sn_price_last sn) \<and>
      doc_ok (DObj (market_context_document (trim_space provider) (to_upper (trim_space (sn_symbol sn))) sn now))")
    case True
    then show thesis using assms(1-3) ne by (intro stored) (auto simp: record_snapshot_def snapshot_key_def transact_snapshot_def Let_def)
  next
    case False
    have d: "doc_ok (DObj (market_context_document p s sn now)) \<Longrightarrow> json_number (sn_price_last sn)" for p s
      by (simp add: market_context_document_def)
    show thesis using False assms(1-3) ne d by (cases r) (auto simp: record_snapshot_def snapshot_key_def transact_snapshot_def Let_def split: if_splits intro!: refused)
  qed
qed

text \<open>What the tables and the caches say after a snapshot that is stored.\<close>

lemma stored_views:
  fixes S sn k db c now
  defines "db1 \<equiv> upsert_market_asset_ctx (fst k) (snd k) (DObj (market_context_document (fst k) (snd k) sn now)) now
      (upsert_price_latest (fst k) (snd k) (sn_price_last sn) now db)"
    and "c1 \<equiv> update_crypto_prices S (fst k) (snd k) (sn_price_last sn) (cache_market_ctx S (fst k) (snd k) sn now
      (cache_price S (fst k) (snd k) (sn_price_last sn) (unix_milli now) c))"
  assumes "live_caches S" "mq_faults c = []" "clean_key k" "\<bar>unix_milli now\<bar> \<le> 2 ^ 53"
  shows "stored_price db1 j = (if j = k then Some (sn_price_last sn, unix_milli now) else stored_price db j)"
    and "stored_context db1 j = (if j = k then Some (context_payload sn now) else stored_context db j)"
    and "clean_key j \<Longrightarrow> cached_price c1 j = (if j = k then Some (sn_price_last sn, unix_milli now) else cached_price c j)"
    and "clean_key j \<Longrightarrow> cached_context c1 j = (if j = k then Some (context_payload sn now) else cached_context c j)"
    and "clean_key j \<Longrightarrow> cached_quote c1 j = (if j = k then Some (sn_price_last sn) else cached_quote c j)"
    and "mq_faults c1 = []"
proof -
  show "stored_price db1 j = (if j = k then Some (sn_price_last sn, unix_milli now) else stored_price db j)"
    "stored_context db1 j = (if j = k then Some (context_payload sn now) else stored_context db j)"
    using payload_of_document [OF assms(6)]
    by (simp_all add: db1_def stored_price_def stored_context_def upsert_market_asset_ctx_def upsert_price_latest_def)
  note views = update_crypto_prices_def cache_market_ctx_def Let_def live_caches_def price_ttls set_calm merge_calm market_views
  show "mq_faults c1 = []"
    using price_step(1) [OF assms(3-5,5), of "sn_price_last sn" "unix_milli now"] assms(3) by (auto simp: c1_def views)
  assume j: "clean_key j"
  note step = price_step [OF assms(3-5) j, of "sn_price_last sn" "unix_milli now"]
    and apart = keys_apart [OF assms(5) j] keys_apart [OF j assms(5)] key_inj [OF assms(5) j] keys_apart [OF j j]
  show "cached_price c1 j = (if j = k then Some (sn_price_last sn, unix_milli now) else cached_price c j)"
    "cached_context c1 j = (if j = k then Some (context_payload sn now) else cached_context c j)"
    "cached_quote c1 j = (if j = k then Some (sn_price_last sn) else cached_quote c j)"
    using step apart keys_apart [OF assms(5,5)] assms(3) by (auto simp: c1_def views)
qed

lemma record_step:
  assumes live: "live_caches S" and db: "clean_tables db" and c: "mq_faults c = []" and m: "caches_mirror F db c" and e: "clean_event e"
  shows "clean_tables (fst (record_event S e (db, c))) \<and> mq_faults (snd (record_event S e (db, c))) = [] \<and>
     caches_mirror F (fst (record_event S e (db, c))) (snd (record_event S e (db, c)))"
proof -
  obtain now provider sn where e_def: "e = (now, provider, sn)" by (cases e)
  obtain r st where rec: "record_snapshot S now provider (Some sn) (db, c) = (r, st)" by (meson surj_pair)
  have k: "clean_key (snapshot_key provider sn)" and t: "\<bar>unix_milli now\<bar> \<le> 2 ^ 53" using e by (simp_all add: clean_event_def e_def)
  have faults: "mb_faults db = []" "mv_sql S" using db live by (simp_all add: clean_tables_def live_caches_def)
  from rec faults k show ?thesis
  proof (cases rule: record_cases)
    case (refused x) then show ?thesis using rec db c m by (simp add: record_event_def e_def)
  next
    case (stored k)
    have k: "clean_key k" using stored(2) k by simp
    have tables: "clean_tables (fst (record_event S e (db, c)))" using db k stored(3) rec stored(5)
      by (simp add: record_event_def e_def clean_tables_def upsert_market_asset_ctx_def upsert_price_latest_def list_all_put)
    show ?thesis using tables stored_views [OF live c k t, where sn = sn] m rec stored(5) by (auto simp: record_event_def e_def caches_mirror_def)
  qed
qed

text \<open>Without faults the market caches refine the tables: after a reload, whatever the caches held before, and after any sequence of snapshots
  recorded since, accepted or refused, every market of the providers that were reloaded has its stored price, quote and context in the caches, as long
  as the lifetime of none has passed (the model keeps what was cached).\<close>

theorem market_caches_refine_tables:
  assumes "live_caches S" "clean_tables db" "mq_faults c = []" "list_all clean_event es"
    and "hydrate_market_caches S it now ps (db, c) = (errs, st)"
  shows "errs = [] \<and> caches_mirror (normalize_providers ps) (fst (fold (record_event S) es st)) (snd (fold (record_event S) es st))"
proof -
  have run: "caches_mirror F (fst (fold (record_event S) es st)) (snd (fold (record_event S) es st))"
    if "list_all clean_event es" "clean_tables (fst st)" "mq_faults (snd st) = []" "caches_mirror F (fst st) (snd st)" for es F st
    using that
  proof (induction es arbitrary: st)
    case (Cons e es)
    then show ?case using record_step [OF assms(1), of "fst st" "snd st" F e] by simp
  qed simp
  show ?thesis using hydrate_mirrors [OF assms(1-3,5)] run [OF assms(4), of st] assms(2) by auto
qed

text \<open>Recording a snapshot stores its price and its context together or neither: a snapshot that is refused, for its price, for a number JSON does
  not have or by the database, leaves every row and the caches as they were; one that is stored has a positive finite price, is what the tables say
  of its market from then on, and touches no other market.\<close>

theorem snapshot_all_or_nothing:
  assumes "record_snapshot S now provider (Some sn) (db, c) = (r, (db', c'))" "mv_sql S" "fst (snapshot_key provider sn) \<noteq> ''''"
    "snd (snapshot_key provider sn) \<noteq> ''''" "\<bar>unix_milli now\<bar> \<le> 2 ^ 53"
  shows "if r = None
    then 0 < sn_price_last sn \<and> json_number (sn_price_last sn) \<and>
      stored_price db' = (stored_price db)(snapshot_key provider sn \<mapsto> (sn_price_last sn, unix_milli now)) \<and>
      stored_context db' = (stored_context db)(snapshot_key provider sn \<mapsto> context_payload sn now)
    else mb_prices db' = mb_prices db \<and> mb_contexts db' = mb_contexts db \<and> c' = c"
proof -
  have f: "market_fault db = (x, d) \<Longrightarrow> mb_prices d = mb_prices db \<and> mb_contexts d = mb_contexts db" for x d
    by (auto simp: market_fault_def split: list.splits)
  show ?thesis
    using assms(1-4) f payload_of_document [OF assms(5)]
    by (auto simp: record_snapshot_def snapshot_key_def transact_snapshot_def Let_def stored_price_def stored_context_def upsert_market_asset_ctx_def
        upsert_price_latest_def fun_eq_iff split: if_splits prod.splits option.splits)
qed

subsection \<open>The provider over the service\<close>





subsection \<open>Ticks under the schema of the migrations\<close>

text \<open>The first migration gives the table of ticks two columns that must not be null and have no default, the fourth adds the columns the service writes
  and leaves the two: no tick is ever stored. On a table without them a repeated series is stored again, for nothing in the table makes a tick unique.\<close>

lemma ticks_refused:
  assumes "mv_sql S" "mb_legacy_required db" "trim_space p \<noteq> ''''" "to_upper (trim_space symbol) \<noteq> ''''"
    and "filter (\<lambda>t. \<not> is_zero_time (pt_timestamp t) \<and> 0 < pt_price t) ticks \<noteq> []"
  shows "fst (record_price_series S ins p symbol ticks db) \<noteq> None \<and> mb_ticks (snd (record_price_series S ins p symbol ticks db)) = mb_ticks db"
proof -
  have "\<not> list_all (\<lambda>r. kr_symbol_id r \<noteq> None \<and> kr_exchange_provider r \<noteq> None) (map (tick_row_of pr sy) ts)" if "ts \<noteq> []" for ts pr sy
    using that by (cases ts) (simp_all add: tick_row_of_def)
  moreover have "ticks \<noteq> []" using assms(5) by auto
  ultimately show ?thesis using assms
    by (auto simp: record_price_series_def insert_price_ticks_batch_def market_fault_def Let_def split: option.splits list.splits)
qed

lemma ticks_repeat:
  assumes "\<not> mb_legacy_required db" "mb_faults db = []"
  shows "mb_ticks (snd (insert_price_ticks_batch rows (snd (insert_price_ticks_batch rows db)))) = mb_ticks db @ rows @ rows"
  using assms by (simp add: insert_price_ticks_batch_def)

subsection \<open>Examples\<close>

definition demo_service :: market_service where
  "demo_service = \<lparr>mv_sql = True, mv_ticks_model = False, mv_cache = True, mv_redis = True, mv_queue = True, mv_capacity = 4,
     mv_ttl = new_ttl_set 0 0 0\<rparr>"

definition empty_db :: market_db where
  "empty_db = \<lparr>mb_assets = [], mb_prices = [], mb_contexts = [], mb_ticks = [], mb_legacy_required = True, mb_faults = []\<rparr>"

definition empty_cache :: market_cache where
  "empty_cache = \<lparr>mq_keys = [], mq_hashes = [], mq_expiry = [], mq_faults = [], mq_pending = []\<rparr>"

definition demo_snapshot :: "f64 \<Rightarrow> snapshot" where
  "demo_snapshot x = \<lparr>sn_symbol = ''btc'', sn_price_last = x, sn_change = \<lparr>ch_one_hour = 0, ch_four_hour = 0\<rparr>,
     sn_indicators = \<lparr>ind_ema = [(''EMA20'', lit 99)], ind_macd = 0, ind_rsi = []\<rparr>, sn_open_interest = None, sn_funding_rate = Some (lit (1 / 1000)),
     sn_intraday = None, sn_long_term = None\<rparr>"

definition ms :: "int \<Rightarrow> time" where "ms n = n * 1000000"

definition demo_tables :: market_state where
  "demo_tables = record_event demo_service (ms 1, ''alpha'', demo_snapshot (Fin 100)) (record_event demo_service (ms 2, ''beta'', demo_snapshot (Fin 101)) (empty_db, empty_cache))"

lemma demo_clean: "live_caches demo_service" "clean_tables (fst demo_tables)" "clean_event (ms 3, ''beta'', demo_snapshot (Fin 102))"
  by code_simp+

theorem market_caches_refine_tables_witness:
  "\<exists>st. hydrate_market_caches demo_service (\<lambda>g. g) (ms 3) [''beta''] (fst demo_tables, empty_cache) = ([], st) \<and>
     caches_mirror [''beta''] (fst (record_event demo_service (ms 3, ''beta'', demo_snapshot (Fin 102)) st)) (snd (record_event demo_service (ms 3, ''beta'', demo_snapshot (Fin 102)) st)) \<and>
     cached_price (snd st) (''beta'', ''BTC'') = Some (Fin 101, 2) \<and> cached_price (snd st) (''alpha'', ''BTC'') = None"
proof -
  let ?h = "hydrate_market_caches demo_service (\<lambda>g. g) (ms 3) [''beta''] (fst demo_tables, empty_cache)"
  have v: "fst ?h = []" "cached_price (snd (snd ?h)) (''beta'', ''BTC'') = Some (Fin 101, 2)" "cached_price (snd (snd ?h)) (''alpha'', ''BTC'') = None"
    "normalize_providers [''beta''] = [''beta'']" by code_simp+
  have "mq_faults empty_cache = []" by code_simp
  from market_caches_refine_tables [OF demo_clean(1,2) this, of "[(ms 3, ''beta'', demo_snapshot (Fin 102))]" "\<lambda>g. g" "ms 3" "[''beta'']" "fst ?h" "snd ?h"] demo_clean(3) v
  show ?thesis by (intro exI [of _ "snd ?h"] conjI) (simp_all add: prod_eq_iff)
qed

theorem snapshot_all_or_nothing_witness:
  "stored_price (fst (snd (record_snapshot demo_service (ms 1) '' alpha '' (Some (demo_snapshot (Fin 100))) (empty_db, empty_cache)))) =
     (stored_price empty_db)((''alpha'', ''BTC'') \<mapsto> (Fin 100, 1)) \<and>
   mb_prices (fst (snd (record_snapshot demo_service (ms 1) ''alpha'' (Some (demo_snapshot NaN)) (empty_db, empty_cache)))) = []"
proof -
  let ?r = "record_snapshot demo_service (ms 1) '' alpha '' (Some (demo_snapshot (Fin 100))) (empty_db, empty_cache)"
  let ?n = "record_snapshot demo_service (ms 1) ''alpha'' (Some (demo_snapshot NaN)) (empty_db, empty_cache)"
  have v: "fst ?r = None" "snapshot_key '' alpha '' (demo_snapshot (Fin 100)) = (''alpha'', ''BTC'')" "unix_milli (ms 1) = 1" "sn_price_last (demo_snapshot (Fin 100)) = Fin 100"
    "mv_sql demo_service" "fst ?n \<noteq> None" "snapshot_key ''alpha'' (demo_snapshot NaN) = (''alpha'', ''BTC'')" "mb_prices empty_db = []"
    by code_simp+
  from snapshot_all_or_nothing [of demo_service "ms 1" "'' alpha ''" "demo_snapshot (Fin 100)" empty_db empty_cache None "fst (snd ?r)" "snd (snd ?r)"] v
    snapshot_all_or_nothing [of demo_service "ms 1" "''alpha''" "demo_snapshot NaN" empty_db empty_cache "fst ?n" "fst (snd ?n)" "snd (snd ?n)"]
  show ?thesis by (simp add: prod_eq_iff)
qed

text \<open>After a restart the price under a symbol alone is that of the last provider in order, not the latest: before it, the one of \<open>alpha\<close>, recorded last.\<close>

lemma restart_swaps_the_symbol_price:
  "let st = record_event demo_service (ms 2, ''alpha'', demo_snapshot (Fin 100)) (record_event demo_service (ms 1, ''beta'', demo_snapshot (Fin 101)) (empty_db, empty_cache)) in
   lookup (mq_keys (snd st)) (price_latest_key ''BTC'') = Some (MvPrice (Fin 100) 2, 10 * second) \<and>
   lookup (mq_keys (snd (snd (hydrate_market_caches demo_service (\<lambda>g. g) (ms 3) [] (fst st, empty_cache))))) (price_latest_key ''BTC'') =
     Some (MvPrice (Fin 101) 1, 10 * second)"
  by code_simp

text \<open>The reload renames an asset whose symbol has lower-case letters, and gives it a base.\<close>

lemma restart_renames_assets:
  "let pepe = (\<lparr>asset_symbol_name = ''kPEPE'', asset_base = '''', asset_quote = '''', asset_precision = 0, asset_is_active = True\<rparr>, []);
       st = snd (upsert_assets demo_service (ms 1) ''alpha'' [pepe] (empty_db, empty_cache)) in
   map (snd \<circ> fst) (mq_hashes (snd st)) = [''kPEPE''] \<and>
   map (snd \<circ> fst) (mq_hashes (snd (snd (hydrate_market_caches demo_service (\<lambda>g. g) (ms 2) [] (fst st, empty_cache))))) = [''KPEPE''] \<and>
   asset_base (fst (hydrated_asset ''KPEPE'' (snd (asset_row_of pepe)))) = ''kPEPE''"
  by code_simp

subsection \<open>Young markets\<close>

text \<open>The indicator series begin with entries that are not numbers, which JSON does not have: the snapshot of a market with fewer than fifty four-hour candles is
  refused by the service, its price included.\<close>

lemma nan_not_ok: "NaN \<in> set xs \<Longrightarrow> \<not> doc_ok (nums xs)"
  by (auto simp: nums_def list_all_iff json_number_def intro!: bexI [of _ NaN])

lemma young_market_refused:
  assumes "mv_sql S" "trim_space provider \<noteq> ''''" "to_upper (trim_space (mi_symbol info)) \<noteq> ''''" "longer \<noteq> []" "length longer < 50"
  shows "\<exists>e. record_snapshot S now provider (Some (snapshot_of info price intraday longer)) st = (Some e, st)"
proof -
  have e: "ema (map mk_close longer) 50 = replicate (length longer) NaN" using assms(4,5) by (simp add: ema_def Let_def)
  have "NaN \<in> set (last_n intraday_series_length (ema (map mk_close longer) 50))"
    using assms(4) unfolding e by (auto simp: last_n_def intraday_series_length_def drop_replicate)
  then have "\<not> doc_ok (bundle_doc (map_option fst (build_longer_series longer)))"
    using assms(4) nan_not_ok by (simp add: build_longer_series_def Let_def bundle_doc_def series_docs_def)
  then show ?thesis using assms(1-3)
    by (cases st) (auto simp: record_snapshot_def Let_def snapshot_of_def market_context_document_def)
qed




end
