(* ===== verification/EngineStore.thy ===== *)
theory EngineStore
  imports EngineCache AuditLog GoFormat
begin

text \<open>
  The persistence service of the manager (\<open>internal/persistence/engine/persistence.go\<close>) with the models it writes through
  (\<open>internal/model/positionsmodel.go\<close>, \<open>tradesmodel.go\<close>): positions, trades, account snapshots, decision cycles, conversations and audit events in
  the database, mirrored into the caches. The manager's events are those of \<open>ManagerState\<close>.

  A statement is one atomic step on its table; the database may fail it with an error the caller supplies. The detail of a row is the value its
  JSON spells: marshalling fails on a number that is not finite and loses nothing otherwise. The clock is read once for each event.
\<close>

subsection \<open>Tables\<close>

record position_close =
  pl_price :: f64
  pl_time_ms :: int
  pl_quantity :: f64
  pl_pnl :: f64

record position_detail =
  pd_price :: f64
  pd_quantity :: f64
  pd_time_ms :: int
  pd_leverage :: f64
  pd_provider :: string
  pd_confidence :: f64
  pd_risk_usd :: f64
  pd_close :: "position_close option"
  pd_unrealized :: f64

record position_row =
  pw_id :: string
  pw_trader_id :: string
  pw_symbol :: string
  pw_side :: string
  pw_status :: string
  pw_detail :: position_detail

record trade_detail =
  tt_open_ts :: int
  tt_close_ts :: int
  tt_duration_s :: int
  tt_entry :: f64
  tt_exit :: f64
  tt_total :: f64
  tt_confidence :: f64
  tt_leverage :: f64
  tt_provider :: string
  tt_net :: f64

record trade_row =
  tx_id :: string
  tx_trader_id :: string
  tx_symbol :: string
  tx_side :: string
  tx_close_ts :: int
  tx_detail :: trade_detail

record snapshot_row =
  sw_model_id :: string
  sw_ts_ms :: int
  sw_equity :: f64
  sw_realized :: f64
  sw_unrealized :: f64
  sw_metadata :: "(f64 \<times> f64) option"
  sw_cum_pnl_pct :: "f64 option"

record cycle_row =
  yw_model_id :: string
  yw_success :: bool
  yw_config_version :: int
  yw_executed_at :: time
  yw_cycle_number :: "int option"
  yw_prompt_digest :: "string option"
  yw_cot_trace :: "string option"
  yw_decisions :: "string option"
  yw_error :: "string option"

record conversation_row =
  vw_id :: int
  vw_model_id :: string
  vw_topic :: "string option"

record message_row =
  mw_conversation_id :: int
  mw_role :: string
  mw_content :: string
  mw_ts_ms :: "int option"

record engine_db =
  eg_positions :: "position_row list"
  eg_trades :: "trade_row list"
  eg_snapshots :: "snapshot_row list"
  eg_cycles :: "cycle_row list"
  eg_conversations :: "conversation_row list"
  eg_messages :: "message_row list"
  eg_next_conversation :: int
  eg_audit :: audit_db
  eg_faults :: "fault option list"

definition engine_fault :: "engine_db \<Rightarrow> fault option \<times> engine_db" where
  "engine_fault db = (case eg_faults db of [] \<Rightarrow> (None, db) | f # fs \<Rightarrow> (f, db\<lparr>eg_faults := fs\<rparr>))"

text \<open>
  \<open>isUniqueViolation\<close> asks whether the error is one of the driver \<open>lib/pq\<close>; the program opens its database with \<open>pgx\<close>, whose errors have another
  type. What a unique index answers is therefore not recognised as such, and the branches that ask for it are not taken.
\<close>

definition unique_violation :: fault where
  "unique_violation = plain_fault ''duplicate key value violates unique constraint''"

definition no_rows :: fault where
  "no_rows = (plain_fault ''sql: no rows in result set'')\<lparr>ft_no_rows := True\<rparr>"

subsection \<open>Positions and trades\<close>

definition detail_ok :: "position_detail \<Rightarrow> bool" where
  "detail_ok d \<longleftrightarrow> list_all json_number ([pd_price d, pd_quantity d, pd_leverage d, pd_confidence d, pd_risk_usd d, pd_unrealized d] @
     (case pd_close d of None \<Rightarrow> [] | Some c \<Rightarrow> [pl_price c, pl_quantity c, pl_pnl c]))"

definition zero_detail :: position_detail where
  "zero_detail = \<lparr>pd_price = 0, pd_quantity = 0, pd_time_ms = 0, pd_leverage = 0, pd_provider = '''', pd_confidence = 0, pd_risk_usd = 0,
     pd_close = None, pd_unrealized = 0\<rparr>"

definition build_position_detail :: "f64 \<Rightarrow> f64 \<Rightarrow> int \<Rightarrow> f64 \<Rightarrow> f64 \<Rightarrow> f64 \<Rightarrow> string \<Rightarrow> fault + position_detail" where
  "build_position_detail price qty ms lev conf risk exch =
    (let d = zero_detail\<lparr>pd_price := price, pd_quantity := qty, pd_time_ms := ms, pd_leverage := lev, pd_provider := trim_space exch,
         pd_confidence := conf, pd_risk_usd := risk\<rparr>
     in if detail_ok d then Inr d else Inl unsupported_value)"

definition update_position_detail_on_close :: "position_detail \<Rightarrow> position_close \<Rightarrow> fault + position_detail" where
  "update_position_detail_on_close d c = (let d' = d\<lparr>pd_close := Some c\<rparr> in if detail_ok d' then Inr d' else Inl unsupported_value)"

definition position_id :: "string \<Rightarrow> string \<Rightarrow> string" where
  "position_id m symbol = trim_space m @ ''|'' @ to_upper (trim_space symbol)"

definition build_trade_id :: "string \<Rightarrow> string \<Rightarrow> time \<Rightarrow> string" where
  "build_trade_id m symbol t = m @ ''|'' @ to_upper (trim_space symbol) @ ''|'' @ itoa t"

fun extract_statuses :: "order_status_response list \<Rightarrow> (f64 \<times> f64) option" where
  "extract_statuses [] = None"
| "extract_statuses (s # ss) = (case st_filled s of
     None \<Rightarrow> extract_statuses ss
   | Some f \<Rightarrow> Some (case parse_float (fo_avg_px f) of (x, ok) \<Rightarrow> if ok then x else 0,
       case parse_float (fo_total_sz f) of (x, ok) \<Rightarrow> if ok then x else 0))"

definition extract_fill :: "order_response option \<Rightarrow> (f64 \<times> f64) option" where
  "extract_fill r = (case r of None \<Rightarrow> None | Some x \<Rightarrow> extract_statuses (or_statuses x))"

definition effective_price :: "position_event \<Rightarrow> f64" where
  "effective_price e = (if 0 < pe_fill_price e then pe_fill_price e
     else if 0 < dec_entry_price (pe_decision e) then dec_entry_price (pe_decision e)
     else case extract_fill (pe_response e) of Some (px, _) \<Rightarrow> if 0 < px then px else 0 | None \<Rightarrow> 0)"

definition sized_quantity :: "position_event \<Rightarrow> f64 \<Rightarrow> f64 option" where
  "sized_quantity e price = (if 0 < price \<and> 0 < dec_position_size (pe_decision e)
     then (let q = dec_position_size (pe_decision e) / price in if 0 < q \<and> \<not> is_inf q \<and> \<not> is_nan q then Some q else None) else None)"

definition effective_quantity :: "position_event \<Rightarrow> f64 \<Rightarrow> f64" where
  "effective_quantity e price = (if 0 < pe_fill_size e then pe_fill_size e
     else case sized_quantity e price of
       Some q \<Rightarrow> q
     | None \<Rightarrow> (case extract_fill (pe_response e) of
         Some (_, sz) \<Rightarrow> if 0 < sz then sz
           else if 0 < dec_position_size (pe_decision e) then dec_position_size (pe_decision e) else 0
       | None \<Rightarrow> if 0 < dec_position_size (pe_decision e) then dec_position_size (pe_decision e) else 0))"

text \<open>The trader of an event is \<open>None\<close> when its pointer is nil.\<close>

definition normalized_model_id :: "trader option \<Rightarrow> position_event \<Rightarrow> string" where
  "normalized_model_id tr e = (if trim_space (pe_trader_id e) \<noteq> '''' then pe_trader_id e else case tr of Some t \<Rightarrow> tr_id t | None \<Rightarrow> '''')"

definition trader_exchange :: "trader option \<Rightarrow> string" where
  "trader_exchange tr = (case tr of Some t \<Rightarrow> if trim_space (tr_exchange t) \<noteq> '''' then tr_exchange t else ''unknown'' | None \<Rightarrow> ''unknown'')"

text \<open>The upsert of an open position and the update of a closed one.\<close>

fun upsert_position :: "position_row \<Rightarrow> position_row list \<Rightarrow> position_row list" where
  "upsert_position r [] = [r]"
| "upsert_position r (x # xs) = (if pw_id x = pw_id r
     then x\<lparr>pw_side := pw_side r, pw_status := ''open'', pw_detail := pw_detail r\<rparr> # xs else x # upsert_position r xs)"

definition find_position :: "string \<Rightarrow> engine_db \<Rightarrow> position_row option" where
  "find_position i db = find (\<lambda>r. pw_id r = i) (eg_positions db)"

definition close_row :: "string \<Rightarrow> position_detail \<Rightarrow> position_row \<Rightarrow> position_row" where
  "close_row i d r = (if pw_id r = i then r\<lparr>pw_status := ''closed'', pw_detail := d\<rparr> else r)"

record engine_service =
  ev_cache :: cache_service
  ev_positions :: bool
  ev_trades :: bool
  ev_snapshots :: bool
  ev_cycles :: bool
  ev_conversations :: bool

type_synonym engine_state = "engine_db \<times> cache_state"

definition open_entry :: "trader option \<Rightarrow> time \<Rightarrow> string \<Rightarrow> string \<Rightarrow> f64 \<Rightarrow> f64 \<Rightarrow> position_event \<Rightarrow> position_entry" where
  "open_entry tr now symbol side price qty e = \<lparr>pc_symbol = symbol, pc_side = side, pc_quantity = qty, pc_entry_price = price,
     pc_leverage = f64_of_int (dec_leverage (pe_decision e)), pc_confidence = f64_of_int (dec_confidence (pe_decision e)),
     pc_risk_usd = dec_risk_usd (pe_decision e), pc_updated_at = unix_milli now, pc_exchange = trader_exchange tr\<rparr>"

definition handle_open_position ::
  "engine_service \<Rightarrow> trader option \<Rightarrow> time \<Rightarrow> string \<Rightarrow> string \<Rightarrow> position_event \<Rightarrow> engine_state \<Rightarrow> fault option \<times> engine_state" where
  "handle_open_position S tr now m symbol e st = (case st of (db, c) \<Rightarrow>
    (let price = effective_price e; qty = effective_quantity e price;
         side = (if equal_fold (dec_action (pe_decision e)) ''open_short'' then ''short'' else ''long'');
         ts = (if is_zero_time (pe_occurred_at e) then now else pe_occurred_at e)
     in case build_position_detail price qty (unix_milli ts) (f64_of_int (dec_leverage (pe_decision e)))
           (f64_of_int (dec_confidence (pe_decision e))) (dec_risk_usd (pe_decision e)) (trader_exchange tr) of
        Inl er \<Rightarrow> (Some er, (db, c))
      | Inr d \<Rightarrow> (case engine_fault db of
          (Some er, db1) \<Rightarrow> (Some er, (db1, c))
        | (None, db1) \<Rightarrow> (None, (db1\<lparr>eg_positions := upsert_position \<lparr>pw_id = position_id m symbol, pw_trader_id = m, pw_symbol = symbol,
              pw_side = side, pw_status = ''open'', pw_detail = d\<rparr> (eg_positions db1)\<rparr>,
            cache_open_position (ev_cache S) m symbol (Some (open_entry tr now symbol side price qty e)) c)))))"

definition build_trade_detail :: "f64 \<Rightarrow> f64 \<Rightarrow> int \<Rightarrow> int \<Rightarrow> f64 \<Rightarrow> f64 \<Rightarrow> f64 \<Rightarrow> string \<Rightarrow> f64 \<Rightarrow> fault + trade_detail" where
  "build_trade_detail entry exit open_ms close_ms qty conf lev exch pnl =
    (let d = \<lparr>tt_open_ts = open_ms, tt_close_ts = close_ms,
         tt_duration_s = (if 0 < close_ms \<and> 0 < open_ms \<and> 0 < close_ms - open_ms then (close_ms - open_ms) div 1000 else 0),
         tt_entry = entry, tt_exit = exit, tt_total = qty, tt_confidence = conf, tt_leverage = lev, tt_provider = trim_space exch, tt_net = pnl\<rparr>
     in if list_all json_number [entry, exit, qty, conf, lev, pnl] then Inr d else Inl unsupported_value)"

text \<open>\<open>None\<close>: the trades are not wired, the position has no row, or the insert reports a duplicate in a way \<open>isUniqueViolation\<close> recognises.\<close>

definition insert_trade ::
  "engine_service \<Rightarrow> position_row option \<Rightarrow> string \<Rightarrow> string \<Rightarrow> f64 \<Rightarrow> f64 \<Rightarrow> f64 option \<Rightarrow> time \<Rightarrow> position_event \<Rightarrow> engine_db \<Rightarrow>
   (fault + trade_entry option) \<times> engine_db" where
  "insert_trade S pos m symbol price qty pnl ts e db = (case pos of
     None \<Rightarrow> (Inr None, db)
   | Some p \<Rightarrow> if \<not> ev_trades S then (Inr None, db)
     else let pd = pw_detail p; tq = (if qty \<le> 0 then pd_quantity pd else qty); ms = unix_milli ts;
            realized = (case pnl of Some x \<Rightarrow> x | None \<Rightarrow> 0) in
       (case build_trade_detail (pd_price pd) price (pd_time_ms pd) ms tq (f64_of_int (dec_confidence (pe_decision e))) (pd_leverage pd)
           (pd_provider pd) realized of
          Inl er \<Rightarrow> (Inl er, db)
        | Inr d \<Rightarrow>
          let row = \<lparr>tx_id = build_trade_id m symbol ts, tx_trader_id = pw_trader_id p, tx_symbol = symbol, tx_side = pw_side p,
                tx_close_ts = ms, tx_detail = d\<rparr>;
              result = (case engine_fault db of
                  (Some er, db1) \<Rightarrow> (Some er, db1)
                | (None, db1) \<Rightarrow> if tx_id row \<in> set (map tx_id (eg_trades db1)) then (Some unique_violation, db1)
                  else (None, db1\<lparr>eg_trades := eg_trades db1 @ [row]\<rparr>))
          in (case result of
                (Some er, db1) \<Rightarrow> (if ft_unique er then Inr None else Inl er, db1)
              | (None, db1) \<Rightarrow> (Inr (Some \<lparr>tn_model_id = pw_trader_id p, tn_symbol = symbol, tn_side = pw_side p, tn_quantity = tq,
                  tn_entry_price = pd_price pd, tn_exit_price = price, tn_realized = realized,
                  tn_confidence = f64_of_int (dec_confidence (pe_decision e)), tn_closed_at = ms, tn_exchange = pd_provider pd,
                  tn_entry_time = pd_time_ms pd, tn_leverage = pd_leverage pd, tn_position_size = pd_quantity pd\<rparr>), db1))))"

definition close_pnl :: "position_row option \<Rightarrow> f64 \<Rightarrow> f64 \<Rightarrow> f64 option" where
  "close_pnl pos price qty = (case pos of
     None \<Rightarrow> None
   | Some p \<Rightarrow> let q = (if qty \<le> 0 then pd_quantity (pw_detail p) else qty) in
       if 0 < price \<and> 0 < pd_price (pw_detail p) \<and> 0 < q
       then Some ((if equal_fold (pw_side p) ''short'' then lit (- 1) else lit 1) * (price - pd_price (pw_detail p)) * q) else None)"

definition find_existing_position :: "engine_service \<Rightarrow> string \<Rightarrow> engine_db \<Rightarrow> (fault + position_row option) \<times> engine_db" where
  "find_existing_position S i db = (if \<not> ev_positions S then (Inr None, db)
     else case engine_fault db of
       (Some er, db1) \<Rightarrow> (if ft_no_rows er then Inr None else Inl er, db1)
     | (None, db1) \<Rightarrow> (Inr (find_position i db1), db1))"

definition handle_close_position ::
  "engine_service \<Rightarrow> time \<Rightarrow> string \<Rightarrow> string \<Rightarrow> position_event \<Rightarrow> engine_state \<Rightarrow> fault option \<times> engine_state" where
  "handle_close_position S now m symbol e st = (case st of (db, c) \<Rightarrow>
    (case find_existing_position S (position_id m symbol) db of
       (Inl er, db1) \<Rightarrow> (Some er, (db1, c))
     | (Inr pos, db1) \<Rightarrow>
       let pd = (case pos of Some p \<Rightarrow> pw_detail p | None \<Rightarrow> zero_detail);
           price0 = effective_price e;
           price = (if price0 \<le> 0 \<and> pos \<noteq> None \<and> 0 < pd_price pd then pd_price pd else price0);
           ts = (if is_zero_time (pe_occurred_at e) then now else pe_occurred_at e);
           qty0 = effective_quantity e price;
           qty = (if qty0 \<le> 0 \<and> pos \<noteq> None \<and> 0 < pd_quantity pd then pd_quantity pd else qty0);
           pnl = close_pnl pos price qty
       in (case update_position_detail_on_close pd \<lparr>pl_price = price, pl_time_ms = unix_milli ts, pl_quantity = qty,
              pl_pnl = (case pnl of Some x \<Rightarrow> x | None \<Rightarrow> 0)\<rparr> of
             Inl er \<Rightarrow> (Some er, (db1, c))
           | Inr d \<Rightarrow> (case engine_fault db1 of
               (Some er, db2) \<Rightarrow> (Some er, (db2, c))
             | (None, db2) \<Rightarrow>
               (case insert_trade S pos m symbol price qty pnl ts e
                   (db2\<lparr>eg_positions := map (close_row (position_id m symbol) d) (eg_positions db2)\<rparr>) of
                  (Inl er, db3) \<Rightarrow> (Some er, (db3, c))
                | (Inr summary, db3) \<Rightarrow>
                  let c1 = cache_open_position (ev_cache S) m symbol None c
                  in (None, (db3, case summary of None \<Rightarrow> c1 | Some t \<Rightarrow> append_recent_trade (ev_cache S) m t c1)))))))"

definition record_position :: "engine_service \<Rightarrow> trader option \<Rightarrow> time \<Rightarrow> position_event \<Rightarrow> engine_state \<Rightarrow> fault option \<times> engine_state" where
  "record_position S tr now e st =
    (let m = normalized_model_id tr e; symbol = to_upper (trim_space (dec_symbol (pe_decision e))) in
     if m = '''' \<or> symbol = '''' then (None, st)
     else case pe_event e of
       PositionOpen \<Rightarrow> handle_open_position S tr now m symbol e st
     | PositionClose \<Rightarrow> handle_close_position S now m symbol e st)"

text \<open>The events are handed over with their detail printed; \<open>show\<close> is \<open>encoding/json\<close> on it.\<close>

definition audit_type_name :: "audit_event_type \<Rightarrow> string" where
  "audit_type_name ty = (case ty of
     DecisionGenerated \<Rightarrow> ''decision_generated'' | DecisionValidationFailed \<Rightarrow> ''decision_validation_failed'' | PolicyRejected \<Rightarrow> ''policy_rejected''
   | Approved \<Rightarrow> ''approved'' | OrderSubmitted \<Rightarrow> ''order_submitted'' | OrderFailed \<Rightarrow> ''order_failed'')"

definition audit_record_of :: "(audit_detail \<Rightarrow> string) \<Rightarrow> audit_event \<Rightarrow> audit_record" where
  "audit_record_of show e = \<lparr>al_id = 0, al_type = audit_type_name (ae_type e), al_trader_id = ae_trader_id e, al_cycle_id = ae_cycle_id e,
     al_correlation_id = ae_correlation_id e, al_symbol = ae_symbol e, al_action = ae_action e, al_model_id = ae_model_id e,
     al_model_name = ae_model_name e, al_prompt_digest = ae_prompt_digest e, al_approval_id = ae_approval_id e, al_reason = ae_reason e,
     al_error = ae_error e, al_detail = show (ae_detail e), al_created_at = ae_created_at e\<rparr>"

definition store_audit_event ::
  "json_codec \<Rightarrow> (audit_detail \<Rightarrow> string) \<Rightarrow> time \<Rightarrow> audit_event \<Rightarrow> engine_db \<Rightarrow> goerror option \<times> engine_db" where
  "store_audit_event J show now e db = (case record_audit J now (audit_record_of show e) (eg_audit db) of
     (x, a) \<Rightarrow> (case x of Inl er \<Rightarrow> Some er | Inr _ \<Rightarrow> None, db\<lparr>eg_audit := a\<rparr>))"

subsection \<open>Decision cycles, snapshots, analytics and conversations\<close>

definition cycle_row_of :: "time \<Rightarrow> string \<Rightarrow> int \<Rightarrow> decision_cycle \<Rightarrow> cycle_row" where
  "cycle_row_of now m version c = \<lparr>yw_model_id = m, yw_success = dc_success c,
     yw_config_version = (if 0 < version then version else if 0 < dc_config_version c then dc_config_version c else 1),
     yw_executed_at = (if is_zero_time (dc_timestamp c) then now else dc_timestamp c),
     yw_cycle_number = (if 0 < dc_cycle_number c then Some (dc_cycle_number c) else None),
     yw_prompt_digest = (if trim_space (dc_prompt_digest c) \<noteq> '''' then Some (dc_prompt_digest c) else None),
     yw_cot_trace = (if trim_space (dc_cot_trace c) \<noteq> '''' then Some (dc_cot_trace c) else None),
     yw_decisions = (if trim_space (dc_decisions_json c) \<noteq> '''' then Some (dc_decisions_json c) else None),
     yw_error = (if trim_space (dc_error c) \<noteq> '''' then Some (dc_error c) else None)\<rparr>"

definition store_decision_cycle ::
  "engine_service \<Rightarrow> time \<Rightarrow> string \<Rightarrow> int \<Rightarrow> decision_cycle option \<Rightarrow> engine_state \<Rightarrow> fault option \<times> engine_state" where
  "store_decision_cycle S now tid version cycle st = (case cycle of
     None \<Rightarrow> (None, st)
   | Some c \<Rightarrow> let m = (if tid = '''' then dc_trader_id c else tid) in
       if \<not> ev_cycles S \<or> m = '''' then (None, st)
       else (case st of (db, ca) \<Rightarrow> (case engine_fault db of
           (Some er, db1) \<Rightarrow> (if ft_unique er then None else Some er, (db1, ca))
         | (None, db1) \<Rightarrow> (None, (db1\<lparr>eg_cycles := eg_cycles db1 @ [cycle_row_of now m version c]\<rparr>,
             cache_decision_summary (ev_cache S) now m version c ca)))))"

definition snapshot_row_of :: "time \<Rightarrow> account_snapshot \<Rightarrow> snapshot_row" where
  "snapshot_row_of now s = \<lparr>sw_model_id = sn_trader_id s, sw_ts_ms = unix_milli (if is_zero_time (sn_synced_at s) then now else sn_synced_at s),
     sw_equity = sn_equity s, sw_realized = 0, sw_unrealized = sn_unrealized s,
     sw_metadata = (if json_number (sn_available s) \<and> json_number (sn_unrealized s) then Some (sn_available s, sn_unrealized s) else None),
     sw_cum_pnl_pct = (if feq (sn_equity s) 0 then None else Some (sn_unrealized s / sn_equity s * lit 100))\<rparr>"

definition same_snapshot :: "snapshot_row \<Rightarrow> snapshot_row \<Rightarrow> bool" where
  "same_snapshot a b \<longleftrightarrow> sw_model_id a = sw_model_id b \<and> sw_ts_ms a = sw_ts_ms b"

text \<open>The insert; then, when the row is there already, its look-up and its update by identifier.\<close>

definition update_snapshot :: "snapshot_row \<Rightarrow> engine_db \<Rightarrow> fault option \<times> engine_db" where
  "update_snapshot row db = (case engine_fault db of
     (Some er, db1) \<Rightarrow> (Some er, db1)
   | (None, db1) \<Rightarrow>
     if \<not> list_ex (same_snapshot row) (eg_snapshots db1) then (Some no_rows, db1)
     else (case engine_fault db1 of
       (Some er, db2) \<Rightarrow> (Some er, db2)
     | (None, db2) \<Rightarrow> (None, db2\<lparr>eg_snapshots := map (\<lambda>x. if same_snapshot row x then row else x) (eg_snapshots db2)\<rparr>)))"

definition store_account_snapshot :: "engine_service \<Rightarrow> time \<Rightarrow> account_snapshot \<Rightarrow> engine_db \<Rightarrow> fault option \<times> engine_db" where
  "store_account_snapshot S now s db =
    (if \<not> ev_snapshots S \<or> sn_trader_id s = '''' then (None, db)
     else let row = snapshot_row_of now s;
         result = (case engine_fault db of
             (Some er, db1) \<Rightarrow> (Some er, db1)
           | (None, db1) \<Rightarrow> if list_ex (same_snapshot row) (eg_snapshots db1) then (Some unique_violation, db1)
             else (None, db1\<lparr>eg_snapshots := eg_snapshots db1 @ [row]\<rparr>))
       in (case result of
             (Some er, db1) \<Rightarrow> if ft_unique er then update_snapshot row db1 else (Some er, db1)
           | (None, db1) \<Rightarrow> (None, db1)))"

definition analytics_payload :: "analytics_snapshot \<Rightarrow> payload" where
  "analytics_payload s = [(''total_pnl_usd'', PFloat (an_total_pnl s)), (''total_pnl_pct'', PFloat (an_total_pnl_pct s)),
     (''sharpe_ratio'', PFloat (an_sharpe s)), (''win_rate'', PFloat (an_win_rate s)), (''total_trades'', PInt (an_total_trades s)),
     (''max_drawdown_pct'', PFloat (an_max_drawdown_pct s)), (''updated_at_rfc3339'', PText (format_rfc3339 (an_updated_at s)))]"

definition store_analytics :: "engine_service \<Rightarrow> time \<Rightarrow> analytics_snapshot \<Rightarrow> cache_state \<Rightarrow> cache_state" where
  "store_analytics S now s c =
    (if trim_space (an_trader_id s) = '''' then c
     else let p = analytics_payload s; tid = an_trader_id s in
       cache_leaderboard_score (ev_cache S) now tid (an_total_pnl_pct s)
         (write_since_inception_cache (ev_cache S) tid p (write_analytics_cache (ev_cache S) tid p c)))"

text \<open>The conversation and its messages are written in one transaction.\<close>

definition insert_message :: "int \<Rightarrow> string \<Rightarrow> string \<Rightarrow> time \<Rightarrow> engine_db \<Rightarrow> fault option \<times> engine_db" where
  "insert_message cid role content ts db =
    (if trim_space content = '''' then (None, db)
     else case engine_fault db of
       (Some er, db1) \<Rightarrow> (Some er, db1)
     | (None, db1) \<Rightarrow> (None, db1\<lparr>eg_messages := eg_messages db1 @ [\<lparr>mw_conversation_id = cid, mw_role = role, mw_content = content,
         mw_ts_ms = (if is_zero_time ts then None else Some (unix_milli ts))\<rparr>]\<rparr>))"

definition rolled_back :: "engine_db \<Rightarrow> engine_db \<Rightarrow> engine_db" where
  "rolled_back db db1 = db1\<lparr>eg_conversations := eg_conversations db, eg_messages := eg_messages db\<rparr>"

definition conversation_transaction :: "string \<Rightarrow> string option \<Rightarrow> time \<Rightarrow> conversation_record \<Rightarrow> engine_db \<Rightarrow> (fault + int) \<times> engine_db" where
  "conversation_transaction m topic ts r db = (case engine_fault db of
     (Some er, db1) \<Rightarrow> (Inl er, db1)
   | (None, db1) \<Rightarrow>
     let cid = eg_next_conversation db1;
         db2 = db1\<lparr>eg_next_conversation := cid + 1,
           eg_conversations := eg_conversations db1 @ [\<lparr>vw_id = cid, vw_model_id = m, vw_topic = topic\<rparr>]\<rparr>
     in (case insert_message cid ''system'' (cv_prompt r) ts db2 of
          (Some er, db3) \<Rightarrow> (Inl er, rolled_back db db3)
        | (None, db3) \<Rightarrow> (case insert_message cid ''assistant'' (cv_response r) ts db3 of
            (Some er, db4) \<Rightarrow> (Inl er, rolled_back db db4)
          | (None, db4) \<Rightarrow> (case engine_fault db4 of
              (Some er, db5) \<Rightarrow> (Inl er, rolled_back db db5) | (None, db5) \<Rightarrow> (Inr cid, db5)))))"

definition store_conversation :: "engine_service \<Rightarrow> time \<Rightarrow> string \<Rightarrow> conversation_record \<Rightarrow> engine_state \<Rightarrow> fault option \<times> engine_state" where
  "store_conversation S now topic r st = (case st of (db, c) \<Rightarrow>
    (let m = trim_space (cv_model_id r) in
     if \<not> ev_conversations S \<or> m = '''' \<or> trim_space (cv_prompt r) = '''' \<or> trim_space (cv_response r) = '''' then (None, (db, c))
     else (case conversation_transaction m (null_string topic) (if is_zero_time (cv_timestamp r) then now else cv_timestamp r) r db of
         (Inl er, db1) \<Rightarrow> (Some er, (db1, c))
       | (Inr cid, db1) \<Rightarrow> (None, (db1, cache_conversation_id (ev_cache S) m cid c)))))"

subsection \<open>Loading the caches at start\<close>

definition normalize_ids :: "string list \<Rightarrow> string list" where
  "normalize_ids ids = sort (remdups (filter (\<lambda>i. i \<noteq> '''') (map (\<lambda>i. to_upper (trim_space i)) ids)))"

text \<open>\<open>ActiveByModels\<close>: the open rows of the traders, grouped; the groups come in the order of the query.\<close>

definition active_by_models :: "string list \<Rightarrow> engine_db \<Rightarrow> (fault + (string, position_row list) gomap) \<times> engine_db" where
  "active_by_models ids db = (case engine_fault db of
     (Some er, db1) \<Rightarrow> (Inl er, db1)
   | (None, db1) \<Rightarrow>
     let rows = sort_key pw_symbol (filter (\<lambda>r. pw_status r = ''open'' \<and> (ids = [] \<or> pw_trader_id r \<in> set ids)) (eg_positions db1))
     in (Inr (map (\<lambda>t. (t, filter (\<lambda>r. pw_trader_id r = t) rows)) (sort (remdups (map pw_trader_id rows)))), db1))"

definition recent_by_model :: "string \<Rightarrow> int \<Rightarrow> engine_db \<Rightarrow> (fault + trade_row list) \<times> engine_db" where
  "recent_by_model m limit db = (case engine_fault db of
     (Some er, db1) \<Rightarrow> (Inl er, db1)
   | (None, db1) \<Rightarrow> (Inr (take (nat (if limit \<le> 0 then 200 else limit))
       (sort_key (\<lambda>t. - tx_close_ts t) (filter (\<lambda>t. tx_trader_id t = m) (eg_trades db1)))), db1))"

text \<open>A field the record type keeps behind a pointer is nil when it is zero and read back as zero, so that it is the field.\<close>

definition hydrated_position :: "time \<Rightarrow> position_row \<Rightarrow> position_entry" where
  "hydrated_position now r = (let d = pw_detail r in
     \<lparr>pc_symbol = to_upper (trim_space (pw_symbol r)), pc_side = to_lower (trim_space (pw_side r)), pc_quantity = pd_quantity d,
      pc_entry_price = pd_price d, pc_leverage = pd_leverage d, pc_confidence = pd_confidence d,
      pc_risk_usd = (if feq (pd_unrealized d) 0 then pd_risk_usd d else pd_unrealized d),
      pc_updated_at = unix_milli now, pc_exchange = trim_space (pd_provider d)\<rparr>)"

definition hydrated_positions :: "time \<Rightarrow> position_row list \<Rightarrow> (string, position_entry) gomap" where
  "hydrated_positions now rows = foldl (\<lambda>m r. let up = to_upper (trim_space (pw_symbol r)) in
     if up = '''' then m else put up (hydrated_position now r) m) [] rows"

definition hydrate_positions :: "engine_service \<Rightarrow> time \<Rightarrow> string list \<Rightarrow> engine_state \<Rightarrow> fault option \<times> engine_state" where
  "hydrate_positions S now ids st = (case st of (db, c) \<Rightarrow> (case active_by_models ids db of
     (Inl er, db1) \<Rightarrow> (Some er, (db1, c))
   | (Inr groups, db1) \<Rightarrow> (None, (db1, foldl (\<lambda>c (m, rows). write_positions_cache (ev_cache S) m (hydrated_positions now rows) c) c groups))))"

definition hydrated_trade :: "trade_row \<Rightarrow> trade_entry" where
  "hydrated_trade t = (let d = tx_detail t; exit_ts = (if 0 < tx_close_ts t then tx_close_ts t else 0) in
     \<lparr>tn_model_id = tx_trader_id t, tn_symbol = to_upper (trim_space (tx_symbol t)), tn_side = to_lower (trim_space (tx_side t)),
      tn_quantity = tt_total d, tn_entry_price = tt_entry d, tn_exit_price = tt_exit d, tn_realized = tt_net d, tn_confidence = tt_confidence d,
      tn_closed_at = (if exit_ts = 0 \<and> 0 < tt_open_ts d then tt_open_ts d else exit_ts), tn_exchange = trim_space (tt_provider d),
      tn_entry_time = tt_open_ts d, tn_leverage = tt_leverage d, tn_position_size = tt_total d\<rparr>)"

fun hydrate_trades :: "engine_service \<Rightarrow> string list \<Rightarrow> engine_state \<Rightarrow> fault option \<times> engine_state" where
  "hydrate_trades S [] st = (None, st)"
| "hydrate_trades S (m # ms) (db, c) = (case recent_by_model m (int recent_trades_limit) db of
     (Inl er, db1) \<Rightarrow> (Some er, (db1, c))
   | (Inr [], db1) \<Rightarrow> hydrate_trades S ms (db1, c)
   | (Inr rows, db1) \<Rightarrow> hydrate_trades S ms (db1, write_trades_cache (ev_cache S) m (map hydrated_trade rows) c))"

text \<open>The latest cycle of a trader becomes a cycle again, its actions read from the text of its decisions by \<open>rd\<close> (\<open>encoding/json\<close>).\<close>

definition latest_cycle :: "string \<Rightarrow> engine_db \<Rightarrow> cycle_row option" where
  "latest_cycle m db = (case sort_key (\<lambda>r. - yw_executed_at r) (filter (\<lambda>r. yw_model_id r = m) (eg_cycles db)) of [] \<Rightarrow> None | r # _ \<Rightarrow> Some r)"

definition keep_members :: "payload \<Rightarrow> payload" where
  "keep_members p = filter (\<lambda>(k, v). k \<in> {''symbol'', ''action'', ''confidence''}) p"

definition cycle_of_row :: "(string \<Rightarrow> payload list option) \<Rightarrow> string \<Rightarrow> cycle_row \<Rightarrow> decision_cycle" where
  "cycle_of_row rd m r = \<lparr>dc_trader_id = m, dc_config_version = yw_config_version r, dc_timestamp = yw_executed_at r, dc_cycle_number = 0,
     dc_prompt_digest = '''', dc_cot_trace = '''', dc_decisions_json = (case yw_decisions r of None \<Rightarrow> '''' | Some s \<Rightarrow> s),
     dc_error = (case yw_error r of None \<Rightarrow> '''' | Some s \<Rightarrow> s), dc_success = yw_success r,
     dc_actions = (case yw_decisions r of None \<Rightarrow> []
       | Some s \<Rightarrow> if trim_space s = '''' then [] else (case rd s of None \<Rightarrow> [] | Some ps \<Rightarrow> map keep_members ps))\<rparr>"

fun hydrate_cycles ::
  "engine_service \<Rightarrow> (string \<Rightarrow> payload list option) \<Rightarrow> time \<Rightarrow> string list \<Rightarrow> engine_state \<Rightarrow> fault option \<times> engine_state" where
  "hydrate_cycles S rd now [] st = (None, st)"
| "hydrate_cycles S rd now (m # ms) (db, c) = (case engine_fault db of
     (Some er, db1) \<Rightarrow> if ft_no_rows er then hydrate_cycles S rd now ms (db1, c) else (Some er, (db1, c))
   | (None, db1) \<Rightarrow> (case latest_cycle m db1 of
       None \<Rightarrow> hydrate_cycles S rd now ms (db1, c)
     | Some r \<Rightarrow> hydrate_cycles S rd now ms (db1, cache_decision_summary (ev_cache S) now m (yw_config_version r) (cycle_of_row rd m r) c)))"

text \<open>The three parts run one after the other whatever the others report; the errors are joined.\<close>

definition hydrate_caches ::
  "engine_service \<Rightarrow> (string \<Rightarrow> payload list option) \<Rightarrow> time \<Rightarrow> string list \<Rightarrow> engine_state \<Rightarrow> fault list \<times> engine_state" where
  "hydrate_caches S rd now traders st =
    (let ids = normalize_ids traders in
     if \<not> sv_cache (ev_cache S) \<or> ids = [] then ([], st)
     else let (e1, st1) = (if ev_positions S then hydrate_positions S now ids st else (None, st));
              (e2, st2) = (if ev_trades S then hydrate_trades S ids st1 else (None, st1));
              (e3, st3) = (if ev_cycles S then hydrate_cycles S rd now ids st2 else (None, st2))
          in (List.map_filter id [e1, e2, e3], st3))"

end
