(* ===== verification/EngineMirror.thy ===== *)
theory EngineMirror
  imports EngineStore
begin

text \<open>
  What the persistence service promises: the caches never decide what the database gets, they stay within their bounds, a close books one trade,
  without faults the cached positions of a trader are open rows, and all of them as long as the lifetime of their hash has not passed.
\<close>

subsection \<open>The database does not depend on the caches\<close>


definition db_outcome :: "fault option \<times> engine_state \<Rightarrow> fault option \<times> engine_db" where
  "db_outcome x = (case x of (er, db, c) \<Rightarrow> (er, db))"

lemma db_outcome_simps [simp]: "db_outcome (er, db, c) = (er, db)"
  by (simp add: db_outcome_def)

lemmas outcome_cases = sum.case_distrib [of db_outcome] prod.case_distrib [of db_outcome] option.case_distrib [of db_outcome] if_distrib [of db_outcome]

lemma open_outcome: "db_outcome (handle_open_position S tr now m symbol e (db, c)) = db_outcome (handle_open_position S tr now m symbol e (db, d))"
  unfolding handle_open_position_def Let_def prod.case outcome_cases by (simp only: db_outcome_simps)

lemma close_outcome: "db_outcome (handle_close_position S now m symbol e (db, c)) = db_outcome (handle_close_position S now m symbol e (db, d))"
  unfolding handle_close_position_def Let_def prod.case outcome_cases by (simp only: db_outcome_simps)

text \<open>C31. The caches never decide what happens to the database: whatever they hold and however their calls fail, recording a position event, a
  decision cycle or a conversation reports the same result and leaves the same tables.\<close>

theorem database_ignores_caches:
  "db_outcome (record_position S tr now e (db, c)) = db_outcome (record_position S tr now e (db, d)) \<and>
   db_outcome (store_decision_cycle S now tid version cycle (db, c)) = db_outcome (store_decision_cycle S now tid version cycle (db, d)) \<and>
   db_outcome (store_conversation S now topic r (db, c)) = db_outcome (store_conversation S now topic r (db, d))"
proof (intro conjI)
  show "db_outcome (record_position S tr now e (db, c)) = db_outcome (record_position S tr now e (db, d))"
    using open_outcome close_outcome unfolding record_position_def Let_def by (simp split: position_event_type.splits)
  show "db_outcome (store_decision_cycle S now tid version cycle (db, c)) = db_outcome (store_decision_cycle S now tid version cycle (db, d))"
    unfolding store_decision_cycle_def Let_def prod.case outcome_cases by (simp only: db_outcome_simps)
  show "db_outcome (store_conversation S now topic r (db, c)) = db_outcome (store_conversation S now topic r (db, d))"
    unfolding store_conversation_def Let_def prod.case outcome_cases by (simp only: db_outcome_simps)
qed

subsection \<open>The caches stay within their bounds\<close>

text \<open>Everything that happens to the service: the records of the manager, the loading of the caches, the retry queue making an attempt at the oldest queued write, and lifetimes
  passing.\<close>

datatype engine_op =
  Position "trader option" time position_event | Cycle time string int "decision_cycle option" | Account time account_snapshot
| Analytics time analytics_snapshot | Conversation time string conversation_record | Hydrate time "string list" | RetryOne
| HashPasses string | KeyPasses string

definition engine_step :: "engine_service \<Rightarrow> (string \<Rightarrow> payload list option) \<Rightarrow> engine_op \<Rightarrow> engine_state \<Rightarrow> engine_state" where
  "engine_step S rd x st = (case x of
     Position tr now e \<Rightarrow> snd (record_position S tr now e st)
   | Cycle now tid v cy \<Rightarrow> snd (store_decision_cycle S now tid v cy st)
   | Account now s \<Rightarrow> (snd (store_account_snapshot S now s (fst st)), snd st)
   | Analytics now s \<Rightarrow> (fst st, store_analytics S now s (snd st))
   | Conversation now topic r \<Rightarrow> snd (store_conversation S now topic r st)
   | Hydrate now ids \<Rightarrow> snd (hydrate_caches S rd now ids st)
   | RetryOne \<Rightarrow> (fst st, case cs_pending (snd st) of [] \<Rightarrow> snd st
       | w # ws \<Rightarrow> snd (exec_write (ev_cache S) True w ((snd st)\<lparr>cs_pending := ws\<rparr>)))
   | HashPasses k \<Rightarrow> (fst st, hash_passes k (snd st)) | KeyPasses k \<Rightarrow> (fst st, key_passes k (snd st)))"

fun value_bounded :: "cache_value \<Rightarrow> bool" where
  "value_bounded (VTrades ts) \<longleftrightarrow> length ts \<le> recent_trades_limit"
| "value_bounded (VIds ids) \<longleftrightarrow> length ids \<le> conversations_cache_limit"
| "value_bounded _ \<longleftrightarrow> True"

fun write_bounded :: "cache_write \<Rightarrow> bool" where
  "write_bounded (HashSet k f t v) \<longleftrightarrow> value_bounded v"
| "write_bounded (KeySet k v t) \<longleftrightarrow> value_bounded v"
| "write_bounded _ \<longleftrightarrow> True"

definition caches_bounded :: "cache_service \<Rightarrow> cache_state \<Rightarrow> bool" where
  "caches_bounded E c \<longleftrightarrow> (\<forall>k v. lookup (cs_hashes c) k = Some v \<longrightarrow> value_bounded v) \<and>
     (\<forall>k v t. lookup (cs_keys c) k = Some (v, t) \<longrightarrow> value_bounded v) \<and> list_all write_bounded (cs_pending c) \<and> length (cs_pending c) \<le> sv_capacity E"

lemma cache_fault_same:
  assumes "cache_fault c = (x, d)"
  shows "cs_hashes d = cs_hashes c" "cs_keys d = cs_keys c" "cs_pending d = cs_pending c"
  using assms by (auto simp: cache_fault_def split: list.splits)

lemma bounded_fault: "cache_fault c = (x, d) \<Longrightarrow> caches_bounded E d = caches_bounded E c"
  by (simp only: caches_bounded_def cache_fault_same)

lemma bounded_failure: "caches_bounded E c \<Longrightarrow> write_bounded w \<Longrightarrow> caches_bounded E (handle_cache_failure E retry w er c)"
  by (simp add: handle_cache_failure_def caches_bounded_def)

lemma bounded_others:
  assumes "caches_bounded E c"
  shows "caches_bounded E (c\<lparr>cs_hashes := del h (cs_hashes c)\<rparr>)" "caches_bounded E (c\<lparr>cs_keys := del k (cs_keys c)\<rparr>)"
    "caches_bounded E (c\<lparr>cs_expiry := z\<rparr>)" "caches_bounded E (c\<lparr>cs_scores := y\<rparr>)"
  using assms by (simp_all add: caches_bounded_def)

lemma bounded_expire: "caches_bounded E c \<Longrightarrow> caches_bounded E (hash_expire E retry k t c)"
  by (auto simp: hash_expire_def Let_def dest: bounded_fault intro!: bounded_failure bounded_others split: prod.splits option.splits)

lemma bounded_set: "caches_bounded E c \<Longrightarrow> value_bounded v \<Longrightarrow> caches_bounded E (c\<lparr>cs_hashes := put k v (cs_hashes c)\<rparr>)"
  by (simp add: caches_bounded_def)

lemma bounded_put: "caches_bounded E c \<Longrightarrow> value_bounded v \<Longrightarrow> caches_bounded E (c\<lparr>cs_keys := put k (v, t) (cs_keys c)\<rparr>)"
  by (simp add: caches_bounded_def)

lemma bounded_exec: "caches_bounded E c \<Longrightarrow> write_bounded w \<Longrightarrow> caches_bounded E (snd (exec_write E retry w c))"
  by (cases w) (auto simp: exec_write_def hash_set_json_def hash_del_field_def bounded_set bounded_put bounded_others bounded_fault
      intro!: bounded_expire bounded_set split: prod.splits option.splits)

lemma bounded_run: "caches_bounded E c \<Longrightarrow> write_bounded w \<Longrightarrow> caches_bounded E (run_cache_write E w c)"
  using bounded_exec [of E c w False] by (auto simp: run_cache_write_def bounded_failure split: prod.splits option.splits)

lemma bounded_trader_cache:
  "caches_bounded E c \<Longrightarrow> pred_option value_bounded v \<Longrightarrow> caches_bounded E (write_trader_cache E h l t tid v c)"
  by (auto simp: write_trader_cache_def Let_def intro!: bounded_run split: option.splits)

lemma bounded_load: "load_value E h l tid c = (x, d) \<Longrightarrow> caches_bounded E d = caches_bounded E c"
  by (auto simp: load_value_def hash_get_json_def bounded_fault split: if_splits prod.splits option.splits)

lemma bounded_positions: "caches_bounded E c \<Longrightarrow> caches_bounded E (write_positions_cache E tid m c)"
  by (simp add: write_positions_cache_def bounded_trader_cache)

lemma bounded_trades: "caches_bounded E c \<Longrightarrow> length ts \<le> recent_trades_limit \<Longrightarrow> caches_bounded E (write_trades_cache E tid ts c)"
  by (simp add: write_trades_cache_def bounded_trader_cache)

lemma bounded_payloads:
  "caches_bounded E c \<Longrightarrow> caches_bounded E (write_analytics_cache E tid p c)"
  "caches_bounded E c \<Longrightarrow> caches_bounded E (write_since_inception_cache E tid p c)"
  by (simp_all add: write_analytics_cache_def write_since_inception_cache_def bounded_trader_cache)

lemma bounded_open_position: "caches_bounded E c \<Longrightarrow> caches_bounded E (cache_open_position E tid symbol x c)"
  by (auto simp: cache_open_position_def load_positions_cache_def Let_def bounded_load intro!: bounded_positions split: prod.splits sum.splits)

lemma bounded_trade: "caches_bounded E c \<Longrightarrow> caches_bounded E (append_recent_trade E tid x c)"
  by (auto simp: append_recent_trade_def load_trades_cache_def bounded_load intro!: bounded_trades split: prod.splits sum.splits)

lemma bounded_summary: "caches_bounded E c \<Longrightarrow> caches_bounded E (cache_decision_summary E now tid v cy c)"
  by (simp add: cache_decision_summary_def Let_def bounded_run)

lemma bounded_conversation: "caches_bounded E c \<Longrightarrow> caches_bounded E (cache_conversation_id E tid i c)"
  by (auto simp: cache_conversation_id_def Let_def bounded_fault intro!: bounded_run split: prod.splits option.splits)

lemma bounded_score: "caches_bounded E c \<Longrightarrow> caches_bounded E (cache_leaderboard_score E now tid x c)"
  by (simp add: cache_leaderboard_score_def Let_def bounded_run)

lemmas bounded_caches = bounded_positions bounded_trades bounded_payloads bounded_open_position bounded_trade bounded_summary
  bounded_conversation bounded_score

definition fits :: "engine_service \<Rightarrow> fault option \<times> engine_state \<Rightarrow> bool" where
  "fits S x \<longleftrightarrow> caches_bounded (ev_cache S) (snd (snd x))"

lemma fits_simp [simp]: "fits S (er, db, c) \<longleftrightarrow> caches_bounded (ev_cache S) c"
  by (simp add: fits_def)

lemmas fits_cases = sum.case_distrib [of "fits S" for S] prod.case_distrib [of "fits S" for S] option.case_distrib [of "fits S" for S] if_distrib [of "fits S" for S]

lemma case_True [simp]:
  "(case x of Inl a \<Rightarrow> True | Inr b \<Rightarrow> True)" "(case y of None \<Rightarrow> True | Some a \<Rightarrow> True)" "(case z of (a, b) \<Rightarrow> True)"
  by (simp_all split: sum.splits option.splits prod.splits)

lemma fits_open: "caches_bounded (ev_cache S) c \<Longrightarrow> fits S (handle_open_position S tr now m symbol e (db, c))"
  unfolding handle_open_position_def Let_def prod.case fits_cases fits_simp by (simp add: bounded_caches cong: sum.case_cong option.case_cong prod.case_cong)

lemma bounded_summary_trade:
  "caches_bounded E c \<Longrightarrow> caches_bounded E (case x of None \<Rightarrow> c | Some t \<Rightarrow> append_recent_trade E m t c)"
  by (simp add: bounded_caches split: option.splits)

lemma fits_close: "caches_bounded (ev_cache S) c \<Longrightarrow> fits S (handle_close_position S now m symbol e (db, c))"
  unfolding handle_close_position_def Let_def prod.case fits_cases fits_simp
  by (simp only: bounded_summary_trade bounded_caches case_True cong: sum.case_cong option.case_cong prod.case_cong)

lemma bounded_record_position:
  assumes "caches_bounded (ev_cache S) c" shows "caches_bounded (ev_cache S) (snd (snd (record_position S tr now e (db, c))))"
proof -
  have "fits S (record_position S tr now e (db, c))"
    using assms by (simp add: record_position_def Let_def fits_open fits_close split: position_event_type.split)
  then show ?thesis by (simp add: fits_def)
qed

lemma bounded_cycle: "caches_bounded (ev_cache S) c \<Longrightarrow> caches_bounded (ev_cache S) (snd (snd (store_decision_cycle S now tid v cy (db, c))))"
  by (auto simp: store_decision_cycle_def Let_def bounded_caches split: option.splits prod.splits)

lemma bounded_store_conversation:
  "caches_bounded (ev_cache S) c \<Longrightarrow> caches_bounded (ev_cache S) (snd (snd (store_conversation S now topic r (db, c))))"
  by (auto simp: store_conversation_def Let_def bounded_caches split: sum.splits prod.splits)

lemma bounded_analytics: "caches_bounded (ev_cache S) c \<Longrightarrow> caches_bounded (ev_cache S) (store_analytics S now s c)"
  by (simp add: store_analytics_def Let_def bounded_caches)

lemma bounded_hydrate_positions:
  "caches_bounded (ev_cache S) c \<Longrightarrow> caches_bounded (ev_cache S) (snd (snd (hydrate_positions S now ids (db, c))))"
proof -
  assume c: "caches_bounded (ev_cache S) c"
  have "caches_bounded (ev_cache S) (foldl (\<lambda>c (m, rows). write_positions_cache (ev_cache S) m (hydrated_positions now rows) c) c groups)" for groups
    using c by (induction groups arbitrary: c) (auto simp: bounded_positions split: prod.splits)
  then show ?thesis using c by (auto simp: hydrate_positions_def split: sum.splits prod.splits)
qed

lemma recent_by_model_limit: "recent_by_model m (int recent_trades_limit) db = (Inr rows, db1) \<Longrightarrow> length rows \<le> recent_trades_limit"
  by (auto simp: recent_by_model_def Let_def recent_trades_limit_def split: prod.splits option.splits)

lemma bounded_hydrate_trades: "caches_bounded (ev_cache S) c \<Longrightarrow> caches_bounded (ev_cache S) (snd (snd (hydrate_trades S ids (db, c))))"
  by (induction ids arbitrary: db c) (auto simp: bounded_trades recent_by_model_limit split: prod.splits sum.splits list.splits dest!: recent_by_model_limit)

lemma bounded_hydrate_cycles: "caches_bounded (ev_cache S) c \<Longrightarrow> caches_bounded (ev_cache S) (snd (snd (hydrate_cycles S rd now ids (db, c))))"
  by (induction ids arbitrary: db c) (auto simp: bounded_summary split: prod.splits option.splits)

lemma bounded_hydrate:
  assumes c: "caches_bounded (ev_cache S) c"
  shows "caches_bounded (ev_cache S) (snd (snd (hydrate_caches S rd now ids (db, c))))"
proof -
  let ?ids = "normalize_ids ids"
  obtain e1 db1 c1 where 1: "(if ev_positions S then hydrate_positions S now ?ids (db, c) else (None, db, c)) = (e1, db1, c1)" by (metis surj_pair)
  obtain e2 db2 c2 where 2: "(if ev_trades S then hydrate_trades S ?ids (db1, c1) else (None, db1, c1)) = (e2, db2, c2)" by (metis surj_pair)
  obtain e3 db3 c3 where 3: "(if ev_cycles S then hydrate_cycles S rd now ?ids (db2, c2) else (None, db2, c2)) = (e3, db3, c3)" by (metis surj_pair)
  have "caches_bounded (ev_cache S) c1" using bounded_hydrate_positions [OF c, of now ?ids db] 1 c by (simp split: if_splits)
  then have "caches_bounded (ev_cache S) c2" using bounded_hydrate_trades [of S c1 ?ids db1] 2 by (simp split: if_splits)
  then have "caches_bounded (ev_cache S) c3" using bounded_hydrate_cycles [of S c2 rd now ?ids db2] 3 by (simp split: if_splits)
  then show ?thesis using c by (simp add: hydrate_caches_def Let_def 1 2 3)
qed

lemma bounded_retry:
  assumes "caches_bounded E c" "cs_pending c = w # ws"
  shows "caches_bounded E (snd (exec_write E True w (c\<lparr>cs_pending := ws\<rparr>)))"
proof -
  have "caches_bounded E (c\<lparr>cs_pending := ws\<rparr>)" "write_bounded w" using assms by (simp_all add: caches_bounded_def)
  then show ?thesis by (rule bounded_exec)
qed

lemma lookup_kept: "lookup (filter (\<lambda>((k, f), v). k \<noteq> key) m) (k', f') = (if k' = key then None else lookup m (k', f'))"
  by (induction m) auto

lemma bounded_passes: "caches_bounded E c \<Longrightarrow> caches_bounded E (hash_passes k c)" "caches_bounded E c \<Longrightarrow> caches_bounded E (key_passes k c)"
  by (auto simp: caches_bounded_def hash_passes_def key_passes_def lookup_kept split: option.split if_splits)

text \<open>C30. The caches stay within their bounds: whatever is recorded, loaded or retried, and whichever lifetimes pass, a trader's cached trades are at most a hundred, its
  cached conversations at most twenty, and the queued writes at most what the queue holds.\<close>

theorem caches_stay_bounded:
  assumes "caches_bounded (ev_cache S) c"
  shows "caches_bounded (ev_cache S) (snd (foldl (\<lambda>st x. engine_step S rd x st) (db, c) ops))"
  using assms
proof (induction ops arbitrary: db c)
  case (Cons x ops)
  have "caches_bounded (ev_cache S) (snd (engine_step S rd x (db, c)))"
  proof (cases x)
    case RetryOne
    then show ?thesis using Cons.prems by (simp add: engine_step_def bounded_retry split: list.split)
  qed (simp_all add: engine_step_def Cons.prems bounded_record_position bounded_cycle bounded_store_conversation bounded_analytics bounded_hydrate bounded_passes)
  then show ?case using Cons.IH [of "snd (engine_step S rd x (db, c))" "fst (engine_step S rd x (db, c))"] by simp
qed simp

subsection \<open>A close books one trade\<close>

definition closing_pnl :: "position_row \<Rightarrow> f64 \<Rightarrow> f64 \<Rightarrow> f64" where
  "closing_pnl p price qty = (if equal_fold (pw_side p) ''short'' then lit (- 1) else lit 1) * (price - pd_price (pw_detail p)) * qty"

text \<open>The numbers a close writes can all be spelled in JSON.\<close>

definition close_spelled :: "position_row \<Rightarrow> position_event \<Rightarrow> bool" where
  "close_spelled p e \<longleftrightarrow> detail_ok ((pw_detail p)\<lparr>pd_close := None\<rparr>) \<and>
     list_all json_number [pe_fill_price e, pe_fill_size e, f64_of_int (dec_confidence (pe_decision e)), closing_pnl p (pe_fill_price e) (pe_fill_size e)]"

definition booked_trade :: "string \<Rightarrow> string \<Rightarrow> position_row \<Rightarrow> position_event \<Rightarrow> trade_row" where
  "booked_trade m symbol p e = (let d = pw_detail p; ms = unix_milli (pe_occurred_at e) in
     \<lparr>tx_id = build_trade_id m symbol (pe_occurred_at e), tx_trader_id = pw_trader_id p, tx_symbol = symbol, tx_side = pw_side p, tx_close_ts = ms,
      tx_detail = \<lparr>tt_open_ts = pd_time_ms d, tt_close_ts = ms,
        tt_duration_s = (if 0 < ms \<and> 0 < pd_time_ms d \<and> 0 < ms - pd_time_ms d then (ms - pd_time_ms d) div 1000 else 0),
        tt_entry = pd_price d, tt_exit = pe_fill_price e, tt_total = pe_fill_size e, tt_confidence = f64_of_int (dec_confidence (pe_decision e)),
        tt_leverage = pd_leverage d, tt_provider = trim_space (pd_provider d), tt_net = closing_pnl p (pe_fill_price e) (pe_fill_size e)\<rparr>\<rparr>)"

definition closed_detail :: "position_row \<Rightarrow> position_event \<Rightarrow> position_detail" where
  "closed_detail p e = (pw_detail p)\<lparr>pd_close := Some \<lparr>pl_price = pe_fill_price e, pl_time_ms = unix_milli (pe_occurred_at e), pl_quantity = pe_fill_size e,
     pl_pnl = closing_pnl p (pe_fill_price e) (pe_fill_size e)\<rparr>\<rparr>"

text \<open>C28. Closing a position books exactly one trade: when the position has a row and the close a fill, the row becomes closed, every other row stays,
  and one trade is added, whose net result is the signed difference of the prices times the filled size.\<close>

theorem close_books_trade:
  assumes wired: "ev_positions S" "ev_trades S" and db: "eg_faults db = []"
    and ev: "pe_event e = PositionClose" "\<not> is_zero_time (pe_occurred_at e)" "0 < pe_fill_price e" "0 < pe_fill_size e"
    and m: "m = normalized_model_id tr e" "symbol = to_upper (trim_space (dec_symbol (pe_decision e)))" "m \<noteq> ''''" "symbol \<noteq> ''''"
    and row: "find_position (position_id m symbol) db = Some p" "0 < pd_price (pw_detail p)" "close_spelled p e"
    and fresh: "build_trade_id m symbol (pe_occurred_at e) \<notin> set (map tx_id (eg_trades db))"
  shows "\<exists>c'. record_position S tr now e (db, c) =
    (None, db\<lparr>eg_positions := map (close_row (position_id m symbol) (closed_detail p e)) (eg_positions db),
       eg_trades := eg_trades db @ [booked_trade m symbol p e]\<rparr>, c')"
proof -
  have price: "effective_price e = pe_fill_price e" and qty: "effective_quantity e x = pe_fill_size e" for x
    using ev by (simp_all add: effective_price_def effective_quantity_def)
  have pos: "\<not> pe_fill_price e \<le> 0" "\<not> pe_fill_size e \<le> 0" using ev f64_le_not_less by blast+
  have pnl: "close_pnl (Some p) (pe_fill_price e) (pe_fill_size e) = Some (closing_pnl p (pe_fill_price e) (pe_fill_size e))"
    using ev row by (simp add: close_pnl_def closing_pnl_def Let_def pos)
  have nofault: "engine_fault d = (None, d)" if "eg_faults d = []" for d using that by (simp add: engine_fault_def)
  have detail: "update_position_detail_on_close (pw_detail p) \<lparr>pl_price = pe_fill_price e, pl_time_ms = unix_milli (pe_occurred_at e),
      pl_quantity = pe_fill_size e, pl_pnl = closing_pnl p (pe_fill_price e) (pe_fill_size e)\<rparr> = Inr (closed_detail p e)"
    using row by (simp add: update_position_detail_on_close_def closed_detail_def Let_def close_spelled_def detail_ok_def)
  let ?db = "db\<lparr>eg_positions := map (close_row (position_id m symbol) (closed_detail p e)) (eg_positions db)\<rparr>"
  have ins: "\<exists>s. insert_trade S (Some p) m symbol (pe_fill_price e) (pe_fill_size e) (Some (closing_pnl p (pe_fill_price e) (pe_fill_size e)))
      (pe_occurred_at e) e ?db = (Inr (Some s), ?db\<lparr>eg_trades := eg_trades db @ [booked_trade m symbol p e]\<rparr>)"
    using row fresh db by (simp add: insert_trade_def wired pos build_trade_detail_def Let_def close_spelled_def detail_ok_def nofault booked_trade_def)
  then obtain s where ins: "insert_trade S (Some p) m symbol (pe_fill_price e) (pe_fill_size e) (Some (closing_pnl p (pe_fill_price e) (pe_fill_size e)))
      (pe_occurred_at e) e ?db = (Inr (Some s), ?db\<lparr>eg_trades := eg_trades db @ [booked_trade m symbol p e]\<rparr>)" by blast
  have found: "find_existing_position S (position_id m symbol) db = (Inr (Some p), db)"
    using row db by (simp add: find_existing_position_def wired nofault)
  have "handle_close_position S now m symbol e (db, c) = (None, ?db\<lparr>eg_trades := eg_trades db @ [booked_trade m symbol p e]\<rparr>,
      append_recent_trade (ev_cache S) m s (cache_open_position (ev_cache S) m symbol None c))"
    unfolding handle_close_position_def prod.case found sum.case Let_def option.case price qty
    using pos ev by (simp add: pnl detail nofault db ins)
  then show ?thesis using m ev by (simp add: record_position_def Let_def)
qed

subsection \<open>The cached positions are the open rows\<close>

text \<open>What both sides say of the position of a trader in a symbol: its side, its quantity and its entry price.\<close>

definition open_view :: "string \<Rightarrow> engine_db \<Rightarrow> string \<Rightarrow> (string \<times> f64 \<times> f64) option" where
  "open_view tid db s = map_option (\<lambda>r. (pw_side r, pd_quantity (pw_detail r), pd_price (pw_detail r)))
     (find (\<lambda>r. pw_id r = position_id tid s \<and> pw_status r = ''open'') (eg_positions db))"

definition cached_positions :: "string \<Rightarrow> cache_state \<Rightarrow> (string, position_entry) gomap" where
  "cached_positions tid c = (case lookup (cs_hashes c) (trader_positions_hash_key, trader_hash_field tid) of Some (VPositions m) \<Rightarrow> m | _ \<Rightarrow> [])"

definition cached_view :: "string \<Rightarrow> cache_state \<Rightarrow> string \<Rightarrow> (string \<times> f64 \<times> f64) option" where
  "cached_view tid c s = map_option (\<lambda>e. (pc_side e, pc_quantity e, pc_entry_price e)) (lookup (cached_positions tid c) s)"

definition is_symbol :: "string \<Rightarrow> bool" where
  "is_symbol s \<longleftrightarrow> s \<noteq> '''' \<and> to_upper (trim_space s) = s"

definition mirrored :: "string \<Rightarrow> engine_state \<Rightarrow> bool" where
  "mirrored tid st \<longleftrightarrow> (\<forall>s. is_symbol s \<longrightarrow> cached_view tid (snd st) s = open_view tid (fst st) s)"

text \<open>The cache shows no position that is not open; it may not show all of them.\<close>

definition shown :: "string \<Rightarrow> engine_state \<Rightarrow> bool" where
  "shown tid st \<longleftrightarrow> (\<forall>s. is_symbol s \<longrightarrow> cached_view tid (snd st) s = None \<or> cached_view tid (snd st) s = open_view tid (fst st) s)"

text \<open>One step: of each symbol both sides say the same, or both say what they said before.\<close>

definition follows :: "string \<Rightarrow> engine_state \<Rightarrow> engine_state \<Rightarrow> bool" where
  "follows tid st st' \<longleftrightarrow> (\<forall>s. is_symbol s \<longrightarrow> cached_view tid (snd st') s = open_view tid (fst st') s \<or>
     (cached_view tid (snd st') s = cached_view tid (snd st) s \<and> open_view tid (fst st') s = open_view tid (fst st) s))"

lemma follows_keeps: "follows tid st st' \<Longrightarrow> shown tid st \<Longrightarrow> shown tid st'" "follows tid st st' \<Longrightarrow> mirrored tid st \<Longrightarrow> mirrored tid st'"
  "follows tid st st"
  unfolding follows_def shown_def mirrored_def by metis+

definition entry_spelled :: "position_entry \<Rightarrow> bool" where
  "entry_spelled e \<longleftrightarrow> list_all json_number [pc_quantity e, pc_entry_price e, pc_leverage e, pc_confidence e, pc_risk_usd e]"

text \<open>No fault is to come, the stored details can be spelled, and the cached entries too.\<close>

definition calm :: "string \<Rightarrow> engine_state \<Rightarrow> bool" where
  "calm tid st \<longleftrightarrow> eg_faults (fst st) = [] \<and> cs_faults (snd st) = [] \<and> list_all (\<lambda>r. detail_ok (pw_detail r)) (eg_positions (fst st)) \<and>
     list_all (\<lambda>(k, e). entry_spelled e) (cached_positions tid (snd st))"

lemma marshals_positions: "marshals (VPositions m) \<longleftrightarrow> list_all (\<lambda>(k, e). entry_spelled e) m"
  by (induction m) (auto simp: marshals_def entry_spelled_def)

lemma all_put: "list_all P m \<Longrightarrow> P (k, v) \<Longrightarrow> list_all P (put k v m)"
  by (induction m) auto

lemma all_del: "list_all P m \<Longrightarrow> list_all P (del k m)"
  by (auto simp: list_all_iff AList.delete_eq)

text \<open>What writing the positions of a trader leaves in the cache.\<close>

lemma write_positions_stores:
  assumes "sv_redis E" "trim_space (trader_hash_field tid) \<noteq> ''''" "cs_faults c = []" "list_all (\<lambda>(k, e). entry_spelled e) m"
  shows "cached_positions tid (write_positions_cache E tid m c) = m" "cs_faults (write_positions_cache E tid m c) = []"
    "trader_hash_field t \<noteq> trader_hash_field tid \<Longrightarrow> cached_positions t (write_positions_cache E tid m c) = cached_positions t c"
  using assms marshals_positions [of m]
  by (auto simp: write_positions_cache_def write_trader_cache_def Let_def run_cache_write_def exec_write_def hash_set_json_def
      hash_del_field_def cache_fault_def hash_expire_def miss_to_none_def cached_positions_def)

lemma load_positions_calm:
  "sv_redis E \<Longrightarrow> trim_space (trader_hash_field tid) \<noteq> '''' \<Longrightarrow> cs_faults c = [] \<Longrightarrow> load_positions_cache E tid c = (Inr (cached_positions tid c), c)"
  by (simp add: load_positions_cache_def load_value_def hash_get_json_def cache_fault_def cached_positions_def)

lemma run_elsewhere:
  assumes "cs_faults c = []" "k \<noteq> trader_positions_hash_key \<or> f \<noteq> trader_hash_field tid"
  shows "cached_positions tid (run_cache_write E (HashSet k f t v) c) = cached_positions tid c" "cs_faults (run_cache_write E (HashSet k f t v) c) = []"
    "cached_positions tid (run_cache_write E (HashDel k f) c) = cached_positions tid c" "cs_faults (run_cache_write E (HashDel k f) c) = []"
  using assms by (auto simp: run_cache_write_def exec_write_def hash_set_json_def hash_del_field_def hash_expire_def cache_fault_def Let_def
      handle_cache_failure_def cached_positions_def miss_to_none_def)

lemma trades_elsewhere:
  assumes "sv_redis E" "cs_faults c = []"
  shows "cached_positions tid (append_recent_trade E m x c) = cached_positions tid c" "cs_faults (append_recent_trade E m x c) = []"
proof -
  have k: "trader_trades_recent_hash_key \<noteq> trader_positions_hash_key" using hash_keys_distinct by auto
  have "\<exists>y. append_recent_trade E m x c = write_trades_cache E m y c \<or> append_recent_trade E m x c = c"
    using assms by (auto simp: append_recent_trade_def load_trades_cache_def load_value_def hash_get_json_def cache_fault_def)
  then show "cached_positions tid (append_recent_trade E m x c) = cached_positions tid c" "cs_faults (append_recent_trade E m x c) = []"
    using assms run_elsewhere [OF assms(2) disjI1 [OF k]]
    by (auto simp: write_trades_cache_def write_trader_cache_def Let_def)
qed

text \<open>The identifiers of the rows of a trader.\<close>

definition clean_trader :: "string \<Rightarrow> bool" where
  "clean_trader tid \<longleftrightarrow> tid \<noteq> '''' \<and> trim_space tid = tid \<and> CHR ''|'' \<notin> set tid"

lemma bar_split: "CHR ''|'' \<notin> set a \<Longrightarrow> CHR ''|'' \<notin> set b \<Longrightarrow> a @ ''|'' @ x = b @ ''|'' @ y \<Longrightarrow> a = b \<and> x = y"
  by (induction a arbitrary: b) (auto simp: Cons_eq_append_conv append_eq_Cons_conv)

lemma position_id_inj: "clean_trader tid \<Longrightarrow> is_symbol s \<Longrightarrow> is_symbol t \<Longrightarrow> position_id tid s = position_id tid t \<Longrightarrow> s = t"
  using bar_split [of tid tid s t] by (simp add: clean_trader_def is_symbol_def position_id_def)

lemma position_id_apart:
  assumes "clean_trader tid" "CHR ''|'' \<notin> set (trim_space m)" "trader_hash_field m \<noteq> trader_hash_field tid"
  shows "position_id m x \<noteq> position_id tid y"
proof
  assume "position_id m x = position_id tid y"
  then have "trim_space m = tid"
    using bar_split [of "trim_space m" tid "to_upper (trim_space x)" "to_upper (trim_space y)"] assms(1,2) by (simp add: position_id_def clean_trader_def)
  then show False using assms(1,3) by (simp add: trader_hash_field_def clean_trader_def)
qed

lemma hash_field_blank: "clean_trader tid \<Longrightarrow> trim_space (trader_hash_field tid) \<noteq> ''''"
  by (simp add: clean_trader_def trader_hash_field_def trim_to_lower)

lemma is_symbol_upper: "to_upper (trim_space s) \<noteq> '''' \<Longrightarrow> is_symbol (to_upper (trim_space s))"
  by (simp add: is_symbol_def trim_to_upper)

lemma find_upsert:
  "find (\<lambda>r. pw_id r = i \<and> pw_status r = ''open'') (upsert_position r rows) =
    (if pw_id r = i \<and> pw_status r = ''open'' then Some (case find (\<lambda>x. pw_id x = i) rows of None \<Rightarrow> r
       | Some x \<Rightarrow> x\<lparr>pw_side := pw_side r, pw_status := ''open'', pw_detail := pw_detail r\<rparr>)
     else find (\<lambda>r. pw_id r = i \<and> pw_status r = ''open'') rows)" if "pw_status r = ''open''"
  using that by (induction rows) auto

lemma find_close:
  "find (\<lambda>r. pw_id r = i \<and> pw_status r = ''open'') (map (close_row j d) rows) =
    (if i = j then None else find (\<lambda>r. pw_id r = i \<and> pw_status r = ''open'') rows)"
  by (induction rows) (auto simp: close_row_def)

lemma cache_open_position_calm:
  assumes E: "sv_redis E" and c: "cs_faults c = []" and m: "trim_space (trader_hash_field m) \<noteq> ''''" and s: "is_symbol s"
    and sp: "list_all (\<lambda>(k, e). entry_spelled e) (cached_positions m c)" "pred_option entry_spelled x"
  defines "e' e \<equiv> e\<lparr>pc_symbol := (if pc_symbol e = '''' then s else pc_symbol e), pc_exchange := trim_space (pc_exchange e)\<rparr>"
  defines "m' \<equiv> case x of None \<Rightarrow> del s (cached_positions m c) | Some e \<Rightarrow> put s (e' e) (cached_positions m c)"
  shows "cached_positions m (cache_open_position E m s x c) = m'" "cs_faults (cache_open_position E m s x c) = []"
    "list_all (\<lambda>(k, e). entry_spelled e) m'"
    "trader_hash_field t \<noteq> trader_hash_field m \<Longrightarrow> cached_positions t (cache_open_position E m s x c) = cached_positions t c"
proof -
  have sp': "list_all (\<lambda>(k, e). entry_spelled e) m'"
    using sp by (auto simp: m'_def e'_def entry_spelled_def intro!: all_put all_del split: option.splits)
  have "cache_open_position E m s x c = write_positions_cache E m m' c"
    using E c s load_positions_calm [OF E m c]
    by (simp add: cache_open_position_def is_symbol_def Let_def m'_def e'_def cong: option.case_cong)
  then show "cached_positions m (cache_open_position E m s x c) = m'" "cs_faults (cache_open_position E m s x c) = []"
      "trader_hash_field t \<noteq> trader_hash_field m \<Longrightarrow> cached_positions t (cache_open_position E m s x c) = cached_positions t c"
    using write_positions_stores [OF E m c sp'] by simp_all
  show "list_all (\<lambda>(k, e). entry_spelled e) m'" by (rule sp')
qed

text \<open>Opening writes the row and the entry, or fails before either.\<close>

lemma open_steps:
  assumes "eg_faults db = []"
  obtains (failed) "snd (handle_open_position S tr now m symbol e (db, c)) = (db, c)"
  | (opened) row en where "snd (handle_open_position S tr now m symbol e (db, c)) =
       (db\<lparr>eg_positions := upsert_position row (eg_positions db)\<rparr>, cache_open_position (ev_cache S) m symbol (Some en) c)"
     "detail_ok (pw_detail row)" "pw_status row = ''open''" "pw_id row = position_id m symbol" "entry_spelled en"
     "(pc_side en, pc_quantity en, pc_entry_price en) = (pw_side row, pd_quantity (pw_detail row), pd_price (pw_detail row))"
proof -
  let ?price = "effective_price e" and ?ts = "if is_zero_time (pe_occurred_at e) then now else pe_occurred_at e"
  let ?side = "if equal_fold (dec_action (pe_decision e)) ''open_short'' then ''short'' else ''long''"
  let ?d = "build_position_detail ?price (effective_quantity e ?price) (unix_milli ?ts) (f64_of_int (dec_leverage (pe_decision e)))
           (f64_of_int (dec_confidence (pe_decision e))) (dec_risk_usd (pe_decision e)) (trader_exchange tr)"
  have f: "engine_fault db = (None, db)" using assms by (simp add: engine_fault_def)
  show thesis
  proof (cases ?d)
    case (Inl er)
    then show thesis using failed by (simp add: handle_open_position_def Let_def)
  next
    case (Inr d)
    then have d: "detail_ok d" "pd_quantity d = effective_quantity e ?price" "pd_price d = ?price"
      "pd_leverage d = f64_of_int (dec_leverage (pe_decision e))" "pd_confidence d = f64_of_int (dec_confidence (pe_decision e))"
      "pd_risk_usd d = dec_risk_usd (pe_decision e)"
      by (auto simp: build_position_detail_def Let_def split: if_splits)
    show thesis
    proof (rule opened)
      show "snd (handle_open_position S tr now m symbol e (db, c)) =
         (db\<lparr>eg_positions := upsert_position \<lparr>pw_id = position_id m symbol, pw_trader_id = m, pw_symbol = symbol, pw_side = ?side, pw_status = ''open'',
           pw_detail = d\<rparr> (eg_positions db)\<rparr>,
          cache_open_position (ev_cache S) m symbol (Some (open_entry tr now symbol ?side ?price (effective_quantity e ?price) e)) c)"
        by (simp add: handle_open_position_def Let_def Inr f)
    qed (use d in \<open>simp_all add: entry_spelled_def open_entry_def detail_ok_def\<close>)
  qed
qed

text \<open>The identifier of the trade a close books.\<close>

definition close_trade_id :: "string \<Rightarrow> string \<Rightarrow> time \<Rightarrow> position_event \<Rightarrow> string" where
  "close_trade_id m symbol now e = build_trade_id m symbol (if is_zero_time (pe_occurred_at e) then now else pe_occurred_at e)"

text \<open>Closing updates the row and drops the entry, or fails before either, if the confidence can be spelled and the trade is a new one.\<close>

lemma close_steps:
  assumes "eg_faults db = []" "json_number (f64_of_int (dec_confidence (pe_decision e)))" "list_all (\<lambda>r. detail_ok (pw_detail r)) (eg_positions db)"
    "close_trade_id m symbol now e \<notin> set (map tx_id (eg_trades db))"
  obtains (failed) "snd (handle_close_position S now m symbol e (db, c)) = (db, c)"
  | (closed) d trades x where "snd (handle_close_position S now m symbol e (db, c)) =
       (db\<lparr>eg_positions := map (close_row (position_id m symbol) d) (eg_positions db), eg_trades := trades\<rparr>,
        case x of None \<Rightarrow> cache_open_position (ev_cache S) m symbol None c
        | Some t \<Rightarrow> append_recent_trade (ev_cache S) m t (cache_open_position (ev_cache S) m symbol None c))"
     "detail_ok d" "set (map tx_id trades) \<subseteq> insert (close_trade_id m symbol now e) (set (map tx_id (eg_trades db)))"
proof -
  have nofault: "engine_fault d = (None, d)" if "eg_faults d = []" for d using that by (simp add: engine_fault_def)
  obtain pos where found: "find_existing_position S (position_id m symbol) db = (Inr pos, db)"
    and ok: "pred_option (\<lambda>p. detail_ok (pw_detail p)) pos"
  proof (cases "ev_positions S")
    case True
    moreover have "pred_option (\<lambda>p. detail_ok (pw_detail p)) (find_position (position_id m symbol) db)"
      using assms(3) by (auto simp: option.pred_set find_position_def find_Some_iff list_all_length)
    ultimately show ?thesis using that assms(1) by (simp add: find_existing_position_def nofault)
  qed (simp add: find_existing_position_def that)
  define pd where "pd = (case pos of Some p \<Rightarrow> pw_detail p | None \<Rightarrow> zero_detail)"
  define price where "price = (if effective_price e \<le> 0 \<and> pos \<noteq> None \<and> 0 < pd_price pd then pd_price pd else effective_price e)"
  define ts where "ts = (if is_zero_time (pe_occurred_at e) then now else pe_occurred_at e)"
  define qty where "qty = (if effective_quantity e price \<le> 0 \<and> pos \<noteq> None \<and> 0 < pd_quantity pd then pd_quantity pd else effective_quantity e price)"
  define pnl where "pnl = close_pnl pos price qty"
  let ?c = "\<lparr>pl_price = price, pl_time_ms = unix_milli ts, pl_quantity = qty, pl_pnl = (case pnl of Some x \<Rightarrow> x | None \<Rightarrow> 0)\<rparr>"
  note defs = pd_def [symmetric] price_def [symmetric] ts_def [symmetric] qty_def [symmetric] pnl_def [symmetric]
  show thesis
  proof (cases "update_position_detail_on_close pd ?c")
    case (Inl er)
    then have "handle_close_position S now m symbol e (db, c) = (Some er, db, c)"
      unfolding handle_close_position_def prod.case found sum.case Let_def defs by simp
    then show thesis using failed by simp
  next
    case (Inr d)
    then have d: "detail_ok d" "json_number price" "json_number qty" "json_number (case pnl of Some x \<Rightarrow> x | None \<Rightarrow> 0)" "d = pd\<lparr>pd_close := Some ?c\<rparr>"
      by (auto simp: update_position_detail_on_close_def Let_def detail_ok_def split: if_splits)
    let ?db = "db\<lparr>eg_positions := map (close_row (position_id m symbol) d) (eg_positions db)\<rparr>"
    have "\<exists>x trades. insert_trade S pos m symbol price qty pnl ts e ?db = (Inr x, ?db\<lparr>eg_trades := trades\<rparr>) \<and>
        set (map tx_id trades) \<subseteq> insert (build_trade_id m symbol ts) (set (map tx_id (eg_trades db)))"
    proof (cases "pos = None \<or> \<not> ev_trades S")
      case True
      have "?db = ?db\<lparr>eg_trades := eg_trades db\<rparr>" by simp
      then show ?thesis using True by (cases pos) (auto simp: insert_trade_def intro!: exI [of _ "eg_trades db"])
    next
      case False
      then obtain p where p: "pos = Some p" by (cases pos) auto
      then have pp: "detail_ok (pw_detail p)" using ok by simp
      have same: "?db = ?db\<lparr>eg_trades := eg_trades db\<rparr>" by simp
      obtain td where td: "build_trade_detail (pd_price (pw_detail p)) price (pd_time_ms (pw_detail p)) (unix_milli ts)
          (if qty \<le> 0 then pd_quantity (pw_detail p) else qty) (f64_of_int (dec_confidence (pe_decision e))) (pd_leverage (pw_detail p))
          (pd_provider (pw_detail p)) (case pnl of Some x \<Rightarrow> x | None \<Rightarrow> 0) = Inr td"
        using pp d(2-4) assms(2) by (cases "qty \<le> 0") (simp_all add: build_trade_detail_def detail_ok_def Let_def)
      have u: "build_trade_id m symbol ts \<notin> tx_id ` set (eg_trades db)" using assms(4) by (simp add: close_trade_id_def ts_def)
      show ?thesis using False assms(1)
        unfolding insert_trade_def p option.case Let_def td sum.case by (simp add: nofault u) (rule exI, rule conjI, rule refl, auto)
    qed
    then obtain x trades where ins: "insert_trade S pos m symbol price qty pnl ts e ?db = (Inr x, ?db\<lparr>eg_trades := trades\<rparr>)"
      and ids: "set (map tx_id trades) \<subseteq> insert (build_trade_id m symbol ts) (set (map tx_id (eg_trades db)))" by blast
    from ins have "snd (handle_close_position S now m symbol e (db, c)) = (?db\<lparr>eg_trades := trades\<rparr>,
        case x of None \<Rightarrow> cache_open_position (ev_cache S) m symbol None c
        | Some t \<Rightarrow> append_recent_trade (ev_cache S) m t (cache_open_position (ev_cache S) m symbol None c))"
      unfolding handle_close_position_def prod.case found sum.case Let_def defs Inr using assms(1) by (simp add: nofault)
    then show thesis using closed d(1) ids by (simp add: close_trade_id_def ts_def)
  qed
qed

lemma open_view_status: "open_view tid (db\<lparr>eg_trades := x\<rparr>) = open_view tid db"
  by (simp add: open_view_def fun_eq_iff)

lemma find_same: "find P xs = Some x \<Longrightarrow> P x"
  by (auto simp: find_Some_iff)

lemma open_view_upsert:
  assumes "pw_status row = ''open''" "pw_id row = position_id m symbol"
  shows "open_view tid (db\<lparr>eg_positions := upsert_position row (eg_positions db)\<rparr>) s =
    (if position_id tid s = position_id m symbol then Some (pw_side row, pd_quantity (pw_detail row), pd_price (pw_detail row)) else open_view tid db s)"
  using assms by (auto simp: open_view_def find_upsert split: option.split)

lemma open_view_close:
  "open_view tid (db\<lparr>eg_positions := map (close_row (position_id m symbol) d) (eg_positions db)\<rparr>) s =
    (if position_id tid s = position_id m symbol then None else open_view tid db s)"
  by (auto simp: open_view_def find_close)

lemma upsert_ok: "list_all (\<lambda>r. detail_ok (pw_detail r)) rows \<Longrightarrow> detail_ok (pw_detail row) \<Longrightarrow> list_all (\<lambda>r. detail_ok (pw_detail r)) (upsert_position row rows)"
  by (induction rows) auto

lemma close_ok: "list_all (\<lambda>r. detail_ok (pw_detail r)) rows \<Longrightarrow> detail_ok d \<Longrightarrow> list_all (\<lambda>r. detail_ok (pw_detail r)) (map (close_row i d) rows)"
  by (induction rows) (auto simp: close_row_def)

text \<open>An event of the trader itself, or of one with another name.\<close>

definition separate :: "string \<Rightarrow> string \<Rightarrow> bool" where
  "separate tid m \<longleftrightarrow> m = tid \<or> (trader_hash_field m \<noteq> trader_hash_field tid \<and> trim_space (trader_hash_field m) \<noteq> '''' \<and> CHR ''|'' \<notin> set (trim_space m))"

lemma apart: "clean_trader tid \<Longrightarrow> separate tid m \<Longrightarrow> m \<noteq> tid \<Longrightarrow> position_id tid s \<noteq> position_id m symbol"
  using position_id_apart unfolding separate_def by metis

lemma open_position_elsewhere:
  assumes "sv_redis E" "cs_faults c = []" "trader_hash_field m \<noteq> trader_hash_field tid" "trim_space (trader_hash_field m) \<noteq> ''''"
  shows "cached_positions tid (cache_open_position E m s x c) = cached_positions tid c" "cs_faults (cache_open_position E m s x c) = []"
proof -
  have "\<exists>y. cache_open_position E m s x c = write_positions_cache E m y c \<or> cache_open_position E m s x c = c"
    using assms by (auto simp: cache_open_position_def load_positions_calm Let_def)
  then show "cached_positions tid (cache_open_position E m s x c) = cached_positions tid c" "cs_faults (cache_open_position E m s x c) = []"
    using assms run_elsewhere [OF assms(2) disjI2 [OF assms(3)]]
    by (auto simp: write_positions_cache_def write_trader_cache_def Let_def)
qed

text \<open>One change of the caches and the table: an entry put or dropped, and the row of the same identifier opened or closed.\<close>

lemma mirror_change:
  assumes E: "sv_redis E" and t: "clean_trader tid" "separate tid m" and s: "is_symbol symbol"
    and calm: "calm tid (db, c)"
    and x: "pred_option entry_spelled x"
    and db': "eg_faults db' = []" "list_all (\<lambda>r. detail_ok (pw_detail r)) (eg_positions db')"
      "\<And>s. open_view tid db' s = (if position_id tid s = position_id m symbol
         then map_option (\<lambda>e. (pc_side e, pc_quantity e, pc_entry_price e)) x else open_view tid db s)"
  shows "calm tid (db', cache_open_position E m symbol x c) \<and> follows tid (db, c) (db', cache_open_position E m symbol x c)"
proof (cases "m = tid")
  case True
  have c: "cs_faults c = []" "list_all (\<lambda>(k, e). entry_spelled e) (cached_positions m c)" using calm True by (simp_all add: calm_def)
  note o = cache_open_position_calm [OF E c(1) _ s c(2) x] 
  have f: "trim_space (trader_hash_field m) \<noteq> ''''" using t True by (simp add: hash_field_blank)
  have id: "position_id tid s = position_id m symbol \<longleftrightarrow> s = symbol" if "is_symbol s" for s
    using position_id_inj [OF t(1) that s] True by auto
  have "cached_view tid (cache_open_position E m symbol x c) s =
      (if s = symbol then map_option (\<lambda>e. (pc_side e, pc_quantity e, pc_entry_price e)) x else cached_view tid c s)" for s
    using o(1) [OF f] True by (cases x) (simp_all add: cached_view_def)
  then show ?thesis using o(2,3) [OF f] o(1) [OF f] True db' id by (simp add: calm_def follows_def)
next
  case False
  then have f: "trader_hash_field m \<noteq> trader_hash_field tid" "trim_space (trader_hash_field m) \<noteq> ''''" using t by (auto simp: separate_def)
  have c: "cs_faults c = []" using calm by (simp add: calm_def)
  note o = open_position_elsewhere [OF E c f]
  show ?thesis using o calm db' apart [OF t False] by (simp add: calm_def follows_def cached_view_def)
qed

lemma mirror_more_trades:
  assumes "sv_redis E" "calm tid (db, c) \<and> follows tid st (db, c)"
  shows "calm tid (db, case x of None \<Rightarrow> c | Some t \<Rightarrow> append_recent_trade E m t c) \<and> follows tid st (db, case x of None \<Rightarrow> c | Some t \<Rightarrow> append_recent_trade E m t c)"
  using assms by (simp add: calm_def follows_def cached_view_def trades_elsewhere split: option.split)

text \<open>The trade a step may book.\<close>

definition booked_ids :: "engine_op \<Rightarrow> string list" where
  "booked_ids x = (case x of Position tr now e \<Rightarrow> if pe_event e = PositionClose
     then [close_trade_id (normalized_model_id tr e) (to_upper (trim_space (dec_symbol (pe_decision e)))) now e] else [] | _ \<Rightarrow> [])"

definition trade_ids :: "engine_db \<Rightarrow> string set" where
  "trade_ids db = set (map tx_id (eg_trades db))"

lemma mirror_step:
  assumes E: "sv_redis (ev_cache S)" and t: "clean_trader tid" "separate tid (normalized_model_id tr e)"
    and e: "json_number (f64_of_int (dec_confidence (pe_decision e)))"
    and inv: "calm tid (db, c)" and fresh: "set (booked_ids (Position tr now e)) \<inter> trade_ids db = {}"
  defines "st' \<equiv> snd (record_position S tr now e (db, c))"
  shows "calm tid st' \<and> follows tid (db, c) st' \<and> trade_ids (fst st') \<subseteq> set (booked_ids (Position tr now e)) \<union> trade_ids db"
proof -
  define m symbol where "m = normalized_model_id tr e" and "symbol = to_upper (trim_space (dec_symbol (pe_decision e)))"
  note ms = m_def [symmetric] symbol_def [symmetric]
  have db: "eg_faults db = []" "list_all (\<lambda>r. detail_ok (pw_detail r)) (eg_positions db)" using inv by (simp_all add: calm_def)
  have stay: "calm tid (db, c) \<and> follows tid (db, c) (db, c) \<and> trade_ids (fst (db, c)) \<subseteq> B \<union> trade_ids db" for B
    using inv follows_keeps(3) by simp
  show ?thesis
  proof (cases "m = '''' \<or> symbol = ''''")
    case True
    then show ?thesis using stay by (simp add: st'_def record_position_def Let_def ms)
  next
    case False
    then have s: "is_symbol symbol" unfolding symbol_def by (intro is_symbol_upper) simp
    have sep: "separate tid m" using t by (simp add: m_def)
    show ?thesis
    proof (cases "pe_event e")
      case PositionOpen
      then have r: "st' = snd (handle_open_position S tr now m symbol e (db, c))"
        using False by (simp add: st'_def record_position_def Let_def ms)
      show ?thesis using db(1)
      proof (cases rule: open_steps [where S = S and tr = tr and now = now and m = m and symbol = symbol and e = e and c = c])
        case failed
        then show ?thesis using stay r by simp
      next
        case (opened row en)
        have "calm tid st' \<and> follows tid (db, c) st'" unfolding r opened(1)
          by (rule mirror_change [OF E t(1) sep s inv]) (use opened(2-6) db in \<open>simp_all add: open_view_upsert upsert_ok\<close>)
        then show ?thesis using r opened(1) by (simp add: trade_ids_def)
      qed
    next
      case PositionClose
      then have r: "st' = snd (handle_close_position S now m symbol e (db, c))"
        using False by (simp add: st'_def record_position_def Let_def ms)
      have b: "booked_ids (Position tr now e) = [close_trade_id m symbol now e]" using PositionClose by (simp add: booked_ids_def ms)
      then have "close_trade_id m symbol now e \<notin> set (map tx_id (eg_trades db))" using fresh by (simp add: trade_ids_def)
      with db(1) e db(2) show ?thesis
      proof (cases rule: close_steps [where S = S and now = now and m = m and symbol = symbol and c = c])
        case failed
        then show ?thesis using stay r by simp
      next
        case (closed d trades x)
        have "calm tid st' \<and> follows tid (db, c) st'" unfolding r closed(1)
          by (rule mirror_more_trades [OF E], rule mirror_change [OF E t(1) sep s inv])
            (use closed(2) db in \<open>simp_all add: open_view_close open_view_status close_ok\<close>)
        then show ?thesis using r closed(1,3) b by (simp add: trade_ids_def)
      qed
    qed
  qed
qed

text \<open>A history of position events and of lifetimes that pass; the trades its closes book are all new.\<close>

definition op_fits :: "string \<Rightarrow> engine_op \<Rightarrow> bool" where
  "op_fits tid x = (case x of
     Position tr now e \<Rightarrow> separate tid (normalized_model_id tr e) \<and> json_number (f64_of_int (dec_confidence (pe_decision e)))
   | HashPasses k \<Rightarrow> True | KeyPasses k \<Rightarrow> True | _ \<Rightarrow> False)"

definition new_trades :: "engine_db \<Rightarrow> engine_op list \<Rightarrow> bool" where
  "new_trades db ops \<longleftrightarrow> distinct (concat (map booked_ids ops)) \<and> set (concat (map booked_ids ops)) \<inter> trade_ids db = {}"

lemma passes_positions:
  "cached_positions tid (hash_passes k c) = cached_positions tid c \<or> k = trader_positions_hash_key \<and> cached_positions tid (hash_passes k c) = []"
  "cached_positions tid (key_passes k c) = cached_positions tid c" "cs_faults (hash_passes k c) = cs_faults c" "cs_faults (key_passes k c) = cs_faults c"
  by (auto simp: cached_positions_def hash_passes_def key_passes_def lookup_kept split: option.split)

text \<open>One step of such a history.\<close>

lemma history_step:
  fixes rd :: "string \<Rightarrow> payload list option"
  assumes "sv_redis (ev_cache S)" "clean_trader tid" "op_fits tid x" "set (booked_ids x) \<inter> trade_ids (fst st) = {}" "calm tid st" "shown tid st"
  defines "st' \<equiv> engine_step S rd x st"
  shows "calm tid st' \<and> shown tid st' \<and> (mirrored tid st \<and> x \<noteq> HashPasses trader_positions_hash_key \<longrightarrow> mirrored tid st') \<and>
    trade_ids (fst st') \<subseteq> set (booked_ids x) \<union> trade_ids (fst st)"
proof -
  obtain db c where st: "st = (db, c)" by (cases st)
  show ?thesis
  proof (cases x)
    case (Position tr now e)
    then have "calm tid st' \<and> follows tid (db, c) st' \<and> trade_ids (fst st') \<subseteq> set (booked_ids x) \<union> trade_ids db"
      using mirror_step [OF assms(1,2), of tr e db c now] assms(3-5) by (simp add: st'_def st engine_step_def op_fits_def)
    then show ?thesis using follows_keeps(1,2) [of tid "(db, c)" st'] assms(6) st by simp
  next
    case (HashPasses k)
    then have st': "st' = (db, hash_passes k c)" by (simp add: st'_def st engine_step_def)
    show ?thesis
      using passes_positions(1) [of tid k c] assms(5,6)
      by (auto simp: st' st HashPasses calm_def shown_def mirrored_def cached_view_def passes_positions(3))
  next
    case (KeyPasses k)
    then have st': "st' = (db, key_passes k c)" by (simp add: st'_def st engine_step_def)
    show ?thesis using assms(5,6) by (simp add: st' st KeyPasses calm_def shown_def mirrored_def cached_view_def passes_positions)
  qed (use assms(3) in \<open>simp_all add: op_fits_def\<close>)
qed

text \<open>C29. The cache refines the table. Without faults, and with Redis wired, after any sequence of position events and of lifetimes passing, a position
  cached for a trader is an open row with the same side, quantity and entry price; and when the lifetime of the hash of positions has not passed in
  between, the cached positions are all the open rows. The names of the traders must differ in more than their case, since the hash ignores it, and have
  no bar, which the identifiers of the rows are made with; and no close may book a trade whose identifier is in use, for then the row is closed and
  the cached position stays.\<close>

theorem cached_positions_refine_rows:
  assumes "sv_redis (ev_cache S)" "clean_trader tid" "list_all (op_fits tid) ops" "new_trades db ops" "calm tid (db, c)" "shown tid (db, c)"
  shows "shown tid (foldl (\<lambda>st x. engine_step S rd x st) (db, c) ops) \<and>
    (mirrored tid (db, c) \<and> HashPasses trader_positions_hash_key \<notin> set ops \<longrightarrow> mirrored tid (foldl (\<lambda>st x. engine_step S rd x st) (db, c) ops))"
proof -
  have "list_all (op_fits tid) ops \<Longrightarrow> new_trades (fst st) ops \<Longrightarrow> calm tid st \<Longrightarrow> shown tid st \<Longrightarrow>
    shown tid (foldl (\<lambda>st x. engine_step S rd x st) st ops) \<and> (mirrored tid st \<and> HashPasses trader_positions_hash_key \<notin> set ops \<longrightarrow>
      mirrored tid (foldl (\<lambda>st x. engine_step S rd x st) st ops))" for st
  proof (induction ops arbitrary: st)
    case (Cons x ops)
    have "set (booked_ids x) \<inter> trade_ids (fst st) = {}" using Cons.prems(2) by (auto simp: new_trades_def)
    then have h: "calm tid (engine_step S rd x st)" "shown tid (engine_step S rd x st)"
      "mirrored tid st \<and> x \<noteq> HashPasses trader_positions_hash_key \<longrightarrow> mirrored tid (engine_step S rd x st)"
      "trade_ids (fst (engine_step S rd x st)) \<subseteq> set (booked_ids x) \<union> trade_ids (fst st)"
      using history_step [OF assms(1,2), of x st rd] Cons.prems by simp_all
    have "new_trades (fst (engine_step S rd x st)) ops"
      using Cons.prems(2) h(4) unfolding new_trades_def by auto
    then show ?case using Cons.IH [of "engine_step S rd x st"] Cons.prems(1) h(1-3) by auto
  qed simp
  from this [of "(db, c)"] show ?thesis using assms(3-6) by simp
qed

subsection \<open>Examples\<close>

definition demo_engine :: engine_service where
  "demo_engine = \<lparr>ev_cache = \<lparr>sv_redis = True, sv_cache = True, sv_queue = True, sv_capacity = 4, sv_ttl = new_ttl_set 0 0 0\<rparr>,
     ev_positions = True, ev_trades = True, ev_snapshots = True, ev_cycles = True, ev_conversations = True\<rparr>"

definition empty_engine :: engine_db where
  "empty_engine = \<lparr>eg_positions = [], eg_trades = [], eg_snapshots = [], eg_cycles = [], eg_conversations = [], eg_messages = [],
     eg_next_conversation = 1, eg_audit = empty_audit, eg_faults = []\<rparr>"

definition empty_caches :: cache_state where
  "empty_caches = \<lparr>cs_hashes = [], cs_expiry = [], cs_keys = [], cs_scores = [], cs_faults = [], cs_pending = []\<rparr>"

definition demo_event :: "position_event_type \<Rightarrow> rat \<Rightarrow> position_event" where
  "demo_event ty px = \<lparr>pe_trader_id = ''alpha'', pe_decision = \<lparr>dec_symbol = '' btc'',
       dec_action = (case ty of PositionOpen \<Rightarrow> ''open_short'' | PositionClose \<Rightarrow> ''close_short''), dec_leverage = 2, dec_position_size = Fin 200,
       dec_entry_price = Fin 0, dec_stop_loss = Fin 0, dec_take_profit = Fin 0, dec_confidence = 80, dec_risk_usd = Fin 5, dec_reasoning = '''',
       dec_invalidation = ''''\<rparr>,
     pe_event = ty, pe_response = None, pe_occurred_at = 5 * second, pe_fill_price = Fin px, pe_fill_size = Fin 2\<rparr>"

definition opened_engine :: engine_state where
  "opened_engine = snd (record_position demo_engine None 7 (demo_event PositionOpen 100) (empty_engine, empty_caches))"

definition demo_row :: position_row where
  "demo_row = hd (eg_positions (fst opened_engine))"

theorem close_books_trade_witness:
  "\<exists>c'. record_position demo_engine None 7 (demo_event PositionClose 90) opened_engine =
    (None, (fst opened_engine)\<lparr>eg_positions := map (close_row ''alpha|BTC'' (closed_detail demo_row (demo_event PositionClose 90))) (eg_positions (fst opened_engine)),
       eg_trades := eg_trades (fst opened_engine) @ [booked_trade ''alpha'' ''BTC'' demo_row (demo_event PositionClose 90)]\<rparr>, c')"
proof -
  have 1: "ev_positions demo_engine \<and> ev_trades demo_engine \<and> eg_faults (fst opened_engine) = [] \<and> pe_event (demo_event PositionClose 90) = PositionClose \<and>
      \<not> is_zero_time (pe_occurred_at (demo_event PositionClose 90)) \<and> 0 < pe_fill_price (demo_event PositionClose 90) \<and>
      0 < pe_fill_size (demo_event PositionClose 90) \<and> ''alpha'' = normalized_model_id None (demo_event PositionClose 90) \<and>
      ''BTC'' = to_upper (trim_space (dec_symbol (pe_decision (demo_event PositionClose 90))))" by code_simp
  have 2: "find_position (position_id ''alpha'' ''BTC'') (fst opened_engine) = Some demo_row \<and> 0 < pd_price (pw_detail demo_row) \<and>
      close_spelled demo_row (demo_event PositionClose 90) \<and>
      build_trade_id ''alpha'' ''BTC'' (pe_occurred_at (demo_event PositionClose 90)) \<notin> set (map tx_id (eg_trades (fst opened_engine)))" by code_simp
  have pid: "position_id ''alpha'' ''BTC'' = ''alpha|BTC''" by code_simp
  have "\<exists>c'. record_position demo_engine None 7 (demo_event PositionClose 90) (fst opened_engine, snd opened_engine) =
    (None, (fst opened_engine)\<lparr>eg_positions := map (close_row (position_id ''alpha'' ''BTC'') (closed_detail demo_row (demo_event PositionClose 90)))
         (eg_positions (fst opened_engine)),
       eg_trades := eg_trades (fst opened_engine) @ [booked_trade ''alpha'' ''BTC'' demo_row (demo_event PositionClose 90)]\<rparr>, c')"
    by (rule close_books_trade) (insert 1 2, blast+)
  then show ?thesis by (simp only: pid prod.collapse)
qed

text \<open>The short of the example, opened at 100 and closed at 90 with a size of 2, books a gain of 20.\<close>

lemma demo_gain: "tt_net (tx_detail (booked_trade ''alpha'' ''BTC'' demo_row (demo_event PositionClose 90))) = Fin 20"
  by code_simp

theorem caches_stay_bounded_witness:
  "caches_bounded (ev_cache demo_engine) (snd (foldl (\<lambda>st x. engine_step demo_engine (\<lambda>s. None) x st) (empty_engine, empty_caches)
     [Position None 7 (demo_event PositionOpen 100), Hydrate 8 [''alpha''], RetryOne]))"
proof -
  have "caches_bounded (ev_cache demo_engine) empty_caches" by (simp add: caches_bounded_def empty_caches_def)
  then show ?thesis by (rule caches_stay_bounded)
qed

lemma positions_hash_name: "HashPasses trader_positions_hash_key \<noteq> HashPasses trader_trades_recent_hash_key"
  using hash_keys_distinct by auto

theorem cached_positions_refine_rows_witness:
  "shown ''alpha'' (foldl (\<lambda>st x. engine_step demo_engine (\<lambda>s. None) x st) (empty_engine, empty_caches)
     [Position None 7 (demo_event PositionOpen 100), HashPasses trader_positions_hash_key, Position None 9 (demo_event PositionClose 90)]) \<and>
   mirrored ''alpha'' (foldl (\<lambda>st x. engine_step demo_engine (\<lambda>s. None) x st) (empty_engine, empty_caches)
     [Position None 7 (demo_event PositionOpen 100), HashPasses trader_trades_recent_hash_key, Position None 9 (demo_event PositionClose 90)])"
proof -
  have m: "mirrored ''alpha'' (empty_engine, empty_caches)" "shown ''alpha'' (empty_engine, empty_caches)"
    by (simp_all add: mirrored_def shown_def cached_view_def cached_positions_def open_view_def empty_engine_def empty_caches_def)
  have e: "calm ''alpha'' (empty_engine, empty_caches)" "sv_redis (ev_cache demo_engine)" "clean_trader ''alpha''" by code_simp+
  have h: "list_all (op_fits ''alpha'') [Position None 7 (demo_event PositionOpen 100), HashPasses k, Position None 9 (demo_event PositionClose 90)]" for k
    by (simp add: op_fits_def) code_simp
  have n: "new_trades empty_engine [Position None 7 (demo_event PositionOpen 100), HashPasses k, Position None 9 (demo_event PositionClose 90)]" for k
    by (simp add: new_trades_def booked_ids_def trade_ids_def empty_engine_def demo_event_def)
  show ?thesis
    using cached_positions_refine_rows [OF e(2,3) h n e(1) m(2)] m(1) positions_hash_name by auto
qed

text \<open>
  Once the hash has expired, thirty seconds after the last write by default, an open caches its own symbol only: the position opened before is still a
  row, and no longer cached.
\<close>

definition demo_open :: "string \<Rightarrow> position_event" where
  "demo_open symbol = (let e = demo_event PositionOpen 100 in e\<lparr>pe_decision := (pe_decision e)\<lparr>dec_symbol := symbol\<rparr>\<rparr>)"

definition after_expiry :: engine_state where
  "after_expiry = foldl (\<lambda>st x. engine_step demo_engine (\<lambda>s. None) x st) (empty_engine, empty_caches)
     [Position None 7 (demo_open ''BTC''), HashPasses trader_positions_hash_key, Position None 9 (demo_open ''ETH'')]"

lemma expiry_hides_positions:
  "cached_view ''alpha'' (snd after_expiry) ''ETH'' = open_view ''alpha'' (fst after_expiry) ''ETH'' \<and>
   open_view ''alpha'' (fst after_expiry) ''BTC'' = Some (''short'', Fin 2, Fin 100) \<and> cached_view ''alpha'' (snd after_expiry) ''BTC'' = None"
  by code_simp

lemma default_positions_lifetime: "duration_to_seconds (ttl_duration (positions_ttl (new_ttl_set 0 0 0))) = 30"
  by code_simp

text \<open>
  A second close of a position within the nanosecond of the first has the identifier of the trade that is there: the insert fails, the error is not
  recognised, and the close reports it with the row closed and the position still cached.
\<close>

definition repeated_close :: "fault option \<times> engine_state" where
  "repeated_close = record_position demo_engine None 11 (demo_event PositionClose 90)
     (foldl (\<lambda>st x. engine_step demo_engine (\<lambda>s. None) x st) (empty_engine, empty_caches)
       [Position None 7 (demo_event PositionOpen 100), Position None 9 (demo_event PositionClose 90), Position None 10 (demo_event PositionOpen 100)])"

lemma repeated_close_fails:
  "fst repeated_close = Some unique_violation \<and> open_view ''alpha'' (fst (snd repeated_close)) ''BTC'' = None \<and>
   cached_view ''alpha'' (snd (snd repeated_close)) ''BTC'' = Some (''short'', Fin 2, Fin 100)"
  by code_simp

text \<open>A second snapshot of an account within a millisecond is an error for the same reason: the update meant for it is not reached.\<close>

lemma repeated_snapshot_fails:
  assumes "ev_snapshots S" "sn_trader_id s \<noteq> ''''" "eg_faults db = []" "list_ex (same_snapshot (snapshot_row_of now s)) (eg_snapshots db)"
  shows "store_account_snapshot S now s db = (Some unique_violation, db)"
  using assms by (simp add: store_account_snapshot_def engine_fault_def Let_def unique_violation_def plain_fault_def)

text \<open>With faults the two sides part: a write of the cache that is retried late puts a position back that was closed in the meantime.\<close>

definition late_retry :: engine_state where
  "late_retry = foldl (\<lambda>st x. engine_step demo_engine (\<lambda>s. None) x st)
     (empty_engine, empty_caches\<lparr>cs_faults := [None, Some ((plain_fault ''i/o timeout'')\<lparr>ft_timeout := True\<rparr>)]\<rparr>)
     [Position None 7 (demo_event PositionOpen 100), Position None 9 (demo_event PositionClose 90), RetryOne]"

lemma late_retry_resurrects: "open_view ''alpha'' (fst late_retry) ''BTC'' = None \<and> cached_view ''alpha'' (snd late_retry) ''BTC'' = Some (''short'', Fin 2, Fin 100)"
  by code_simp

text \<open>Loading the caches at start finds nothing for a trader whose name is not in upper case.\<close>

lemma hydration_misses_lower_case:
  "snd (hydrate_caches demo_engine (\<lambda>s. None) 9 [''alpha''] (fst opened_engine, empty_caches)) = (fst opened_engine, empty_caches) \<and>
   open_view ''alpha'' (fst opened_engine) ''BTC'' = Some (''short'', Fin 2, Fin 100)"
  by code_simp

text \<open>A close whose trade cannot be inserted leaves the row closed, the trade lost and the cache as it was.\<close>

definition lost_trade :: "fault option \<times> engine_state" where
  "lost_trade = record_position demo_engine None 9 (demo_event PositionClose 90)
     ((fst opened_engine)\<lparr>eg_faults := [None, None, Some (plain_fault ''connection lost'')]\<rparr>, snd opened_engine)"

lemma failed_trade_is_lost:
  "fst lost_trade \<noteq> None \<and> eg_trades (fst (snd lost_trade)) = [] \<and> open_view ''alpha'' (fst (snd lost_trade)) ''BTC'' = None \<and>
   cached_view ''alpha'' (snd (snd lost_trade)) ''BTC'' = Some (''short'', Fin 2, Fin 100)"
  by code_simp

end
