(* ===== verification/TradingViews.thy ===== *)
theory TradingViews
  imports TradingApi
begin

text \<open>
  The read models of the API (\<open>internal/logic/tradingcontractlogic.go\<close>): pages, the status of a trader, the audit trail, the orders derived from it,
  and the preview of orders. None of them changes anything; the clock is read through \<open>now\<close>.

  Shown: following \<open>next_offset\<close> visits every item once, a preview is accepted exactly when its trader and all its orders pass, a trader
  whose runtime row blocks it is never reported running, and every order of the orders page comes from an audit event of the kind and
  trader asked for, newest first.
\<close>

subsection \<open>Pages\<close>

record list_meta =
  lm_limit :: int
  lm_offset :: int
  lm_count :: int
  lm_next_offset :: int
  lm_source :: string

definition normalize_limit_offset :: "int \<Rightarrow> int \<Rightarrow> int \<Rightarrow> int \<times> int" where
  "normalize_limit_offset limit offset dflt =
    (let d = (if dflt \<le> 0 then 100 else dflt); l = (if limit \<le> 0 then d else limit)
     in (if 500 < l then 500 else l, if offset < 0 then 0 else offset))"

definition list_meta_of :: "int \<Rightarrow> int \<Rightarrow> int \<Rightarrow> int \<Rightarrow> string \<Rightarrow> list_meta" where
  "list_meta_of limit offset cnt seen source = \<lparr>lm_limit = limit, lm_offset = offset, lm_count = cnt,
     lm_next_offset = (if 0 < cnt \<and> offset + cnt < seen then offset + cnt else 0), lm_source = source\<rparr>"

definition paginate :: "'a list \<Rightarrow> int \<Rightarrow> int \<Rightarrow> 'a list" where
  "paginate items limit offset =
    (if int (length items) \<le> offset then []
     else let finish = (if int (length items) < offset + limit then int (length items) else offset + limit)
       in drop (nat offset) (take (nat finish) items))"

text \<open>A client that asks for a page and then for the page at \<open>next_offset\<close>, until there is none.\<close>

function follow_pages :: "'a list \<Rightarrow> int \<Rightarrow> int \<Rightarrow> 'a list list" where
  "follow_pages items limit0 offset0 =
    (case normalize_limit_offset limit0 offset0 100 of (limit, offset) \<Rightarrow>
       let page = paginate items limit offset; meta = list_meta_of limit offset (int (length page)) (int (length items)) ''''
       in page # (if lm_next_offset meta = 0 then [] else follow_pages items limit0 (lm_next_offset meta)))"
  by pat_completeness auto
termination
proof (relation "measure (\<lambda>(items, limit, offset). nat (int (length items) - (if offset < 0 then 0 else offset)))")
  fix items :: "'a list" and limit0 offset0 limit offset page meta
  assume "(limit, offset) = normalize_limit_offset limit0 offset0 100"
    "meta = list_meta_of limit offset (int (length (page :: 'a list))) (int (length items)) ''''" "lm_next_offset meta \<noteq> 0"
  then show "((items, limit0, lm_next_offset meta), (items, limit0, offset0)) \<in>
      measure (\<lambda>(items, limit, offset). nat (int (length items) - (if offset < 0 then 0 else offset)))"
    by (auto simp: list_meta_of_def normalize_limit_offset_def Let_def split: if_splits)
qed simp

declare follow_pages.simps [simp del]

lemma normalize_limit_bounds:
  "normalize_limit_offset limit0 offset0 d = (limit, offset) \<Longrightarrow> 0 < limit \<and> limit \<le> 500 \<and> 0 \<le> offset"
  by (auto simp: normalize_limit_offset_def Let_def split: if_splits)

lemma paginate_take:
  assumes "0 \<le> offset" "0 \<le> limit"
  shows "paginate items limit offset = take (nat limit) (drop (nat offset) items)"
proof -
  have "nat (offset + limit) = nat offset + nat limit" using assms by simp
  then show ?thesis using assms by (auto simp: paginate_def Let_def drop_take take_all)
qed

text \<open>Pagination loses and repeats nothing: a client that starts at an offset and follows \<open>next_offset\<close> gets, in order, exactly the items from
  that offset on, on pages of at most 500; this also says that it comes to an end, whatever limit it asks for.\<close>

theorem pages_cover:
  "concat (follow_pages items limit offset) = drop (nat offset) items \<and> list_all (\<lambda>p. length p \<le> 500) (follow_pages items limit offset)"
proof (induction items limit offset rule: follow_pages.induct)
  case (1 items limit0 offset0)
  obtain limit offset where n: "normalize_limit_offset limit0 offset0 100 = (limit, offset)" by fastforce
  note b = normalize_limit_bounds [OF n]
  have off: "nat offset0 = nat offset" using n by (auto simp: normalize_limit_offset_def Let_def split: if_splits)
  let ?page = "paginate items limit offset"
  let ?meta = "list_meta_of limit offset (int (length ?page)) (int (length items)) ''''"
  have page: "?page = take (nat limit) (drop (nat offset) items)" using b by (simp add: paginate_take)
  have "nat limit \<le> 500" using b by (simp add: nat_le_iff)
  then have len: "length ?page \<le> 500" unfolding page by (simp add: min_def)
  have pos: "?page \<noteq> [] \<Longrightarrow> offset + int (length ?page) \<noteq> 0" using b by (cases ?page) auto
  have eq: "follow_pages items limit0 offset0 = ?page # (if lm_next_offset ?meta = 0 then [] else follow_pages items limit0 (lm_next_offset ?meta))"
    by (subst follow_pages.simps) (simp add: n Let_def)
  show ?case
  proof (cases "lm_next_offset ?meta = 0")
    case True
    then have "int (length ?page) = 0 \<or> int (length items) \<le> offset + int (length ?page)"
      using b pos by (auto simp: list_meta_of_def split: if_splits)
    moreover have "length ?page = min (nat limit) (length items - nat offset)" unfolding page by simp
    ultimately have "length items - nat offset \<le> nat limit" using b by (auto simp: min_def split: if_splits)
    then have "?page = drop (nat offset) items" unfolding page by simp
    then show ?thesis using True len by (simp add: eq off)
  next
    case False
    then have nx: "lm_next_offset ?meta = offset + int (length ?page)" "offset + int (length ?page) < int (length items)"
      by (auto simp: list_meta_of_def split: if_splits)
    then have full: "length ?page = nat limit" unfolding page using b by auto
    have ih: "concat (follow_pages items limit0 (lm_next_offset ?meta)) = drop (nat (lm_next_offset ?meta)) items \<and>
        list_all (\<lambda>p. length p \<le> 500) (follow_pages items limit0 (lm_next_offset ?meta))"
      using "1.IH" [OF n [symmetric] refl refl False] by simp
    have "nat (offset + int (length ?page)) = nat offset + nat limit" using b full by (simp add: nat_add_distrib)
    then have "drop (nat (lm_next_offset ?meta)) items = drop (nat limit) (drop (nat offset) items)" using nx(1) by (simp add: add.commute)
    then have "?page @ drop (nat (lm_next_offset ?meta)) items = drop (nat offset) items" by (simp only: page append_take_drop_id)
    then show ?thesis using False ih len by (simp add: eq off)
  qed
qed

subsection \<open>The status of a trader\<close>

text \<open>\<open>time.RFC3339\<close>.\<close>

definition format_rfc3339 :: "time \<Rightarrow> string" where
  "format_rfc3339 t = (if is_zero_time t then '''' else let secs = (t mod day_length) div second in
     format_date t @ ''T'' @ pad_int 2 (secs div 3600) @ '':'' @ pad_int 2 (secs div 60 mod 60) @ '':'' @ pad_int 2 (secs mod 60) @ ''Z'')"

fun state_text :: "trader_state \<Rightarrow> string" where
  "state_text TraderRunning = ''running''"
| "state_text TraderPaused = ''paused''"
| "state_text TraderStopped = ''stopped''"
| "state_text TraderError = ''error''"

record risk_state =
  rk_daily_date :: string
  rk_start_equity :: f64
  rk_current_equity :: f64
  rk_daily_loss :: f64
  rk_daily_loss_pct :: f64
  rk_daily_limit :: f64
  rk_blocked :: bool
  rk_block_reason :: string
  rk_triggered_at :: string
  rk_updated_at :: string

text \<open>The detail of a status: nothing, what the control plane recorded, or the stored detail.\<close>

datatype status_detail = NoDetail | ControlDetail "(string \<times> string) list" | RuntimeDetail runtime_detail

record trader_status =
  st_trader_id :: string
  st_status :: string
  st_is_running :: bool
  st_version :: int
  st_last_decision_at :: string
  st_next_decision_at :: string
  st_paused_until :: string
  st_pause_reason :: string
  st_updated_at :: string
  st_risk :: "risk_state option"
  st_detail :: status_detail

definition daily_loss_limit_usd :: "risk_parameters \<Rightarrow> f64 \<Rightarrow> f64" where
  "daily_loss_limit_usd p start =
    (if start \<le> 0 then 0
     else let limit = (if 0 < rp_max_daily_loss_usd p then rp_max_daily_loss_usd p else 0) in
       if 0 < rp_max_daily_loss_pct p
       then let pct = start * (rp_max_daily_loss_pct p / lit 100) in
         if 0 < pct \<and> (feq limit 0 \<or> pct < limit) then pct else limit
       else limit)"

definition runtime_daily_risk_current :: "runtime_daily option \<Rightarrow> time \<Rightarrow> bool" where
  "runtime_daily_risk_current daily now = (case daily of
     None \<Rightarrow> False
   | Some d \<Rightarrow> if trim_space (rdl_date d) \<noteq> '''' then trim_space (rdl_date d) = format_date now
       else (case rdl_updated_at d of None \<Rightarrow> False | Some u \<Rightarrow> format_date u = format_date now))"

definition empty_risk :: risk_state where
  "empty_risk = \<lparr>rk_daily_date = '''', rk_start_equity = 0, rk_current_equity = 0, rk_daily_loss = 0, rk_daily_loss_pct = 0, rk_daily_limit = 0,
     rk_blocked = False, rk_block_reason = '''', rk_triggered_at = '''', rk_updated_at = ''''\<rparr>"

definition daily_risk_state :: "risk_parameters \<Rightarrow> runtime_daily \<Rightarrow> time \<Rightarrow> risk_state" where
  "daily_risk_state p d now =
    (let out = empty_risk\<lparr>rk_daily_date := rdl_date d, rk_start_equity := rdl_start d, rk_current_equity := rdl_last d,
           rk_updated_at := (case rdl_updated_at d of None \<Rightarrow> '''' | Some u \<Rightarrow> format_rfc3339 u)\<rparr>
     in if 0 < rdl_start d \<and> 0 < rdl_last d
        then let loss = rdl_start d - rdl_last d;
               out1 = (if 0 < loss then out\<lparr>rk_daily_loss := loss, rk_daily_loss_pct := loss / rdl_start d * lit 100\<rparr> else out);
               out2 = out1\<lparr>rk_daily_limit := daily_loss_limit_usd p (rdl_start d)\<rparr>
             in if 0 < rk_daily_limit out2 \<and> rk_daily_limit out2 + micro < rk_daily_loss out2 \<and> runtime_daily_risk_current (Some d) now
                then out2\<lparr>rk_blocked := True, rk_block_reason := ''daily_loss_limit_exceeded''\<rparr> else out2
        else out)"

definition circuit_risk_state :: "runtime_circuit \<Rightarrow> risk_state \<Rightarrow> risk_state" where
  "circuit_risk_state c out0 =
    (let out = (case rcr_triggered_at c of None \<Rightarrow> out0 | Some u \<Rightarrow> out0\<lparr>rk_triggered_at := format_rfc3339 u\<rparr>)
     in if rcr_blocked c
        then out\<lparr>rk_blocked := True, rk_block_reason := (if trim_space (rcr_reason c) \<noteq> '''' then rcr_reason c
          else if rk_block_reason out = '''' then ''risk_circuit_breaker'' else rk_block_reason out)\<rparr>
        else out)"

definition trader_risk_state_from_runtime :: "risk_parameters \<Rightarrow> runtime_detail \<Rightarrow> time \<Rightarrow> risk_state option" where
  "trader_risk_state_from_runtime p d now = (case rdt_risk d of
     None \<Rightarrow> None
   | Some k \<Rightarrow>
     let out1 = (case rrk_daily k of None \<Rightarrow> empty_risk | Some dl \<Rightarrow> daily_risk_state p dl now);
         out = (case rrk_circuit k of None \<Rightarrow> out1 | Some c \<Rightarrow> circuit_risk_state c out1)
     in if rk_daily_date out = '''' \<and> rk_start_equity out \<le> 0 \<and> rk_current_equity out \<le> 0 \<and> rk_triggered_at out = '''' \<and> rk_block_reason out = ''''
        then None else Some out)"

definition apply_runtime_risk_state :: "trader_config \<Rightarrow> runtime_detail \<Rightarrow> time \<Rightarrow> trader_status \<Rightarrow> trader_status" where
  "apply_runtime_risk_state t d now s = (case trader_risk_state_from_runtime (tc_risk_params t) d now of
     None \<Rightarrow> s
   | Some k \<Rightarrow> let s1 = s\<lparr>st_risk := Some k\<rparr> in
       if rk_blocked k
       then s1\<lparr>st_status := ''paused'', st_is_running := False,
         st_pause_reason := (if st_pause_reason s1 = '''' then rk_block_reason k else st_pause_reason s1)\<rparr>
       else s1)"

definition trader_status_from_control_snapshot :: "trader_config \<Rightarrow> control_snapshot \<Rightarrow> trader_status" where
  "trader_status_from_control_snapshot t s = \<lparr>st_trader_id = tc_id t, st_status = state_text (cn_state s), st_is_running = (cn_state s = TraderRunning),
     st_version = (if cn_version s = 0 then tc_version t else cn_version s), st_last_decision_at = '''', st_next_decision_at = '''',
     st_paused_until = (case cn_pause_until s of None \<Rightarrow> '''' | Some u \<Rightarrow> format_rfc3339 u), st_pause_reason = cn_pause_reason s,
     st_updated_at = format_rfc3339 (cn_updated_at s), st_risk = None,
     st_detail = ControlDetail [(''control_plane_only'', ''true''), (''last_action'', cn_last_action s), (''correlation_id'', cn_correlation_id s),
       (''requested_by'', cn_requested_by s), (''reason'', cn_reason s)]\<rparr>"

definition option_text :: "time option \<Rightarrow> string" where
  "option_text t = (case t of None \<Rightarrow> '''' | Some u \<Rightarrow> format_rfc3339 u)"

text \<open>The status a stored row gives.\<close>

definition status_of_row :: "trader_config \<Rightarrow> runtime_row \<Rightarrow> time \<Rightarrow> trader_status" where
  "status_of_row t row now =
    (let r = rw_record row; d = rr_detail r;
         s = \<lparr>st_trader_id = tc_id t, st_status = (if rr_is_running r then ''running'' else ''stopped''), st_is_running = rr_is_running r,
           st_version = rr_version r,
           st_last_decision_at = (case rdt_decision d of None \<Rightarrow> '''' | Some x \<Rightarrow> option_text (rd_last_at x)),
           st_next_decision_at = (case rdt_decision d of None \<Rightarrow> '''' | Some x \<Rightarrow> option_text (rd_next_at x)),
           st_paused_until = '''', st_pause_reason = '''', st_updated_at = format_rfc3339 (rw_updated_at row), st_risk = None,
           st_detail = RuntimeDetail d\<rparr>;
         s1 = (case rdt_pause d of
             None \<Rightarrow> s
           | Some p \<Rightarrow> let s0 = s\<lparr>st_pause_reason := rpz_reason p\<rparr> in
               (case rpz_until p of
                  Some u \<Rightarrow> let s2 = s0\<lparr>st_paused_until := format_rfc3339 u\<rparr> in if now < u then s2\<lparr>st_status := ''paused''\<rparr> else s2
                | None \<Rightarrow> if trim_space (rpz_reason p) \<noteq> '''' then s0\<lparr>st_status := ''paused''\<rparr> else s0))
     in apply_runtime_risk_state t d now s1)"

text \<open>What the views read: the configuration, the control plane, the runtime table (each may be absent), the error of reading it and the digests of the prompts.\<close>

record view_ctx =
  vc_config :: "config option"
  vc_control :: "control_plane option"
  vc_runtime :: "runtime_table option"
  vc_fault :: "goerror option"
  vc_digests :: "(string, string) gomap"

definition runtime_state_snapshot :: "view_ctx \<Rightarrow> string \<Rightarrow> runtime_row option" where
  "runtime_state_snapshot V tid = (case vc_runtime V of
     None \<Rightarrow> None
   | Some tbl \<Rightarrow> (case get_state (vc_fault V) tid tbl of Inl e \<Rightarrow> None | Inr r \<Rightarrow> r))"

definition configured_status :: "trader_config \<Rightarrow> trader_status" where
  "configured_status t = \<lparr>st_trader_id = tc_id t, st_status = ''configured'', st_is_running = False, st_version = tc_version t,
     st_last_decision_at = '''', st_next_decision_at = '''', st_paused_until = '''', st_pause_reason = '''', st_updated_at = '''', st_risk = None,
     st_detail = NoDetail\<rparr>"

definition trader_status_from_context :: "view_ctx \<Rightarrow> trader_config \<Rightarrow> time \<Rightarrow> trader_status" where
  "trader_status_from_context V t now =
    (case (case vc_control V of None \<Rightarrow> None | Some c \<Rightarrow> control_snapshot_of c (tc_id t)) of
       Some snap \<Rightarrow> let s = trader_status_from_control_snapshot t snap in
         (case runtime_state_snapshot V (tc_id t) of None \<Rightarrow> s | Some row \<Rightarrow> apply_runtime_risk_state t (rr_detail (rw_record row)) now s)
     | None \<Rightarrow> (case runtime_state_snapshot V (tc_id t) of None \<Rightarrow> configured_status t | Some row \<Rightarrow> status_of_row t row now))"

record trader_summary =
  sm_id :: string
  sm_name :: string
  sm_model :: string
  sm_exchange_provider :: string
  sm_market_provider :: string
  sm_execution_mode :: string
  sm_order_style :: string
  sm_allocation_pct :: f64
  sm_auto_start :: bool
  sm_status :: trader_status

definition trader_summary_of :: "trader_config \<Rightarrow> trader_status \<Rightarrow> trader_summary" where
  "trader_summary_of t s = \<lparr>sm_id = tc_id t, sm_name = tc_name t, sm_model = tc_model t, sm_exchange_provider = tc_exchange_provider t,
     sm_market_provider = tc_market_provider t, sm_execution_mode = tc_execution_mode t, sm_order_style = tc_order_style t,
     sm_allocation_pct = tc_allocation_pct t, sm_auto_start = tc_auto_start t, sm_status = s\<rparr>"

record exec_guards_view =
  xg_max_new_per_cycle :: int
  xg_liquidity_threshold :: f64
  xg_max_margin_usage_pct :: f64
  xg_cooldown_after_close :: string
  xg_pause_duration :: string

record trader_details =
  td_id :: string
  td_name :: string
  td_model :: string
  td_exchange_provider :: string
  td_market_provider :: string
  td_execution_mode :: string
  td_order_style :: string
  td_slippage_bps :: f64
  td_decision_interval :: string
  td_allocation_pct :: f64
  td_auto_start :: bool
  td_journal_enabled :: bool
  td_risk_params :: risk_parameters
  td_exec_guards :: exec_guards_view
  td_status :: trader_status
  td_prompt_digest :: string

definition trader_detail_of :: "trader_config \<Rightarrow> trader_status \<Rightarrow> string \<Rightarrow> trader_details" where
  "trader_detail_of t s digest = \<lparr>td_id = tc_id t, td_name = tc_name t, td_model = tc_model t, td_exchange_provider = tc_exchange_provider t,
     td_market_provider = tc_market_provider t, td_execution_mode = tc_execution_mode t, td_order_style = tc_order_style t,
     td_slippage_bps = tc_slippage_bps t, td_decision_interval = tc_decision_interval_raw t, td_allocation_pct = tc_allocation_pct t,
     td_auto_start = tc_auto_start t, td_journal_enabled = tc_journal_enabled t, td_risk_params = tc_risk_params t,
     td_exec_guards = (let g = tc_exec_guards t in \<lparr>xg_max_new_per_cycle = eg_max_new_per_cycle g, xg_liquidity_threshold = eg_liquidity_threshold g,
       xg_max_margin_usage_pct = eg_max_margin_usage_pct g, xg_cooldown_after_close = eg_cooldown_raw g, xg_pause_duration = eg_pause_duration_raw g\<rparr>),
     td_status = s, td_prompt_digest = digest\<rparr>"

definition configured_traders :: "view_ctx \<Rightarrow> trader_config list" where
  "configured_traders V = (case vc_config V of None \<Rightarrow> [] | Some c \<Rightarrow> cfg_traders c)"

definition find_configured_trader :: "view_ctx \<Rightarrow> string \<Rightarrow> trader_config option" where
  "find_configured_trader V tid = find (\<lambda>t. tc_id t = trim_space tid) (configured_traders V)"

record traders_request =
  tq_status :: string
  tq_execution_mode :: string
  tq_limit :: int
  tq_offset :: int

definition list_traders :: "view_ctx \<Rightarrow> traders_request option \<Rightarrow> time \<Rightarrow> trader_summary list \<times> list_meta" where
  "list_traders V req0 now =
    (let req = (case req0 of None \<Rightarrow> \<lparr>tq_status = '''', tq_execution_mode = '''', tq_limit = 0, tq_offset = 0\<rparr> | Some r \<Rightarrow> r) in
     case normalize_limit_offset (tq_limit req) (tq_offset req) 100 of (limit, offset) \<Rightarrow>
     let kept = filter (\<lambda>(t, st). (tq_status req = '''' \<or> st_status st = to_lower (trim_space (tq_status req))) \<and>
           (tq_execution_mode req = '''' \<or> tc_execution_mode t = to_lower (trim_space (tq_execution_mode req))))
           (map (\<lambda>t. (t, trader_status_from_context V t now)) (configured_traders V));
         page = paginate (map (\<lambda>(t, st). trader_summary_of t st) kept) limit offset
     in (page, list_meta_of limit offset (int (length page)) (int (length kept)) ''manager_config''))"

definition trader_missing_error :: "string \<Rightarrow> goerror" where
  "trader_missing_error tid = Errorf ''trader %q not found'' [tid]"

definition trader_detail_view :: "view_ctx \<Rightarrow> string \<Rightarrow> time \<Rightarrow> goerror + trader_details" where
  "trader_detail_view V tid now = (case find_configured_trader V tid of
     None \<Rightarrow> Inl (trader_missing_error tid)
   | Some t \<Rightarrow> Inr (trader_detail_of t (trader_status_from_context V t now) (get_or '''' (vc_digests V) (tc_id t))))"

definition trader_status_view :: "view_ctx \<Rightarrow> string \<Rightarrow> time \<Rightarrow> goerror + trader_status" where
  "trader_status_view V tid now = (case find_configured_trader V tid of
     None \<Rightarrow> Inl (trader_missing_error tid) | Some t \<Rightarrow> Inr (trader_status_from_context V t now))"

subsection \<open>Control requests\<close>

definition manager_control :: "view_ctx \<Rightarrow> control_plane option" where
  "manager_control V = (case vc_control V of
     Some c \<Rightarrow> Some c
   | None \<Rightarrow> (case vc_config V of None \<Rightarrow> None | Some cfg \<Rightarrow> Some (new_control_plane (Some cfg) (vc_runtime V \<noteq> None))))"

record control_response =
  cx_accepted :: bool
  cx_status :: string
  cx_trader_id :: string
  cx_action :: string
  cx_correlation_id :: string
  cx_control_state :: string
  cx_execution_mode :: string
  cx_queued :: bool
  cx_control_only :: bool
  cx_message :: string

text \<open>A control plane that is made for one request is dropped after it; what it wrote to the runtime table stays.\<close>

definition trader_control :: "(string \<Rightarrow> string) \<Rightarrow> control_faults \<Rightarrow> time \<Rightarrow> control_request option \<Rightarrow> string \<Rightarrow> view_ctx \<Rightarrow>
    (goerror + control_response) \<times> view_ctx" where
  "trader_control getenv f now req0 action V =
    (let req = (case req0 of
           None \<Rightarrow> \<lparr>cq_trader_id = '''', cq_action = action, cq_requested_by = '''', cq_reason = '''', cq_idempotency_key = '''',
             cq_correlation_id = '''', cq_effective_until = ''''\<rparr>
         | Some r \<Rightarrow> r\<lparr>cq_action := action\<rparr>) in
     case manager_control V of
       None \<Rightarrow> (Inr \<lparr>cx_accepted = False, cx_status = ''rejected'', cx_trader_id = cq_trader_id req, cx_action = action,
         cx_correlation_id = cq_correlation_id req, cx_control_state = '''', cx_execution_mode = '''', cx_queued = False, cx_control_only = True,
         cx_message = ''manager control plane is not configured''\<rparr>, V)
     | Some c \<Rightarrow> (case handle getenv f now req c (case vc_runtime V of None \<Rightarrow> [] | Some tbl \<Rightarrow> tbl) of
         (((res, err), c1), tbl1) \<Rightarrow>
           let V1 = V\<lparr>vc_control := (if vc_control V = None then None else Some c1),
                 vc_runtime := (if vc_runtime V = None then None else Some tbl1)\<rparr>
           in (case err of
                 Some e \<Rightarrow> (Inl e, V1)
               | None \<Rightarrow> (Inr \<lparr>cx_accepted = cs_accepted res, cx_status = cs_status res, cx_trader_id = cs_trader_id res, cx_action = cs_action res,
                   cx_correlation_id = cs_correlation_id res,
                   cx_control_state = (case cs_state res of None \<Rightarrow> '''' | Some st \<Rightarrow> state_text st), cx_execution_mode = cs_execution_mode res,
                   cx_queued = cs_queued res, cx_control_only = cs_control_plane_only res, cx_message = cs_message res\<rparr>, V1))))"

subsection \<open>The status and the boot\<close>

definition daily_over_limit :: "risk_parameters \<Rightarrow> runtime_detail \<Rightarrow> time \<Rightarrow> bool" where
  "daily_over_limit p d now \<longleftrightarrow> (case rdt_risk d of None \<Rightarrow> False
     | Some k \<Rightarrow> (case rrk_daily k of None \<Rightarrow> False | Some dl \<Rightarrow> rk_blocked (daily_risk_state p dl now)))"

lemma daily_block_reason: "rk_blocked (daily_risk_state p d now) \<Longrightarrow> rk_block_reason (daily_risk_state p d now) = ''daily_loss_limit_exceeded''"
  by (auto simp: daily_risk_state_def Let_def empty_risk_def split: if_splits)

lemma circuit_block:
  "rk_blocked (circuit_risk_state c out) \<longleftrightarrow> rk_blocked out \<or> rcr_blocked c"
  "rk_blocked out \<Longrightarrow> rk_block_reason out \<noteq> '''' \<Longrightarrow> rk_block_reason (circuit_risk_state c out) \<noteq> ''''"
  "rcr_blocked c \<Longrightarrow> rk_block_reason (circuit_risk_state c out) \<noteq> ''''"
  by (auto simp: circuit_risk_state_def Let_def split: option.splits)

definition circuit_blocked :: "runtime_detail \<Rightarrow> bool" where
  "circuit_blocked d \<longleftrightarrow> (case rdt_risk d of None \<Rightarrow> False
     | Some k \<Rightarrow> (case rrk_circuit k of None \<Rightarrow> False | Some x \<Rightarrow> rcr_blocked x))"

lemma risk_blocked_iff:
  "(\<exists>k. trader_risk_state_from_runtime p d now = Some k \<and> rk_blocked k) \<longleftrightarrow> daily_over_limit p d now \<or> circuit_blocked d"
proof (cases "rdt_risk d")
  case None
  then show ?thesis by (simp add: trader_risk_state_from_runtime_def daily_over_limit_def circuit_blocked_def)
next
  case (Some k)
  define out1 where "out1 = (case rrk_daily k of None \<Rightarrow> empty_risk | Some dl \<Rightarrow> daily_risk_state p dl now)"
  define out where "out = (case rrk_circuit k of None \<Rightarrow> out1 | Some c \<Rightarrow> circuit_risk_state c out1)"
  have o1: "rk_blocked out1 \<longleftrightarrow> daily_over_limit p d now" "rk_blocked out1 \<Longrightarrow> rk_block_reason out1 \<noteq> ''''"
    by (auto simp: out1_def daily_over_limit_def Some empty_risk_def daily_block_reason split: option.splits)
  have o: "rk_blocked out \<longleftrightarrow> daily_over_limit p d now \<or> circuit_blocked d" "rk_blocked out \<Longrightarrow> rk_block_reason out \<noteq> ''''"
    using o1 by (auto simp: out_def circuit_blocked_def Some circuit_block split: option.splits)
  have "trader_risk_state_from_runtime p d now = (if rk_daily_date out = '''' \<and> rk_start_equity out \<le> 0 \<and> rk_current_equity out \<le> 0 \<and>
      rk_triggered_at out = '''' \<and> rk_block_reason out = '''' then None else Some out)"
    by (simp add: trader_risk_state_from_runtime_def Some Let_def out1_def [symmetric] out_def [symmetric])
  then show ?thesis using o by auto
qed

lemma apply_risk_status:
  "st_status (apply_runtime_risk_state t d now s) = (if daily_over_limit (tc_risk_params t) d now \<or> circuit_blocked d then ''paused'' else st_status s)"
  using risk_blocked_iff [of "tc_risk_params t" d now]
  by (auto simp: apply_runtime_risk_state_def Let_def split: option.splits)

text \<open>The status the API shows agrees with what the manager makes of the same row when it boots: paused, running or stopped,
  except that it also reports a trader paused whose day's loss is over the limit. (A pause without an end must carry a reason.)\<close>

theorem status_matches_boot:
  assumes "case rdt_pause (rr_detail (rw_record row)) of Some p \<Rightarrow> rpz_until p \<noteq> None \<or> trim_space (rpz_reason p) \<noteq> '''' | None \<Rightarrow> True"
  shows "st_status (status_of_row t row now) =
    (if daily_over_limit (tc_risk_params t) (rr_detail (rw_record row)) now then ''paused'' else state_text (stored_state now (rw_record row)))"
proof -
  let ?d = "rr_detail (rw_record row)"
  have c: "(case rdt_risk ?d of None \<Rightarrow> False | Some k \<Rightarrow> (case rrk_circuit k of None \<Rightarrow> False | Some x \<Rightarrow> rcr_blocked x)) = circuit_blocked ?d"
    by (simp add: circuit_blocked_def)
  show ?thesis using assms
    by (cases "rdt_pause ?d") (auto simp: status_of_row_def Let_def apply_risk_status stored_state_def c split: option.splits)
qed

subsection \<open>The audit trail\<close>

record audit_request =
  aq_trader_id :: string
  aq_type :: string
  aq_correlation_id :: string
  aq_created_after :: string
  aq_created_before :: string
  aq_limit :: int
  aq_offset :: int

definition parse_bound :: "string \<Rightarrow> string \<Rightarrow> goerror + time option" where
  "parse_bound name raw = (if trim_space raw = '''' then Inr None
     else case parse_rfc3339 (trim_space raw) of
       None \<Rightarrow> Inl (Wrapf (name @ '' must be RFC3339: %w'') [] (Errorf ''parsing time %q'' [trim_space raw]))
     | Some t \<Rightarrow> Inr (Some t))"

definition audit_event_filters :: "audit_request \<Rightarrow> goerror + audit_filter" where
  "audit_event_filters r =
    (case parse_bound ''created_after_rfc3339'' (aq_created_after r) of
       Inl e \<Rightarrow> Inl e
     | Inr after \<Rightarrow> (case parse_bound ''created_before_rfc3339'' (aq_created_before r) of
         Inl e \<Rightarrow> Inl e
       | Inr before \<Rightarrow> Inr \<lparr>af_trader_id = trim_space (aq_trader_id r), af_type = trim_space (aq_type r),
           af_correlation_id = trim_space (aq_correlation_id r), af_after = after, af_before = before, af_limit = 0, af_offset = 0\<rparr>))"

definition empty_audit_request :: audit_request where
  "empty_audit_request = \<lparr>aq_trader_id = '''', aq_type = '''', aq_correlation_id = '''', aq_created_after = '''', aq_created_before = '''',
     aq_limit = 0, aq_offset = 0\<rparr>"

definition audit_events :: "audit_db option \<Rightarrow> audit_request option \<Rightarrow> (goerror + audit_record list \<times> list_meta) \<times> audit_db option" where
  "audit_events repo req0 =
    (let req = (case req0 of None \<Rightarrow> empty_audit_request | Some r \<Rightarrow> r) in
     case normalize_limit_offset (aq_limit req) (aq_offset req) 100 of (limit, offset) \<Rightarrow>
     (case repo of
        None \<Rightarrow> (Inr ([], list_meta_of limit offset 0 0 ''audit_repo_unavailable''), None)
      | Some db \<Rightarrow> (case audit_event_filters req of
          Inl e \<Rightarrow> (Inl e, Some db)
        | Inr f \<Rightarrow> (case list_audit (f\<lparr>af_limit := limit, af_offset := offset\<rparr>) db of
            (Inl e, db1) \<Rightarrow> (Inl e, Some db1)
          | (Inr evs, db1) \<Rightarrow> (Inr (evs, list_meta_of limit offset (int (length evs)) (offset + int (length evs)) ''audit_event_repo''), Some db1)))))"

text \<open>The total handed to the metadata is the end of the page, so no page of audit events ever names a next one.\<close>

theorem audit_pages_end:
  assumes "audit_events repo req = (Inr (evs, meta), repo')"
  shows "lm_next_offset meta = 0"
  using assms by (auto simp: audit_events_def list_meta_of_def Let_def split: prod.splits option.splits sum.splits)

subsection \<open>Orders\<close>

type_synonym detail_map = "(string, json) gomap"

record api_order =
  or_id :: string
  or_trader_id :: string
  or_symbol :: string
  or_side :: string
  or_type :: string
  or_status :: string
  or_quantity :: f64
  or_limit_price :: f64
  or_created_at :: string
  or_updated_at :: string
  or_correlation_id :: string
  or_detail :: detail_map

text \<open>A number that is out of range for \<open>float64\<close> makes \<open>json.Unmarshal\<close> fail. An object replaces equal members by the last.\<close>

fun numbers_ok :: "json \<Rightarrow> bool" and numbers_ok_list :: "json list \<Rightarrow> bool" and numbers_ok_members :: "(string \<times> json) list \<Rightarrow> bool" where
  "numbers_ok (JNum l) = snd (parse_float l)"
| "numbers_ok (JArr vs) = numbers_ok_list vs"
| "numbers_ok (JObj ms) = numbers_ok_members ms"
| "numbers_ok JNull = True"
| "numbers_ok (JBool b) = True"
| "numbers_ok (JStr s) = True"
| "numbers_ok_list [] = True"
| "numbers_ok_list (v # vs) = (numbers_ok v \<and> numbers_ok_list vs)"
| "numbers_ok_members [] = True"
| "numbers_ok_members ((k, v) # ms) = (numbers_ok v \<and> numbers_ok_members ms)"

definition put_members :: "(string \<times> json) list \<Rightarrow> detail_map \<Rightarrow> detail_map" where
  "put_members ms m = foldl (\<lambda>m (k, v). put k v m) m ms"

text \<open>The detail as a map; \<open>None\<close> is a nil map, which null gives.\<close>

definition audit_detail_map :: "(string \<Rightarrow> goerror + json) \<Rightarrow> string \<Rightarrow> detail_map option" where
  "audit_detail_map decode raw = (if raw = '''' then Some []
     else case decode raw of
       Inr JNull \<Rightarrow> None
     | Inr (JObj ms) \<Rightarrow> if numbers_ok_members ms then Some (put_members ms []) else Some [(''raw_detail'', JStr raw)]
     | _ \<Rightarrow> Some [(''raw_detail'', JStr raw)])"

definition detail_float :: "detail_map \<Rightarrow> string \<Rightarrow> f64" where
  "detail_float m k = (case lookup m k of
     Some (JNum l) \<Rightarrow> fst (parse_float l) | Some (JStr s) \<Rightarrow> fst (parse_float (trim_space s)) | _ \<Rightarrow> 0)"

text \<open>\<open>pv\<close> prints a value that is not a string with \<open>%v\<close>.\<close>

definition detail_string :: "(json \<Rightarrow> string) \<Rightarrow> detail_map \<Rightarrow> string \<Rightarrow> string" where
  "detail_string pv m k = (case lookup m k of None \<Rightarrow> '''' | Some (JStr s) \<Rightarrow> s | Some v \<Rightarrow> pv v)"

definition order_status_from_audit_type :: "string \<Rightarrow> string" where
  "order_status_from_audit_type ty = (if ty = ''order_failed'' then ''failed'' else ''submitted'')"

definition order_type_from_audit_reason :: "string \<Rightarrow> string" where
  "order_type_from_audit_reason reason0 = (let reason = to_lower (trim_space reason0) in
     if reason = ''close_position'' then ''close'' else reason)"

definition side_from_audit_action :: "string \<Rightarrow> string" where
  "side_from_audit_action action0 = (let action = to_lower (trim_space action0) in
     if action \<in> {''open_long'', ''close_short''} then ''buy''
     else if action \<in> {''open_short'', ''close_long''} then ''sell'' else action)"

definition order_event_types_for_status :: "string \<Rightarrow> string list" where
  "order_event_types_for_status status0 = (let status = to_lower (trim_space status0) in
     if status \<in> {'''', ''all''} then [''order_submitted'', ''order_failed'']
     else if status \<in> {''submitted'', ''sent'', ''filled'', ''open'', ''order_submitted''} then [''order_submitted'']
     else if status \<in> {''failed'', ''error'', ''rejected'', ''order_failed''} then [''order_failed'']
     else [])"

text \<open>Writing into a nil map panics.\<close>

definition nil_map_panic :: goerror where
  "nil_map_panic = Errorf ''assignment to entry in nil map'' []"

definition order_from_audit_event :: "(string \<Rightarrow> goerror + json) \<Rightarrow> (json \<Rightarrow> string) \<Rightarrow> audit_record \<Rightarrow> goerror + api_order" where
  "order_from_audit_event decode pv r = (case audit_detail_map decode (al_detail r) of
     None \<Rightarrow> Inl nil_map_panic
   | Some m \<Rightarrow>
     let symbol = to_upper (trim_space (al_symbol r)); q = detail_float m ''quantity''; px = detail_float m ''price'';
         action = to_lower (trim_space (al_action r));
         m1 = (if action \<noteq> '''' then put ''action'' (JStr action) m else m);
         m2 = (if al_approval_id r \<noteq> '''' then put ''approval_token_id'' (JStr (al_approval_id r)) m1 else m1);
         m3 = put ''audit_event_id'' (JNum (itoa (al_id r))) m2
     in Inr \<lparr>or_id = ''audit-'' @ itoa (al_id r), or_trader_id = al_trader_id r,
          or_symbol = (if symbol = '''' then to_upper (detail_string pv m ''symbol'') else symbol),
          or_side = side_from_audit_action (al_action r), or_type = order_type_from_audit_reason (al_reason r),
          or_status = order_status_from_audit_type (al_type r),
          or_quantity = (if feq q 0 then detail_float m ''size'' else q),
          or_limit_price = (if feq px 0 then detail_float m ''limit_price'' else px),
          or_created_at = format_rfc3339 (al_created_at r), or_updated_at = format_rfc3339 (al_created_at r),
          or_correlation_id = al_correlation_id r, or_detail = m3\<rparr>)"

record orders_request =
  oq_trader :: string
  oq_symbol :: string
  oq_status :: string
  oq_limit :: int
  oq_offset :: int

fun scan_events :: "string \<Rightarrow> int \<Rightarrow> string list \<Rightarrow> audit_db \<Rightarrow> (goerror + audit_record list) \<times> audit_db" where
  "scan_events tid limit [] db = (Inr [], db)"
| "scan_events tid limit (ty # tys) db =
    (case list_audit \<lparr>af_trader_id = tid, af_type = ty, af_correlation_id = '''', af_after = None, af_before = None, af_limit = limit, af_offset = 0\<rparr> db of
       (Inl e, db1) \<Rightarrow> (Inl e, db1)
     | (Inr rows, db1) \<Rightarrow> (case scan_events tid limit tys db1 of
         (Inl e, db2) \<Rightarrow> (Inl e, db2) | (Inr rest, db2) \<Rightarrow> (Inr (rows @ rest), db2)))"

definition records_newest_first :: "audit_record list \<Rightarrow> audit_record list" where
  "records_newest_first rs = sort_key (\<lambda>r. (- al_created_at r, - al_id r)) rs"

fun map_results :: "('a \<Rightarrow> goerror + 'b) \<Rightarrow> 'a list \<Rightarrow> goerror + 'b list" where
  "map_results f [] = Inr []"
| "map_results f (x # xs) = (case f x of Inl e \<Rightarrow> Inl e | Inr y \<Rightarrow> (case map_results f xs of Inl e \<Rightarrow> Inl e | Inr ys \<Rightarrow> Inr (y # ys)))"

text \<open>\<open>limit + offset\<close> is an \<open>int\<close> of 64 bits.\<close>

definition scan_limit :: "int \<Rightarrow> int \<Rightarrow> int" where
  "scan_limit limit offset = (let n = sint (word_of_int (limit + offset) :: 64 word); n1 = (if n \<le> 0 then 100 else n) in if 500 < n1 then 500 else n1)"

definition orders_from_audit_events ::
  "(string \<Rightarrow> goerror + json) \<Rightarrow> (json \<Rightarrow> string) \<Rightarrow> orders_request \<Rightarrow> int \<Rightarrow> int \<Rightarrow> audit_db \<Rightarrow> (goerror + api_order list \<times> int) \<times> audit_db" where
  "orders_from_audit_events decode pv req limit offset db =
    (let tys = order_event_types_for_status (oq_status req) in
     if tys = [] then (Inr ([], 0), db)
     else case scan_events (trim_space (oq_trader req)) (scan_limit limit offset) tys db of
       (Inl e, db1) \<Rightarrow> (Inl e, db1)
     | (Inr rs, db1) \<Rightarrow>
       let symbol = to_upper (trim_space (oq_symbol req)) in
       (case map_results (order_from_audit_event decode pv) (records_newest_first rs) of
          Inl e \<Rightarrow> (Inl e, db1)
        | Inr orders \<Rightarrow>
          let kept = filter (\<lambda>ord. symbol = '''' \<or> to_upper (or_symbol ord) = symbol) orders
          in (Inr (paginate kept limit offset, int (length kept)), db1)))"

definition list_orders ::
  "(string \<Rightarrow> goerror + json) \<Rightarrow> (json \<Rightarrow> string) \<Rightarrow> audit_db option \<Rightarrow> orders_request option \<Rightarrow>
   (goerror + api_order list \<times> list_meta \<times> string) \<times> audit_db option" where
  "list_orders decode pv repo req0 =
    (case (case req0 of None \<Rightarrow> (100, 0) | Some r \<Rightarrow> normalize_limit_offset (oq_limit r) (oq_offset r) 100) of (limit, offset) \<Rightarrow>
     (case repo of
        None \<Rightarrow> (Inr ([], list_meta_of limit offset 0 0 ''audit_repo_unavailable'', ''not_available''), None)
      | Some db \<Rightarrow>
        let req = (case req0 of None \<Rightarrow> \<lparr>oq_trader = '''', oq_symbol = '''', oq_status = '''', oq_limit = 0, oq_offset = 0\<rparr> | Some r \<Rightarrow> r) in
        (case orders_from_audit_events decode pv req limit offset db of
           (Inl e, db1) \<Rightarrow> (Inl e, Some db1)
         | (Inr (orders, seen), db1) \<Rightarrow>
           (Inr (orders, list_meta_of limit offset (int (length orders)) seen ''audit_event_repo'', ''read_only''), Some db1))))"

text \<open>The records behind a page of orders.\<close>

lemma scan_events_rows:
  assumes "scan_events tid limit tys db = (Inr rs, db')" "r \<in> set rs"
  shows "\<exists>row \<in> set (ad_rows db). r = audit_event_from_row row \<and> trim_space (aw_type row) \<in> trim_space ` set tys \<and>
    (trim_space tid = '''' \<or> aw_trader_id row = trim_space tid) \<or> (\<exists>ty \<in> set tys. trim_space ty = '''')"
  using assms
proof (induction tys arbitrary: db rs)
  case (Cons ty tys)
  let ?f = "\<lparr>af_trader_id = tid, af_type = ty, af_correlation_id = '''', af_after = None, af_before = None, af_limit = limit, af_offset = 0\<rparr>"
  obtain rows db1 where l: "list_audit ?f db = (Inr rows, db1)"
    using Cons.prems(1) by (auto split: prod.splits sum.splits)
  obtain rest where m: "scan_events tid limit tys db1 = (Inr rest, db')" "rs = rows @ rest"
    using Cons.prems(1) l by (auto split: prod.splits sum.splits)
  obtain f0 db0 where fault: "audit_fault db = (f0, db0)" by fastforce
  have db1: "ad_rows db1 = ad_rows db" using l fault audit_fault_simps(1) [OF fault]
    by (cases f0) (auto simp: list_audit_def list_audit_rows_def)
  show ?case
  proof (cases "r \<in> set rows")
    case True
    then obtain row where row: "row \<in> set (ad_rows db)" "audit_matches ?f row" "r = audit_event_from_row row"
      using l fault audit_fault_simps(1) [OF fault]
      by (cases f0) (auto simp: list_audit_def list_audit_rows_def audit_newest_first_def dest!: in_set_takeD in_set_dropD)
    then show ?thesis by (auto simp: audit_matches_def)
  next
    case False
    then have "r \<in> set rest" using Cons.prems(2) m(2) by simp
    from Cons.IH [OF m(1) this] show ?thesis by (auto simp: db1)
  qed
qed simp

lemma map_results_zip: "map_results f xs = Inr ys \<Longrightarrow> length xs = length ys \<and> (\<forall>(x, y) \<in> set (zip xs ys). f x = Inr y)"
  by (induction xs arbitrary: ys) (auto split: sum.splits)

lemma filter_zip_snd: "length xs = length ys \<Longrightarrow> filter P ys = map snd (filter (\<lambda>(x, y). P y) (zip xs ys))"
  by (induction xs ys rule: list_induct2) auto

lemma paginate_map: "paginate (map f xs) limit offset = map f (paginate xs limit offset)"
  by (simp add: paginate_def Let_def take_map drop_map)

lemma paginate_subset: "set (paginate xs limit offset) \<subseteq> set xs"
  by (auto simp: paginate_def Let_def dest!: in_set_takeD in_set_dropD)

lemma paginate_sorted: "sorted_wrt P xs \<Longrightarrow> sorted_wrt P (paginate xs limit offset)"
  by (simp add: paginate_def Let_def sorted_wrt_drop sorted_wrt_take)

lemma order_types_trim: "ty \<in> set (order_event_types_for_status s) \<Longrightarrow> trim_space ty = ty \<and> ty \<noteq> ''''"
proof -
  have "trim_space ''order_submitted'' = ''order_submitted''" "trim_space ''order_failed'' = ''order_failed''" by code_simp+
  then show "ty \<in> set (order_event_types_for_status s) \<Longrightarrow> trim_space ty = ty \<and> ty \<noteq> ''''"
    by (auto simp: order_event_types_for_status_def Let_def split: if_splits)
qed

lemma order_event_types: "ty \<in> set (order_event_types_for_status s) \<Longrightarrow> ty \<in> {''order_submitted'', ''order_failed''}"
  by (auto simp: order_event_types_for_status_def Let_def split: if_splits)

definition newer_first :: "audit_record \<Rightarrow> audit_record \<Rightarrow> bool" where
  "newer_first a b \<longleftrightarrow> al_created_at b < al_created_at a \<or> al_created_at a = al_created_at b \<and> al_id b \<le> al_id a"

lemma records_sorted: "sorted_wrt newer_first (records_newest_first rs)"
proof -
  have "sorted (map (\<lambda>r. (- al_created_at r, - al_id r)) (records_newest_first rs))" by (simp add: records_newest_first_def)
  then show ?thesis by (auto simp: sorted_map newer_first_def less_eq_prod_def elim!: sorted_wrt_mono_rel [rotated])
qed

definition order_row_ok :: "orders_request \<Rightarrow> audit_db \<Rightarrow> audit_record \<Rightarrow> api_order \<Rightarrow> bool" where
  "order_row_ok req db r ord \<longleftrightarrow> (\<exists>row \<in> set (ad_rows db). r = audit_event_from_row row \<and>
     trim_space (aw_type row) \<in> set (order_event_types_for_status (oq_status req)) \<and>
     (trim_space (oq_trader req) = '''' \<or> aw_trader_id row = trim_space (oq_trader req)) \<and>
     (trim_space (oq_symbol req) = '''' \<or> to_upper (or_symbol ord) = to_upper (trim_space (oq_symbol req))))"

text \<open>The orders page invents nothing: its orders, at most 500, are in order what the audit events of some stored rows give, newest first,
  and each row is an order event of the status asked for, of the trader asked for, and gives an order with the symbol asked for.\<close>

theorem orders_from_audit:
  assumes "list_orders decode pv (Some db) (Some req) = (Inr (orders, meta, st), repo')"
  shows "\<exists>rs. length orders \<le> 500 \<and> length rs = length orders \<and> sorted_wrt newer_first rs \<and>
    list_all (\<lambda>(r, ord). order_from_audit_event decode pv r = Inr ord \<and> order_row_ok req db r ord) (zip rs orders)"
proof -
  obtain limit offset where n: "normalize_limit_offset (oq_limit req) (oq_offset req) 100 = (limit, offset)" by fastforce
  note b = normalize_limit_bounds [OF n]
  let ?tys = "order_event_types_for_status (oq_status req)"
  let ?symbol = "to_upper (trim_space (oq_symbol req))"
  obtain seen db1 where o: "orders_from_audit_events decode pv req limit offset db = (Inr (orders, seen), db1)"
    using assms n by (auto simp: list_orders_def split: prod.splits sum.splits)
  show ?thesis
  proof (cases "?tys = []")
    case True
    then have "orders = []" using o by (simp add: orders_from_audit_events_def)
    then show ?thesis by (intro exI [of _ "[]"]) simp
  next
    case False
    then obtain rs0 db2 where sc: "scan_events (trim_space (oq_trader req)) (scan_limit limit offset) ?tys db = (Inr rs0, db2)"
      using o by (auto simp: orders_from_audit_events_def split: prod.splits sum.splits)
    define rs where "rs = records_newest_first rs0"
    obtain os where os: "map_results (order_from_audit_event decode pv) rs = Inr os"
        "orders = paginate (filter (\<lambda>ord. ?symbol = '''' \<or> to_upper (or_symbol ord) = ?symbol) os) limit offset"
      using o False sc by (auto simp: orders_from_audit_events_def rs_def Let_def split: sum.splits)
    note z = map_results_zip [OF os(1)]
    define zs where "zs = paginate (filter (\<lambda>(r, ord). ?symbol = '''' \<or> to_upper (or_symbol ord) = ?symbol) (zip rs os)) limit offset"
    have "filter (\<lambda>ord. ?symbol = '''' \<or> to_upper (or_symbol ord) = ?symbol) os =
        map snd (filter (\<lambda>(r, ord). ?symbol = '''' \<or> to_upper (or_symbol ord) = ?symbol) (zip rs os))"
      using z by (intro filter_zip_snd) simp
    then have ord: "orders = map snd zs" unfolding os(2) zs_def by (simp add: paginate_map)
    have sub: "set zs \<subseteq> {p \<in> set (zip rs os). ?symbol = '''' \<or> to_upper (or_symbol (snd p)) = ?symbol}"
      unfolding zs_def using paginate_subset [of "filter (\<lambda>(r, ord). ?symbol = '''' \<or> to_upper (or_symbol ord) = ?symbol) (zip rs os)" limit offset]
      by auto
    have "sorted_wrt newer_first (map fst (zip rs os))" using z records_sorted [of rs0] by (simp add: rs_def)
    then have "sorted_wrt (\<lambda>p q. newer_first (fst p) (fst q)) (zip rs os)" by (simp add: sorted_wrt_map)
    then have "sorted_wrt (\<lambda>p q. newer_first (fst p) (fst q)) zs"
      unfolding zs_def by (intro paginate_sorted sorted_wrt_filter)
    then have sorted: "sorted_wrt newer_first (map fst zs)" by (simp add: sorted_wrt_map)
    have "nat limit \<le> 500" using b by (simp add: nat_le_iff)
    then have "length zs \<le> 500" using b by (simp add: zs_def paginate_take min_def)
    moreover have "order_from_audit_event decode pv r = Inr ord \<and> order_row_ok req db r ord" if "(r, ord) \<in> set zs" for r ord
    proof -
      have p: "(r, ord) \<in> set (zip rs os)" "?symbol = '''' \<or> to_upper (or_symbol ord) = ?symbol" using that sub by auto
      then have "r \<in> set rs0" by (auto simp: rs_def records_newest_first_def dest: set_zip_leftD)
      from scan_events_rows [OF sc this] order_event_types obtain row where row: "row \<in> set (ad_rows db)" "r = audit_event_from_row row"
        "trim_space (aw_type row) \<in> trim_space ` set ?tys" "trim_space (oq_trader req) = '''' \<or> aw_trader_id row = trim_space (oq_trader req)"
        by (auto simp: order_types_trim)
      have "trim_space ` set ?tys = set ?tys" using order_types_trim by (force simp: image_iff)
      then show ?thesis using p z row unfolding order_row_ok_def by (auto simp: to_upper_def)
    qed
    ultimately show ?thesis using sorted by (intro exI [of _ "map fst zs"]) (auto simp: ord zip_map_fst_snd list_all_iff)
  qed
qed

subsection \<open>Order previews\<close>

record preview_request =
  pw_trader_id :: string
  pw_decision_id :: string
  pw_correlation_id :: string
  pw_orders :: "api_order list"

record preview_order =
  po_symbol :: string
  po_side :: string
  po_type :: string
  po_quantity :: f64
  po_limit_price :: f64

record preview_check =
  ck_name :: string
  ck_status :: string
  ck_message :: string

record order_preview =
  pv_accepted :: bool
  pv_status :: string
  pv_preview_id :: string
  pv_trader_id :: string
  pv_execution_mode :: string
  pv_decision_id :: string
  pv_overall :: string
  pv_checks :: "preview_check list"
  pv_normalized :: "preview_order list"
  pv_message :: string

definition accepted_preview_check :: "string \<Rightarrow> string \<Rightarrow> preview_check" where
  "accepted_preview_check name msg = \<lparr>ck_name = name, ck_status = ''accepted'', ck_message = msg\<rparr>"

definition rejected_preview_check :: "string \<Rightarrow> string \<Rightarrow> preview_check" where
  "rejected_preview_check name msg = \<lparr>ck_name = name, ck_status = ''rejected'', ck_message = msg\<rparr>"

definition required_check :: "string \<Rightarrow> bool \<Rightarrow> string \<Rightarrow> string \<Rightarrow> preview_check" where
  "required_check name bad bad_msg ok_msg = (if bad then rejected_preview_check name bad_msg else accepted_preview_check name ok_msg)"

definition normalized_order :: "api_order \<Rightarrow> preview_order" where
  "normalized_order ord = \<lparr>po_symbol = to_upper (trim_space (or_symbol ord)), po_side = to_lower (trim_space (or_side ord)),
     po_type = to_lower (trim_space (or_type ord)), po_quantity = or_quantity ord, po_limit_price = or_limit_price ord\<rparr>"

definition normalize_preview_order :: "int \<Rightarrow> api_order \<Rightarrow> preview_order \<times> preview_check list" where
  "normalize_preview_order i ord = (let n = normalized_order ord; prefix = ''orders['' @ itoa i @ '']'' in
     (n, [required_check (prefix @ ''.symbol'') (po_symbol n = '''') ''symbol is required'' ''symbol normalized'',
          required_check (prefix @ ''.side'') (po_side n = '''') ''side is required'' ''side normalized'',
          required_check (prefix @ ''.type'') (po_type n = '''') ''type is required'' ''type normalized'',
          required_check (prefix @ ''.quantity'') (po_quantity n \<le> 0) ''quantity must be positive'' ''quantity is positive''] @
         (if contains_sub (po_type n) ''limit'' \<and> po_limit_price n \<le> 0
          then [rejected_preview_check (prefix @ ''.limit_price'') ''limit orders require a positive limit_price''] else []) @
         (if po_limit_price n < 0 then [rejected_preview_check (prefix @ ''.limit_price'') ''limit_price cannot be negative''] else [])))"

fun preview_orders :: "int \<Rightarrow> api_order list \<Rightarrow> preview_order list \<times> preview_check list" where
  "preview_orders i [] = ([], [])"
| "preview_orders i (ord # os) = (case normalize_preview_order i ord of (n, cs) \<Rightarrow> case preview_orders (i + 1) os of (ns, rest) \<Rightarrow>
     ((if po_symbol n \<noteq> '''' \<or> po_side n \<noteq> '''' \<or> po_type n \<noteq> '''' \<or> \<not> feq (po_quantity n) 0 \<or> \<not> feq (po_limit_price n) 0
       then n # ns else ns), cs @ rest))"

definition execution_mode_check :: "execution_mode \<Rightarrow> preview_check" where
  "execution_mode_check mode = (if mode \<in> {mode_paper, mode_testnet} then accepted_preview_check ''execution_mode'' ''paper/testnet preview only''
     else if mode = mode_live then accepted_preview_check ''execution_mode'' ''live trader preview only; no submission path is exposed''
     else rejected_preview_check ''execution_mode'' (error_text (Errorf ''unsupported execution_mode %q'' [mode])))"

definition rejected_preview :: "string \<Rightarrow> string \<Rightarrow> string \<Rightarrow> preview_check list \<Rightarrow> preview_order list \<Rightarrow> order_preview" where
  "rejected_preview tid did mode checks ns = \<lparr>pv_accepted = False, pv_status = ''rejected'', pv_preview_id = '''', pv_trader_id = tid,
     pv_execution_mode = mode, pv_decision_id = did, pv_overall = ''rejected'', pv_checks = checks, pv_normalized = ns,
     pv_message = ''preview rejected; no order was submitted or queued''\<rparr>"

text \<open>\<open>payload\<close> stands for the text of the request the identifier of a preview is the digest of.\<close>

definition preview_id :: "(string \<Rightarrow> int list) \<Rightarrow> (preview_request \<Rightarrow> preview_order list \<Rightarrow> string) \<Rightarrow> preview_request \<Rightarrow> preview_order list \<Rightarrow> string" where
  "preview_id sha payload r ns = ''preview-'' @ hex_encode (take 8 (sha (payload (r\<lparr>pw_trader_id := trim_space (pw_trader_id r),
     pw_decision_id := trim_space (pw_decision_id r), pw_correlation_id := trim_space (pw_correlation_id r)\<rparr>) ns)))"

definition build_order_preview ::
  "(string \<Rightarrow> int list) \<Rightarrow> (preview_request \<Rightarrow> preview_order list \<Rightarrow> string) \<Rightarrow> view_ctx \<Rightarrow> preview_request option \<Rightarrow> order_preview" where
  "build_order_preview sha payload V req = (case req of
     None \<Rightarrow> rejected_preview '''' '''' '''' [rejected_preview_check ''request_shape'' ''request body is required''] []
   | Some r \<Rightarrow> let tid = trim_space (pw_trader_id r); did = trim_space (pw_decision_id r) in
     (case find_configured_trader V tid of
        None \<Rightarrow> rejected_preview tid did '''' [rejected_preview_check ''trader_exists'' (error_text (Errorf ''trader %q not found'' [tid]))] []
      | Some t \<Rightarrow> (case preview_orders 0 (pw_orders r) of (ns, cs) \<Rightarrow>
          let checks = [accepted_preview_check ''trader_exists'' ''configured trader found'', execution_mode_check (tc_execution_mode t)] @
                (if pw_orders r = [] then [rejected_preview_check ''orders_present'' ''at least one order is required''] else []) @ cs
          in if list_ex (\<lambda>c. ck_status c = ''rejected'') checks then rejected_preview tid did (tc_execution_mode t) checks ns
             else \<lparr>pv_accepted = True, pv_status = ''preview_only'', pv_preview_id = preview_id sha payload r ns, pv_trader_id = tid,
               pv_execution_mode = tc_execution_mode t, pv_decision_id = did, pv_overall = ''preview_only'',
               pv_checks = checks @ [accepted_preview_check ''submission'' ''preview only; no order was submitted or queued''],
               pv_normalized = ns, pv_message = ''preview only; no order was submitted or queued''\<rparr>)))"

definition previewable :: "api_order \<Rightarrow> bool" where
  "previewable ord \<longleftrightarrow> trim_space (or_symbol ord) \<noteq> '''' \<and> trim_space (or_side ord) \<noteq> '''' \<and> trim_space (or_type ord) \<noteq> '''' \<and>
     \<not> or_quantity ord \<le> 0 \<and> \<not> or_limit_price ord < 0 \<and>
     \<not> (contains_sub (to_lower (trim_space (or_type ord))) ''limit'' \<and> or_limit_price ord \<le> 0)"

lemma check_status [simp]:
  "ck_status (accepted_preview_check a b) = ''accepted''" "ck_status (rejected_preview_check a b) = ''rejected''"
  "ck_status (required_check a c b d) = ''rejected'' \<longleftrightarrow> c"
  by (simp_all add: accepted_preview_check_def rejected_preview_check_def required_check_def)

lemma case_Nil [simp]: "to_upper s = [] \<longleftrightarrow> s = []"
  by (simp add: to_upper_def)

lemma preview_order_checks:
  "list_ex (\<lambda>c. ck_status c = ''rejected'') (snd (normalize_preview_order i ord)) \<longleftrightarrow> \<not> previewable ord"
  "fst (normalize_preview_order i ord) = normalized_order ord"
  by (auto simp: normalize_preview_order_def Let_def normalized_order_def previewable_def)

lemma preview_orders_ok:
  "list_ex (\<lambda>c. ck_status c = ''rejected'') (snd (preview_orders i os)) \<longleftrightarrow> \<not> list_all previewable os"
proof (induction i os rule: preview_orders.induct)
  case (2 i ord os)
  then show ?case using preview_order_checks(1) [of i ord] by (auto split: prod.splits)
qed simp

lemma preview_orders_normalized: "list_all previewable os \<Longrightarrow> fst (preview_orders i os) = map normalized_order os"
proof (induction i os rule: preview_orders.induct)
  case (2 i ord os)
  have "normalize_preview_order i ord = (normalized_order ord, snd (normalize_preview_order i ord))"
    using preview_order_checks(2) [of i ord] by (metis prod.collapse)
  moreover have "po_symbol (normalized_order ord) \<noteq> ''''" using "2.prems" by (simp add: normalized_order_def previewable_def)
  ultimately show ?case using 2 by (auto split: prod.splits)
qed simp

text \<open>C26. A preview is accepted exactly when the trader is configured in one of the three execution modes and there is an order, and
  every order has a symbol, a side, a type, a positive quantity and a price that is not negative, and positive for a limit order; then the preview
  shows every order in its normal form and has an identifier, otherwise it has none.\<close>

theorem preview_accepts_iff:
  "pv_accepted (build_order_preview sha payload V (Some r)) =
    (pw_orders r \<noteq> [] \<and> list_all previewable (pw_orders r) \<and>
     (case find_configured_trader V (pw_trader_id r) of None \<Rightarrow> False | Some t \<Rightarrow> tc_execution_mode t \<in> {mode_paper, mode_testnet, mode_live})) \<and>
   (if pv_accepted (build_order_preview sha payload V (Some r))
    then pv_normalized (build_order_preview sha payload V (Some r)) = map normalized_order (pw_orders r) \<and>
      pv_preview_id (build_order_preview sha payload V (Some r)) = preview_id sha payload r (map normalized_order (pw_orders r))
    else pv_preview_id (build_order_preview sha payload V (Some r)) = '''')"
proof (cases "find_configured_trader V (pw_trader_id r)")
  case None
  then show ?thesis by (simp add: build_order_preview_def rejected_preview_def find_configured_trader_def Let_def)
next
  case (Some t)
  obtain ns cs where p: "preview_orders 0 (pw_orders r) = (ns, cs)" by fastforce
  have ok: "list_ex (\<lambda>c. ck_status c = ''rejected'') cs \<longleftrightarrow> \<not> list_all previewable (pw_orders r)"
    and nrm: "list_all previewable (pw_orders r) \<Longrightarrow> ns = map normalized_order (pw_orders r)"
    using preview_orders_ok [of 0 "pw_orders r"] preview_orders_normalized [of "pw_orders r" 0] by (simp_all add: p)
  have mode: "ck_status (execution_mode_check m) = ''rejected'' \<longleftrightarrow> m \<notin> {mode_paper, mode_testnet, mode_live}" for m
    by (auto simp: execution_mode_check_def)
  show ?thesis using Some ok nrm
    by (cases "pw_orders r = []") (auto simp: build_order_preview_def rejected_preview_def find_configured_trader_def p mode Let_def)
qed

subsection \<open>Examples\<close>

definition paused_row :: "string \<Rightarrow> time option \<Rightarrow> runtime_row" where
  "paused_row reason until = \<lparr>rw_record = \<lparr>rr_trader_id = ''alpha'', rr_version = 1, rr_is_running = False,
     rr_detail = empty_detail\<lparr>rdt_pause := Some \<lparr>rpz_until = until, rpz_reason = reason\<rparr>\<rparr>\<rparr>, rw_updated_at = 0\<rparr>"

theorem status_matches_boot_witness:
  "st_status (status_of_row demo_trader_config (paused_row '''' (Some (100 * second))) (50 * second)) = ''paused'' \<and>
   st_status (status_of_row demo_trader_config (paused_row '''' (Some (100 * second))) (200 * second)) = ''stopped''"
proof -
  let ?row = "paused_row '''' (Some (100 * second))"
  have h: "case rdt_pause (rr_detail (rw_record ?row)) of Some p \<Rightarrow> rpz_until p \<noteq> None \<or> trim_space (rpz_reason p) \<noteq> '''' | None \<Rightarrow> True"
    by (simp add: paused_row_def)
  have "\<not> daily_over_limit (tc_risk_params demo_trader_config) (rr_detail (rw_record ?row)) n" for n
    by (simp add: paused_row_def daily_over_limit_def empty_detail_def)
  moreover have "stored_state (50 * second) (rw_record ?row) = TraderPaused" "stored_state (200 * second) (rw_record ?row) = TraderStopped"
    by code_simp+
  ultimately show ?thesis using status_matches_boot [OF h] by simp
qed

text \<open>Without the reason the two readings differ: the manager boots such a trader paused, the API calls it stopped.\<close>

theorem unexplained_pause_shown_stopped:
  "stored_state 50 (rw_record (paused_row '''' None)) = TraderPaused \<and>
   st_status (status_of_row demo_trader_config (paused_row '''' None) 50) = ''stopped''"
  by code_simp

definition order_event :: "string \<Rightarrow> time \<Rightarrow> audit_record" where
  "order_event symbol t = demo_audit\<lparr>al_type := ''order_submitted'', al_symbol := symbol, al_action := ''open_long'', al_created_at := t\<rparr>"

definition orders_trail :: audit_db where
  "orders_trail = snd (record_audit plain_codec 9000 (order_event ''BTC'' 8000) (snd (record_audit plain_codec 9000 (order_event ''ETH'' 7000) empty_audit)))"

definition demo_decode :: "string \<Rightarrow> goerror + json" where
  "demo_decode s = Inr (JObj [(''quantity'', JNum ''2''), (''price'', JStr ''100.5'')])"

definition demo_orders :: "orders_request \<Rightarrow> (goerror + api_order list \<times> list_meta \<times> string) \<times> audit_db option" where
  "demo_orders req = list_orders demo_decode (\<lambda>v. '''') (Some orders_trail) (Some req)"

definition all_orders :: orders_request where
  "all_orders = \<lparr>oq_trader = '''', oq_symbol = '''', oq_status = ''all'', oq_limit = 10, oq_offset = 0\<rparr>"

lemma demo_orders_facts:
  "(case fst (demo_orders all_orders) of Inl e \<Rightarrow> [] | Inr (os, m, st) \<Rightarrow> map or_symbol os) = [''BTC'', ''ETH'']"
  by code_simp

theorem orders_from_audit_witness:
  "\<exists>orders rs. map or_symbol orders = [''BTC'', ''ETH''] \<and> sorted_wrt newer_first rs \<and> length rs = 2 \<and>
     list_all (\<lambda>(r, ord). order_row_ok all_orders orders_trail r ord) (zip rs orders)"
proof -
  obtain orders meta st where o: "fst (demo_orders all_orders) = Inr (orders, meta, st)" and sym: "map or_symbol orders = [''BTC'', ''ETH'']"
    using demo_orders_facts by (cases "fst (demo_orders all_orders)") auto
  have "list_orders demo_decode (\<lambda>v. '''') (Some orders_trail) (Some all_orders) = (Inr (orders, meta, st), snd (demo_orders all_orders))"
    using o by (simp add: demo_orders_def prod_eq_iff)
  from orders_from_audit [OF this] obtain rs where rs: "length rs = length orders" "sorted_wrt newer_first rs"
    "list_all (\<lambda>(r, ord). order_from_audit_event demo_decode (\<lambda>v. '''') r = Inr ord \<and> order_row_ok all_orders orders_trail r ord) (zip rs orders)" by blast
  have "length orders = 2" using sym by (metis length_map length_Cons list.size(3) Suc_1 One_nat_def)
  then show ?thesis using rs sym by (intro exI [of _ orders] exI [of _ rs]) (auto simp: list_all_iff)
qed

text \<open>The trail is cut to the page before the symbol is looked at: with a limit of one the older order of the other symbol is not found, and
  the empty page names no next one.\<close>

theorem symbol_filter_after_cut:
  "(case fst (demo_orders (all_orders\<lparr>oq_symbol := ''ETH'', oq_limit := 1\<rparr>)) of Inl e \<Rightarrow> False
     | Inr (os, m, st) \<Rightarrow> os = [] \<and> lm_next_offset m = 0)"
  by code_simp

end
