(* ===== verification/PaperTrading.thy ===== *)
theory PaperTrading
  imports Execution Sim
begin

text \<open>
  The manager on the paper exchange: the composition of \<open>executeDecision\<close> (\<open>pkg/manager/manager.go\<close>) with the
  paper-trading provider (\<open>pkg/exchange/sim/provider.go\<close>). The provider answers every order it accepts with
  a clean response, so it is a \<open>clean_account\<close>, and an execution that fails leaves the account as it was.
  The examples at the end run an opening from the policy to the booked position.
\<close>

lemma filled_clean: "order_response_failure (Some (filled_response x px oid)) = None"
proof -
  have "to_lower (trim_space ''ok'') = ''ok''" "trim_space '''' = ''''" by code_simp+
  then show ?thesis by (simp add: filled_response_def order_response_failure_def)
qed

lemma settle_clean: "settle_order it c px sz b ro fee p = (Inr resp, p') \<Longrightarrow> order_response_failure resp = None"
  by (auto simp: settle_order_def Let_def filled_clean split: prod.splits sum.splits)

lemma place_clean: "place_order it ord p = (Inr resp, p') \<Longrightarrow> order_response_failure resp = None"
  by (auto simp: place_order_def Let_def split: prod.splits if_splits dest: settle_clean)

lemma close_clean: "close_position it c p = (Inr resp, p') \<Longrightarrow> p' = p \<or> order_response_failure resp = None"
  by (auto simp: close_position_def Let_def split: option.splits if_splits dest: settle_clean)

lemma market_clean: "ioc_market it c b q s r p = (Inr resp, p') \<Longrightarrow> order_response_failure resp = None"
  by (auto simp: ioc_market_def Let_def split: prod.splits sum.splits if_splits dest: place_clean)

lemma sim_accepted_clean:
  assumes "trading_account.accepted (sim_provider it) (\<lambda>p. (cash p, lookup (positions p))) sim_inv resp"
  shows "order_response_failure resp = None"
proof -
  note a = assms [unfolded trading_account.accepted_def [OF sim.trading_account_axioms]]
  have "pv_place_order (sim_provider it) = place_order it" "pv_close_position (sim_provider it) = close_position it"
    "pv_ioc_market (sim_provider it) = Some (ioc_market it)" by (simp_all add: sim_provider_def)
  note a [unfolded this]
  then show ?thesis using place_clean market_clean close_clean by (metis option.inject)
qed

interpretation paper: clean_account "sim_provider it" "\<lambda>p. (cash p, lookup (positions p))" sim_inv
  by unfold_locales (rule sim_accepted_clean)

text \<open>C11. On the paper exchange an execution is all or nothing: whenever it returns an error, at
  whatever stage, the cash and the positions of the account are what they were.\<close>

theorem paper_execution_atomic:
  assumes "book_inv m" "sim_inv w"
    and "execute_decision getenv (sim_provider sit) snap sha it now tid d m w = ((Some e, m'), w')"
  shows "sim_inv w' \<and> cash w' = cash w \<and> lookup (positions w') = lookup (positions w)"
  using paper.failed_decision [OF assms(3,1,2)] by simp

text \<open>The account changes only under authority: if executing a decision changes the cash or a position, the
  token was valid for that decision at that moment and, for an open, the symbol was free, there
  was room and the hard risk checks passed on the account as just synchronised.\<close>

theorem paper_account_guarded:
  assumes "book_inv m" "sim_inv w"
    and "execute_decision_with_approval (sim_provider sit) snap sha it now tid d approval trace m w = ((r, m'), w')"
    and "cash w' \<noteq> cash w \<or> lookup (positions w') \<noteq> lookup (positions w)"
  shows "authorized (sim_provider sit) it now tid d approval m w"
  using trading_account.execute_settled [OF sim.trading_account_axioms assms(3,1,2)] assms(4) by auto

subsection \<open>Examples\<close>

definition demo_sha :: "string \<Rightarrow> int list" where
  "demo_sha s = replicate 32 7"

definition demo_snap :: snapshot_source where
  "demo_snap s = Inr None"

definition plain_iter :: reconcile_iter where
  "plain_iter = \<lparr>ri_virtual = (\<lambda>m. m), ri_actual = (\<lambda>m. m)\<rparr>"

text \<open>A manager with one paper trader, and an account that is empty.\<close>

definition paper_manager :: manager where
  "paper_manager = set_trader (demo_trader\<lparr>tr_id := ''beta''\<rparr>) (new_manager demo_config [(''paper'', ''*sim.Provider'')] [''hl''] True)"

lemma paper_manager_inv: "book_inv paper_manager"
  by code_simp

lemma sim_new_inv: "sim_inv sim_new"
  by code_simp

definition paper_run :: "string \<Rightarrow> decision \<Rightarrow> manager \<Rightarrow> sim \<Rightarrow> (goerror option \<times> manager) \<times> sim" where
  "paper_run tid d m w = execute_decision no_env (sim_provider list_iter) demo_snap demo_sha plain_iter 9 tid d m w"

definition paper_opened :: "(goerror option \<times> manager) \<times> sim" where
  "paper_opened = paper_run ''beta'' eth_open paper_manager sim_new"

text \<open>What the run leaves, evaluated once.\<close>

lemma paper_facts:
  "case paper_opened of ((r, m), w) \<Rightarrow> r = None \<and> book_inv m \<and> sim_inv w \<and>
     fst (fst (reconcile_trader_positions (sim_provider list_iter) plain_iter 9 ''beta'' paper_manager w)) = None \<and>
     list_ex (\<lambda>p. open_size p \<and> pos_coin p = ''ETH'') (fst (build_account_snapshot list_iter w)) \<and>
     fst (fst (paper_run ''beta'' eth_open m w)) \<noteq> None"
  by code_simp

lemma paper_open_ok: "fst (fst paper_opened) = None"
  using paper_facts by (simp add: case_prod_unfold)

lemma paper_opened_eq:
  "execute_decision no_env (sim_provider list_iter) demo_snap demo_sha plain_iter 9 ''beta'' eth_open paper_manager sim_new =
     ((None, snd (fst paper_opened)), snd paper_opened)"
  unfolding paper_run_def [symmetric] paper_opened_def [symmetric] using paper_open_ok by (metis prod.collapse)

lemma eth_open_action: "is_open_action (dec_action eth_open)" "dec_symbol eth_open = ''eth''"
  by code_simp+

lemma paper_opened_inv: "book_inv (snd (fst paper_opened))" "sim_inv (snd paper_opened)"
  using paper_facts by (simp_all add: case_prod_unfold)

theorem execution_confined_witness: "holds (snd (fst paper_opened)) ''beta'' ''eth'' \<and> book_inv (snd (fst paper_opened))"
  using execution_confined [OF paper_manager_inv paper_opened_eq] eth_open_action by simp

theorem trade_audited_witness:
  "\<exists>ap. \<exists>a \<in> set (mg_events (snd (fst paper_opened))). \<exists>s \<in> set (mg_events (snd (fst paper_opened))).
     audited Approved ap a \<and> audited OrderSubmitted ap s"
  using trade_audited [OF paper_opened_eq] eth_open_action(1) by fastforce

theorem reconcile_matches_witness:
  "get_position_owner (snd (fst (reconcile_trader_positions (sim_provider list_iter) plain_iter 9 ''beta'' paper_manager
     (snd paper_opened)))) ''ETH'' \<noteq> ''''"
proof -
  let ?r = "reconcile_trader_positions (sim_provider list_iter) plain_iter 9 ''beta'' paper_manager (snd paper_opened)"
  let ?raw = "fst (build_account_snapshot list_iter (snd paper_opened))"
  have g: "pv_get_positions (sim_provider list_iter) (snd paper_opened) = (Inr ?raw, snd paper_opened)"
    by (simp add: sim_provider_def get_positions_def split: prod.splits)
  have "fst (fst ?r) = None" using paper_facts by (simp add: case_prod_unfold)
  then have r: "?r = ((None, snd (fst ?r)), snd ?r)" by (metis prod.collapse)
  have "list_ex (\<lambda>p. open_size p \<and> pos_coin p = ''ETH'') ?raw" using paper_facts by (simp add: case_prod_unfold)
  then obtain p where "p \<in> set ?raw" "open_size p" "pos_coin p = ''ETH''" by (auto simp: list_ex_iff)
  moreover have "is_order (ri_virtual plain_iter)" "is_order (ri_actual plain_iter)" by (simp_all add: plain_iter_def)
  ultimately show ?thesis using reconcile_matches [OF paper_manager_inv _ _ g r] by metis
qed

theorem paper_execution_atomic_witness:
  "fst (fst (paper_run ''beta'' eth_open (snd (fst paper_opened)) (snd paper_opened))) \<noteq> None \<and>
   cash (snd (paper_run ''beta'' eth_open (snd (fst paper_opened)) (snd paper_opened))) = cash (snd paper_opened)"
proof -
  let ?r = "paper_run ''beta'' eth_open (snd (fst paper_opened)) (snd paper_opened)"
  have e: "fst (fst ?r) \<noteq> None" using paper_facts by (simp add: case_prod_unfold)
  then obtain x where "fst (fst ?r) = Some x" by blast
  then have "?r = ((Some x, snd (fst ?r)), snd ?r)" by (metis prod.collapse)
  from paper_execution_atomic [OF paper_opened_inv this [unfolded paper_run_def]] e show ?thesis by (simp add: paper_run_def)
qed

theorem paper_account_guarded_witness:
  "authorized (sim_provider list_iter) plain_iter 9 ''beta'' (eth_open\<lparr>dec_leverage := 10\<rparr>) (Some eth_token) paper_manager sim_new"
proof -
  let ?r = "execute_decision_with_approval (sim_provider list_iter) demo_snap demo_sha plain_iter 9 ''beta'' (eth_open\<lparr>dec_leverage := 10\<rparr>)
    (Some eth_token) \<lparr>at_cycle_id = 1, at_correlation_id = ''c'', at_prompt_digest = ''''\<rparr> paper_manager sim_new"
  have "cash (snd ?r) \<noteq> cash sim_new" by code_simp
  moreover have "?r = ((fst (fst ?r), snd (fst ?r)), snd ?r)" by simp
  ultimately show ?thesis using paper_account_guarded [OF paper_manager_inv sim_new_inv] by blast
qed

end
