(* ===== verification/CommandWorker.thy ===== *)
theory CommandWorker
  imports CommandStore PaperTrading
begin

text \<open>
  The worker that executes control commands (\<open>pkg/manager/control_command_worker.go\<close>), over the repository interface, and the
  service that runs several of them (\<open>internal/commandworker/runtime.go\<close>): each process has its own manager, all share the
  database and the exchange.

  A step of the pool is one call of the repository or the processing of one claimed command; a process may die at
  any moment between its steps, and every statement of the database may fail. \<open>po_log\<close> is a history of the commands
  handed to \<open>ExecuteDecision\<close>.

  Shown: no command is executed twice and none but an approved decision is executed, whatever the interleaving, the errors and the
  crashes; and a worker that meets no error settles every queued command, in a number of rounds that the length of the queue and the batch size bound.
\<close>

subsection \<open>One command\<close>

text \<open>What a manager executes with: the environment, the providers a trader is bound to, the digest and the order of its maps.\<close>

record 'w trade_env =
  te_getenv :: "string \<Rightarrow> string"
  te_provider :: "string \<Rightarrow> 'w provider"
  te_snap :: "string \<Rightarrow> snapshot_source"
  te_sha :: "string \<Rightarrow> int list"
  te_iter :: reconcile_iter

definition execute_for :: "'w trade_env \<Rightarrow> time \<Rightarrow> string \<Rightarrow> decision \<Rightarrow> manager \<Rightarrow> 'w \<Rightarrow> (goerror option \<times> manager) \<times> 'w" where
  "execute_for E now tid d m w =
    execute_decision (te_getenv E) (te_provider E tid) (te_snap E tid) (te_sha E) (te_iter E) now tid d m w"

definition execute_for_trader_id :: "'w trade_env \<Rightarrow> time \<Rightarrow> string \<Rightarrow> decision \<Rightarrow> manager \<Rightarrow> 'w \<Rightarrow> (goerror option \<times> manager) \<times> 'w" where
  "execute_for_trader_id E now tid0 d m w =
    (let tid = trim_space tid0 in
     if tid = '''' then ((Some (Errorf ''manager: trader id is required'' []), m), w)
     else case lookup (mg_traders m) tid of
       None \<Rightarrow> ((Some (Errorf ''manager: trader %s not found'' [tid]), m), w)
     | Some t \<Rightarrow> execute_for E now tid d m w)"

text \<open>The policy completes the decision it is given; the worker reports the completed one.\<close>

definition completed_decision :: "'w trade_env \<Rightarrow> time \<Rightarrow> string \<Rightarrow> decision \<Rightarrow> manager \<Rightarrow> decision" where
  "completed_decision E now tid d m = snd (fst (approve_decision (te_getenv E) now (trim_space tid) d m))"

definition validate_worker_decision :: "decision \<Rightarrow> goerror option" where
  "validate_worker_decision d = (if trim_space (dec_action d) = '''' then Some (Errorf ''decision action is required'' []) else None)"

definition is_trade_action :: "string \<Rightarrow> bool" where
  "is_trade_action a \<longleftrightarrow> trim_space a \<in> {''open_long'', ''open_short'', ''close_long'', ''close_short''}"

definition checked_decision :: "string \<Rightarrow> decision \<Rightarrow> goerror + string \<times> decision" where
  "checked_decision tid d = (case validate_worker_decision d of Some e \<Rightarrow> Inl e | None \<Rightarrow> Inr (tid, d))"

definition decision_from_command :: "json_codec \<Rightarrow> command \<Rightarrow> goerror + string \<times> decision" where
  "decision_from_command J c =
    (case (if cm_detail c = '''' then Inr \<lparr>pl_trader_id = '''', pl_decision = None, pl_decisions = []\<rparr> else jc_payload J (cm_detail c)) of
       Inl e \<Rightarrow> Inl (Wrapf ''invalid command detail: %w'' [] e)
     | Inr p \<Rightarrow>
       let tid = (if trim_space (cm_trader_id c) = '''' then trim_space (pl_trader_id p) else trim_space (cm_trader_id c)) in
       if tid = '''' then Inl (Errorf ''decision command missing trader_id'' [])
       else case pl_decision p of
         Some d \<Rightarrow> checked_decision tid d
       | None \<Rightarrow> (case pl_decisions p of
           d # _ \<Rightarrow> checked_decision tid d
         | [] \<Rightarrow>
           let missing = Inl (Errorf ''decision command missing decision payload'' []) in
           if cm_detail c = '''' then missing
           else case jc_decision J (cm_detail c) of
             Inr d \<Rightarrow> if trim_space (dec_action d) \<noteq> '''' then checked_decision tid d else missing
           | Inl _ \<Rightarrow> missing))"

definition command_worker_detail :: "json_codec \<Rightarrow> command \<Rightarrow> decision option \<Rightarrow> goerror option \<Rightarrow> string" where
  "command_worker_detail J c d e =
    (case jc_detail J \<lparr>wd_command = c, wd_decision = d,
        wd_submitted = (case d of None \<Rightarrow> False | Some x \<Rightarrow> is_trade_action (dec_action x)),
        wd_error = (case e of None \<Rightarrow> '''' | Some x \<Rightarrow> error_text x)\<rparr> of
       Inl _ \<Rightarrow> ''{\"detail_error\":\"marshal_failed\"}''
     | Inr s \<Rightarrow> s)"

text \<open>\<open>processCommand\<close>: the repository, the manager and the exchange it leaves, and the status it reports.\<close>

definition fail_command :: "'r command_repo \<Rightarrow> json_codec \<Rightarrow> time \<Rightarrow> command \<Rightarrow> decision option \<Rightarrow> goerror \<Rightarrow> 'r \<Rightarrow> 'r" where
  "fail_command R J now c d e s = snd (rp_fail R now (cm_id c) (error_text e) (command_worker_detail J c d (Some e)) s)"

definition process_command ::
  "'r command_repo \<Rightarrow> json_codec \<Rightarrow> 'w trade_env \<Rightarrow> time \<Rightarrow> command \<Rightarrow> 'r \<times> manager \<times> 'w \<Rightarrow> string \<times> 'r \<times> manager \<times> 'w" where
  "process_command R J E now c st = (case st of (s, m, w) \<Rightarrow>
     if cm_action c = ''reject''
     then (status_cancelled, snd (rp_cancel R now (cm_id c) ''operator rejected command'' (command_worker_detail J c None None) s), m, w)
     else if cm_target c \<noteq> target_decision \<or> cm_action c \<noteq> ''approve''
     then (status_failed, fail_command R J now c None
       (Errorf ''unsupported command target/action %s/%s'' [cm_target c, cm_action c]) s, m, w)
     else case decision_from_command J c of
       Inl e \<Rightarrow> (status_failed, fail_command R J now c None e s, m, w)
     | Inr (tid, d) \<Rightarrow>
       let d' = completed_decision E now tid d m in
       (case execute_for_trader_id E now tid d m w of
          ((Some e, m1), w1) \<Rightarrow> (status_failed, fail_command R J now c (Some d') e s, m1, w1)
        | ((None, m1), w1) \<Rightarrow> (status_completed, snd (rp_complete R now (cm_id c) (is_trade_action (dec_action d'))
            (command_worker_detail J c (Some d') None) s), m1, w1)))"

text \<open>Whether \<open>processCommand\<close> hands the command to \<open>ExecuteDecision\<close>.\<close>

definition executes :: "json_codec \<Rightarrow> command \<Rightarrow> bool" where
  "executes J c \<longleftrightarrow> cm_target c = target_decision \<and> cm_action c = ''approve'' \<and> is_ok (decision_from_command J c)"

subsection \<open>A round of the worker\<close>

record worker_result =
  wr_claimed :: int
  wr_completed :: int
  wr_failed :: int
  wr_cancelled :: int

definition count_outcome :: "string \<Rightarrow> worker_result \<Rightarrow> worker_result" where
  "count_outcome outcome r =
    (if outcome = status_completed then r\<lparr>wr_completed := wr_completed r + 1\<rparr>
     else if outcome = status_cancelled then r\<lparr>wr_cancelled := wr_cancelled r + 1\<rparr>
     else r\<lparr>wr_failed := wr_failed r + 1\<rparr>)"

fun process_all ::
  "'r command_repo \<Rightarrow> json_codec \<Rightarrow> 'w trade_env \<Rightarrow> time \<Rightarrow> command list \<Rightarrow> worker_result \<Rightarrow> 'r \<times> manager \<times> 'w \<Rightarrow>
   worker_result \<times> 'r \<times> manager \<times> 'w" where
  "process_all R J E now [] r st = (r, st)"
| "process_all R J E now (c # cs) r st =
    (case process_command R J E now c st of (outcome, st1) \<Rightarrow> process_all R J E now cs (count_outcome outcome r) st1)"

definition worker_batch :: "int \<Rightarrow> int" where
  "worker_batch batch = (if batch \<le> 0 then 10 else batch)"

definition process_once ::
  "'r command_repo \<Rightarrow> json_codec \<Rightarrow> 'w trade_env \<Rightarrow> time \<Rightarrow> int \<Rightarrow> 'r \<times> manager \<times> 'w \<Rightarrow>
   (goerror + worker_result) \<times> 'r \<times> manager \<times> 'w" where
  "process_once R J E now batch st = (case st of (s, m, w) \<Rightarrow>
     case rp_claim_queued R now (worker_batch batch) s of
       (Inl e, s1) \<Rightarrow> (Inl e, s1, m, w)
     | (Inr cs, s1) \<Rightarrow>
       (case process_all R J E now cs \<lparr>wr_claimed = int (length cs), wr_completed = 0, wr_failed = 0, wr_cancelled = 0\<rparr> (s1, m, w) of
          (r, st1) \<Rightarrow> (Inr r, st1)))"

subsection \<open>A pool of workers\<close>

record worker =
  wk_manager :: manager
  wk_batch :: "command list"

record ('r, 'w) pool =
  po_repo :: 'r
  po_world :: 'w
  po_workers :: "worker list"
  po_log :: "string list"

inductive pool_step ::
  "'r command_repo \<Rightarrow> json_codec \<Rightarrow> 'w trade_env \<Rightarrow> ('r, 'w) pool \<Rightarrow> ('r, 'w) pool \<Rightarrow> bool" for R J E where
  pool_enqueue: "rp_enqueue R nonce now c (po_repo p) = (res, s') \<Longrightarrow> pool_step R J E p (p\<lparr>po_repo := s'\<rparr>)"
| pool_claim: "i < length (po_workers p) \<Longrightarrow> wk_batch (po_workers p ! i) = [] \<Longrightarrow>
    rp_claim_queued R now n (po_repo p) = (Inr cs, s') \<Longrightarrow>
    pool_step R J E p (p\<lparr>po_repo := s', po_workers := (po_workers p)[i := (po_workers p ! i)\<lparr>wk_batch := cs\<rparr>]\<rparr>)"
| pool_claim_error: "rp_claim_queued R now n (po_repo p) = (Inl e, s') \<Longrightarrow> pool_step R J E p (p\<lparr>po_repo := s'\<rparr>)"
| pool_process: "i < length (po_workers p) \<Longrightarrow> po_workers p ! i = \<lparr>wk_manager = m, wk_batch = c # cs\<rparr> \<Longrightarrow>
    process_command R J E now c (po_repo p, m, po_world p) = (outcome, s', m', w') \<Longrightarrow>
    pool_step R J E p (p\<lparr>po_repo := s', po_world := w', po_workers := (po_workers p)[i := \<lparr>wk_manager = m', wk_batch = cs\<rparr>],
      po_log := (if executes J c then cm_id c # po_log p else po_log p)\<rparr>)"
| pool_crash: "i < length (po_workers p) \<Longrightarrow>
    pool_step R J E p (p\<lparr>po_workers := (po_workers p)[i := \<lparr>wk_manager = m', wk_batch = []\<rparr>]\<rparr>)"
| pool_world: "pool_step R J E p (p\<lparr>po_world := w'\<rparr>)"

inductive_cases pool_stepE: "pool_step R J E p p'"

text \<open>The commands in the hands of the workers.\<close>

definition held_ids :: "worker list \<Rightarrow> string list" where
  "held_ids ws = concat (map (\<lambda>k. map cm_id (wk_batch k)) ws)"

lemma mset_held_update:
  "i < length ws \<Longrightarrow> mset (held_ids (ws[i := k])) + mset (map cm_id (wk_batch (ws ! i))) = mset (held_ids ws) + mset (map cm_id (wk_batch k))"
  unfolding held_ids_def
  by (induction ws arbitrary: i) (auto split: nat.splits simp: nth_Cons')

subsection \<open>No command is executed twice\<close>

text \<open>What every operation of the repository keeps: a command keeps its target and its action, and it does not become queued again.\<close>

definition view_advances :: "queue_view \<Rightarrow> queue_view \<Rightarrow> bool" where
  "view_advances v v' \<longleftrightarrow> (\<forall>i t a st. v i = Some (t, a, st) \<longrightarrow>
     (\<exists>st'. v' i = Some (t, a, st') \<and> (st' = status_queued \<longrightarrow> st = status_queued)))"

lemma view_advances_refl [simp]: "view_advances v v"
  by (simp add: view_advances_def)

lemma grows_advances: "view_grows v v' \<Longrightarrow> view_advances v v'"
  by (force simp: view_grows_def view_advances_def)

lemma claims_advances: "view_claims cs v v' \<Longrightarrow> view_advances v v'"
  by (auto simp: view_claims_def view_advances_def)

lemma settles_advances: "view_settles cid st v v' \<Longrightarrow> st \<noteq> status_queued \<Longrightarrow> view_advances v v'"
  unfolding view_settles_def view_advances_def
proof (intro allI impI)
  fix i t a s assume h: "\<forall>i. v' i = v i \<or> i = cid \<and> v' i = restatus st (v i)" "st \<noteq> status_queued" "v i = Some (t, a, s)"
  then have "v' i = Some (t, a, s) \<or> v' i = Some (t, a, st)" by (metis restatus_simps(2))
  then show "\<exists>st'. v' i = Some (t, a, st') \<and> (st' = status_queued \<longrightarrow> s = status_queued)" using h(2) by auto
qed

definition claimed_as :: "queue_view \<Rightarrow> command \<Rightarrow> bool" where
  "claimed_as v c \<longleftrightarrow> (\<exists>st. v (cm_id c) = Some (cm_target c, cm_action c, st) \<and> st \<noteq> status_queued)"

definition executed_as :: "queue_view \<Rightarrow> string \<Rightarrow> bool" where
  "executed_as v i \<longleftrightarrow> (\<exists>st. v i = Some (target_decision, ''approve'', st) \<and> st \<noteq> status_queued)"

lemma claimed_as_advance: "claimed_as v c \<Longrightarrow> view_advances v v' \<Longrightarrow> claimed_as v' c"
  unfolding claimed_as_def view_advances_def by metis

lemma executed_as_advance: "executed_as v i \<Longrightarrow> view_advances v v' \<Longrightarrow> executed_as v' i"
  unfolding executed_as_def view_advances_def by metis

lemma not_queued: "claimed_as v c \<Longrightarrow> v (cm_id c) \<noteq> Some (t, a, status_queued)" "executed_as v i \<Longrightarrow> v i \<noteq> Some (t, a, status_queued)"
  by (auto simp: claimed_as_def executed_as_def)

text \<open>The commands that are held or have been executed are distinct and were claimed; those executed are approved decisions.\<close>

definition pool_inv :: "('r \<Rightarrow> bool) \<Rightarrow> ('r \<Rightarrow> queue_view) \<Rightarrow> ('r, 'w) pool \<Rightarrow> bool" where
  "pool_inv rinv view p \<longleftrightarrow> rinv (po_repo p) \<and> distinct (held_ids (po_workers p) @ po_log p) \<and>
     (\<forall>k \<in> set (po_workers p). \<forall>c \<in> set (wk_batch k). claimed_as (view (po_repo p)) c) \<and>
     (\<forall>i \<in> set (po_log p). executed_as (view (po_repo p)) i)"

lemma pool_inv_advance:
  assumes "pool_inv rinv view p" "rinv s'" "view_advances (view (po_repo p)) (view s')"
  shows "pool_inv rinv view (p\<lparr>po_repo := s'\<rparr>)"
  using assms claimed_as_advance [OF _ assms(3)] executed_as_advance [OF _ assms(3)] by (simp add: pool_inv_def)

lemma ball_update: "\<forall>x \<in> set xs. Q x \<Longrightarrow> Q y \<Longrightarrow> \<forall>x \<in> set (xs[i := y]). Q x"
  using set_update_subset_insert [of xs i y] by blast

lemma mset_distinct: "mset xs = mset ys \<Longrightarrow> distinct xs = distinct ys"
  by (rule mset_eq_imp_distinct_iff)

lemma fail_neq: "status_failed \<noteq> status_queued" "status_cancelled \<noteq> status_queued" "status_completed \<noteq> status_queued"
  by simp_all

context command_repository
begin

lemma process_advances:
  assumes "process_command R J E now c (s, m, w) = (outcome, s', m', w')" "rinv s"
  shows "rinv s' \<and> view_advances (view s) (view s')"
proof -
  have f: "rinv (snd (rp_fail R now cid x d s)) \<and> view_advances (view s) (view (snd (rp_fail R now cid x d s)))" for cid x d
    using fail_law [OF prod.collapse [symmetric] assms(2)] settles_advances by (metis fail_neq)
  have k: "rinv (snd (rp_cancel R now cid x d s)) \<and> view_advances (view s) (view (snd (rp_cancel R now cid x d s)))" for cid x d
    using cancel_law [OF prod.collapse [symmetric] assms(2)] settles_advances by (metis fail_neq)
  have o: "rinv (snd (rp_complete R now cid b d s)) \<and> view_advances (view s) (view (snd (rp_complete R now cid b d s)))" for cid b d
    using complete_law [OF prod.collapse [symmetric] assms(2)] settles_advances by (metis fail_neq)
  show ?thesis using assms(1) f k o
    by (auto simp: process_command_def fail_command_def Let_def split: if_splits sum.splits prod.splits option.splits)
qed

lemma process_all_inv:
  assumes "process_all R J E now cs r (s, m, w) = (r', s', m', w')" "rinv s"
  shows "rinv s'"
  using assms
proof (induction cs arbitrary: r s m w)
  case (Cons c cs)
  obtain outcome s1 m1 w1 where p: "process_command R J E now c (s, m, w) = (outcome, s1, m1, w1)" by (metis prod_cases4)
  then show ?case using Cons.IH [of "count_outcome outcome r" s1 m1 w1] Cons.prems process_advances [OF p] by simp
qed simp

lemma pool_step_inv:
  assumes "pool_step R J E p p'" "pool_inv rinv view p"
  shows "pool_inv rinv view p'"
  using assms(1)
proof (cases rule: pool_step.cases)
  case (pool_enqueue nonce now c res s')
  show ?thesis unfolding pool_enqueue(1)
    using enqueue_law [OF pool_enqueue(2)] assms(2) by (intro pool_inv_advance) (auto simp: pool_inv_def grows_advances)
next
  case (pool_claim_error now n e s')
  show ?thesis unfolding pool_claim_error(1)
    using claim_error [OF pool_claim_error(2)] assms(2) by (intro pool_inv_advance) (auto simp: pool_inv_def)
next
  case (pool_claim i now n cs s')
  let ?ws = "po_workers p" and ?v = "view (po_repo p)"
  have cl: "rinv s'" "view_claims cs ?v (view s')"
    using claim_law [OF pool_claim(4)] assms(2) by (simp_all add: pool_inv_def)
  have fresh: "cm_id c \<notin> set (held_ids ?ws @ po_log p)" if "c \<in> set cs" for c
  proof
    assume "cm_id c \<in> set (held_ids ?ws @ po_log p)"
    then have "claimed_as ?v c \<or> executed_as ?v (cm_id c) \<or> (\<exists>c'. claimed_as ?v c' \<and> cm_id c' = cm_id c)"
      using assms(2) by (auto simp: pool_inv_def held_ids_def) blast
    moreover have "?v (cm_id c) = Some (cm_target c, cm_action c, status_queued)" using cl(2) that by (simp add: view_claims_def)
    ultimately show False using not_queued by metis
  qed
  have new: "\<forall>c \<in> set cs. claimed_as (view s') c"
    using cl(2) by (auto simp: view_claims_def claimed_as_def)
  have "mset (held_ids (?ws[i := (?ws ! i)\<lparr>wk_batch := cs\<rparr>]) @ po_log p) = mset (held_ids ?ws @ map cm_id cs @ po_log p)"
    using mset_held_update [OF pool_claim(2), of "(?ws ! i)\<lparr>wk_batch := cs\<rparr>"] pool_claim(3) by simp
  moreover have "distinct (held_ids ?ws @ map cm_id cs @ po_log p)"
    using assms(2) cl(2) fresh by (auto simp: pool_inv_def view_claims_def)
  ultimately have d: "distinct (held_ids (?ws[i := (?ws ! i)\<lparr>wk_batch := cs\<rparr>]) @ po_log p)" using mset_distinct by blast
  have base: "pool_inv rinv view (p\<lparr>po_repo := s'\<rparr>)"
    using pool_inv_advance [OF assms(2) cl(1)] claims_advances [OF cl(2)] by simp
  have "\<forall>k \<in> set (?ws[i := (?ws ! i)\<lparr>wk_batch := cs\<rparr>]). \<forall>c \<in> set (wk_batch k). claimed_as (view s') c"
    by (rule ball_update) (use base new in \<open>simp_all add: pool_inv_def\<close>)
  then show ?thesis unfolding pool_claim(1) using base d by (simp add: pool_inv_def)
next
  case (pool_process i m c cs now outcome s' m' w')
  let ?ws = "po_workers p" and ?k = "\<lparr>wk_manager = m', wk_batch = cs\<rparr>"
  have adv: "rinv s'" "view_advances (view (po_repo p)) (view s')"
    using process_advances [OF pool_process(4)] assms(2) by (simp_all add: pool_inv_def)
  have base: "pool_inv rinv view (p\<lparr>po_repo := s'\<rparr>)" using pool_inv_advance [OF assms(2) adv] .
  have at: "?ws ! i \<in> set ?ws" using pool_process(2) by simp
  have c: "claimed_as (view s') c" and cs: "\<forall>c \<in> set cs. claimed_as (view s') c"
    using base at pool_process(3) by (auto simp: pool_inv_def)
  have "mset (cm_id c # held_ids (?ws[i := ?k]) @ po_log p) = mset (held_ids ?ws @ po_log p)"
    using mset_held_update [OF pool_process(2), of ?k] pool_process(3) by simp
  then have d: "distinct (cm_id c # held_ids (?ws[i := ?k]) @ po_log p)"
    using assms(2) mset_distinct [of "cm_id c # held_ids (?ws[i := ?k]) @ po_log p" "held_ids ?ws @ po_log p"] by (simp add: pool_inv_def)
  have "\<forall>k \<in> set (?ws[i := ?k]). \<forall>c \<in> set (wk_batch k). claimed_as (view s') c"
    by (rule ball_update) (use base cs in \<open>simp_all add: pool_inv_def\<close>)
  moreover have "executes J c \<longrightarrow> executed_as (view s') (cm_id c)" using c by (auto simp: executes_def claimed_as_def executed_as_def)
  ultimately show ?thesis unfolding pool_process(1) using base d by (simp add: pool_inv_def)
next
  case (pool_crash i m')
  let ?ws = "po_workers p" and ?k = "\<lparr>wk_manager = m', wk_batch = []\<rparr>"
  have "mset (map cm_id (wk_batch (?ws ! i)) @ held_ids (?ws[i := ?k]) @ po_log p) = mset (held_ids ?ws @ po_log p)"
    using mset_held_update [OF pool_crash(2), of ?k] by (simp add: add.commute)
  then have "distinct (map cm_id (wk_batch (?ws ! i)) @ held_ids (?ws[i := ?k]) @ po_log p)"
    using assms(2) mset_distinct [of "map cm_id (wk_batch (?ws ! i)) @ held_ids (?ws[i := ?k]) @ po_log p" "held_ids ?ws @ po_log p"] by (simp add: pool_inv_def)
  moreover have "\<forall>k \<in> set (?ws[i := ?k]). \<forall>c \<in> set (wk_batch k). claimed_as (view (po_repo p)) c"
    by (rule ball_update) (use assms(2) in \<open>simp_all add: pool_inv_def\<close>)
  ultimately show ?thesis unfolding pool_crash(1) using assms(2) by (simp add: pool_inv_def)
next
  case (pool_world w')
  then show ?thesis using assms(2) by (simp add: pool_inv_def)
qed

lemma pool_steps_inv:
  assumes "(pool_step R J E)\<^sup>*\<^sup>* p p'" "pool_inv rinv view p"
  shows "pool_inv rinv view p'"
  using assms by (induction rule: rtranclp_induct) (auto intro: pool_step_inv)

end




subsection \<open>The queue is drained\<close>

text \<open>The reports of the worker are JSON objects, which can be read back: the one property of \<open>encoding/json\<close> that is used.\<close>

definition reports_readable :: "json_codec \<Rightarrow> bool" where
  "reports_readable J \<longleftrightarrow> (\<forall>c d e ms. is_ok (jc_merge J (trim_space (command_worker_detail J c d e)) ms))"

definition is_terminal :: "string \<Rightarrow> bool" where
  "is_terminal st \<longleftrightarrow> st \<in> {status_completed, status_failed, status_cancelled}"

lemma terminal_open: "is_terminal st \<Longrightarrow> st \<noteq> status_queued \<and> st \<noteq> status_processing \<and> trim_space st = st"
  using status_trim by (auto simp: is_terminal_def)

definition settled_at :: "string \<Rightarrow> queue_view \<Rightarrow> queue_view \<Rightarrow> bool" where
  "settled_at i v v' \<longleftrightarrow> (\<exists>st. is_terminal st \<and> v' = v(i := restatus st (v i)))"

lemma update_settles:
  assumes "db_faults db = []" "is_ok (jc_merge J (trim_space d) ((if trim_space x = '''' then [] else [(''terminal_reason'', trim_space x)]) @
      [(''terminal_at'', format_rfc3339_nano now)]))" "trim_space cid = cid" "trim_space status = status"
  shows "db_faults (snd (update_terminal J now cid status b x d db)) = [] \<and>
    store_view (snd (update_terminal J now cid status b x d db)) =
      (store_view db)(cid := restatus status (store_view db cid))"
proof -
  obtain p where p: "terminal_detail J now x d = Inr p" using assms(2) by (auto simp: terminal_detail_def is_ok_iff split: sum.splits)
  let ?db = "snd (update_terminal J now cid status b x d db)"
  have db: "?db = db\<lparr>db_rows := map (settle_row now cid status b p) (db_rows db)\<rparr>"
    by (simp add: update_terminal_def p update_status_def next_fault_def assms(1,3))
  have "store_view ?db i = map_option (\<lambda>(t, a, s). (t, a, if i = cid then status else s)) (store_view db i)" for i
    by (rule store_view_map [where f = "settle_row now cid status b p"]) (simp_all add: db row_view_def assms(3,4))
  then show ?thesis by (auto simp: db assms(1) fun_eq_iff map_option_case split: option.splits)
qed

lemma process_settles:
  assumes "process_command (store_repo J sha scan) J E now c (db, m, w) = (outcome, db', m', w')"
    "reports_readable J" "db_faults db = []" "trim_space (cm_id c) = cm_id c"
  shows "db_faults db' = [] \<and> settled_at (cm_id c) (store_view db) (store_view db')"
proof -
  have u: "db_faults (snd (update_terminal J now (cm_id c) st b x (command_worker_detail J c d e) db)) = [] \<and>
      settled_at (cm_id c) (store_view db) (store_view (snd (update_terminal J now (cm_id c) st b x (command_worker_detail J c d e) db)))"
    if "is_terminal st" for st b x d e
  proof -
    have "trim_space st = st" using terminal_open [OF that] by simp
    moreover have "is_ok (jc_merge J (trim_space (command_worker_detail J c d e)) ms)" for ms
      using assms(2) by (simp add: reports_readable_def)
    ultimately show ?thesis
      using update_settles [OF assms(3) _ assms(4), of J "command_worker_detail J c d e" x now st b] that
      by (auto simp: settled_at_def)
  qed
  have "is_terminal status_completed" "is_terminal status_failed" "is_terminal status_cancelled" by (simp_all add: is_terminal_def)
  note us = this [THEN u]
  show ?thesis using assms(1)
    by (auto simp: us process_command_def fail_command_def store_repo_def Let_def split: if_splits sum.splits prod.splits option.splits)
qed

text \<open>After the commands of a batch: those commands have a terminal status, nothing else has changed.\<close>

definition batch_settled :: "string set \<Rightarrow> queue_view \<Rightarrow> queue_view \<Rightarrow> bool" where
  "batch_settled ids v v' \<longleftrightarrow> (\<forall>i. if i \<in> ids then (\<exists>st. is_terminal st \<and> v' i = restatus st (v i)) else v' i = v i)"

lemma batch_settledD:
  "batch_settled ids v v' \<Longrightarrow> if i \<in> ids then \<exists>st. is_terminal st \<and> v' i = restatus st (v i) else v' i = v i"
  unfolding batch_settled_def by (rule spec)

lemma batch_settled_step:
  assumes "settled_at i v v1" "batch_settled ids v1 v2"
  shows "batch_settled (insert i ids) v v2"
proof -
  obtain st where st: "is_terminal st" "v1 = v(i := restatus st (v i))"
    using assms(1) by (auto simp: settled_at_def)
  show ?thesis unfolding batch_settled_def
  proof
    fix j
    have "if j \<in> ids then \<exists>s. is_terminal s \<and> v2 j = restatus s (v1 j) else v2 j = v1 j"
      using batch_settledD [OF assms(2)] .
    then show "if j \<in> insert i ids then \<exists>s. is_terminal s \<and> v2 j = restatus s (v j) else v2 j = v j"
      using st by (cases "j = i"; cases "j \<in> ids") auto
  qed
qed

lemma process_all_settles:
  assumes "process_all (store_repo J sha scan) J E now cs r (db, m, w) = (r', db', m', w')"
    "reports_readable J" "db_faults db = []" "\<forall>c \<in> set cs. trim_space (cm_id c) = cm_id c"
  shows "db_faults db' = [] \<and> batch_settled (cm_id ` set cs) (store_view db) (store_view db')"
  using assms
proof (induction cs arbitrary: r db m w)
  case Nil
  then show ?case by (simp add: batch_settled_def)
next
  case (Cons c cs)
  obtain outcome db1 m1 w1 where p: "process_command (store_repo J sha scan) J E now c (db, m, w) = (outcome, db1, m1, w1)"
    by (metis prod_cases4)
  have s: "db_faults db1 = []" "settled_at (cm_id c) (store_view db) (store_view db1)"
    using process_settles [OF p Cons.prems(2,3)] Cons.prems(4) by simp_all
  have "process_all (store_repo J sha scan) J E now cs (count_outcome outcome r) (db1, m1, w1) = (r', db', m', w')"
    using Cons.prems(1) p by simp
  from Cons.IH [OF this Cons.prems(2) s(1)] Cons.prems(4) batch_settled_step [OF s(2)] show ?case by simp
qed

definition with_status :: "string \<Rightarrow> queue_view \<Rightarrow> string set" where
  "with_status st v = {i. \<exists>t a. v i = Some (t, a, st)}"

lemma store_with_status:
  assumes "store_inv db"
  shows "with_status st (store_view db) = cw_id ` set (filter (\<lambda>r. cw_status r = st) (db_rows db))"
  using assms find_id [of "db_rows db"]
  by (auto simp: with_status_def store_view_def row_view_def store_inv_def image_iff)

lemma selected_card:
  assumes "store_inv db"
  shows "set (selected_ids n (db_rows db)) \<subseteq> with_status status_queued (store_view db)"
    and "card (set (selected_ids n (db_rows db))) = min (claim_limit n) (card (with_status status_queued (store_view db)))"
proof -
  let ?qs = "map cw_id (sort_key (\<lambda>r. (cw_created_at r, cw_id r)) (filter (\<lambda>r. cw_status r = status_queued) (db_rows db)))"
  have set: "set ?qs = with_status status_queued (store_view db)" by (simp add: store_with_status [OF assms])
  have "distinct (map cw_id (filter (\<lambda>r. cw_status r = status_queued) (db_rows db)))"
    using assms by (simp add: store_inv_def distinct_map_filter)
  moreover have "mset ?qs = mset (map cw_id (filter (\<lambda>r. cw_status r = status_queued) (db_rows db)))" by simp
  ultimately have d: "distinct ?qs" using mset_distinct by blast
  have sel: "selected_ids n (db_rows db) = take (claim_limit n) ?qs" by (simp only: selected_ids_def)
  show "set (selected_ids n (db_rows db)) \<subseteq> with_status status_queued (store_view db)"
    unfolding sel set [symmetric] by (rule set_take_subset)
  have "card (set (take (claim_limit n) ?qs)) = length (take (claim_limit n) ?qs)"
    using d distinct_take distinct_card by blast
  also have "\<dots> = min (claim_limit n) (card (set ?qs))" using distinct_card [OF d] by simp
  finally show "card (set (selected_ids n (db_rows db))) = min (claim_limit n) (card (with_status status_queued (store_view db)))"
    unfolding sel set .
qed

lemma claim_no_fault:
  assumes "db_faults db = []" "store_inv db"
  obtains cs db1 where "rp_claim_queued (store_repo J sha scan) now n db = (Inr cs, db1)" "db_faults db1 = []" "store_inv db1"
    "view_claims cs (store_view db) (store_view db1)" "cm_id ` set cs = set (selected_ids n (db_rows db))"
proof -
  let ?ids = "selected_ids n (db_rows db)"
  let ?rows = "map (claim_row now ?ids) (db_rows db)"
  let ?cs = "map control_command_from_row (sort_key scan (filter (\<lambda>r. cw_id r \<in> set ?ids) ?rows))"
  have c: "claim_queued scan now n db = (Inr ?cs, db\<lparr>db_rows := ?rows\<rparr>)"
    by (simp add: claim_queued_def claim_rows_def next_fault_def assms(1) Let_def)
  have "cm_id ` set ?cs = set ?ids"
    using selected_queued [of _ n "db_rows db"] by (auto simp: image_iff) (metis claim_row_simps(1))
  then show thesis using that [of ?cs "db\<lparr>db_rows := ?rows\<rparr>"] c store_claim [OF c assms(2)] assms(1) by (simp add: store_repo_def)
qed

text \<open>A round without errors.\<close>

lemma round_settles:
  assumes "snd (process_once (store_repo J sha scan) J E now batch (db, m, w)) = (db', m', w')"
    "db_faults db = []" "store_inv db" "reports_readable J" "\<forall>r \<in> set (db_rows db). trim_space (cw_id r) = cw_id r"
  shows "db_faults db' = [] \<and> store_inv db' \<and>
    batch_settled (set (selected_ids (worker_batch batch) (db_rows db))) (store_view db) (store_view db')"
proof -
  let ?n = "worker_batch batch" and ?R = "store_repo J sha scan"
  obtain cs db1 where c: "rp_claim_queued ?R now ?n db = (Inr cs, db1)" "db_faults db1 = []" "store_inv db1"
    "view_claims cs (store_view db) (store_view db1)" "cm_id ` set cs = set (selected_ids ?n (db_rows db))"
    using claim_no_fault [OF assms(2,3)] by blast
  obtain r where p: "process_all ?R J E now cs \<lparr>wr_claimed = int (length cs), wr_completed = 0, wr_failed = 0, wr_cancelled = 0\<rparr> (db1, m, w) = (r, db', m', w')"
    using assms(1) c(1) by (auto simp: process_once_def split: prod.splits)
  have "\<forall>c \<in> set cs. trim_space (cm_id c) = cm_id c"
    using c(5) selected_queued [of _ ?n "db_rows db"] assms(5) by (metis imageI)
  from process_all_settles [OF p assms(4) c(2) this] have s: "db_faults db' = []"
    "batch_settled (cm_id ` set cs) (store_view db1) (store_view db')" by simp_all
  have "store_inv db'" using store.process_all_inv [OF p c(3)] .
  moreover have "batch_settled (cm_id ` set cs) (store_view db) (store_view db')"
    unfolding batch_settled_def
  proof
    fix i
    have "if i \<in> cm_id ` set cs then \<exists>s. is_terminal s \<and> store_view db' i = restatus s (store_view db1 i)
        else store_view db' i = store_view db1 i" using batch_settledD [OF s(2)] .
    moreover have "store_view db1 i = (if i \<in> cm_id ` set cs then restatus status_processing (store_view db i)
        else store_view db i)" using c(4) by (simp add: view_claims_def)
    ultimately show "if i \<in> cm_id ` set cs then \<exists>s. is_terminal s \<and> store_view db' i = restatus s (store_view db i)
        else store_view db' i = store_view db i" by (auto split: if_splits)
  qed
  ultimately show ?thesis using s(1) c(5) by simp
qed

lemma batch_settled_sets:
  assumes "batch_settled ids v v'"
  shows "with_status status_queued v' = with_status status_queued v - ids"
    and "with_status status_processing v' \<subseteq> with_status status_processing v"
    and "v' i = None \<longleftrightarrow> v i = None"
proof -
  have a: "if i \<in> ids then \<exists>s. is_terminal s \<and> v' i = restatus s (v i) else v' i = v i" for i
    using batch_settledD [OF assms] .
  have st: "(v' j = Some (t, b, st)) = (j \<notin> ids \<and> v j = Some (t, b, st))" if "\<not> is_terminal st" for j t b st
  proof (cases "j \<in> ids")
    case True
    then obtain s where "is_terminal s" "v' j = restatus s (v j)" using a [of j] by auto
    then show ?thesis using that True by auto
  next
    case False
    then show ?thesis using a [of j] by simp
  qed
  have "\<not> is_terminal status_queued" "\<not> is_terminal status_processing" by (simp_all add: is_terminal_def)
  note st = this [THEN st]
  show "with_status status_queued v' = with_status status_queued v - ids" by (auto simp: with_status_def st)
  show "with_status status_processing v' \<subseteq> with_status status_processing v" by (auto simp: with_status_def st)
  show "v' i = None \<longleftrightarrow> v i = None" using a [of i] by (metis restatus_simps(4))
qed

definition worker_round :: "json_codec \<Rightarrow> (string \<Rightarrow> int list) \<Rightarrow> row_order \<Rightarrow> 'w trade_env \<Rightarrow> time \<Rightarrow> int \<Rightarrow> command_db \<times> manager \<times> 'w \<Rightarrow>
    command_db \<times> manager \<times> 'w" where
  "worker_round J sha scan E now batch st = snd (process_once (store_repo J sha scan) J E now batch st)"

lemma trimmed_ids: "store_inv db \<Longrightarrow> (\<forall>r \<in> set (db_rows db). trim_space (cw_id r) = cw_id r) \<longleftrightarrow> (\<forall>i. store_view db i \<noteq> None \<longrightarrow> trim_space i = i)"
  by (auto simp: store_view_def find_None_iff)

lemma rounds_settle:
  assumes "(worker_round J sha scan E now batch ^^ n) (db, m, w) = (db', m', w')"
    "db_faults db = []" "store_inv db" "reports_readable J" "\<forall>i. store_view db i \<noteq> None \<longrightarrow> trim_space i = i"
  shows "store_inv db' \<and> card (with_status status_queued (store_view db')) =
      card (with_status status_queued (store_view db)) - n * claim_limit (worker_batch batch) \<and>
    with_status status_processing (store_view db') \<subseteq> with_status status_processing (store_view db)"
  using assms
proof (induction n arbitrary: db m w)
  case (Suc n)
  let ?L = "claim_limit (worker_batch batch)" and ?ids = "set (selected_ids (worker_batch batch) (db_rows db))"
  obtain db1 m1 w1 where r: "worker_round J sha scan E now batch (db, m, w) = (db1, m1, w1)" by (metis prod_cases3)
  have s: "db_faults db1 = []" "store_inv db1" "batch_settled ?ids (store_view db) (store_view db1)"
    using round_settles [OF r [unfolded worker_round_def] Suc.prems(2-4)] trimmed_ids [OF Suc.prems(3)] Suc.prems(5) by simp_all
  note b = batch_settled_sets [OF s(3)] and sel = selected_card [OF Suc.prems(3), of "worker_batch batch"]
  have "(worker_round J sha scan E now batch ^^ n) (db1, m1, w1) = (db', m', w')"
    using Suc.prems(1) r by (simp add: funpow_swap1)
  from Suc.IH [OF this s(1,2) Suc.prems(4)] b(3) Suc.prems(5)
  have ih: "store_inv db'" "card (with_status status_queued (store_view db')) = card (with_status status_queued (store_view db1)) - n * ?L"
    "with_status status_processing (store_view db') \<subseteq> with_status status_processing (store_view db1)" by simp_all
  have "finite (with_status status_queued (store_view db))" by (simp add: store_with_status [OF Suc.prems(3)])
  then have "card (with_status status_queued (store_view db1)) = card (with_status status_queued (store_view db)) - ?L"
    using b(1) sel card_Diff_subset [of ?ids "with_status status_queued (store_view db)"] by simp
  then show ?case using ih b(2) by auto
qed simp

text \<open>C14. A worker that meets no error of the database drains the queue: after as many rounds as the batch size needs for the commands that are
  queued, no command is queued, and none is left processing that was not before, whatever the commands did.\<close>

theorem worker_drains:
  assumes "db_faults db = []" "store_inv db" "reports_readable J" "\<forall>r \<in> set (db_rows db). trim_space (cw_id r) = cw_id r"
    and "length (filter (\<lambda>r. cw_status r = status_queued) (db_rows db)) \<le> n * claim_limit (worker_batch batch)"
    and "(worker_round J sha scan E now batch ^^ n) (db, m, w) = (db', m', w')"
  shows "\<forall>r \<in> set (db_rows db'). cw_status r \<noteq> status_queued \<and>
    (cw_status r = status_processing \<longrightarrow> (\<exists>r0 \<in> set (db_rows db). cw_id r0 = cw_id r \<and> cw_status r0 = status_processing))"
proof -
  have "\<forall>i. store_view db i \<noteq> None \<longrightarrow> trim_space i = i" using assms(2,4) trimmed_ids by blast
  note s = rounds_settle [OF assms(6,1-3) this]
  have "card (with_status status_queued (store_view db)) \<le> length (filter (\<lambda>r. cw_status r = status_queued) (db_rows db))"
    unfolding store_with_status [OF assms(2)] using card_length [of "map cw_id (filter (\<lambda>r. cw_status r = status_queued) (db_rows db))"] by simp
  with s assms(5) have "card (with_status status_queued (store_view db')) = 0" by simp
  moreover have fin: "finite (with_status status_queued (store_view db'))" using s by (simp add: store_with_status)
  ultimately have q: "with_status status_queued (store_view db') = {}" by simp
  show ?thesis
  proof (intro ballI conjI impI)
    fix r assume r: "r \<in> set (db_rows db')"
    have st: "cw_id r \<in> with_status (cw_status r) (store_view db')" using s r by (simp add: store_with_status)
    then show "cw_status r \<noteq> status_queued" using q by auto
    assume "cw_status r = status_processing"
    with st s have "cw_id r \<in> with_status status_processing (store_view db)" by auto
    then show "\<exists>r0 \<in> set (db_rows db). cw_id r0 = cw_id r \<and> cw_status r0 = status_processing"
      by (auto simp: store_with_status [OF assms(2)])
  qed
qed

subsection \<open>Examples\<close>

definition demo_codec :: json_codec where
  "demo_codec = \<lparr>jc_normalize = Inr, jc_merge = (\<lambda>s ms. Inr s),
     jc_payload = (\<lambda>s. Inr \<lparr>pl_trader_id = '''', pl_decision = Some eth_open, pl_decisions = []\<rparr>),
     jc_decision = (\<lambda>s. Inr eth_open), jc_detail = (\<lambda>d. Inr ''{}''), jc_jsonb = (\<lambda>s. s)\<rparr>"

definition paper_env :: "sim trade_env" where
  "paper_env = \<lparr>te_getenv = no_env, te_provider = (\<lambda>_. sim_provider list_iter), te_snap = (\<lambda>_. demo_snap), te_sha = demo_sha,
     te_iter = plain_iter\<rparr>"

definition approval :: command where
  "approval = \<lparr>cm_id = '''', cm_type = '''', cm_target = ''Decision'', cm_decision_id = ''d1'', cm_order_id = '''', cm_trader_id = ''beta'',
     cm_action = ''approve'', cm_requested_by = ''ops'', cm_reason = ''ok'', cm_key = ''k1'', cm_correlation_id = '''', cm_status = '''',
     cm_queued = False, cm_control_only = False, cm_submitted = False, cm_detail = ''{}'', cm_created_at = zero_time, cm_updated_at = zero_time\<rparr>"

definition demo_repo :: "command_db command_repo" where
  "demo_repo = store_repo demo_codec demo_sha (\<lambda>r. 0)"

definition queued_db :: command_db where
  "queued_db = snd (enqueue demo_codec demo_sha (\<lambda>r. 0) [1] 5 approval \<lparr>db_rows = [], db_faults = []\<rparr>)"

definition claimed :: "(goerror + command list) \<times> command_db" where
  "claimed = rp_claim_queued demo_repo 6 10 queued_db"






theorem worker_drains_witness:
  "status_queued \<notin> set (map cw_status (db_rows (fst (worker_round demo_codec demo_sha (\<lambda>r. 0) paper_env 9 1 (queued_db, paper_manager, sim_new)))))"
proof -
  let ?r = "worker_round demo_codec demo_sha (\<lambda>r. 0) paper_env 9 1 (queued_db, paper_manager, sim_new)"
  have d: "db_faults queued_db = []" "store_inv queued_db" "list_all (\<lambda>r. trim_space (cw_id r) = cw_id r) (db_rows queued_db)"
    "length (filter (\<lambda>r. cw_status r = status_queued) (db_rows queued_db)) \<le> 1 * claim_limit (worker_batch 1)"
    by code_simp+
  have j: "reports_readable demo_codec" by (simp add: reports_readable_def demo_codec_def)
  have "(worker_round demo_codec demo_sha (\<lambda>r. 0) paper_env 9 1 ^^ 1) (queued_db, paper_manager, sim_new) = (fst ?r, fst (snd ?r), snd (snd ?r))"
    by simp
  from worker_drains [OF d(1,2) j d(3) [unfolded list_all_iff] d(4) this] show ?thesis by auto
qed

theorem enqueue_idempotent_witness:
  "\<exists>row. key_rows (command_key approval) (snd claimed) = [row] \<and> cw_status row = status_processing \<and>
     enqueue demo_codec demo_sha (\<lambda>r. 0) [2] 8 (approval\<lparr>cm_target := '' decision '', cm_reason := ''again''\<rparr>) (snd claimed) =
       (Inr (control_command_from_row row, True), snd claimed) \<and>
     cm_reason (control_command_from_row row) = cm_reason approval"
proof -
  let ?e = "enqueue demo_codec demo_sha (\<lambda>r. 0) [1] 5 approval \<lparr>db_rows = [], db_faults = []\<rparr>"
  obtain c1 b where e: "?e = (Inr (c1, b), queued_db)"
  proof -
    have "is_ok (fst ?e)" by code_simp
    then show thesis using that by (metis is_ok_iff prod.collapse queued_db_def)
  qed
  have v: "map cw_status (key_rows (command_key approval) (snd claimed)) = [status_processing]"
    "map cw_reason (key_rows (command_key approval) (snd claimed)) = [cm_reason approval]" by code_simp+
  have "db_step queued_db (snd claimed)"
    by (rule db_claim [of "\<lambda>r. 0" 6 10 _ "fst claimed"]) (simp add: claimed_def demo_repo_def store_repo_def)
  moreover have "trim_space (cm_key approval) \<noteq> ''''" "db_faults (snd claimed) = []"
    "length (key_rows (command_key approval) \<lparr>db_rows = [], db_faults = []\<rparr>) \<le> 1" "honest_faults \<lparr>db_rows = [], db_faults = []\<rparr>"
    "command_key (approval\<lparr>cm_target := '' decision '', cm_reason := ''again''\<rparr>) = command_key approval"
    "is_ok (normalize_control_command demo_codec demo_sha [2] 8 (approval\<lparr>cm_target := '' decision '', cm_reason := ''again''\<rparr>))"
    by code_simp+
  ultimately obtain row where "key_rows (command_key approval) (snd claimed) = [row]"
    "enqueue demo_codec demo_sha (\<lambda>r. 0) [2] 8 (approval\<lparr>cm_target := '' decision '', cm_reason := ''again''\<rparr>) (snd claimed) =
       (Inr (control_command_from_row row, True), snd claimed)"
    using enqueue_idempotent [OF e] by blast
  then show ?thesis using v by (intro exI [of _ row]) (simp add: control_command_from_row_def)
qed

end
