(* ===== verification/ExecutorConfig.thy ===== *)
theory ExecutorConfig
  imports Executor ConfigEnv
begin

text \<open>
  Loading the executor's configuration (\<open>pkg/executor/config.go\<close>): defaults, durations,
  expansion and validation. Reading YAML, the environment and the file system are parameters.
  Shown: a configuration that loads has the bounds the executor's checks rely on.
\<close>

definition exec_apply_defaults :: "exec_config \<Rightarrow> exec_config" where
  "exec_apply_defaults c = c
    \<lparr>ec_interval_raw := (if trim_space (ec_interval_raw c) = '''' then ''3m'' else ec_interval_raw c),
     ec_timeout_raw := (if trim_space (ec_timeout_raw c) = '''' then ''60s'' else ec_timeout_raw c),
     ec_max_concurrent := (if ec_max_concurrent c \<le> 0 then 1 else ec_max_concurrent c),
     ec_min_risk_reward := (if \<not> ec_min_rr_set c \<and> ec_min_risk_reward c \<le> 0 then lit 3 else ec_min_risk_reward c),
     ec_schema_version := trim_space (ec_schema_version c)\<rparr>"

definition exec_parse_durations :: "exec_config \<Rightarrow> goerror + exec_config" where
  "exec_parse_durations c = (case parse_duration (ec_interval_raw c) of
     None \<Rightarrow> Inl (Errorf ''executor config: invalid decision_interval %q'' [ec_interval_raw c])
   | Some interval \<Rightarrow>
       if interval \<le> 0
       then Inl (Errorf ''executor config: decision_interval must be positive, got %s'' [itoa interval])
       else case parse_duration (ec_timeout_raw c) of
         None \<Rightarrow> Inl (Errorf ''executor config: invalid decision_timeout %q'' [ec_timeout_raw c])
       | Some timeout \<Rightarrow>
           if timeout \<le> 0
           then Inl (Errorf ''executor config: decision_timeout must be positive, got %s'' [itoa timeout])
           else Inr (c\<lparr>ec_decision_interval := interval, ec_decision_timeout := timeout\<rparr>))"

definition exec_resolve_path :: "config_env \<Rightarrow> exec_config \<Rightarrow> string \<Rightarrow> string" where
  "exec_resolve_path env c path0 =
    (let path = trim_space (env_expand env path0);
         fallback = (case env_project_path env path of Inr p \<Rightarrow> p | Inl e \<Rightarrow> path)
     in if path = '''' \<or> env_is_abs env path then path
        else if ec_base_dir c \<noteq> '''' \<and> env_stat env (env_join env (ec_base_dir c) path) = None
        then env_join env (ec_base_dir c) path
        else fallback)"

definition exec_expand_fields :: "config_env \<Rightarrow> exec_config \<Rightarrow> exec_config" where
  "exec_expand_fields env c = c
    \<lparr>ec_signing_key := trim_space (env_expand env (ec_signing_key c)),
     ec_schema_version := (if ec_schema_version c \<noteq> '''' then trim_space (ec_schema_version c) else ec_schema_version c),
     ec_schema_path := exec_resolve_path env c (ec_schema_path c),
     ec_allowed_traders := map trim_space (ec_allowed_traders c)\<rparr>"

fun check_ids :: "string list \<Rightarrow> string list \<Rightarrow> goerror option" where
  "check_ids seen [] = None"
| "check_ids seen (i # ids) =
    (if i = '''' then Some (Errorf ''executor config: allowed_trader_ids contains empty value'' [])
     else if i \<in> set seen then Some (Errorf ''executor config: allowed_trader_ids contains duplicate %q'' [i])
     else check_ids (i # seen) ids)"

definition override_guards :: "string \<Rightarrow> exec_override \<Rightarrow> (bool \<times> goerror) list" where
  "override_guards key o1 =
    [(trim_space key = '''', Errorf ''executor config: overrides cannot contain empty keys'' []),
     (\<exists>v \<in> set_option (ov_major_leverage o1). v \<le> 0, Errorf ''executor config: override %s major_coin_leverage must be positive'' [key]),
     (\<exists>v \<in> set_option (ov_alt_leverage o1). v \<le> 0, Errorf ''executor config: override %s altcoin_leverage must be positive'' [key]),
     (\<exists>v \<in> set_option (ov_min_confidence o1). v < 0 \<or> v > 100, Errorf ''executor config: override %s min_confidence must be between 0 and 100'' [key]),
     (\<exists>v \<in> set_option (ov_min_risk_reward o1). v \<le> 0, Errorf ''executor config: override %s min_risk_reward must be positive'' [key]),
     (\<exists>v \<in> set_option (ov_max_positions o1). v \<le> 0, Errorf ''executor config: override %s max_positions must be positive'' [key])]"

fun check_overrides :: "(string \<times> exec_override) list \<Rightarrow> goerror option" where
  "check_overrides [] = None"
| "check_overrides ((k, o1) # os) = (case guards (override_guards k o1) of
     Some e \<Rightarrow> Some e
   | None \<Rightarrow> check_overrides os)"

definition exec_config_guards :: "exec_config \<Rightarrow> (bool \<times> goerror) list" where
  "exec_config_guards c =
    [(ec_major_leverage c \<le> 0, Errorf ''executor config: major_coin_leverage must be positive'' []),
     (ec_alt_leverage c \<le> 0, Errorf ''executor config: altcoin_leverage must be positive'' []),
     (ec_min_confidence c < 0 \<or> ec_min_confidence c > 100, Errorf ''executor config: min_confidence must be between 0 and 100'' []),
     (ec_min_risk_reward c \<le> 0, Errorf ''executor config: min_risk_reward must be positive'' []),
     (ec_max_positions c \<le> 0, Errorf ''executor config: max_positions must be positive'' []),
     (ec_require_version c \<and> trim_space (ec_schema_version c) = '''',
      Errorf ''executor config: prompt_schema_version is required when prompt_validation.require_version_header is true'' []),
     (ec_validate_output c \<and> trim_space (ec_schema_path c) = '''',
      Errorf ''executor config: output_validation.schema_path is required when enabled'' [])]"

definition exec_validate ::
  "config_env \<Rightarrow> ((string \<times> exec_override) list \<Rightarrow> (string \<times> exec_override) list) \<Rightarrow> exec_config \<Rightarrow> goerror option" where
  "exec_validate env it c = (case guards (exec_config_guards c) of
     Some e \<Rightarrow> Some e
   | None \<Rightarrow>
       let path = trim_space (ec_schema_path c);
           missing = (if ec_validate_output c then env_stat env path else None)
       in case missing of
         Some e \<Rightarrow> Some (Wrapf ''executor config: output_validation.schema_path %q not accessible: %w'' [path] e)
       | None \<Rightarrow> (case check_ids [] (ec_allowed_traders c) of
           Some e \<Rightarrow> Some e
         | None \<Rightarrow> check_overrides (it (ec_overrides c))))"

text \<open>\<open>loadConfigFromReader\<close> after the YAML decoder has filled the fields.\<close>

definition exec_load_config ::
  "config_env \<Rightarrow> ((string \<times> exec_override) list \<Rightarrow> (string \<times> exec_override) list) \<Rightarrow> string \<Rightarrow> bool \<Rightarrow> exec_config \<Rightarrow> goerror + exec_config" where
  "exec_load_config env it base_dir rr_set decoded =
    (case exec_parse_durations (exec_apply_defaults (decoded\<lparr>ec_base_dir := base_dir, ec_min_rr_set := rr_set\<rparr>)) of
       Inl e \<Rightarrow> Inl e
     | Inr c \<Rightarrow> (let c1 = exec_expand_fields env c in case exec_validate env it c1 of
         Some e \<Rightarrow> Inl e
       | None \<Rightarrow> Inr c1))"

subsection \<open>A loaded configuration is usable\<close>

lemma check_ids_None: "check_ids seen ids = None \<Longrightarrow> '''' \<notin> set ids \<and> distinct ids \<and> set ids \<inter> set seen = {}"
  by (induction seen ids rule: check_ids.induct) (auto split: if_splits)

lemma check_overrides_None:
  "check_overrides os = None \<longleftrightarrow> (\<forall>(k, o1) \<in> set os. guards (override_guards k o1) = None)"
  by (induction os rule: check_overrides.induct) (auto split: option.splits)

text \<open>Whatever the file says, a configuration that loads has positive leverage caps, a
  confidence threshold within 0 to 100, room for a position, positive interval and timeout,
  at least one decision at a time, trader ids without blanks or repetition, and overrides
  within the same bounds.\<close>

theorem exec_load_config_sound:
  assumes "is_order it" "exec_load_config env it dir rr decoded = Inr c"
  shows "0 < ec_major_leverage c \<and> 0 < ec_alt_leverage c \<and> 0 \<le> ec_min_confidence c \<and>
    ec_min_confidence c \<le> 100 \<and> \<not> ec_min_risk_reward c \<le> 0 \<and> 0 < ec_max_positions c \<and>
    0 < ec_decision_interval c \<and> 0 < ec_decision_timeout c \<and> 0 < ec_max_concurrent c \<and>
    distinct (ec_allowed_traders c) \<and> '''' \<notin> set (ec_allowed_traders c) \<and>
    (\<forall>k o1 v. (k, o1) \<in> set (ec_overrides c) \<and> ov_max_positions o1 = Some v \<longrightarrow> 0 < v)"
proof -
  obtain c0 where d: "exec_parse_durations (exec_apply_defaults (decoded\<lparr>ec_base_dir := dir, ec_min_rr_set := rr\<rparr>)) = Inr c0"
    and c: "c = exec_expand_fields env c0" and v: "exec_validate env it c = None"
    using assms(2) by (auto simp: exec_load_config_def Let_def split: sum.splits option.splits)
  have durs: "0 < ec_decision_interval c0 \<and> 0 < ec_decision_timeout c0 \<and> 0 < ec_max_concurrent c0"
    using d by (auto simp: exec_parse_durations_def exec_apply_defaults_def split: option.splits if_splits)
  have g: "guards (exec_config_guards c) = None" "check_ids [] (ec_allowed_traders c) = None"
    "check_overrides (it (ec_overrides c)) = None"
    using v by (auto simp: exec_validate_def Let_def split: option.splits if_splits)
  have ov: "0 < v" if "(k, o1) \<in> set (ec_overrides c)" "ov_max_positions o1 = Some v" for k o1 v
    using g(3) that is_order_set [OF assms(1)] by (fastforce simp: check_overrides_None guards_None override_guards_def)
  show ?thesis
    using g(1) check_ids_None [OF g(2)] durs ov
    by (auto simp: guards_None exec_config_guards_def not_le c exec_expand_fields_def)
qed

theorem exec_load_config_sound_witness:
  "\<exists>c. exec_load_config \<lparr>env_expand = (\<lambda>s. s), env_is_abs = (\<lambda>s. False), env_join = (\<lambda>a b. a @ b),
       env_stat = (\<lambda>s. None), env_project_path = Inr\<rparr> (\<lambda>m. m) '''' False demo_cfg = Inr c \<and>
     0 < ec_decision_interval c \<and> distinct (ec_allowed_traders c)"
proof -
  let ?env = "\<lparr>env_expand = (\<lambda>s. s), env_is_abs = (\<lambda>s. False), env_join = (\<lambda>a b. a @ b),
       env_stat = (\<lambda>s. None), env_project_path = Inr\<rparr>"
  have "is_ok (exec_load_config ?env (\<lambda>m. m) '''' False demo_cfg)" by code_simp
  then obtain c where c: "exec_load_config ?env (\<lambda>m. m) '''' False demo_cfg = Inr c" by (auto simp: is_ok_iff)
  show ?thesis using exec_load_config_sound [OF is_order_id c] c by blast
qed

end
