(* ===== verification/LlmGuards.thy ===== *)
theory LlmGuards
  imports ConfigEnv "HOL-Library.Word"
begin

text \<open>
  The guards of the language-model client: the retry loop with exponential backoff (\<open>pkg/llm/retry.go\<close>) and the daily token
  budget (\<open>pkg/llm/budget.go\<close>). The operation that is retried works on a state of its own; what ends a wait early, the cancelled
  context, is a parameter. Token counts are \<open>int64\<close> and are kept at that width.

  Shown: the loop ends within its attempts, after waits that double up to three seconds; a strict budget never admits an attempt
  past its limit, and its counter neither wraps nor exceeds the limit by more than one answer.
\<close>

subsection \<open>Retries\<close>

record retry_config =
  rt_max_retries :: int
  rt_initial :: duration
  rt_max :: duration
  rt_multiplier :: f64

text \<open>An error as \<open>errors.Is\<close> and \<open>errors.As\<close> see it: the context errors, the status of an \<open>openai.Error\<close>, a temporary \<open>net.Error\<close>, a \<open>net.OpError\<close>.\<close>

record call_error =
  ce_error :: goerror
  ce_canceled :: bool
  ce_deadline :: bool
  ce_status :: "int option"
  ce_temporary :: bool
  ce_op_error :: bool

definition new_retry_handler :: "retry_config \<Rightarrow> retry_config" where
  "new_retry_handler c =
    \<lparr>rt_max_retries = (if rt_max_retries c < 0 then 0 else rt_max_retries c),
     rt_initial = (if rt_initial c \<le> 0 then 200 * millisecond else rt_initial c),
     rt_max = (if rt_max c \<le> 0 then 3 * second else rt_max c),
     rt_multiplier = (if rt_multiplier c \<le> 1 then lit 2 else rt_multiplier c)\<rparr>"

definition should_retry :: "call_error \<Rightarrow> bool" where
  "should_retry e = (if ce_canceled e \<or> ce_deadline e then False
     else case ce_status e of
       Some s \<Rightarrow> s \<in> {429, 408, 500, 502, 503, 504}
     | None \<Rightarrow> ce_temporary e \<or> ce_op_error e)"

definition next_backoff :: "retry_config \<Rightarrow> duration \<Rightarrow> duration" where
  "next_backoff c b = int_of_f64 (fmin (f64_of_int (rt_max c)) (f64_of_int b * rt_multiplier c))"

text \<open>The loop of \<open>Do\<close>, with the waits it makes. \<open>ctx n\<close> tells whether the context ends during the wait after attempt \<open>n\<close>, and with what \<open>ctx.Err()\<close>.\<close>

function retry_from ::
  "retry_config \<Rightarrow> ('s \<Rightarrow> call_error option \<times> 's) \<Rightarrow> (int \<Rightarrow> call_error option option) \<Rightarrow> int \<Rightarrow> duration \<Rightarrow> 's \<Rightarrow>
   (call_error option \<times> duration list) \<times> 's" where
  "retry_from c fn ctx attempt backoff s = (case fn s of
     (None, s1) \<Rightarrow> ((None, []), s1)
   | (Some e, s1) \<Rightarrow>
       if \<not> should_retry e \<or> rt_max_retries c \<le> attempt then ((Some e, []), s1)
       else case ctx attempt of
         Some done \<Rightarrow> ((Some (case done of Some x \<Rightarrow> x | None \<Rightarrow> e), [backoff]), s1)
       | None \<Rightarrow> (case retry_from c fn ctx (attempt + 1) (next_backoff c backoff) s1 of
           ((r, ws), s2) \<Rightarrow> ((r, backoff # ws), s2)))"
  by pat_completeness auto
termination
  by (relation "measure (\<lambda>(c, _, _, attempt, _, _). nat (rt_max_retries c - attempt))") auto

declare retry_from.simps [simp del]

definition retry_do ::
  "retry_config \<Rightarrow> ('s \<Rightarrow> call_error option \<times> 's) \<Rightarrow> (int \<Rightarrow> call_error option option) \<Rightarrow> 's \<Rightarrow> (call_error option \<times> duration list) \<times> 's" where
  "retry_do c fn ctx s = retry_from c fn ctx 0 (rt_initial c) s"

subsection \<open>The daily budget\<close>

type_synonym int64 = "64 word"

record budget_config =
  bc_daily_limit :: int64
  bc_alert_pct :: int
  bc_strict :: bool
  bc_cost :: "(string, f64) gomap"

record budget_guard =
  bg_cfg :: budget_config
  bg_used :: int64
  bg_cost :: f64
  bg_period :: time

record budget_snapshot =
  bs_used :: int64
  bs_limit :: int64
  bs_usage_pct :: f64
  bs_cost :: f64
  bs_alert_pct :: int
  bs_alert :: bool

definition zero_budget_snapshot :: budget_snapshot where
  "zero_budget_snapshot = \<lparr>bs_used = 0, bs_limit = 0, bs_usage_pct = 0, bs_cost = 0, bs_alert_pct = 0, bs_alert = False\<rparr>"

definition err_budget_exceeded :: goerror where
  "err_budget_exceeded = Errorf ''llm: budget exhausted for current period'' []"

definition new_budget_guard :: "budget_config option \<Rightarrow> budget_guard option" where
  "new_budget_guard cfg = (case cfg of
     None \<Rightarrow> None
   | Some c \<Rightarrow> if sint (bc_daily_limit c) \<le> 0 then None else Some \<lparr>bg_cfg = c, bg_used = 0, bg_cost = 0, bg_period = zero_time\<rparr>)"

definition truncate_day :: "time \<Rightarrow> time" where
  "truncate_day t = utc_day t * day_length"

definition reset_if_needed :: "time \<Rightarrow> budget_guard \<Rightarrow> budget_guard" where
  "reset_if_needed now g = (if is_zero_time (bg_period g) \<or> truncate_day now \<noteq> bg_period g
     then g\<lparr>bg_period := truncate_day now, bg_used := 0, bg_cost := 0\<rparr> else g)"

definition allow_attempt :: "time \<Rightarrow> budget_guard \<Rightarrow> goerror option \<times> budget_guard" where
  "allow_attempt now g = (if sint (bc_daily_limit (bg_cfg g)) \<le> 0 then (None, g)
     else let g1 = reset_if_needed now g
       in (if sint (bc_daily_limit (bg_cfg g)) \<le> sint (bg_used g1) \<and> bc_strict (bg_cfg g) then Some err_budget_exceeded else None, g1))"

definition percentage :: "int64 \<Rightarrow> int64 \<Rightarrow> f64" where
  "percentage value limit = (if sint limit \<le> 0 then 0
     else fmin (lit 100) (f64_of_int (sint value) / f64_of_int (sint limit) * lit 100))"

definition cost_rate :: "string \<Rightarrow> budget_guard \<Rightarrow> f64" where
  "cost_rate model g = (case lookup (bc_cost (bg_cfg g)) model of
     Some r \<Rightarrow> r
   | None \<Rightarrow> get_or 0 (bc_cost (bg_cfg g)) (to_lower (trim_space model)))"

definition record_usage :: "time \<Rightarrow> string \<Rightarrow> int64 \<Rightarrow> budget_guard \<Rightarrow> (budget_snapshot \<times> goerror option) \<times> budget_guard" where
  "record_usage now model tokens g = (if sint (bc_daily_limit (bg_cfg g)) \<le> 0 \<or> sint tokens \<le> 0 then ((zero_budget_snapshot, None), g)
     else let g1 = reset_if_needed now g; limit = bc_daily_limit (bg_cfg g); total = bg_used g1 + tokens; pct = percentage total limit;
         g2 = g1\<lparr>bg_used := total, bg_cost := bg_cost g1 + f64_of_int (sint tokens) / lit 1000000 * cost_rate model g1\<rparr>;
         snapshot = \<lparr>bs_used = bg_used g2, bs_limit = limit, bs_usage_pct = pct, bs_cost = bg_cost g2, bs_alert_pct = bc_alert_pct (bg_cfg g),
           bs_alert = (0 < sint limit \<and> 0 < bc_alert_pct (bg_cfg g) \<and> f64_of_int (bc_alert_pct (bg_cfg g)) \<le> pct)\<rparr>
       in ((snapshot, if 0 < sint limit \<and> sint limit < sint total \<and> bc_strict (bg_cfg g) then Some err_budget_exceeded else None), g2))"

subsection \<open>The loop ends\<close>

text \<open>The state after \<open>n\<close> calls, the result of call \<open>n\<close> (from 0), and what the loop does in \<open>n\<close> calls from attempt \<open>a\<close> with backoff \<open>b\<close>.\<close>

primrec after_calls :: "('s \<Rightarrow> call_error option \<times> 's) \<Rightarrow> nat \<Rightarrow> 's \<Rightarrow> 's" where
  "after_calls fn 0 s = s"
| "after_calls fn (Suc n) s = after_calls fn n (snd (fn s))"

definition call_result :: "('s \<Rightarrow> call_error option \<times> 's) \<Rightarrow> nat \<Rightarrow> 's \<Rightarrow> call_error option" where
  "call_result fn n s = fst (fn (after_calls fn n s))"

definition retried ::
  "retry_config \<Rightarrow> ('s \<Rightarrow> call_error option \<times> 's) \<Rightarrow> int \<Rightarrow> duration \<Rightarrow> 's \<Rightarrow> call_error option \<Rightarrow> duration list \<Rightarrow> 's \<Rightarrow> nat \<Rightarrow> bool" where
  "retried c fn a b s r ws s' n \<longleftrightarrow> int n \<le> max 0 (rt_max_retries c - a) \<and> s' = after_calls fn (Suc n) s \<and>
     (\<forall>k < n. \<exists>e. call_result fn k s = Some e \<and> should_retry e) \<and>
     (r = call_result fn n s \<and> length ws = n \<or> r \<noteq> None \<and> call_result fn n s \<noteq> None \<and> length ws = Suc n) \<and>
     ws = map (\<lambda>k. (next_backoff c ^^ k) b) [0..<length ws]"

lemma retried_Suc:
  assumes "retried c fn (a + 1) (next_backoff c b) s1 r ws s' n" "fn s = (Some e, s1)" "should_retry e" "a < rt_max_retries c"
  shows "retried c fn a b s r (b # ws) s' (Suc n)"
proof -
  have it: "after_calls fn (Suc k) s = after_calls fn k s1" "call_result fn (Suc k) s = call_result fn k s1" for k
    using assms(2) by (simp_all add: call_result_def)
  have ws: "ws = map (\<lambda>k. (next_backoff c ^^ k) (next_backoff c b)) [0..<length ws]" using assms(1) by (simp add: retried_def)
  have "b # ws = map (\<lambda>k. (next_backoff c ^^ k) b) [0..<length (b # ws)]"
    by (subst ws) (simp add: upt_conv_Cons map_Suc_upt [symmetric] funpow_swap1 del: upt_Suc)
  moreover have "\<exists>e. call_result fn k s = Some e \<and> should_retry e" if "k < Suc n" for k
  proof (cases k)
    case (Suc j)
    then show ?thesis using assms(1) that it(2) [of j] by (auto simp: retried_def)
  qed (use assms(2,3) in \<open>simp add: call_result_def\<close>)
  ultimately show ?thesis using assms(1,4) unfolding retried_def it by auto
qed

lemma retry_from_retried:
  "retry_from c fn ctx a b s = ((r, ws), s') \<Longrightarrow> \<exists>n. retried c fn a b s r ws s' n"
proof (induction c fn ctx a b s arbitrary: r ws s' rule: retry_from.induct)
  case (1 c fn ctx a b s)
  show ?case
  proof (cases "\<exists>e s1. fn s = (Some e, s1) \<and> should_retry e \<and> a < rt_max_retries c \<and> ctx a = None")
    case False
    then have "retried c fn a b s r ws s' 0" using "1.prems"
      by (auto simp: retry_from.simps [of c fn ctx a b s] retried_def call_result_def split: prod.splits option.splits if_splits)
    then show ?thesis by blast
  next
    case True
    then obtain e s1 where e: "fn s = (Some e, s1)" "should_retry e" "a < rt_max_retries c" "ctx a = None" by blast
    obtain r1 ws1 s2 where rf: "retry_from c fn ctx (a + 1) (next_backoff c b) s1 = ((r1, ws1), s2)" by (metis surj_pair)
    have eq: "r = r1" "ws = b # ws1" "s' = s2"
      using "1.prems"(1) e rf by (auto simp: retry_from.simps [of c fn ctx a b s])
    have "\<not> (\<not> should_retry e \<or> rt_max_retries c \<le> a)" using e by simp
    from "1.IH" [OF e(1) [symmetric] refl this e(4) rf] obtain n where n: "retried c fn (a + 1) (next_backoff c b) s1 r1 ws1 s2 n" by blast
    have "retried c fn a b s r1 (b # ws1) s2 (Suc n)" by (rule retried_Suc [OF n]) (use e in simp_all)
    then show ?thesis unfolding eq by blast
  qed
qed

text \<open>The handler \<open>NewClient\<close> builds waits 200 milliseconds, then twice as long each time, up to three seconds.\<close>

definition client_retry :: "int \<Rightarrow> retry_config" where
  "client_retry n = new_retry_handler \<lparr>rt_max_retries = n, rt_initial = 0, rt_max = 0, rt_multiplier = 0\<rparr>"

lemma next_backoff_client:
  assumes "0 \<le> b" "b \<le> 3 * second"
  shows "next_backoff (client_retry m) b = min (3 * second) (2 * b)"
proof -
  have x: "fround (of_int n) = Fin (of_int n)" if "0 \<le> n" "n \<le> 6 * second" for n
    using that by (intro fround_of_int) (simp add: second_def)
  have "f64_of_int b * lit 2 = Fin (of_int (2 * b))"
    using x [of b] x [of "2 * b"] assms by (simp add: f64_of_int_def lit_def times_f64_def mult.commute)
  then have "next_backoff (client_retry m) b = int_of_f64 (fmin (Fin (of_int (3 * second))) (Fin (of_int (2 * b))))"
    using x [of "3 * second"] by (simp add: next_backoff_def client_retry_def new_retry_handler_def f64_of_int_def f64_ops second_def)
  also have "fmin (Fin (of_int (3 * second))) (Fin (of_int (2 * b))) = Fin (of_int (min (3 * second) (2 * b)))"
    by (simp only: fmin_def is_nan.simps flt.simps f64.distinct of_int_less_iff simp_thms if_False min_def) auto
  also have "int_of_f64 \<dots> = min (3 * second) (2 * b)"
    using assms by (simp add: trunc_rat_def second_def min_def)
  finally show ?thesis .
qed

lemma client_waits: "(next_backoff (client_retry m) ^^ k) (200 * millisecond) = min (3 * second) (200 * millisecond * 2 ^ k)"
proof (induction k)
  case (Suc k)
  have "(next_backoff (client_retry m) ^^ Suc k) (200 * millisecond) = next_backoff (client_retry m) (min (3 * second) (200 * millisecond * 2 ^ k))"
    by (simp add: Suc.IH)
  also have "\<dots> = min (3 * second) (2 * min (3 * second) (200 * millisecond * 2 ^ k))"
    by (rule next_backoff_client) (simp_all add: second_def millisecond_def)
  also have "\<dots> = min (3 * second) (200 * millisecond * 2 ^ Suc k)"
    by (auto simp: min_def second_def millisecond_def)
  finally show ?case .
qed (simp add: second_def millisecond_def)

text \<open>C19. A call of the model ends: with \<open>m\<close> retries configured the operation is tried at most \<open>m + 1\<close> times, every try but the last failed with an error
  worth retrying, the result is that of the last try (or the error of a wait that was cut short), and the wait before retry \<open>k\<close> is
  200 milliseconds times \<open>2 ^ k\<close>, at most three seconds.\<close>

theorem retry_bounded:
  assumes "retry_do (client_retry m) fn ctx s = ((r, ws), s')"
  shows "\<exists>n. int n \<le> max 0 m \<and> s' = after_calls fn (Suc n) s \<and> (\<forall>k < n. \<exists>e. call_result fn k s = Some e \<and> should_retry e) \<and>
    (r = call_result fn n s \<and> length ws = n \<or> r \<noteq> None \<and> call_result fn n s \<noteq> None \<and> length ws = Suc n) \<and>
    ws = map (\<lambda>k. min (3 * second) (200 * millisecond * 2 ^ k)) [0..<length ws]"
proof -
  have "rt_initial (client_retry m) = 200 * millisecond" by (simp add: client_retry_def new_retry_handler_def)
  with assms obtain n where "retried (client_retry m) fn 0 (200 * millisecond) s r ws s' n"
    using retry_from_retried unfolding retry_do_def by metis
  moreover have "max 0 (rt_max_retries (client_retry m) - 0) = max 0 m" by (simp add: client_retry_def new_retry_handler_def)
  ultimately show ?thesis unfolding retried_def client_waits by metis
qed

subsection \<open>Requests sharing a budget\<close>

text \<open>Several requests are in flight against one guard: each is admitted (or refused), and later answered with its tokens or failed. The run keeps a log of
  what was recorded. \<open>n\<close> is the number of requests that may be in flight, \<open>mx\<close> the most tokens of an answer.\<close>

record budget_run =
  br_guard :: budget_guard
  br_inflight :: nat
  br_now :: time
  br_log :: "(time \<times> int64) list"

inductive budget_step :: "nat \<Rightarrow> int \<Rightarrow> budget_run \<Rightarrow> budget_run \<Rightarrow> bool" for n :: nat and mx :: int where
  admit: "br_now s \<le> now \<Longrightarrow> br_inflight s < n \<Longrightarrow> allow_attempt now (br_guard s) = (None, g) \<Longrightarrow>
    budget_step n mx s (s\<lparr>br_guard := g, br_inflight := br_inflight s + 1, br_now := now\<rparr>)"
| refuse: "br_now s \<le> now \<Longrightarrow> allow_attempt now (br_guard s) = (Some e, g) \<Longrightarrow>
    budget_step n mx s (s\<lparr>br_guard := g, br_now := now\<rparr>)"
| answer: "br_now s \<le> now \<Longrightarrow> 0 < br_inflight s \<Longrightarrow> 0 < sint tokens \<Longrightarrow> sint tokens \<le> mx \<Longrightarrow>
    record_usage now model tokens (br_guard s) = (r, g) \<Longrightarrow>
    budget_step n mx s (s\<lparr>br_guard := g, br_inflight := br_inflight s - 1, br_now := now, br_log := (now, tokens) # br_log s\<rparr>)"
| fail: "0 < br_inflight s \<Longrightarrow> budget_step n mx s (s\<lparr>br_inflight := br_inflight s - 1\<rparr>)"

definition spent_on :: "time \<Rightarrow> (time \<times> int64) list \<Rightarrow> int" where
  "spent_on day recorded = sum_list (map (sint \<circ> snd) (filter (\<lambda>(t, _). truncate_day t = day) recorded))"

definition fresh_run :: "budget_config \<Rightarrow> time \<Rightarrow> budget_run" where
  "fresh_run c now = \<lparr>br_guard = \<lparr>bg_cfg = c, bg_used = 0, bg_cost = 0, bg_period = zero_time\<rparr>, br_inflight = 0, br_now = now, br_log = []\<rparr>"

definition budget_inv :: "nat \<Rightarrow> int \<Rightarrow> budget_config \<Rightarrow> budget_run \<Rightarrow> bool" where
  "budget_inv n mx c s \<longleftrightarrow> bg_cfg (br_guard s) = c \<and> 0 \<le> br_now s \<and> br_inflight s \<le> n \<and>
     sint (bg_used (br_guard s)) = spent_on (bg_period (br_guard s)) (br_log s) \<and>
     0 \<le> sint (bg_used (br_guard s)) \<and>
     sint (bg_used (br_guard s)) + int (br_inflight s) * mx < sint (bc_daily_limit c) + int n * mx \<and>
     bg_period (br_guard s) \<le> truncate_day (br_now s) \<and>
     (\<forall>(t, k) \<in> set (br_log s). t \<le> br_now s \<and> truncate_day t \<le> bg_period (br_guard s))"

lemma truncate_day_mono: "a \<le> b \<Longrightarrow> truncate_day a \<le> truncate_day b"
  by (simp add: truncate_day_def utc_day_def day_length_def zdiv_mono1)

lemma truncate_day_nonneg: "0 \<le> a \<Longrightarrow> 0 \<le> truncate_day a"
  by (simp add: truncate_day_def utc_day_def day_length_def)

text \<open>Starting a new day keeps the invariant, at the later time.\<close>

lemma reset_inv:
  assumes "budget_inv n mx c s" "br_now s \<le> now" "0 < sint (bc_daily_limit c)" "0 \<le> mx"
  shows "budget_inv n mx c (s\<lparr>br_guard := reset_if_needed now (br_guard s), br_now := now\<rparr>) \<and>
    bg_period (reset_if_needed now (br_guard s)) = truncate_day now"
proof (cases "is_zero_time (bg_period (br_guard s)) \<or> truncate_day now \<noteq> bg_period (br_guard s)")
  case True
  note i = assms(1) [unfolded budget_inv_def]
  have d: "truncate_day (br_now s) \<le> truncate_day now" "0 \<le> truncate_day now"
    using assms(2) i by (auto intro: truncate_day_mono truncate_day_nonneg)
  have "bg_period (br_guard s) < truncate_day now"
    using True i d by (auto simp: is_zero_time_def zero_time_def)
  with i have l: "\<forall>(t, k) \<in> set (br_log s). truncate_day t < truncate_day now" by auto
  then have "filter (\<lambda>(t, _). truncate_day t = truncate_day now) (br_log s) = []" by (auto simp: filter_empty_conv)
  then have "spent_on (truncate_day now) (br_log s) = 0" by (simp add: spent_on_def)
  moreover have "int (br_inflight s) * mx \<le> int n * mx" using i assms(4) by (intro mult_right_mono) auto
  ultimately show ?thesis using True i assms d l by (auto simp: budget_inv_def reset_if_needed_def)
next
  case False
  then show ?thesis using assms by (auto simp: budget_inv_def reset_if_needed_def)
qed

lemma sint_plus_exact: "- (2 ^ 63) \<le> sint a + sint b \<Longrightarrow> sint a + sint b < 2 ^ 63 \<Longrightarrow> sint (a + b :: int64) = sint a + sint b"
  by (simp add: sint_word_add signed_take_bit_int_eq_self)

lemma budget_step_inv:
  assumes "budget_step n mx s s'" "budget_inv n mx c s" "bc_strict c" "0 < sint (bc_daily_limit c)" "0 \<le> mx"
    and "sint (bc_daily_limit c) + int n * mx < 2 ^ 63"
  shows "budget_inv n mx c s'"
  using assms(1)
proof cases
  case (admit now g)
  note r = reset_inv [OF assms(2) admit(2) assms(4,5)]
  have cfg: "bg_cfg (br_guard s) = c" using assms(2) by (simp add: budget_inv_def)
  have g: "g = reset_if_needed now (br_guard s)" "sint (bg_used g) < sint (bc_daily_limit c)"
    using admit(4) assms(3,4) by (auto simp: allow_attempt_def cfg Let_def split: if_splits)
  have "(int (br_inflight s) + 1) * mx \<le> int n * mx" using admit(3) assms(5) by (intro mult_right_mono) auto
  with g(2) have "sint (bg_used g) + (int (br_inflight s) + 1) * mx < sint (bc_daily_limit c) + int n * mx" by linarith
  then show ?thesis using r g(1) admit(1,3) by (auto simp: budget_inv_def add.commute [of "int (br_inflight s)" 1])
next
  case (refuse now e g)
  have cfg: "bg_cfg (br_guard s) = c" using assms(2) by (simp add: budget_inv_def)
  have "g = reset_if_needed now (br_guard s)"
    using refuse(3) assms(4) by (auto simp: allow_attempt_def cfg Let_def split: if_splits)
  then show ?thesis using reset_inv [OF assms(2) refuse(2) assms(4,5)] refuse(1) by simp
next
  case (answer now tokens model r g)
  have cfg: "bg_cfg (br_guard s) = c" using assms(2) by (simp add: budget_inv_def)
  define s1 where "s1 = s\<lparr>br_guard := reset_if_needed now (br_guard s), br_now := now\<rparr>"
  note r = reset_inv [OF assms(2) answer(2) assms(4,5), folded s1_def]
  have g: "bg_used g = bg_used (br_guard s1) + tokens" "bg_cfg g = c" "bg_period g = truncate_day now"
    using answer(6) answer(4) assms(4) r by (auto simp: record_usage_def cfg Let_def s1_def reset_if_needed_def split: if_splits)
  have one: "1 * mx \<le> int (br_inflight s) * mx" using answer(3) assms(5) by (intro mult_right_mono) auto
  have "0 \<le> sint (bg_used (br_guard s1))"
      "sint (bg_used (br_guard s1)) + int (br_inflight s) * mx < sint (bc_daily_limit c) + int n * mx"
    using r by (auto simp: budget_inv_def s1_def)
  with answer(4,5) one assms(6)
  have "- (2 ^ 63) \<le> sint (bg_used (br_guard s1)) + sint tokens" "sint (bg_used (br_guard s1)) + sint tokens < 2 ^ 63"
    by linarith+
  then have u: "sint (bg_used g) = sint (bg_used (br_guard s1)) + sint tokens"
    unfolding g(1) by (rule sint_plus_exact)
  have "int (br_inflight s - 1) * mx = int (br_inflight s) * mx - mx" using answer(3) by (simp add: of_nat_diff algebra_simps)
  then show ?thesis using r u g answer
    by (auto simp: budget_inv_def s1_def spent_on_def)
next
  case fail
  have "int (br_inflight s - 1) * mx \<le> int (br_inflight s) * mx" using assms(5) by (intro mult_right_mono) auto
  then show ?thesis using assms(2) fail by (auto simp: budget_inv_def)
qed

lemma fresh_inv:
  assumes "0 \<le> now" "0 < sint (bc_daily_limit c)" "0 \<le> mx"
  shows "budget_inv n mx c (fresh_run c now)"
proof -
  have "zero_time \<le> truncate_day now" using truncate_day_nonneg [OF assms(1)] by (simp add: zero_time_def)
  moreover have "0 < sint (bc_daily_limit c) + int n * mx" using assms(2,3) by (intro add_pos_nonneg) simp_all
  ultimately show ?thesis using assms by (auto simp: budget_inv_def fresh_run_def spent_on_def)
qed

text \<open>C20. A strict budget holds under concurrent requests: in every reachable state the counter is the sum of the tokens recorded that day, it has not
  wrapped, and it is below the limit plus one answer for each request that may be in flight; a request is admitted exactly while
  what the day has spent is below the limit.\<close>

theorem budget_enforced:
  assumes "(budget_step n mx)\<^sup>*\<^sup>* (fresh_run c t0) s" "0 \<le> t0" "bc_strict c" "0 < sint (bc_daily_limit c)" "0 \<le> mx"
    and "sint (bc_daily_limit c) + int n * mx < 2 ^ 63"
  shows "sint (bg_used (br_guard s)) = spent_on (bg_period (br_guard s)) (br_log s) \<and> 0 \<le> sint (bg_used (br_guard s)) \<and>
    sint (bg_used (br_guard s)) < sint (bc_daily_limit c) + int n * mx \<and>
    (\<forall>now \<ge> br_now s. fst (allow_attempt now (br_guard s)) = None \<longleftrightarrow> spent_on (truncate_day now) (br_log s) < sint (bc_daily_limit c))"
proof -
  have inv: "budget_inv n mx c s"
    using assms(1)
  proof (induction rule: rtranclp_induct)
    case base
    show ?case using assms by (intro fresh_inv)
  next
    case (step s s')
    from budget_step_inv [OF step.hyps(2) step.IH assms(3-6)] show ?case .
  qed
  then have "0 \<le> int (br_inflight s) * mx" "bg_cfg (br_guard s) = c" using assms(5) by (simp_all add: budget_inv_def)
  moreover have "fst (allow_attempt now (br_guard s)) = None \<longleftrightarrow> spent_on (truncate_day now) (br_log s) < sint (bc_daily_limit c)"
    if "br_now s \<le> now" for now
    using reset_inv [OF inv that assms(4,5)] assms(3,4) \<open>bg_cfg (br_guard s) = c\<close>
    by (auto simp: allow_attempt_def Let_def budget_inv_def)
  ultimately show ?thesis using inv by (auto simp: budget_inv_def)
qed

subsection \<open>Examples\<close>

definition demo_budget :: budget_config where
  "demo_budget = \<lparr>bc_daily_limit = 1000, bc_alert_pct = 80, bc_strict = True, bc_cost = []\<rparr>"

theorem budget_enforced_witness:
  "\<exists>s :: budget_run. br_inflight s = 0 \<and> sint (bg_used (br_guard s)) < 1000 + 2 * 5000 \<and> length (br_log s) = 1 \<and>
     fst (allow_attempt 7 (br_guard s)) = Some err_budget_exceeded"
proof -
  let ?s0 = "fresh_run demo_budget 5"
  define g1 where "g1 = snd (allow_attempt 6 (br_guard ?s0))"
  define s1 where "s1 = ?s0\<lparr>br_guard := g1, br_inflight := 1, br_now := 6\<rparr>"
  define g2 where "g2 = snd (record_usage 6 ''m'' 4000 g1)"
  define s2 where "s2 = s1\<lparr>br_guard := g2, br_inflight := 0, br_now := 6, br_log := [(6, 4000)]\<rparr>"
  have "fst (allow_attempt 6 (br_guard ?s0)) = None" by code_simp
  then have "allow_attempt 6 (br_guard ?s0) = (None, g1)" by (simp add: g1_def prod_eq_iff)
  from admit [OF _ _ this, of 2 5000] have a: "budget_step 2 5000 ?s0 s1" by (simp add: fresh_run_def s1_def)
  have "record_usage 6 ''m'' 4000 (br_guard s1) = (fst (record_usage 6 ''m'' 4000 g1), g2)" by (simp add: s1_def g2_def)
  from answer [OF _ _ _ _ this, of 5000 2] have b: "budget_step 2 5000 s1 s2" by (simp add: fresh_run_def s1_def s2_def)
  have "(budget_step 2 5000)\<^sup>*\<^sup>* ?s0 s2" using a b by (meson rtranclp.rtrancl_refl rtranclp.rtrancl_into_rtrancl)
  from budget_enforced [OF this] have "sint (bg_used (br_guard s2)) < 1000 + 2 * 5000" by (simp add: demo_budget_def)
  moreover have "fst (allow_attempt 7 g2) = Some err_budget_exceeded" unfolding g2_def g1_def by code_simp
  moreover have "br_inflight s2 = 0" "length (br_log s2) = 1" "br_guard s2 = g2" by (simp_all add: s2_def)
  ultimately show ?thesis by metis
qed

definition demo_busy :: "nat \<Rightarrow> call_error option \<times> nat" where
  "demo_busy k = (if k < 2 then Some \<lparr>ce_error = Errorf ''busy'' [], ce_canceled = False, ce_deadline = False, ce_status = Some 503,
     ce_temporary = False, ce_op_error = False\<rparr> else None, k + 1)"

theorem retry_bounded_witness:
  "retry_do (client_retry 3) demo_busy (\<lambda>_. None) 0 = ((None, [200 * millisecond, 400 * millisecond]), 3) \<and>
   call_result demo_busy 2 0 = None"
proof -
  have r: "retry_do (client_retry 3) demo_busy (\<lambda>_. None) 0 = ((None, [200 * millisecond, 400 * millisecond]), 3)"
    by code_simp
  from retry_bounded [OF this] r show ?thesis by (auto simp: eval_nat_numeral)
qed

end
