(* ===== verification/LlmClient.thy ===== *)
theory LlmClient
  imports LlmGuards
begin

text \<open>
  The language-model client (\<open>pkg/llm\<close>): its configuration (\<open>config.go\<close>), the names of models (\<open>provider.go\<close>), the schema of a structured answer
  (\<open>structured.go\<close>) and the client itself (\<open>client.go\<close>). The OpenAI service, the HTTP transport and the JSON decoder are parameters that work on
  a state of their own; logging is not modelled. Go types, which the schema is made from by reflection, are the datatype \<open>gotype\<close>.

  Shown: a configuration that loads is usable; a generated schema is well formed; a refused request does not reach the service and an answered one is charged.
\<close>

subsection \<open>Configuration\<close>

record model_config =
  mc_provider :: string
  mc_model_name :: string
  mc_temperature :: "f64 option"
  mc_max_tokens :: "int option"
  mc_top_p :: "f64 option"
  mc_priority :: int
  mc_cost_tier :: string

record routing_config =
  ro_models :: "string list"
  ro_preference :: string

record llm_config =
  lc_base_url :: string
  lc_api_key :: string
  lc_default_model :: string
  lc_timeout :: duration
  lc_max_retries :: int
  lc_log_level :: string
  lc_models :: "(string, model_config) gomap"
  lc_budget :: "budget_config option"
  lc_routing :: "routing_config option"
  lc_timeout_raw :: string

definition budget_apply_defaults :: "budget_config \<Rightarrow> budget_config" where
  "budget_apply_defaults b = (if bc_alert_pct b \<le> 0 then b\<lparr>bc_alert_pct := 80\<rparr> else b)"

fun check_costs :: "(string \<times> f64) list \<Rightarrow> goerror option" where
  "check_costs [] = None"
| "check_costs ((name, cost) # cs) = (if cost < 0
     then Some (Errorf ''llm config: budget cost_per_million_tokens[%s] cannot be negative'' [name]) else check_costs cs)"

definition budget_validate :: "((string \<times> f64) list \<Rightarrow> (string \<times> f64) list) \<Rightarrow> budget_config \<Rightarrow> goerror option" where
  "budget_validate it b = (case guards
     [(sint (bc_daily_limit b) \<le> 0, Errorf ''llm config: budget.daily_token_limit must be positive'' []),
      (bc_alert_pct b < 0 \<or> bc_alert_pct b > 100, Errorf ''llm config: budget.alert_threshold_pct must be between 0 and 100'' [])] of
     Some e \<Rightarrow> Some e
   | None \<Rightarrow> check_costs (it (bc_cost b)))"

definition llm_apply_defaults :: "llm_config \<Rightarrow> llm_config" where
  "llm_apply_defaults c = c
    \<lparr>lc_base_url := (if trim_space (lc_base_url c) = '''' then ''https://zenmux.ai/api/v1'' else lc_base_url c),
     lc_log_level := (if trim_space (lc_log_level c) = '''' then ''info'' else lc_log_level c),
     lc_max_retries := (if lc_max_retries c \<le> 0 then 3 else lc_max_retries c),
     lc_budget := map_option budget_apply_defaults (lc_budget c)\<rparr>"

definition expand_and_override :: "config_env \<Rightarrow> (string \<Rightarrow> string) \<Rightarrow> string \<Rightarrow> string \<Rightarrow> string" where
  "expand_and_override env getenv current key = (if getenv key \<noteq> '''' then getenv key else env_expand env current)"

text \<open>\<open>strconv.Atoi\<close>: an optional sign and decimal digits, within \<open>int\<close>.\<close>

definition atoi :: "string \<Rightarrow> int option" where
  "atoi s = (case read_sign s of (neg, t) \<Rightarrow> (case read_digits 0 0 t of (v, k, rest) \<Rightarrow>
     let n = (if neg then - v else v) in
     if k = 0 \<or> rest \<noteq> '''' \<or> n < - 9223372036854775808 \<or> n > 9223372036854775807 then None else Some n))"

definition llm_apply_env :: "config_env \<Rightarrow> (string \<Rightarrow> string) \<Rightarrow> llm_config \<Rightarrow> llm_config" where
  "llm_apply_env env getenv c = c
    \<lparr>lc_base_url := expand_and_override env getenv (lc_base_url c) ''ZENMUX_BASE_URL'',
     lc_api_key := expand_and_override env getenv (lc_api_key c) ''ZENMUX_API_KEY'',
     lc_default_model := expand_and_override env getenv (lc_default_model c) ''ZENMUX_DEFAULT_MODEL'',
     lc_timeout_raw := expand_and_override env getenv (lc_timeout_raw c) ''ZENMUX_TIMEOUT'',
     lc_max_retries := (case atoi (getenv ''ZENMUX_MAX_RETRIES'') of Some v \<Rightarrow> v | None \<Rightarrow> lc_max_retries c)\<rparr>"

definition llm_parse_timeout :: "llm_config \<Rightarrow> goerror + llm_config" where
  "llm_parse_timeout c = (if trim_space (lc_timeout_raw c) = '''' then Inr (c\<lparr>lc_timeout := 60 * second\<rparr>)
     else case parse_duration (lc_timeout_raw c) of
       None \<Rightarrow> Inl (Errorf ''llm config: invalid timeout %q'' [lc_timeout_raw c])
     | Some d \<Rightarrow> if d \<le> 0 then Inl (Errorf ''llm config: timeout must be positive, got %s'' [itoa d]) else Inr (c\<lparr>lc_timeout := d\<rparr>))"

definition llm_config_guards :: "llm_config \<Rightarrow> (bool \<times> goerror) list" where
  "llm_config_guards c =
    [(trim_space (lc_api_key c) = '''', Errorf ''llm config: api_key is required'' []),
     (trim_space (lc_base_url c) = '''', Errorf ''llm config: base_url is required'' []),
     (trim_space (lc_default_model c) = '''', Errorf ''llm config: default_model is required'' []),
     (lc_timeout c \<le> 0, Errorf ''llm config: timeout must be positive'' []),
     (lc_max_retries c < 0, Errorf ''llm config: max_retries cannot be negative'' [])]"

definition llm_validate :: "((string \<times> f64) list \<Rightarrow> (string \<times> f64) list) \<Rightarrow> llm_config \<Rightarrow> goerror option" where
  "llm_validate it c = (case guards (llm_config_guards c) of
     Some e \<Rightarrow> Some e
   | None \<Rightarrow> (case lc_budget c of None \<Rightarrow> None | Some b \<Rightarrow> budget_validate it b))"

text \<open>\<open>LoadConfigFromReader\<close> after the YAML decoder has filled the fields.\<close>

definition llm_load_config ::
  "config_env \<Rightarrow> (string \<Rightarrow> string) \<Rightarrow> ((string \<times> f64) list \<Rightarrow> (string \<times> f64) list) \<Rightarrow> llm_config \<Rightarrow> goerror + llm_config" where
  "llm_load_config env getenv it decoded = (case llm_parse_timeout (llm_apply_env env getenv (llm_apply_defaults decoded)) of
     Inl e \<Rightarrow> Inl e
   | Inr c \<Rightarrow> (case llm_validate it c of Some e \<Rightarrow> Inl e | None \<Rightarrow> Inr c))"

subsection \<open>Model names\<close>

definition resolve_model_id :: "string \<Rightarrow> model_config \<Rightarrow> string" where
  "resolve_model_id alias c =
    (let model = trim_space alias; name0 = trim_space (mc_model_name c); name = (if name0 = '''' then model else name0);
         provider = trim_space (mc_provider c)
     in if contains_sub model ''/'' then model
        else if provider = '''' \<or> contains_sub name ''/'' then name else provider @ ''/'' @ name)"

definition parse_model_id :: "string \<Rightarrow> string \<times> string" where
  "parse_model_id model = (if CHR ''/'' \<in> set model
     then (takeWhile (\<lambda>c. c \<noteq> CHR ''/'') model, tl (dropWhile (\<lambda>c. c \<noteq> CHR ''/'') model)) else ('''', model))"

subsection \<open>The schema of a structured answer\<close>

datatype gotype = GBool | GString | GInteger | GFloat | GSlice gotype | GMap gotype | GPtr gotype | GStruct string "gofield list" | GOther
and gofield = GoField (exported: bool) (field_name: string) (json_tag: string) (description: string) (field_type: gotype)

datatype schema_value = SObj "(string \<times> schema_value) list" | SStr string | SStrs "string list"

fun split_comma :: "string \<Rightarrow> string list" where
  "split_comma [] = [[]]"
| "split_comma (c # cs) = (if c = CHR '','' then [] # split_comma cs
     else case split_comma cs of p # ps \<Rightarrow> (c # p) # ps | [] \<Rightarrow> [[c]])"

definition parse_json_tag :: "string \<Rightarrow> string \<times> bool" where
  "parse_json_tag tag = (if tag = '''' then ('''', False)
     else case split_comma tag of [] \<Rightarrow> ('''', False) | name # opts \<Rightarrow> (name, ''omitempty'' \<in> set opts))"

definition skipped :: "gofield \<Rightarrow> bool" where
  "skipped f \<longleftrightarrow> \<not> exported f \<or> json_tag f = ''-''"

definition property_name :: "gofield \<Rightarrow> string" where
  "property_name f = (case parse_json_tag (json_tag f) of (name, _) \<Rightarrow> if name = '''' then field_name f else name)"

definition scalar :: "string \<Rightarrow> (string, schema_value) gomap" where
  "scalar t = [(''type'', SStr t)]"

definition object_schema :: "(string, schema_value) gomap \<Rightarrow> string list \<Rightarrow> (string, schema_value) gomap" where
  "object_schema props required = (let m = [(''type'', SStr ''object''), (''properties'', SObj props)]
     in if required = [] then m else put ''required'' (SStrs required) m)"

definition required_names :: "gofield list \<Rightarrow> string list" where
  "required_names fs = map property_name (filter (\<lambda>f. \<not> skipped f \<and> \<not> snd (parse_json_tag (json_tag f))) fs)"

fun build_schema :: "gotype \<Rightarrow> (string, schema_value) gomap" and build_props :: "gofield list \<Rightarrow> (string, schema_value) gomap \<Rightarrow> (string, schema_value) gomap" where
  "build_schema GBool = scalar ''boolean''"
| "build_schema GString = scalar ''string''"
| "build_schema GInteger = scalar ''integer''"
| "build_schema GFloat = scalar ''number''"
| "build_schema (GSlice t) = [(''type'', SStr ''array''), (''items'', SObj (build_schema t))]"
| "build_schema (GMap t) = [(''type'', SStr ''object''), (''additionalProperties'', SObj (build_schema t))]"
| "build_schema (GPtr t) = (case t of GPtr _ \<Rightarrow> scalar ''string'' | _ \<Rightarrow> build_schema t)"
| "build_schema (GStruct n fs) = object_schema (build_props fs []) (required_names fs)"
| "build_schema GOther = scalar ''string''"
| "build_props [] m = m"
| "build_props (GoField x n tag d t # fs) m = (let f = GoField x n tag d t in
     if skipped f then build_props fs m else build_props fs (put (property_name f) (SObj (build_schema t)) m))"

definition described :: "gofield \<Rightarrow> (string, schema_value) gomap" where
  "described f = (let m = build_schema (field_type f) in if description f = '''' then m else put ''description'' (SStr (description f)) m)"

text \<open>\<open>GenerateSchema\<close> of a pointer to a struct or a struct; a struct has its fields as in \<open>buildSchemaForType\<close>, with descriptions.\<close>

definition generate_schema :: "gotype \<Rightarrow> goerror + (string, schema_value) gomap" where
  "generate_schema v = (case (case v of GPtr t \<Rightarrow> t | _ \<Rightarrow> v) of
     GStruct n fs \<Rightarrow> Inr (object_schema
       (fold (\<lambda>f m. if skipped f then m else put (property_name f) (SObj (described f)) m) fs []) (required_names fs))
   | _ \<Rightarrow> Inl (Errorf ''schema must be a struct'' []))"

definition derive_schema_name :: "gotype \<Rightarrow> string" where
  "derive_schema_name v = (case (case v of GPtr t \<Rightarrow> t | _ \<Rightarrow> v) of GStruct n _ \<Rightarrow> to_lower n | _ \<Rightarrow> '''')"

subsection \<open>Requests\<close>

record message =
  ms_role :: string
  ms_content :: string
  ms_name :: string
  ms_tool_call_id :: string

record response_format =
  rf_type :: string
  rf_schema :: "schema_value option"
  rf_name :: string
  rf_description :: string
  rf_strict :: "bool option"

record chat_request =
  rq_model :: string
  rq_messages :: "message list"
  rq_temperature :: "f64 option"
  rq_max_tokens :: "int option"
  rq_top_p :: "f64 option"
  rq_stream :: bool
  rq_format :: "response_format option"
  rq_routing :: "routing_config option"

text \<open>The parameters of the OpenAI client, one constructor for each of its message builders the program calls.\<close>

datatype message_param = SystemMessage string "string option" | DeveloperMessage string | AssistantMessage string
  | ToolMessage string string | FunctionMessage string string | UserMessage string "string option"

datatype format_param = JSONObject | JSONSchema string "(string \<times> schema_value) list" "bool option" "string option"

record chat_params =
  cp_model :: string
  cp_messages :: "message_param list"
  cp_format :: "format_param option"
  cp_temperature :: "f64 option"
  cp_max_tokens :: "int option"
  cp_top_p :: "f64 option"

definition named :: "string \<Rightarrow> string option" where
  "named n = (if n = '''' then None else Some n)"

definition build_message_param :: "message \<Rightarrow> message_param" where
  "build_message_param m = (let role = to_lower (ms_role m) in
     if role = ''system'' then SystemMessage (ms_content m) (named (ms_name m))
     else if role = ''developer'' then DeveloperMessage (ms_content m)
     else if role = ''assistant'' then AssistantMessage (ms_content m)
     else if role = ''tool'' then ToolMessage (ms_content m) (ms_tool_call_id m)
     else if role = ''function'' then FunctionMessage (ms_content m) (ms_name m)
     else UserMessage (ms_content m) (named (ms_name m)))"

definition to_response_format_param :: "response_format option \<Rightarrow> goerror + format_param option" where
  "to_response_format_param rf = (case rf of
     None \<Rightarrow> Inr None
   | Some f \<Rightarrow>
       if equal_fold (rf_type f) ''text'' \<or> rf_type f = '''' then Inr None
       else if to_lower (rf_type f) = ''json_object'' then Inr (Some JSONObject)
       else if to_lower (rf_type f) = ''json_schema'' then (case rf_schema f of
           Some (SObj schema) \<Rightarrow> Inr (Some (JSONSchema (if rf_name f = '''' then ''structured_output'' else rf_name f) schema (rf_strict f)
             (named (trim_space (rf_description f)))))
         | _ \<Rightarrow> Inl (Errorf ''llm: json_schema requires map schema'' []))
       else Inl (Errorf ''llm: unsupported response format %q'' [rf_type f]))"

definition first_of :: "'a option \<Rightarrow> 'a option \<Rightarrow> 'a option" where
  "first_of a b = (case a of None \<Rightarrow> b | Some x \<Rightarrow> Some x)"

definition build_chat_params :: "llm_config \<Rightarrow> chat_request \<Rightarrow> goerror + chat_params \<times> string \<times> string" where
  "build_chat_params cfg req =
    (if rq_messages req = [] then Inl (Errorf ''llm: request requires at least one message'' [])
     else let alias = (if trim_space (rq_model req) = '''' then lc_default_model cfg else trim_space (rq_model req));
         mc = (case lookup (lc_models cfg) alias of
             Some mc \<Rightarrow> mc
           | None \<Rightarrow> \<lparr>mc_provider = '''', mc_model_name = alias, mc_temperature = None, mc_max_tokens = None, mc_top_p = None, mc_priority = 0, mc_cost_tier = ''''\<rparr>);
         model = resolve_model_id alias mc
       in case to_response_format_param (rq_format req) of
           Inl e \<Rightarrow> Inl e
         | Inr rf \<Rightarrow> Inr (\<lparr>cp_model = model, cp_messages = map build_message_param (rq_messages req), cp_format = rf,
             cp_temperature = first_of (rq_temperature req) (mc_temperature mc), cp_max_tokens = first_of (rq_max_tokens req) (mc_max_tokens mc),
             cp_top_p = first_of (rq_top_p req) (mc_top_p mc)\<rparr>, alias, model))"

subsection \<open>Answers\<close>

record tool_call =
  tc_id :: string
  tc_type :: string
  tc_name :: string
  tc_arguments :: string

record completion_choice =
  co_index :: int
  co_role :: string
  co_content :: string
  co_function_name :: string
  co_function_arguments :: string
  co_finish_reason :: string
  co_tool_calls :: "tool_call list"

record completion =
  cm_id :: string
  cm_model :: string
  cm_created :: int
  cm_raw :: string
  cm_fingerprint :: string
  cm_tier :: string
  cm_prompt_tokens :: int64
  cm_completion_tokens :: int64
  cm_total_tokens :: int64
  cm_choices :: "completion_choice list"

record choice =
  ci_index :: int
  ci_message :: message
  ci_finish_reason :: string
  ci_tool_calls :: "tool_call list"

record llm_response =
  lr_id :: string
  lr_model :: string
  lr_choices :: "choice list"
  lr_prompt_tokens :: int64
  lr_completion_tokens :: int64
  lr_total_tokens :: int64
  lr_created :: int
  lr_raw :: string
  lr_tier :: string
  lr_fingerprint :: string

definition convert_message :: "completion_choice \<Rightarrow> message" where
  "convert_message c = \<lparr>ms_role = co_role c, ms_content = co_content c, ms_name = '''',
     ms_tool_call_id = (if co_function_name c \<noteq> '''' \<or> co_function_arguments c \<noteq> '''' then co_function_name c else '''')\<rparr>"

definition convert_completion :: "completion \<Rightarrow> llm_response" where
  "convert_completion r = \<lparr>lr_id = cm_id r, lr_model = cm_model r,
     lr_choices = map (\<lambda>c. \<lparr>ci_index = co_index c, ci_message = convert_message c, ci_finish_reason = co_finish_reason c, ci_tool_calls = co_tool_calls c\<rparr>) (cm_choices r),
     lr_prompt_tokens = cm_prompt_tokens r, lr_completion_tokens = cm_completion_tokens r, lr_total_tokens = cm_total_tokens r,
     lr_created = cm_created r, lr_raw = cm_raw r, lr_tier = cm_tier r, lr_fingerprint = cm_fingerprint r\<rparr>"

subsection \<open>The client\<close>

record raw_message =
  rm_role :: string
  rm_content :: "string option"
  rm_name :: "string option"
  rm_tool_call_id :: "string option"

record raw_body =
  rb_model :: string
  rb_messages :: "raw_message list"
  rb_temperature :: "f64 option"
  rb_max_tokens :: "int option"
  rb_top_p :: "f64 option"
  rb_routing :: "routing_config option"
  rb_format :: "(string \<times> schema_value option \<times> bool option \<times> string option) option option"

text \<open>The service: a completion of the OpenAI client, a POST (status and body) of the HTTP client, and the decoder of a body.\<close>

record 's llm_api =
  api_complete :: "chat_params \<Rightarrow> 's \<Rightarrow> (call_error + completion) \<times> 's"
  api_post :: "string \<Rightarrow> raw_body \<Rightarrow> 's \<Rightarrow> (call_error + int \<times> string) \<times> 's"
  api_decode :: "string \<Rightarrow> goerror + completion"

record llm_client =
  cl_config :: llm_config
  cl_retry :: retry_config
  cl_budget :: "budget_guard option"
  cl_routing :: "routing_config option"

definition builtin_routing :: "time \<Rightarrow> routing_config" where
  "builtin_routing now = \<lparr>ro_models = (if now < 1764547200 * second
     then [''kuaishou/kat-coder-pro-v1'', ''minimax/minimax-m2'']
     else [''openai/gpt-5-nano'', ''google/gemini-2.5-flash-lite'', ''x-ai/grok-4-fast'', ''qwen/qwen3-235b-a22b-2507'', ''deepseek/deepseek-chat-v3.1'']),
     ro_preference = ''balanced''\<rparr>"

definition default_routing :: "time \<Rightarrow> llm_config \<Rightarrow> routing_config option" where
  "default_routing now cfg = (if \<not> equal_fold (lc_default_model cfg) ''zenmux/auto'' then None
     else case lc_routing cfg of
       Some r \<Rightarrow> if ro_models r \<noteq> [] then Some r else Some (builtin_routing now)
     | None \<Rightarrow> Some (builtin_routing now))"

definition new_client ::
  "((string \<times> f64) list \<Rightarrow> (string \<times> f64) list) \<Rightarrow> time \<Rightarrow> llm_config option \<Rightarrow> retry_config option \<Rightarrow> goerror + llm_client" where
  "new_client it now cfg retry = (case cfg of
     None \<Rightarrow> Inl (Errorf ''llm: config cannot be nil'' [])
   | Some c \<Rightarrow> (case llm_validate it c of
       Some e \<Rightarrow> Inl e
     | None \<Rightarrow> Inr \<lparr>cl_config = c, cl_retry = (case retry of Some r \<Rightarrow> r | None \<Rightarrow> client_retry (lc_max_retries c)),
         cl_budget = new_budget_guard (lc_budget c), cl_routing = default_routing now c\<rparr>))"

definition raw_message_of :: "message \<Rightarrow> raw_message" where
  "raw_message_of m = (let r = to_lower (trim_space (ms_role m)); role = (if r = '''' then ''user'' else r) in
     \<lparr>rm_role = role, rm_content = named (ms_content m), rm_name = (if role = ''tool'' then None else named (ms_name m)),
      rm_tool_call_id = (if role = ''tool'' then named (ms_tool_call_id m) else None)\<rparr>)"

definition raw_format_of :: "response_format option \<Rightarrow> (string \<times> schema_value option \<times> bool option \<times> string option) option option" where
  "raw_format_of rf = (case rf of None \<Rightarrow> None
   | Some f \<Rightarrow> let t = to_lower (trim_space (rf_type f)) in
       if t = ''json_schema'' then Some (Some (if trim_space (rf_name f) = '''' then ''schema'' else rf_name f, rf_schema f, rf_strict f, named (rf_description f)))
       else if t = ''json_object'' then Some None else None)"

definition raw_body_of :: "chat_request \<Rightarrow> string \<Rightarrow> raw_body" where
  "raw_body_of req model = \<lparr>rb_model = model, rb_messages = map raw_message_of (rq_messages req), rb_temperature = rq_temperature req,
     rb_max_tokens = rq_max_tokens req, rb_top_p = rq_top_p req, rb_routing = rq_routing req, rb_format = raw_format_of (rq_format req)\<rparr>"

definition status_error :: "int \<Rightarrow> call_error" where
  "status_error n = \<lparr>ce_error = Errorf ''llm: http %d'' [itoa n], ce_canceled = False, ce_deadline = False, ce_status = Some n, ce_temporary = False, ce_op_error = False\<rparr>"

definition decode_error :: "goerror \<Rightarrow> call_error" where
  "decode_error e = \<lparr>ce_error = Wrapf ''llm: decode completion: %w'' [] e, ce_canceled = False, ce_deadline = False, ce_status = None, ce_temporary = False, ce_op_error = False\<rparr>"

text \<open>The operations that are retried; their state also holds the completion, set by the attempt that succeeds.\<close>

definition complete_once :: "'s llm_api \<Rightarrow> chat_params \<Rightarrow> completion option \<times> 's \<Rightarrow> call_error option \<times> completion option \<times> 's" where
  "complete_once api p = (\<lambda>(c, s). case api_complete api p s of
     (Inl e, s') \<Rightarrow> (Some e, c, s') | (Inr r, s') \<Rightarrow> (None, Some r, s'))"

definition post_once :: "'s llm_api \<Rightarrow> string \<Rightarrow> raw_body \<Rightarrow> completion option \<times> 's \<Rightarrow> call_error option \<times> completion option \<times> 's" where
  "post_once api url body = (\<lambda>(c, s). case api_post api url body s of
     (Inl e, s') \<Rightarrow> (Some e, c, s')
   | (Inr (status, b), s') \<Rightarrow> if status < 200 \<or> status \<ge> 300 then (Some (status_error status), c, s')
       else (case api_decode api b of Inl e \<Rightarrow> (Some (decode_error e), c, s') | Inr r \<Rightarrow> (None, Some r, s')))"

text \<open>The answer after the retries; a success has set the completion.\<close>

definition answer_of :: "(call_error option \<times> duration list) \<times> completion option \<times> 's \<Rightarrow> (goerror + llm_response) \<times> 's" where
  "answer_of = (\<lambda>((err, _), c, s). (case err of
      Some e \<Rightarrow> Inl (case ce_status e of Some n \<Rightarrow> Errorf ''llm: http %d'' [itoa n] | None \<Rightarrow> ce_error e)
    | None \<Rightarrow> (case c of Some r \<Rightarrow> Inr (convert_completion r) | None \<Rightarrow> Inl (Errorf ''llm: no completion'' [])), s))"

fun trim_right_slash :: "string \<Rightarrow> string" where
  "trim_right_slash s = rev (dropWhile (\<lambda>c. c = CHR ''/'') (rev s))"

definition chat_raw ::
  "'s llm_api \<Rightarrow> (int \<Rightarrow> call_error option option) \<Rightarrow> llm_client \<Rightarrow> chat_request \<Rightarrow> string \<Rightarrow> 's \<Rightarrow> (goerror + llm_response) \<times> 's" where
  "chat_raw api ctx cl req model s = answer_of (retry_do (cl_retry cl)
     (post_once api (trim_right_slash (lc_base_url (cl_config cl)) @ ''/chat/completions'') (raw_body_of req model)) ctx (None, s))"

definition routed :: "chat_request \<Rightarrow> string \<Rightarrow> bool" where
  "routed req model \<longleftrightarrow> equal_fold model ''zenmux/auto'' \<or> rq_routing req \<noteq> None"

text \<open>The two halves of the budget check of a chat; \<open>now\<close> and \<open>later\<close> are the readings of the clock.\<close>

definition admit_chat :: "time \<Rightarrow> llm_client \<Rightarrow> goerror option \<times> llm_client" where
  "admit_chat now cl = (case cl_budget cl of None \<Rightarrow> (None, cl)
     | Some g \<Rightarrow> (case allow_attempt now g of (e, g') \<Rightarrow> (e, cl\<lparr>cl_budget := Some g'\<rparr>)))"

definition charge_chat :: "time \<Rightarrow> string \<Rightarrow> llm_response \<Rightarrow> llm_client \<Rightarrow> goerror option \<times> llm_client" where
  "charge_chat later model r cl = (case cl_budget cl of None \<Rightarrow> (None, cl)
     | Some g \<Rightarrow> if sint (lr_total_tokens r) \<le> 0 then (None, cl)
       else (case record_usage later model (lr_total_tokens r) g of ((_, e), g') \<Rightarrow> (e, cl\<lparr>cl_budget := Some g'\<rparr>)))"

definition chat ::
  "'s llm_api \<Rightarrow> (int \<Rightarrow> call_error option option) \<Rightarrow> time \<Rightarrow> time \<Rightarrow> chat_request option \<Rightarrow> llm_client \<Rightarrow> 's \<Rightarrow>
   (goerror + llm_response) \<times> llm_client \<times> 's" where
  "chat api ctx now later req cl s = (case req of
     None \<Rightarrow> (Inl (Errorf ''llm: request cannot be nil'' []), cl, s)
   | Some rq \<Rightarrow> (case admit_chat now cl of
       (Some e, cl1) \<Rightarrow> (Inl e, cl1, s)
     | (None, cl1) \<Rightarrow> (case build_chat_params (cl_config cl1) rq of
         Inl e \<Rightarrow> (Inl e, cl1, s)
       | Inr (params, alias, model) \<Rightarrow>
           if routed rq model
           then (case chat_raw api ctx cl1 (rq\<lparr>rq_routing := first_of (rq_routing rq) (cl_routing cl1)\<rparr>) model s of (r, s1) \<Rightarrow> (r, cl1, s1))
           else (case retry_do (cl_retry cl1) (complete_once api params) ctx (None, s) of
               ((Some e, _), _, s1) \<Rightarrow> (Inl (ce_error e), cl1, s1)
             | ((None, _), None, s1) \<Rightarrow> (Inl (Errorf ''llm: no completion'' []), cl1, s1)
             | ((None, _), Some c, s1) \<Rightarrow>
                 (case charge_chat later alias (convert_completion c) cl1 of
                    (Some e, cl2) \<Rightarrow> (Inl e, cl2, s1)
                  | (None, cl2) \<Rightarrow> (Inr (convert_completion c), cl2, s1))))))"

text \<open>\<open>ChatStructured\<close>; \<open>decode\<close> is the JSON decoder into the target, whose Go type is \<open>ty\<close>.\<close>

definition chat_structured ::
  "'s llm_api \<Rightarrow> (int \<Rightarrow> call_error option option) \<Rightarrow> time \<Rightarrow> time \<Rightarrow> gotype \<Rightarrow> (string \<Rightarrow> goerror + 'a) \<Rightarrow> chat_request \<Rightarrow> llm_client \<Rightarrow> 's \<Rightarrow>
   (goerror + llm_response \<times> 'a) \<times> llm_client \<times> 's" where
  "chat_structured api ctx now later ty decode req cl s = (case generate_schema ty of
     Inl e \<Rightarrow> (Inl e, cl, s)
   | Inr schema \<Rightarrow>
       let format = \<lparr>rf_type = ''json_schema'', rf_schema = Some (SObj schema), rf_name = derive_schema_name ty, rf_description = ''Structured response'', rf_strict = Some True\<rparr>
       in (case chat api ctx now later (Some (req\<lparr>rq_format := Some format\<rparr>)) cl s of
         (Inl e, cl1, s1) \<Rightarrow> (Inl e, cl1, s1)
       | (Inr r, cl1, s1) \<Rightarrow> (case lr_choices r of
           [] \<Rightarrow> (Inl (Errorf ''llm: empty structured response'' []), cl1, s1)
         | c # _ \<Rightarrow> (case decode (trim_space (ms_content (ci_message c))) of
             Inl e \<Rightarrow> (Inl (Wrapf ''decode structured response: %w'' [] e), cl1, s1)
           | Inr x \<Rightarrow> (Inr (r, x), cl1, s1)))))"

subsection \<open>A loaded configuration is usable\<close>

text \<open>Whatever the file and the environment say, a configuration that loads has a key, an address and a model, a positive timeout, retries
  that are not negative, and a budget with a positive limit; the client built from it has its budget in force.\<close>

theorem llm_load_sound:
  assumes "llm_load_config env getenv it decoded = Inr c" "new_client it now (Some c) None = Inr cl"
  shows "trim_space (lc_api_key c) \<noteq> '''' \<and> trim_space (lc_base_url c) \<noteq> '''' \<and> trim_space (lc_default_model c) \<noteq> '''' \<and>
    0 < lc_timeout c \<and> cl_retry cl = client_retry (lc_max_retries c) \<and> 0 \<le> lc_max_retries c \<and>
    (case lc_budget c of None \<Rightarrow> cl_budget cl = None
     | Some b \<Rightarrow> 0 < sint (bc_daily_limit b) \<and> (\<exists>g. cl_budget cl = Some g \<and> bg_cfg g = b \<and> bg_used g = 0))"
proof -
  have v: "llm_validate it c = None"
    using assms(1) by (auto simp: llm_load_config_def split: sum.splits option.splits)
  have "sint (bc_daily_limit b) > 0" if "lc_budget c = Some b" for b
    using v that by (auto simp: llm_validate_def budget_validate_def guards_None split: option.splits)
  then show ?thesis using v assms(2)
    by (auto simp: new_client_def llm_validate_def llm_config_guards_def guards_None new_budget_guard_def split: option.splits)
qed

subsection \<open>Schemas are well formed\<close>

inductive schema_ok :: "schema_value \<Rightarrow> bool" where
  scalar: "lookup m ''type'' = Some (SStr t) \<Longrightarrow> t \<in> {''boolean'', ''string'', ''integer'', ''number''} \<Longrightarrow> schema_ok (SObj m)"
| array: "lookup m ''type'' = Some (SStr ''array'') \<Longrightarrow> lookup m ''items'' = Some s \<Longrightarrow> schema_ok s \<Longrightarrow> schema_ok (SObj m)"
| dict: "lookup m ''type'' = Some (SStr ''object'') \<Longrightarrow> lookup m ''additionalProperties'' = Some s \<Longrightarrow> schema_ok s \<Longrightarrow> schema_ok (SObj m)"
| object: "lookup m ''type'' = Some (SStr ''object'') \<Longrightarrow> lookup m ''properties'' = Some (SObj ps) \<Longrightarrow>
    (\<And>k s. lookup ps k = Some s \<Longrightarrow> schema_ok s) \<Longrightarrow>
    (\<And>v. lookup m ''required'' = Some v \<Longrightarrow> \<exists>rs. v = SStrs rs \<and> rs \<noteq> [] \<and> (\<forall>k \<in> set rs. lookup ps k \<noteq> None)) \<Longrightarrow> schema_ok (SObj m)"

text \<open>A description does not matter.\<close>

lemma schema_ok_description: "schema_ok (SObj m) \<Longrightarrow> schema_ok (SObj (put ''description'' d m))"
proof (erule schema_ok.cases)
  fix m' ps
  assume "SObj m = SObj m'" "lookup m' ''type'' = Some (SStr ''object'')" "lookup m' ''properties'' = Some (SObj ps)"
    "\<And>k s. lookup ps k = Some s \<Longrightarrow> schema_ok s"
    "\<And>v. lookup m' ''required'' = Some v \<Longrightarrow> \<exists>rs. v = SStrs rs \<and> rs \<noteq> [] \<and> (\<forall>k \<in> set rs. lookup ps k \<noteq> None)"
  then show ?thesis by (intro schema_ok.object [of _ ps]) (auto simp: update_conv')
qed (auto simp: update_conv' intro: schema_ok.intros)

lemma object_schema_ok:
  assumes "\<And>k s. lookup ps k = Some s \<Longrightarrow> schema_ok s" "\<And>k. k \<in> set rs \<Longrightarrow> lookup ps k \<noteq> None"
  shows "schema_ok (SObj (object_schema ps rs))"
  by (rule schema_ok.object [of _ ps]) (use assms in \<open>auto simp: object_schema_def Let_def update_conv' split: if_splits\<close>)

definition put_fields :: "(gofield \<Rightarrow> schema_value) \<Rightarrow> gofield list \<Rightarrow> (string, schema_value) gomap \<Rightarrow> (string, schema_value) gomap" where
  "put_fields g = fold (\<lambda>f m. if skipped f then m else put (property_name f) (g f) m)"

lemma build_props_put: "build_props fs m = put_fields (\<lambda>f. SObj (build_schema (field_type f))) fs m"
proof (induction fs arbitrary: m)
  case (Cons f fs)
  then show ?case by (cases f) (simp add: put_fields_def Let_def)
qed (simp add: put_fields_def)

lemma put_fields_Some:
  "lookup (put_fields g fs m) k = Some s \<Longrightarrow> lookup m k = Some s \<or> (\<exists>f \<in> set fs. s = g f)"
proof (induction fs arbitrary: m)
  case (Cons f fs)
  from Cons.prems Cons.IH [of "if skipped f then m else put (property_name f) (g f) m"] show ?case
    by (auto simp: put_fields_def update_conv' split: if_splits)
qed (simp add: put_fields_def)

lemma put_fields_mem:
  "f \<in> set fs \<and> \<not> skipped f \<and> k = property_name f \<or> lookup m k \<noteq> None \<Longrightarrow> lookup (put_fields g fs m) k \<noteq> None"
proof (induction fs arbitrary: m)
  case (Cons h fs)
  have "f \<in> set fs \<and> \<not> skipped f \<and> k = property_name f \<or> lookup (if skipped h then m else put (property_name h) (g h) m) k \<noteq> None"
    using Cons.prems by (auto simp: update_conv')
  from Cons.IH [OF this] show ?case by (simp add: put_fields_def)
qed (simp add: put_fields_def)

lemma struct_schema_ok:
  assumes "\<And>f. f \<in> set fs \<Longrightarrow> schema_ok (g f)"
  shows "schema_ok (SObj (object_schema (put_fields g fs []) (required_names fs)))"
proof (rule object_schema_ok)
  show "lookup (put_fields g fs []) k = Some s \<Longrightarrow> schema_ok s" for k s using put_fields_Some [of g fs "[]" k s] assms by auto
  show "k \<in> set (required_names fs) \<Longrightarrow> lookup (put_fields g fs []) k \<noteq> None" for k
    using put_fields_mem [of _ fs k "[]" g] by (auto simp: required_names_def)
qed

lemma build_schema_ok: "schema_ok (SObj (build_schema t))"
proof -
  have "schema_ok (SObj (build_schema t))" "schema_ok (SObj (build_schema (field_type f)))" for t f
  proof (induction t and f rule: gotype.induct gofield.induct)
    case (GPtr t)
    then show ?case by (cases t) (auto simp: scalar_def intro: schema_ok.scalar)
  next
    case (GStruct n fs)
    then show ?case by (simp add: build_props_put struct_schema_ok)
  qed (auto simp: scalar_def intro: schema_ok.scalar schema_ok.array schema_ok.dict)
  then show ?thesis by simp
qed

fun struct_type :: "gotype \<Rightarrow> bool" where
  "struct_type (GStruct n fs) = True"
| "struct_type (GPtr t) = (case t of GStruct n fs \<Rightarrow> True | _ \<Rightarrow> False)"
| "struct_type _ = False"

text \<open>C27. A structured request gets a schema exactly for a Go struct or a pointer to one, and that schema is well formed: each schema in it, at every depth,
  has one of the JSON types, arrays and dictionaries have the schema of their elements, and the required names of an object are among its properties.\<close>

theorem generated_schema_ok:
  "if struct_type t then \<exists>m. generate_schema t = Inr m \<and> schema_ok (SObj m) else \<exists>e. generate_schema t = Inl e"
proof -
  have "schema_ok (SObj (described f))" for f
    by (simp add: described_def Let_def build_schema_ok schema_ok_description)
  then have "schema_ok (SObj (object_schema (put_fields (\<lambda>f. SObj (described f)) fs []) (required_names fs)))" for fs
    by (rule struct_schema_ok)
  then show ?thesis by (auto simp: generate_schema_def put_fields_def split: gotype.splits)
qed

subsection \<open>What a chat costs\<close>

lemma retry_success:
  assumes "retry_do c fn ctx s = ((None, ws), s')"
  obtains s0 where "fn s0 = (None, s')"
proof -
  obtain n where "retried c fn 0 (rt_initial c) s None ws s' n"
    using retry_from_retried assms unfolding retry_do_def by metis
  then have "fst (fn (after_calls fn n s)) = None" "s' = after_calls fn (Suc n) s" by (auto simp: retried_def call_result_def)
  moreover have "after_calls fn (Suc n) s = snd (fn (after_calls fn n s))" by (induction n arbitrary: s) simp_all
  ultimately show ?thesis using that prod.collapse by metis
qed

text \<open>A chat that the retry loop reports as successful has a completion.\<close>

lemma complete_success: "retry_do c (complete_once api p) ctx (None, s) = ((None, ws), x, s') \<Longrightarrow> x \<noteq> None"
  by (erule retry_success) (auto simp: complete_once_def split: prod.splits sum.splits)

lemma post_success: "retry_do c (post_once api url body) ctx (None, s) = ((None, ws), x, s') \<Longrightarrow> x \<noteq> None"
  by (erule retry_success) (auto simp: post_once_def split: prod.splits sum.splits if_splits)

lemma chat_cases:
  assumes "chat api ctx now later (Some rq) cl s = (r, cl', s')"
  obtains (refused) e where "admit_chat now cl = (Some e, cl')" "r = Inl e" "s' = s"
  | (failed) e where "admit_chat now cl = (None, cl')" "r = Inl e"
  | (raw) params nick model where "admit_chat now cl = (None, cl')" "build_chat_params (cl_config cl') rq = Inr (params, nick, model)" "routed rq model"
  | (answered) cl1 params nick model c e where "admit_chat now cl = (None, cl1)" "build_chat_params (cl_config cl1) rq = Inr (params, nick, model)"
      "\<not> routed rq model" "charge_chat later nick (convert_completion c) cl1 = (e, cl')"
      "r = (case e of None \<Rightarrow> Inr (convert_completion c) | Some x \<Rightarrow> Inl x)"
proof -
  obtain e cl1 where adm: "admit_chat now cl = (e, cl1)" by fastforce
  note c = assms [unfolded chat_def option.case adm prod.case]
  show ?thesis
  proof (cases e)
    case (Some e')
    then show ?thesis using c adm refused by auto
  next
    case None
    note c = c [unfolded None option.case]
    show ?thesis
    proof (cases "build_chat_params (cl_config cl1) rq")
      case (Inl e')
      then show ?thesis using c adm None failed by auto
    next
      case (Inr b)
      obtain params nick model where b: "b = (params, nick, model)" by (cases b)
      note bp = Inr [unfolded b]
      show ?thesis
      proof (cases "routed rq model")
        case True
        then have "cl' = cl1" using c bp by (auto split: prod.splits)
        then show ?thesis using raw adm None bp True by simp
      next
        case False
        obtain err ws x s1 where rt: "retry_do (cl_retry cl1) (complete_once api params) ctx (None, s) = ((err, ws), x, s1)" by (metis surj_pair)
        show ?thesis
        proof (cases err)
          case (Some y)
          then have eq: "cl' = cl1" "r = Inl (ce_error y)" using c bp False rt by auto
          show ?thesis by (rule failed [OF _ eq(2)]) (simp add: eq(1) adm None)
        next
          case ok: None
          have "x \<noteq> None" by (rule complete_success [OF rt [unfolded ok]])
          then obtain k where k: "x = Some k" by auto
          obtain ce cl2 where ch: "charge_chat later nick (convert_completion k) cl1 = (ce, cl2)" by fastforce
          have eq: "cl' = cl2" "r = (case ce of None \<Rightarrow> Inr (convert_completion k) | Some x \<Rightarrow> Inl x)"
            using c bp False rt ok k ch by (auto split: option.splits)
          show ?thesis by (rule answered [OF adm [unfolded None] bp False ch [folded eq(1)] eq(2)])
        qed
      qed
    qed
  qed
qed

text \<open>C21. The cost of a chat: a request that the budget refuses never reaches the service; an answered request that is not routed has its tokens added
  to the counter of the day, and is not over the limit of a strict budget.\<close>

theorem chat_accounting:
  assumes "chat api ctx now later (Some rq) cl s = (r, cl', s')" "cl_budget cl = Some g" "0 < sint (bc_daily_limit (bg_cfg g))"
    and "g1 = reset_if_needed now g"
  shows "\<exists>g'. cl_budget cl' = Some g' \<and> bg_cfg g' = bg_cfg g \<and>
    (case fst (allow_attempt now g) of
       Some e \<Rightarrow> r = Inl e \<and> s' = s \<and> g' = g1
     | None \<Rightarrow> (\<forall>resp params nick model. r = Inr resp \<and> build_chat_params (cl_config cl) rq = Inr (params, nick, model) \<longrightarrow>
         (if routed rq model \<or> sint (lr_total_tokens resp) \<le> 0 then g' = g1
          else bg_used g' = bg_used (reset_if_needed later g1) + lr_total_tokens resp \<and>
            (bc_strict (bg_cfg g) \<longrightarrow> sint (bg_used g') \<le> sint (bc_daily_limit (bg_cfg g))))))"
proof -
  obtain e where al: "allow_attempt now g = (e, g1)" and cfg: "bg_cfg g1 = bg_cfg g"
    using assms(3,4) by (auto simp: allow_attempt_def reset_if_needed_def Let_def)
  have adm: "admit_chat now cl = (e, cl\<lparr>cl_budget := Some g1\<rparr>)" by (simp add: admit_chat_def assms(2) al)
  from assms(1) show ?thesis
  proof (cases rule: chat_cases)
    case (refused e')
    then have "e = Some e'" "cl_budget cl' = Some g1" using adm by auto
    then show ?thesis using refused cfg by (simp add: al)
  next
    case (failed e')
    then have "e = None" "cl_budget cl' = Some g1" "cl_config cl' = cl_config cl" using adm by auto
    then show ?thesis using failed cfg by (auto simp: al)
  next
    case (raw params nick model)
    then have "e = None" "cl_budget cl' = Some g1" "cl_config cl' = cl_config cl" using adm by auto
    then show ?thesis using raw cfg by (auto simp: al)
  next
    case (answered cl1 params nick model c ce)
    have cl1: "cl_budget cl1 = Some g1" "cl_config cl1 = cl_config cl" "e = None" using answered(1) adm by auto
    show ?thesis
    proof (cases "sint (lr_total_tokens (convert_completion c)) \<le> 0")
      case True
      then have "cl' = cl1" using answered(4) cl1 by (simp add: charge_chat_def)
      then show ?thesis using cl1 cfg answered True by (auto simp: al split: option.splits)
    next
      case False
      obtain sn re g2 where ru: "record_usage later nick (lr_total_tokens (convert_completion c)) g1 = ((sn, re), g2)" by (metis surj_pair)
      have cl': "cl_budget cl' = Some g2" "ce = re" using answered(4) cl1 False ru by (auto simp: charge_chat_def)
      have "bg_used g2 = bg_used (reset_if_needed later g1) + lr_total_tokens (convert_completion c)" "bg_cfg g2 = bg_cfg g"
        "re = None \<Longrightarrow> bc_strict (bg_cfg g) \<Longrightarrow> sint (bg_used g2) \<le> sint (bc_daily_limit (bg_cfg g))"
        using ru False assms(3) cfg by (auto simp: record_usage_def Let_def reset_if_needed_def split: if_splits)
      then show ?thesis using cl' cl1 answered False by (auto simp: al split: option.splits)
    qed
  qed
qed

subsection \<open>Model names\<close>

text \<open>A provider and a model name without a slash come back from the name they are joined to.\<close>

lemma parse_resolved:
  assumes "mc_provider c = p" "mc_model_name c = n" "trim_space p = p" "trim_space n = n" "p \<noteq> ''''" "n \<noteq> ''''"
    and "CHR ''/'' \<notin> set p" "\<not> contains_sub n ''/''" "\<not> contains_sub (trim_space a) ''/''"
  shows "parse_model_id (resolve_model_id a c) = (p, n)"
proof -
  have "resolve_model_id a c = p @ ''/'' @ n" using assms by (simp add: resolve_model_id_def Let_def)
  moreover have "takeWhile (\<lambda>x. x \<noteq> CHR ''/'') (p @ ''/'' @ n) = p" "dropWhile (\<lambda>x. x \<noteq> CHR ''/'') (p @ ''/'' @ n) = ''/'' @ n"
    using assms(7) by (subst takeWhile_append2 dropWhile_append2; auto)+
  ultimately show ?thesis by (simp add: parse_model_id_def)
qed

subsection \<open>Examples\<close>

definition demo_llm_config :: llm_config where
  "demo_llm_config = \<lparr>lc_base_url = ''https://llm'', lc_api_key = ''k'', lc_default_model = ''m'', lc_timeout = second, lc_max_retries = 2,
     lc_log_level = ''info'', lc_models = [], lc_budget = Some demo_budget, lc_routing = None, lc_timeout_raw = ''1s''\<rparr>"

definition demo_client :: llm_client where
  "demo_client = \<lparr>cl_config = demo_llm_config, cl_retry = client_retry 2, cl_budget = new_budget_guard (Some demo_budget), cl_routing = None\<rparr>"

definition demo_completion :: completion where
  "demo_completion = \<lparr>cm_id = ''1'', cm_model = ''m'', cm_created = 0, cm_raw = '''', cm_fingerprint = '''', cm_tier = '''',
     cm_prompt_tokens = 300, cm_completion_tokens = 100, cm_total_tokens = 400, cm_choices = []\<rparr>"

definition demo_api :: "nat llm_api" where
  "demo_api = \<lparr>api_complete = (\<lambda>p n. (Inr demo_completion, n + 1)), api_post = (\<lambda>u b n. (Inr (200, ''''), n + 1)), api_decode = (\<lambda>b. Inr demo_completion)\<rparr>"

definition demo_request :: chat_request where
  "demo_request = \<lparr>rq_model = '''', rq_messages = [\<lparr>ms_role = ''user'', ms_content = ''hi'', ms_name = '''', ms_tool_call_id = ''''\<rparr>],
     rq_temperature = None, rq_max_tokens = None, rq_top_p = None, rq_stream = False, rq_format = None, rq_routing = None\<rparr>"

definition demo_chat :: "(goerror + llm_response) \<times> llm_client \<times> nat" where
  "demo_chat = chat demo_api (\<lambda>_. None) 5 6 (Some demo_request) demo_client 0"

theorem chat_accounting_witness:
  "\<exists>g'. cl_budget (fst (snd demo_chat)) = Some g' \<and> bg_used g' = 400 \<and> sint (bg_used g') \<le> 1000"
proof -
  define g where "g = \<lparr>bg_cfg = demo_budget, bg_used = 0, bg_cost = 0, bg_period = zero_time\<rparr>"
  have g: "cl_budget demo_client = Some g" "0 < sint (bc_daily_limit (bg_cfg g))"
    by (simp_all add: demo_client_def new_budget_guard_def g_def demo_budget_def)
  have r: "fst demo_chat = Inr (convert_completion demo_completion)" by code_simp
  have d: "chat demo_api (\<lambda>_. None) 5 6 (Some demo_request) demo_client 0 = (fst demo_chat, fst (snd demo_chat), snd (snd demo_chat))"
    by (simp add: demo_chat_def)
  obtain p a md where bp: "build_chat_params (cl_config demo_client) demo_request = Inr (p, a, md)" "\<not> routed demo_request md"
  proof -
    have "case build_chat_params (cl_config demo_client) demo_request of Inl e \<Rightarrow> False | Inr (p, a, md) \<Rightarrow> \<not> routed demo_request md" by code_simp
    then show ?thesis using that by (auto split: sum.splits prod.splits)
  qed
  have al: "fst (allow_attempt 5 g) = None" "bg_used (reset_if_needed 6 (reset_if_needed 5 g)) = 0" unfolding g_def by code_simp+
  have t: "\<not> sint (lr_total_tokens (convert_completion demo_completion)) \<le> 0" "lr_total_tokens (convert_completion demo_completion) = 400"
    "bc_strict (bg_cfg g)" "sint (bc_daily_limit (bg_cfg g)) = 1000"
    by (simp_all add: convert_completion_def demo_completion_def g_def demo_budget_def)
  from chat_accounting [OF d g refl] obtain g' where "cl_budget (fst (snd demo_chat)) = Some g'" "bg_used g' = 400" "sint (bg_used g') \<le> 1000"
    using r bp al t by auto
  then show ?thesis by blast
qed

end
