(* ===== verification/TradingLoop.thy ===== *)
theory TradingLoop
  imports PaperTrading "HOL-Library.Product_Lexorder"
begin

text \<open>
  The trading loop (\<open>RunTradingLoop\<close> of \<open>pkg/manager/manager.go\<close>): what it shows the executor, the order in which it
  executes the decisions it gets and how many of them, one cycle of one trader and one tick over the active traders. The
  state of the loop is the manager, the executors of the traders, the exchange and the cycles handed to the journal, whose files are not modelled.
  The services of the executors, the market data, the digest of a prompt and the environment are parameters; a cycle reads the clock once. \<open>sort.SliceStable\<close>
  and \<open>sort.Slice\<close> are insertion by the comparison of the program; what the second does with equal elements is an arbitrary rank.

  Shown: the plan of a cycle is the closes, then as many opens as the slots and the cycle cap allow, then the rest, each by symbol; a
  cycle whose decisions failed validation trades nothing; a tick keeps the book and leaves the traders that are not due as they were.
\<close>

subsection \<open>Sorting\<close>

fun insert_by :: "('a \<Rightarrow> 'a \<Rightarrow> bool) \<Rightarrow> 'a \<Rightarrow> 'a list \<Rightarrow> 'a list" where
  "insert_by lt x [] = [x]"
| "insert_by lt x (y # ys) = (if lt x y then x # y # ys else y # insert_by lt x ys)"

definition slice_stable :: "('a \<Rightarrow> 'a \<Rightarrow> bool) \<Rightarrow> 'a list \<Rightarrow> 'a list" where
  "slice_stable lt xs = fold (insert_by lt) xs []"

subsection \<open>The plan of a cycle\<close>

definition priority :: "string \<Rightarrow> int" where
  "priority a = (if a \<in> {''close_long'', ''close_short''} then 0 else if a \<in> {''open_long'', ''open_short''} then 1 else 2)"

definition decision_less :: "decision \<Rightarrow> decision \<Rightarrow> bool" where
  "decision_less a b = (if priority (dec_action a) \<noteq> priority (dec_action b)
     then priority (dec_action a) < priority (dec_action b) else dec_symbol a < dec_symbol b)"

definition sort_decisions_close_first :: "decision list \<Rightarrow> decision list" where
  "sort_decisions_close_first ds = slice_stable decision_less ds"

definition opens :: "decision \<Rightarrow> bool" where
  "opens d \<longleftrightarrow> dec_action d = ''open_long'' \<or> dec_action d = ''open_short''"

fun cap_from :: "int \<Rightarrow> int \<Rightarrow> decision list \<Rightarrow> decision list" where
  "cap_from slots n [] = []"
| "cap_from slots n (d # ds) = (if opens d then (if slots \<le> n then cap_from slots n ds else d # cap_from slots (n + 1) ds)
     else d # cap_from slots n ds)"

definition cap_new_open_decisions :: "decision list \<Rightarrow> int \<Rightarrow> decision list" where
  "cap_new_open_decisions ds slots = (if slots \<le> 0 then filter (\<lambda>d. \<not> opens d) ds else cap_from slots 0 ds)"

definition remaining_slots :: "trader \<Rightarrow> nat \<Rightarrow> int" where
  "remaining_slots t held =
    (let free = rp_max_positions (tr_risk t) - int held; free = (if free < 0 then 0 else free);
         cap = eg_max_new_per_cycle (tr_guards t)
     in if 0 < cap \<and> cap < free then cap else free)"

definition cycle_plan :: "trader \<Rightarrow> nat \<Rightarrow> decision list \<Rightarrow> decision list" where
  "cycle_plan t held ds = cap_new_open_decisions (sort_decisions_close_first ds) (remaining_slots t held)"

subsection \<open>What the executor is shown\<close>

datatype meta_value = MetaFloat f64 | MetaInt int | MetaBool bool | MetaOther

text \<open>The market of a trader: its assets with their raw metadata, and the snapshots.\<close>

record market_view =
  mv_assets :: "goerror + (asset \<times> (string, meta_value) gomap) list"
  mv_snapshot :: snapshot_source

definition guard_on :: "bool option \<Rightarrow> bool" where
  "guard_on b = (case b of None \<Rightarrow> True | Some x \<Rightarrow> x)"

definition liquid :: "exec_guards \<Rightarrow> snapshot \<Rightarrow> bool" where
  "liquid g s = (if guard_on (eg_enable_liquidity g) \<and> 0 < eg_liquidity_threshold g
     then (case sn_open_interest s of None \<Rightarrow> True
       | Some oi \<Rightarrow> \<not> (oi_latest oi * sn_price_last s + eps < eg_liquidity_threshold g))
     else True)"

fun rank_assets :: "trader \<Rightarrow> snapshot_source \<Rightarrow> nat \<Rightarrow> (asset \<times> (string, meta_value) gomap) list \<Rightarrow> (string \<times> f64) list" where
  "rank_assets t snap n [] = []"
| "rank_assets t snap n ((a, meta) # as) =
    (if \<not> asset_is_active a \<or> enforce_allowed_symbol (rp_allowed_symbols (tr_risk t)) (asset_symbol_name a) \<noteq> None then rank_assets t snap n as
     else case snap (asset_symbol_name a) of
       Inr (Some s) \<Rightarrow>
         if \<not> liquid (tr_guards t) s then rank_assets t snap n as
         else let score = ch_one_hour (sn_change s); item = (asset_symbol_name a, if score < 0 then - score else score)
           in if n + 1 \<ge> 200 then [item] else item # rank_assets t snap (n + 1) as
     | _ \<Rightarrow> rank_assets t snap n as)"

definition select_candidates :: "(string \<times> f64 \<Rightarrow> int) \<Rightarrow> trader \<Rightarrow> market_view \<Rightarrow> int \<Rightarrow> candidate_coin list" where
  "select_candidates rank t mv limit0 =
    (let limit = (if limit0 \<le> 0 then (if eg_candidate_limit (tr_guards t) \<le> 0 then 10 else eg_candidate_limit (tr_guards t)) else limit0)
     in case mv_assets mv of
       Inl e \<Rightarrow> []
     | Inr assets \<Rightarrow> map (\<lambda>(s, _). \<lparr>cc_symbol = s, cc_sources = [''rank_1h_abs'']\<rparr>)
         (take (nat limit) (slice_stable (\<lambda>x y. snd y < snd x) (sort_key rank (rank_assets t (mv_snapshot mv) 0 assets)))))"

definition account_view :: "account_state option \<Rightarrow> nat \<Rightarrow> account_info" where
  "account_view acct n = (case acct of
     None \<Rightarrow> zero_account\<lparr>ai_position_count := int n\<rparr>
   | Some a \<Rightarrow>
     let equity = parse_num (ms_account_value (as_margin a)); used = parse_num (ms_total_margin_used (as_margin a));
         pnl = foldl (\<lambda>s p. s + parse_num (pos_unrealized p)) 0 (as_positions a)
     in \<lparr>ai_total_equity = equity, ai_available = equity - used, ai_total_pnl = pnl,
         ai_total_pnl_pct = (if feq equity 0 then 0 else lit 100 * (pnl / equity)), ai_margin_used = used,
         ai_margin_used_pct = (if feq equity 0 then 0 else lit 100 * (used / equity)), ai_position_count = int n\<rparr>)"

definition position_view :: "position \<Rightarrow> position_info" where
  "position_view p = (let qty = parse_num (pos_szi p) in
     \<lparr>pi_symbol = pos_coin p, pi_side = (if qty < 0 then ''short'' else ''long''), pi_entry_price = parse_ptr_num (pos_entry_px p),
      pi_mark_price = 0, pi_quantity = (if qty < 0 then - qty else qty), pi_leverage = lev_value (pos_leverage p),
      pi_unrealized = parse_num (pos_unrealized p), pi_unrealized_pct = 0, pi_liquidation_price = parse_ptr_num (pos_liquidation_px p),
      pi_margin_used = 0, pi_update_time = 0\<rparr>)"

fun take_snapshots :: "snapshot_source \<Rightarrow> string list \<Rightarrow> (string, snapshot option) gomap \<Rightarrow> (string, snapshot option) gomap" where
  "take_snapshots snap [] m = m"
| "take_snapshots snap (s # ss) m = (if lookup m s \<noteq> None then take_snapshots snap ss m
     else case snap s of Inr (Some x) \<Rightarrow> take_snapshots snap ss (put s (Some x) m) | _ \<Rightarrow> take_snapshots snap ss m)"

definition marked :: "(string, snapshot option) gomap \<Rightarrow> position_info \<Rightarrow> position_info" where
  "marked snaps p = (case lookup snaps (pi_symbol p) of
     Some (Some s) \<Rightarrow> if 0 < pi_entry_price p \<and> 0 < sn_price_last s
       then p\<lparr>pi_mark_price := sn_price_last s,
         pi_unrealized_pct := lit 100 * (sn_price_last s - pi_entry_price p) / pi_entry_price p\<rparr> else p
   | _ \<Rightarrow> p)"

definition meta_of :: "asset \<times> (string, meta_value) gomap \<Rightarrow> asset_meta" where
  "meta_of = (\<lambda>(a, raw).
     \<lparr>am_max_leverage = (case lookup raw ''maxLeverage'' of Some (MetaFloat x) \<Rightarrow> x | Some (MetaInt n) \<Rightarrow> f64_of_int n | _ \<Rightarrow> 0),
      am_precision = asset_precision a,
      am_only_isolated = (case lookup raw ''onlyIsolated'' of Some (MetaBool b) \<Rightarrow> b | _ \<Rightarrow> False)\<rparr>)"

definition asset_metas :: "market_view \<Rightarrow> string list \<Rightarrow> (string, asset_meta) gomap" where
  "asset_metas mv symbols = (case mv_assets mv of
     Inl e \<Rightarrow> []
   | Inr as \<Rightarrow> fold (\<lambda>(a, raw) m. if asset_symbol_name a \<in> set symbols then put (asset_symbol_name a) (meta_of (a, raw)) m else m) as [])"

definition format_rfc3339 :: "time \<Rightarrow> string" where
  "format_rfc3339 t = (let secs = (t mod day_length) div second in
     format_date t @ ''T'' @ pad_int 2 (secs div 3600) @ '':'' @ pad_int 2 (secs div 60 mod 60) @ '':'' @ pad_int 2 (secs mod 60) @ ''Z'')"

definition exec_context_of :: "time \<Rightarrow> trader \<Rightarrow> account_info \<Rightarrow> position_info list \<Rightarrow> candidate_coin list \<Rightarrow>
    (string, snapshot option) gomap \<Rightarrow> (string, asset_meta) gomap \<Rightarrow> exec_context" where
  "exec_context_of now t account views candidates snaps metas =
    (let g = tr_guards t; band = guard_on (eg_enable_value_band g) in
     zero_context\<lparr>ctx_current_time := format_rfc3339 now, ctx_account := account, ctx_positions := views, ctx_candidates := candidates,
       ctx_market_data := snaps, ctx_performance := to_executor_view (tr_performance t),
       ctx_major_leverage := rp_major_leverage (tr_risk t), ctx_alt_leverage := rp_alt_leverage (tr_risk t), ctx_asset_meta := metas,
       ctx_max_margin_usage_pct := (if guard_on (eg_enable_margin_usage g) then rp_max_margin_usage_pct (tr_risk t) else 0),
       ctx_liquidity_threshold := (if guard_on (eg_enable_liquidity g) then eg_liquidity_threshold g else 0),
       ctx_btceth_min_multiple := (if band then eg_btceth_min_multiple g else 0),
       ctx_btceth_max_multiple := (if band then eg_btceth_max_multiple g else 0),
       ctx_alt_min_multiple := (if band then eg_alt_min_multiple g else 0),
       ctx_alt_max_multiple := (if band then eg_alt_max_multiple g else 0),
       ctx_cooldown_after_close := (if guard_on (eg_enable_cooldown g) then eg_cooldown_after_close g else 0)\<rparr>)"

definition build_executor_context ::
  "'w provider \<Rightarrow> market_view \<Rightarrow> (string \<times> f64 \<Rightarrow> int) \<Rightarrow> time \<Rightarrow> trader \<Rightarrow> manager \<Rightarrow> 'w \<Rightarrow> exec_context \<times> 'w" where
  "build_executor_context P mv rank now t m w =
    (case pv_get_account_state P w of (acct, w1) \<Rightarrow>
     case pv_get_positions P w1 of (raw, w2) \<Rightarrow>
     let held = filter_positions_for_trader (tr_id t) (case raw of Inl e \<Rightarrow> [] | Inr ps \<Rightarrow> ps) m;
         views = map position_view held; symbols = remdups (map pi_symbol views);
         candidates = select_candidates rank t mv 0;
         snaps = take_snapshots (mv_snapshot mv) (symbols @ map cc_symbol candidates) []
     in (exec_context_of now t (account_view (case acct of Inl e \<Rightarrow> None | Inr a \<Rightarrow> Some a) (length views))
          (map (marked snaps) views) candidates snaps (asset_metas mv symbols), w2))"

subsection \<open>A cycle\<close>

record cycle_action =
  ca_decision :: decision
  ca_token :: string
  ca_error :: "goerror option"

record cycle_record =
  cy_trader_id :: string
  cy_config_version :: int
  cy_prompt_digest :: string
  cy_decisions :: "decision list"
  cy_context :: exec_context
  cy_actions :: "cycle_action list"
  cy_success :: bool
  cy_error :: string

record 'w loop_state =
  ls_manager :: manager
  ls_executors :: "(string, executor) gomap"
  ls_world :: 'w
  ls_cycles :: "cycle_record list"

text \<open>What a cycle depends on: the environment, the providers of a trader, the services of the executors, the digest of a prompt, the digest
  of an order, and the orders left open.\<close>

record 'w loop_env =
  le_getenv :: "string \<Rightarrow> string"
  le_provider :: "string \<Rightarrow> 'w provider"
  le_market :: "string \<Rightarrow> market_view"
  le_services :: exec_services
  le_digest :: "string \<Rightarrow> string"
  le_sha :: "string \<Rightarrow> int list"
  le_iter :: reconcile_iter
  le_rank :: "string \<times> f64 \<Rightarrow> int"

definition out_prompt_digest :: "(string \<Rightarrow> string) \<Rightarrow> full_decision option \<Rightarrow> string" where
  "out_prompt_digest digest out = (case out of None \<Rightarrow> ''''
     | Some o' \<Rightarrow> if trim_space (fd_user_prompt o') = '''' then '''' else digest (fd_user_prompt o'))"

definition record_decisions ::
  "time \<Rightarrow> audit_event_type \<Rightarrow> string \<Rightarrow> goerror option \<Rightarrow> string \<Rightarrow> audit_trace \<Rightarrow> decision list \<Rightarrow> manager \<Rightarrow> manager" where
  "record_decisions now ty reason err tid trace ds m =
    (if ds = [] then record_audit_decision_event now ty (lookup (mg_traders m) tid) None trace None reason err [(''decision_count'', DInt 0)] m
     else fold (\<lambda>(i, d) m. record_audit_decision_event now ty (lookup (mg_traders m) tid) (Some d) trace None reason err
       [(''decision_index'', DInt (int i)), (''decision_count'', DInt (int (length ds)))] m) (enumerate 0 ds) m)"

fun execute_plan ::
  "'w loop_env \<Rightarrow> time \<Rightarrow> string \<Rightarrow> audit_trace \<Rightarrow> decision list \<Rightarrow> manager \<Rightarrow> 'w \<Rightarrow> (cycle_action list \<times> manager) \<times> 'w" where
  "execute_plan L now tid trace [] m w = (([], m), w)"
| "execute_plan L now tid trace (d # ds) m w =
    (case approve_decision_with_audit (le_getenv L) now tid d trace m of
       ((Inl e, d1), m1) \<Rightarrow> (case execute_plan L now tid trace ds m1 w of
         ((acts, m2), w2) \<Rightarrow> ((\<lparr>ca_decision = d, ca_token = '''', ca_error = Some e\<rparr> # acts, m2), w2))
     | ((Inr ap, d1), m1) \<Rightarrow>
       (case execute_decision_with_approval (le_provider L tid) (mv_snapshot (le_market L tid)) (le_sha L) (le_iter L) now tid d1 (Some ap) trace m1 w of
          ((r, m2), w2) \<Rightarrow> (case execute_plan L now tid trace ds m2 w2 of
            ((acts, m3), w3) \<Rightarrow> ((\<lparr>ca_decision = d\<lparr>dec_leverage := dec_leverage d1\<rparr>, ca_token = ap_id ap, ca_error = r\<rparr> # acts, m3), w3))))"

definition cycle_performance :: "time \<Rightarrow> cycle_action list \<Rightarrow> performance_metrics \<Rightarrow> performance_metrics" where
  "cycle_performance now acts p =
    (let total = length acts; succ = length (filter (\<lambda>a. ca_error a = None) acts) in
     p\<lparr>pm_total_trades := pm_total_trades p + int total,
       pm_win_rate := (if 0 < total then f64_of_int (int succ) / f64_of_int (int total) else pm_win_rate p), pm_updated_at := now\<rparr>)"

text \<open>After the decisions: the performance, the journal, the time of the decision, the stored state and a synchronisation.\<close>

definition finish_cycle ::
  "'w loop_env \<Rightarrow> time \<Rightarrow> string \<Rightarrow> exec_context \<Rightarrow> full_decision option \<Rightarrow> goerror option \<Rightarrow> bool \<Rightarrow> cycle_action list \<Rightarrow>
   'w loop_state \<Rightarrow> 'w loop_state" where
  "finish_cycle L now tid ectx out err all_ok acts S = (case lookup (mg_traders (ls_manager S)) tid of
     None \<Rightarrow> S
   | Some t \<Rightarrow>
     let p = cycle_performance now acts (case tr_performance t of None \<Rightarrow> zero_performance | Some p \<Rightarrow> p);
         t1 = t\<lparr>tr_performance := Some p\<rparr>;
         m1 = record_analytics (analytics_of t1 p) (set_trader t1 (ls_manager S));
         cycles = (if tr_journal_enabled t1 then ls_cycles S @ [\<lparr>cy_trader_id = tr_id t1, cy_config_version = tr_config_version t1,
             cy_prompt_digest = (case out of None \<Rightarrow> '''' | Some x \<Rightarrow> if trim_space (fd_user_prompt x) = '''' then '''' else le_digest L (trim_space (fd_user_prompt x))),
             cy_decisions = (case out of None \<Rightarrow> [] | Some x \<Rightarrow> fd_decisions x), cy_context = ectx, cy_actions = acts,
             cy_success = (all_ok \<and> err = None), cy_error = (case err of None \<Rightarrow> '''' | Some e \<Rightarrow> error_text e)\<rparr>] else ls_cycles S);
         t2 = record_decision now now t1;
         m2 = persist_runtime_state now t2 (set_trader t2 m1)
     in (case sync_trader_positions (le_provider L tid) (le_iter L) now tid m2 (ls_world S) of
          ((_, m3), w3) \<Rightarrow> S\<lparr>ls_manager := m3, ls_world := w3, ls_cycles := cycles\<rparr>))"

definition decide_and_execute :: "'w loop_env \<Rightarrow> time \<Rightarrow> trader \<Rightarrow> executor \<Rightarrow> 'w loop_state \<Rightarrow> 'w loop_state" where
  "decide_and_execute L now t ex S =
    (let tid = tr_id t; trace0 = new_audit_trace now tid now in
     case build_executor_context (le_provider L tid) (le_market L tid) (le_rank L) now t (ls_manager S) (ls_world S) of (ectx, w1) \<Rightarrow>
     case get_full_decision (le_services L) now (Some ectx) (update_performance (to_executor_view (tr_performance t)) ex) of ((out, err), ex1) \<Rightarrow>
     let S1 = S\<lparr>ls_world := w1, ls_executors := put tid ex1 (ls_executors S)\<rparr>;
         trace = trace0\<lparr>at_prompt_digest := out_prompt_digest (le_digest L) out\<rparr>
     in case out of
       None \<Rightarrow> finish_cycle L now tid ectx None err False [] S1
     | Some x \<Rightarrow>
       let m1 = record_decisions now DecisionGenerated ''decision_generated'' None tid trace (fd_decisions x) (ls_manager S1) in
       (case err of
          Some e \<Rightarrow> finish_cycle L now tid ectx (Some x) err False []
            (S1\<lparr>ls_manager := record_decisions now DecisionValidationFailed ''decision_validation_failed'' (Some e) tid trace (fd_decisions x) m1\<rparr>)
        | None \<Rightarrow>
          (case execute_plan L now tid trace (cycle_plan t (length (ctx_positions ectx)) (fd_decisions x)) m1 (ls_world S1) of
             ((acts, m2), w2) \<Rightarrow>
               finish_cycle L now tid ectx (Some x) None (list_all (\<lambda>a. ca_error a = None) acts) acts (S1\<lparr>ls_manager := m2, ls_world := w2\<rparr>))))"

text \<open>One trader of a tick; \<open>tid\<close> is one of the active traders. A trader without executor is not in the registry.\<close>

definition trader_cycle :: "'w loop_env \<Rightarrow> time \<Rightarrow> string \<Rightarrow> 'w loop_state \<Rightarrow> 'w loop_state" where
  "trader_cycle L now tid S = (case (lookup (mg_traders (ls_manager S)) tid, lookup (ls_executors S) tid) of
     (Some t, Some ex) \<Rightarrow>
       if \<not> should_make_decision now t then S
       else if sharpe_breach t then S\<lparr>ls_manager := set_trader (sharpe_pause now t) (ls_manager S)\<rparr>
       else decide_and_execute L now t ex S
   | _ \<Rightarrow> S)"

definition loop_tick :: "'w loop_env \<Rightarrow> time \<Rightarrow> 'w loop_state \<Rightarrow> 'w loop_state" where
  "loop_tick L now S = fold (trader_cycle L now) (map tr_id (get_active_traders (ls_manager S))) S"

text \<open>\<open>SyncAllPositions\<close>: the traders in the order \<open>it\<close> the map yields them, errors dropped.\<close>

definition sync_all_positions ::
  "(string list \<Rightarrow> string list) \<Rightarrow> (string \<Rightarrow> 'w provider) \<Rightarrow> reconcile_iter \<Rightarrow> time \<Rightarrow> manager \<times> 'w \<Rightarrow> manager \<times> 'w" where
  "sync_all_positions it P ri now = (\<lambda>(m, w). fold (\<lambda>i (m, w). case sync_trader_positions (P i) ri now i m w of ((_, m'), w') \<Rightarrow> (m', w'))
     (it (map fst (mg_traders m))) (m, w))"

subsection \<open>The plan\<close>

lemma insert_by_mset: "mset (insert_by lt x ys) = add_mset x (mset ys)"
  by (induction ys) auto

lemma set_insert_by: "set (insert_by lt x ys) = insert x (set ys)"
  by (metis insert_by_mset set_mset_add_mset_insert set_mset_mset)

lemma sorted_insert_by: "sorted (map f ys) \<Longrightarrow> sorted (map f (insert_by (\<lambda>a b. f a < f b) x ys))"
  by (induction ys) (auto simp: set_insert_by)

lemma filter_insert_by:
  "sorted (map f ys) \<Longrightarrow>
   filter (\<lambda>z. k = f z) (insert_by (\<lambda>a b. f a < f b) x ys) = filter (\<lambda>z. k = f z) ys @ (if k = f x then [x] else [])"
proof (induction ys)
  case (Cons y ys)
  show ?case
  proof (cases "f x < f y")
    case True
    then have "filter (\<lambda>z. f x = f z) (y # ys) = []" using Cons.prems by (fastforce simp: filter_empty_conv)
    then show ?thesis using True by auto
  next
    case False
    then show ?thesis using Cons by auto
  qed
qed simp

text \<open>A stable sort by a comparison of keys is the library's sort by that key.\<close>

lemma slice_stable_key: "slice_stable (\<lambda>a b. f a < f b) xs = sort_key f xs"
proof -
  let ?ins = "insert_by (\<lambda>a b. f a < f b)"
  have "mset (fold ?ins xs ys) = mset (ys @ xs) \<and> sorted (map f (fold ?ins xs ys)) \<and>
      (\<forall>k. filter (\<lambda>z. k = f z) (fold ?ins xs ys) = filter (\<lambda>z. k = f z) (ys @ xs))" if "sorted (map f ys)" for ys
    using that
  proof (induction xs arbitrary: ys)
    case (Cons x xs)
    then have "sorted (map f (?ins x ys))" by (intro sorted_insert_by)
    from Cons.IH [OF this] show ?case using filter_insert_by [OF Cons.prems] by (auto simp: insert_by_mset)
  qed simp
  from this [of "[]"] show ?thesis unfolding slice_stable_def by (intro properties_for_sort_key [symmetric]) auto
qed

lemma cap_from_append: "0 \<le> n \<Longrightarrow> list_all (\<lambda>d. \<not> opens d) xs \<Longrightarrow> cap_from s n (xs @ ys) = xs @ cap_from s n ys"
  by (induction xs) auto

lemma cap_from_opens: "n \<le> s \<Longrightarrow> list_all opens xs \<Longrightarrow> list_all (\<lambda>d. \<not> opens d) ys \<Longrightarrow> cap_from s n (xs @ ys) = take (nat (s - n)) xs @ ys"
proof (induction xs arbitrary: n)
  case Nil
  then show ?case by (induction ys) auto
next
  case (Cons x xs)
  show ?case
  proof (cases "s \<le> n")
    case True
    then show ?thesis using Cons by simp
  next
    case False
    then have "nat (s - n) = Suc (nat (s - (n + 1)))" by simp
    then show ?thesis using Cons False by simp
  qed
qed

lemma cap_blocks:
  assumes "list_all (\<lambda>d. \<not> opens d) xs" and "list_all opens ys" and "list_all (\<lambda>d. \<not> opens d) zs"
  shows "cap_new_open_decisions (xs @ ys @ zs) s = xs @ take (nat s) ys @ zs"
  using assms by (auto simp: cap_new_open_decisions_def cap_from_append cap_from_opens list_all_iff filter_empty_conv intro!: filter_True)

definition closes_action :: "decision \<Rightarrow> bool" where
  "closes_action d \<longleftrightarrow> dec_action d = ''close_long'' \<or> dec_action d = ''close_short''"

lemma priority_cases: "priority (dec_action d) = (if closes_action d then 0 else if opens d then 1 else 2)"
  by (simp add: priority_def closes_action_def opens_def)

lemma closes_not_opens: "closes_action d \<Longrightarrow> \<not> opens d"
  by (auto simp: closes_action_def opens_def)

text \<open>Two of the three kinds of a decision, and the order of one kind.\<close>

lemma filter_sorted_kind:
  "filter (\<lambda>x. p x \<and> c = dec_symbol x) (sort_key dec_symbol xs) = filter (\<lambda>x. p x \<and> c = dec_symbol x) xs"
  by (simp add: filter_sort) (rule sort_key_id_if_sorted, induction xs, auto)

lemma sorted_kind:
  "list_all (\<lambda>d. priority (dec_action d) = c) xs \<Longrightarrow>
   sorted (map (\<lambda>d. (priority (dec_action d), dec_symbol d)) (sort_key dec_symbol xs))"
proof -
  assume "list_all (\<lambda>d. priority (dec_action d) = c) xs"
  then have "map (\<lambda>d. (priority (dec_action d), dec_symbol d)) (sort_key dec_symbol xs) = map (Pair c) (map dec_symbol (sort_key dec_symbol xs))"
    by (auto simp: list_all_iff)
  moreover have "sorted (map (Pair c) ys)" if "sorted ys" for ys :: "string list"
    using that by (induction ys) auto
  ultimately show ?thesis by (metis sorted_sort_key)
qed

lemma sort_decisions_blocks:
  "sort_decisions_close_first ds = sort_key dec_symbol (filter closes_action ds) @ sort_key dec_symbol (filter opens ds) @
     sort_key dec_symbol (filter (\<lambda>d. \<not> closes_action d \<and> \<not> opens d) ds)"
proof -
  let ?f = "\<lambda>d. (priority (dec_action d), dec_symbol d)"
  let ?ys = "sort_key dec_symbol (filter closes_action ds) @ sort_key dec_symbol (filter opens ds) @
     sort_key dec_symbol (filter (\<lambda>d. \<not> closes_action d \<and> \<not> opens d) ds)"
  have lt: "decision_less = (\<lambda>a b. ?f a < ?f b)" by (auto simp: fun_eq_iff decision_less_def)
  have "sort_decisions_close_first ds = sort_key ?f ds"
    unfolding sort_decisions_close_first_def lt by (rule slice_stable_key)
  also have "sort_key ?f ds = ?ys"
  proof (rule properties_for_sort_key)
    show "mset ?ys = mset ds"
      by (induction ds) (auto simp: closes_not_opens)
    show "filter (\<lambda>x. ?f k = ?f x) ?ys = filter (\<lambda>x. ?f k = ?f x) ds" for k :: decision
      unfolding prod.inject filter_append filter_sorted_kind
      by (cases "closes_action k"; cases "opens k") (auto simp: priority_cases closes_not_opens filter_empty_conv intro: filter_cong)
    show "sorted (map ?f ?ys)"
      unfolding map_append sorted_append
      by (intro conjI sorted_kind) (auto simp: list_all_iff priority_cases closes_not_opens)
  qed
  finally show ?thesis .
qed

text \<open>C18. What a cycle executes: first every close, then the opens as far as the free positions and the cap of the cycle go, then
  the rest; within each kind by symbol, and in the order of the model for equal symbols.\<close>

theorem cycle_plan_spec:
  "cycle_plan t held ds =
     sort_key dec_symbol (filter closes_action ds) @
     take (nat (remaining_slots t held)) (sort_key dec_symbol (filter opens ds)) @
     sort_key dec_symbol (filter (\<lambda>d. \<not> closes_action d \<and> \<not> opens d) ds) \<and>
   0 \<le> remaining_slots t held \<and> remaining_slots t held \<le> max 0 (rp_max_positions (tr_risk t) - int held)"
proof (intro conjI)
  show "0 \<le> remaining_slots t held" "remaining_slots t held \<le> max 0 (rp_max_positions (tr_risk t) - int held)"
    by (auto simp: remaining_slots_def Let_def)
  show "cycle_plan t held ds =
     sort_key dec_symbol (filter closes_action ds) @
     take (nat (remaining_slots t held)) (sort_key dec_symbol (filter opens ds)) @
     sort_key dec_symbol (filter (\<lambda>d. \<not> closes_action d \<and> \<not> opens d) ds)"
    unfolding cycle_plan_def sort_decisions_blocks by (rule cap_blocks) (auto simp: list_all_iff closes_not_opens)
qed

subsection \<open>A cycle is confined to its trader\<close>

lemma confined_fold_record:
  "confined tid m (fold (\<lambda>(i, d) m. record_audit_decision_event now ty (lookup (mg_traders m) j) (Some d) trace None reason err (detail i) m) xs m)"
proof (induction xs arbitrary: m)
  case (Cons x xs)
  show ?case by (cases x) (simp only: fold_Cons o_apply prod.case, rule confined_trans [OF confined_record(1) Cons.IH])
qed simp

lemma confined_record_decisions [confined_intros]: "confined tid m (record_decisions now ty reason err i trace ds m)"
  unfolding record_decisions_def by (simp add: confined_fold_record)

lemma execute_plan_cases:
  assumes "execute_plan L now tid trace (d # ds) m w = ((acts, m'), w')"
  obtains (rejected) e d1 m1 acts' where "approve_decision_with_audit (le_getenv L) now tid d trace m = ((Inl e, d1), m1)"
      "execute_plan L now tid trace ds m1 w = ((acts', m'), w')"
  | (executed) ap d1 m1 r m2 w2 acts' where "approve_decision_with_audit (le_getenv L) now tid d trace m = ((Inr ap, d1), m1)"
      "execute_decision_with_approval (le_provider L tid) (mv_snapshot (le_market L tid)) (le_sha L) (le_iter L) now tid d1 (Some ap) trace m1 w = ((r, m2), w2)"
      "execute_plan L now tid trace ds m2 w2 = ((acts', m'), w')"
  using assms by (auto split: prod.splits sum.splits)

lemma confined_execute_plan [confined_intros]:
  "execute_plan L now tid trace ds m w = ((acts, m'), w') \<Longrightarrow> confined tid m m'"
proof (induction ds arbitrary: m w acts)
  case (Cons d ds)
  from Cons.prems show ?case
  proof (cases rule: execute_plan_cases)
    case (rejected e d1 m1 acts')
    then show ?thesis using Cons.IH approve_audit_frame confined_trans by metis
  next
    case (executed ap d1 m1 r m2 w2 acts')
    then show ?thesis using Cons.IH approve_audit_frame confined_execute confined_trans by metis
  qed
qed simp

lemma confined_finish_cycle:
  assumes "book_inv (ls_manager S)"
  shows "confined tid (ls_manager S) (ls_manager (finish_cycle L now tid ectx out err all_ok acts S))"
proof (cases "lookup (mg_traders (ls_manager S)) tid")
  case (Some t)
  define p where "p = cycle_performance now acts (case tr_performance t of None \<Rightarrow> zero_performance | Some p \<Rightarrow> p)"
  define t1 where "t1 = t\<lparr>tr_performance := Some p\<rparr>"
  define m1 where "m1 = record_analytics (analytics_of t1 p) (set_trader t1 (ls_manager S))"
  define t2 where "t2 = record_decision now now t1"
  define m2 where "m2 = persist_runtime_state now t2 (set_trader t2 m1)"
  have id: "tr_id t = tid" using assms Some by (rule registered(2))
  have "confined tid (ls_manager S) (set_trader t1 (ls_manager S))" by (rule confined_set_trader [OF Some]) (simp_all add: t1_def)
  then have c1: "confined tid (ls_manager S) m1" unfolding m1_def by (rule confined_trans) (rule confined_record)
  have "lookup (mg_traders m1) tid = Some t1" by (simp add: m1_def t1_def set_trader_def id record_defs)
  then have "confined tid m1 (set_trader t2 m1)" by (rule confined_set_trader) (simp_all add: t2_def record_decision_def Let_def)
  then have c2: "confined tid m1 m2" unfolding m2_def by (rule confined_trans) (rule confined_record)
  obtain r m3 w3 where sy: "sync_trader_positions (le_provider L tid) (le_iter L) now tid m2 (ls_world S) = ((r, m3), w3)" by (metis surj_pair)
  have "ls_manager (finish_cycle L now tid ectx out err all_ok acts S) = m3"
    using sy by (simp add: finish_cycle_def Some Let_def p_def [symmetric] t1_def [symmetric] m1_def [symmetric] t2_def [symmetric] m2_def [symmetric])
  then show ?thesis using confined_trans [OF confined_trans [OF c1 c2] confined_sync [OF sy]] by simp
qed (simp add: finish_cycle_def)

text \<open>The outcomes of a cycle: the executor gave nothing to execute, or the plan was executed.\<close>

lemma decide_cases:
  obtains (failed) ectx w1 out err S1 where
      "build_executor_context (le_provider L (tr_id t)) (le_market L (tr_id t)) (le_rank L) now t (ls_manager S) (ls_world S) = (ectx, w1)"
      "confined (tr_id t) (ls_manager S) (ls_manager S1)" "ls_world S1 = w1"
      "decide_and_execute L now t ex S = finish_cycle L now (tr_id t) ectx out err False [] S1"
  | (planned) ectx w1 x ex1 trace m1 acts m2 w2 all_ok S1 where
      "build_executor_context (le_provider L (tr_id t)) (le_market L (tr_id t)) (le_rank L) now t (ls_manager S) (ls_world S) = (ectx, w1)"
      "get_full_decision (le_services L) now (Some ectx) (update_performance (to_executor_view (tr_performance t)) ex) = ((Some x, None), ex1)"
      "confined (tr_id t) (ls_manager S) m1"
      "execute_plan L now (tr_id t) trace (cycle_plan t (length (ctx_positions ectx)) (fd_decisions x)) m1 w1 = ((acts, m2), w2)"
      "ls_manager S1 = m2" "ls_world S1 = w2"
      "decide_and_execute L now t ex S = finish_cycle L now (tr_id t) ectx (Some x) None all_ok acts S1"
      "m1 = record_decisions now DecisionGenerated ''decision_generated'' None (tr_id t) trace (fd_decisions x) (ls_manager S)"
proof -
  obtain ectx w1 where b: "build_executor_context (le_provider L (tr_id t)) (le_market L (tr_id t)) (le_rank L) now t (ls_manager S) (ls_world S) = (ectx, w1)"
    by fastforce
  obtain out err ex1 where g: "get_full_decision (le_services L) now (Some ectx) (update_performance (to_executor_view (tr_performance t)) ex) = ((out, err), ex1)"
    by (metis surj_pair)
  note eq = decide_and_execute_def [of L now t ex S, unfolded Let_def b g prod.case]
  show ?thesis
  proof (cases out)
    case None
    from failed [OF b _ _ eq [unfolded None option.case]] show ?thesis by simp
  next
    case (Some x)
    define trace where "trace = (new_audit_trace now (tr_id t) now)\<lparr>at_prompt_digest := out_prompt_digest (le_digest L) (Some x)\<rparr>"
    define m1 where "m1 = record_decisions now DecisionGenerated ''decision_generated'' None (tr_id t) trace (fd_decisions x) (ls_manager S)"
    have c: "confined (tr_id t) (ls_manager S) m1" unfolding m1_def by (rule confined_record_decisions)
    show ?thesis
    proof (cases err)
      case None
      obtain acts m2 w2 where e: "execute_plan L now (tr_id t) trace (cycle_plan t (length (ctx_positions ectx)) (fd_decisions x)) m1 w1 = ((acts, m2), w2)"
        by (metis surj_pair)
      show ?thesis by (rule planned [OF b g [unfolded Some None] c e]) (use eq e in \<open>simp_all add: Some None trace_def m1_def\<close>)
    next
      case (Some e)
      let ?S1 = "S\<lparr>ls_world := w1, ls_executors := put (tr_id t) ex1 (ls_executors S),
        ls_manager := record_decisions now DecisionValidationFailed ''decision_validation_failed'' err (tr_id t) trace (fd_decisions x) m1\<rparr>"
      show ?thesis
        by (rule failed [OF b, of ?S1 out err])
          (use eq confined_trans [OF c confined_record_decisions] in \<open>simp_all add: \<open>out = Some x\<close> Some trace_def m1_def\<close>)
    qed
  qed
qed

lemma confined_decide:
  assumes "book_inv (ls_manager S)"
  shows "confined (tr_id t) (ls_manager S) (ls_manager (decide_and_execute L now t ex S))"
proof (cases rule: decide_cases [where L = L and t = t and now = now and S = S and ex = ex])
  case (failed ectx w1 out err S1)
  have "book_inv (ls_manager S1)" using failed(2) assms by (simp add: confined_def)
  from confined_trans [OF failed(2) confined_finish_cycle [OF this]] show ?thesis by (simp add: failed(4))
next
  case (planned ectx w1 x ex1 trace m1 acts m2 w2 all_ok S1)
  have c: "confined (tr_id t) (ls_manager S) (ls_manager S1)"
    unfolding planned(5) by (rule confined_trans [OF planned(3) confined_execute_plan [OF planned(4)]])
  then have "book_inv (ls_manager S1)" using assms by (simp add: confined_def)
  from confined_trans [OF c confined_finish_cycle [OF this]] show ?thesis by (simp add: planned(7))
qed

lemma confined_cycle:
  assumes "book_inv (ls_manager S)"
  shows "confined tid (ls_manager S) (ls_manager (trader_cycle L now tid S))"
proof (cases "lookup (mg_traders (ls_manager S)) tid")
  case (Some t)
  have id: "tr_id t = tid" using assms Some by (rule registered(2))
  have "confined tid (ls_manager S) (set_trader (sharpe_pause now t) (ls_manager S))"
    by (rule confined_set_trader [OF Some]) (simp_all add: sharpe_pause_def)
  then show ?thesis using confined_decide [OF assms, of t] by (simp add: trader_cycle_def Some id split: option.split)
qed (simp add: trader_cycle_def)

lemma sync_all_book_inv:
  assumes "book_inv m" "sync_all_positions it P ri now (m, w) = (m', w')"
  shows "book_inv m' \<and> prefix (mg_events m) (mg_events m')"
proof -
  let ?f = "\<lambda>i (m, w). case sync_trader_positions (P i) ri now i m w of ((_, m'), w') \<Rightarrow> (m', w')"
  have "book_inv (fst (fold ?f ids (m, w))) \<and> prefix (mg_events m) (mg_events (fst (fold ?f ids (m, w))))" for ids
    using assms(1)
  proof (induction ids arbitrary: m w)
    case (Cons i ids)
    obtain r m1 w1 where s: "sync_trader_positions (P i) ri now i m w = ((r, m1), w1)" by (metis surj_pair)
    have "book_inv m1" "prefix (mg_events m) (mg_events m1)" using confined_sync [OF s] Cons.prems by (simp_all add: confined_def)
    with Cons.IH [of m1 w1] show ?case by (auto simp: s intro: prefix_order.trans)
  qed simp
  from this [of "it (map fst (mg_traders m))"] assms(2) show ?thesis by (simp add: sync_all_positions_def)
qed

text \<open>C17. A tick of the loop keeps the books of the manager consistent, only appends to the audit trail, and leaves the
  virtual positions of every trader that is not active as they were, whatever the model, the market and the exchange answer.\<close>

theorem tick_confined:
  assumes "book_inv (ls_manager S)"
  shows "book_inv (ls_manager (loop_tick L now S)) \<and> prefix (mg_events (ls_manager S)) (mg_events (ls_manager (loop_tick L now S))) \<and>
    (\<forall>j k. j \<notin> tr_id ` set (get_active_traders (ls_manager S)) \<longrightarrow> vpos (ls_manager (loop_tick L now S)) j k = vpos (ls_manager S) j k)"
proof -
  have "book_inv (ls_manager (fold (trader_cycle L now) ids S)) \<and> prefix (mg_events (ls_manager S)) (mg_events (ls_manager (fold (trader_cycle L now) ids S))) \<and>
    (\<forall>j k. j \<notin> set ids \<longrightarrow> vpos (ls_manager (fold (trader_cycle L now) ids S)) j k = vpos (ls_manager S) j k)" for ids
    using assms
  proof (induction ids arbitrary: S)
    case (Cons i ids)
    note c = confined_cycle [OF Cons.prems, of i L now, unfolded confined_def]
    have "book_inv (ls_manager (trader_cycle L now i S))" using c Cons.prems by blast
    from Cons.IH [OF this] c Cons.prems show ?case by (auto intro: prefix_order.trans)
  qed simp
  from this [of "map tr_id (get_active_traders (ls_manager S))"] show ?thesis by (simp add: loop_tick_def)
qed

subsection \<open>What may change the account\<close>

text \<open>What the executor returns without an error is the one decision the model answered with, mapped and validated.\<close>

lemma decided_valid:
  assumes "get_full_decision sv now (Some inp) e = ((Some x, None), e')"
  obtains prompt resp out d where "sv_render sv (ex_cfg e) (prompt_context e inp) = Inr prompt"
    "sv_chat sv (ec_decision_timeout (ex_cfg e)) prompt (ex_model_alias e) = Inr (resp, out)" "d = map_decision_contract out (ctx_positions inp)"
    "fd_decisions x = [d]" "validate_decisions (Some (ex_cfg e)) (Some inp) now [d] = None"
  using assms by (auto simp: get_full_decision_def Let_def split: sum.splits option.splits if_splits)

lemma plan_single: "cycle_plan t n [d] = [] \<or> cycle_plan t n [d] = [d]"
  by (simp add: cycle_plan_def cap_new_open_decisions_def sort_decisions_close_first_def slice_stable_def)

text \<open>The trade of a cycle: the decision \<open>d\<close> is approved and executed in the world \<open>w1\<close> and leaves the world \<open>w2\<close>.\<close>

definition executed_trade :: "'w loop_env \<Rightarrow> time \<Rightarrow> string \<Rightarrow> decision \<Rightarrow> manager \<Rightarrow> 'w \<Rightarrow> 'w \<Rightarrow> bool" where
  "executed_trade L now tid d m w1 w2 \<longleftrightarrow> (\<exists>trace ap d1 m2 r m3.
     approve_decision_with_audit (le_getenv L) now tid d trace (record_decisions now DecisionGenerated ''decision_generated'' None tid trace [d] m) = ((Inr ap, d1), m2) \<and>
     execute_decision_with_approval (le_provider L tid) (mv_snapshot (le_market L tid)) (le_sha L) (le_iter L) now tid d1 (Some ap) trace m2 w1 = ((r, m3), w2))"

context trading_account
begin

lemma context_untouched: "build_executor_context P mv rank now t m w = (ectx, w1) \<Longrightarrow> untouched w w1"
  by (auto simp: build_executor_context_def Let_def split: prod.splits intro: untouched_trans [OF reads_untouched(2) reads_untouched(1)])

lemma finish_untouched:
  assumes "le_provider L tid = P"
  shows "untouched (ls_world S) (ls_world (finish_cycle L now tid ectx out err all_ok acts S))"
  by (auto simp: finish_cycle_def Let_def assms split: option.splits prod.splits intro: sync_untouched)

lemma plan_ok:
  assumes "le_provider L tid = P"
  shows "execute_plan L now tid trace ds m w = ((acts, m'), w') \<Longrightarrow> book_inv m \<Longrightarrow> ok w \<Longrightarrow> ok w'"
proof (induction ds arbitrary: m w acts)
  case (Cons d ds)
  from Cons.prems(1) show ?case
  proof (cases rule: execute_plan_cases)
    case (rejected e d1 m1 acts')
    have "book_inv m1" using approve_audit_frame [OF rejected(1)] Cons.prems(2) by (simp add: confined_def)
    from Cons.IH [OF rejected(2) this Cons.prems(3)] show ?thesis .
  next
    case (executed ap d1 m1 r m2 w2 acts')
    have m1: "book_inv m1" using approve_audit_frame [OF executed(1)] Cons.prems(2) by (simp add: confined_def)
    have m2: "book_inv m2" using confined_execute [OF executed(2)] m1 by (simp add: confined_def)
    have "ok w2" using execute_settled [OF executed(2) [unfolded assms] m1 Cons.prems(3)] Cons.prems(3) by (simp add: settled_def)
    from Cons.IH [OF executed(3) m2 this] show ?thesis .
  qed
qed simp

text \<open>A plan of at most one decision that changes the account executed that decision, which opens or closes.\<close>

lemma single_plan_trades:
  assumes L: "le_provider L tid = P" and plan: "cycle_plan t n [d] = ds"
    and m: "m = record_decisions now DecisionGenerated ''decision_generated'' None tid trace [d] m0"
    and e: "execute_plan L now tid trace ds m w = ((acts, m'), w')" and inv: "book_inv m" "ok w" and ne: "book w' \<noteq> book w"
  shows "ds = [d] \<and> (is_open_action (dec_action d) \<or> is_close_action (dec_action d)) \<and> executed_trade L now tid d m0 w w'"
proof -
  have ds: "ds = [d]" using plan_single [of t n d] plan e ne by auto
  from e [unfolded ds] show ?thesis
  proof (cases rule: execute_plan_cases)
    case (rejected er d1 m1 acts')
    then show ?thesis using ne by simp
  next
    case (executed ap d1 m1 r m2 w2 acts')
    note f = approve_audit_frame [OF executed(1)]
    have m1: "book_inv m1" using f inv(1) by (simp add: confined_def)
    have w2: "w2 = w'" using executed(3) by simp
    have "is_open_action (dec_action d) \<or> is_close_action (dec_action d)"
      using execute_settled [OF executed(2) [unfolded L] m1 inv(2)] f ne w2 by (auto simp: authorized_def)
    moreover have "executed_trade L now tid d m0 w w'"
      unfolding executed_trade_def using executed(1,2) m w2 by blast
    ultimately show ?thesis using ds by simp
  qed
qed

lemma cycle_trades:
  assumes "le_provider L tid = P" "book_inv (ls_manager S)" "ok (ls_world S)"
    and "book (ls_world (trader_cycle L now tid S)) \<noteq> book (ls_world S)"
  obtains t ex ectx w1 prompt resp out d w2 where "lookup (mg_traders (ls_manager S)) tid = Some t" "lookup (ls_executors S) tid = Some ex"
    "should_make_decision now t" "\<not> sharpe_breach t"
    "build_executor_context P (le_market L tid) (le_rank L) now t (ls_manager S) (ls_world S) = (ectx, w1)"
    "sv_render (le_services L) (ex_cfg ex) (prompt_context (update_performance (to_executor_view (tr_performance t)) ex) ectx) = Inr prompt"
    "sv_chat (le_services L) (ec_decision_timeout (ex_cfg ex)) prompt (ex_model_alias ex) = Inr (resp, out)"
    "d = map_decision_contract out (ctx_positions ectx)" "validate_decisions (Some (ex_cfg ex)) (Some ectx) now [d] = None"
    "is_open_action (dec_action d) \<or> is_close_action (dec_action d)" "cycle_plan t (length (ctx_positions ectx)) [d] = [d]"
    "executed_trade L now tid d (ls_manager S) w1 w2" "book w1 = book (ls_world S)" "book w2 = book (ls_world (trader_cycle L now tid S))"
proof -
  obtain t ex where t: "lookup (mg_traders (ls_manager S)) tid = Some t" "lookup (ls_executors S) tid = Some ex"
      "should_make_decision now t" "\<not> sharpe_breach t"
    and c: "ls_world (trader_cycle L now tid S) = ls_world (decide_and_execute L now t ex S)"
    using assms(4) by (auto simp: trader_cycle_def split: option.splits if_splits)
  note ne = assms(4) [unfolded c]
  have id: "tr_id t = tid" using assms(2) t(1) by (rule registered(2))
  show ?thesis
  proof (cases rule: decide_cases [where L = L and t = t and now = now and S = S and ex = ex])
    case (failed ectx w1 out err S1)
    note u = untouched_trans [OF context_untouched [OF failed(1) [unfolded id assms(1)]], of "ls_world (decide_and_execute L now t ex S)"]
    have "untouched (ls_world S) (ls_world (decide_and_execute L now t ex S))"
      using u finish_untouched [OF assms(1), of S1] by (simp add: failed(3,4) id)
    with ne assms(3) show ?thesis by (simp add: untouched_def)
  next
    case (planned ectx w1 x ex1 trace m1 acts m2 w2 all_ok S1)
    have u: "ok w1" "book w1 = book (ls_world S)"
      using context_untouched [OF planned(1) [unfolded id assms(1)]] assms(3) by (simp_all add: untouched_def)
    have m1: "book_inv m1" using planned(3) assms(2) by (simp add: confined_def)
    have "ok w2" by (rule plan_ok [OF assms(1) planned(4) [unfolded id] m1 u(1)])
    then have w2: "book (ls_world (decide_and_execute L now t ex S)) = book w2"
      using finish_untouched [OF assms(1), of S1] by (simp add: planned(6,7) id untouched_def)
    have up: "ex_cfg (update_performance v ex) = ex_cfg ex" "ex_model_alias (update_performance v ex) = ex_model_alias ex" for v
      by (simp_all add: update_performance_def)
    obtain prompt resp out d
      where d: "sv_render (le_services L) (ex_cfg ex) (prompt_context (update_performance (to_executor_view (tr_performance t)) ex) ectx) = Inr prompt"
        "sv_chat (le_services L) (ec_decision_timeout (ex_cfg ex)) prompt (ex_model_alias ex) = Inr (resp, out)"
        "d = map_decision_contract out (ctx_positions ectx)" "fd_decisions x = [d]" "validate_decisions (Some (ex_cfg ex)) (Some ectx) now [d] = None"
      by (rule decided_valid [OF planned(2), unfolded up]) blast
    have "book w2 \<noteq> book w1" using ne w2 u(2) by simp
    note s = single_plan_trades [OF assms(1) refl planned(8) [unfolded id d(4)] planned(4) [unfolded id d(4)] m1 u(1) this]
    show ?thesis
      by (rule that [OF t planned(1) [unfolded id assms(1)] d(1,2,3,5), of w2]) (use s u(2) w2 c in simp_all)
  qed
qed

end

text \<open>C16. From the model to the account. If a cycle of a trader changes the cash or a position of the paper account, then the trader was running,
  due and not held back by its Sharpe ratio; the context was built from that account, and the prompt rendered from it was answered by the model; the
  decision that answer maps to passed every validation check of the executor against the context, opens or closes, and was within the plan; and
  that same decision was approved, and its execution under the approval is what took the account from how it was to how it is.\<close>

theorem paper_cycle_guarded:
  assumes "le_provider L tid = sim_provider sit" "book_inv (ls_manager S)" "sim_inv (ls_world S)"
    and "S' = trader_cycle L now tid S"
    and "cash (ls_world S') \<noteq> cash (ls_world S) \<or> lookup (positions (ls_world S')) \<noteq> lookup (positions (ls_world S))"
  shows "\<exists>t ex ectx w1 prompt resp out d w2. lookup (mg_traders (ls_manager S)) tid = Some t \<and> lookup (ls_executors S) tid = Some ex \<and>
    should_make_decision now t \<and> \<not> sharpe_breach t \<and>
    build_executor_context (sim_provider sit) (le_market L tid) (le_rank L) now t (ls_manager S) (ls_world S) = (ectx, w1) \<and>
    sv_render (le_services L) (ex_cfg ex) (prompt_context (update_performance (to_executor_view (tr_performance t)) ex) ectx) = Inr prompt \<and>
    sv_chat (le_services L) (ec_decision_timeout (ex_cfg ex)) prompt (ex_model_alias ex) = Inr (resp, out) \<and>
    d = map_decision_contract out (ctx_positions ectx) \<and> validate_decisions (Some (ex_cfg ex)) (Some ectx) now [d] = None \<and>
    (is_open_action (dec_action d) \<or> is_close_action (dec_action d)) \<and> cycle_plan t (length (ctx_positions ectx)) [d] = [d] \<and>
    executed_trade L now tid d (ls_manager S) w1 w2 \<and>
    cash w1 = cash (ls_world S) \<and> lookup (positions w1) = lookup (positions (ls_world S)) \<and>
    cash w2 = cash (ls_world S') \<and> lookup (positions w2) = lookup (positions (ls_world S'))"
proof -
  have ne: "(cash (ls_world (trader_cycle L now tid S)), lookup (positions (ls_world (trader_cycle L now tid S)))) \<noteq>
      (cash (ls_world S), lookup (positions (ls_world S)))" using assms(4,5) by auto
  show ?thesis by (rule sim.cycle_trades [OF assms(1-3) ne]) (use assms(4) in blast)
qed

subsection \<open>Examples\<close>

definition demo_loop :: "sim loop_env" where
  "demo_loop = \<lparr>le_getenv = no_env, le_provider = (\<lambda>i. sim_provider list_iter),
     le_market = (\<lambda>i. \<lparr>mv_assets = Inr [], mv_snapshot = demo_snap\<rparr>), le_services = demo_services, le_digest = (\<lambda>s. s), le_sha = demo_sha,
     le_iter = plain_iter, le_rank = (\<lambda>x. 0)\<rparr>"

definition demo_loop_state :: "sim loop_state" where
  "demo_loop_state = \<lparr>ls_manager = paper_manager, ls_executors = [(''beta'', demo_executor)], ls_world = sim_new, ls_cycles = []\<rparr>"

definition demo_now :: time where "demo_now = 100 * second"

lemma demo_cycle_trades: "cash (ls_world (trader_cycle demo_loop demo_now ''beta'' demo_loop_state)) \<noteq> cash (ls_world demo_loop_state)"
  by code_simp

theorem tick_confined_witness:
  "book_inv (ls_manager (loop_tick demo_loop demo_now demo_loop_state)) \<and>
   vpos (ls_manager (loop_tick demo_loop demo_now demo_loop_state)) ''gamma'' ''BTC'' = None"
proof -
  have "book_inv (ls_manager demo_loop_state)" by (simp add: demo_loop_state_def paper_manager_inv)
  moreover have "list_all (\<lambda>t. tr_id t \<noteq> ''gamma'') (get_active_traders (ls_manager demo_loop_state))"
    and v: "vpos (ls_manager demo_loop_state) ''gamma'' ''BTC'' = None" by code_simp+
  then have "''gamma'' \<notin> tr_id ` set (get_active_traders (ls_manager demo_loop_state))" by (auto simp: list_all_iff)
  ultimately show ?thesis using tick_confined [of demo_loop_state demo_loop demo_now] v by simp
qed

theorem paper_cycle_guarded_witness:
  "\<exists>t d w1 w2. lookup (mg_traders paper_manager) ''beta'' = Some t \<and> should_make_decision demo_now t \<and> \<not> sharpe_breach t \<and>
     (is_open_action (dec_action d) \<or> is_close_action (dec_action d)) \<and> executed_trade demo_loop demo_now ''beta'' d paper_manager w1 w2 \<and>
     cash w1 = cash sim_new \<and> cash w2 = cash (ls_world (trader_cycle demo_loop demo_now ''beta'' demo_loop_state))"
proof -
  have "le_provider demo_loop ''beta'' = sim_provider list_iter" "book_inv (ls_manager demo_loop_state)" "sim_inv (ls_world demo_loop_state)"
    by (simp_all add: demo_loop_def demo_loop_state_def paper_manager_inv sim_new_inv)
  from paper_cycle_guarded [OF this refl, of demo_now] demo_cycle_trades show ?thesis
    by (auto simp: demo_loop_state_def)
qed

end
